(* ===== verification/Prelude.thy ===== *)
theory Prelude
  imports Complex_Main "HOL-Library.Word" "HOL-Library.AList"
begin

text \<open>
  Shared vocabulary of the development: bytes and byte strings, Rust results as sums,
  slices, the search and big-endian helpers of the Rust standard library that the sources
  use, clocks, IEEE doubles up to rounding, and the generic lemmas about them.
  The collection \<open>wire_simps\<close> gathers the equations that unfold encoders on
  concrete lengths; \<open>result_simps\<close> those of the error monad.
\<close>

unbundle bit_operations_syntax

named_theorems wire_simps
named_theorems result_simps

subsection \<open>Bytes, arrays and results\<close>

type_synonym u8 = "8 word"
type_synonym u16 = "16 word"
type_synonym u32 = "32 word"
type_synonym u64 = "64 word"
type_synonym byte = u8
type_synonym bytes = "byte list"

text \<open>A Rust \<open>Result<T, E>\<close> is \<open>('e, 'a) result\<close>: \<open>Inl\<close> the error, \<open>Inr\<close> the value.\<close>

type_synonym ('e, 'a) result = "'e + 'a"

abbreviation Err :: "'e \<Rightarrow> ('e, 'a) result" where "Err \<equiv> Inl"
abbreviation Ok :: "'a \<Rightarrow> ('e, 'a) result" where "Ok \<equiv> Inr"

definition and_then :: "('e, 'a) result \<Rightarrow> ('a \<Rightarrow> ('e, 'b) result) \<Rightarrow> ('e, 'b) result" where
  "and_then r f = (case r of Inl e \<Rightarrow> Inl e | Inr x \<Rightarrow> f x)"

definition map_err :: "('e \<Rightarrow> 'f) \<Rightarrow> ('e, 'a) result \<Rightarrow> ('f, 'a) result" where
  "map_err g r = (case r of Inl e \<Rightarrow> Inl (g e) | Inr x \<Rightarrow> Inr x)"

definition ok_or :: "'e \<Rightarrow> 'a option \<Rightarrow> ('e, 'a) result" where
  "ok_or e r = (case r of None \<Rightarrow> Inl e | Some x \<Rightarrow> Inr x)"

text \<open>\<open>subslice a b xs\<close> is the Rust slice \<open>&xs[a..b]\<close> for \<open>a \<le> b \<le> xs.len()\<close>.\<close>

definition subslice :: "nat \<Rightarrow> nat \<Rightarrow> 'a list \<Rightarrow> 'a list" where
  "subslice a b xs = take (b - a) (drop a xs)"

text \<open>\<open>iter().position(p)\<close>: the index of the first element that satisfies the predicate.\<close>

fun position :: "('a \<Rightarrow> bool) \<Rightarrow> 'a list \<Rightarrow> nat option" where
  "position P [] = None"
| "position P (x # xs) = (if P x then Some 0 else map_option Suc (position P xs))"

text \<open>\<open>iter_mut().find(p)\<close> followed by an update of what it found.\<close>

fun update_first :: "('a \<Rightarrow> bool) \<Rightarrow> ('a \<Rightarrow> 'a) \<Rightarrow> 'a list \<Rightarrow> 'a list" where
  "update_first P f [] = []"
| "update_first P f (x # xs) = (if P x then f x # xs else x # update_first P f xs)"

text \<open>\<open>usize::saturating_add\<close>.\<close>

definition usize_saturating_add :: "nat \<Rightarrow> nat \<Rightarrow> nat" where
  "usize_saturating_add a b = min (a + b) (2 ^ 64 - 1)"

text \<open>Unsigned big-endian codecs (\<open>to_be_bytes\<close>, \<open>from_be_bytes\<close>).\<close>

definition u16_to_be :: "u16 \<Rightarrow> bytes" where
  "u16_to_be w = [ucast (drop_bit 8 w), ucast w]"

definition u16_from_be :: "byte \<Rightarrow> byte \<Rightarrow> u16" where
  "u16_from_be a b = push_bit 8 (ucast a) OR ucast b"

definition u32_to_be :: "u32 \<Rightarrow> bytes" where
  "u32_to_be w = [ucast (drop_bit 24 w), ucast (drop_bit 16 w), ucast (drop_bit 8 w), ucast w]"

subsection \<open>Clocks and durations\<close>

text \<open>
  \<open>std::time::Instant\<close> and \<open>Duration\<close> are counts of nanoseconds. An instant is read from
  the monotonic clock by the caller of a step and passed as an argument. \<open>Duration\<close> holds
  at most \<open>u64::MAX\<close> seconds and \<open>999_999_999\<close> nanoseconds; its saturating operations
  clamp there.
\<close>

type_synonym instant = nat
type_synonym duration = nat

definition DURATION_MAX :: duration where
  "DURATION_MAX = 2 ^ 64 * 10 ^ 9 - 1"

definition secs :: "nat \<Rightarrow> duration" where
  "secs n = n * 10 ^ 9"

definition duration_saturating_add :: "duration \<Rightarrow> duration \<Rightarrow> duration" where
  "duration_saturating_add a b = min (a + b) DURATION_MAX"

definition duration_saturating_mul :: "duration \<Rightarrow> nat \<Rightarrow> duration" where
  "duration_saturating_mul a k = min (a * k) DURATION_MAX"

text \<open>\<open>now.saturating_duration_since(t)\<close> is zero when the argument is later than \<open>now\<close>.\<close>

definition duration_since :: "instant \<Rightarrow> instant \<Rightarrow> duration" where
  "duration_since now t = now - t"

text \<open>
  \<open>Duration::try_from_secs_f64\<close> on a finite argument, to the nearest nanosecond, and
  \<open>Duration::from_secs_f64\<close>, which the sources apply to representable values only.
\<close>

definition try_from_secs_f64 :: "real \<Rightarrow> duration option" where
  "try_from_secs_f64 x =
    (if x < 0 then None
     else let n = nat (round (x * 10 ^ 9)) in if n \<le> DURATION_MAX then Some n else None)"

definition from_secs_f64 :: "real \<Rightarrow> duration" where
  "from_secs_f64 x = nat (round (x * 10 ^ 9))"

subsection \<open>Doubles\<close>

text \<open>
  An \<open>f64\<close> is a real number, one of the infinities or NaN; comparisons with NaN are
  false, as in IEEE 754. Rounding of finite arithmetic is not modelled. Wall-clock
  timestamps that the code only produces itself and never tests for finiteness are plain
  reals.
\<close>

datatype f64 = Fin real | PosInf | NegInf | NaN

type_synonym unix_time = real

fun is_finite :: "f64 \<Rightarrow> bool" where
  "is_finite (Fin _) = True"
| "is_finite _ = False"

fun is_nan :: "f64 \<Rightarrow> bool" where
  "is_nan NaN = True"
| "is_nan _ = False"

fun f64_lt :: "f64 \<Rightarrow> f64 \<Rightarrow> bool" where
  "f64_lt NaN _ = False"
| "f64_lt _ NaN = False"
| "f64_lt (Fin a) (Fin b) = (a < b)"
| "f64_lt NegInf b = (b \<noteq> NegInf)"
| "f64_lt a PosInf = (a \<noteq> PosInf)"
| "f64_lt _ _ = False"

fun f64_le :: "f64 \<Rightarrow> f64 \<Rightarrow> bool" where
  "f64_le NaN _ = False"
| "f64_le _ NaN = False"
| "f64_le a b = (f64_lt a b \<or> a = b)"

fun f64_sub :: "f64 \<Rightarrow> f64 \<Rightarrow> f64" where
  "f64_sub NaN _ = NaN"
| "f64_sub _ NaN = NaN"
| "f64_sub (Fin a) (Fin b) = Fin (a - b)"
| "f64_sub (Fin _) PosInf = NegInf"
| "f64_sub (Fin _) NegInf = PosInf"
| "f64_sub PosInf PosInf = NaN"
| "f64_sub PosInf _ = PosInf"
| "f64_sub NegInf NegInf = NaN"
| "f64_sub NegInf _ = NegInf"

subsection \<open>Lemmas\<close>

lemma and_then_simps [simp, result_simps]:
  "and_then (Inl e) f = Inl e" "and_then (Inr x) f = f x"
  by (simp_all add: and_then_def)

lemma map_err_simps [simp, result_simps]:
  "map_err g (Inl e) = Inl (g e)" "map_err g (Inr x) = Inr x"
  by (simp_all add: map_err_def)

lemma ok_or_simps [simp, result_simps]:
  "ok_or e None = Inl e" "ok_or e (Some x) = Inr x"
  by (simp_all add: ok_or_def)

lemma and_then_Ok_iff [result_simps]:
  "and_then r f = Inr y \<longleftrightarrow> (\<exists>x. r = Inr x \<and> f x = Inr y)"
  by (cases r) simp_all

lemma map_err_Ok_iff [result_simps]: "map_err g r = Inr y \<longleftrightarrow> r = Inr y"
  by (cases r) simp_all

lemma ok_or_Ok_iff [result_simps]: "ok_or e r = Inr y \<longleftrightarrow> r = Some y"
  by (cases r) simp_all

lemma length_subslice [simp]: "b \<le> length xs \<Longrightarrow> length (subslice a b xs) = b - a"
  by (simp add: subslice_def)

lemma subslice_append_left: "b \<le> length xs \<Longrightarrow> subslice a b (xs @ ys) = subslice a b xs"
  by (simp add: subslice_def)

lemma subslice_append_right:
  "length xs \<le> a \<Longrightarrow> subslice a b (xs @ ys) = subslice (a - length xs) (b - length xs) ys"
  by (simp add: subslice_def)

lemma subslice_whole [simp]: "length xs \<le> b \<Longrightarrow> subslice 0 b xs = xs"
  by (simp add: subslice_def)

lemma subslice_join:
  assumes "a \<le> b" and "b \<le> c"
  shows "subslice a b xs @ subslice b c xs = subslice a c xs"
proof -
  have "take (b - a) (drop a xs) @ take (c - b) (drop (b - a) (drop a xs)) = take (b - a + (c - b)) (drop a xs)"
    by (simp only: take_add)
  with assms show ?thesis by (simp add: subslice_def)
qed

lemma subslice_drop_join: "a \<le> b \<Longrightarrow> subslice a b xs @ drop b xs = drop a xs"
  using append_take_drop_id [of "b - a" "drop a xs"] by (simp add: subslice_def)

lemma position_None_iff: "position P xs = None \<longleftrightarrow> (\<forall>x\<in>set xs. \<not> P x)"
  by (induction xs) auto

lemma position_Some_imp:
  "position P xs = Some i \<Longrightarrow> i < length xs \<and> P (xs ! i) \<and> (\<forall>j<i. \<not> P (xs ! j))"
proof (induction xs arbitrary: i)
  case Nil
  then show ?case by simp
next
  case (Cons x xs)
  then show ?case
    by (cases i) (auto split: if_splits simp: less_Suc_eq_0_disj)
qed

lemma position_Some_split:
  assumes "position P xs = Some i"
  shows "xs = take i xs @ xs ! i # drop (Suc i) xs" and "\<forall>x\<in>set (take i xs). \<not> P x"
    and "P (xs ! i)"
proof -
  from assms have i: "i < length xs" and p: "P (xs ! i)" and np: "\<forall>j<i. \<not> P (xs ! j)"
    using position_Some_imp by blast+
  from i show "xs = take i xs @ xs ! i # drop (Suc i) xs"
    by (rule id_take_nth_drop)
  from np i show "\<forall>x\<in>set (take i xs). \<not> P x"
    by (auto simp: in_set_conv_nth)
  from p show "P (xs ! i)" .
qed

lemma position_append_hit:
  assumes "\<forall>x\<in>set xs. \<not> P x" and "P y"
  shows "position P (xs @ y # ys) = Some (length xs)"
  using assms by (induction xs) auto

lemma position_Some_less: "position P xs = Some i \<Longrightarrow> i < length xs"
  using position_Some_imp by blast

lemma u16_from_to_be [simp]: "u16_from_be (ucast (drop_bit 8 w)) (ucast w) = w"
  unfolding u16_from_be_def
  by (rule bit_eqI) (auto simp: bit_simps)

lemma u16_to_from_be [simp]: "u16_to_be (u16_from_be a b) = [a, b]"
proof -
  have "ucast (drop_bit 8 (push_bit 8 (ucast a) OR ucast b :: u16)) = a"
    by (rule bit_eqI) (auto simp: bit_simps dest: bit_imp_le_length)
  moreover have "ucast (push_bit 8 (ucast a) OR ucast b :: u16) = b"
    by (rule bit_eqI) (auto simp: bit_simps dest: bit_imp_le_length)
  ultimately show ?thesis
    by (simp add: u16_to_be_def u16_from_be_def)
qed

lemma length_u16_to_be [simp]: "length (u16_to_be w) = 2"
  by (simp add: u16_to_be_def)

lemma f64_le_Fin_finite [simp]: "f64_le (Fin a) (Fin b) = (a \<le> b)"
  by auto

lemma is_finite_iff: "is_finite x \<longleftrightarrow> (\<exists>r. x = Fin r)"
  by (cases x) simp_all

lemma not_lt_NaN [simp]: "\<not> f64_lt x NaN" "\<not> f64_le x NaN"
  by (cases x, simp_all)+

lemma unat_u8_less [simp]: "unat (b :: u8) < 256"
  using unsigned_less [where 'a = nat, of b] by simp

lemma unat_u8_le [simp]: "unat (b :: u8) \<le> 255"
  using unat_u8_less [of b] by linarith

lemma unat_u16_less [simp]: "unat (w :: u16) < 65536"
  using unsigned_less [where 'a = nat, of w] by simp

lemma word_bit_bound:
  assumes "unat (w :: 'a::len word) < 2 ^ n" and "bit w k"
  shows "k < n"
proof -
  have "bit (unat w) k"
    using assms(2) by (simp add: bit_unsigned_iff bit_imp_possible_bit)
  then have "bit (take_bit n (unat w)) k"
    using assms(1) by (simp add: take_bit_nat_eq_self)
  then show ?thesis by (simp add: bit_take_bit_iff)
qed

lemma word_take_bit_self: 
  assumes "unat (w :: 'a::len word) < 2 ^ n"
  shows "take_bit n w = w"
  using word_bit_bound [OF assms] by (auto intro!: bit_eqI simp: bit_take_bit_iff)

lemma u8_bit_high: "8 \<le> n \<Longrightarrow> \<not> bit (b :: u8) n"
  using bit_imp_possible_bit [of b n] by auto

lemma drop_ConsD: "drop n xs = c # r \<Longrightarrow> n < length xs \<and> xs ! n = c \<and> drop (Suc n) xs = r"
proof (induction xs arbitrary: n)
  case Nil
  then show ?case by simp
next
  case (Cons x xs)
  then show ?case by (cases n) auto
qed

lemma upt_split: "i \<le> j \<Longrightarrow> j \<le> k \<Longrightarrow> [i..<k] = [i..<j] @ [j..<k]"
  using upt_add_eq_append [of i j "k - j"] by simp

lemma position_map: "position P (map f xs) = position (\<lambda>x. P (f x)) xs"
  by (induction xs) auto

lemma position_cong: "(\<And>x. x \<in> set xs \<Longrightarrow> P x = Q x) \<Longrightarrow> position P xs = position Q xs"
  by (induction xs) auto

lemma u16_diff: "unat ((a :: u16) - b) = (if b \<le> a then unat a - unat b else 65536 + unat a - unat b)"
  by (auto simp: unat_sub_if_size word_size word_le_nat_alt)

end
