(* ===== verification/Tables.thy ===== *)
theory Tables
  imports Prelude
begin

text \<open>
  Rust's \<open>HashMap\<close> as an association list with distinct keys, and the contracts the
  routing tables of rns-transport share. The list order stands for the hash map's
  unspecified iteration order: the theorems hold for every list, hence for every order.
  \<open>dict\<close> is the interface of a finite map, interpreted on \<open>hm_get\<close>, \<open>hm_insert\<close>,
  \<open>hm_remove\<close> and \<open>hm_retain\<close>. \<open>cull_table\<close> is the contract of a table that drops its
  dead entries in one pass and reports how many went, \<open>batch_cull_table\<close> that of a table
  that drops at most a given number of them; each table interprets the ones it offers.
\<close>

subsection \<open>Hash maps\<close>

type_synonym ('k, 'v) hmap = "('k \<times> 'v) list"

definition hm_empty :: "('k, 'v) hmap" where
  "hm_empty = []"

definition hm_get :: "('k, 'v) hmap \<Rightarrow> 'k \<Rightarrow> 'v option" where
  "hm_get m k = map_of m k"

definition hm_insert :: "'k \<Rightarrow> 'v \<Rightarrow> ('k, 'v) hmap \<Rightarrow> ('k, 'v) hmap" where
  "hm_insert k v m = AList.update k v m"

definition hm_remove :: "'k \<Rightarrow> ('k, 'v) hmap \<Rightarrow> ('k, 'v) hmap" where
  "hm_remove k m = AList.delete k m"

definition hm_retain :: "('k \<Rightarrow> 'v \<Rightarrow> bool) \<Rightarrow> ('k, 'v) hmap \<Rightarrow> ('k, 'v) hmap" where
  "hm_retain P m = filter (\<lambda>(k, v). P k v) m"

definition hm_update :: "'k \<Rightarrow> ('v \<Rightarrow> 'v) \<Rightarrow> ('k, 'v) hmap \<Rightarrow> ('k, 'v) hmap" where
  "hm_update k f m = map (\<lambda>(k', v). (k', if k' = k then f v else v)) m"

definition hm_len :: "('k, 'v) hmap \<Rightarrow> nat" where
  "hm_len m = length m"

definition hm_keys :: "('k, 'v) hmap \<Rightarrow> 'k list" where
  "hm_keys m = map fst m"

definition hm_contains :: "('k, 'v) hmap \<Rightarrow> 'k \<Rightarrow> bool" where
  "hm_contains m k = (hm_get m k \<noteq> None)"

definition hm_wf :: "('k, 'v) hmap \<Rightarrow> bool" where
  "hm_wf m = distinct (map fst m)"

text \<open>Removing a list of keys one by one, as the batch culls do.\<close>

definition hm_remove_all :: "'k list \<Rightarrow> ('k, 'v) hmap \<Rightarrow> ('k, 'v) hmap" where
  "hm_remove_all ks m = fold hm_remove ks m"

subsection \<open>The interface of a finite map\<close>

locale dict =
  fixes empty :: "'m"
    and get :: "'m \<Rightarrow> 'k \<Rightarrow> 'v option"
    and ins :: "'k \<Rightarrow> 'v \<Rightarrow> 'm \<Rightarrow> 'm"
    and rem :: "'k \<Rightarrow> 'm \<Rightarrow> 'm"
    and ret :: "('k \<Rightarrow> 'v \<Rightarrow> bool) \<Rightarrow> 'm \<Rightarrow> 'm"
    and len :: "'m \<Rightarrow> nat"
    and invar :: "'m \<Rightarrow> bool"
  assumes get_empty: "get empty k = None"
    and get_ins: "invar m \<Longrightarrow> get (ins k v m) k' = (if k' = k then Some v else get m k')"
    and get_rem: "invar m \<Longrightarrow> get (rem k m) k' = (if k' = k then None else get m k')"
    and get_ret: "invar m \<Longrightarrow>
      get (ret P m) k = (case get m k of None \<Rightarrow> None | Some v \<Rightarrow> if P k v then Some v else None)"
    and len_dom: "invar m \<Longrightarrow> len m = card (dom (get m))"
    and finite_dom: "invar m \<Longrightarrow> finite (dom (get m))"
    and invar_empty: "invar empty"
    and invar_ins: "invar m \<Longrightarrow> invar (ins k v m)"
    and invar_rem: "invar m \<Longrightarrow> invar (rem k m)"
    and invar_ret: "invar m \<Longrightarrow> invar (ret P m)"
begin

lemma len_ins: "invar m \<Longrightarrow> len (ins k v m) = (if get m k = None then Suc (len m) else len m)"
proof -
  assume m: "invar m"
  have "dom (get (ins k v m)) = insert k (dom (get m))"
    using m by (auto simp: get_ins split: if_splits)
  then show ?thesis
    using m by (auto simp: len_dom invar_ins finite_dom card_insert_if insert_absorb domIff)
qed

lemma len_ret_le: "invar m \<Longrightarrow> len (ret P m) \<le> len m"
proof -
  assume m: "invar m"
  have "dom (get (ret P m)) \<subseteq> dom (get m)"
    using m by (auto simp: get_ret split: option.splits if_splits)
  then show ?thesis
    using m by (simp add: len_dom invar_ret finite_dom card_mono)
qed

lemma get_ret_Some:
  "invar m \<Longrightarrow> get (ret P m) k = Some v \<longleftrightarrow> get m k = Some v \<and> P k v"
  by (auto simp: get_ret split: option.splits if_splits)

lemma ret_all_len:
  assumes "invar m" and "len (ret P m) = len m" and "get m k = Some v"
  shows "P k v"
proof (rule ccontr)
  assume "\<not> P k v"
  then have "get (ret P m) k = None"
    using assms by (simp add: get_ret)
  then have "dom (get (ret P m)) \<subset> dom (get m)"
    using assms by (auto simp: get_ret_Some domI)
  then have "card (dom (get (ret P m))) < card (dom (get m))"
    using assms(1) by (intro psubset_card_mono finite_dom)
  with assms show False by (simp add: len_dom invar_ret)
qed

end

subsection \<open>Association lists implement the interface\<close>

lemma hm_get_retain:
  assumes "hm_wf m"
  shows "hm_get (hm_retain P m) k =
    (case hm_get m k of None \<Rightarrow> None | Some v \<Rightarrow> if P k v then Some v else None)"
  using assms
proof (induction m)
  case Nil
  then show ?case by (simp add: hm_get_def hm_retain_def)
next
  case (Cons kv m)
  obtain k0 v0 where kv: "kv = (k0, v0)" by (cases kv)
  have "k0 \<notin> set (map fst m)" and wf: "hm_wf m"
    using Cons.prems by (auto simp: hm_wf_def kv)
  then have "map_of m k0 = None" by (simp add: map_of_eq_None_iff)
  moreover have "map_of (filter (\<lambda>(k, v). P k v) m) k0 = None"
    using \<open>k0 \<notin> set (map fst m)\<close> by (auto simp: map_of_eq_None_iff)
  ultimately show ?case
    using Cons.IH [OF wf] by (auto simp: hm_get_def hm_retain_def kv split: option.splits)
qed

lemma hm_dom: "dom (hm_get m) = set (map fst m)"
  by (auto simp: hm_get_def dom_map_of_conv_image_fst [symmetric])

lemma hm_len_dom: "hm_wf m \<Longrightarrow> hm_len m = card (dom (hm_get m))"
  using distinct_card [of "map fst m"] by (simp only: hm_dom hm_wf_def hm_len_def length_map)

interpretation hm: dict hm_empty hm_get hm_insert hm_remove hm_retain hm_len hm_wf
proof (unfold_locales, goal_cases)
  case (4 m P k)
  then show ?case by (rule hm_get_retain)
next
  case (5 m)
  then show ?case by (rule hm_len_dom)
next
  case (6 m)
  show ?case by (simp add: hm_dom)
qed (simp_all add: hm_empty_def hm_insert_def hm_remove_def hm_retain_def hm_wf_def hm_get_def
  AList.update_conv AList.delete_conv AList.distinct_update AList.distinct_delete
  distinct_map_filter hm_dom [unfolded hm_get_def] finite_dom_map_of)

lemmas hm_laws [simp] = hm.get_empty hm.get_ins hm.get_rem hm.invar_empty hm.invar_ins
  hm.invar_rem hm.invar_ret

lemma hm_wf_update [simp]: "hm_wf (hm_update k f m) = hm_wf m"
  by (simp add: hm_wf_def hm_update_def case_prod_beta comp_def)

lemma hm_len_update [simp]: "hm_len (hm_update k f m) = hm_len m"
  by (simp add: hm_len_def hm_update_def)

lemma hm_get_update [simp]:
  "hm_get (hm_update k f m) k' = (if k' = k then map_option f (hm_get m k) else hm_get m k')"
  by (induction m) (auto simp: hm_get_def hm_update_def)

lemma hm_retain_retain: "hm_retain P (hm_retain Q m) = hm_retain (\<lambda>k v. Q k v \<and> P k v) m"
  by (auto simp: hm_retain_def intro: filter_cong)

lemma hm_retain_id: "(\<And>k v. (k, v) \<in> set m \<Longrightarrow> P k v) \<Longrightarrow> hm_retain P m = m"
  by (auto simp: hm_retain_def intro: filter_True)

lemma hm_get_Some_mem: "hm_get m k = Some v \<Longrightarrow> (k, v) \<in> set m"
  by (simp add: hm_get_def map_of_SomeD)

lemma hm_mem_get: "hm_wf m \<Longrightarrow> (k, v) \<in> set m \<Longrightarrow> hm_get m k = Some v"
  by (simp add: hm_get_def hm_wf_def)

lemma hm_remove_filter: "hm_remove k m = filter (\<lambda>kv. fst kv \<noteq> k) m"
  by (auto simp: hm_remove_def AList.delete_eq intro: filter_cong)

lemma hm_remove_all_filter: "hm_remove_all ks m = filter (\<lambda>kv. fst kv \<notin> set ks) m"
proof (induction ks arbitrary: m)
  case Nil
  then show ?case by (simp add: hm_remove_all_def)
next
  case (Cons k ks)
  have "hm_remove_all (k # ks) m = hm_remove_all ks (hm_remove k m)"
    by (simp add: hm_remove_all_def)
  then show ?case
    by (simp add: Cons.IH hm_remove_filter conj_commute cong: conj_cong)
qed

lemma hm_get_remove_all:
  "hm_get (hm_remove_all ks m) k = (if k \<in> set ks then None else hm_get m k)"
  by (induction m) (auto simp: hm_get_def hm_remove_all_filter)

lemma hm_wf_remove_all [simp]: "hm_wf m \<Longrightarrow> hm_wf (hm_remove_all ks m)"
  by (simp add: hm_wf_def hm_remove_all_filter distinct_map_filter)

lemma hm_len_retain_le: "hm_len (hm_retain P m) \<le> hm_len m"
  by (simp add: hm_len_def hm_retain_def)

lemma hm_len_retain_dead:
  "hm_len m - hm_len (hm_retain P m) = length (filter (\<lambda>(k, v). \<not> P k v) m)"
  using sum_length_filter_compl [of "\<lambda>(k, v). P k v" m]
  by (simp add: hm_len_def hm_retain_def case_prod_unfold)

subsection \<open>The contract of a full cull\<close>

text \<open>
  \<open>cull a t\<close> returns the table without the entries that are dead at \<open>a\<close> (a clock reading
  and whatever else the sweep consults) and how many it dropped.
\<close>

locale cull_table =
  fixes entries :: "'t \<Rightarrow> ('k, 'v) hmap"
    and cull :: "'a \<Rightarrow> 't \<Rightarrow> 't \<times> nat"
    and live :: "'a \<Rightarrow> 'k \<Rightarrow> 'v \<Rightarrow> bool"
  assumes cull_entries: "entries (fst (cull a t)) = hm_retain (live a) (entries t)"
    and cull_count: "snd (cull a t) = hm_len (entries t) - hm_len (entries (fst (cull a t)))"
begin

lemma cull_get:
  assumes "hm_wf (entries t)"
  shows "hm_get (entries (fst (cull a t))) k = Some v \<longleftrightarrow> hm_get (entries t) k = Some v \<and> live a k v"
  using assms by (simp add: cull_entries hm.get_ret_Some)

lemma cull_wf: "hm_wf (entries t) \<Longrightarrow> hm_wf (entries (fst (cull a t)))"
  by (simp add: cull_entries)

lemma cull_count_dead: "snd (cull a t) = length (filter (\<lambda>(k, v). \<not> live a k v) (entries t))"
  by (simp add: cull_count cull_entries hm_len_retain_dead)

lemma cull_idem:
  "entries (fst (cull a (fst (cull a t)))) = entries (fst (cull a t))"
  "snd (cull a (fst (cull a t))) = 0"
  by (simp_all add: cull_entries cull_count hm_retain_retain)

lemma cull_mono:
  assumes "\<And>k v. live b k v \<Longrightarrow> live a k v"
  shows "entries (fst (cull b (fst (cull a t)))) = entries (fst (cull b t))"
proof -
  have "(\<lambda>k v. live a k v \<and> live b k v) = live b"
    using assms by (auto intro!: ext)
  then show ?thesis by (simp add: cull_entries hm_retain_retain)
qed

end

subsection \<open>The contract of a batched cull\<close>

definition dead_keys :: "('k \<Rightarrow> 'v \<Rightarrow> bool) \<Rightarrow> ('k, 'v) hmap \<Rightarrow> 'k list" where
  "dead_keys live m = map fst (filter (\<lambda>(k, v). \<not> live k v) m)"

lemma dead_keys_distinct: "hm_wf m \<Longrightarrow> distinct (dead_keys live m)"
  by (simp add: dead_keys_def hm_wf_def distinct_map_filter)

lemma dead_keys_iff:
  "hm_wf m \<Longrightarrow> k \<in> set (dead_keys live m) \<longleftrightarrow> (\<exists>v. hm_get m k = Some v \<and> \<not> live k v)"
  by (force simp: dead_keys_def dest: hm_mem_get hm_get_Some_mem)

lemma hm_remove_all_dead:
  assumes "hm_wf m"
  shows "hm_remove_all (dead_keys live m) m = hm_retain live m"
proof -
  have "fst kv \<notin> set (dead_keys live m) \<longleftrightarrow> live (fst kv) (snd kv)" if "kv \<in> set m" for kv
    using that assms hm_mem_get [of m "fst kv" "snd kv"] by (auto simp: dead_keys_iff)
  then show ?thesis
    by (simp add: hm_remove_all_filter hm_retain_def case_prod_unfold cong: filter_cong)
qed

text \<open>
  A batched cull collects the keys of at most \<open>limit\<close> dead entries and removes them; it
  reports the removed keys.
\<close>

locale batch_cull_table =
  fixes entries :: "'t \<Rightarrow> ('k, 'v) hmap"
    and cull :: "nat \<Rightarrow> 'a \<Rightarrow> 't \<Rightarrow> 't \<times> nat"
    and live :: "'a \<Rightarrow> 'k \<Rightarrow> 'v \<Rightarrow> bool"
    and invar :: "'t \<Rightarrow> bool"
  assumes batch_entries: "invar t \<Longrightarrow> entries (fst (cull limit a t)) =
      hm_remove_all (take limit (dead_keys (live a) (entries t))) (entries t)"
    and batch_count: "invar t \<Longrightarrow>
      snd (cull limit a t) = min limit (length (dead_keys (live a) (entries t)))"
    and batch_wf: "invar t \<Longrightarrow> hm_wf (entries t)"
    and batch_invar: "invar t \<Longrightarrow> invar (fst (cull limit a t))"
begin

lemma batch_keeps_live:
  assumes "invar t" and "hm_get (entries t) k = Some v" and "live a k v"
  shows "hm_get (entries (fst (cull limit a t))) k = Some v"
proof -
  have "k \<notin> set (dead_keys (live a) (entries t))"
    using assms by (simp add: dead_keys_iff batch_wf)
  then have "k \<notin> set (take limit (dead_keys (live a) (entries t)))"
    by (meson in_set_takeD)
  then show ?thesis
    using assms by (simp add: batch_entries hm_get_remove_all)
qed

lemma batch_no_new:
  "invar t \<Longrightarrow> hm_get (entries (fst (cull limit a t))) k = Some v \<Longrightarrow> hm_get (entries t) k = Some v"
  by (simp add: batch_entries hm_get_remove_all split: if_splits)

lemma batch_len:
  assumes "invar t"
  shows "hm_len (entries (fst (cull limit a t))) + snd (cull limit a t) = hm_len (entries t)"
proof -
  let ?m = "entries t" and ?ks = "take limit (dead_keys (live a) (entries t))"
  have wf: "hm_wf ?m" using assms by (rule batch_wf)
  have sub: "set ?ks \<subseteq> dom (hm_get ?m)"
    using wf by (auto dest!: in_set_takeD simp: dead_keys_iff)
  have "dom (hm_get (hm_remove_all ?ks ?m)) = dom (hm_get ?m) - set ?ks"
    by (auto simp: hm_get_remove_all split: if_splits)
  moreover have "card (set ?ks) = length ?ks"
    using wf by (simp add: distinct_card dead_keys_distinct)
  moreover have "card (dom (hm_get ?m) - set ?ks) + card (set ?ks) = card (dom (hm_get ?m))"
    using sub hm.finite_dom [OF wf] by (simp add: card_Diff_subset card_mono finite_subset)
  ultimately show ?thesis
    using assms wf by (simp add: batch_entries batch_count hm_len_dom min.commute)
qed

lemma batch_full:
  assumes "invar t" and "length (dead_keys (live a) (entries t)) \<le> limit"
  shows "entries (fst (cull limit a t)) = hm_retain (live a) (entries t)"
  using assms by (simp add: batch_entries hm_remove_all_dead batch_wf)

text \<open>Below the limit nothing dead is left behind, so a sweep that stops at a short batch is complete.\<close>

lemma batch_short_complete:
  assumes "invar t" and "snd (cull limit a t) < limit"
    and "hm_get (entries (fst (cull limit a t))) k = Some v"
  shows "live a k v"
proof -
  have "length (dead_keys (live a) (entries t)) \<le> limit"
    using assms by (simp add: batch_count)
  from batch_full [OF assms(1) this] assms(3) show ?thesis
    using assms(1) by (simp add: hm.get_ret_Some batch_wf)
qed

end

end
