(* ===== verification/Codec.thy ===== *)
theory Codec
  imports Prelude
begin

text \<open>
  The contracts of the wire formats. A \<open>codec\<close> is an encoder into bytes and a decoder
  that undoes it on valid values; a \<open>strict_codec\<close> accepts nothing but encodings, so
  that equal values and equal byte strings coincide; a \<open>prefix_codec\<close> decodes the head
  of a longer input and says how much it took. The formats of rns-wire, rns-protocol and
  rns-transport interpret them on their own \<open>pack\<close> and \<open>unpack\<close>.
\<close>

subsection \<open>Exact codecs\<close>

locale codec =
  fixes enc :: "'a \<Rightarrow> bytes"
    and dec :: "bytes \<Rightarrow> 'a option"
    and valid :: "'a \<Rightarrow> bool"
  assumes dec_enc: "valid x \<Longrightarrow> dec (enc x) = Some x"
begin

lemma enc_inj: "valid x \<Longrightarrow> valid y \<Longrightarrow> enc x = enc y \<longleftrightarrow> x = y"
  by (metis dec_enc option.inject)

lemma enc_inj_on: "inj_on enc {x. valid x}"
  by (simp add: enc_inj inj_on_def)

end

locale strict_codec = codec +
  assumes dec_sound: "dec bs = Some x \<Longrightarrow> valid x \<and> enc x = bs"
begin

lemma dec_iff: "dec bs = Some x \<longleftrightarrow> valid x \<and> enc x = bs"
  using dec_enc dec_sound by blast

lemma dec_defined_iff: "(\<exists>x. dec bs = Some x) \<longleftrightarrow> bs \<in> enc ` {x. valid x}"
  by (auto simp: dec_iff)

lemma dec_inj: "dec bs = Some x \<Longrightarrow> dec bs' = Some x \<Longrightarrow> bs = bs'"
  by (auto simp: dec_iff)

end

subsection \<open>Prefix codecs\<close>

text \<open>
  \<open>dec\<close> reads a value at the head of its input and returns the offset of the first byte
  after it.
\<close>

locale prefix_codec =
  fixes enc :: "'a \<Rightarrow> bytes"
    and dec :: "bytes \<Rightarrow> ('a \<times> nat) option"
    and valid :: "'a \<Rightarrow> bool"
  assumes dec_enc_append: "valid x \<Longrightarrow> dec (enc x @ rest) = Some (x, length (enc x))"
    and dec_valid: "dec bs = Some (x, n) \<Longrightarrow> valid x \<and> n \<le> length bs \<and> n = length (enc x)"
begin

lemma prefix_free:
  assumes "valid x" and "valid y" and "enc x @ r = enc y @ s"
  shows "x = y" and "r = s"
proof -
  have "Some (x, length (enc x)) = Some (y, length (enc y))"
    using dec_enc_append [OF assms(1), of r] dec_enc_append [OF assms(2), of s] assms(3) by simp
  then show "x = y" by simp
  with assms(3) show "r = s" by simp
qed

lemma dec_payload: "valid x \<Longrightarrow> dec (enc x @ rest) = Some (x, n) \<Longrightarrow> drop n (enc x @ rest) = rest"
  by (simp add: dec_enc_append)

end

end
