(* ===== verification/Wire_Flags.thy ===== *)
theory Wire_Flags
  imports Codec
begin

text \<open>
  The flags byte and the context byte of a packet header:
  \<open>src/crates/rns-wire/src/flags.rs\<close> and \<open>src/crates/rns-wire/src/context.rs\<close>.
\<close>

subsection \<open>The flags byte\<close>

datatype PacketType = PT_Data | PT_Announce | PT_LinkRequest | PT_Proof

datatype DestinationType = DT_Single | DT_Group | DT_Plain | DT_Link

datatype HeaderType = Header1 | Header2

datatype TransportType = Broadcast | Transport

text \<open>The discriminants: the \<open>as u8\<close> casts of the source.\<close>

fun PacketType_u8 :: "PacketType \<Rightarrow> u8" where
  "PacketType_u8 PT_Data = 0"
| "PacketType_u8 PT_Announce = 1"
| "PacketType_u8 PT_LinkRequest = 2"
| "PacketType_u8 PT_Proof = 3"

fun DestinationType_u8 :: "DestinationType \<Rightarrow> u8" where
  "DestinationType_u8 DT_Single = 0"
| "DestinationType_u8 DT_Group = 1"
| "DestinationType_u8 DT_Plain = 2"
| "DestinationType_u8 DT_Link = 3"

fun HeaderType_u8 :: "HeaderType \<Rightarrow> u8" where
  "HeaderType_u8 Header1 = 0"
| "HeaderType_u8 Header2 = 1"

fun TransportType_u8 :: "TransportType \<Rightarrow> u8" where
  "TransportType_u8 Broadcast = 0"
| "TransportType_u8 Transport = 1"

record PacketFlags =
  header_type :: HeaderType
  context_flag :: bool
  transport_type :: TransportType
  destination_type :: DestinationType
  packet_type :: PacketType

definition PacketFlags_pack :: "PacketFlags \<Rightarrow> u8" where
  "PacketFlags_pack f =
     (let ht = push_bit 6 (HeaderType_u8 (header_type f));
          cf = push_bit 5 (of_bool (context_flag f));
          tt = push_bit 4 (TransportType_u8 (transport_type f));
          dt = push_bit 2 (DestinationType_u8 (destination_type f));
          pt = PacketType_u8 (packet_type f)
      in ht OR cf OR tt OR dt OR pt)"

text \<open>
  \<open>None\<close> stands both for the \<open>unreachable!()\<close> arms and for a \<open>None\<close> result;
  \<open>PacketFlags_unpack_total\<close> below shows that neither occurs.
\<close>

definition PacketFlags_unpack :: "u8 \<Rightarrow> PacketFlags option" where
  "PacketFlags_unpack byte =
     Option.bind (let v = drop_bit 6 (byte AND 0x40) in
        if v = 0 then Some Header1 else if v = 1 then Some Header2 else None)
      (\<lambda>ht. let cf = (drop_bit 5 (byte AND 0x20) \<noteq> 0) in
     Option.bind (let v = drop_bit 4 (byte AND 0x10) in
        if v = 0 then Some Broadcast else if v = 1 then Some Transport else None)
      (\<lambda>tt.
     Option.bind (let v = drop_bit 2 (byte AND 0x0C) in
        if v = 0 then Some DT_Single else if v = 1 then Some DT_Group
        else if v = 2 then Some DT_Plain else if v = 3 then Some DT_Link else None)
      (\<lambda>dt.
     Option.bind (let v = byte AND 0x03 in
        if v = 0 then Some PT_Data else if v = 1 then Some PT_Announce
        else if v = 2 then Some PT_LinkRequest else if v = 3 then Some PT_Proof else None)
      (\<lambda>pt. Some \<lparr>header_type = ht, context_flag = cf, transport_type = tt,
                 destination_type = dt, packet_type = pt\<rparr>))))"

subsection \<open>The context byte\<close>

datatype PacketContext =
    Ctx_None | Ctx_Resource | Ctx_ResourceAdv | Ctx_ResourceReq | Ctx_ResourceHmu | Ctx_ResourcePrf | Ctx_ResourceIcl
  | Ctx_ResourceRcl | Ctx_CacheRequest | Ctx_Request | Ctx_Response | Ctx_PathResponse | Ctx_Command | Ctx_CommandStatus
  | Ctx_Channel | Ctx_Keepalive | Ctx_LinkIdentify | Ctx_LinkClose | Ctx_LinkProof | Ctx_Lrrtt | Ctx_Lrproof
  | Ctx_Unknown u8

definition PacketContext_from_byte :: "u8 \<Rightarrow> PacketContext" where
  "PacketContext_from_byte b =
    (if b = 0x00 then Ctx_None
     else if b = 0x01 then Ctx_Resource
     else if b = 0x02 then Ctx_ResourceAdv
     else if b = 0x03 then Ctx_ResourceReq
     else if b = 0x04 then Ctx_ResourceHmu
     else if b = 0x05 then Ctx_ResourcePrf
     else if b = 0x06 then Ctx_ResourceIcl
     else if b = 0x07 then Ctx_ResourceRcl
     else if b = 0x08 then Ctx_CacheRequest
     else if b = 0x09 then Ctx_Request
     else if b = 0x0A then Ctx_Response
     else if b = 0x0B then Ctx_PathResponse
     else if b = 0x0C then Ctx_Command
     else if b = 0x0D then Ctx_CommandStatus
     else if b = 0x0E then Ctx_Channel
     else if b = 0xFA then Ctx_Keepalive
     else if b = 0xFB then Ctx_LinkIdentify
     else if b = 0xFC then Ctx_LinkClose
     else if b = 0xFD then Ctx_LinkProof
     else if b = 0xFE then Ctx_Lrrtt
     else if b = 0xFF then Ctx_Lrproof
     else Ctx_Unknown b)"

fun PacketContext_to_byte :: "PacketContext \<Rightarrow> u8" where
  "PacketContext_to_byte Ctx_None = 0x00"
| "PacketContext_to_byte Ctx_Resource = 0x01"
| "PacketContext_to_byte Ctx_ResourceAdv = 0x02"
| "PacketContext_to_byte Ctx_ResourceReq = 0x03"
| "PacketContext_to_byte Ctx_ResourceHmu = 0x04"
| "PacketContext_to_byte Ctx_ResourcePrf = 0x05"
| "PacketContext_to_byte Ctx_ResourceIcl = 0x06"
| "PacketContext_to_byte Ctx_ResourceRcl = 0x07"
| "PacketContext_to_byte Ctx_CacheRequest = 0x08"
| "PacketContext_to_byte Ctx_Request = 0x09"
| "PacketContext_to_byte Ctx_Response = 0x0A"
| "PacketContext_to_byte Ctx_PathResponse = 0x0B"
| "PacketContext_to_byte Ctx_Command = 0x0C"
| "PacketContext_to_byte Ctx_CommandStatus = 0x0D"
| "PacketContext_to_byte Ctx_Channel = 0x0E"
| "PacketContext_to_byte Ctx_Keepalive = 0xFA"
| "PacketContext_to_byte Ctx_LinkIdentify = 0xFB"
| "PacketContext_to_byte Ctx_LinkClose = 0xFC"
| "PacketContext_to_byte Ctx_LinkProof = 0xFD"
| "PacketContext_to_byte Ctx_Lrrtt = 0xFE"
| "PacketContext_to_byte Ctx_Lrproof = 0xFF"
| "PacketContext_to_byte (Ctx_Unknown b) = b"

definition is_plaintext_context :: "PacketContext \<Rightarrow> bool" where
  "is_plaintext_context c = (c \<in> {Ctx_Resource, Ctx_ResourcePrf, Ctx_Keepalive, Ctx_CacheRequest})"

text \<open>
  \<open>Unknown\<close> is a public constructor: a value is canonical when its byte has no name of
  its own. Decoding only produces canonical values.
\<close>

fun PacketContext_canonical :: "PacketContext \<Rightarrow> bool" where
  "PacketContext_canonical (Ctx_Unknown b) = (PacketContext_from_byte b = Ctx_Unknown b)"
| "PacketContext_canonical _ = True"

subsection \<open>Lemmas on the flags byte\<close>

lemma PacketFlags_unpack_pack: "PacketFlags_unpack (PacketFlags_pack f) = Some f"
proof (cases f)
  case (fields ht cf tt dt pt)
  then show ?thesis
    by (cases ht; cases cf; cases tt; cases dt; cases pt)
      (simp_all add: PacketFlags_pack_def PacketFlags_unpack_def Let_def)
qed

lemma flag_fields:
  "drop_bit 6 (b AND 0x40) = (of_bool (bit b 6) :: u8)"
  "drop_bit 5 (b AND 0x20) = (of_bool (bit b 5) :: u8)"
  "drop_bit 4 (b AND 0x10) = (of_bool (bit b 4) :: u8)"
  "drop_bit 2 (b AND 0x0C) = (of_bool (bit b 2) OR push_bit 1 (of_bool (bit b 3)) :: u8)"
  "b AND 0x03 = (of_bool (bit b 0) OR push_bit 1 (of_bool (bit b 1)) :: u8)"
  by (auto intro!: bit_eqI simp: bit_simps less_Suc_eq numeral_eq_Suc)

lemma PacketFlags_unpack_bits:
  "PacketFlags_unpack b = Some
    \<lparr>header_type = (if bit b 6 then Header2 else Header1),
     context_flag = bit b 5,
     transport_type = (if bit b 4 then Transport else Broadcast),
     destination_type = (if bit b 3 then if bit b 2 then DT_Link else DT_Plain
                         else if bit b 2 then DT_Group else DT_Single),
     packet_type = (if bit b 1 then if bit b 0 then PT_Proof else PT_LinkRequest
                    else if bit b 0 then PT_Announce else PT_Data)\<rparr>"
  unfolding PacketFlags_unpack_def flag_fields by simp

lemma PacketFlags_unpack_total: "\<exists>f. PacketFlags_unpack b = Some f"
  by (simp add: PacketFlags_unpack_bits)

lemma flag_discriminants:
  "HeaderType_u8 (if p then Header2 else Header1) = of_bool p"
  "TransportType_u8 (if p then Transport else Broadcast) = of_bool p"
  "DestinationType_u8 (if p then if q then DT_Link else DT_Plain else if q then DT_Group else DT_Single)
     = of_bool q OR push_bit 1 (of_bool p)"
  "PacketType_u8 (if p then if q then PT_Proof else PT_LinkRequest else if q then PT_Announce else PT_Data)
     = of_bool q OR push_bit 1 (of_bool p)"
  by simp_all

lemma PacketFlags_pack_unpack:
  assumes "PacketFlags_unpack b = Some f"
  shows "PacketFlags_pack f = b AND 0x7F"
proof (rule bit_eqI)
  fix n :: nat
  assume "possible_bit TYPE(u8) n"
  then consider "n = 0" | "n = 1" | "n = 2" | "n = 3" | "n = 4" | "n = 5" | "n = 6" | "n = 7"
    by fastforce
  moreover have "PacketFlags_pack f =
      push_bit 6 (of_bool (bit b 6)) OR push_bit 5 (of_bool (bit b 5)) OR push_bit 4 (of_bool (bit b 4))
      OR push_bit 2 (of_bool (bit b 2) OR push_bit 1 (of_bool (bit b 3)))
      OR (of_bool (bit b 0) OR push_bit 1 (of_bool (bit b 1)))"
    using assms unfolding PacketFlags_unpack_bits PacketFlags_pack_def Let_def
    by (auto simp only: option.inject PacketFlags.simps flag_discriminants)
  ultimately show "bit (PacketFlags_pack f) n = bit (b AND 0x7F) n"
    by cases (simp_all only: bit_simps, simp_all)
qed

lemma PacketFlags_pack_bit7: "\<not> bit (PacketFlags_pack f) 7"
proof -
  have "PacketFlags_pack f = PacketFlags_pack f AND 0x7F"
    by (rule PacketFlags_pack_unpack [OF PacketFlags_unpack_pack])
  moreover have "\<not> bit (w AND 0x7F) 7" for w :: u8
    by (simp add: bit_simps)
  ultimately show ?thesis by metis
qed

interpretation flags: codec "\<lambda>f. [PacketFlags_pack f]" "\<lambda>bs. Option.bind (case bs of [b] \<Rightarrow> Some b | _ \<Rightarrow> None) PacketFlags_unpack"
    "\<lambda>_. True"
  by unfold_locales (simp add: PacketFlags_unpack_pack)

subsection \<open>Lemmas on the context byte\<close>

lemma PacketContext_to_from [simp]: "PacketContext_to_byte (PacketContext_from_byte b) = b"
  by (simp add: PacketContext_from_byte_def)

lemma PacketContext_from_to:
  "PacketContext_canonical c \<Longrightarrow> PacketContext_from_byte (PacketContext_to_byte c) = c"
  by (cases c) (simp_all add: PacketContext_from_byte_def)

lemma PacketContext_from_byte_canonical [simp]:
  "PacketContext_canonical (PacketContext_from_byte b)"
  by (simp add: PacketContext_from_byte_def)

interpretation ctx: strict_codec "\<lambda>c. [PacketContext_to_byte c]"
    "\<lambda>bs. case bs of [b] \<Rightarrow> Some (PacketContext_from_byte b) | _ \<Rightarrow> None" PacketContext_canonical
  by unfold_locales (auto simp: PacketContext_from_to split: list.splits)

end
