(* ===== verification/Wire_Header.thy ===== *)
theory Wire_Header
  imports Wire_Flags
begin

text \<open>
  The packet header and the hashes of a packet: \<open>constants.rs\<close>, \<open>header.rs\<close>, \<open>hash.rs\<close>
  and \<open>packet.rs\<close> of \<open>src/crates/rns-wire/src\<close>. SHA-256 (the \<open>sha2\<close> crate) is the argument
  \<open>sha256\<close> of the definitions that hash.
\<close>

subsection \<open>Constants\<close>

definition MTU :: nat where "MTU = 500"
definition TRUNCATED_HASHLENGTH :: nat where "TRUNCATED_HASHLENGTH = 128"
definition TOKEN_OVERHEAD :: nat where "TOKEN_OVERHEAD = 48"
definition AES128_BLOCKSIZE :: nat where "AES128_BLOCKSIZE = 16"
definition KEYSIZE :: nat where "KEYSIZE = 512"
definition HEADER_MINSIZE :: nat where "HEADER_MINSIZE = 2 + TRUNCATED_HASHLENGTH div 8 + 1"
definition HEADER_MAXSIZE :: nat where "HEADER_MAXSIZE = 2 + (TRUNCATED_HASHLENGTH div 8) * 2 + 1"
definition MDU :: nat where "MDU = MTU - HEADER_MAXSIZE - 1"
definition LINK_MDU :: nat where
  "LINK_MDU = ((MTU - 1 - HEADER_MINSIZE - TOKEN_OVERHEAD) div AES128_BLOCKSIZE) * AES128_BLOCKSIZE - 1"
definition SINGLE_PACKET_ENCRYPTED_MDU :: nat where
  "SINGLE_PACKET_ENCRYPTED_MDU =
     ((MDU - TOKEN_OVERHEAD - KEYSIZE div 16) div AES128_BLOCKSIZE) * AES128_BLOCKSIZE - 1"
definition EXPL_LENGTH :: nat where "EXPL_LENGTH = 96"
definition IMPL_LENGTH :: nat where "IMPL_LENGTH = 64"

lemmas wire_constants = MTU_def TRUNCATED_HASHLENGTH_def TOKEN_OVERHEAD_def AES128_BLOCKSIZE_def
  KEYSIZE_def HEADER_MINSIZE_def HEADER_MAXSIZE_def MDU_def LINK_MDU_def
  SINGLE_PACKET_ENCRYPTED_MDU_def EXPL_LENGTH_def IMPL_LENGTH_def

subsection \<open>Headers\<close>

datatype HeaderError = HE_TooShort nat

record PacketHeader =
  ph_flags :: PacketFlags
  ph_hops :: u8
  ph_transport_id :: "bytes option"
  ph_destination_hash :: bytes
  ph_context :: PacketContext

definition PacketHeader_pack :: "PacketHeader \<Rightarrow> bytes" where
  "PacketHeader_pack h =
     [PacketFlags_pack (ph_flags h), ph_hops h]
     @ (case ph_transport_id h of Some tid \<Rightarrow> tid | None \<Rightarrow> [])
     @ ph_destination_hash h
     @ [PacketContext_to_byte (ph_context h)]"

definition PacketHeader_unpack :: "bytes \<Rightarrow> (HeaderError, PacketHeader \<times> nat) result" where
  "PacketHeader_unpack raw =
    (if length raw < HEADER_MINSIZE then Err (HE_TooShort (length raw))
     else and_then (ok_or (HE_TooShort (length raw)) (PacketFlags_unpack (raw ! 0))) (\<lambda>flags.
       let hops = raw ! 1; hash_len = TRUNCATED_HASHLENGTH div 8 in
       case header_type flags of
         Header1 \<Rightarrow>
           (let dest_hash = subslice 2 (2 + hash_len) raw;
                context = PacketContext_from_byte (raw ! (2 + hash_len));
                data_offset = 2 + hash_len + 1
            in Ok (\<lparr>ph_flags = flags, ph_hops = hops, ph_transport_id = None,
                    ph_destination_hash = dest_hash, ph_context = context\<rparr>, data_offset))
       | Header2 \<Rightarrow>
           (if length raw < HEADER_MAXSIZE then Err (HE_TooShort (length raw))
            else
              let transport_id = subslice 2 (2 + hash_len) raw;
                  dest_hash = subslice (2 + hash_len) (2 + hash_len * 2) raw;
                  context = PacketContext_from_byte (raw ! (2 + hash_len * 2));
                  data_offset = 2 + hash_len * 2 + 1
              in Ok (\<lparr>ph_flags = flags, ph_hops = hops, ph_transport_id = Some transport_id,
                      ph_destination_hash = dest_hash, ph_context = context\<rparr>, data_offset))))"

definition PacketHeader_size :: "PacketHeader \<Rightarrow> nat" where
  "PacketHeader_size h = (if ph_transport_id h \<noteq> None then HEADER_MAXSIZE else HEADER_MINSIZE)"

text \<open>
  What the doc comment of \<open>PacketHeader\<close> asks of a header: arrays of their size, a
  transport id exactly for \<open>Header2\<close>, and a canonical context.
\<close>

definition PacketHeader_wf :: "PacketHeader \<Rightarrow> bool" where
  "PacketHeader_wf h \<longleftrightarrow>
     length (ph_destination_hash h) = 16
     \<and> (ph_transport_id h \<noteq> None \<longleftrightarrow> header_type (ph_flags h) = Header2)
     \<and> pred_option (\<lambda>t. length t = 16) (ph_transport_id h)
     \<and> PacketContext_canonical (ph_context h)"

subsection \<open>Hashes\<close>

text \<open>\<open>None\<close> is the panic of \<open>raw[0]\<close> on an empty packet.\<close>

definition get_hashable_part :: "bytes \<Rightarrow> HeaderType \<Rightarrow> bytes option" where
  "get_hashable_part raw ht =
    (case raw of [] \<Rightarrow> None
     | b0 # _ \<Rightarrow> Some ((b0 AND 0x0F) #
        (case ht of
           Header2 \<Rightarrow> (let skip = TRUNCATED_HASHLENGTH div 8 + 2 in
              if length raw > skip then drop skip raw else [])
         | Header1 \<Rightarrow> (if length raw > 2 then drop 2 raw else []))))"

text \<open>
  The streaming form: the hasher is the list of the chunks it was fed, and \<open>finalize\<close>
  digests their concatenation.
\<close>

definition packet_hash :: "(bytes \<Rightarrow> bytes) \<Rightarrow> bytes \<Rightarrow> HeaderType \<Rightarrow> bytes option" where
  "packet_hash sha256 raw ht =
    (case raw of [] \<Rightarrow> None
     | b0 # _ \<Rightarrow>
       let hasher = [[b0 AND 0x0F]];
           skip = (case ht of Header2 \<Rightarrow> TRUNCATED_HASHLENGTH div 8 + 2 | Header1 \<Rightarrow> 2);
           hasher = (if length raw > skip then hasher @ [drop skip raw] else hasher)
       in Some (sha256 (concat hasher)))"

definition truncated_packet_hash :: "(bytes \<Rightarrow> bytes) \<Rightarrow> bytes \<Rightarrow> HeaderType \<Rightarrow> bytes option" where
  "truncated_packet_hash sha256 raw ht = map_option (take 16) (packet_hash sha256 raw ht)"

definition packet_hash_pair :: "(bytes \<Rightarrow> bytes) \<Rightarrow> bytes \<Rightarrow> HeaderType \<Rightarrow> (bytes \<times> bytes) option" where
  "packet_hash_pair sha256 raw ht =
     map_option (\<lambda>full. (full, take 16 full)) (packet_hash sha256 raw ht)"

definition link_id_from_raw :: "(bytes \<Rightarrow> bytes) \<Rightarrow> bytes \<Rightarrow> HeaderType \<Rightarrow> bytes option" where
  "link_id_from_raw sha256 raw ht =
     map_option (\<lambda>hashable.
        let header_in_hashable = 1 + 16 + 1;
            data_in_hashable = length hashable - header_in_hashable;
            hashable = (if data_in_hashable > 64
                        then take (length hashable - (data_in_hashable - 64)) hashable else hashable)
        in take 16 (sha256 hashable))
      (get_hashable_part raw ht)"

subsection \<open>Packets\<close>

datatype PacketError = PE_ExceedsMtu nat | PE_Header HeaderError | PE_TooShort

record Packet =
  pkt_header :: PacketHeader
  pkt_raw :: bytes
  pkt_data_offset :: nat
  pkt_hash :: bytes
  pkt_truncated_hash :: bytes

text \<open>
  A packed header and a parsed raw packet are never empty, so the panic of the hash is
  unreachable; \<open>the\<close> is applied to \<open>Some\<close> there (\<open>packet_hash_Some\<close>).
\<close>

definition Packet_data :: "Packet \<Rightarrow> bytes" where
  "Packet_data p = drop (pkt_data_offset p) (pkt_raw p)"

definition Packet_new :: "(bytes \<Rightarrow> bytes) \<Rightarrow> PacketHeader \<Rightarrow> bytes \<Rightarrow> (PacketError, Packet) result" where
  "Packet_new sha256 header data =
    (let raw = PacketHeader_pack header;
         data_offset = length raw;
         raw = raw @ data
     in if length raw > MTU then Err (PE_ExceedsMtu (length raw))
        else Ok \<lparr>pkt_header = header, pkt_raw = raw, pkt_data_offset = data_offset,
                 pkt_hash = the (packet_hash sha256 raw (header_type (ph_flags header))),
                 pkt_truncated_hash =
                   the (truncated_packet_hash sha256 raw (header_type (ph_flags header)))\<rparr>)"

definition Packet_from_raw_owned :: "(bytes \<Rightarrow> bytes) \<Rightarrow> bytes \<Rightarrow> (PacketError, Packet) result" where
  "Packet_from_raw_owned sha256 raw =
    (if length raw < 19 then Err PE_TooShort
     else and_then (map_err PE_Header (PacketHeader_unpack raw)) (\<lambda>(header, data_offset).
       Ok \<lparr>pkt_header = header, pkt_raw = raw, pkt_data_offset = data_offset,
           pkt_hash = the (packet_hash sha256 raw (header_type (ph_flags header))),
           pkt_truncated_hash =
             the (truncated_packet_hash sha256 raw (header_type (ph_flags header)))\<rparr>))"

definition Packet_from_raw :: "(bytes \<Rightarrow> bytes) \<Rightarrow> bytes \<Rightarrow> (PacketError, Packet) result" where
  "Packet_from_raw sha256 raw = Packet_from_raw_owned sha256 raw"

definition Packet_increment_hops :: "Packet \<Rightarrow> Packet" where
  "Packet_increment_hops p =
    (if ph_hops (pkt_header p) < 255 then
       let h = (pkt_header p)\<lparr>ph_hops := ph_hops (pkt_header p) + 1\<rparr>;
           raw = (if length (pkt_raw p) > 1 then (pkt_raw p)[1 := ph_hops h] else pkt_raw p)
       in p\<lparr>pkt_header := h, pkt_raw := raw\<rparr>
     else p)"

subsection \<open>Lemmas on headers\<close>

lemma PacketHeader_pack_length:
  "PacketHeader_wf h \<Longrightarrow> length (PacketHeader_pack h) = PacketHeader_size h"
  by (auto simp: PacketHeader_wf_def PacketHeader_pack_def PacketHeader_size_def wire_constants)

lemma PacketHeader_unpack_pack:
  assumes "PacketHeader_wf h"
  shows "PacketHeader_unpack (PacketHeader_pack h @ data) = Ok (h, PacketHeader_size h)"
proof (cases "ph_transport_id h")
  case None
  with assms have "header_type (ph_flags h) = Header1" and d: "length (ph_destination_hash h) = 16"
    and c: "PacketContext_canonical (ph_context h)"
    by (auto simp: PacketHeader_wf_def intro: HeaderType.exhaust)
  with None show ?thesis
    by (simp add: PacketHeader_unpack_def PacketHeader_pack_def PacketHeader_size_def wire_constants
        PacketFlags_unpack_pack nth_append subslice_def PacketContext_from_to)
next
  case (Some tid)
  with assms have "header_type (ph_flags h) = Header2" and "length (ph_destination_hash h) = 16"
    and "PacketContext_canonical (ph_context h)" and "length tid = 16"
    by (auto simp: PacketHeader_wf_def)
  with Some show ?thesis
    by (simp add: PacketHeader_unpack_def PacketHeader_pack_def PacketHeader_size_def wire_constants
        PacketFlags_unpack_pack nth_append subslice_def PacketContext_from_to)
qed

lemma raw_header_split:
  assumes "2 + k + 1 \<le> length raw"
  shows "raw ! 0 # raw ! 1 # subslice 2 (2 + k) raw @ [raw ! (2 + k)] @ drop (2 + k + 1) raw = raw"
proof -
  obtain b0 b1 rest where raw: "raw = b0 # b1 # rest"
    using assms by (metis One_nat_def Suc_1 add_leD1 Suc_le_length_iff)
  have "take k rest @ rest ! k # drop (Suc k) rest = rest"
    using assms by (simp add: raw id_take_nth_drop [symmetric])
  then show ?thesis by (simp add: raw subslice_def)
qed

lemma PacketHeader_unpack_Ok:
  assumes "PacketHeader_unpack raw = Ok (h, n)"
  shows "PacketHeader_wf h" and "n = PacketHeader_size h" and "n \<le> length raw"
    and "PacketHeader_pack h @ drop n raw = raw[0 := raw ! 0 AND 0x7F]"
proof -
  obtain f where f: "PacketFlags_unpack (raw ! 0) = Some f"
    using PacketFlags_unpack_total by blast
  have len: "19 \<le> length raw"
    using assms by (auto simp: PacketHeader_unpack_def wire_constants split: if_splits)
  have pack: "PacketFlags_pack f = raw ! 0 AND 0x7F"
    using f by (rule PacketFlags_pack_unpack)
  have upd: "raw[0 := b] = b # drop 1 raw" for b
    using len by (cases raw) auto
  show "PacketHeader_wf h" and "n = PacketHeader_size h" and "n \<le> length raw"
    using assms len
    by (auto simp: PacketHeader_unpack_def f wire_constants PacketHeader_wf_def PacketHeader_size_def Let_def
        split: HeaderType.splits if_splits)
  show "PacketHeader_pack h @ drop n raw = raw[0 := raw ! 0 AND 0x7F]"
  proof (cases "header_type f")
    case Header1
    have "raw ! 0 # raw ! 1 # subslice 2 18 raw @ [raw ! 18] @ drop 19 raw = raw"
      using raw_header_split [of 16 raw] len by simp
    then have "drop 1 raw = raw ! 1 # subslice 2 18 raw @ [raw ! 18] @ drop 19 raw"
      by (metis drop0 drop_Suc_Cons One_nat_def)
    with assms Header1 show ?thesis
      by (auto simp: PacketHeader_unpack_def f wire_constants PacketHeader_pack_def pack upd Let_def
          split: if_splits)
  next
    case Header2
    then have len2: "35 \<le> length raw"
      using assms by (auto simp: PacketHeader_unpack_def f wire_constants Let_def split: if_splits)
    have "raw ! 0 # raw ! 1 # subslice 2 34 raw @ [raw ! 34] @ drop 35 raw = raw"
      using raw_header_split [of 32 raw] len2 by simp
    then have "drop 1 raw = raw ! 1 # subslice 2 34 raw @ [raw ! 34] @ drop 35 raw"
      by (metis drop0 drop_Suc_Cons One_nat_def)
    moreover have "subslice 2 34 raw = subslice 2 18 raw @ subslice 18 34 raw"
      by (simp add: subslice_join)
    ultimately show ?thesis
      using assms Header2 len2
      by (auto simp: PacketHeader_unpack_def f wire_constants PacketHeader_pack_def pack upd Let_def)
  qed
qed

lemma PacketHeader_unpack_Err:
  "PacketHeader_unpack raw = Err e \<longleftrightarrow>
     e = HE_TooShort (length raw) \<and> (length raw < 19 \<or> (length raw < 35 \<and> bit (raw ! 0) 6))"
  by (auto simp: PacketHeader_unpack_def PacketFlags_unpack_bits wire_constants Let_def
      split: if_splits)

interpretation header: prefix_codec PacketHeader_pack
    "\<lambda>raw. case PacketHeader_unpack raw of Inl _ \<Rightarrow> None | Inr r \<Rightarrow> Some r" PacketHeader_wf
proof (unfold_locales, goal_cases)
  case (1 x rest)
  then show ?case by (simp add: PacketHeader_unpack_pack PacketHeader_pack_length)
next
  case (2 bs x n)
  then have "PacketHeader_unpack bs = Ok (x, n)" by (simp split: sum.splits)
  from PacketHeader_unpack_Ok [OF this] show ?case
    by (simp add: PacketHeader_pack_length)
qed

subsection \<open>Lemmas on hashes\<close>

lemma packet_hash_hashable:
  "packet_hash sha256 raw ht = map_option sha256 (get_hashable_part raw ht)"
  by (auto simp: packet_hash_def get_hashable_part_def Let_def split: list.splits HeaderType.splits)

lemma packet_hash_Some: "raw \<noteq> [] \<Longrightarrow> \<exists>d. packet_hash sha256 raw ht = Some d"
  by (cases raw) (simp_all add: packet_hash_hashable get_hashable_part_def)

lemma PacketFlags_pack_nibble:
  "PacketFlags_pack f AND 0x0F =
     push_bit 2 (DestinationType_u8 (destination_type f)) OR PacketType_u8 (packet_type f)"
proof (cases f)
  case (fields ht cf tt dt pt)
  then show ?thesis
    by (cases ht; cases cf; cases tt; cases dt; cases pt) (simp_all add: PacketFlags_pack_def)
qed

text \<open>The hashable part of a packed packet is what a forwarder keeps.\<close>

lemma get_hashable_part_pack:
  assumes "PacketHeader_wf h"
  shows "get_hashable_part (PacketHeader_pack h @ data) (header_type (ph_flags h)) =
    Some ((push_bit 2 (DestinationType_u8 (destination_type (ph_flags h)))
            OR PacketType_u8 (packet_type (ph_flags h)))
          # ph_destination_hash h @ [PacketContext_to_byte (ph_context h)] @ data)"
proof (cases "ph_transport_id h")
  case None
  with assms have "header_type (ph_flags h) = Header1"
    by (auto simp: PacketHeader_wf_def intro: HeaderType.exhaust)
  with None show ?thesis
    by (simp add: get_hashable_part_def PacketHeader_pack_def PacketFlags_pack_nibble)
next
  case (Some tid)
  with assms have "header_type (ph_flags h) = Header2" and "length tid = 16"
    by (auto simp: PacketHeader_wf_def)
  with Some show ?thesis
    by (simp add: get_hashable_part_def PacketHeader_pack_def PacketFlags_pack_nibble wire_constants)
qed

lemma get_hashable_part_hops:
  "get_hashable_part (raw[Suc 0 := b]) ht = get_hashable_part raw ht"
  by (cases raw) (auto simp: get_hashable_part_def wire_constants split: HeaderType.splits)

subsection \<open>Lemmas on packets\<close>

text \<open>
  The representation invariant of a packet: the raw bytes start with the packed header
  up to the authentication bit, and the cached hashes are those of the raw bytes.
\<close>

definition Packet_wf :: "(bytes \<Rightarrow> bytes) \<Rightarrow> Packet \<Rightarrow> bool" where
  "Packet_wf sha256 p \<longleftrightarrow>
     PacketHeader_unpack (pkt_raw p) = Ok (pkt_header p, pkt_data_offset p)
     \<and> packet_hash sha256 (pkt_raw p) (header_type (ph_flags (pkt_header p))) = Some (pkt_hash p)
     \<and> pkt_truncated_hash p = take 16 (pkt_hash p)"

lemma Packet_from_raw_wf:
  assumes "Packet_from_raw sha256 raw = Ok p"
  shows "Packet_wf sha256 p" and "pkt_raw p = raw"
proof -
  have "raw \<noteq> []"
    using assms by (auto simp: Packet_from_raw_def Packet_from_raw_owned_def split: if_splits)
  then have "packet_hash sha256 raw ht \<noteq> None" for ht
    using packet_hash_Some by blast
  then show "Packet_wf sha256 p" and "pkt_raw p = raw"
    using assms
    by (auto simp: Packet_from_raw_def Packet_from_raw_owned_def Packet_wf_def result_simps
        truncated_packet_hash_def option.map_sel split: if_splits)
qed

lemma Packet_new_wf:
  assumes "PacketHeader_wf h" and "Packet_new sha256 h data = Ok p"
  shows "Packet_wf sha256 p" and "pkt_header p = h" and "Packet_data p = data"
    and "length (pkt_raw p) \<le> MTU"
proof -
  have "PacketHeader_pack h @ data \<noteq> []" by (simp add: PacketHeader_pack_def)
  from packet_hash_Some [OF this] obtain d
    where d: "packet_hash sha256 (PacketHeader_pack h @ data) (header_type (ph_flags h)) = Some d"
    by blast
  show "Packet_wf sha256 p" and "pkt_header p = h" and "Packet_data p = data"
    and "length (pkt_raw p) \<le> MTU"
    using assms d
    by (auto simp: Packet_new_def Packet_wf_def Packet_data_def PacketHeader_unpack_pack
        PacketHeader_pack_length truncated_packet_hash_def Let_def split: if_splits)
qed

lemma PacketHeader_unpack_hops:
  assumes "PacketHeader_unpack raw = Ok (h, n)"
  shows "PacketHeader_unpack (raw[1 := b]) = Ok (h\<lparr>ph_hops := b\<rparr>, n)"
proof -
  have len: "19 \<le> length raw"
    using assms by (auto simp: PacketHeader_unpack_def wire_constants split: if_splits)
  have "subslice i j (raw[1 := b]) = subslice i j raw" if "2 \<le> i" for i j
    using that by (simp add: subslice_def)
  with assms len show ?thesis
    by (auto simp: PacketHeader_unpack_def PacketFlags_unpack_bits wire_constants Let_def
        split: if_splits HeaderType.splits)
qed

lemma Packet_increment_hops_wf:
  assumes "Packet_wf sha256 p"
  shows "Packet_wf sha256 (Packet_increment_hops p)"
proof -
  have u: "PacketHeader_unpack (pkt_raw p) = Ok (pkt_header p, pkt_data_offset p)"
    using assms by (simp add: Packet_wf_def)
  then have "1 < length (pkt_raw p)"
    by (auto simp: PacketHeader_unpack_def wire_constants split: if_splits)
  with PacketHeader_unpack_hops [OF u] show ?thesis
    using assms
    by (auto simp: Packet_wf_def Packet_increment_hops_def Let_def packet_hash_hashable
        get_hashable_part_hops)
qed

lemma Packet_increment_hops_fields [simp]:
  "pkt_hash (Packet_increment_hops p) = pkt_hash p"
  "pkt_data_offset (Packet_increment_hops p) = pkt_data_offset p"
  "length (pkt_raw (Packet_increment_hops p)) = length (pkt_raw p)"
  by (simp_all add: Packet_increment_hops_def Let_def)

lemma Packet_increment_hops_count:
  "unat (ph_hops (pkt_header (Packet_increment_hops p))) = min 255 (unat (ph_hops (pkt_header p)) + 1)"
proof (cases "ph_hops (pkt_header p) < 255")
  case True
  then have "unat (ph_hops (pkt_header p)) < 255"
    by (simp add: word_less_nat_alt)
  moreover have "unat (ph_hops (pkt_header p) + 1) = unat (ph_hops (pkt_header p)) + 1"
    using calculation by (simp add: unat_word_ariths)
  ultimately show ?thesis
    using True by (simp add: Packet_increment_hops_def Let_def)
next
  case False
  then have "255 \<le> unat (ph_hops (pkt_header p))"
    by (simp add: word_less_nat_alt)
  moreover have "unat (ph_hops (pkt_header p)) \<le> 255"
    by simp
  ultimately show ?thesis
    using False by (simp add: Packet_increment_hops_def)
qed

lemma Packet_increment_hops_data:
  assumes "Packet_wf sha256 p"
  shows "Packet_data (Packet_increment_hops p) = Packet_data p"
proof -
  have "2 \<le> pkt_data_offset p"
    using assms PacketHeader_unpack_Ok(2) [of "pkt_raw p" "pkt_header p" "pkt_data_offset p"]
    by (auto simp: Packet_wf_def PacketHeader_size_def wire_constants)
  then show ?thesis
    by (simp add: Packet_data_def Packet_increment_hops_def Let_def)
qed

lemma link_id_from_raw_pack:
  assumes "PacketHeader_wf h" and "64 \<le> length data"
  shows "link_id_from_raw sha256 (PacketHeader_pack h @ data) (header_type (ph_flags h)) =
    Some (take 16 (sha256 ((push_bit 2 (DestinationType_u8 (destination_type (ph_flags h)))
            OR PacketType_u8 (packet_type (ph_flags h)))
          # ph_destination_hash h @ [PacketContext_to_byte (ph_context h)] @ take 64 data)))"
proof -
  have d: "length (ph_destination_hash h) = 16"
    using assms by (simp add: PacketHeader_wf_def)
  show ?thesis
    using assms(2) by (simp add: link_id_from_raw_def get_hashable_part_pack [OF assms(1)] d Let_def)
qed

subsection \<open>Properties\<close>

text \<open>
  The fields of a header that its hash covers: a forwarder may change the others (header
  type, transport id, transport mode, context flag, hop count).
\<close>

definition same_end_to_end :: "PacketHeader \<Rightarrow> PacketHeader \<Rightarrow> bool" where
  "same_end_to_end h h' \<longleftrightarrow>
     destination_type (ph_flags h) = destination_type (ph_flags h')
     \<and> packet_type (ph_flags h) = packet_type (ph_flags h')
     \<and> ph_destination_hash h = ph_destination_hash h'
     \<and> ph_context h = ph_context h'"

lemma Packet_new_parses:
  assumes "PacketHeader_wf h" and "Packet_new sha256 h data = Ok p"
  shows "Packet_from_raw sha256 (pkt_raw p) = Ok p"
proof -
  have len: "length (PacketHeader_pack h) = PacketHeader_size h"
    using assms(1) by (rule PacketHeader_pack_length)
  then have "19 \<le> length (PacketHeader_pack h)" by (simp add: PacketHeader_size_def wire_constants)
  with assms len show ?thesis
    by (auto simp: Packet_new_def Packet_from_raw_def Packet_from_raw_owned_def Let_def
        PacketHeader_unpack_pack split: if_splits)
qed

text \<open>
  C25: parsing recovers exactly what was packed. A well-formed header followed by any payload
  that together fit the MTU makes a packet; parsing the raw bytes of that packet returns the
  same packet, header, payload and hashes included.
\<close>

theorem packet_roundtrip:
  assumes "PacketHeader_wf h" and "PacketHeader_size h + length data \<le> MTU"
  shows "\<exists>p. Packet_new sha256 h data = Ok p \<and> Packet_from_raw sha256 (pkt_raw p) = Ok p
    \<and> pkt_header p = h \<and> Packet_data p = data"
proof -
  obtain p where p: "Packet_new sha256 h data = Ok p"
    using assms PacketHeader_pack_length [OF assms(1)] by (simp add: Packet_new_def Let_def)
  with Packet_new_wf [OF assms(1) p] Packet_new_parses [OF assms(1) p] show ?thesis by blast
qed

definition example_header :: PacketHeader where
  "example_header = \<lparr>ph_flags = \<lparr>header_type = Header2, context_flag = True, transport_type = Transport,
      destination_type = DT_Plain, packet_type = PT_Announce\<rparr>, ph_hops = 7,
      ph_transport_id = Some (replicate 16 0xAA), ph_destination_hash = replicate 16 0xBB,
      ph_context = Ctx_PathResponse\<rparr>"

theorem packet_roundtrip_witness:
  "\<exists>p. Packet_new id example_header [1, 2, 3] = Ok p \<and> Packet_from_raw id (pkt_raw p) = Ok p
    \<and> pkt_header p = example_header \<and> Packet_data p = [1, 2, 3]"
proof (rule packet_roundtrip)
  show "PacketHeader_wf example_header"
    by (simp add: PacketHeader_wf_def example_header_def)
  show "PacketHeader_size example_header + length [1, 2, 3 :: u8] \<le> MTU"
    by (simp add: PacketHeader_size_def example_header_def wire_constants)
qed

text \<open>
  Parsing loses nothing but the interface authentication bit. Whatever raw bytes the parser
  accepts, packing the header it returns and appending the payload it leaves gives the same
  bytes with bit 7 of the first byte cleared; the header is well formed, and the parser rejects
  exactly the inputs shorter than the header their flags announce.
\<close>

lemma header_parse_exact:
  "case PacketHeader_unpack raw of
     Ok (h, n) \<Rightarrow> PacketHeader_wf h \<and> n = PacketHeader_size h \<and> n \<le> length raw
       \<and> PacketHeader_pack h @ drop n raw = raw[0 := raw ! 0 AND 0x7F]
   | Err e \<Rightarrow> e = HE_TooShort (length raw)
       \<and> (length raw < 19 \<or> (length raw < 35 \<and> bit (raw ! 0) 6))"
  using PacketHeader_unpack_Ok [of raw] PacketHeader_unpack_Err [of raw]
  by (auto split: sum.splits)

text \<open>
  Forwarding does not change a packet's identity. Two well-formed headers that agree on the
  end-to-end fields give the same packet hash in front of the same payload, whatever their
  header types, transport ids, transport modes, context flags and hop counts; for a link request
  (a payload of at least 64 bytes) the link id is the same too, and it does not depend on what
  follows the two public keys.
\<close>

lemma forwarding_keeps_hash:
  assumes "PacketHeader_wf h" and "PacketHeader_wf h'" and "same_end_to_end h h'"
  shows "packet_hash sha256 (PacketHeader_pack h @ data) (header_type (ph_flags h)) =
      packet_hash sha256 (PacketHeader_pack h' @ data) (header_type (ph_flags h'))
    \<and> (length keys = 64 \<longrightarrow>
      link_id_from_raw sha256 (PacketHeader_pack h @ keys @ s) (header_type (ph_flags h)) =
      link_id_from_raw sha256 (PacketHeader_pack h' @ keys @ s') (header_type (ph_flags h')))"
  using assms
  by (simp_all add: packet_hash_hashable get_hashable_part_pack same_end_to_end_def
      link_id_from_raw_pack)

definition example_header1 :: PacketHeader where
  "example_header1 = \<lparr>ph_flags = \<lparr>header_type = Header1, context_flag = False, transport_type = Broadcast,
      destination_type = DT_Plain, packet_type = PT_Announce\<rparr>, ph_hops = 1,
      ph_transport_id = None, ph_destination_hash = replicate 16 0xBB,
      ph_context = Ctx_PathResponse\<rparr>"

lemma forwarding_keeps_hash_witness:
  "packet_hash id (PacketHeader_pack example_header @ [9]) Header2 =
     packet_hash id (PacketHeader_pack example_header1 @ [9]) Header1
   \<and> link_id_from_raw id (PacketHeader_pack example_header @ replicate 64 5 @ [1]) Header2 =
     link_id_from_raw id (PacketHeader_pack example_header1 @ replicate 64 5 @ [2, 3]) Header1"
  using forwarding_keeps_hash [of example_header example_header1 id "[9]" "replicate 64 5" "[1]" "[2, 3]"]
  by (simp add: PacketHeader_wf_def example_header_def example_header1_def same_end_to_end_def)

text \<open>
  Relaying \<open>n\<close> times keeps a packet consistent. On a packet whose cached fields agree with
  its raw bytes, \<open>n\<close> applications of \<open>increment_hops\<close> keep them in agreement, leave payload and
  hash alone, and count hops up to 255, where the counter stops instead of wrapping.
\<close>

lemma increment_hops_saturates:
  assumes "Packet_wf sha256 p"
  shows "Packet_wf sha256 ((Packet_increment_hops ^^ n) p)
    \<and> Packet_data ((Packet_increment_hops ^^ n) p) = Packet_data p
    \<and> pkt_hash ((Packet_increment_hops ^^ n) p) = pkt_hash p
    \<and> unat (ph_hops (pkt_header ((Packet_increment_hops ^^ n) p))) =
        min 255 (unat (ph_hops (pkt_header p)) + n)"
proof (induction n)
  case 0
  have "unat (ph_hops (pkt_header p)) \<le> 255"
    by simp
  with assms show ?case by simp
next
  case (Suc n)
  then show ?case
    by (auto simp: Packet_increment_hops_wf Packet_increment_hops_count Packet_increment_hops_data)
qed

definition example_packet :: Packet where
  "example_packet = (case Packet_new id example_header [1, 2, 3] of Inr p \<Rightarrow> p)"

lemma example_packet_new: "Packet_new id example_header [1, 2, 3] = Ok example_packet"
  by (simp add: example_packet_def Packet_new_def Let_def PacketHeader_pack_def example_header_def
      wire_constants)

lemma increment_hops_saturates_witness:
  "unat (ph_hops (pkt_header ((Packet_increment_hops ^^ 300) example_packet))) = 255"
proof -
  have wf: "PacketHeader_wf example_header"
    by (simp add: PacketHeader_wf_def example_header_def)
  have "Packet_wf id example_packet"
    by (rule Packet_new_wf [OF wf example_packet_new])
  from increment_hops_saturates [OF this, of 300] show ?thesis
    by simp
qed

end
