(* ===== verification/Link_Signalling.thy ===== *)
theory Link_Signalling
  imports Wire_Header
begin

text \<open>
  Link request and proof signalling, \<open>src/crates/rns-wire/src/link_signalling.rs\<close>, and the
  bodies of delivery proofs, \<open>src/crates/rns-wire/src/proof.rs\<close>. A \<open>usize\<close> has at least 32 bits.
\<close>

subsection \<open>Link MTUs\<close>

definition BASE_LINK_MTU :: u32 where "BASE_LINK_MTU = 500"
definition MAX_SIGNALLED_LINK_MTU :: u32 where "MAX_SIGNALLED_LINK_MTU = 0x1fffff"
definition DEFAULT_LINK_MODE :: u8 where "DEFAULT_LINK_MODE = 1"

datatype LinkSignallingError =
    LS_InvalidLength (lse_actual: nat) (lse_legacy: nat) (lse_modern: nat)
  | LS_InvalidMtu u32
  | LS_InvalidMode u8
  | LS_MduUnavailable

datatype LinkMtu = LinkMtu (LinkMtu_get: u32)

definition LinkMtu_try_from_signal :: "u32 option \<Rightarrow> (LinkSignallingError, LinkMtu) result" where
  "LinkMtu_try_from_signal signal =
    (case signal of
       None \<Rightarrow> Ok (LinkMtu BASE_LINK_MTU)
     | Some value \<Rightarrow>
         if value = 0 then Ok (LinkMtu BASE_LINK_MTU)
         else if BASE_LINK_MTU \<le> value \<and> value \<le> MAX_SIGNALLED_LINK_MTU then Ok (LinkMtu value)
         else Err (LS_InvalidMtu value))"

definition checked_sub :: "nat \<Rightarrow> nat \<Rightarrow> nat option" where
  "checked_sub a b = (if b \<le> a then Some (a - b) else None)"

definition LinkMtu_checked_mdu :: "LinkMtu \<Rightarrow> (LinkSignallingError, nat) result" where
  "LinkMtu_checked_mdu m =
    (let mtu = unat (LinkMtu_get m);
         overhead = 1 + HEADER_MINSIZE + TOKEN_OVERHEAD
     in ok_or LS_MduUnavailable
          (Option.bind (map_option (\<lambda>n. n div AES128_BLOCKSIZE * AES128_BLOCKSIZE) (checked_sub mtu overhead))
             (\<lambda>n. checked_sub n 1)))"

subsection \<open>The three-byte field\<close>

record SignallingData =
  sd_mode :: u8
  sd_mtu :: u32

definition SignallingData_new :: "u8 \<Rightarrow> u32 \<Rightarrow> SignallingData" where
  "SignallingData_new mode mtu = \<lparr>sd_mode = mode AND 7, sd_mtu = mtu AND MAX_SIGNALLED_LINK_MTU\<rparr>"

definition SignallingData_try_new :: "u8 \<Rightarrow> u32 \<Rightarrow> (LinkSignallingError, SignallingData) result" where
  "SignallingData_try_new mode mtu =
    (if mode > 7 then Err (LS_InvalidMode mode)
     else and_then (LinkMtu_try_from_signal (Some mtu)) (\<lambda>m. Ok \<lparr>sd_mode = mode, sd_mtu = LinkMtu_get m\<rparr>))"

definition SignallingData_pack :: "SignallingData \<Rightarrow> bytes" where
  "SignallingData_pack d =
    (let value = (sd_mtu d AND MAX_SIGNALLED_LINK_MTU) OR push_bit 21 (ucast (sd_mode d AND 7));
         bytes = u32_to_be value
     in [bytes ! 1, bytes ! 2, bytes ! 3])"

definition SignallingData_unpack :: "bytes \<Rightarrow> SignallingData option" where
  "SignallingData_unpack bytes =
    (if length bytes < 3 then None
     else let value = push_bit 16 (ucast (bytes ! 0)) OR push_bit 8 (ucast (bytes ! 1)) OR ucast (bytes ! 2) :: u32
          in Some \<lparr>sd_mode = ucast (drop_bit 21 value AND 7), sd_mtu = value AND MAX_SIGNALLED_LINK_MTU\<rparr>)"

record LinkSignalling =
  ls_mode :: u8
  ls_mtu :: LinkMtu
  ls_signalling_present :: bool

text \<open>The \<open>expect\<close> of \<open>parse\<close> is on a slice of three bytes: \<open>the\<close> of a \<open>Some\<close>.\<close>

definition signalling_parse :: "bytes \<Rightarrow> nat \<Rightarrow> (LinkSignallingError, LinkSignalling) result" where
  "signalling_parse data legacy =
    (if length data = legacy then
       Ok \<lparr>ls_mode = DEFAULT_LINK_MODE, ls_mtu = LinkMtu BASE_LINK_MTU, ls_signalling_present = False\<rparr>
     else if length data \<noteq> legacy + 3 then Err (LS_InvalidLength (length data) legacy (legacy + 3))
     else let signalling = the (SignallingData_unpack (drop legacy data)) in
       and_then (LinkMtu_try_from_signal (Some (sd_mtu signalling))) (\<lambda>m.
         Ok \<lparr>ls_mode = sd_mode signalling, ls_mtu = m, ls_signalling_present = True\<rparr>))"

definition parse_request_signalling :: "bytes \<Rightarrow> (LinkSignallingError, LinkSignalling) result" where
  "parse_request_signalling data = signalling_parse data 64"

definition parse_proof_signalling :: "bytes \<Rightarrow> (LinkSignallingError, LinkSignalling) result" where
  "parse_proof_signalling data = signalling_parse data 96"

subsection \<open>Delivery proofs\<close>

datatype ProofData =
    Explicit (pd_packet_hash: bytes) (pd_signature: bytes)
  | Implicit (pd_signature: bytes)

definition ProofData_from_bytes :: "bytes \<Rightarrow> ProofData option" where
  "ProofData_from_bytes data =
    (if length data = EXPL_LENGTH then Some (Explicit (take 32 data) (subslice 32 96 data))
     else if length data = IMPL_LENGTH then Some (Implicit (take 64 data))
     else None)"

fun ProofData_to_bytes :: "ProofData \<Rightarrow> bytes" where
  "ProofData_to_bytes (Explicit hash sig) = hash @ sig"
| "ProofData_to_bytes (Implicit sig) = sig"

fun ProofData_wf :: "ProofData \<Rightarrow> bool" where
  "ProofData_wf (Explicit hash sig) = (length hash = 32 \<and> length sig = 64)"
| "ProofData_wf (Implicit sig) = (length sig = 64)"

subsection \<open>Lemmas\<close>

lemma LinkMtu_try_from_signal_Ok:
  "LinkMtu_try_from_signal s = Ok m \<Longrightarrow> 500 \<le> unat (LinkMtu_get m) \<and> unat (LinkMtu_get m) \<le> 2097151"
  by (auto simp: LinkMtu_try_from_signal_def BASE_LINK_MTU_def MAX_SIGNALLED_LINK_MTU_def word_le_nat_alt
      split: option.splits if_splits)

lemma LinkMtu_checked_mdu_eq:
  assumes "500 \<le> unat (LinkMtu_get m)"
  shows "LinkMtu_checked_mdu m = Ok ((unat (LinkMtu_get m) - 68) div 16 * 16 - 1)"
proof -
  have "1 \<le> (unat (LinkMtu_get m) - 68) div 16 * 16"
    using assms by (simp add: div_greater_zero_iff Suc_le_eq)
  with assms show ?thesis
    by (simp add: LinkMtu_checked_mdu_def checked_sub_def wire_constants)
qed

lemma signalling_masks:
  "w AND 7 = take_bit 3 (w :: 'a::len word)"
  "u AND MAX_SIGNALLED_LINK_MTU = take_bit 21 u"
  by (simp_all add: take_bit_eq_mask mask_eq_exp_minus_1 MAX_SIGNALLED_LINK_MTU_def)

lemma u24_rejoin:
  fixes v :: u32
  assumes "unat v < 2 ^ 24"
  shows "push_bit 16 (ucast (ucast (drop_bit 16 v) :: u8)) OR push_bit 8 (ucast (ucast (drop_bit 8 v) :: u8))
    OR ucast (ucast v :: u8) = v" (is "?l = v")
proof (rule bit_eqI)
  fix n :: nat
  consider "n < 8" | "8 \<le> n \<and> n < 16" | "16 \<le> n \<and> n < 24" | "24 \<le> n" by linarith
  then show "bit ?l n = bit v n"
    using word_bit_bound [OF assms, of n] by cases (auto simp: bit_simps dest: bit_imp_possible_bit)
qed

lemma u24_split:
  fixes a b c :: u8 and v :: u32
  assumes "v = push_bit 16 (ucast a) OR push_bit 8 (ucast b) OR ucast c"
  shows "ucast (drop_bit 16 v) = a" and "ucast (drop_bit 8 v) = b" and "ucast v = c"
  unfolding assms by (auto intro!: bit_eqI simp: bit_simps u8_bit_high)

definition SignallingData_wf :: "SignallingData \<Rightarrow> bool" where
  "SignallingData_wf d \<longleftrightarrow> sd_mode d \<le> 7 \<and> sd_mtu d \<le> MAX_SIGNALLED_LINK_MTU"

lemma SignallingData_wf_iff:
  "SignallingData_wf d \<longleftrightarrow> unat (sd_mode d) < 2 ^ 3 \<and> unat (sd_mtu d) < 2 ^ 21"
  by (simp add: SignallingData_wf_def word_le_nat_alt MAX_SIGNALLED_LINK_MTU_def less_Suc_eq_le [symmetric])

lemma signalling_fields:
  fixes mode :: u8 and mtu :: u32
  assumes "v = take_bit 21 mtu OR push_bit 21 (ucast (take_bit 3 mode))"
  shows "take_bit 21 v = take_bit 21 mtu" and "ucast (take_bit 3 (drop_bit 21 v)) = take_bit 3 mode"
  unfolding assms by (auto intro!: bit_eqI simp: bit_simps)

lemma SignallingData_unpack_pack:
  assumes "SignallingData_wf d"
  shows "SignallingData_unpack (SignallingData_pack d @ rest) = Some d"
proof -
  define v where v: "v = take_bit 21 (sd_mtu d) OR push_bit 21 (ucast (take_bit 3 (sd_mode d)))"
  have "v = take_bit 24 v"
    unfolding v by (auto intro!: bit_eqI simp: bit_simps)
  then have "unat v < 2 ^ 24"
    by (metis unsigned_take_bit_eq take_bit_nat_less_exp)
  note rejoin = u24_rejoin [OF this]
  have "SignallingData_pack d = [ucast (drop_bit 16 v), ucast (drop_bit 8 v), ucast v]"
    unfolding SignallingData_pack_def u32_to_be_def Let_def signalling_masks v [symmetric] by simp
  then have "SignallingData_unpack (SignallingData_pack d @ rest) =
      Some \<lparr>sd_mode = ucast (take_bit 3 (drop_bit 21 v)), sd_mtu = take_bit 21 v\<rparr>"
    using rejoin by (simp add: SignallingData_unpack_def signalling_masks Let_def del: drop_bit_or take_bit_or)
  with signalling_fields [OF v] assms show ?thesis
    by (simp add: SignallingData_wf_iff word_take_bit_self)
qed

lemma SignallingData_pack_unpack:
  assumes "SignallingData_unpack bs = Some d" and "length bs = 3"
  shows "SignallingData_wf d" and "SignallingData_pack d = bs"
proof -
  obtain a b c where bs: "bs = [a, b, c]"
    using assms(2) by (auto simp: numeral_eq_Suc length_Suc_conv)
  define v :: u32 where v: "v = push_bit 16 (ucast a) OR push_bit 8 (ucast b) OR ucast c"
  have d: "d = \<lparr>sd_mode = ucast (take_bit 3 (drop_bit 21 v)), sd_mtu = take_bit 21 v\<rparr>"
    using assms(1) by (simp add: SignallingData_unpack_def bs v signalling_masks)
  show "SignallingData_wf d"
    using take_bit_nat_less_exp [of 3 "unat (drop_bit 21 v)"] take_bit_nat_less_exp [of 21 "unat v"]
    by (simp add: d SignallingData_wf_iff unsigned_take_bit_eq unsigned_ucast_eq)
  have "take_bit 21 v OR push_bit 21 (ucast (take_bit 3 (ucast (take_bit 3 (drop_bit 21 v)) :: u8))) = v"
  proof (rule bit_eqI)
    fix n :: nat
    consider "n < 21" | "21 \<le> n \<and> n < 24" | "24 \<le> n" by linarith
    then show "bit (take_bit 21 v OR push_bit 21 (ucast (take_bit 3 (ucast (take_bit 3 (drop_bit 21 v)) :: u8)))) n = bit v n"
      unfolding v by cases (auto simp: bit_simps u8_bit_high)
  qed
  with u24_split [OF v] show "SignallingData_pack d = bs"
    by (simp add: SignallingData_pack_def u32_to_be_def Let_def signalling_masks d bs)
qed

interpretation sigdata: strict_codec SignallingData_pack
    "\<lambda>bs. if length bs = 3 then SignallingData_unpack bs else None" SignallingData_wf
proof (unfold_locales, goal_cases)
  case (1 x)
  have "length (SignallingData_pack x) = 3"
    by (simp add: SignallingData_pack_def Let_def)
  with 1 show ?case using SignallingData_unpack_pack [of x "[]"] by simp
next
  case (2 bs x)
  then show ?case using SignallingData_pack_unpack [of bs x] by (simp split: if_splits)
qed

interpretation proofdata: strict_codec ProofData_to_bytes ProofData_from_bytes ProofData_wf
proof (unfold_locales, goal_cases)
  case (1 x)
  then show ?case
    by (cases x) (simp_all add: ProofData_from_bytes_def wire_constants subslice_def)
next
  case (2 bs x)
  then show ?case
    using subslice_join [of 0 32 96 bs]
    by (auto simp: ProofData_from_bytes_def wire_constants subslice_def split: if_splits)
qed

lemma signalling_parse_Ok:
  assumes "signalling_parse data legacy = Ok l"
  shows "500 \<le> unat (LinkMtu_get (ls_mtu l)) \<and> unat (LinkMtu_get (ls_mtu l)) \<le> 2097151"
  using assms
  by (auto simp: signalling_parse_def Let_def result_simps BASE_LINK_MTU_def split: if_splits
      dest: LinkMtu_try_from_signal_Ok)

subsection \<open>Properties\<close>

text \<open>
  Checked signalling survives the wire without truncation. A mode and MTU accepted by
  \<open>try_new\<close> are read back from a request as the same mode and effective MTU behind any
  64 bytes of keys, and every other mode or MTU is rejected with the value in the error.
\<close>

lemma signalling_roundtrip:
  assumes "length keys = 64"
  shows "case SignallingData_try_new mode mtu of
      Ok d \<Rightarrow> parse_request_signalling (keys @ SignallingData_pack d) =
          Ok \<lparr>ls_mode = mode, ls_mtu = LinkMtu (if mtu = 0 then 500 else mtu), ls_signalling_present = True\<rparr>
    | Err e \<Rightarrow> (mode > 7 \<and> e = LS_InvalidMode mode)
          \<or> (mode \<le> 7 \<and> mtu \<noteq> 0 \<and> (mtu < 500 \<or> mtu > 2097151) \<and> e = LS_InvalidMtu mtu)"
proof (cases "SignallingData_try_new mode mtu")
  case (Inl e)
  then show ?thesis
    by (auto simp: SignallingData_try_new_def LinkMtu_try_from_signal_def BASE_LINK_MTU_def
        MAX_SIGNALLED_LINK_MTU_def split: if_splits)
next
  case (Inr d)
  then have d: "SignallingData_wf d" "sd_mode d = mode" "sd_mtu d = (if mtu = 0 then 500 else mtu)"
    by (auto simp: SignallingData_try_new_def LinkMtu_try_from_signal_def BASE_LINK_MTU_def
        MAX_SIGNALLED_LINK_MTU_def SignallingData_wf_def split: if_splits)
  have len: "length (SignallingData_pack d) = 3"
    by (simp add: SignallingData_pack_def Let_def)
  have "LinkMtu_try_from_signal (Some (sd_mtu d)) = Ok (LinkMtu (sd_mtu d))"
    using Inr by (auto simp: SignallingData_try_new_def LinkMtu_try_from_signal_def BASE_LINK_MTU_def
        MAX_SIGNALLED_LINK_MTU_def split: if_splits)
  with assms Inr d len SignallingData_unpack_pack [OF d(1), of "[]"] show ?thesis
    by (simp add: parse_request_signalling_def signalling_parse_def)
qed

lemma signalling_roundtrip_witness:
  "parse_request_signalling (replicate 64 0 @ SignallingData_pack \<lparr>sd_mode = 1, sd_mtu = 1064\<rparr>) =
     Ok \<lparr>ls_mode = 1, ls_mtu = LinkMtu 1064, ls_signalling_present = True\<rparr>"
  using signalling_roundtrip [of "replicate 64 0" 1 1064]
  by (simp add: SignallingData_try_new_def LinkMtu_try_from_signal_def BASE_LINK_MTU_def
      MAX_SIGNALLED_LINK_MTU_def)

end
