(* ===== verification/Framing.thy ===== *)
theory Framing
  imports Prelude
begin

text \<open>
  The contracts the serial framings share. \<open>stuffing\<close> is byte stuffing: an escape that hides
  the delimiter and an unescape that restores it. \<open>chunked_machine\<close> relates an optimised feed
  over chunks to the byte-at-a-time machine it replaces, from which the independence of
  segmentation follows. \<open>framing\<close> adds that feeding one frame delivers its payload, and gives
  the delivery of whole streams. HDLC and KISS interpret all three.
\<close>

subsection \<open>Byte stuffing\<close>

definition stuff :: "u8 \<Rightarrow> u8 \<Rightarrow> (u8 \<Rightarrow> u8) \<Rightarrow> bytes \<Rightarrow> bytes" where
  "stuff esc flag tr xs = concat (map (\<lambda>b. if b = esc \<or> b = flag then [esc, tr b] else [b]) xs)"

lemma stuff_simps [simp]:
  "stuff esc flag tr [] = []"
  "stuff esc flag tr (b # xs) = (if b = esc \<or> b = flag then [esc, tr b] else [b]) @ stuff esc flag tr xs"
  by (simp_all add: stuff_def)

lemma stuff_append: "stuff esc flag tr (xs @ ys) = stuff esc flag tr xs @ stuff esc flag tr ys"
  by (simp add: stuff_def)

lemma stuff_plain: "\<forall>b\<in>set xs. \<not> (b = esc \<or> b = flag) \<Longrightarrow> stuff esc flag tr xs = xs"
  by (induction xs) auto

locale stuffing =
  fixes esc flag :: u8
    and tr :: "u8 \<Rightarrow> u8"
    and escape unescape :: "bytes \<Rightarrow> bytes"
  assumes escape_stuff: "escape xs = stuff esc flag tr xs"
    and unescape_Nil: "unescape [] = []"
    and unescape_plain: "b \<noteq> esc \<Longrightarrow> unescape (b # xs) = b # unescape xs"
    and unescape_pair: "b = esc \<or> b = flag \<Longrightarrow> unescape (esc # tr b # xs) = b # unescape xs"
    and distinct_marks: "flag \<noteq> esc" "tr esc \<noteq> flag" "tr flag \<noteq> flag"
begin

lemma unescape_escape_append: "unescape (escape xs @ ys) = xs @ unescape ys"
  by (induction xs) (auto simp: escape_stuff unescape_pair unescape_plain)

lemma unescape_escape: "unescape (escape xs) = xs"
  using unescape_escape_append [of xs "[]"] by (simp add: unescape_Nil)

lemma flag_hidden: "flag \<notin> set (escape xs)"
  by (induction xs) (use distinct_marks in \<open>auto simp: escape_stuff\<close>)

lemma length_escape: "length xs \<le> length (escape xs)" "length (escape xs) \<le> 2 * length xs"
  by (induction xs) (auto simp: escape_stuff)

lemma length_escape_eq: "length (escape xs) = length xs + length (filter (\<lambda>b. b = esc \<or> b = flag) xs)"
  by (induction xs) (auto simp: escape_stuff)

lemma escape_Nil_iff: "escape xs = [] \<longleftrightarrow> xs = []"
  using length_escape(1) [of xs] by (auto simp: escape_stuff)

end

subsection \<open>Machines fed by chunks\<close>

primrec run :: "('s \<Rightarrow> 'b \<Rightarrow> 's \<times> 'f list) \<Rightarrow> 's \<Rightarrow> 'b list \<Rightarrow> 's \<times> 'f list" where
  "run step s [] = (s, [])"
| "run step s (b # bs) =
    (let (s1, f1) = step s b; (s2, f2) = run step s1 bs in (s2, f1 @ f2))"

lemma run_append:
  "run step s (xs @ ys) =
    (let (s1, f1) = run step s xs; (s2, f2) = run step s1 ys in (s2, f1 @ f2))"
  by (induction xs arbitrary: s) (auto split: prod.splits)

lemma run_inv:
  assumes "\<And>s b. invar s \<Longrightarrow> invar (fst (step s b))" and "invar s"
  shows "invar (fst (run step s xs))"
  using assms(2)
proof (induction xs arbitrary: s)
  case Nil
  then show ?case by simp
next
  case (Cons b xs)
  then show ?case
    using assms(1) [of s b] by (simp split: prod.splits) (metis fst_conv)
qed

locale chunked_machine =
  fixes step :: "'s \<Rightarrow> u8 \<Rightarrow> 's \<times> 'f list"
    and feed :: "'s \<Rightarrow> bytes \<Rightarrow> 's \<times> 'f list"
    and invar :: "'s \<Rightarrow> bool"
  assumes feed_run: "invar s \<Longrightarrow> feed s xs = run step s xs"
    and step_inv: "invar s \<Longrightarrow> invar (fst (step s b))"
begin

lemma feed_inv: "invar s \<Longrightarrow> invar (fst (feed s xs))"
  using run_inv [of invar step s xs] step_inv by (simp add: feed_run)

lemma feed_append:
  assumes "invar s"
  shows "feed s (xs @ ys) =
    (let (s1, f1) = feed s xs; (s2, f2) = feed s1 ys in (s2, f1 @ f2))"
proof -
  have "invar (fst (run step s xs))"
    using assms step_inv by (rule run_inv [rotated])
  then show ?thesis
    using assms by (auto simp: feed_run run_append split: prod.splits)
qed

text \<open>How the transport splits the byte stream into reads does not matter.\<close>

lemma feed_chunks: "invar s \<Longrightarrow> run feed s chunks = feed s (concat chunks)"
proof (induction chunks arbitrary: s)
  case Nil
  then show ?case by (simp add: feed_run)
next
  case (Cons c chunks)
  have "invar (fst (feed s c))" using Cons.prems by (rule feed_inv)
  with Cons show ?case
    by (auto simp: feed_append split: prod.splits)
qed

end

subsection \<open>Framings\<close>

text \<open>
  \<open>frame p\<close> is the encoding of a message, \<open>out p\<close> what the deframer reports for it, \<open>ok p\<close>
  the messages the format can carry, \<open>quiet s\<close> the states with no partial frame pending.
\<close>

locale framing = chunked_machine step feed invar
  for step :: "'s \<Rightarrow> u8 \<Rightarrow> 's \<times> 'f list" and feed invar +
  fixes frame :: "'p \<Rightarrow> bytes"
    and out :: "'p \<Rightarrow> 'f"
    and ok :: "'p \<Rightarrow> bool"
    and quiet :: "'s \<Rightarrow> bool"
  assumes feed_frame: "invar s \<Longrightarrow> ok p \<Longrightarrow>
      \<exists>s' g. feed s (frame p) = (s', g @ [out p]) \<and> quiet s' \<and> length g \<le> 1 \<and> (quiet s \<longrightarrow> g = [])"
begin

lemma feed_frame_quiet:
  "invar s \<Longrightarrow> quiet s \<Longrightarrow> ok p \<Longrightarrow> \<exists>s'. feed s (frame p) = (s', [out p]) \<and> quiet s' \<and> invar s'"
  using feed_frame [of s p] feed_inv [of s "frame p"] by auto

lemma feed_stream_quiet:
  assumes "invar s" and "quiet s" and "\<forall>p\<in>set ps. ok p"
  shows "\<exists>s'. feed s (concat (map frame ps)) = (s', map out ps) \<and> quiet s' \<and> invar s'"
  using assms
proof (induction ps arbitrary: s)
  case Nil
  then show ?case by (simp add: feed_run)
next
  case (Cons p ps)
  then obtain s1 where s1: "feed s (frame p) = (s1, [out p])" "quiet s1" "invar s1"
    using feed_frame_quiet [of s p] by auto
  with Cons obtain s2 where "feed s1 (concat (map frame ps)) = (s2, map out ps)" "quiet s2" "invar s2"
    by force
  with s1 Cons.prems show ?case by (simp add: feed_append)
qed

text \<open>From any state at most one spurious frame precedes the stream's own messages.\<close>

lemma feed_stream_resync:
  assumes "invar s" and "\<forall>p\<in>set ps. ok p" and "ps \<noteq> []"
  shows "\<exists>s' g. feed s (concat (map frame ps)) = (s', g @ map out ps) \<and> length g \<le> 1"
proof -
  obtain p qs where ps: "ps = p # qs" using assms(3) by (cases ps) auto
  obtain s1 g where s1: "feed s (frame p) = (s1, g @ [out p])" "quiet s1" "length g \<le> 1"
    using feed_frame [of s p] assms ps by auto
  have "invar s1" using feed_inv [of s "frame p"] assms(1) s1 by simp
  with feed_stream_quiet [of s1 qs] s1 assms(2) obtain s2
    where "feed s1 (concat (map frame qs)) = (s2, map out qs)"
    by (auto simp: ps)
  with s1 assms(1) show ?thesis by (auto simp: ps feed_append)
qed

lemma feed_segmented:
  assumes "invar s" and "quiet s" and "\<forall>p\<in>set ps. ok p" and "concat chunks = concat (map frame ps)"
  shows "snd (run feed s chunks) = map out ps"
  using feed_stream_quiet [OF assms(1-3)] assms(1,4) by (auto simp: feed_chunks)

end

end
