(* ===== verification/Hdlc.thy ===== *)
theory Hdlc
  imports Framing
begin

text \<open>
  HDLC framing, \<open>src/crates/rns-interface/src/hdlc.rs\<close>. A scan over \<open>data[i..]\<close> is a recursion on
  the rest of the slice; the reusable \<open>unescape_scratch\<close> buffer, cleared before each use and never
  read across calls, is a local value.
\<close>

subsection \<open>Escaping\<close>

definition HDLC_FLAG :: u8 where "HDLC_FLAG = 0x7E"
definition HDLC_ESC :: u8 where "HDLC_ESC = 0x7D"
definition HDLC_ESC_MASK :: u8 where "HDLC_ESC_MASK = 0x20"
definition HDLC_MAX_FRAME_SIZE :: nat where "HDLC_MAX_FRAME_SIZE = 524288"

lemmas hdlc_marks = HDLC_FLAG_def HDLC_ESC_def HDLC_ESC_MASK_def

function hdlc_escape_into :: "bytes \<Rightarrow> bytes \<Rightarrow> bytes" where
  "hdlc_escape_into data out =
    (if data = [] then out
     else case position (\<lambda>b. b = HDLC_ESC \<or> b = HDLC_FLAG) data of
       Some rel \<Rightarrow> hdlc_escape_into (drop (rel + 1) data)
                    (out @ take rel data @ [HDLC_ESC, (data ! rel) XOR HDLC_ESC_MASK])
     | None \<Rightarrow> out @ data)"
  by pat_completeness auto
termination
  by (relation "measure (\<lambda>(data, out). length data)") auto

function hdlc_unescape_into :: "bytes \<Rightarrow> bytes \<Rightarrow> bytes" where
  "hdlc_unescape_into data out =
    (if data = [] then out
     else case position (\<lambda>b. b = HDLC_ESC) data of
       Some hit \<Rightarrow>
         (let out = out @ take hit data in
          if hit + 1 < length data then
            let nxt = data ! (hit + 1);
                out = (if nxt = HDLC_FLAG XOR HDLC_ESC_MASK then out @ [HDLC_FLAG]
                       else if nxt = HDLC_ESC XOR HDLC_ESC_MASK then out @ [HDLC_ESC]
                       else out @ [HDLC_ESC, nxt])
            in hdlc_unescape_into (drop (hit + 2) data) out
          else out @ [HDLC_ESC])
     | None \<Rightarrow> out @ data)"
  by pat_completeness auto
termination
  by (relation "measure (\<lambda>(data, out). length data)") auto

declare hdlc_escape_into.simps [simp del] hdlc_unescape_into.simps [simp del]

definition hdlc_frame_into :: "bytes \<Rightarrow> bytes \<Rightarrow> bytes" where
  "hdlc_frame_into data out = hdlc_escape_into data (out @ [HDLC_FLAG]) @ [HDLC_FLAG]"

definition hdlc_escape :: "bytes \<Rightarrow> bytes" where
  "hdlc_escape data = hdlc_escape_into data []"

definition hdlc_unescape :: "bytes \<Rightarrow> bytes" where
  "hdlc_unescape data = hdlc_unescape_into data []"

definition hdlc_frame :: "bytes \<Rightarrow> bytes" where
  "hdlc_frame data = hdlc_frame_into data []"

subsection \<open>The deframer\<close>

record HdlcDeframer =
  hd_buffer :: bytes
  hd_in_frame :: bool

definition HdlcDeframer_new :: HdlcDeframer where
  "HdlcDeframer_new = \<lparr>hd_buffer = [], hd_in_frame = False\<rparr>"

definition HdlcDeframer_append_in_frame :: "HdlcDeframer \<Rightarrow> bytes \<Rightarrow> HdlcDeframer" where
  "HdlcDeframer_append_in_frame d chunk =
    (if length (hd_buffer d) + length chunk > HDLC_MAX_FRAME_SIZE
     then d\<lparr>hd_buffer := [], hd_in_frame := False\<rparr>
     else d\<lparr>hd_buffer := hd_buffer d @ chunk\<rparr>)"

definition HdlcDeframer_reset :: "HdlcDeframer \<Rightarrow> HdlcDeframer" where
  "HdlcDeframer_reset d = d\<lparr>hd_buffer := [], hd_in_frame := False\<rparr>"

text \<open>The body of the loop at a delimiter: \<open>chunk\<close> is the slice before it.\<close>

definition HdlcDeframer_on_flag :: "HdlcDeframer \<Rightarrow> bytes \<Rightarrow> HdlcDeframer \<times> bytes list" where
  "HdlcDeframer_on_flag d chunk =
    (if hd_in_frame d then
       let d = HdlcDeframer_append_in_frame d chunk;
           frames = (if hd_buffer d \<noteq> [] then
                       let scratch = hdlc_unescape_into (hd_buffer d) []
                       in if scratch \<noteq> [] then [scratch] else []
                     else [])
       in (d\<lparr>hd_buffer := [], hd_in_frame := True\<rparr>, frames)
     else (d\<lparr>hd_in_frame := True\<rparr>, []))"

function HdlcDeframer_feed :: "HdlcDeframer \<Rightarrow> bytes \<Rightarrow> HdlcDeframer \<times> bytes list" where
  "HdlcDeframer_feed d data =
    (if data = [] then (d, [])
     else case position (\<lambda>b. b = HDLC_FLAG) data of
       Some hit \<Rightarrow>
         (let (d1, f1) = HdlcDeframer_on_flag d (take hit data);
              (d2, f2) = HdlcDeframer_feed d1 (drop (hit + 1) data)
          in (d2, f1 @ f2))
     | None \<Rightarrow> (if hd_in_frame d then HdlcDeframer_append_in_frame d data else d, []))"
  by pat_completeness auto
termination
  by (relation "measure (\<lambda>(d, data). length data)") auto

declare HdlcDeframer_feed.simps [simp del]

subsection \<open>The byte-at-a-time reference\<close>

fun hdlc_unstuff :: "bytes \<Rightarrow> bytes" where
  "hdlc_unstuff [] = []"
| "hdlc_unstuff [b] = [b]"
| "hdlc_unstuff (b # c # xs) =
    (if b = HDLC_ESC then
       (if c = HDLC_FLAG XOR HDLC_ESC_MASK then [HDLC_FLAG]
        else if c = HDLC_ESC XOR HDLC_ESC_MASK then [HDLC_ESC]
        else [HDLC_ESC, c]) @ hdlc_unstuff xs
     else b # hdlc_unstuff (c # xs))"

definition hdlc_step :: "HdlcDeframer \<Rightarrow> u8 \<Rightarrow> HdlcDeframer \<times> bytes list" where
  "hdlc_step d b =
    (if b = HDLC_FLAG then HdlcDeframer_on_flag d []
     else (if hd_in_frame d then HdlcDeframer_append_in_frame d [b] else d, []))"

definition HdlcDeframer_inv :: "HdlcDeframer \<Rightarrow> bool" where
  "HdlcDeframer_inv d \<longleftrightarrow>
     length (hd_buffer d) \<le> HDLC_MAX_FRAME_SIZE \<and> (\<not> hd_in_frame d \<longrightarrow> hd_buffer d = [])"

definition hdlc_quiet :: "HdlcDeframer \<Rightarrow> bool" where
  "hdlc_quiet d \<longleftrightarrow> hd_buffer d = []"

definition hdlc_ok :: "bytes \<Rightarrow> bool" where
  "hdlc_ok p \<longleftrightarrow> p \<noteq> [] \<and> length (hdlc_escape p) \<le> HDLC_MAX_FRAME_SIZE"

subsection \<open>Lemmas\<close>

lemma hdlc_escape_into_stuff:
  "hdlc_escape_into data out = out @ stuff HDLC_ESC HDLC_FLAG (\<lambda>b. b XOR HDLC_ESC_MASK) data"
proof (induction data out rule: hdlc_escape_into.induct)
  case (1 data out)
  show ?case
  proof (cases "position (\<lambda>b. b = HDLC_ESC \<or> b = HDLC_FLAG) data")
    case None
    then have "\<forall>b\<in>set data. \<not> (b = HDLC_ESC \<or> b = HDLC_FLAG)"
      by (simp add: position_None_iff)
    from stuff_plain [OF this] None show ?thesis
      by (simp add: hdlc_escape_into.simps [of data])
  next
    case (Some rel)
    note split = position_Some_split [OF Some]
    let ?s = "stuff HDLC_ESC HDLC_FLAG (\<lambda>b. b XOR HDLC_ESC_MASK)"
    have "?s data = ?s (take rel data @ data ! rel # drop (Suc rel) data)"
      using split(1) by simp
    also have "\<dots> = take rel data @ [HDLC_ESC, data ! rel XOR HDLC_ESC_MASK] @ ?s (drop (Suc rel) data)"
      using split(2,3) by (auto simp: stuff_append stuff_plain)
    finally show ?thesis
      using Some 1 [OF _ Some] by (auto simp: hdlc_escape_into.simps [of data])
  qed
qed

lemma hdlc_unstuff_plain:
  "HDLC_ESC \<notin> set xs \<Longrightarrow> hdlc_unstuff (xs @ ys) = xs @ hdlc_unstuff ys"
proof (induction xs)
  case Nil
  then show ?case by simp
next
  case (Cons x xs)
  then show ?case by (cases "xs @ ys") auto
qed

lemma hdlc_unescape_into_unstuff: "hdlc_unescape_into data out = out @ hdlc_unstuff data"
proof (induction data out rule: hdlc_unescape_into.induct)
  case (1 data out)
  show ?case
  proof (cases "position (\<lambda>b. b = HDLC_ESC) data")
    case None
    then have "HDLC_ESC \<notin> set data" by (auto simp: position_None_iff)
    from hdlc_unstuff_plain [OF this, of "[]"] None show ?thesis
      by (simp add: hdlc_unescape_into.simps [of data])
  next
    case (Some hit)
    note split = position_Some_split [OF Some]
    have "HDLC_ESC \<notin> set (take hit data)" using split(2) by auto
    then have un: "hdlc_unstuff data = take hit data @ hdlc_unstuff (HDLC_ESC # drop (Suc hit) data)"
      using split(1,3) hdlc_unstuff_plain by metis
    show ?thesis
    proof (cases "drop (Suc hit) data")
      case Nil
      with Some un show ?thesis
        by (auto simp: hdlc_unescape_into.simps [of data] Let_def)
    next
      case (Cons c rest)
      then have "data ! (hit + 1) = c" "hit + 1 < length data" "drop (hit + 2) data = rest"
        by (auto dest: drop_ConsD)
      with Some un Cons 1 [OF _ Some refl] show ?thesis
        by (auto simp: hdlc_unescape_into.simps [of data] Let_def)
    qed
  qed
qed

interpretation hdlc: stuffing HDLC_ESC HDLC_FLAG "\<lambda>b. b XOR HDLC_ESC_MASK" hdlc_escape hdlc_unescape
proof (unfold_locales, goal_cases)
  case (3 b xs)
  then show ?case
    using hdlc_unstuff_plain [of "[b]" xs] by (simp add: hdlc_unescape_def hdlc_unescape_into_unstuff)
qed (auto simp: hdlc_escape_def hdlc_escape_into_stuff hdlc_unescape_def hdlc_unescape_into_unstuff
  hdlc_marks)

lemma hdlc_step_inv: "HdlcDeframer_inv d \<Longrightarrow> HdlcDeframer_inv (fst (hdlc_step d b))"
  by (auto simp: HdlcDeframer_inv_def hdlc_step_def HdlcDeframer_on_flag_def
      HdlcDeframer_append_in_frame_def Let_def)

lemma HdlcDeframer_append_Nil: "HdlcDeframer_inv d \<Longrightarrow> HdlcDeframer_append_in_frame d [] = d"
  by (simp add: HdlcDeframer_append_in_frame_def HdlcDeframer_inv_def)

lemma hdlc_run_plain:
  assumes "HDLC_FLAG \<notin> set xs" and "HdlcDeframer_inv d"
  shows "run hdlc_step d xs = (if hd_in_frame d then HdlcDeframer_append_in_frame d xs else d, [])"
  using assms
proof (induction xs arbitrary: d)
  case Nil
  then show ?case by (auto simp: HdlcDeframer_append_in_frame_def HdlcDeframer_inv_def)
next
  case (Cons b xs)
  have "HdlcDeframer_inv (fst (hdlc_step d b))" using Cons.prems(2) by (rule hdlc_step_inv)
  with Cons show ?case
    by (auto simp: hdlc_step_def HdlcDeframer_append_in_frame_def Let_def)
qed

lemma hdlc_run_flag:
  assumes "HDLC_FLAG \<notin> set xs" and "HdlcDeframer_inv d"
  shows "run hdlc_step d (xs @ [HDLC_FLAG]) = HdlcDeframer_on_flag d xs"
proof -
  have "length (hd_buffer d) \<le> HDLC_MAX_FRAME_SIZE" "\<not> hd_in_frame d \<longrightarrow> hd_buffer d = []"
    using assms(2) by (simp_all add: HdlcDeframer_inv_def)
  then show ?thesis
    using assms
    by (auto simp: run_append hdlc_run_plain hdlc_step_def HdlcDeframer_on_flag_def
        HdlcDeframer_append_in_frame_def Let_def)
qed

lemma hdlc_feed_run: "HdlcDeframer_inv d \<Longrightarrow> HdlcDeframer_feed d data = run hdlc_step d data"
proof (induction d data rule: HdlcDeframer_feed.induct)
  case (1 d data)
  show ?case
  proof (cases "position (\<lambda>b. b = HDLC_FLAG) data")
    case None
    then have "HDLC_FLAG \<notin> set data" by (auto simp: position_None_iff)
    with None 1 show ?thesis
      by (auto simp: HdlcDeframer_feed.simps [of d data] hdlc_run_plain HdlcDeframer_append_Nil)
  next
    case (Some hit)
    note split = position_Some_split [OF Some]
    have "data \<noteq> []" using Some by auto
    have "HDLC_FLAG \<notin> set (take hit data)" using split(2) by auto
    note flag = hdlc_run_flag [OF this 1(2)]
    have d1: "HdlcDeframer_inv (fst (HdlcDeframer_on_flag d (take hit data)))"
      using run_inv [of HdlcDeframer_inv hdlc_step d] hdlc_step_inv 1(2) flag by metis
    have "data = (take hit data @ [HDLC_FLAG]) @ drop (Suc hit) data"
      using split(1,3) by simp
    then have "run hdlc_step d data = run hdlc_step d ((take hit data @ [HDLC_FLAG]) @ drop (Suc hit) data)"
      by simp
    then show ?thesis
      using 1(1) [OF \<open>data \<noteq> []\<close> Some refl surjective_pairing [symmetric]] d1 \<open>data \<noteq> []\<close>
      by (simp only: run_append [of _ _ "_ @ [HDLC_FLAG]"] flag HdlcDeframer_feed.simps [of d data] Some)
        (auto split: prod.splits)
  qed
qed

lemma hdlc_feed_frame:
  assumes "HdlcDeframer_inv d" and "hdlc_ok p"
  shows "\<exists>d' g. HdlcDeframer_feed d (hdlc_frame p) = (d', g @ [p]) \<and> hdlc_quiet d' \<and> length g \<le> 1
    \<and> (hdlc_quiet d \<longrightarrow> g = [])"
proof -
  define e where "e = hdlc_escape p"
  define d1 where "d1 = fst (HdlcDeframer_on_flag d [])"
  have d1: "hd_buffer d1 = []" "hd_in_frame d1" "HdlcDeframer_inv d1"
    using assms(1) hdlc_step_inv [of d HDLC_FLAG]
    by (auto simp: d1_def HdlcDeframer_on_flag_def HdlcDeframer_inv_def Let_def)
  have e: "HDLC_FLAG \<notin> set e" "e \<noteq> []" "length e \<le> HDLC_MAX_FRAME_SIZE" "hdlc_unescape_into e [] = p"
    using assms(2) hdlc.flag_hidden [of p] hdlc.escape_Nil_iff [of p] hdlc.unescape_escape [of p]
    by (auto simp: e_def hdlc_ok_def hdlc_unescape_def)
  have fr: "hdlc_frame p = [HDLC_FLAG] @ (e @ [HDLC_FLAG])"
    by (simp add: hdlc_frame_def hdlc_frame_into_def hdlc_escape_into_stuff e_def hdlc_escape_def)
  have few: "length (snd (HdlcDeframer_on_flag d [])) \<le> 1"
      "hdlc_quiet d \<Longrightarrow> snd (HdlcDeframer_on_flag d []) = []"
    by (auto simp: HdlcDeframer_on_flag_def hdlc_quiet_def HdlcDeframer_append_in_frame_def Let_def)
  have "HdlcDeframer_on_flag d1 e = (d1\<lparr>hd_buffer := [], hd_in_frame := True\<rparr>, [p])"
    using d1 e assms(2) by (auto simp: HdlcDeframer_on_flag_def HdlcDeframer_append_in_frame_def hdlc_ok_def)
  moreover have "HdlcDeframer_feed d (hdlc_frame p) =
      (let (s1, f1) = HdlcDeframer_on_flag d []; (s2, f2) = HdlcDeframer_on_flag s1 e in (s2, f1 @ f2))"
    using assms(1) d1 e hdlc_run_flag [of "[]" d] hdlc_run_flag [of e d1]
    by (auto simp: hdlc_feed_run fr run_append d1_def simp del: append_Cons run.simps split: prod.splits)
  ultimately have "HdlcDeframer_feed d (hdlc_frame p) =
      (d1\<lparr>hd_buffer := [], hd_in_frame := True\<rparr>, snd (HdlcDeframer_on_flag d []) @ [p])"
    by (simp add: d1_def case_prod_beta)
  then show ?thesis
    using few by (intro exI conjI) (auto simp: hdlc_quiet_def)
qed

interpretation hdlc: framing hdlc_step HdlcDeframer_feed HdlcDeframer_inv hdlc_frame "\<lambda>p. p" hdlc_ok hdlc_quiet
  by unfold_locales (fact hdlc_feed_run hdlc_step_inv hdlc_feed_frame)+

subsection \<open>Properties\<close>

text \<open>
  C22: the scanning deframer is the byte loop. On every reachable state, feeding a chunk to the
  optimised deframer (which looks for delimiters and copies slices) does what feeding its bytes
  one at a time does, and keeps the buffer within the frame limit; hence the frames reported do
  not depend on how the byte stream is cut into reads.
\<close>

theorem hdlc_feed_segmentation:
  assumes "HdlcDeframer_inv d"
  shows "HdlcDeframer_feed d (concat chunks) = run hdlc_step d (concat chunks)
    \<and> run HdlcDeframer_feed d chunks = HdlcDeframer_feed d (concat chunks)
    \<and> HdlcDeframer_inv (fst (HdlcDeframer_feed d (concat chunks)))"
  using assms hdlc.feed_chunks hdlc.feed_run hdlc.feed_inv by blast

theorem hdlc_feed_segmentation_witness:
  "run HdlcDeframer_feed HdlcDeframer_new [[0x7E, 1], [2, 0x7E, 0x7E], [], [3]] =
   HdlcDeframer_feed HdlcDeframer_new [0x7E, 1, 2, 0x7E, 0x7E, 3]"
  using hdlc_feed_segmentation [of HdlcDeframer_new "[[0x7E, 1], [2, 0x7E, 0x7E], [], [3]]"]
  by (simp add: HdlcDeframer_new_def HdlcDeframer_inv_def)

text \<open>
  C20: HDLC delivers. Every list of non-empty packets whose escaped form fits the frame limit, framed
  one after the other and cut into reads in any way, is reported by a fresh deframer packet by
  packet, in order, unchanged; and whatever state a deframer is in, at most one spurious frame
  precedes them.
\<close>

theorem hdlc_stream_delivery:
  assumes "\<forall>p\<in>set ps. p \<noteq> [] \<and> length (hdlc_escape p) \<le> HDLC_MAX_FRAME_SIZE"
    and "concat chunks = concat (map hdlc_frame ps)"
  shows "snd (run HdlcDeframer_feed HdlcDeframer_new chunks) = ps
    \<and> (\<forall>d. HdlcDeframer_inv d \<and> ps \<noteq> [] \<longrightarrow>
         (\<exists>g. snd (run HdlcDeframer_feed d chunks) = g @ ps \<and> length g \<le> 1))"
proof -
  have ok: "\<forall>p\<in>set ps. hdlc_ok p" using assms(1) by (simp add: hdlc_ok_def)
  have "HdlcDeframer_inv HdlcDeframer_new" "hdlc_quiet HdlcDeframer_new"
    by (simp_all add: HdlcDeframer_new_def HdlcDeframer_inv_def hdlc_quiet_def)
  from hdlc.feed_segmented [OF this ok assms(2)]
  have "snd (run HdlcDeframer_feed HdlcDeframer_new chunks) = ps" by simp
  moreover have "\<exists>g. snd (run HdlcDeframer_feed d chunks) = g @ ps \<and> length g \<le> 1"
    if "HdlcDeframer_inv d" and "ps \<noteq> []" for d
    using hdlc.feed_stream_resync [OF that(1) ok that(2)] that(1) assms(2)
    by (auto simp: hdlc.feed_chunks)
  ultimately show ?thesis by blast
qed

theorem hdlc_stream_delivery_witness:
  "snd (run HdlcDeframer_feed HdlcDeframer_new
     [[0x7E, 0x11, 0x7D], [0x5E, 0x7E, 0x7E, 0x22], [0x7E]]) = [[0x11, 0x7E], [0x22]]"
proof -
  have e: "hdlc_escape xs = stuff HDLC_ESC HDLC_FLAG (\<lambda>b. b XOR HDLC_ESC_MASK) xs" for xs
    by (rule hdlc.escape_stuff)
  have f: "hdlc_frame xs = HDLC_FLAG # hdlc_escape xs @ [HDLC_FLAG]" for xs
    by (simp add: hdlc_frame_def hdlc_frame_into_def hdlc_escape_into_stuff e)
  show ?thesis
    using hdlc_stream_delivery [of "[[0x11, 0x7E], [0x22]]" "[[0x7E, 0x11, 0x7D], [0x5E, 0x7E, 0x7E, 0x22], [0x7E]]"]
    by (simp add: e f hdlc_marks HDLC_MAX_FRAME_SIZE_def)
qed

end
