(* ===== verification/Kiss.thy ===== *)
theory Kiss
  imports Framing
begin

text \<open>
  KISS framing, \<open>src/crates/rns-interface/src/kiss.rs\<close>: as HDLC, with a command byte after the
  opening delimiter. \<open>RawKissDeframer\<close> keeps the command byte whole, \<open>KissDeframer\<close> masks the port
  nibble away.
\<close>

subsection \<open>Escaping\<close>

definition FEND :: u8 where "FEND = 0xC0"
definition FESC :: u8 where "FESC = 0xDB"
definition TFEND :: u8 where "TFEND = 0xDC"
definition TFESC :: u8 where "TFESC = 0xDD"
definition CMD_DATA :: u8 where "CMD_DATA = 0x00"
definition CMD_MASK :: u8 where "CMD_MASK = 0x0F"
definition KISS_MAX_FRAME_SIZE :: nat where "KISS_MAX_FRAME_SIZE = 524288"

lemmas kiss_marks = FEND_def FESC_def TFEND_def TFESC_def CMD_DATA_def CMD_MASK_def

function kiss_escape_into :: "bytes \<Rightarrow> bytes \<Rightarrow> bytes" where
  "kiss_escape_into data out =
    (if data = [] then out
     else case position (\<lambda>b. b = FESC \<or> b = FEND) data of
       Some rel \<Rightarrow> kiss_escape_into (drop (rel + 1) data)
                    (out @ take rel data @ [FESC, if data ! rel = FEND then TFEND else TFESC])
     | None \<Rightarrow> out @ data)"
  by pat_completeness auto
termination
  by (relation "measure (\<lambda>(data, out). length data)") auto

function kiss_unescape_into :: "bytes \<Rightarrow> bytes \<Rightarrow> bytes" where
  "kiss_unescape_into data out =
    (if data = [] then out
     else case position (\<lambda>b. b = FESC) data of
       Some hit \<Rightarrow>
         (let out = out @ take hit data in
          if hit + 1 < length data then
            let nxt = data ! (hit + 1);
                out = (if nxt = TFEND then out @ [FEND]
                       else if nxt = TFESC then out @ [FESC]
                       else out @ [FESC, nxt])
            in kiss_unescape_into (drop (hit + 2) data) out
          else out @ [FESC])
     | None \<Rightarrow> out @ data)"
  by pat_completeness auto
termination
  by (relation "measure (\<lambda>(data, out). length data)") auto

declare kiss_escape_into.simps [simp del] kiss_unescape_into.simps [simp del]

definition kiss_frame_into :: "bytes \<Rightarrow> bytes \<Rightarrow> bytes" where
  "kiss_frame_into data out = kiss_escape_into data (out @ [FEND, CMD_DATA]) @ [FEND]"

definition kiss_frame_with_command_into :: "u8 \<Rightarrow> bytes \<Rightarrow> bytes \<Rightarrow> bytes" where
  "kiss_frame_with_command_into cmd data out = kiss_escape_into data (out @ [FEND, cmd]) @ [FEND]"

definition kiss_escape :: "bytes \<Rightarrow> bytes" where
  "kiss_escape data = kiss_escape_into data []"

definition kiss_unescape :: "bytes \<Rightarrow> bytes" where
  "kiss_unescape data = kiss_unescape_into data []"

definition kiss_frame :: "bytes \<Rightarrow> bytes" where
  "kiss_frame data = kiss_frame_into data []"

definition kiss_frame_with_command :: "u8 \<Rightarrow> bytes \<Rightarrow> bytes" where
  "kiss_frame_with_command cmd data = kiss_frame_with_command_into cmd data []"

subsection \<open>The deframers\<close>

record RawKissDeframer =
  rk_buffer :: bytes
  rk_in_frame :: bool
  rk_command :: "u8 option"

definition RawKissDeframer_new :: RawKissDeframer where
  "RawKissDeframer_new = \<lparr>rk_buffer = [], rk_in_frame = False, rk_command = None\<rparr>"

definition RawKissDeframer_reset :: "RawKissDeframer \<Rightarrow> RawKissDeframer" where
  "RawKissDeframer_reset d = d\<lparr>rk_buffer := [], rk_in_frame := False, rk_command := None\<rparr>"

text \<open>The part of \<open>append_in_frame\<close> after the command byte is known.\<close>

definition RawKissDeframer_extend :: "RawKissDeframer \<Rightarrow> bytes \<Rightarrow> RawKissDeframer" where
  "RawKissDeframer_extend d chunk =
    (if length (rk_buffer d) + length chunk > KISS_MAX_FRAME_SIZE
     then d\<lparr>rk_buffer := [], rk_in_frame := False, rk_command := None\<rparr>
     else d\<lparr>rk_buffer := rk_buffer d @ chunk\<rparr>)"

definition RawKissDeframer_append_in_frame :: "RawKissDeframer \<Rightarrow> bytes \<Rightarrow> RawKissDeframer" where
  "RawKissDeframer_append_in_frame d chunk =
    (if rk_command d = None then
       (case chunk of
          first # rest \<Rightarrow> RawKissDeframer_extend (d\<lparr>rk_command := Some first\<rparr>) rest
        | [] \<Rightarrow> d)
     else RawKissDeframer_extend d chunk)"

text \<open>The body of the loop at a delimiter: \<open>chunk\<close> is the slice before it.\<close>

definition RawKissDeframer_on_fend :: "RawKissDeframer \<Rightarrow> bytes \<Rightarrow> RawKissDeframer \<times> (u8 \<times> bytes) list" where
  "RawKissDeframer_on_fend d chunk =
    (if rk_in_frame d then
       let d = RawKissDeframer_append_in_frame d chunk;
           frames = (if rk_buffer d \<noteq> [] then
                       let frame_data = kiss_unescape_into (rk_buffer d) []
                       in case rk_command d of Some command \<Rightarrow> [(command, frame_data)] | None \<Rightarrow> []
                     else [])
       in (d\<lparr>rk_buffer := [], rk_in_frame := True, rk_command := None\<rparr>, frames)
     else (d\<lparr>rk_in_frame := True, rk_command := None\<rparr>, []))"

function RawKissDeframer_feed :: "RawKissDeframer \<Rightarrow> bytes \<Rightarrow> RawKissDeframer \<times> (u8 \<times> bytes) list" where
  "RawKissDeframer_feed d data =
    (if data = [] then (d, [])
     else case position (\<lambda>b. b = FEND) data of
       Some hit \<Rightarrow>
         (let (d1, f1) = RawKissDeframer_on_fend d (take hit data);
              (d2, f2) = RawKissDeframer_feed d1 (drop (hit + 1) data)
          in (d2, f1 @ f2))
     | None \<Rightarrow> (if rk_in_frame d then RawKissDeframer_append_in_frame d data else d, []))"
  by pat_completeness auto
termination
  by (relation "measure (\<lambda>(d, data). length data)") auto

declare RawKissDeframer_feed.simps [simp del]

record KissDeframer =
  kd_inner :: RawKissDeframer

definition KissDeframer_new :: KissDeframer where
  "KissDeframer_new = \<lparr>kd_inner = RawKissDeframer_new\<rparr>"

definition KissDeframer_feed :: "KissDeframer \<Rightarrow> bytes \<Rightarrow> KissDeframer \<times> (u8 \<times> bytes) list" where
  "KissDeframer_feed d data =
    (let (inner, frames) = RawKissDeframer_feed (kd_inner d) data
     in (d\<lparr>kd_inner := inner\<rparr>, map (\<lambda>(c, payload). (c AND CMD_MASK, payload)) frames))"

definition KissDeframer_reset :: "KissDeframer \<Rightarrow> KissDeframer" where
  "KissDeframer_reset d = d\<lparr>kd_inner := RawKissDeframer_reset (kd_inner d)\<rparr>"

subsection \<open>The byte-at-a-time reference\<close>

fun kiss_unstuff :: "bytes \<Rightarrow> bytes" where
  "kiss_unstuff [] = []"
| "kiss_unstuff [b] = [b]"
| "kiss_unstuff (b # c # xs) =
    (if b = FESC then
       (if c = TFEND then [FEND] else if c = TFESC then [FESC] else [FESC, c]) @ kiss_unstuff xs
     else b # kiss_unstuff (c # xs))"

definition kiss_tr :: "u8 \<Rightarrow> u8" where
  "kiss_tr b = (if b = FEND then TFEND else TFESC)"

definition rawkiss_step :: "RawKissDeframer \<Rightarrow> u8 \<Rightarrow> RawKissDeframer \<times> (u8 \<times> bytes) list" where
  "rawkiss_step d b =
    (if b = FEND then RawKissDeframer_on_fend d []
     else (if rk_in_frame d then RawKissDeframer_append_in_frame d [b] else d, []))"

definition kiss_step :: "KissDeframer \<Rightarrow> u8 \<Rightarrow> KissDeframer \<times> (u8 \<times> bytes) list" where
  "kiss_step d b =
    (let (inner, frames) = rawkiss_step (kd_inner d) b
     in (d\<lparr>kd_inner := inner\<rparr>, map (\<lambda>(c, payload). (c AND CMD_MASK, payload)) frames))"

definition RawKissDeframer_inv :: "RawKissDeframer \<Rightarrow> bool" where
  "RawKissDeframer_inv d \<longleftrightarrow>
     length (rk_buffer d) \<le> KISS_MAX_FRAME_SIZE
     \<and> (\<not> rk_in_frame d \<longrightarrow> rk_command d = None) \<and> (rk_command d = None \<longrightarrow> rk_buffer d = [])"

definition rawkiss_quiet :: "RawKissDeframer \<Rightarrow> bool" where
  "rawkiss_quiet d \<longleftrightarrow> rk_buffer d = []"

definition kiss_ok :: "u8 \<times> bytes \<Rightarrow> bool" where
  "kiss_ok m \<longleftrightarrow> fst m \<noteq> FEND \<and> snd m \<noteq> [] \<and> length (kiss_escape (snd m)) \<le> KISS_MAX_FRAME_SIZE"

subsection \<open>Lemmas\<close>

lemma kiss_escape_into_stuff: "kiss_escape_into data out = out @ stuff FESC FEND kiss_tr data"
proof (induction data out rule: kiss_escape_into.induct)
  case (1 data out)
  show ?case
  proof (cases "position (\<lambda>b. b = FESC \<or> b = FEND) data")
    case None
    then have "\<forall>b\<in>set data. \<not> (b = FESC \<or> b = FEND)"
      by (simp add: position_None_iff)
    from stuff_plain [OF this] None show ?thesis
      by (simp add: kiss_escape_into.simps [of data])
  next
    case (Some rel)
    note split = position_Some_split [OF Some]
    let ?s = "stuff FESC FEND kiss_tr"
    have "?s data = ?s (take rel data @ data ! rel # drop (Suc rel) data)"
      using split(1) by simp
    also have "\<dots> = take rel data @ [FESC, kiss_tr (data ! rel)] @ ?s (drop (Suc rel) data)"
      using split(2,3) by (auto simp: stuff_append stuff_plain)
    finally show ?thesis
      using Some 1 [OF _ Some] by (auto simp: kiss_escape_into.simps [of data] kiss_tr_def [of "data ! rel"])
  qed
qed

lemma kiss_unstuff_plain: "FESC \<notin> set xs \<Longrightarrow> kiss_unstuff (xs @ ys) = xs @ kiss_unstuff ys"
proof (induction xs)
  case Nil
  then show ?case by simp
next
  case (Cons x xs)
  then show ?case by (cases "xs @ ys") auto
qed

lemma kiss_unescape_into_unstuff: "kiss_unescape_into data out = out @ kiss_unstuff data"
proof (induction data out rule: kiss_unescape_into.induct)
  case (1 data out)
  show ?case
  proof (cases "position (\<lambda>b. b = FESC) data")
    case None
    then have "FESC \<notin> set data" by (auto simp: position_None_iff)
    from kiss_unstuff_plain [OF this, of "[]"] None show ?thesis
      by (simp add: kiss_unescape_into.simps [of data])
  next
    case (Some hit)
    note split = position_Some_split [OF Some]
    have "FESC \<notin> set (take hit data)" using split(2) by auto
    then have un: "kiss_unstuff data = take hit data @ kiss_unstuff (FESC # drop (Suc hit) data)"
      using split(1,3) kiss_unstuff_plain by metis
    show ?thesis
    proof (cases "drop (Suc hit) data")
      case Nil
      with Some un show ?thesis
        by (auto simp: kiss_unescape_into.simps [of data] Let_def)
    next
      case (Cons c rest)
      then have "data ! (hit + 1) = c" "hit + 1 < length data" "drop (hit + 2) data = rest"
        by (auto dest: drop_ConsD)
      with Some un Cons 1 [OF _ Some refl] show ?thesis
        by (auto simp: kiss_unescape_into.simps [of data] Let_def)
    qed
  qed
qed

interpretation kiss: stuffing FESC FEND kiss_tr kiss_escape kiss_unescape
proof (unfold_locales, goal_cases)
  case (3 b xs)
  then show ?case
    using kiss_unstuff_plain [of "[b]" xs] by (simp add: kiss_unescape_def kiss_unescape_into_unstuff)
qed (auto simp: kiss_escape_def kiss_escape_into_stuff kiss_unescape_def kiss_unescape_into_unstuff
  kiss_tr_def kiss_marks)

lemmas rawkiss_defs = RawKissDeframer_append_in_frame_def RawKissDeframer_extend_def Let_def

lemma rawkiss_append_inv:
  "RawKissDeframer_inv d \<Longrightarrow> rk_in_frame d \<Longrightarrow> RawKissDeframer_inv (RawKissDeframer_append_in_frame d chunk)"
  by (auto simp: RawKissDeframer_inv_def rawkiss_defs split: list.splits)

lemma rawkiss_step_inv: "RawKissDeframer_inv d \<Longrightarrow> RawKissDeframer_inv (fst (rawkiss_step d b))"
  by (auto simp: rawkiss_step_def rawkiss_append_inv)
    (auto simp: RawKissDeframer_inv_def RawKissDeframer_on_fend_def Let_def)

lemma RawKissDeframer_append_Nil:
  "RawKissDeframer_inv d \<Longrightarrow> RawKissDeframer_append_in_frame d [] = d"
  by (auto simp: rawkiss_defs RawKissDeframer_inv_def)

lemma rawkiss_append_append:
  assumes "RawKissDeframer_inv d" and "rk_in_frame (RawKissDeframer_append_in_frame d xs)"
  shows "RawKissDeframer_append_in_frame (RawKissDeframer_append_in_frame d xs) ys =
    RawKissDeframer_append_in_frame d (xs @ ys)"
  using assms by (auto simp: rawkiss_defs RawKissDeframer_inv_def split: list.splits if_splits)

lemma rawkiss_append_overflow:
  assumes "RawKissDeframer_inv d" and "rk_in_frame d" and "\<not> rk_in_frame (RawKissDeframer_append_in_frame d xs)"
  shows "RawKissDeframer_append_in_frame d (xs @ ys) = RawKissDeframer_append_in_frame d xs"
  using assms by (auto simp: rawkiss_defs RawKissDeframer_inv_def split: list.splits if_splits)

lemma rawkiss_run_plain:
  assumes "FEND \<notin> set xs" and "RawKissDeframer_inv d"
  shows "run rawkiss_step d xs = (if rk_in_frame d then RawKissDeframer_append_in_frame d xs else d, [])"
  using assms
proof (induction xs arbitrary: d)
  case Nil
  then show ?case by (simp add: RawKissDeframer_append_Nil)
next
  case (Cons b xs)
  have "RawKissDeframer_inv (fst (rawkiss_step d b))" using Cons.prems(2) by (rule rawkiss_step_inv)
  with Cons show ?case
    using rawkiss_append_append [of d "[b]" xs] rawkiss_append_overflow [of d "[b]" xs]
    by (auto simp: rawkiss_step_def)
qed

lemma rawkiss_run_fend:
  assumes "FEND \<notin> set xs" and "RawKissDeframer_inv d"
  shows "run rawkiss_step d (xs @ [FEND]) = RawKissDeframer_on_fend d xs"
proof -
  have "RawKissDeframer_append_in_frame (RawKissDeframer_append_in_frame d xs) [] = RawKissDeframer_append_in_frame d xs"
    if "rk_in_frame d" by (rule RawKissDeframer_append_Nil [OF rawkiss_append_inv [OF assms(2) that]])
  moreover have "rk_buffer (RawKissDeframer_append_in_frame d xs) = []" "rk_command (RawKissDeframer_append_in_frame d xs) = None"
    if "rk_in_frame d" "\<not> rk_in_frame (RawKissDeframer_append_in_frame d xs)"
    using rawkiss_append_inv [OF assms(2) that(1), of xs] that by (auto simp: RawKissDeframer_inv_def)
  ultimately show ?thesis
    using assms
    by (cases "rk_in_frame d"; cases "rk_in_frame (RawKissDeframer_append_in_frame d xs)")
      (simp_all add: run_append rawkiss_run_plain rawkiss_step_def RawKissDeframer_on_fend_def Let_def)
qed

lemma rawkiss_feed_run: "RawKissDeframer_inv d \<Longrightarrow> RawKissDeframer_feed d data = run rawkiss_step d data"
proof (induction d data rule: RawKissDeframer_feed.induct)
  case (1 d data)
  show ?case
  proof (cases "position (\<lambda>b. b = FEND) data")
    case None
    then have "FEND \<notin> set data" by (auto simp: position_None_iff)
    with None 1 show ?thesis
      by (auto simp: RawKissDeframer_feed.simps [of d data] rawkiss_run_plain RawKissDeframer_append_Nil)
  next
    case (Some hit)
    note split = position_Some_split [OF Some]
    have "data \<noteq> []" using Some by auto
    have "FEND \<notin> set (take hit data)" using split(2) by auto
    note flag = rawkiss_run_fend [OF this 1(2)]
    have d1: "RawKissDeframer_inv (fst (RawKissDeframer_on_fend d (take hit data)))"
      using run_inv [of RawKissDeframer_inv rawkiss_step d] rawkiss_step_inv 1(2) flag by metis
    have "data = (take hit data @ [FEND]) @ drop (Suc hit) data"
      using split(1,3) by simp
    then have "run rawkiss_step d data = run rawkiss_step d ((take hit data @ [FEND]) @ drop (Suc hit) data)"
      by simp
    then show ?thesis
      using 1(1) [OF \<open>data \<noteq> []\<close> Some refl surjective_pairing [symmetric]] d1 \<open>data \<noteq> []\<close>
      by (simp only: run_append [of _ _ "_ @ [FEND]"] flag RawKissDeframer_feed.simps [of d data] Some)
        (auto split: prod.splits)
  qed
qed

lemma rawkiss_feed_frame:
  assumes "RawKissDeframer_inv d" and "kiss_ok (c, p)"
  shows "\<exists>d' g. RawKissDeframer_feed d (kiss_frame_with_command c p) = (d', g @ [(c, p)])
    \<and> rawkiss_quiet d' \<and> length g \<le> 1 \<and> (rawkiss_quiet d \<longrightarrow> g = [])"
proof -
  define e where "e = kiss_escape p"
  define d1 where "d1 = fst (RawKissDeframer_on_fend d [])"
  have d1: "rk_buffer d1 = []" "rk_in_frame d1" "rk_command d1 = None" "RawKissDeframer_inv d1"
    using assms(1) by (auto simp: d1_def RawKissDeframer_on_fend_def RawKissDeframer_inv_def Let_def)
  have e: "FEND \<notin> set (c # e)" "e \<noteq> []" "length e \<le> KISS_MAX_FRAME_SIZE" "kiss_unescape_into e [] = p"
    using assms(2) kiss.flag_hidden [of p] kiss.escape_Nil_iff [of p] kiss.unescape_escape [of p]
    by (auto simp: e_def kiss_ok_def kiss_unescape_def)
  have fr: "kiss_frame_with_command c p = [FEND] @ ((c # e) @ [FEND])"
    by (simp add: kiss_frame_with_command_def kiss_frame_with_command_into_def kiss_escape_into_stuff
        e_def kiss_escape_def)
  have few: "length (snd (RawKissDeframer_on_fend d [])) \<le> 1"
      "rawkiss_quiet d \<Longrightarrow> snd (RawKissDeframer_on_fend d []) = []"
    by (auto simp: RawKissDeframer_on_fend_def rawkiss_quiet_def rawkiss_defs split: option.splits)
  have "RawKissDeframer_on_fend d1 (c # e) =
      (d1\<lparr>rk_buffer := [], rk_in_frame := True, rk_command := None\<rparr>, [(c, p)])"
    using d1 e by (simp add: RawKissDeframer_on_fend_def rawkiss_defs)
  moreover have "RawKissDeframer_feed d (kiss_frame_with_command c p) =
      (let (s1, f1) = RawKissDeframer_on_fend d []; (s2, f2) = RawKissDeframer_on_fend s1 (c # e)
       in (s2, f1 @ f2))"
    using assms(1) d1 e rawkiss_run_fend [of "[]" d] rawkiss_run_fend [of "c # e" d1]
    by (auto simp: rawkiss_feed_run fr run_append d1_def simp del: append_Cons run.simps split: prod.splits)
  ultimately have "RawKissDeframer_feed d (kiss_frame_with_command c p) =
      (d1\<lparr>rk_buffer := [], rk_in_frame := True, rk_command := None\<rparr>,
       snd (RawKissDeframer_on_fend d []) @ [(c, p)])"
    by (simp add: d1_def case_prod_beta)
  then show ?thesis
    using few by (intro exI conjI) (auto simp: rawkiss_quiet_def)
qed

interpretation rawkiss: framing rawkiss_step RawKissDeframer_feed RawKissDeframer_inv
    "\<lambda>(c, p). kiss_frame_with_command c p" "\<lambda>m. m" kiss_ok rawkiss_quiet
proof (unfold_locales, goal_cases)
  case (1 s xs)
  then show ?case by (rule rawkiss_feed_run)
next
  case (2 s b)
  then show ?case by (rule rawkiss_step_inv)
next
  case (3 s m)
  then show ?case using rawkiss_feed_frame [of s "fst m" "snd m"] by (simp add: case_prod_beta)
qed

lemma kiss_feed_run:
  assumes "RawKissDeframer_inv (kd_inner d)"
  shows "KissDeframer_feed d data = run kiss_step d data"
proof -
  have "run kiss_step d data =
      (let (inner, frames) = run rawkiss_step (kd_inner d) data
       in (d\<lparr>kd_inner := inner\<rparr>, map (\<lambda>(c, payload). (c AND CMD_MASK, payload)) frames))"
  proof (induction data arbitrary: d)
    case Nil
    then show ?case by simp
  next
    case (Cons b data)
    show ?case by (simp add: kiss_step_def [of d] Cons case_prod_beta Let_def)
  qed
  then show ?thesis
    using assms by (simp add: KissDeframer_feed_def rawkiss_feed_run)
qed

interpretation kiss: framing kiss_step KissDeframer_feed "\<lambda>d. RawKissDeframer_inv (kd_inner d)"
    "\<lambda>(c, p). kiss_frame_with_command c p" "\<lambda>(c, p). (c AND CMD_MASK, p)" kiss_ok
    "\<lambda>d. rawkiss_quiet (kd_inner d)"
proof (unfold_locales, goal_cases)
  case (1 s xs)
  then show ?case by (rule kiss_feed_run)
next
  case (2 s b)
  then show ?case
    using rawkiss_step_inv [of "kd_inner s" b] by (simp add: kiss_step_def case_prod_beta)
next
  case (3 s m)
  then show ?case
    using rawkiss_feed_frame [of "kd_inner s" "fst m" "snd m"]
    by (force simp: case_prod_beta KissDeframer_feed_def)
qed

subsection \<open>Properties\<close>

text \<open>
  KISS delivers. Every list of commands with non-empty payloads (a command byte other than the
  delimiter, an escaped payload within the frame limit), framed one after the other and cut into
  reads in any way, is reported by a fresh raw deframer command by command, in order, payloads
  unchanged; the classic deframer reports the same with the port nibble of each command masked
  away, and \<open>frame\<close> is the frame of the data command.
\<close>

lemma kiss_stream_delivery:
  assumes "\<forall>(c, p)\<in>set ms. c \<noteq> FEND \<and> p \<noteq> [] \<and> length (kiss_escape p) \<le> KISS_MAX_FRAME_SIZE"
    and "concat chunks = concat (map (\<lambda>(c, p). kiss_frame_with_command c p) ms)"
  shows "snd (run RawKissDeframer_feed RawKissDeframer_new chunks) = ms
    \<and> snd (run KissDeframer_feed KissDeframer_new chunks) = map (\<lambda>(c, p). (c AND CMD_MASK, p)) ms
    \<and> kiss_frame p = kiss_frame_with_command CMD_DATA p"
proof -
  have ok: "\<forall>m\<in>set ms. kiss_ok m" using assms(1) by (auto simp: kiss_ok_def)
  have new: "RawKissDeframer_inv RawKissDeframer_new" "rawkiss_quiet RawKissDeframer_new"
    by (simp_all add: RawKissDeframer_new_def RawKissDeframer_inv_def rawkiss_quiet_def)
  from rawkiss.feed_segmented [OF new ok assms(2)]
  have "snd (run RawKissDeframer_feed RawKissDeframer_new chunks) = ms" by simp
  moreover have "snd (run KissDeframer_feed KissDeframer_new chunks) = map (\<lambda>(c, p). (c AND CMD_MASK, p)) ms"
    by (rule kiss.feed_segmented) (use new ok assms(2) in \<open>simp_all add: KissDeframer_new_def\<close>)
  moreover have "kiss_frame p = kiss_frame_with_command CMD_DATA p"
    by (simp add: kiss_frame_def kiss_frame_into_def kiss_frame_with_command_def
        kiss_frame_with_command_into_def)
  ultimately show ?thesis by blast
qed

lemma kiss_stream_delivery_witness:
  "snd (run KissDeframer_feed KissDeframer_new [[0xC0, 0x50, 0xDB], [0xDC, 0xC0]]) = [(0, [0xC0])]"
proof -
  have e: "kiss_escape xs = stuff FESC FEND kiss_tr xs" for xs
    by (rule kiss.escape_stuff)
  have f: "kiss_frame_with_command c xs = FEND # c # kiss_escape xs @ [FEND]" for c xs
    by (simp add: kiss_frame_with_command_def kiss_frame_with_command_into_def kiss_escape_into_stuff e)
  show ?thesis
    using kiss_stream_delivery [of "[(0x50, [0xC0])]" "[[0xC0, 0x50, 0xDB], [0xDC, 0xC0]]"]
    by (simp add: e f kiss_marks kiss_tr_def KISS_MAX_FRAME_SIZE_def)
qed

end
