(* ===== verification/Token.thy ===== *)
theory Token
  imports Codec
begin

text \<open>
  The encryption token of rns-crypto: \<open>pkcs7.rs\<close>, \<open>aes_cbc.rs\<close>, \<open>hmac.rs\<close>, \<open>hkdf.rs\<close>, \<open>sha.rs\<close>
  and \<open>token.rs\<close> under \<open>src/crates/rns-crypto/src\<close>. The crates aes, cbc, hmac, hkdf and sha2 are the
  fields of a \<open>crypto_lib\<close>; what the code relies on of them is \<open>cipher_lib_ok\<close>. The
  random initialisation vector is an argument. Wiping of secrets and the constant-time comparison
  have no functional effect.
\<close>

subsection \<open>PKCS7 padding\<close>

definition BLOCK_SIZE :: nat where "BLOCK_SIZE = 16"

datatype Pkcs7Error = InvalidPaddingValue u8 | InconsistentPadding | EmptyInput

definition pkcs7_pad :: "bytes \<Rightarrow> bytes" where
  "pkcs7_pad data =
    (let pad_len = BLOCK_SIZE - (length data mod BLOCK_SIZE)
     in data @ replicate pad_len (word_of_nat pad_len))"

definition pkcs7_unpad :: "bytes \<Rightarrow> (Pkcs7Error, bytes) result" where
  "pkcs7_unpad data =
    (if data = [] then Err EmptyInput
     else let pad_byte = data ! (length data - 1) in
       if pad_byte = 0 \<or> unat pad_byte > BLOCK_SIZE then Err (InvalidPaddingValue pad_byte)
       else let pad_len = unat pad_byte in
         if pad_len > length data then Err (InvalidPaddingValue pad_byte)
         else let start = length data - pad_len in
           if \<exists>b\<in>set (drop start data). b \<noteq> pad_byte then Err InconsistentPadding
           else Ok (take start data))"

subsection \<open>The cryptographic libraries\<close>

text \<open>
  \<open>lib_new\<close> is the success of \<open>KeyIvInit::new_from_slices\<close>, \<open>lib_encrypt\<close> and \<open>lib_decrypt\<close> the
  unpadded CBC calls of the cipher that the key length selects (\<open>None\<close> their error),
  \<open>lib_expand ikm salt info n\<close> HKDF extract and expand.
\<close>

record crypto_lib =
  lib_new :: "bytes \<Rightarrow> bytes \<Rightarrow> bool"
  lib_encrypt :: "bytes \<Rightarrow> bytes \<Rightarrow> bytes \<Rightarrow> bytes option"
  lib_decrypt :: "bytes \<Rightarrow> bytes \<Rightarrow> bytes \<Rightarrow> bytes option"
  lib_hmac :: "bytes \<Rightarrow> bytes \<Rightarrow> bytes"
  lib_expand :: "bytes \<Rightarrow> bytes option \<Rightarrow> bytes \<Rightarrow> nat \<Rightarrow> bytes option"
  lib_sha256 :: "bytes \<Rightarrow> bytes"

subsection \<open>AES-CBC\<close>

definition is_nonzero_block_aligned :: "nat \<Rightarrow> bool" where
  "is_nonzero_block_aligned len \<longleftrightarrow> len \<noteq> 0 \<and> len mod 16 = 0"

datatype AesCbcError = AES_InvalidKeyLength nat | AES_InvalidIvLength nat | AES_NotBlockAligned
  | AES_DecryptionFailed | AES_EncryptionFailed

definition aes_cbc_encrypt :: "crypto_lib \<Rightarrow> bytes \<Rightarrow> bytes \<Rightarrow> bytes \<Rightarrow> (AesCbcError, bytes) result" where
  "aes_cbc_encrypt lib key iv plaintext =
    (if length iv \<noteq> 16 then Err (AES_InvalidIvLength (length iv))
     else if \<not> is_nonzero_block_aligned (length plaintext) then Err AES_NotBlockAligned
     else if length key = 16 \<or> length key = 32 then
       (if \<not> lib_new lib key iv then Err (AES_InvalidKeyLength (length key))
        else ok_or AES_EncryptionFailed (lib_encrypt lib key iv plaintext))
     else Err (AES_InvalidKeyLength (length key)))"

definition aes_cbc_decrypt :: "crypto_lib \<Rightarrow> bytes \<Rightarrow> bytes \<Rightarrow> bytes \<Rightarrow> (AesCbcError, bytes) result" where
  "aes_cbc_decrypt lib key iv ciphertext =
    (if length iv \<noteq> 16 then Err (AES_InvalidIvLength (length iv))
     else if \<not> is_nonzero_block_aligned (length ciphertext) then Err AES_NotBlockAligned
     else if length key = 16 \<or> length key = 32 then
       (if \<not> lib_new lib key iv then Err (AES_InvalidKeyLength (length key))
        else ok_or AES_DecryptionFailed (lib_decrypt lib key iv ciphertext))
     else Err (AES_InvalidKeyLength (length key)))"

subsection \<open>HMAC, HKDF and hashes\<close>

definition hmac_sha256 :: "crypto_lib \<Rightarrow> bytes \<Rightarrow> bytes \<Rightarrow> bytes" where
  "hmac_sha256 lib key data = lib_hmac lib key data"

definition hmac_verify :: "crypto_lib \<Rightarrow> bytes \<Rightarrow> bytes \<Rightarrow> bytes \<Rightarrow> bool" where
  "hmac_verify lib key data expected = (hmac_sha256 lib key data = expected)"

datatype HkdfError = OutputTooLong nat | ExpansionFailed

definition hkdf_sha256 ::
    "crypto_lib \<Rightarrow> nat \<Rightarrow> bytes \<Rightarrow> bytes option \<Rightarrow> bytes option \<Rightarrow> (HkdfError, bytes) result" where
  "hkdf_sha256 lib len ikm salt info =
    (if len > 255 * 32 then Err (OutputTooLong len)
     else ok_or ExpansionFailed
       (lib_expand lib ikm salt (case info of Some i \<Rightarrow> i | None \<Rightarrow> []) len))"

definition derive_key_64 :: "crypto_lib \<Rightarrow> bytes \<Rightarrow> bytes \<Rightarrow> (HkdfError, bytes) result" where
  "derive_key_64 lib shared_secret salt =
     ok_or ExpansionFailed (lib_expand lib shared_secret (Some salt) [] 64)"

definition truncated_hash :: "crypto_lib \<Rightarrow> bytes \<Rightarrow> bytes" where
  "truncated_hash lib data = take 16 (lib_sha256 lib data)"

definition name_hash :: "crypto_lib \<Rightarrow> bytes \<Rightarrow> bytes" where
  "name_hash lib name = take 10 (lib_sha256 lib name)"

subsection \<open>Tokens\<close>

datatype TokenError = TE_InvalidKeyLength nat | TE_TooShort | TE_AuthenticationFailed
  | TE_DecryptionFailed | TE_EncryptionFailed

definition split_key :: "bytes \<Rightarrow> (TokenError, bytes \<times> bytes) result" where
  "split_key key =
    (if length key = 64 then Ok (take 32 key, drop 32 key)
     else if length key = 32 then Ok (take 16 key, drop 16 key)
     else Err (TE_InvalidKeyLength (length key)))"

definition token_encrypt :: "crypto_lib \<Rightarrow> bytes \<Rightarrow> bytes \<Rightarrow> bytes \<Rightarrow> (TokenError, bytes) result" where
  "token_encrypt lib iv plaintext key =
    and_then (split_key key) (\<lambda>(signing_key, encryption_key).
      let padded = pkcs7_pad plaintext in
      and_then (map_err (\<lambda>_. TE_EncryptionFailed) (aes_cbc_encrypt lib encryption_key iv padded))
        (\<lambda>ciphertext.
          let signed_parts = iv @ ciphertext;
              mac = hmac_sha256 lib signing_key signed_parts
          in Ok (signed_parts @ mac)))"

definition token_decrypt :: "crypto_lib \<Rightarrow> bytes \<Rightarrow> bytes \<Rightarrow> (TokenError, bytes) result" where
  "token_decrypt lib token key =
    and_then (split_key key) (\<lambda>(signing_key, encryption_key).
      if length token < 64 then Err TE_AuthenticationFailed
      else let split_point = length token - 32;
               signed_parts = take split_point token;
               received_hmac = drop split_point token
        in if \<not> hmac_verify lib signing_key signed_parts received_hmac then Err TE_AuthenticationFailed
           else let iv = take 16 signed_parts; ciphertext = drop 16 signed_parts in
             if \<not> is_nonzero_block_aligned (length ciphertext) then Err TE_AuthenticationFailed
             else and_then (map_err (\<lambda>_. TE_AuthenticationFailed)
                              (aes_cbc_decrypt lib encryption_key iv ciphertext)) (\<lambda>padded.
                  and_then (map_err (\<lambda>_. TE_AuthenticationFailed) (pkcs7_unpad padded)) (\<lambda>plain.
                    Ok (take (length plain) padded))))"

subsection \<open>What is assumed of the libraries\<close>

text \<open>
  \<open>cipher_lib_ok\<close>: AES-CBC accepts keys of 16 or 32 bytes with a 16-byte initialisation vector,
  maps aligned inputs to outputs of the same length, and decryption inverts encryption; an
  HMAC-SHA256 tag has 32 bytes.
\<close>

definition aligned_block :: "bytes \<Rightarrow> bytes \<Rightarrow> bytes \<Rightarrow> bool" where
  "aligned_block key iv p \<longleftrightarrow>
     (length key = 16 \<or> length key = 32) \<and> length iv = 16 \<and> is_nonzero_block_aligned (length p)"

definition cipher_lib_ok :: "crypto_lib \<Rightarrow> bool" where
  "cipher_lib_ok lib \<longleftrightarrow>
     (\<forall>key iv p. aligned_block key iv p \<longrightarrow> lib_new lib key iv
        \<and> (\<exists>c. lib_encrypt lib key iv p = Some c \<and> length c = length p \<and> lib_decrypt lib key iv c = Some p))
     \<and> (\<forall>key data. length (lib_hmac lib key data) = 32)"

subsection \<open>Lemmas\<close>

lemma pkcs7_pad_length: "length (pkcs7_pad data) = (length data div 16 + 1) * 16"
proof -
  have "length (pkcs7_pad data) = length data + (16 - length data mod 16)"
    by (simp add: pkcs7_pad_def BLOCK_SIZE_def)
  moreover have "length data mod 16 < 16" by simp
  ultimately show ?thesis
    using div_mult_mod_eq [of "length data" 16] unfolding add_mult_distrib by linarith
qed

lemma pkcs7_pad_aligned: "is_nonzero_block_aligned (length (pkcs7_pad data))"
  by (simp add: is_nonzero_block_aligned_def pkcs7_pad_length)

lemma pkcs7_unpad_pad: "pkcs7_unpad (pkcs7_pad data) = Ok data"
proof -
  define n where "n = BLOCK_SIZE - (length data mod BLOCK_SIZE)"
  have n: "0 < n" "n \<le> 16" by (simp_all add: n_def BLOCK_SIZE_def)
  then have u: "unat (word_of_nat n :: u8) = n"
    by (simp add: unat_of_nat take_bit_nat_eq_self)
  then have nz: "word_of_nat n \<noteq> (0 :: u8)"
    using n(1) by (metis less_numeral_extra(3) unsigned_0)
  have "(data @ replicate n (word_of_nat n :: u8)) ! (length data + n - 1) = word_of_nat n"
    using n(1) nth_append_length_plus [of data "replicate n (word_of_nat n)" "n - 1"] by simp
  moreover have "pkcs7_pad data = data @ replicate n (word_of_nat n)"
    by (simp add: pkcs7_pad_def n_def Let_def)
  moreover have "\<not> n > 16" "data @ replicate n (word_of_nat n :: u8) \<noteq> []" using n by auto
  ultimately show ?thesis
    using u nz by (simp add: pkcs7_unpad_def Let_def BLOCK_SIZE_def del: of_nat_eq_0_iff)
qed

lemma pkcs7_unpad_Ok:
  assumes "pkcs7_unpad data = Ok x" and "length data mod 16 = 0"
  shows "pkcs7_pad x = data"
proof -
  define b where "b = data ! (length data - 1)"
  have b: "data \<noteq> []" "b \<noteq> 0" "unat b \<le> 16" "unat b \<le> length data"
    "\<forall>c\<in>set (drop (length data - unat b) data). c = b" "x = take (length data - unat b) data"
    using assms(1) by (auto simp: pkcs7_unpad_def Let_def BLOCK_SIZE_def b_def split: if_splits)
  have "0 < unat b" using b(2) by (simp add: unat_gt_0)
  obtain k where "length data = 16 * k" using assms(2) by blast
  moreover from this have "k \<noteq> 0" using b(1) by (metis length_0_conv mult_0_right)
  ultimately have "length x = (16 - unat b) + 16 * (k - 1)"
    using b(3,6) by (cases k) auto
  then have "length x mod 16 = 16 - unat b"
    using \<open>0 < unat b\<close> by simp
  then have "16 - (length x mod 16) = unat b"
    using b(3) by simp
  moreover have "drop (length data - unat b) data = replicate (unat b) b"
    using b(4,5) by (intro replicate_eqI) auto
  ultimately show ?thesis
    using b(6) append_take_drop_id [of "length data - unat b" data]
    by (simp add: pkcs7_pad_def BLOCK_SIZE_def Let_def)
qed

interpretation pkcs7: strict_codec pkcs7_pad
    "\<lambda>bs. if length bs mod 16 = 0 then (case pkcs7_unpad bs of Inr x \<Rightarrow> Some x | Inl _ \<Rightarrow> None) else None"
    "\<lambda>_. True"
  by unfold_locales (auto simp: pkcs7_unpad_pad pkcs7_pad_length pkcs7_unpad_Ok split: if_splits sum.splits)

lemma split_key_Ok:
  "split_key key = Ok (sk, ek) \<Longrightarrow> length ek = 16 \<or> length ek = 32"
  by (auto simp: split_key_def split: if_splits)

lemma token_encrypt_form:
  assumes "cipher_lib_ok lib" and "length iv = 16" and "split_key key = Ok (sk, ek)"
  shows "\<exists>c. token_encrypt lib iv p key = Ok (iv @ c @ lib_hmac lib sk (iv @ c))
    \<and> length c = (length p div 16 + 1) * 16 \<and> lib_decrypt lib ek iv c = Some (pkcs7_pad p)"
proof -
  have blk: "aligned_block ek iv (pkcs7_pad p)"
    using assms split_key_Ok [OF assms(3)] by (simp add: aligned_block_def pkcs7_pad_aligned)
  with assms(1) obtain c where "lib_new lib ek iv" "lib_encrypt lib ek iv (pkcs7_pad p) = Some c"
    "length c = length (pkcs7_pad p)" "lib_decrypt lib ek iv c = Some (pkcs7_pad p)"
    unfolding cipher_lib_ok_def by blast
  with assms(2,3) blk show ?thesis
    by (auto simp: token_encrypt_def aes_cbc_encrypt_def aligned_block_def hmac_sha256_def pkcs7_pad_length)
qed

lemma token_decrypt_valid:
  assumes "cipher_lib_ok lib" and "length iv = 16" and "split_key key = Ok (sk, ek)"
    and "length c = (length p div 16 + 1) * 16" and "lib_decrypt lib ek iv c = Some (pkcs7_pad p)"
  shows "token_decrypt lib (iv @ c @ lib_hmac lib sk (iv @ c)) key = Ok p"
proof -
  have ek: "length ek = 16 \<or> length ek = 32" using assms(3) by (rule split_key_Ok)
  have mac: "length (lib_hmac lib sk (iv @ c)) = 32"
    using assms(1) by (simp add: cipher_lib_ok_def)
  have al: "is_nonzero_block_aligned (length c)"
    using assms(4) by (simp add: is_nonzero_block_aligned_def)
  have new: "lib_new lib ek iv"
    using assms(1,2) ek al unfolding cipher_lib_ok_def aligned_block_def by blast
  have "take (length p) (pkcs7_pad p) = p" by (simp add: pkcs7_pad_def Let_def)
  with assms(2,3,4,5) ek mac al new show ?thesis
    by (simp add: token_decrypt_def hmac_verify_def hmac_sha256_def aes_cbc_decrypt_def pkcs7_unpad_pad)
qed

lemma token_encrypt_length:
  assumes "cipher_lib_ok lib" and "length iv = 16" and "token_encrypt lib iv p key = Ok t"
  shows "length t = 48 + (length p div 16 + 1) * 16"
proof -
  obtain sk ek where sk: "split_key key = Ok (sk, ek)"
    using assms(3) by (cases "split_key key") (auto simp: token_encrypt_def)
  have "length (lib_hmac lib k d) = 32" for k d
    using assms(1) by (simp add: cipher_lib_ok_def)
  with token_encrypt_form [OF assms(1,2) sk, of p] assms(2,3) show ?thesis by auto
qed

subsection \<open>Properties\<close>

lemma token_encrypt_decrypt:
  assumes "cipher_lib_ok lib" and "length iv = 16" and "length key \<in> {32, 64}"
  shows "\<exists>t. token_encrypt lib iv p key = Ok t \<and> length t = 48 + (length p div 16 + 1) * 16
    \<and> token_decrypt lib t key = Ok p"
proof -
  obtain sk ek where sk: "split_key key = Ok (sk, ek)" using assms(3) by (auto simp: split_key_def)
  obtain c where c: "token_encrypt lib iv p key = Ok (iv @ c @ lib_hmac lib sk (iv @ c))"
    "length c = (length p div 16 + 1) * 16" "lib_decrypt lib ek iv c = Some (pkcs7_pad p)"
    using token_encrypt_form [OF assms(1,2) sk] by blast
  moreover have "length (iv @ c @ lib_hmac lib sk (iv @ c)) = 48 + (length p div 16 + 1) * 16"
    using token_encrypt_length [OF assms(1,2) c(1)] .
  ultimately show ?thesis using token_decrypt_valid [OF assms(1,2) sk c(2,3)] by blast
qed

text \<open>
  Tokens round-trip. Under a 64-byte key, or a legacy 32-byte key, and any 16-byte
  initialisation vector, encryption succeeds, the token has 48 bytes of overhead plus the plaintext
  padded up to the next whole block, and decryption with the same key returns the plaintext.
  Any other key length is reported as such by both operations.
\<close>

lemma token_roundtrip:
  assumes "cipher_lib_ok lib" and "length iv = 16"
  shows "if length key = 64 \<or> length key = 32
    then \<exists>t. token_encrypt lib iv p key = Ok t \<and> length t = 48 + (length p div 16 + 1) * 16
           \<and> token_decrypt lib t key = Ok p
    else token_encrypt lib iv p key = Err (TE_InvalidKeyLength (length key))
           \<and> token_decrypt lib t key = Err (TE_InvalidKeyLength (length key))"
proof (cases "length key = 64 \<or> length key = 32")
  case True
  then obtain sk ek where sk: "split_key key = Ok (sk, ek)" by (auto simp: split_key_def)
  from token_encrypt_form [OF assms sk, of p] token_decrypt_valid [OF assms sk]
  have "\<exists>t. token_encrypt lib iv p key = Ok t \<and> token_decrypt lib t key = Ok p" by metis
  with True show ?thesis
    using token_encrypt_length [OF assms] by (auto simp del: mult_Suc)
next
  case False
  then show ?thesis
    by (auto simp: token_encrypt_def token_decrypt_def split_key_def)
qed

definition example_lib :: crypto_lib where
  "example_lib = \<lparr>lib_new = (\<lambda>_ _. True), lib_encrypt = (\<lambda>_ _ p. Some (rev p)),
     lib_decrypt = (\<lambda>_ _ c. Some (rev c)),
     lib_hmac = (\<lambda>k d. take 32 (k @ d @ replicate 32 0)),
     lib_expand = (\<lambda>ikm salt info n. Some (take n (ikm @ replicate n 0))),
     lib_sha256 = (\<lambda>d. take 32 (d @ replicate 32 0))\<rparr>"

lemma example_lib_ok: "cipher_lib_ok example_lib"
  by (auto simp: cipher_lib_ok_def example_lib_def)

lemma token_roundtrip_witness:
  "\<exists>t. token_encrypt example_lib (replicate 16 3) [1, 2, 3] (replicate 64 7) = Ok t \<and> length t = 64
     \<and> token_decrypt example_lib t (replicate 64 7) = Ok [1, 2, 3]"
  using token_roundtrip [OF example_lib_ok, of "replicate 16 3" "replicate 64 7" "[1, 2, 3]" "[]"]
  by simp

text \<open>
  C26: decryption authenticates first. Whatever bytes are offered under a key of valid length, the
  only failure reported is \<open>AuthenticationFailed\<close>; and a plaintext is returned only if the last 32 bytes
  are the HMAC of everything before them under the signing half of the key, the ciphertext is a
  positive number of whole blocks, and the padded plaintext is exactly the padding of the result.
\<close>

theorem token_decrypt_authentic:
  assumes "split_key key = Ok (sk, ek)"
  shows "case token_decrypt lib t key of
      Err e \<Rightarrow> e = TE_AuthenticationFailed
    | Ok p \<Rightarrow> \<exists>iv c padded. t = iv @ c @ lib_hmac lib sk (iv @ c) \<and> length iv = 16
        \<and> is_nonzero_block_aligned (length c) \<and> lib_decrypt lib ek iv c = Some padded
        \<and> pkcs7_unpad padded = Ok p \<and> length t \<ge> 64"
proof (cases "token_decrypt lib t key")
  case (Inl e)
  with assms show ?thesis
    by (auto simp: token_decrypt_def Let_def split: if_splits)
      (auto simp: and_then_def map_err_def split: sum.splits)
next
  case (Inr p)
  let ?n = "length t - 32"
  have len: "length t \<ge> 64" and mac: "lib_hmac lib sk (take ?n t) = drop ?n t"
    using assms Inr by (auto simp: token_decrypt_def Let_def hmac_verify_def hmac_sha256_def split: if_splits)
  obtain padded x where "aes_cbc_decrypt lib ek (take 16 (take ?n t)) (drop 16 (take ?n t)) = Ok padded"
      "pkcs7_unpad padded = Ok x" "p = take (length x) padded"
      "is_nonzero_block_aligned (length (drop 16 (take ?n t)))"
    using assms Inr len by (auto simp: token_decrypt_def Let_def result_simps split: if_splits)
  moreover from this have "x = take (length x) padded"
    by (auto simp: pkcs7_unpad_def Let_def split: if_splits)
  ultimately have "lib_decrypt lib ek (take 16 (take ?n t)) (drop 16 (take ?n t)) = Some padded"
      "pkcs7_unpad padded = Ok p" "is_nonzero_block_aligned (length (drop 16 (take ?n t)))"
    by (auto simp: aes_cbc_decrypt_def result_simps split: if_splits)
  moreover have "t = take 16 (take ?n t) @ drop 16 (take ?n t) @ drop ?n t"
    by (metis append_assoc append_take_drop_id)
  moreover have "take 16 (take ?n t) @ drop 16 (take ?n t) = take ?n t"
    by (rule append_take_drop_id)
  moreover have "length (take 16 (take ?n t)) = 16" using len by simp
  ultimately have "t = take 16 (take ?n t) @ drop 16 (take ?n t) @ lib_hmac lib sk (take 16 (take ?n t) @ drop 16 (take ?n t))
      \<and> length (take 16 (take ?n t)) = 16 \<and> is_nonzero_block_aligned (length (drop 16 (take ?n t)))
      \<and> lib_decrypt lib ek (take 16 (take ?n t)) (drop 16 (take ?n t)) = Some padded
      \<and> pkcs7_unpad padded = Ok p"
    using mac by metis
  then have "\<exists>iv c padded. t = iv @ c @ lib_hmac lib sk (iv @ c) \<and> length iv = 16
      \<and> is_nonzero_block_aligned (length c) \<and> lib_decrypt lib ek iv c = Some padded
      \<and> pkcs7_unpad padded = Ok p"
    by blast
  with len Inr show ?thesis by simp
qed

theorem token_decrypt_authentic_witness:
  "token_decrypt example_lib (replicate 64 1) (replicate 32 0) = Err TE_AuthenticationFailed"
proof -
  have k: "split_key (replicate 32 0) = Ok (replicate 16 0, replicate 16 0)"
    by (simp add: split_key_def)
  have h: "hd (lib_hmac example_lib (replicate 16 0) d) = 0" for d
    by (simp add: example_lib_def)
  have "hmac_verify example_lib (replicate 16 0) d (replicate 32 1) = False" for d
    using h [of d] by (auto simp: hmac_verify_def hmac_sha256_def)
  then have "token_decrypt example_lib (replicate 64 1) (replicate 32 0) \<noteq> Ok p" for p
    by (simp add: token_decrypt_def k)
  then show ?thesis
    using token_decrypt_authentic [where lib = example_lib and t = "replicate 64 1", OF k]
    by (cases "token_decrypt example_lib (replicate 64 1) (replicate 32 0)") auto
qed

end
