(* ===== verification/Hashlist.thy ===== *)
theory Hashlist
  imports Prelude
begin

text \<open>
  The two-generation duplicate filter, \<open>src/crates/rns-transport/src/hashlist.rs\<close>. A \<open>HashSet\<close> is a
  finite set.
\<close>

subsection \<open>Model\<close>

definition HASHLIST_MAXSIZE :: nat where "HASHLIST_MAXSIZE = 2000000"

record PacketHashlist =
  hl_current :: "bytes set"
  hl_previous :: "bytes set"
  hl_max_size :: nat

definition PacketHashlist_new_with_capacity :: "nat \<Rightarrow> PacketHashlist" where
  "PacketHashlist_new_with_capacity max_size =
     \<lparr>hl_current = {}, hl_previous = {}, hl_max_size = max_size\<rparr>"

definition PacketHashlist_new :: PacketHashlist where
  "PacketHashlist_new = PacketHashlist_new_with_capacity HASHLIST_MAXSIZE"

definition PacketHashlist_contains :: "PacketHashlist \<Rightarrow> bytes \<Rightarrow> bool" where
  "PacketHashlist_contains l hash \<longleftrightarrow> hash \<in> hl_current l \<or> hash \<in> hl_previous l"

definition PacketHashlist_force_rotate :: "PacketHashlist \<Rightarrow> PacketHashlist" where
  "PacketHashlist_force_rotate l = l\<lparr>hl_previous := hl_current l, hl_current := {}\<rparr>"

definition PacketHashlist_insert :: "PacketHashlist \<Rightarrow> bytes \<Rightarrow> PacketHashlist \<times> bool" where
  "PacketHashlist_insert l hash =
    (if PacketHashlist_contains l hash then (l, False)
     else let l = (if card (hl_current l) \<ge> hl_max_size l div 2
                   then PacketHashlist_force_rotate l else l)
          in (l\<lparr>hl_current := insert hash (hl_current l)\<rparr>, True))"

definition PacketHashlist_len :: "PacketHashlist \<Rightarrow> nat" where
  "PacketHashlist_len l = card (hl_current l) + card (hl_previous l)"

definition PacketHashlist_is_empty :: "PacketHashlist \<Rightarrow> bool" where
  "PacketHashlist_is_empty l \<longleftrightarrow> hl_current l = {} \<and> hl_previous l = {}"

definition PacketHashlist_clear :: "PacketHashlist \<Rightarrow> PacketHashlist" where
  "PacketHashlist_clear l = l\<lparr>hl_current := {}, hl_previous := {}\<rparr>"

definition PacketHashlist_current_hashes :: "PacketHashlist \<Rightarrow> bytes set" where
  "PacketHashlist_current_hashes l = hl_current l"

definition PacketHashlist_all_hashes :: "PacketHashlist \<Rightarrow> bytes set" where
  "PacketHashlist_all_hashes l = hl_current l \<union> hl_previous l"

definition PacketHashlist_load_from :: "bytes list \<Rightarrow> PacketHashlist \<Rightarrow> PacketHashlist" where
  "PacketHashlist_load_from hashes l = l\<lparr>hl_current := set hashes, hl_previous := {}\<rparr>"

text \<open>Inserting a sequence of hashes, as packets arrive.\<close>

fun insert_seq :: "PacketHashlist \<Rightarrow> bytes list \<Rightarrow> PacketHashlist \<times> bool list" where
  "insert_seq l [] = (l, [])"
| "insert_seq l (h # hs) =
    (let (l1, b) = PacketHashlist_insert l h; (l2, bs) = insert_seq l1 hs in (l2, b # bs))"

definition PacketHashlist_inv :: "PacketHashlist \<Rightarrow> bool" where
  "PacketHashlist_inv l \<longleftrightarrow>
     finite (hl_current l) \<and> finite (hl_previous l) \<and> hl_current l \<inter> hl_previous l = {}"

text \<open>The capacity bound of normal insertion.\<close>

definition PacketHashlist_bounded :: "PacketHashlist \<Rightarrow> bool" where
  "PacketHashlist_bounded l \<longleftrightarrow> PacketHashlist_inv l
     \<and> card (hl_current l) \<le> hl_max_size l div 2 \<and> card (hl_previous l) \<le> hl_max_size l div 2"

subsection \<open>Lemmas\<close>

lemma insert_result: "snd (PacketHashlist_insert l h) = (\<not> PacketHashlist_contains l h)"
  by (simp add: PacketHashlist_insert_def Let_def)

lemma insert_contains: "PacketHashlist_contains (fst (PacketHashlist_insert l h)) h"
  by (auto simp: PacketHashlist_insert_def PacketHashlist_contains_def Let_def)

lemma insert_max_size [simp]: "hl_max_size (fst (PacketHashlist_insert l h)) = hl_max_size l"
  by (simp add: PacketHashlist_insert_def PacketHashlist_force_rotate_def Let_def)

lemma insert_inv: "PacketHashlist_inv l \<Longrightarrow> PacketHashlist_inv (fst (PacketHashlist_insert l h))"
  by (auto simp: PacketHashlist_inv_def PacketHashlist_insert_def PacketHashlist_contains_def
      PacketHashlist_force_rotate_def Let_def)

lemma insert_bounded:
  assumes "PacketHashlist_bounded l" and "2 \<le> hl_max_size l"
  shows "PacketHashlist_bounded (fst (PacketHashlist_insert l h))"
proof -
  have "1 \<le> hl_max_size l div 2" using assms(2) by linarith
  with assms(1) insert_inv [of l h] show ?thesis
    by (auto simp: PacketHashlist_bounded_def PacketHashlist_insert_def PacketHashlist_force_rotate_def
        PacketHashlist_inv_def Let_def card_insert_if)
qed

text \<open>\<open>aged n h l\<close>: the hash is known and has been outlived by at most \<open>n\<close> newer ones.\<close>

definition aged :: "nat \<Rightarrow> bytes \<Rightarrow> PacketHashlist \<Rightarrow> bool" where
  "aged n h l \<longleftrightarrow> h \<in> hl_current l \<or> (h \<in> hl_previous l \<and> card (hl_current l) \<le> n)"

lemma insert_aged:
  assumes "PacketHashlist_inv l" and "aged n h l" and "n < hl_max_size l div 2"
  shows "aged (Suc n) h (fst (PacketHashlist_insert l x))"
  using assms
  by (auto simp: aged_def PacketHashlist_insert_def PacketHashlist_force_rotate_def Let_def
      PacketHashlist_inv_def card_insert_if)

lemma insert_seq_aged:
  assumes "PacketHashlist_inv l" and "aged n h l" and "n + length hs \<le> hl_max_size l div 2"
  shows "PacketHashlist_contains (fst (insert_seq l hs)) h"
  using assms
proof (induction hs arbitrary: l n)
  case Nil
  then show ?case by (auto simp: aged_def PacketHashlist_contains_def)
next
  case (Cons x hs)
  have "aged (Suc n) h (fst (PacketHashlist_insert l x))"
    using Cons.prems by (intro insert_aged) simp_all
  then have "PacketHashlist_contains (fst (insert_seq (fst (PacketHashlist_insert l x)) hs)) h"
    using Cons.prems by (intro Cons.IH [of _ "Suc n"] insert_inv) simp_all
  then show ?case by (simp add: case_prod_beta)
qed

lemma insert_seq_bounded:
  "PacketHashlist_bounded l \<Longrightarrow> 2 \<le> hl_max_size l \<Longrightarrow> PacketHashlist_bounded (fst (insert_seq l hs))
     \<and> hl_max_size (fst (insert_seq l hs)) = hl_max_size l"
proof (induction hs arbitrary: l)
  case Nil
  then show ?case by simp
next
  case (Cons x hs)
  then show ?case
    using insert_bounded [of l x] by (simp add: case_prod_beta)
qed

lemma insert_seq_inv: "PacketHashlist_inv l \<Longrightarrow> PacketHashlist_inv (fst (insert_seq l hs))"
  by (induction hs arbitrary: l) (simp_all add: case_prod_beta insert_inv)

lemma insert_fresh_current:
  "\<not> PacketHashlist_contains l h \<Longrightarrow> h \<in> hl_current (fst (PacketHashlist_insert l h))"
  by (simp add: PacketHashlist_insert_def Let_def)

subsection \<open>Properties\<close>

text \<open>
  C23: the duplicate filter never forgets within its window and never invents. A packet hash offered
  a second time after at most \<open>max_size / 2\<close> other arrivals, whatever they were, is rejected as a
  duplicate if its first offer was accepted; and an offer is rejected only when the hash is stored.
\<close>

theorem dedup_window:
  assumes "PacketHashlist_inv l" and "snd (PacketHashlist_insert l h)"
    and "length hs \<le> hl_max_size l div 2"
  shows "\<not> snd (PacketHashlist_insert (fst (insert_seq (fst (PacketHashlist_insert l h)) hs)) h)
    \<and> (\<forall>l' x. snd (PacketHashlist_insert l' x) = (x \<notin> PacketHashlist_all_hashes l'))"
proof -
  have "aged 0 h (fst (PacketHashlist_insert l h))"
    using assms(2) by (simp add: insert_result insert_fresh_current aged_def)
  then have "PacketHashlist_contains (fst (insert_seq (fst (PacketHashlist_insert l h)) hs)) h"
    using assms(1,3) by (intro insert_seq_aged [of _ 0] insert_inv) simp_all
  then show ?thesis
    by (auto simp: insert_result PacketHashlist_contains_def PacketHashlist_all_hashes_def)
qed

theorem dedup_window_witness:
  "\<not> snd (PacketHashlist_insert (fst (insert_seq
      (fst (PacketHashlist_insert (PacketHashlist_new_with_capacity 4) [7])) [[1], [2]])) [7])"
proof (rule dedup_window [THEN conjunct1])
  show "PacketHashlist_inv (PacketHashlist_new_with_capacity 4)"
    by (simp add: PacketHashlist_inv_def PacketHashlist_new_with_capacity_def)
  show "snd (PacketHashlist_insert (PacketHashlist_new_with_capacity 4) [7])"
    by (simp add: insert_result PacketHashlist_contains_def PacketHashlist_new_with_capacity_def)
  show "length [[1], [2 :: u8]] \<le> hl_max_size (PacketHashlist_new_with_capacity 4) div 2"
    by (simp add: PacketHashlist_new_with_capacity_def)
qed

text \<open>
  The filter stays within its capacity. From an empty filter with a capacity of at least two,
  any sequence of insertions keeps the two generations disjoint and holds at most \<open>max_size\<close>
  hashes in all (twice the half capacity).
\<close>

lemma hashlist_bounded:
  assumes "2 \<le> max_size"
  shows "PacketHashlist_bounded (fst (insert_seq (PacketHashlist_new_with_capacity max_size) hs))
    \<and> PacketHashlist_len (fst (insert_seq (PacketHashlist_new_with_capacity max_size) hs)) \<le> max_size"
proof -
  let ?l = "fst (insert_seq (PacketHashlist_new_with_capacity max_size) hs)"
  have "PacketHashlist_bounded (PacketHashlist_new_with_capacity max_size)"
    by (simp add: PacketHashlist_bounded_def PacketHashlist_inv_def PacketHashlist_new_with_capacity_def)
  then have "PacketHashlist_bounded ?l \<and> hl_max_size ?l = max_size"
    using insert_seq_bounded [of "PacketHashlist_new_with_capacity max_size" hs] assms
    by (simp add: PacketHashlist_new_with_capacity_def)
  then show ?thesis
    by (auto simp: PacketHashlist_bounded_def PacketHashlist_len_def)
qed

lemma hashlist_bounded_witness:
  "PacketHashlist_len (fst (insert_seq (PacketHashlist_new_with_capacity 2) [[1], [2], [3]])) \<le> 2"
  using hashlist_bounded [of 2 "[[1], [2], [3]]"] by simp

end
