(* ===== verification/Routing_Tables.thy ===== *)
theory Routing_Tables
  imports Tables
begin

text \<open>
  The reverse, path and link tables of the transport:
  \<open>src/crates/rns-transport/src/reverse_table.rs\<close>, \<open>path_table.rs\<close>, \<open>link_table.rs\<close> and the
  constants they use. The wall clock \<open>now_f64()\<close> is the argument \<open>now\<close>. Each sweep
  interprets the contract of a full or of a batched cull.
\<close>

subsection \<open>Constants and shared types\<close>

type_synonym InterfaceId = u64
type_synonym TruncatedHash = bytes
type_synonym DestHash = bytes
type_synonym LinkId = bytes

definition REVERSE_TIMEOUT :: nat where "REVERSE_TIMEOUT = 480"
definition AP_PATH_TIME :: nat where "AP_PATH_TIME = 86400"
definition ROAMING_PATH_TIME :: nat where "ROAMING_PATH_TIME = 21600"
definition DESTINATION_TIMEOUT :: nat where "DESTINATION_TIMEOUT = 604800"
definition PERSIST_RANDOM_BLOBS :: nat where "PERSIST_RANDOM_BLOBS = 32"
definition MAX_RANDOM_BLOBS :: nat where "MAX_RANDOM_BLOBS = 64"

datatype PathState = PS_Unknown | PS_Unresponsive | PS_Responsive

datatype InterfaceMode = IM_Full | IM_PointToPoint | IM_Gateway | IM_AccessPoint | IM_Roaming
  | IM_Boundary | IM_Internal

subsection \<open>The reverse table\<close>

record ReverseEntry =
  re_timestamp :: unix_time
  re_receiving_interface :: InterfaceId
  re_remaining_hops :: u8
  re_outbound_interface :: "InterfaceId option"

record ReverseTable =
  rt_entries :: "(TruncatedHash, ReverseEntry) hmap"

definition ReverseTable_new :: ReverseTable where
  "ReverseTable_new = \<lparr>rt_entries = hm_empty\<rparr>"

definition ReverseTable_insert_with_outbound ::
    "unix_time \<Rightarrow> TruncatedHash \<Rightarrow> InterfaceId \<Rightarrow> u8 \<Rightarrow> InterfaceId option \<Rightarrow> ReverseTable \<Rightarrow> ReverseTable" where
  "ReverseTable_insert_with_outbound now packet_hash interface_id remaining_hops outbound t =
     t\<lparr>rt_entries := hm_insert packet_hash
         \<lparr>re_timestamp = now, re_receiving_interface = interface_id,
          re_remaining_hops = remaining_hops, re_outbound_interface = outbound\<rparr> (rt_entries t)\<rparr>"

definition ReverseTable_insert ::
    "unix_time \<Rightarrow> TruncatedHash \<Rightarrow> InterfaceId \<Rightarrow> u8 \<Rightarrow> ReverseTable \<Rightarrow> ReverseTable" where
  "ReverseTable_insert now packet_hash interface_id remaining_hops t =
     ReverseTable_insert_with_outbound now packet_hash interface_id remaining_hops None t"

definition ReverseTable_get :: "ReverseTable \<Rightarrow> TruncatedHash \<Rightarrow> ReverseEntry option" where
  "ReverseTable_get t h = hm_get (rt_entries t) h"

definition ReverseTable_remove :: "TruncatedHash \<Rightarrow> ReverseTable \<Rightarrow> ReverseTable \<times> ReverseEntry option" where
  "ReverseTable_remove h t = (t\<lparr>rt_entries := hm_remove h (rt_entries t)\<rparr>, hm_get (rt_entries t) h)"

definition ReverseTable_cull_expired :: "unix_time \<Rightarrow> ReverseTable \<Rightarrow> ReverseTable \<times> nat" where
  "ReverseTable_cull_expired now t =
    (let cutoff = now - real REVERSE_TIMEOUT;
         before = hm_len (rt_entries t);
         entries = hm_retain (\<lambda>_ entry. re_timestamp entry > cutoff) (rt_entries t)
     in (t\<lparr>rt_entries := entries\<rparr>, before - hm_len entries))"

definition ReverseTable_cull_expired_batch :: "nat \<Rightarrow> unix_time \<Rightarrow> ReverseTable \<Rightarrow> ReverseTable \<times> nat" where
  "ReverseTable_cull_expired_batch limit now t =
    (let cutoff = now - real REVERSE_TIMEOUT;
         to_remove = map fst (take limit (filter (\<lambda>(_, entry). re_timestamp entry \<le> cutoff) (rt_entries t)));
         count = length to_remove
     in (t\<lparr>rt_entries := fold hm_remove to_remove (rt_entries t)\<rparr>, count))"

definition ReverseTable_cull_dead_interfaces :: "InterfaceId set \<Rightarrow> ReverseTable \<Rightarrow> ReverseTable \<times> nat" where
  "ReverseTable_cull_dead_interfaces active t =
    (let before = hm_len (rt_entries t);
         entries = hm_retain (\<lambda>_ entry. re_receiving_interface entry \<in> active
            \<and> (case re_outbound_interface entry of None \<Rightarrow> True | Some i \<Rightarrow> i \<in> active)) (rt_entries t)
     in (t\<lparr>rt_entries := entries\<rparr>, before - hm_len entries))"

subsection \<open>Path entries\<close>

fun path_expiry :: "InterfaceMode \<Rightarrow> nat" where
  "path_expiry IM_AccessPoint = AP_PATH_TIME"
| "path_expiry IM_Roaming = ROAMING_PATH_TIME"
| "path_expiry _ = DESTINATION_TIMEOUT"

record PathEntry =
  pe_timestamp :: unix_time
  pe_next_hop :: "bytes option"
  pe_hops :: u8
  pe_expires :: unix_time
  pe_random_blobs :: "bytes list"
  pe_interface_id :: InterfaceId
  pe_packet_hash :: "bytes option"

definition PathEntry_new :: "unix_time \<Rightarrow> bytes option \<Rightarrow> u8 \<Rightarrow> InterfaceId \<Rightarrow> InterfaceMode \<Rightarrow> PathEntry" where
  "PathEntry_new now next_hop hops interface_id mode =
     \<lparr>pe_timestamp = now, pe_next_hop = next_hop, pe_hops = hops,
      pe_expires = now + real (path_expiry mode), pe_random_blobs = [],
      pe_interface_id = interface_id, pe_packet_hash = None\<rparr>"

definition PathEntry_add_random_blob :: "bytes \<Rightarrow> PathEntry \<Rightarrow> PathEntry" where
  "PathEntry_add_random_blob blob e =
    (let blobs = (if length (pe_random_blobs e) \<ge> MAX_RANDOM_BLOBS then tl (pe_random_blobs e)
                  else pe_random_blobs e)
     in e\<lparr>pe_random_blobs := blobs @ [blob]\<rparr>)"

definition PathEntry_has_random_blob :: "PathEntry \<Rightarrow> bytes \<Rightarrow> bool" where
  "PathEntry_has_random_blob e blob = (blob \<in> set (pe_random_blobs e))"

definition PathEntry_is_expired :: "unix_time \<Rightarrow> PathEntry \<Rightarrow> bool" where
  "PathEntry_is_expired now e = (now > pe_expires e)"

definition PathEntry_touch :: "unix_time \<Rightarrow> PathEntry \<Rightarrow> PathEntry" where
  "PathEntry_touch now e =
    (let lifetime = (if pe_expires e > pe_timestamp e then pe_expires e - pe_timestamp e
                     else real (path_expiry IM_Full))
     in e\<lparr>pe_timestamp := now, pe_expires := now + lifetime\<rparr>)"

definition PathEntry_blobs_for_persist :: "PathEntry \<Rightarrow> bytes list" where
  "PathEntry_blobs_for_persist e =
     drop (length (pe_random_blobs e) - PERSIST_RANDOM_BLOBS) (pe_random_blobs e)"

subsection \<open>The path table\<close>

record PathTable =
  pt_entries :: "(DestHash, PathEntry) hmap"
  pt_states :: "(DestHash, PathState) hmap"

definition PathTable_new :: PathTable where
  "PathTable_new = \<lparr>pt_entries = hm_empty, pt_states = hm_empty\<rparr>"

definition PathTable_insert :: "DestHash \<Rightarrow> PathEntry \<Rightarrow> PathTable \<Rightarrow> PathTable" where
  "PathTable_insert h entry t =
     t\<lparr>pt_states := hm_remove h (pt_states t), pt_entries := hm_insert h entry (pt_entries t)\<rparr>"

definition PathTable_get :: "PathTable \<Rightarrow> DestHash \<Rightarrow> PathEntry option" where
  "PathTable_get t h = hm_get (pt_entries t) h"

text \<open>Mutation through \<open>get_mut\<close> and \<open>get_live_mut\<close>: the caller's update \<open>f\<close> of the entry.\<close>

definition PathTable_get_mut :: "DestHash \<Rightarrow> (PathEntry \<Rightarrow> PathEntry) \<Rightarrow> PathTable \<Rightarrow> PathTable" where
  "PathTable_get_mut h f t = t\<lparr>pt_entries := hm_update h f (pt_entries t)\<rparr>"

definition PathTable_get_live :: "unix_time \<Rightarrow> PathTable \<Rightarrow> DestHash \<Rightarrow> PathEntry option" where
  "PathTable_get_live now t h =
    (case hm_get (pt_entries t) h of
       None \<Rightarrow> None
     | Some e \<Rightarrow> if \<not> PathEntry_is_expired now e then Some e else None)"

definition PathTable_get_live_mut ::
    "unix_time \<Rightarrow> DestHash \<Rightarrow> (PathEntry \<Rightarrow> PathEntry) \<Rightarrow> PathTable \<Rightarrow> PathTable" where
  "PathTable_get_live_mut now h f t =
     t\<lparr>pt_entries := hm_update h (\<lambda>e. if \<not> PathEntry_is_expired now e then f e else e) (pt_entries t)\<rparr>"

definition PathTable_has_path :: "unix_time \<Rightarrow> PathTable \<Rightarrow> DestHash \<Rightarrow> bool" where
  "PathTable_has_path now t h = (PathTable_get_live now t h \<noteq> None)"

definition PathTable_hops_to :: "unix_time \<Rightarrow> PathTable \<Rightarrow> DestHash \<Rightarrow> u8 option" where
  "PathTable_hops_to now t h = map_option pe_hops (PathTable_get_live now t h)"

definition PathTable_remove :: "DestHash \<Rightarrow> PathTable \<Rightarrow> PathTable \<times> PathEntry option" where
  "PathTable_remove h t =
    (t\<lparr>pt_states := hm_remove h (pt_states t), pt_entries := hm_remove h (pt_entries t)\<rparr>,
     hm_get (pt_entries t) h)"

definition PathTable_drop_all_via :: "InterfaceId \<Rightarrow> PathTable \<Rightarrow> PathTable \<times> nat" where
  "PathTable_drop_all_via i t =
    (let before = hm_len (pt_entries t);
         entries = hm_retain (\<lambda>_ e. pe_interface_id e \<noteq> i) (pt_entries t)
     in (t\<lparr>pt_entries := entries\<rparr>, before - hm_len entries))"

definition PathTable_drop_all_via_next_hop :: "bytes \<Rightarrow> PathTable \<Rightarrow> PathTable \<times> nat" where
  "PathTable_drop_all_via_next_hop next_hop t =
    (let before = hm_len (pt_entries t);
         entries = hm_retain (\<lambda>_ e. pe_next_hop e \<noteq> Some next_hop) (pt_entries t)
     in (t\<lparr>pt_entries := entries\<rparr>, before - hm_len entries))"

definition PathTable_cull_expired :: "unix_time \<Rightarrow> PathTable \<Rightarrow> PathTable \<times> nat" where
  "PathTable_cull_expired now t =
    (let before = hm_len (pt_entries t);
         entries = hm_retain (\<lambda>_ entry. \<not> PathEntry_is_expired now entry) (pt_entries t);
         states = hm_retain (\<lambda>hash _. hm_contains entries hash) (pt_states t)
     in (t\<lparr>pt_entries := entries, pt_states := states\<rparr>, before - hm_len entries))"

definition PathTable_expire :: "unix_time \<Rightarrow> DestHash \<Rightarrow> PathTable \<Rightarrow> PathTable \<times> bool" where
  "PathTable_expire now h t =
    (if hm_contains (pt_entries t) h then
       (fst (PathTable_cull_expired now
          (t\<lparr>pt_entries := hm_update h (\<lambda>e. e\<lparr>pe_expires := 0\<rparr>) (pt_entries t)\<rparr>)), True)
     else (t, False))"

definition PathTable_set_state :: "DestHash \<Rightarrow> PathState \<Rightarrow> PathTable \<Rightarrow> PathTable" where
  "PathTable_set_state h s t = t\<lparr>pt_states := hm_insert h s (pt_states t)\<rparr>"

definition PathTable_get_state :: "PathTable \<Rightarrow> DestHash \<Rightarrow> PathState" where
  "PathTable_get_state t h = (case hm_get (pt_states t) h of Some s \<Rightarrow> s | None \<Rightarrow> PS_Unknown)"

definition PathTable_cull_expired_batch :: "nat \<Rightarrow> unix_time \<Rightarrow> PathTable \<Rightarrow> PathTable \<times> nat" where
  "PathTable_cull_expired_batch limit now t =
    (let to_remove = map fst (take limit (filter (\<lambda>(_, entry). PathEntry_is_expired now entry) (pt_entries t)));
         count = length to_remove;
         t = fold (\<lambda>hash t. t\<lparr>pt_entries := hm_remove hash (pt_entries t),
                              pt_states := hm_remove hash (pt_states t)\<rparr>) to_remove t
     in (t, count))"

definition PathTable_cull_dead_interfaces :: "InterfaceId set \<Rightarrow> PathTable \<Rightarrow> PathTable \<times> nat" where
  "PathTable_cull_dead_interfaces active t =
    (let before = hm_len (pt_entries t);
         entries = hm_retain (\<lambda>_ entry. pe_interface_id entry \<in> active) (pt_entries t);
         states = hm_retain (\<lambda>hash _. hm_contains entries hash) (pt_states t)
     in (t\<lparr>pt_entries := entries, pt_states := states\<rparr>, before - hm_len entries))"

definition PathTable_iter_live :: "unix_time \<Rightarrow> PathTable \<Rightarrow> (DestHash \<times> PathEntry) list" where
  "PathTable_iter_live now t = filter (\<lambda>(_, entry). \<not> PathEntry_is_expired now entry) (pt_entries t)"

definition PathTable_wf :: "PathTable \<Rightarrow> bool" where
  "PathTable_wf t \<longleftrightarrow> hm_wf (pt_entries t) \<and> hm_wf (pt_states t)"

subsection \<open>The link table\<close>

text \<open>
  An \<open>InterfaceOwner\<close> in an entry is its registration token, the pair of epoch and revision
  that its equality compares. Deadlines and timestamps may be any double.
\<close>

record LinkEntry =
  le_timestamp :: f64
  le_next_hop :: "bytes option"
  le_interface_id :: InterfaceId
  le_remaining_hops :: u8
  le_destination_hash :: bytes
  le_established :: bool
  le_validated :: bool
  le_proof_timeout :: f64
  le_receiving_interface :: InterfaceId
  le_taken_hops :: u8
  le_interface_owner :: "(u64 \<times> u64) option"
  le_receiving_owner :: "(u64 \<times> u64) option"
  le_requested_mode :: u8
  le_accepted_mtu_ceiling :: u32

record ExpiredLink =
  el_next_hop :: "bytes option"
  el_interface_id :: InterfaceId
  el_remaining_hops :: u8
  el_destination_hash :: bytes
  el_receiving_interface :: InterfaceId
  el_taken_hops :: u8

definition ExpiredLink_from :: "LinkEntry \<Rightarrow> ExpiredLink" where
  "ExpiredLink_from e = \<lparr>el_next_hop = le_next_hop e, el_interface_id = le_interface_id e,
     el_remaining_hops = le_remaining_hops e, el_destination_hash = le_destination_hash e,
     el_receiving_interface = le_receiving_interface e, el_taken_hops = le_taken_hops e\<rparr>"

definition pending_link_proof_deadline :: "real \<Rightarrow> u8 \<Rightarrow> real" where
  "pending_link_proof_deadline now remaining_hops = now + 6 * real (unat (max remaining_hops 1))"

definition interface_round_trip_allowance :: "u64 option \<Rightarrow> real" where
  "interface_round_trip_allowance bitrate =
    (case bitrate of
       Some rate \<Rightarrow> if rate > 0 then 2 * real (500 * 8) / real (unat (max rate 5)) else 0
     | None \<Rightarrow> 0)"

definition transit_link_proof_deadline :: "real \<Rightarrow> u8 \<Rightarrow> u64 option \<Rightarrow> real" where
  "transit_link_proof_deadline now remaining_hops bitrate =
     pending_link_proof_deadline now remaining_hops + interface_round_trip_allowance bitrate"

record LinkTable =
  lt_entries :: "(LinkId, LinkEntry) hmap"

definition LinkTable_new :: LinkTable where
  "LinkTable_new = \<lparr>lt_entries = hm_empty\<rparr>"

definition LinkTable_insert :: "LinkId \<Rightarrow> LinkEntry \<Rightarrow> LinkTable \<Rightarrow> LinkTable" where
  "LinkTable_insert link_id entry t = t\<lparr>lt_entries := hm_insert link_id entry (lt_entries t)\<rparr>"

definition LinkTable_get :: "LinkTable \<Rightarrow> LinkId \<Rightarrow> LinkEntry option" where
  "LinkTable_get t link_id = hm_get (lt_entries t) link_id"

definition LinkTable_get_mut :: "LinkId \<Rightarrow> (LinkEntry \<Rightarrow> LinkEntry) \<Rightarrow> LinkTable \<Rightarrow> LinkTable" where
  "LinkTable_get_mut link_id f t = t\<lparr>lt_entries := hm_update link_id f (lt_entries t)\<rparr>"

definition LinkTable_remove_interface :: "InterfaceId \<Rightarrow> LinkTable \<Rightarrow> LinkTable" where
  "LinkTable_remove_interface i t =
     t\<lparr>lt_entries := hm_retain (\<lambda>_ e. le_interface_id e \<noteq> i \<and> le_receiving_interface e \<noteq> i) (lt_entries t)\<rparr>"

definition LinkTable_remove :: "LinkId \<Rightarrow> LinkTable \<Rightarrow> LinkTable \<times> LinkEntry option" where
  "LinkTable_remove link_id t =
    (t\<lparr>lt_entries := hm_remove link_id (lt_entries t)\<rparr>, hm_get (lt_entries t) link_id)"

text \<open>
  The closure of \<open>retain\<close> in \<open>cull_stale\<close>: whether the entry is kept, and what it pushes.
\<close>

definition cull_stale_entry :: "f64 \<Rightarrow> f64 \<Rightarrow> LinkEntry \<Rightarrow> bool \<times> ExpiredLink list" where
  "cull_stale_entry now cutoff entry =
    (if le_validated entry then (f64_lt cutoff (le_timestamp entry), [])
     else if f64_le (le_proof_timeout entry) now \<or> \<not> is_finite (le_proof_timeout entry)
       then (False, [ExpiredLink_from entry])
     else (True, []))"

definition LinkTable_cull_stale :: "real \<Rightarrow> f64 \<Rightarrow> LinkTable \<Rightarrow> LinkTable \<times> nat \<times> ExpiredLink list" where
  "LinkTable_cull_stale now_r timeout t =
    (let now = Fin now_r;
         cutoff = f64_sub now timeout;
         before = hm_len (lt_entries t);
         entries = hm_retain (\<lambda>_ entry. fst (cull_stale_entry now cutoff entry)) (lt_entries t);
         unvalidated_expired = concat (map (\<lambda>(_, entry). snd (cull_stale_entry now cutoff entry)) (lt_entries t))
     in (t\<lparr>lt_entries := entries\<rparr>, before - hm_len entries, unvalidated_expired))"

definition LinkTable_cull_dead_interfaces :: "InterfaceId set \<Rightarrow> LinkTable \<Rightarrow> LinkTable \<times> nat" where
  "LinkTable_cull_dead_interfaces active t =
    (let before = hm_len (lt_entries t);
         entries = hm_retain (\<lambda>_ entry. le_interface_id entry \<in> active
            \<and> le_receiving_interface entry \<in> active) (lt_entries t)
     in (t\<lparr>lt_entries := entries\<rparr>, before - hm_len entries))"

subsection \<open>The sweeps meet the cull contracts\<close>

lemma take_dead_keys:
  assumes "\<And>v. dead v = (\<not> live v)"
  shows "map fst (take limit (filter (\<lambda>(_, v). dead v) m)) = take limit (dead_keys (\<lambda>_. live) m)"
  by (simp add: dead_keys_def take_map assms)

interpretation rev_cull: cull_table rt_entries ReverseTable_cull_expired
    "\<lambda>now _ e. re_timestamp e > now - real REVERSE_TIMEOUT"
  by unfold_locales (simp_all add: ReverseTable_cull_expired_def Let_def)

interpretation rev_dead: cull_table rt_entries ReverseTable_cull_dead_interfaces
    "\<lambda>active _ e. re_receiving_interface e \<in> active
       \<and> (case re_outbound_interface e of None \<Rightarrow> True | Some i \<Rightarrow> i \<in> active)"
  by unfold_locales (simp_all add: ReverseTable_cull_dead_interfaces_def Let_def)

interpretation rev_batch: batch_cull_table rt_entries ReverseTable_cull_expired_batch
    "\<lambda>now _ e. re_timestamp e > now - real REVERSE_TIMEOUT" "\<lambda>t. hm_wf (rt_entries t)"
proof -
  have ks: "map fst (take limit (filter (\<lambda>(_, e). re_timestamp e \<le> c) m)) =
      take limit (dead_keys (\<lambda>_ e. re_timestamp e > c) m)" for limit c and m :: "(bytes, ReverseEntry) hmap"
    by (rule take_dead_keys) auto
  show "batch_cull_table rt_entries ReverseTable_cull_expired_batch
    (\<lambda>now _ e. re_timestamp e > now - real REVERSE_TIMEOUT) (\<lambda>t. hm_wf (rt_entries t))"
    by unfold_locales
      (simp_all add: ReverseTable_cull_expired_batch_def Let_def ks hm_remove_all_def [symmetric] min.commute)
qed

interpretation path_cull: cull_table pt_entries PathTable_cull_expired
    "\<lambda>now _ e. \<not> PathEntry_is_expired now e"
  by unfold_locales (simp_all add: PathTable_cull_expired_def Let_def)

interpretation path_dead: cull_table pt_entries PathTable_cull_dead_interfaces
    "\<lambda>active _ e. pe_interface_id e \<in> active"
  by unfold_locales (simp_all add: PathTable_cull_dead_interfaces_def Let_def)

interpretation path_via: cull_table pt_entries PathTable_drop_all_via "\<lambda>i _ e. pe_interface_id e \<noteq> i"
  by unfold_locales (simp_all add: PathTable_drop_all_via_def Let_def)

interpretation path_next: cull_table pt_entries PathTable_drop_all_via_next_hop
    "\<lambda>n _ e. pe_next_hop e \<noteq> Some n"
  by unfold_locales (simp_all add: PathTable_drop_all_via_next_hop_def Let_def)

interpretation link_dead: cull_table lt_entries LinkTable_cull_dead_interfaces
    "\<lambda>active _ e. le_interface_id e \<in> active \<and> le_receiving_interface e \<in> active"
  by unfold_locales (simp_all add: LinkTable_cull_dead_interfaces_def Let_def)

interpretation link_stale: cull_table lt_entries
    "\<lambda>(now, timeout) t. (fst (LinkTable_cull_stale now timeout t), fst (snd (LinkTable_cull_stale now timeout t)))"
    "\<lambda>(now, timeout) _ e. fst (cull_stale_entry (Fin now) (f64_sub (Fin now) timeout) e)"
  by unfold_locales (simp_all add: LinkTable_cull_stale_def Let_def case_prod_beta)

lemma path_batch_fold:
  "fold (\<lambda>hash t. t\<lparr>pt_entries := hm_remove hash (pt_entries t), pt_states := hm_remove hash (pt_states t)\<rparr>) ks t =
     t\<lparr>pt_entries := hm_remove_all ks (pt_entries t), pt_states := hm_remove_all ks (pt_states t)\<rparr>"
  by (induction ks arbitrary: t) (simp_all add: hm_remove_all_def)

interpretation path_batch: batch_cull_table pt_entries PathTable_cull_expired_batch
    "\<lambda>now _ e. \<not> PathEntry_is_expired now e" PathTable_wf
proof -
  have ks: "map fst (take limit (filter (\<lambda>(_, e). PathEntry_is_expired now e) m)) =
      take limit (dead_keys (\<lambda>_ e. \<not> PathEntry_is_expired now e) m)"
    for limit now and m :: "(bytes, PathEntry) hmap"
    by (rule take_dead_keys) auto
  show "batch_cull_table pt_entries PathTable_cull_expired_batch
      (\<lambda>now _ e. \<not> PathEntry_is_expired now e) PathTable_wf"
    by unfold_locales
      (simp_all add: PathTable_cull_expired_batch_def Let_def ks path_batch_fold PathTable_wf_def min.commute)
qed

subsection \<open>Lemmas\<close>

lemma PathTable_wf_ops:
  assumes "PathTable_wf t"
  shows "PathTable_wf (PathTable_insert h e t)" and "PathTable_wf (fst (PathTable_remove h t))"
    and "PathTable_wf (PathTable_set_state h s t)" and "PathTable_wf (fst (PathTable_cull_expired now t))"
    and "PathTable_wf (fst (PathTable_cull_dead_interfaces active t))"
    and "PathTable_wf (fst (PathTable_drop_all_via i t))"
    and "PathTable_wf (fst (PathTable_drop_all_via_next_hop n t))"
    and "PathTable_wf (PathTable_get_mut h f t)" and "PathTable_wf (PathTable_get_live_mut now h f t)"
    and "PathTable_wf (fst (PathTable_expire now h t))"
  using assms
  by (simp_all add: PathTable_wf_def PathTable_insert_def PathTable_remove_def PathTable_set_state_def
      PathTable_cull_expired_def PathTable_cull_dead_interfaces_def PathTable_drop_all_via_def
      PathTable_drop_all_via_next_hop_def PathTable_get_mut_def PathTable_get_live_mut_def
      PathTable_expire_def Let_def)

lemma path_cull_lookup:
  assumes "PathTable_wf t"
  shows "PathTable_get (fst (PathTable_cull_expired now t)) h = PathTable_get_live now t h"
  using assms
  by (simp add: PathTable_cull_expired_def PathTable_get_def PathTable_get_live_def PathTable_wf_def
      Let_def hm_get_retain)

lemma path_cull_state:
  assumes "PathTable_wf t"
  shows "PathTable_get_state (fst (PathTable_cull_expired now t)) h =
    (if PathTable_has_path now t h then PathTable_get_state t h else PS_Unknown)"
  using assms
  by (auto simp: PathTable_cull_expired_def PathTable_get_state_def PathTable_has_path_def
      PathTable_get_live_def PathTable_wf_def Let_def hm_get_retain hm_contains_def split: option.splits)

lemma path_batch_get_state:
  assumes "PathTable_wf t" and "PathTable_has_path now t h"
  shows "PathTable_get_state (fst (PathTable_cull_expired_batch limit now t)) h = PathTable_get_state t h"
proof -
  let ?ks = "map fst (take limit (filter (\<lambda>(_, e). PathEntry_is_expired now e) (pt_entries t)))"
  obtain e where e: "hm_get (pt_entries t) h = Some e" "\<not> PathEntry_is_expired now e"
    using assms(2) by (auto simp: PathTable_has_path_def PathTable_get_live_def split: option.splits if_splits)
  have "h \<notin> set ?ks"
  proof
    assume "h \<in> set ?ks"
    then obtain v where "(h, v) \<in> set (pt_entries t)" "PathEntry_is_expired now v"
      by (auto dest!: in_set_takeD)
    with assms(1) e show False by (auto simp: PathTable_wf_def dest: hm_mem_get)
  qed
  then show ?thesis
    by (simp add: PathTable_cull_expired_batch_def Let_def path_batch_fold PathTable_get_state_def
        hm_get_remove_all)
qed

lemma add_blobs_window:
  assumes "length (pe_random_blobs e) \<le> MAX_RANDOM_BLOBS"
  shows "pe_random_blobs (fold PathEntry_add_random_blob bs e) =
    drop (length (pe_random_blobs e @ bs) - MAX_RANDOM_BLOBS) (pe_random_blobs e @ bs)"
  using assms
proof (induction bs arbitrary: e)
  case Nil
  then show ?case by simp
next
  case (Cons b bs)
  let ?e = "PathEntry_add_random_blob b e" and ?r = "pe_random_blobs e"
  show ?case
  proof (cases "length ?r = MAX_RANDOM_BLOBS")
    case True
    then have e: "pe_random_blobs ?e = tl ?r @ [b]"
      by (simp add: PathEntry_add_random_blob_def)
    obtain x xs where r: "?r = x # xs" using True by (cases ?r) (auto simp: MAX_RANDOM_BLOBS_def)
    then have M: "MAX_RANDOM_BLOBS = Suc (length xs)" using True by simp
    have "pe_random_blobs (fold PathEntry_add_random_blob bs ?e) = drop (length bs) (xs @ [b] @ bs)"
      using Cons.IH [of ?e] by (simp add: M e r)
    moreover have "length (?r @ b # bs) - MAX_RANDOM_BLOBS = Suc (length bs)"
      using True by simp
    ultimately show ?thesis by (simp add: r)
  next
    case False
    then have "pe_random_blobs ?e = ?r @ [b]" "length (?r @ [b]) \<le> MAX_RANDOM_BLOBS"
      using Cons.prems by (auto simp: PathEntry_add_random_blob_def)
    then show ?thesis using Cons.IH [of ?e] by simp
  qed
qed

lemma interface_round_trip_allowance_bounds:
  "0 \<le> interface_round_trip_allowance r" "interface_round_trip_allowance r \<le> 1600"
proof -
  have "5 \<le> real (unat (max rate 5))" for rate :: u64
  proof -
    have "unat (5 :: u64) \<le> unat (max rate 5)"
      unfolding word_le_nat_alt [symmetric] by simp
    then have "5 \<le> unat (max rate 5)" by simp
    then show ?thesis by linarith
  qed
  then have "8000 / real (unat (max rate 5)) \<le> 8000 / 5" for rate :: u64
    by (intro divide_left_mono) (auto intro: less_le_trans [of 0 5])
  moreover have "0 \<le> (unsigned (max rate 5) :: real)" for rate :: u64
    using of_nat_0_le_iff [of "unat (max rate 5)", where 'a = real] by simp
  ultimately show "0 \<le> interface_round_trip_allowance r" "interface_round_trip_allowance r \<le> 1600"
    by (auto simp: interface_round_trip_allowance_def split: option.splits)
qed

lemma transit_deadline_bounds:
  "now + 6 \<le> transit_link_proof_deadline now hops rate"
  "transit_link_proof_deadline now hops rate \<le> now + 3130"
proof -
  have "unat (1 :: u8) \<le> unat (max hops 1)"
    unfolding word_le_nat_alt [symmetric] by simp
  then have "1 \<le> unat (max hops 1)" by simp
  moreover have "unat (max hops 1) \<le> 255" by (rule unat_u8_le)
  ultimately have "6 \<le> 6 * real (unat (max hops 1))" "6 * real (unat (max hops 1)) \<le> 1530" by linarith+
  then show "now + 6 \<le> transit_link_proof_deadline now hops rate"
    "transit_link_proof_deadline now hops rate \<le> now + 3130"
    using interface_round_trip_allowance_bounds [of rate]
    by (simp_all add: transit_link_proof_deadline_def pending_link_proof_deadline_def)
qed

subsection \<open>Properties\<close>

text \<open>
  A full sweep of the path table is exactly the removal of what has expired. Afterwards a
  lookup finds what a live lookup found before, a destination keeps its state label if and only if
  it still has a route (otherwise it reads as unknown), the table stays well formed, the number
  reported is the number of expired routes, and a second sweep at the same time removes nothing.
\<close>

lemma path_cull_exact:
  assumes "PathTable_wf t"
  shows "let (t', n) = PathTable_cull_expired now t in
      PathTable_wf t'
    \<and> (\<forall>h. PathTable_get t' h = PathTable_get_live now t h)
    \<and> (\<forall>h. PathTable_get_state t' h = (if PathTable_has_path now t h then PathTable_get_state t h else PS_Unknown))
    \<and> n = length (filter (\<lambda>(_, e). PathEntry_is_expired now e) (pt_entries t))
    \<and> snd (PathTable_cull_expired now t') = 0"
  using PathTable_wf_ops(4) [OF assms, of now] path_cull_lookup [OF assms] path_cull_state [OF assms]
    path_cull.cull_count_dead [of now t] path_cull.cull_idem(2) [of now t]
  by (auto simp: case_prod_beta)

definition example_route :: PathEntry where
  "example_route = PathEntry_new 100 None 3 7 IM_Roaming"

definition example_paths :: PathTable where
  "example_paths = PathTable_set_state [1] PS_Responsive (PathTable_insert [2] (example_route\<lparr>pe_expires := 50\<rparr>)
     (PathTable_insert [1] example_route PathTable_new))"

lemma example_paths_wf: "PathTable_wf example_paths"
proof -
  have "PathTable_wf PathTable_new"
    by (simp add: PathTable_wf_def PathTable_new_def)
  then show ?thesis unfolding example_paths_def by (intro PathTable_wf_ops)
qed

lemma path_cull_exact_witness:
  "let (t', n) = PathTable_cull_expired 200 example_paths in
     PathTable_get t' [1] = PathTable_get_live 200 example_paths [1] \<and> PathTable_wf t'"
  using path_cull_exact [OF example_paths_wf, of 200] by (auto simp: case_prod_beta)

text \<open>
  A bounded sweep never harms a live route. With any limit, a batched sweep keeps every live
  route and its state label, adds none, shrinks the table by exactly the number it reports, which
  is at most the limit; and when it reports fewer than the limit, no expired route is left.
\<close>

lemma path_batch_safe:
  assumes "PathTable_wf t"
  shows "let (t', n) = PathTable_cull_expired_batch limit now t in
      PathTable_wf t' \<and> n \<le> limit
    \<and> hm_len (pt_entries t') + n = hm_len (pt_entries t)
    \<and> (\<forall>h e. PathTable_get_live now t h = Some e \<longrightarrow>
         PathTable_get t' h = Some e \<and> PathTable_get_state t' h = PathTable_get_state t h)
    \<and> (\<forall>h e. PathTable_get t' h = Some e \<longrightarrow> PathTable_get t h = Some e)
    \<and> (n < limit \<longrightarrow> (\<forall>h. PathTable_get t' h = PathTable_get_live now t h))"
proof -
  let ?r = "PathTable_cull_expired_batch limit now t"
  have live: "PathTable_get_live now t h = Some e \<longleftrightarrow> hm_get (pt_entries t) h = Some e \<and> \<not> PathEntry_is_expired now e"
    for h e by (auto simp: PathTable_get_live_def split: option.splits if_splits)
  have keep: "hm_get (pt_entries (fst ?r)) h = Some e" if "PathTable_get_live now t h = Some e" for h e
    using path_batch.batch_keeps_live [OF assms, of h e now limit] that by (simp add: live)
  have short: "PathTable_get (fst ?r) h = PathTable_get_live now t h" if "snd ?r < limit" for h
  proof (cases "hm_get (pt_entries (fst ?r)) h")
    case None
    with keep [of h] show ?thesis by (cases "PathTable_get_live now t h") (auto simp: PathTable_get_def)
  next
    case (Some e)
    with path_batch.batch_short_complete [OF assms that Some] path_batch.batch_no_new [OF assms Some]
    show ?thesis using live [of h e] Some by (simp add: PathTable_get_def)
  qed
  have st: "PathTable_get_live now t h = Some e \<Longrightarrow>
      PathTable_get_state (fst ?r) h = PathTable_get_state t h" for h e
    by (rule path_batch_get_state [OF assms]) (simp add: PathTable_has_path_def)
  have "snd ?r \<le> limit" using path_batch.batch_count [OF assms] by simp
  then show ?thesis
    using path_batch.batch_invar [OF assms, of limit now] path_batch.batch_len [OF assms, of limit now]
      keep st short path_batch.batch_no_new [OF assms, of limit now]
    by (simp add: case_prod_beta PathTable_get_def)
qed

lemma path_batch_safe_witness:
  "PathTable_get (fst (PathTable_cull_expired_batch 1 200 example_paths)) [1] = Some example_route"
proof -
  have "PathTable_get_live 200 example_paths [1] = Some example_route"
    by (simp add: PathTable_get_live_def example_paths_def PathTable_set_state_def PathTable_insert_def
        PathTable_new_def example_route_def PathEntry_new_def PathEntry_is_expired_def ROAMING_PATH_TIME_def)
  with path_batch_safe [OF example_paths_wf, of 1 200] show ?thesis
    by (simp add: case_prod_beta)
qed

text \<open>
  Announce replay memory. An entry that holds at most 64 random blobs holds, after any further
  sequence of additions, exactly the last 64 of all of them in order, and persists the last 32.
\<close>

lemma random_blob_window:
  assumes "length (pe_random_blobs e) \<le> MAX_RANDOM_BLOBS"
  shows "let all = pe_random_blobs e @ bs; e' = fold PathEntry_add_random_blob bs e in
    pe_random_blobs e' = drop (length all - 64) all \<and> PathEntry_blobs_for_persist e' = drop (length all - 32) all"
proof -
  define all where "all = pe_random_blobs e @ bs"
  define e' where "e' = fold PathEntry_add_random_blob bs e"
  have r: "pe_random_blobs e' = drop (length all - 64) all"
    using add_blobs_window [OF assms, of bs] by (simp only: all_def e'_def MAX_RANDOM_BLOBS_def)
  have "(length all - (length all - 64) - 32) + (length all - 64) = length all - 32" by arith
  then have "PathEntry_blobs_for_persist e' = drop (length all - 32) all"
    by (simp add: PathEntry_blobs_for_persist_def PERSIST_RANDOM_BLOBS_def r)
  with r show ?thesis by (simp only: Let_def all_def e'_def)
qed

lemma random_blob_window_witness:
  "pe_random_blobs (fold PathEntry_add_random_blob [[1], [2]] example_route) = [[1], [2]]"
  using random_blob_window [of example_route "[[1], [2]]"]
  by (simp add: example_route_def PathEntry_new_def Let_def MAX_RANDOM_BLOBS_def)

text \<open>
  The stale-link sweep. It keeps a validated entry exactly while its timestamp is later than
  the cutoff, and an unvalidated one exactly while its deadline is finite and still ahead; it
  reports how many entries went and, for precisely the unvalidated ones among them, the route
  metadata. Since a transit entry gets a deadline at most 3130 seconds after its request, whatever hop
  count and bit rate were announced, no unvalidated entry outlives that.
\<close>

lemma link_cull_stale_exact:
  "case LinkTable_cull_stale now timeout t of (t', n, expired) \<Rightarrow>
      lt_entries t' = hm_retain (\<lambda>_ e. if le_validated e
         then f64_lt (f64_sub (Fin now) timeout) (le_timestamp e)
         else \<exists>d. le_proof_timeout e = Fin d \<and> now < d) (lt_entries t)
    \<and> n = hm_len (lt_entries t) - hm_len (lt_entries t')
    \<and> expired = map ExpiredLink_from (filter (\<lambda>e. \<not> le_validated e \<and> \<not> (\<exists>d. le_proof_timeout e = Fin d \<and> now < d))
         (map snd (lt_entries t)))
    \<and> transit_link_proof_deadline req hops rate \<le> req + 3130"
proof -
  have keep: "fst (cull_stale_entry (Fin now) c e) = (if le_validated e then f64_lt c (le_timestamp e)
      else \<exists>d. le_proof_timeout e = Fin d \<and> now < d)" for c e
    by (cases "le_proof_timeout e") (auto simp: cull_stale_entry_def)
  have push: "snd (cull_stale_entry (Fin now) c e) = (if \<not> le_validated e \<and> \<not> (\<exists>d. le_proof_timeout e = Fin d \<and> now < d)
      then [ExpiredLink_from e] else [])" for c e
    by (cases "le_proof_timeout e") (auto simp: cull_stale_entry_def)
  have "concat (map (\<lambda>(_, e). if P e then [f e] else []) m) = map f (filter P (map snd m))"
    for P and f :: "LinkEntry \<Rightarrow> ExpiredLink" and m :: "(bytes, LinkEntry) hmap"
    by (induction m) auto
  then show ?thesis
    using transit_deadline_bounds(2) [of req hops rate]
    by (simp add: LinkTable_cull_stale_def Let_def keep push)
qed

end
