(* ===== verification/Rate_Limits.thy ===== *)
theory Rate_Limits
  imports Routing_Tables
begin

text \<open>
  Announce accounting and blocking: \<open>rate_limit.rs\<close>, \<open>announce.rs\<close>, \<open>blackhole.rs\<close> and \<open>traffic.rs\<close> of
  \<open>src/crates/rns-transport/src\<close>. Log messages are omitted. \<open>u32\<close> and \<open>u64\<close> counters are
  words, so an overflow wraps as in a release build.
\<close>

subsection \<open>Rate limiting\<close>

definition MAX_RATE_TIMESTAMPS :: nat where "MAX_RATE_TIMESTAMPS = 16"
definition RATE_VIOLATION_THRESHOLD :: real where "RATE_VIOLATION_THRESHOLD = 1"
definition RATE_VIOLATIONS_BEFORE_PENALTY :: u32 where "RATE_VIOLATIONS_BEFORE_PENALTY = 3"
definition RATE_PENALTY_BASE :: real where "RATE_PENALTY_BASE = 60"
definition RATE_PENALTY_MAX :: real where "RATE_PENALTY_MAX = 3600"

text \<open>\<open>f64::MAX\<close>.\<close>

definition F64_MAX :: real where "F64_MAX = (2 ^ 53 - 1) * 2 ^ 971"

text \<open>\<open>f64::powi\<close> on the base 2, with an \<open>i32\<close> exponent.\<close>

definition powi2 :: "int \<Rightarrow> real" where
  "powi2 n = (if n \<ge> 0 then 2 ^ nat n else 1 / 2 ^ nat (- n))"

record RateEntry =
  ra_timestamps :: "unix_time list"
  ra_rate :: real
  ra_last :: unix_time
  ra_violations :: u32
  ra_blocked_until :: unix_time

record RateTable =
  ra_entries :: "(DestHash, RateEntry) hmap"

definition RateTable_new :: RateTable where
  "RateTable_new = \<lparr>ra_entries = hm_empty\<rparr>"

definition RateEntry_fresh :: RateEntry where
  "RateEntry_fresh = \<lparr>ra_timestamps = [], ra_rate = 0, ra_last = 0, ra_violations = 0, ra_blocked_until = 0\<rparr>"

definition rate_penalty_secs :: "u32 \<Rightarrow> real" where
  "rate_penalty_secs violations =
     min (RATE_PENALTY_BASE * powi2 (sint (violations - RATE_VIOLATIONS_BEFORE_PENALTY))) RATE_PENALTY_MAX"

text \<open>The accounting of \<open>record\<close> on an entry that is not blocked.\<close>

definition RateEntry_account :: "unix_time \<Rightarrow> RateEntry \<Rightarrow> RateEntry" where
  "RateEntry_account now e =
    (let ts = ra_timestamps e @ [now];
         ts = (if length ts > MAX_RATE_TIMESTAMPS then drop (length ts - MAX_RATE_TIMESTAMPS) ts else ts);
         rate = (if length ts \<ge> 2 then
                   let span = last ts - hd ts
                   in if span > 0 then real (length ts - 1) / span else ra_rate e
                 else ra_rate e);
         e = e\<lparr>ra_timestamps := ts, ra_last := now, ra_rate := rate\<rparr>
     in if rate > RATE_VIOLATION_THRESHOLD then
          let v = ra_violations e + 1; e = e\<lparr>ra_violations := v\<rparr>
          in if v \<ge> RATE_VIOLATIONS_BEFORE_PENALTY
             then e\<lparr>ra_blocked_until := now + rate_penalty_secs v\<rparr> else e
        else e)"

definition RateTable_record :: "unix_time \<Rightarrow> DestHash \<Rightarrow> RateTable \<Rightarrow> RateTable \<times> real" where
  "RateTable_record now h t =
    (let entry = (case hm_get (ra_entries t) h of Some e \<Rightarrow> e | None \<Rightarrow> RateEntry_fresh);
         t = t\<lparr>ra_entries := hm_insert h entry (ra_entries t)\<rparr>
     in if ra_blocked_until entry > now then (t, F64_MAX)
        else let entry = RateEntry_account now entry
             in (t\<lparr>ra_entries := hm_insert h entry (ra_entries t)\<rparr>, ra_rate entry))"

definition RateTable_is_blocked :: "unix_time \<Rightarrow> RateTable \<Rightarrow> DestHash \<Rightarrow> bool" where
  "RateTable_is_blocked now t h =
    (case hm_get (ra_entries t) h of Some e \<Rightarrow> ra_blocked_until e > now | None \<Rightarrow> False)"

definition RateTable_get_rate :: "RateTable \<Rightarrow> DestHash \<Rightarrow> real" where
  "RateTable_get_rate t h = (case hm_get (ra_entries t) h of Some e \<Rightarrow> ra_rate e | None \<Rightarrow> 0)"

definition RateTable_last_announce :: "RateTable \<Rightarrow> DestHash \<Rightarrow> unix_time option" where
  "RateTable_last_announce t h = map_option ra_last (hm_get (ra_entries t) h)"

definition RateTable_cull :: "unix_time \<Rightarrow> RateTable \<Rightarrow> RateTable" where
  "RateTable_cull cutoff t = t\<lparr>ra_entries := hm_retain (\<lambda>_ e. ra_last e > cutoff) (ra_entries t)\<rparr>"

text \<open>The \<open>while\<close> loop removes from the front until the window fits: a \<open>drop\<close>.\<close>

definition RateEntry_interval :: "unix_time \<Rightarrow> real \<Rightarrow> u32 \<Rightarrow> real \<Rightarrow> RateEntry \<Rightarrow> RateEntry \<times> bool" where
  "RateEntry_interval now rate_target rate_grace rate_penalty entry =
    (if now \<le> ra_blocked_until entry then (entry, True)
     else
       let ts = ra_timestamps entry @ [now];
           entry = entry\<lparr>ra_timestamps := drop (length ts - MAX_RATE_TIMESTAMPS) ts\<rparr>;
           current_rate = now - ra_last entry;
           v = (if current_rate < rate_target then ra_violations entry + 1
                else if ra_violations entry = 0 then 0 else ra_violations entry - 1);
           entry = entry\<lparr>ra_violations := v\<rparr>
       in if v > rate_grace
          then (entry\<lparr>ra_blocked_until := ra_last entry + rate_target + rate_penalty\<rparr>, True)
          else (entry\<lparr>ra_last := now\<rparr>, False))"

definition RateTable_check_interface_rate ::
    "unix_time \<Rightarrow> DestHash \<Rightarrow> real \<Rightarrow> u32 \<Rightarrow> real \<Rightarrow> RateTable \<Rightarrow> RateTable \<times> bool" where
  "RateTable_check_interface_rate now h rate_target rate_grace rate_penalty t =
    (case hm_get (ra_entries t) h of
       None \<Rightarrow> (t\<lparr>ra_entries := hm_insert h \<lparr>ra_timestamps = [now], ra_rate = 0, ra_last = now,
                  ra_violations = 0, ra_blocked_until = 0\<rparr> (ra_entries t)\<rparr>, False)
     | Some entry \<Rightarrow>
         let (entry, suppress) = RateEntry_interval now rate_target rate_grace rate_penalty entry
         in (t\<lparr>ra_entries := hm_insert h entry (ra_entries t)\<rparr>, suppress))"

subsection \<open>Announce rebroadcast records\<close>

record AnnounceEntry =
  an_timestamp :: unix_time
  an_retransmit_timeout :: unix_time
  an_retries :: u8
  an_received_from :: bytes
  an_hops :: u8
  an_packet_raw :: bytes
  an_local_rebroadcasts :: u32
  an_block_rebroadcast :: bool
  an_attached_interface :: "InterfaceId option"
  an_source_interface :: "InterfaceId option"

record AnnounceTable =
  an_entries :: "(DestHash, AnnounceEntry) hmap"

definition AnnounceTable_new :: AnnounceTable where
  "AnnounceTable_new = \<lparr>an_entries = hm_empty\<rparr>"

definition AnnounceTable_insert :: "DestHash \<Rightarrow> AnnounceEntry \<Rightarrow> AnnounceTable \<Rightarrow> AnnounceTable" where
  "AnnounceTable_insert h e t = t\<lparr>an_entries := hm_insert h e (an_entries t)\<rparr>"

definition AnnounceTable_get :: "AnnounceTable \<Rightarrow> DestHash \<Rightarrow> AnnounceEntry option" where
  "AnnounceTable_get t h = hm_get (an_entries t) h"

definition AnnounceTable_get_mut :: "DestHash \<Rightarrow> (AnnounceEntry \<Rightarrow> AnnounceEntry) \<Rightarrow> AnnounceTable \<Rightarrow> AnnounceTable" where
  "AnnounceTable_get_mut h f t = t\<lparr>an_entries := hm_update h f (an_entries t)\<rparr>"

definition AnnounceTable_remove :: "DestHash \<Rightarrow> AnnounceTable \<Rightarrow> AnnounceTable \<times> AnnounceEntry option" where
  "AnnounceTable_remove h t = (t\<lparr>an_entries := hm_remove h (an_entries t)\<rparr>, hm_get (an_entries t) h)"

definition AnnounceTable_due_for_retransmit :: "unix_time \<Rightarrow> AnnounceTable \<Rightarrow> DestHash list" where
  "AnnounceTable_due_for_retransmit now t =
     map fst (filter (\<lambda>(_, e). (\<not> an_block_rebroadcast e \<or> an_attached_interface e \<noteq> None)
        \<and> now \<ge> an_retransmit_timeout e) (an_entries t))"

definition AnnounceTable_cull_exhausted :: "u8 \<Rightarrow> AnnounceTable \<Rightarrow> AnnounceTable \<times> nat" where
  "AnnounceTable_cull_exhausted max_retries t =
    (let before = hm_len (an_entries t);
         entries = hm_retain (\<lambda>_ e. an_retries e \<le> max_retries) (an_entries t)
     in (t\<lparr>an_entries := entries\<rparr>, before - hm_len entries))"

subsection \<open>Blackholed identities\<close>

datatype BlackholeReason = BR_Manual | BR_Malformed | BR_RateLimit | BR_ProtocolViolation

fun BlackholeReason_as_str :: "BlackholeReason \<Rightarrow> string" where
  "BlackholeReason_as_str BR_Manual = ''manual''"
| "BlackholeReason_as_str BR_Malformed = ''malformed''"
| "BlackholeReason_as_str BR_RateLimit = ''rate_limit''"
| "BlackholeReason_as_str BR_ProtocolViolation = ''protocol_violation''"

definition ascii_lower :: "char \<Rightarrow> char" where
  "ascii_lower c = (let n = of_char c :: nat in if 65 \<le> n \<and> n \<le> 90 then char_of (n + 32) else c)"

definition BlackholeReason_parse :: "string \<Rightarrow> BlackholeReason" where
  "BlackholeReason_parse s =
    (let l = map ascii_lower s in
     if l = ''malformed'' then BR_Malformed
     else if l = ''rate_limit'' \<or> l = ''ratelimit'' then BR_RateLimit
     else if l = ''protocol_violation'' \<or> l = ''protocolviolation'' then BR_ProtocolViolation
     else BR_Manual)"

record BlackholeEntry =
  be_created :: unix_time
  be_ttl :: "real option"
  be_reason :: BlackholeReason
  be_reason_label :: "string option"
  be_source :: "bytes option"

definition BlackholeEntry_reason_str :: "BlackholeEntry \<Rightarrow> string" where
  "BlackholeEntry_reason_str e =
    (case be_reason_label e of Some l \<Rightarrow> l | None \<Rightarrow> BlackholeReason_as_str (be_reason e))"

record BlackholeTable =
  be_entries :: "(bytes, BlackholeEntry) hmap"

definition BlackholeTable_new :: BlackholeTable where
  "BlackholeTable_new = \<lparr>be_entries = hm_empty\<rparr>"

definition BlackholeTable_insert_entry :: "bytes \<Rightarrow> BlackholeEntry \<Rightarrow> BlackholeTable \<Rightarrow> BlackholeTable" where
  "BlackholeTable_insert_entry h e t = t\<lparr>be_entries := hm_insert h e (be_entries t)\<rparr>"

definition BlackholeTable_add_with_reason ::
    "unix_time \<Rightarrow> bytes \<Rightarrow> real option \<Rightarrow> BlackholeReason \<Rightarrow> BlackholeTable \<Rightarrow> BlackholeTable" where
  "BlackholeTable_add_with_reason now h ttl reason t =
     t\<lparr>be_entries := hm_insert h \<lparr>be_created = now, be_ttl = ttl, be_reason = reason,
         be_reason_label = None, be_source = None\<rparr> (be_entries t)\<rparr>"

definition BlackholeTable_add :: "unix_time \<Rightarrow> bytes \<Rightarrow> real option \<Rightarrow> BlackholeTable \<Rightarrow> BlackholeTable" where
  "BlackholeTable_add now h ttl t = BlackholeTable_add_with_reason now h ttl BR_Manual t"

definition BlackholeTable_add_with_reason_label ::
    "unix_time \<Rightarrow> bytes \<Rightarrow> real option \<Rightarrow> BlackholeReason \<Rightarrow> string option \<Rightarrow> BlackholeTable \<Rightarrow> BlackholeTable" where
  "BlackholeTable_add_with_reason_label now h ttl reason label t =
     t\<lparr>be_entries := hm_insert h \<lparr>be_created = now, be_ttl = ttl, be_reason = reason,
         be_reason_label = label, be_source = None\<rparr> (be_entries t)\<rparr>"

definition BlackholeTable_add_from_source ::
    "bytes \<Rightarrow> real option \<Rightarrow> BlackholeReason \<Rightarrow> bytes \<Rightarrow> unix_time \<Rightarrow> BlackholeTable \<Rightarrow> BlackholeTable" where
  "BlackholeTable_add_from_source h ttl reason source created t =
     t\<lparr>be_entries := hm_insert h \<lparr>be_created = created, be_ttl = ttl, be_reason = reason,
         be_reason_label = None, be_source = Some source\<rparr> (be_entries t)\<rparr>"

definition BlackholeTable_is_blackholed :: "unix_time \<Rightarrow> BlackholeTable \<Rightarrow> bytes \<Rightarrow> bool" where
  "BlackholeTable_is_blackholed now t h =
    (case hm_get (be_entries t) h of
       Some entry \<Rightarrow> (case be_ttl entry of Some ttl \<Rightarrow> now - be_created entry < ttl | None \<Rightarrow> True)
     | None \<Rightarrow> False)"

definition BlackholeTable_remove :: "bytes \<Rightarrow> BlackholeTable \<Rightarrow> BlackholeTable \<times> bool" where
  "BlackholeTable_remove h t =
    (t\<lparr>be_entries := hm_remove h (be_entries t)\<rparr>, hm_get (be_entries t) h \<noteq> None)"

definition BlackholeTable_cull_expired :: "unix_time \<Rightarrow> BlackholeTable \<Rightarrow> BlackholeTable \<times> nat" where
  "BlackholeTable_cull_expired now t =
    (let before = hm_len (be_entries t);
         entries = hm_retain (\<lambda>_ e. case be_ttl e of None \<Rightarrow> True | Some ttl \<Rightarrow> now - be_created e < ttl)
                     (be_entries t)
     in (t\<lparr>be_entries := entries\<rparr>, before - hm_len entries))"

definition BlackholeTable_clear_system_entries :: "BlackholeTable \<Rightarrow> BlackholeTable \<times> nat" where
  "BlackholeTable_clear_system_entries t =
    (let before = hm_len (be_entries t);
         entries = hm_retain (\<lambda>_ e. be_reason e = BR_Manual) (be_entries t)
     in (t\<lparr>be_entries := entries\<rparr>, before - hm_len entries))"

subsection \<open>Traffic counters\<close>

record InterfaceTraffic =
  it_rx_bytes :: u64
  it_tx_bytes :: u64
  it_rx_bytes_prev :: u64
  it_tx_bytes_prev :: u64
  it_rx_speed :: nat
  it_tx_speed :: nat

definition InterfaceTraffic_default :: InterfaceTraffic where
  "InterfaceTraffic_default = \<lparr>it_rx_bytes = 0, it_tx_bytes = 0, it_rx_bytes_prev = 0,
     it_tx_bytes_prev = 0, it_rx_speed = 0, it_tx_speed = 0\<rparr>"

type_synonym TrafficCounter = "(InterfaceId, InterfaceTraffic) hmap"

definition TrafficCounter_entry :: "TrafficCounter \<Rightarrow> InterfaceId \<Rightarrow> InterfaceTraffic" where
  "TrafficCounter_entry c i = (case hm_get c i of Some e \<Rightarrow> e | None \<Rightarrow> InterfaceTraffic_default)"

definition TrafficCounter_record_rx :: "InterfaceId \<Rightarrow> u64 \<Rightarrow> TrafficCounter \<Rightarrow> TrafficCounter" where
  "TrafficCounter_record_rx i n c =
    (let e = TrafficCounter_entry c i in hm_insert i (e\<lparr>it_rx_bytes := it_rx_bytes e + n\<rparr>) c)"

definition TrafficCounter_record_tx :: "InterfaceId \<Rightarrow> u64 \<Rightarrow> TrafficCounter \<Rightarrow> TrafficCounter" where
  "TrafficCounter_record_tx i n c =
    (let e = TrafficCounter_entry c i in hm_insert i (e\<lparr>it_tx_bytes := it_tx_bytes e + n\<rparr>) c)"

definition InterfaceTraffic_sample :: "InterfaceTraffic \<Rightarrow> InterfaceTraffic" where
  "InterfaceTraffic_sample e =
     e\<lparr>it_rx_speed := unat (it_rx_bytes e - it_rx_bytes_prev e),
       it_tx_speed := unat (it_tx_bytes e - it_tx_bytes_prev e),
       it_rx_bytes_prev := it_rx_bytes e, it_tx_bytes_prev := it_tx_bytes e\<rparr>"

definition TrafficCounter_update_speeds :: "TrafficCounter \<Rightarrow> TrafficCounter" where
  "TrafficCounter_update_speeds c = map (\<lambda>(i, e). (i, InterfaceTraffic_sample e)) c"

subsection \<open>The sweeps meet the cull contract\<close>

interpretation announce_cull: cull_table an_entries AnnounceTable_cull_exhausted
    "\<lambda>m _ e. an_retries e \<le> m"
  by unfold_locales (simp_all add: AnnounceTable_cull_exhausted_def Let_def)

interpretation blackhole_cull: cull_table be_entries BlackholeTable_cull_expired
    "\<lambda>now _ e. case be_ttl e of None \<Rightarrow> True | Some ttl \<Rightarrow> now - be_created e < ttl"
  by unfold_locales (simp_all add: BlackholeTable_cull_expired_def Let_def)

interpretation blackhole_system: cull_table be_entries "\<lambda>_. BlackholeTable_clear_system_entries"
    "\<lambda>(_ :: unit) _ e. be_reason e = BR_Manual"
  by unfold_locales (simp_all add: BlackholeTable_clear_system_entries_def Let_def)

subsection \<open>Lemmas\<close>

lemma powi2_pos: "0 < powi2 n"
  by (simp add: powi2_def)

lemma rate_penalty_bounds: "0 < rate_penalty_secs v" "rate_penalty_secs v \<le> 3600"
  by (simp_all add: rate_penalty_secs_def RATE_PENALTY_BASE_def RATE_PENALTY_MAX_def powi2_pos)

text \<open>
  The invariant of an entry that only \<open>record\<close> has touched: a bounded window, and a block
  at most an hour past the last accepted announce, only after three violations.
\<close>

definition RateEntry_inv :: "RateEntry \<Rightarrow> bool" where
  "RateEntry_inv e \<longleftrightarrow> length (ra_timestamps e) \<le> MAX_RATE_TIMESTAMPS
     \<and> (ra_blocked_until e = 0 \<or> ra_blocked_until e \<le> ra_last e + 3600)"

lemma RateEntry_account_inv:
  assumes "RateEntry_inv e" and "\<not> ra_blocked_until e > now" and "ra_last e \<le> now"
  shows "RateEntry_inv (RateEntry_account now e)"
  using assms rate_penalty_bounds(2)
  by (auto simp: RateEntry_inv_def RateEntry_account_def Let_def add.commute intro: order_trans)

lemma BlackholeReason_parse_as_str: "BlackholeReason_parse (BlackholeReason_as_str r) = r"
  by (cases r) (simp_all add: BlackholeReason_parse_def Let_def ascii_lower_def)

lemma RateTable_record_get:
  assumes "hm_wf (ra_entries t)"
  shows "hm_get (ra_entries (fst (RateTable_record now h t))) h' =
    (if h' = h then
       let entry = (case hm_get (ra_entries t) h of Some e \<Rightarrow> e | None \<Rightarrow> RateEntry_fresh)
       in Some (if ra_blocked_until entry > now then entry else RateEntry_account now entry)
     else hm_get (ra_entries t) h')"
  using assms by (simp add: RateTable_record_def Let_def)

lemma RateTable_record_wf: "hm_wf (ra_entries t) \<Longrightarrow> hm_wf (ra_entries (fst (RateTable_record now h t)))"
  by (simp add: RateTable_record_def Let_def)

lemma RateEntry_account_last [simp]: "ra_last (RateEntry_account now e) = now"
  by (simp add: RateEntry_account_def Let_def)

subsection \<open>Reachable rate tables\<close>

text \<open>The tables that a sequence of \<open>record\<close> and \<open>cull\<close> calls on a monotone clock can build.\<close>

inductive rate_reach :: "unix_time \<Rightarrow> RateTable \<Rightarrow> bool" where
  rr_start: "0 \<le> now \<Longrightarrow> rate_reach now RateTable_new"
| rr_tick: "rate_reach now t \<Longrightarrow> now \<le> now' \<Longrightarrow> rate_reach now' t"
| rr_record: "rate_reach now t \<Longrightarrow> rate_reach now (fst (RateTable_record now h t))"
| rr_cull: "rate_reach now t \<Longrightarrow> rate_reach now (RateTable_cull cutoff t)"

lemma rate_reach_inv:
  assumes "rate_reach now t"
  shows "0 \<le> now \<and> hm_wf (ra_entries t)
    \<and> (\<forall>h e. hm_get (ra_entries t) h = Some e \<longrightarrow> RateEntry_inv e \<and> ra_last e \<le> now)"
  using assms
proof induction
  case (rr_start now)
  then show ?case by (simp add: RateTable_new_def)
next
  case (rr_tick now t now')
  then show ?case by (meson order_trans)
next
  case (rr_record now t h)
  have "RateEntry_inv RateEntry_fresh" "ra_last RateEntry_fresh \<le> now"
    using rr_record by (simp_all add: RateEntry_inv_def RateEntry_fresh_def)
  with rr_record show ?case
    by (auto simp: RateTable_record_get RateTable_record_wf Let_def RateEntry_account_inv
        split: option.splits if_splits)
next
  case (rr_cull now t cutoff)
  then show ?case
    by (auto simp: RateTable_cull_def hm.get_ret_Some)
qed

subsection \<open>Properties\<close>

text \<open>
  Rate penalties are bounded. In every table that announces on a monotone clock can build, each
  destination keeps at most 16 timestamps, and no destination is still blocked one hour after the
  last announce was accounted; an announce that arrives during a penalty changes nothing but is
  answered with \<open>f64::MAX\<close>, so it cannot prolong the penalty.
\<close>

lemma rate_penalty_bounded:
  assumes "rate_reach now t"
  shows "\<not> RateTable_is_blocked (now + 3600) t h
    \<and> (\<forall>e. hm_get (ra_entries t) h = Some e \<longrightarrow> length (ra_timestamps e) \<le> 16)
    \<and> (RateTable_is_blocked now t h \<longrightarrow> snd (RateTable_record now h t) = F64_MAX
         \<and> (\<forall>h'. hm_get (ra_entries (fst (RateTable_record now h t))) h' = hm_get (ra_entries t) h'))"
proof -
  have inv: "0 \<le> now" "hm_wf (ra_entries t)"
      "\<And>h e. hm_get (ra_entries t) h = Some e \<Longrightarrow> RateEntry_inv e \<and> ra_last e \<le> now"
    using rate_reach_inv [OF assms] by auto
  have "\<not> RateTable_is_blocked (now + 3600) t h"
    using inv(1) inv(3) [of h]
    by (fastforce simp: RateTable_is_blocked_def RateEntry_inv_def split: option.splits)
  moreover have "length (ra_timestamps e) \<le> 16" if "hm_get (ra_entries t) h = Some e" for e
    using inv(3) [OF that] by (simp add: RateEntry_inv_def MAX_RATE_TIMESTAMPS_def)
  moreover have "snd (RateTable_record now h t) = F64_MAX
       \<and> (\<forall>h'. hm_get (ra_entries (fst (RateTable_record now h t))) h' = hm_get (ra_entries t) h')"
    if "RateTable_is_blocked now t h"
    using that inv(2)
    by (auto simp: RateTable_is_blocked_def RateTable_record_get Let_def split: option.splits)
      (simp add: RateTable_record_def)
  ultimately show ?thesis by blast
qed

lemma rate_penalty_bounded_witness:
  "\<not> RateTable_is_blocked 3605 (fst (RateTable_record 5 [1] RateTable_new)) [1]"
  using rate_penalty_bounded [OF rr_record [OF rr_start [of 5]], of "[1]" "[1]"] by simp

text \<open>
  Sweeping blackholes is invisible. Removing expired blocks at one time never changes whether an
  identity is blocked at that time or later, and blocking an identity takes effect at once and lasts
  exactly its time to live.
\<close>

lemma blackhole_cull_invisible:
  assumes "hm_wf (be_entries t)" and "now \<le> later"
  shows "BlackholeTable_is_blackholed later (fst (BlackholeTable_cull_expired now t)) h =
      BlackholeTable_is_blackholed later t h
    \<and> BlackholeTable_is_blackholed later (BlackholeTable_add_with_reason now h ttl reason t) h =
      (case ttl of None \<Rightarrow> True | Some s \<Rightarrow> later - now < s)"
  using assms
  by (auto simp: BlackholeTable_is_blackholed_def BlackholeTable_cull_expired_def
      BlackholeTable_add_with_reason_def Let_def hm_get_retain split: option.splits)

lemma blackhole_cull_invisible_witness:
  "BlackholeTable_is_blackholed 20 (BlackholeTable_add_with_reason 10 [1] (Some 30) BR_Manual BlackholeTable_new) [1]"
  using blackhole_cull_invisible [of BlackholeTable_new 10 20 "[1]" "Some 30" BR_Manual]
  by (simp add: BlackholeTable_new_def)

end
