(* ===== verification/Ifac.thy ===== *)
theory Ifac
  imports Token
begin

text \<open>
  Interface access codes, \<open>src/crates/rns-transport/src/ifac.rs\<close>. Ed25519 signing is the argument
  \<open>sign\<close> (seed and message to signature), HKDF the field \<open>lib_expand\<close> of the library record. The constant
  time comparison is equality.
\<close>

subsection \<open>Model\<close>

definition IFAC_FLAG :: u8 where "IFAC_FLAG = 0x80"
definition MAX_IFAC_WIRE_BYTES :: nat where "MAX_IFAC_WIRE_BYTES = 255 * 32"

datatype IfacSignError = InvalidTagSize | ShortPacket | PacketTooLarge

definition try_ifac_sign ::
    "crypto_lib \<Rightarrow> (bytes \<Rightarrow> bytes \<Rightarrow> bytes) \<Rightarrow> bytes \<Rightarrow> bytes \<Rightarrow> nat \<Rightarrow> (IfacSignError, bytes) result" where
  "try_ifac_sign lib sign packet ifac_key ifac_size =
    (if \<not> (1 \<le> ifac_size \<and> ifac_size \<le> 64) then Err InvalidTagSize
     else if length packet < 2 then Err ShortPacket
     else let mask_len = length packet + ifac_size in
       if mask_len > MAX_IFAC_WIRE_BYTES then Err PacketTooLarge
       else
         let signing_seed = subslice 32 64 ifac_key;
             signature = sign signing_seed packet;
             tag = drop (64 - ifac_size) signature
         in and_then (map_err (\<lambda>_. PacketTooLarge) (hkdf_sha256 lib mask_len tag (Some ifac_key) None)) (\<lambda>key_mask.
           let new_raw = [packet ! 0 OR IFAC_FLAG, packet ! 1] @ tag @ drop 2 packet;
               masked_raw = map (\<lambda>(i, byte).
                   if i = 0 then (byte XOR key_mask ! i) OR IFAC_FLAG
                   else if i = 1 \<or> i > ifac_size + 1 then byte XOR key_mask ! i
                   else byte) (enumerate 0 new_raw)
           in Ok masked_raw))"

text \<open>\<open>ifac_sign\<close> panics on the errors of the checked form: \<open>None\<close>.\<close>

definition ifac_sign ::
    "crypto_lib \<Rightarrow> (bytes \<Rightarrow> bytes \<Rightarrow> bytes) \<Rightarrow> bytes \<Rightarrow> bytes \<Rightarrow> nat \<Rightarrow> bytes option" where
  "ifac_sign lib sign packet ifac_key ifac_size =
    (case try_ifac_sign lib sign packet ifac_key ifac_size of Inr raw \<Rightarrow> Some raw | Inl _ \<Rightarrow> None)"

definition ifac_verify ::
    "crypto_lib \<Rightarrow> (bytes \<Rightarrow> bytes \<Rightarrow> bytes) \<Rightarrow> bytes \<Rightarrow> bytes \<Rightarrow> nat \<Rightarrow> bytes option" where
  "ifac_verify lib sign raw ifac_key ifac_size =
    (if ifac_size = 0 \<or> ifac_size > 64 then None
     else if length raw \<le> 2 + ifac_size then None
     else if raw ! 0 AND IFAC_FLAG = 0 then None
     else let ifac = subslice 2 (2 + ifac_size) raw in
       case hkdf_sha256 lib (length raw) ifac (Some ifac_key) None of
         Inl _ \<Rightarrow> None
       | Inr key_mask \<Rightarrow>
           let unmasked_raw = map (\<lambda>(i, byte).
                 if i \<le> 1 \<or> i > ifac_size + 1 then byte XOR key_mask ! i else byte) (enumerate 0 raw);
               new_header = [unmasked_raw ! 0 AND NOT IFAC_FLAG, unmasked_raw ! 1];
               new_raw = new_header @ drop (2 + ifac_size) unmasked_raw;
               signing_seed = subslice 32 64 ifac_key;
               expected_sig = sign signing_seed new_raw;
               expected_ifac = drop (64 - ifac_size) expected_sig
           in if ifac = expected_ifac then Some new_raw else None)"

definition has_ifac_flag :: "bytes \<Rightarrow> bool" where
  "has_ifac_flag raw \<longleftrightarrow> raw \<noteq> [] \<and> raw ! 0 AND IFAC_FLAG \<noteq> 0"

subsection \<open>What is assumed of the libraries\<close>

text \<open>
  HKDF-SHA256 yields as many bytes as are asked for, up to 8160; an Ed25519 signature has 64 bytes.
\<close>

definition hkdf_lib_ok :: "crypto_lib \<Rightarrow> bool" where
  "hkdf_lib_ok lib \<longleftrightarrow>
     (\<forall>ikm salt info n. n \<le> 8160 \<longrightarrow> (\<exists>okm. lib_expand lib ikm salt info n = Some okm \<and> length okm = n))"

definition ed25519_ok :: "(bytes \<Rightarrow> bytes \<Rightarrow> bytes) \<Rightarrow> bool" where
  "ed25519_ok sign \<longleftrightarrow> (\<forall>seed m. length (sign seed m) = 64)"

subsection \<open>Lemmas\<close>

lemma ifac_flag_push: "IFAC_FLAG = push_bit 7 1"
  by (simp add: IFAC_FLAG_def)

lemma ifac_flag_set: "(b OR IFAC_FLAG) AND IFAC_FLAG \<noteq> 0"
proof -
  have "bit ((b OR IFAC_FLAG) AND IFAC_FLAG) 7" by (simp add: bit_simps IFAC_FLAG_def)
  then show ?thesis by (metis bit_0_eq bot_apply bot_bool_def)
qed

lemma ifac_unmask_head:
  assumes "\<not> bit b 7"
  shows "((((b OR IFAC_FLAG) XOR m) OR IFAC_FLAG) XOR m) AND NOT IFAC_FLAG = b"
proof (rule bit_eqI)
  fix n :: nat
  assume "possible_bit TYPE(u8) n"
  from \<open>possible_bit TYPE(u8) n\<close>
  consider "n = 0" | "n = 1" | "n = 2" | "n = 3" | "n = 4" | "n = 5" | "n = 6" | "n = 7"
    by fastforce
  then have flag: "bit IFAC_FLAG n \<longleftrightarrow> n = 7"
    by cases (simp_all add: IFAC_FLAG_def)
  show "bit (((((b OR IFAC_FLAG) XOR m) OR IFAC_FLAG) XOR m) AND NOT IFAC_FLAG) n = bit b n"
    using \<open>possible_bit TYPE(u8) n\<close> assms by (auto simp: bit_simps flag)
qed

lemma map_enumerate_nth:
  "i < length xs \<Longrightarrow> map f (enumerate 0 xs) ! i = f (i, xs ! i)"
  by (simp add: nth_enumerate_eq)

lemma xor_xor_self [simp]: "((x :: u8) XOR m) XOR m = x"
  by (simp add: xor.assoc)

text \<open>The masked packet, written out; unmasking restores header and payload.\<close>

definition ifac_mask :: "bytes \<Rightarrow> nat \<Rightarrow> bytes \<Rightarrow> bytes" where
  "ifac_mask key_mask n raw = map (\<lambda>(i, byte). if i = 0 then (byte XOR key_mask ! i) OR IFAC_FLAG
     else if i = 1 \<or> i > n + 1 then byte XOR key_mask ! i else byte) (enumerate 0 raw)"

definition ifac_unmask :: "bytes \<Rightarrow> nat \<Rightarrow> bytes \<Rightarrow> bytes" where
  "ifac_unmask key_mask n raw =
     map (\<lambda>(i, byte). if i \<le> 1 \<or> i > n + 1 then byte XOR key_mask ! i else byte) (enumerate 0 raw)"

lemma length_ifac_mask [simp]: "length (ifac_mask m n raw) = length raw"
  by (simp add: ifac_mask_def)

lemma ifac_mask_tag:
  assumes "raw = [a, b] @ tag @ rest" and "length tag = n"
  shows "subslice 2 (2 + n) (ifac_mask m n raw) = tag"
  using assms
  by (intro nth_equalityI) (auto simp: subslice_def ifac_mask_def nth_enumerate_eq nth_append)

lemma ifac_unmask_mask_rest:
  assumes "raw = [a, b] @ tag @ rest" and "length tag = n"
  shows "drop (2 + n) (ifac_unmask m n (ifac_mask m n raw)) = rest"
    and "ifac_unmask m n (ifac_mask m n raw) ! 1 = b"
    and "ifac_unmask m n (ifac_mask m n raw) ! 0 = ((a XOR m ! 0) OR IFAC_FLAG) XOR m ! 0"
proof -
  show "drop (2 + n) (ifac_unmask m n (ifac_mask m n raw)) = rest"
    using assms
    by (intro nth_equalityI) (auto simp: ifac_mask_def ifac_unmask_def nth_enumerate_eq nth_append)
qed (use assms in \<open>auto simp: ifac_mask_def ifac_unmask_def nth_enumerate_eq nth_append\<close>)

lemma try_ifac_sign_Ok:
  assumes "hkdf_lib_ok lib" and "1 \<le> n" and "n \<le> 64" and "2 \<le> length packet" and "length packet + n \<le> 8160"
  shows "\<exists>m. length m = length packet + n
    \<and> hkdf_sha256 lib (length packet + n) (drop (64 - n) (sign (subslice 32 64 key) packet)) (Some key) None = Ok m
    \<and> try_ifac_sign lib sign packet key n =
        Ok (ifac_mask m n ([packet ! 0 OR IFAC_FLAG, packet ! 1]
              @ drop (64 - n) (sign (subslice 32 64 key) packet) @ drop 2 packet))"
proof -
  let ?tag = "drop (64 - n) (sign (subslice 32 64 key) packet)"
  obtain m where m: "lib_expand lib ?tag (Some key) [] (length packet + n) = Some m" "length m = length packet + n"
    using assms(1,5) unfolding hkdf_lib_ok_def by blast
  then have "hkdf_sha256 lib (length packet + n) ?tag (Some key) None = Ok m"
    using assms(5) by (simp add: hkdf_sha256_def)
  with m(2) assms show ?thesis
    by (simp add: try_ifac_sign_def MAX_IFAC_WIRE_BYTES_def Let_def ifac_mask_def)
qed

lemma ifac_verify_step:
  assumes "1 \<le> n" and "n \<le> 64" and "2 + n < length raw" and "raw ! 0 AND IFAC_FLAG \<noteq> 0"
    and "subslice 2 (2 + n) raw = tag" and "hkdf_sha256 lib (length raw) tag (Some key) None = Ok m"
    and "[ifac_unmask m n raw ! 0 AND NOT IFAC_FLAG, ifac_unmask m n raw ! 1]
        @ drop (2 + n) (ifac_unmask m n raw) = packet"
  shows "ifac_verify lib sign raw key n =
    (if tag = drop (64 - n) (sign (subslice 32 64 key) packet) then Some packet else None)"
  unfolding ifac_verify_def Let_def ifac_unmask_def [symmetric] assms(5) assms(6) sum.case assms(7)
  using assms(1-4) by auto

subsection \<open>Properties\<close>

text \<open>
  C27: access codes round-trip. For every tag size from 1 to 64, an inner packet of at least three
  bytes with the access bit clear, whose tagged form fits the mask expansion, is signed into a
  packet that carries the access bit and is \<open>ifac_size\<close> bytes longer, and verification under the
  same key returns the inner packet.
\<close>

theorem ifac_roundtrip:
  assumes "hkdf_lib_ok lib" and "ed25519_ok sign" and "1 \<le> n" and "n \<le> 64"
    and "3 \<le> length packet" and "length packet + n \<le> 8160" and "\<not> bit (packet ! 0) 7"
  shows "\<exists>raw. try_ifac_sign lib sign packet key n = Ok raw \<and> length raw = length packet + n
    \<and> has_ifac_flag raw \<and> ifac_verify lib sign raw key n = Some packet"
proof -
  let ?tag = "drop (64 - n) (sign (subslice 32 64 key) packet)"
  let ?new = "[packet ! 0 OR IFAC_FLAG, packet ! 1] @ ?tag @ drop 2 packet"
  have tag: "length ?tag = n" using assms(2,4) by (simp add: ed25519_ok_def)
  obtain m where m: "length m = length packet + n"
      "hkdf_sha256 lib (length packet + n) ?tag (Some key) None = Ok m"
      "try_ifac_sign lib sign packet key n = Ok (ifac_mask m n ?new)"
    using try_ifac_sign_Ok [of lib n packet sign key] assms by auto
  let ?raw = "ifac_mask m n ?new"
  have len: "length ?raw = length packet + n" using tag assms(5) by simp
  have flag: "?raw ! 0 AND IFAC_FLAG \<noteq> 0"
    by (simp add: ifac_mask_def) (simp add: IFAC_FLAG_def)
  note un = ifac_unmask_mask_rest [where a = "packet ! 0 OR IFAC_FLAG" and b = "packet ! 1"
      and rest = "drop 2 packet" and m = m, OF refl tag]
  have "[ifac_unmask m n ?raw ! 0 AND NOT IFAC_FLAG, ifac_unmask m n ?raw ! 1] @ drop (2 + n) (ifac_unmask m n ?raw)
      = [packet ! 0, packet ! 1] @ drop 2 packet"
    using un ifac_unmask_head [OF assms(7)] by simp
  also have "\<dots> = packet"
    using assms(5) by (cases packet; cases "tl packet") auto
  finally have new: "[ifac_unmask m n ?raw ! 0 AND NOT IFAC_FLAG, ifac_unmask m n ?raw ! 1]
      @ drop (2 + n) (ifac_unmask m n ?raw) = packet" .
  have tag_raw: "subslice 2 (2 + n) ?raw = ?tag"
    by (rule ifac_mask_tag [OF refl tag])
  have "ifac_verify lib sign ?raw key n = Some packet"
    using ifac_verify_step [OF assms(3,4) _ flag tag_raw _ new, of lib key sign] len assms(5) m(2)
    by (simp del: append_Cons append_Nil)
  moreover have "has_ifac_flag ?raw"
  proof -
    have "?raw \<noteq> []" by (simp add: ifac_mask_def)
    with flag show ?thesis unfolding has_ifac_flag_def by blast
  qed
  ultimately show ?thesis using m(3) len by blast
qed

definition example_sign :: "bytes \<Rightarrow> bytes \<Rightarrow> bytes" where
  "example_sign seed m = take 64 (seed @ m @ replicate 64 0)"

lemma example_sign_ok: "ed25519_ok example_sign"
  by (auto simp: ed25519_ok_def example_sign_def)

lemma example_hkdf_ok: "hkdf_lib_ok example_lib"
  by (auto simp: hkdf_lib_ok_def example_lib_def)

theorem ifac_roundtrip_witness:
  "\<exists>raw. try_ifac_sign example_lib example_sign [1, 2, 3] (replicate 64 9) 8 = Ok raw \<and> length raw = 11
     \<and> has_ifac_flag raw \<and> ifac_verify example_lib example_sign raw (replicate 64 9) 8 = Some [1, 2, 3]"
  using ifac_roundtrip [OF example_hkdf_ok example_sign_ok, of 8 "[1, 2, 3]" "replicate 64 9"]
  by (simp add: bit_simps)

text \<open>
  C28: access codes authenticate. A raw packet passes verification only if its tag is the tail of the
  signature, under the key's seed, of exactly the inner packet that is returned; that packet has
  the access bit clear and at least three bytes, and packets without the access bit, without room for
  header, tag and one byte more, or with a tag size out of range never pass.
\<close>

theorem ifac_verify_authentic:
  assumes "ifac_verify lib sign raw key n = Some packet"
  shows "1 \<le> n \<and> n \<le> 64 \<and> has_ifac_flag raw \<and> length raw = length packet + n \<and> 3 \<le> length packet
    \<and> \<not> bit (packet ! 0) 7
    \<and> subslice 2 (2 + n) raw = drop (64 - n) (sign (subslice 32 64 key) packet)"
proof -
  obtain m where "hkdf_sha256 lib (length raw) (subslice 2 (2 + n) raw) (Some key) None = Ok m"
    and p: "packet = [ifac_unmask m n raw ! 0 AND NOT IFAC_FLAG, ifac_unmask m n raw ! 1]
        @ drop (2 + n) (ifac_unmask m n raw)"
    and "subslice 2 (2 + n) raw = drop (64 - n) (sign (subslice 32 64 key) packet)"
    and "1 \<le> n" "n \<le> 64" "length raw > 2 + n" "raw ! 0 AND IFAC_FLAG \<noteq> 0"
    using assms unfolding ifac_verify_def Let_def ifac_unmask_def [symmetric]
    by (auto split: if_splits sum.splits)
  moreover have "\<not> bit (packet ! 0) 7"
    by (simp add: p bit_simps ifac_flag_push)
  moreover have "length (ifac_unmask m n raw) = length raw"
    by (simp add: ifac_unmask_def)
  ultimately show ?thesis by (auto simp: has_ifac_flag_def)
qed

theorem ifac_verify_authentic_witness:
  "\<exists>raw. ifac_verify example_lib example_sign raw (replicate 64 9) 8 = Some [1, 2, 3]
     \<and> subslice 2 10 raw = drop 56 (example_sign (subslice 32 64 (replicate 64 9)) [1, 2, 3])"
proof -
  let ?raw = "ifac_mask (take 11 (drop 56 (example_sign (subslice 32 64 (replicate 64 9)) [1, 2, 3]) @ replicate 11 0)) 8
      ([1 OR IFAC_FLAG, 2] @ drop 56 (example_sign (subslice 32 64 (replicate 64 9)) [1, 2, 3]) @ [3])"
  have "ifac_verify example_lib example_sign ?raw (replicate 64 9) 8 = Some [1, 2, 3]"
    by code_simp
  from ifac_verify_authentic [OF this] this show ?thesis by auto
qed

end
