(* ===== verification/Ownership.thy ===== *)
theory Ownership
  imports Ifac Link_Signalling Tables
begin

text \<open>
  Interface registrations and packet budgets, \<open>src/crates/rns-transport/src/interface_ownership.rs\<close>, and the
  attenuation of transit link requests, \<open>src/crates/rns-transport/src/link_transit.rs\<close>. Clones of an
  \<open>InterfaceOwner\<close> share one registration state behind an \<open>Arc\<close>: the states live in a store, keyed by
  the epoch, and an owner is a handle into it. Waking of waiting tasks is not modelled.
\<close>

subsection \<open>Registrations\<close>

record InterfaceOwner =
  ow_epoch :: u64
  ow_revision :: u64

type_synonym InterfaceOwnerId = "u64 \<times> u64"

record RegistrationState =
  rs_retired :: bool
  rs_revision :: u64
  rs_registered_revision :: u64

text \<open>The store: the process-wide epoch counter and the state of every epoch handed out.\<close>

record OwnerStore =
  os_next :: u64
  os_regs :: "u64 \<Rightarrow> RegistrationState option"

definition U64_MAX :: u64 where "U64_MAX = - 1"

definition OwnerStore_init :: OwnerStore where
  "OwnerStore_init = \<lparr>os_next = 1, os_regs = (\<lambda>_. None)\<rparr>"

text \<open>\<open>None\<close> is the panic on an exhausted epoch counter.\<close>

definition InterfaceOwner_new :: "OwnerStore \<Rightarrow> (OwnerStore \<times> InterfaceOwner) option" where
  "InterfaceOwner_new s =
    (if os_next s = U64_MAX then None
     else let epoch = os_next s in
       Some (s\<lparr>os_next := epoch + 1,
               os_regs := (os_regs s)(epoch \<mapsto> \<lparr>rs_retired = False, rs_revision = 0, rs_registered_revision = U64_MAX\<rparr>)\<rparr>,
             \<lparr>ow_epoch = epoch, ow_revision = 0\<rparr>))"

definition InterfaceOwner_id :: "InterfaceOwner \<Rightarrow> InterfaceOwnerId" where
  "InterfaceOwner_id o' = (ow_epoch o', ow_revision o')"

definition InterfaceOwner_is_current :: "OwnerStore \<Rightarrow> InterfaceOwner \<Rightarrow> bool" where
  "InterfaceOwner_is_current s o' =
    (case os_regs s (ow_epoch o') of
       Some r \<Rightarrow> \<not> rs_retired r \<and> rs_revision r = ow_revision o'
     | None \<Rightarrow> False)"

definition InterfaceOwnerId_matches :: "OwnerStore \<Rightarrow> InterfaceOwnerId \<Rightarrow> InterfaceOwner \<Rightarrow> bool" where
  "InterfaceOwnerId_matches s i o' = (InterfaceOwner_is_current s o' \<and> i = InterfaceOwner_id o')"

definition InterfaceOwner_is_registered :: "OwnerStore \<Rightarrow> InterfaceOwner \<Rightarrow> bool" where
  "InterfaceOwner_is_registered s o' =
    (InterfaceOwner_is_current s o' \<and>
     (case os_regs s (ow_epoch o') of
        Some r \<Rightarrow> rs_registered_revision r = ow_revision o'
      | None \<Rightarrow> False))"

text \<open>The atomic operations of the methods: each acts on the shared state in one step.\<close>

definition acknowledge :: "InterfaceOwner \<Rightarrow> OwnerStore \<Rightarrow> OwnerStore" where
  "acknowledge o' s =
    (case os_regs s (ow_epoch o') of
       Some r \<Rightarrow> s\<lparr>os_regs := (os_regs s)(ow_epoch o' \<mapsto>
           (if rs_registered_revision r = U64_MAX \<or> rs_registered_revision r < ow_revision o'
            then r\<lparr>rs_registered_revision := ow_revision o'\<rparr> else r))\<rparr>
     | None \<Rightarrow> s)"

definition compare_exchange :: "InterfaceOwner \<Rightarrow> u64 \<Rightarrow> OwnerStore \<Rightarrow> OwnerStore option" where
  "compare_exchange o' n s =
    (case os_regs s (ow_epoch o') of
       Some r \<Rightarrow> if rs_revision r = ow_revision o'
                 then Some (s\<lparr>os_regs := (os_regs s)(ow_epoch o' \<mapsto> r\<lparr>rs_revision := n\<rparr>)\<rparr>) else None
     | None \<Rightarrow> None)"

definition InterfaceOwner_mark_registered :: "InterfaceOwner \<Rightarrow> OwnerStore \<Rightarrow> OwnerStore \<times> bool" where
  "InterfaceOwner_mark_registered o' s =
    (if \<not> InterfaceOwner_is_current s o' then (s, False)
     else let s = acknowledge o' s in (s, InterfaceOwner_is_registered s o'))"

definition InterfaceOwner_next_revision :: "InterfaceOwner \<Rightarrow> OwnerStore \<Rightarrow> OwnerStore \<times> InterfaceOwner option" where
  "InterfaceOwner_next_revision o' s =
    (if \<not> InterfaceOwner_is_current s o' then (s, None)
     else if ow_revision o' = U64_MAX then (s, None)
     else let n = ow_revision o' + 1 in
       case compare_exchange o' n s of
         Some s' \<Rightarrow> (s', Some \<lparr>ow_epoch = ow_epoch o', ow_revision = n\<rparr>)
       | None \<Rightarrow> (s, None))"

definition InterfaceOwner_retire :: "InterfaceOwner \<Rightarrow> OwnerStore \<Rightarrow> OwnerStore" where
  "InterfaceOwner_retire o' s =
    (case os_regs s (ow_epoch o') of
       Some r \<Rightarrow> s\<lparr>os_regs := (os_regs s)(ow_epoch o' \<mapsto> r\<lparr>rs_retired := True\<rparr>)\<rparr>
     | None \<Rightarrow> s)"

subsection \<open>Packet budgets\<close>

record InterfacePacketCapacity =
  max_clear_packet_bytes :: u32
  max_wire_packet_bytes :: u32
  link_mtu_upgrade :: bool

datatype InterfaceCapacityError =
    ICE_Empty
  | ICE_InvalidIfac
  | ICE_IfacExceedsWire nat u32
  | ICE_LinkCapacityUnavailable u64 u32 u32

definition InterfacePacketCapacity_base :: "u32 \<Rightarrow> InterfacePacketCapacity" where
  "InterfacePacketCapacity_base mtu =
     \<lparr>max_clear_packet_bytes = mtu, max_wire_packet_bytes = mtu, link_mtu_upgrade = False\<rparr>"

definition effective_clear_mtu :: "InterfacePacketCapacity \<Rightarrow> nat \<Rightarrow> (InterfaceCapacityError, u32) result" where
  "effective_clear_mtu c active_ifac_bytes =
    (if max_clear_packet_bytes c = 0 \<or> max_wire_packet_bytes c = 0 then Err ICE_Empty
     else if active_ifac_bytes > 64 then Err ICE_InvalidIfac
     else
       let wire_limit = (if active_ifac_bytes > 0
                         then min (max_wire_packet_bytes c) (word_of_nat MAX_IFAC_WIRE_BYTES)
                         else max_wire_packet_bytes c);
           wire = unat wire_limit
       in and_then (ok_or (ICE_IfacExceedsWire active_ifac_bytes (max_wire_packet_bytes c))
                      (checked_sub wire active_ifac_bytes)) (\<lambda>remaining.
            let effective = min (max_clear_packet_bytes c) (word_of_nat remaining)
            in if effective = 0 then Err ICE_Empty else Ok effective))"

definition link_ceiling :: "InterfacePacketCapacity \<Rightarrow> u64 \<Rightarrow> nat \<Rightarrow> (InterfaceCapacityError, u32) result" where
  "link_ceiling c interface_id active_ifac_bytes =
     and_then (effective_clear_mtu c active_ifac_bytes) (\<lambda>clear_mtu.
       if clear_mtu < 500 then Err (ICE_LinkCapacityUnavailable interface_id clear_mtu 500)
       else Ok (if link_mtu_upgrade c then min clear_mtu MAX_SIGNALLED_LINK_MTU else 500))"

subsection \<open>Transit link requests\<close>

datatype LinkTransitError =
    LTE_InvalidSignalling LinkSignallingError
  | LTE_Capacity InterfaceCapacityError
  | LTE_UnsupportedTransitModeTransform
  | LTE_StaleInterface

text \<open>What \<open>attenuate_request\<close> reads of an interface entry.\<close>

record transit_interface =
  ti_id :: u64
  ti_owner :: InterfaceOwner
  ti_packet_capacity :: InterfacePacketCapacity
  ti_active_ifac_bytes :: nat

definition attenuate_request ::
    "OwnerStore \<Rightarrow> bytes \<Rightarrow> transit_interface \<Rightarrow> transit_interface \<Rightarrow> (LinkTransitError, bytes \<times> u8 \<times> u32) result" where
  "attenuate_request s payload ingress egress =
    and_then (map_err LTE_InvalidSignalling (parse_request_signalling payload)) (\<lambda>signal.
    if \<not> InterfaceOwner_is_current s (ti_owner ingress) \<or> \<not> InterfaceOwner_is_current s (ti_owner egress)
    then Err LTE_StaleInterface
    else
    and_then (map_err LTE_Capacity
      (link_ceiling (ti_packet_capacity ingress) (ti_id ingress) (ti_active_ifac_bytes ingress))) (\<lambda>incoming.
    and_then (map_err LTE_Capacity
      (link_ceiling (ti_packet_capacity egress) (ti_id egress) (ti_active_ifac_bytes egress))) (\<lambda>outgoing.
    let ceiling = min (min (LinkMtu_get (ls_mtu signal)) incoming) outgoing in
    if ls_mode signal \<noteq> DEFAULT_LINK_MODE then
      let raw = the (SignallingData_unpack (drop 64 payload)) in
      if sd_mtu raw \<noteq> ceiling then Err LTE_UnsupportedTransitModeTransform
      else Ok (payload, ls_mode signal, ceiling)
    else
      let forwarded = take 64 payload in
      if ls_signalling_present signal \<and> link_mtu_upgrade (ti_packet_capacity egress) then
        and_then (map_err LTE_InvalidSignalling (SignallingData_try_new (ls_mode signal) ceiling)) (\<lambda>d.
          Ok (forwarded @ SignallingData_pack d, ls_mode signal, ceiling))
      else Ok (forwarded, ls_mode signal, ceiling))))"

subsection \<open>Interleaved registrations\<close>

text \<open>
  Tasks hold clones of the owners handed out so far and run the methods concurrently. One step is
  one atomic action on the shared state: the currency check a method makes first may be out of
  date when its atomic update happens, so no step repeats it.
\<close>

inductive own_step :: "OwnerStore \<times> InterfaceOwner set \<Rightarrow> OwnerStore \<times> InterfaceOwner set \<Rightarrow> bool" where
  own_new: "InterfaceOwner_new s = Some (s', o') \<Longrightarrow> own_step (s, H) (s', insert o' H)"
| own_ack: "o' \<in> H \<Longrightarrow> own_step (s, H) (acknowledge o' s, H)"
| own_advance: "o' \<in> H \<Longrightarrow> ow_revision o' \<noteq> U64_MAX \<Longrightarrow> compare_exchange o' (ow_revision o' + 1) s = Some s' \<Longrightarrow>
    own_step (s, H) (s', insert \<lparr>ow_epoch = ow_epoch o', ow_revision = ow_revision o' + 1\<rparr> H)"
| own_retire: "o' \<in> H \<Longrightarrow> own_step (s, H) (InterfaceOwner_retire o' s, H)"

inductive own_reach :: "OwnerStore \<times> InterfaceOwner set \<Rightarrow> bool" where
  own_init: "own_reach (OwnerStore_init, {})"
| own_more: "own_reach c \<Longrightarrow> own_step c c' \<Longrightarrow> own_reach c'"

inductive_cases own_stepE: "own_step (s, H) (s', H')"

text \<open>Every handle's epoch is registered, below the counter, at a revision not beyond the stored one.\<close>

definition own_inv :: "OwnerStore \<times> InterfaceOwner set \<Rightarrow> bool" where
  "own_inv c \<longleftrightarrow> (\<forall>o'\<in>snd c. \<exists>r. os_regs (fst c) (ow_epoch o') = Some r \<and> ow_revision o' \<le> rs_revision r)
     \<and> (\<forall>e r. os_regs (fst c) e = Some r \<longrightarrow> e < os_next (fst c)
          \<and> (rs_registered_revision r = U64_MAX \<or> rs_registered_revision r \<le> rs_revision r))"

text \<open>The order in which the state of an epoch evolves.\<close>

definition reg_le :: "RegistrationState \<Rightarrow> RegistrationState \<Rightarrow> bool" where
  "reg_le r r' \<longleftrightarrow> (rs_retired r \<longrightarrow> rs_retired r') \<and> rs_revision r \<le> rs_revision r'"

subsection \<open>Lemmas on registrations\<close>

lemma u64_succ_less: "(x :: u64) \<noteq> U64_MAX \<Longrightarrow> e \<le> x \<Longrightarrow> e < x + 1"
  using inc_less_eq_self_iff_eq [of x] unfolding U64_MAX_def by fastforce

lemmas own_defs = acknowledge_def compare_exchange_def InterfaceOwner_retire_def

lemma own_step_mono:
  assumes "own_step c c'" and "own_inv c" and "os_regs (fst c) e = Some r"
  shows "\<exists>r'. os_regs (fst c') e = Some r' \<and> reg_le r r'"
  using assms
proof cases
  case (own_new s s' o' H)
  then have "e < os_next s" using assms(2,3) by (auto simp: own_inv_def)
  with own_new assms(3) show ?thesis
    by (auto simp: InterfaceOwner_new_def Let_def reg_le_def split: if_splits)
next
  case (own_ack o' H s)
  with assms(3) show ?thesis by (auto simp: own_defs reg_le_def split: option.splits)
next
  case (own_advance o' H s s')
  with assms(3) u64_succ_less [of "ow_revision o'" "ow_revision o'"] show ?thesis
    by (auto simp: own_defs reg_le_def less_imp_le split: option.splits if_splits)
next
  case (own_retire o' H s)
  with assms(3) show ?thesis by (auto simp: own_defs reg_le_def split: option.splits)
qed

lemma own_step_inv:
  assumes "own_step c c'" and "own_inv c"
  shows "own_inv c'"
  using assms
proof cases
  case (own_new s s' o' H)
  then have n: "os_next s \<noteq> U64_MAX" "o' = \<lparr>ow_epoch = os_next s, ow_revision = 0\<rparr>"
      "s' = s\<lparr>os_next := os_next s + 1, os_regs := (os_regs s)(os_next s \<mapsto>
        \<lparr>rs_retired = False, rs_revision = 0, rs_registered_revision = U64_MAX\<rparr>)\<rparr>"
    by (auto simp: InterfaceOwner_new_def Let_def split: if_splits)
  show ?thesis
    using assms(2) u64_succ_less [OF n(1)] unfolding own_new n
    by (auto simp: own_inv_def less_imp_le split: if_splits) fastforce+
next
  case (own_ack o' H s)
  with assms(2) show ?thesis
    by (fastforce simp: own_inv_def own_defs split: option.splits if_splits)
next
  case (own_advance o' H s s')
  have "ow_revision o' \<le> ow_revision o' + 1"
    using u64_succ_less [OF own_advance(4)] by (simp add: less_imp_le)
  with own_advance assms(2) show ?thesis
    by (auto simp: own_inv_def own_defs split: option.splits if_splits) (metis order_trans option.inject)+
next
  case (own_retire o' H s)
  with assms(2) show ?thesis
    by (fastforce simp: own_inv_def own_defs split: option.splits if_splits)
qed

lemma own_reach_inv: "own_reach c \<Longrightarrow> own_inv c"
proof (induction rule: own_reach.induct)
  case own_init
  then show ?case by (simp add: own_inv_def OwnerStore_init_def)
next
  case (own_more c c')
  then show ?case using own_step_inv by blast
qed

lemma own_steps_mono:
  assumes "own_step\<^sup>*\<^sup>* c c'" and "own_inv c" and "os_regs (fst c) e = Some r"
  shows "own_inv c' \<and> (\<exists>r'. os_regs (fst c') e = Some r' \<and> reg_le r r')"
  using assms
proof (induction rule: rtranclp_induct)
  case base
  then show ?case by (auto simp: reg_le_def)
next
  case (step c1 c2)
  then obtain r1 where r1: "own_inv c1" "os_regs (fst c1) e = Some r1" "reg_le r r1" by blast
  from own_step_mono [OF step(2) r1(1,2)] own_step_inv [OF step(2) r1(1)] r1(3) show ?case
    by (auto simp: reg_le_def)
qed

lemma method_steps:
  assumes "o' \<in> H"
  shows "fst (InterfaceOwner_mark_registered o' s) = s \<or> own_step (s, H) (fst (InterfaceOwner_mark_registered o' s), H)"
    and "InterfaceOwner_next_revision o' s = (s', Some n) \<Longrightarrow> own_step (s, H) (s', insert n H)"
    and "InterfaceOwner_next_revision o' s = (s', None) \<Longrightarrow> s' = s"
    and "own_step (s, H) (InterfaceOwner_retire o' s, H)"
  using assms
  by (auto simp: InterfaceOwner_mark_registered_def InterfaceOwner_next_revision_def Let_def
      split: if_splits option.splits intro: own_step.intros)

subsection \<open>Lemmas on budgets\<close>

lemma unat_min_word: "unat (min a b) = min (unat a) (unat (b :: 'a::len word))"
  by (simp add: min_def word_le_nat_alt)

lemma effective_clear_mtu_Ok:
  assumes "effective_clear_mtu c n = Ok m"
  shows "0 < unat m" and "unat m \<le> unat (max_clear_packet_bytes c)"
    and "unat m + n \<le> unat (max_wire_packet_bytes c)" and "n \<le> 64"
    and "0 < n \<Longrightarrow> unat m + n \<le> 8160"
proof -
  define w where "w = (if n > 0 then min (max_wire_packet_bytes c) (word_of_nat MAX_IFAC_WIRE_BYTES)
      else max_wire_packet_bytes c)"
  have w: "unat w \<le> unat (max_wire_packet_bytes c)" "0 < n \<Longrightarrow> unat w \<le> 8160"
    by (auto simp: w_def unat_min_word MAX_IFAC_WIRE_BYTES_def)
  have m: "m = min (max_clear_packet_bytes c) (word_of_nat (unat w - n))" "m \<noteq> 0" "n \<le> unat w" "n \<le> 64"
    using assms by (auto simp: effective_clear_mtu_def Let_def result_simps checked_sub_def w_def [symmetric]
        split: if_splits)
  have "unat (word_of_nat (unat w - n) :: u32) = unat w - n"
    using unsigned_less [where 'a = nat, of w] by (simp add: unat_of_nat take_bit_nat_eq_self less_imp_diff_less)
  then have "unat m \<le> unat w - n" by (simp add: m(1) unat_min_word)
  with m(3) w show "unat m + n \<le> unat (max_wire_packet_bytes c)" "0 < n \<Longrightarrow> unat m + n \<le> 8160"
    by auto
  show "0 < unat m" "unat m \<le> unat (max_clear_packet_bytes c)" "n \<le> 64"
    using m by (auto simp: unat_gt_0 unat_min_word)
qed

lemma link_ceiling_Ok:
  assumes "link_ceiling c i n = Ok m"
  shows "500 \<le> m" and "m \<le> MAX_SIGNALLED_LINK_MTU"
    and "\<exists>k. effective_clear_mtu c n = Ok k \<and> m \<le> k"
  using assms
  by (auto simp: link_ceiling_def result_simps MAX_SIGNALLED_LINK_MTU_def not_less split: if_splits)

lemma LinkMtu_in_range:
  "500 \<le> m \<Longrightarrow> m \<le> MAX_SIGNALLED_LINK_MTU \<Longrightarrow> LinkMtu_try_from_signal (Some m) = Ok (LinkMtu m)"
  by (auto simp: LinkMtu_try_from_signal_def BASE_LINK_MTU_def)

subsection \<open>Properties\<close>

text \<open>
  C24: a superseded registration never comes back. However the tasks that hold clones of the owners
  interleave their atomic operations, an owner that is not current (its epoch retired or its
  revision advanced) is never current again; of the owners of one epoch at most one is current; and
  advancing a revision always yields an owner nobody holds yet, so two tasks can never advance to the
  same registration.
\<close>

theorem owner_stale_forever:
  assumes "own_reach (s, H)" and "o' \<in> H"
  shows "(\<not> InterfaceOwner_is_current s o' \<longrightarrow>
      (\<forall>s' H'. own_step\<^sup>*\<^sup>* (s, H) (s', H') \<longrightarrow> \<not> InterfaceOwner_is_current s' o'))
    \<and> (\<forall>p\<in>H. ow_epoch p = ow_epoch o' \<and> InterfaceOwner_is_current s p \<and> InterfaceOwner_is_current s o' \<longrightarrow>
        InterfaceOwner_id p = InterfaceOwner_id o')
    \<and> (\<forall>s' n. InterfaceOwner_next_revision o' s = (s', Some n) \<longrightarrow>
        n \<notin> H \<and> InterfaceOwner_is_current s' n \<and> \<not> InterfaceOwner_is_current s' o')"
proof -
  have inv: "own_inv (s, H)" by (rule own_reach_inv [OF assms(1)])
  then obtain r where r: "os_regs s (ow_epoch o') = Some r" "ow_revision o' \<le> rs_revision r"
    using assms(2) by (auto simp: own_inv_def)
  have stale: "\<not> InterfaceOwner_is_current s' o'"
    if ns: "\<not> InterfaceOwner_is_current s o'" and st: "own_step\<^sup>*\<^sup>* (s, H) (s', H')" for s' H'
  proof -
    obtain r' where "os_regs s' (ow_epoch o') = Some r'" "reg_le r r'"
      using own_steps_mono [OF st inv] r(1) by auto
    with ns r show ?thesis
      by (auto simp: InterfaceOwner_is_current_def reg_le_def)
  qed
  have fresh: "n \<notin> H \<and> InterfaceOwner_is_current s' n \<and> \<not> InterfaceOwner_is_current s' o'"
    if "InterfaceOwner_next_revision o' s = (s', Some n)" for s' n
  proof -
    have n: "n = \<lparr>ow_epoch = ow_epoch o', ow_revision = ow_revision o' + 1\<rparr>" "ow_revision o' \<noteq> U64_MAX"
        "InterfaceOwner_is_current s o'" "compare_exchange o' (ow_revision o' + 1) s = Some s'"
      using that by (auto simp: InterfaceOwner_next_revision_def Let_def split: if_splits option.splits)
    have "ow_revision o' < ow_revision o' + 1" by (rule u64_succ_less [OF n(2) order_refl])
    with n r inv show ?thesis
      by (fastforce simp: own_inv_def InterfaceOwner_is_current_def own_defs split: option.splits if_splits)
  qed
  show ?thesis
    using stale fresh by (auto simp: InterfaceOwner_is_current_def InterfaceOwner_id_def split: option.splits)
qed

definition example_owner :: InterfaceOwner where
  "example_owner = \<lparr>ow_epoch = 1, ow_revision = 0\<rparr>"

definition example_store :: OwnerStore where
  "example_store = fst (the (InterfaceOwner_new OwnerStore_init))"

lemma example_store_reach: "own_reach (example_store, {example_owner})"
proof -
  have "InterfaceOwner_new OwnerStore_init = Some (example_store, example_owner)"
    by (simp add: InterfaceOwner_new_def OwnerStore_init_def example_store_def example_owner_def
        U64_MAX_def Let_def)
  then show ?thesis using own_more [OF own_init own_new] by simp
qed

theorem owner_stale_forever_witness:
  "\<not> InterfaceOwner_is_current (fst (InterfaceOwner_next_revision example_owner example_store)) example_owner"
proof -
  have "InterfaceOwner_next_revision example_owner example_store =
      (fst (InterfaceOwner_next_revision example_owner example_store), Some \<lparr>ow_epoch = 1, ow_revision = 1\<rparr>)"
    by (simp add: InterfaceOwner_next_revision_def InterfaceOwner_is_current_def compare_exchange_def
        example_owner_def example_store_def InterfaceOwner_new_def OwnerStore_init_def U64_MAX_def Let_def)
  with owner_stale_forever [OF example_store_reach, of example_owner] show ?thesis by blast
qed

text \<open>
  What a budget admits can be sent. When an interface reports an effective clear MTU for its active
  access code, every packet of at least two bytes within it is accepted by the signer, and the signed
  packet fits the interface's wire budget; with no access code the packet itself fits.
\<close>

lemma clear_mtu_fits_wire:
  assumes "hkdf_lib_ok lib" and "ed25519_ok sign"
    and "effective_clear_mtu c n = Ok m" and "2 \<le> length packet" and "length packet \<le> unat m"
  shows "length packet + n \<le> unat (max_wire_packet_bytes c)
    \<and> (0 < n \<longrightarrow> (\<exists>raw. try_ifac_sign lib sign packet key n = Ok raw
          \<and> length raw \<le> unat (max_wire_packet_bytes c)))"
proof -
  note b = effective_clear_mtu_Ok [OF assms(3)]
  have "length packet + n \<le> unat (max_wire_packet_bytes c)" using b(3) assms(5) by linarith
  moreover have "\<exists>raw. try_ifac_sign lib sign packet key n = Ok raw \<and> length raw = length packet + n" if "0 < n"
  proof -
    have "length packet + n \<le> 8160" using b(5) [OF that] assms(5) by linarith
    from try_ifac_sign_Ok [OF assms(1) _ b(4) assms(4) this, of sign key] that obtain mk where
      "try_ifac_sign lib sign packet key n = Ok (ifac_mask mk n ([packet ! 0 OR IFAC_FLAG, packet ! 1]
          @ drop (64 - n) (sign (subslice 32 64 key) packet) @ drop 2 packet))"
      by (auto simp: Suc_le_eq)
    moreover have "length (sign (subslice 32 64 key) packet) = 64"
      using assms(2) by (simp add: ed25519_ok_def)
    ultimately show ?thesis using b(4) assms(4) by auto
  qed
  ultimately show ?thesis by auto
qed

lemma clear_mtu_fits_wire_witness:
  "\<exists>raw. try_ifac_sign example_lib example_sign (replicate 492 0) (replicate 64 1) 8 = Ok raw \<and> length raw \<le> 500"
proof -
  have "effective_clear_mtu (InterfacePacketCapacity_base 500) 8 = Ok 492"
    by (simp add: effective_clear_mtu_def InterfacePacketCapacity_base_def MAX_IFAC_WIRE_BYTES_def
        checked_sub_def min_def)
  from clear_mtu_fits_wire [OF example_hkdf_ok example_sign_ok this, of "replicate 492 0" "replicate 64 1"]
  show ?thesis by (simp add: InterfacePacketCapacity_base_def)
qed

text \<open>
  Attenuation only ever lowers an offer and keeps the link's identity. A forwarded link request
  carries the same 64 bytes of keys; the ceiling recorded for the link is at most the requested MTU
  and at most what both interfaces can carry, and at least the 500-byte base; and a receiver that
  parses what is forwarded reads the same mode and an MTU of at most the ceiling.
\<close>

lemma attenuate_request_safe:
  assumes "attenuate_request s payload ingress egress = Ok (fwd, mode, cap)"
  shows "take 64 fwd = take 64 payload
    \<and> 500 \<le> cap
    \<and> (\<exists>offer. parse_request_signalling payload = Ok offer \<and> cap \<le> LinkMtu_get (ls_mtu offer) \<and> mode = ls_mode offer)
    \<and> (\<exists>i e. effective_clear_mtu (ti_packet_capacity ingress) (ti_active_ifac_bytes ingress) = Ok i
         \<and> effective_clear_mtu (ti_packet_capacity egress) (ti_active_ifac_bytes egress) = Ok e
         \<and> cap \<le> i \<and> cap \<le> e)
    \<and> (\<exists>offer'. parse_request_signalling fwd = Ok offer' \<and> ls_mode offer' = mode \<and> LinkMtu_get (ls_mtu offer') \<le> cap)"
proof -
  obtain offer i e where parts: "parse_request_signalling payload = Ok offer"
      "link_ceiling (ti_packet_capacity ingress) (ti_id ingress) (ti_active_ifac_bytes ingress) = Ok i"
      "link_ceiling (ti_packet_capacity egress) (ti_id egress) (ti_active_ifac_bytes egress) = Ok e"
      "cap = min (min (LinkMtu_get (ls_mtu offer)) i) e" "mode = ls_mode offer"
    using assms by (auto simp: attenuate_request_def result_simps Let_def split: if_splits)
  have mtu: "500 \<le> LinkMtu_get (ls_mtu offer)" "LinkMtu_get (ls_mtu offer) \<le> MAX_SIGNALLED_LINK_MTU"
    using signalling_parse_Ok [of payload 64 offer] parts(1)
    by (simp_all add: parse_request_signalling_def word_le_nat_alt MAX_SIGNALLED_LINK_MTU_def)
  note li = link_ceiling_Ok [OF parts(2)] and le = link_ceiling_Ok [OF parts(3)]
  have c: "500 \<le> cap" "cap \<le> MAX_SIGNALLED_LINK_MTU" "cap \<le> LinkMtu_get (ls_mtu offer)"
      "cap \<le> i" "cap \<le> e"
    using mtu li(1,2) le(1,2) by (auto simp: parts(4) min_def)
  have len: "length payload = 64 \<or> length payload = 67"
    using parts(1) by (auto simp: parse_request_signalling_def signalling_parse_def split: if_splits)
  have fwd: "fwd = payload \<and> mode \<noteq> DEFAULT_LINK_MODE \<and> sd_mtu (the (SignallingData_unpack (drop 64 payload))) = cap
      \<or> mode = DEFAULT_LINK_MODE \<and> (fwd = take 64 payload
          \<or> (\<exists>d. fwd = take 64 payload @ SignallingData_pack d \<and> SignallingData_try_new mode cap = Ok d))"
    using assms parts by (auto simp: attenuate_request_def result_simps Let_def split: if_splits)
  have same: "take 64 fwd = take 64 payload"
    using fwd len by auto
  have "\<exists>offer'. parse_request_signalling fwd = Ok offer' \<and> ls_mode offer' = mode \<and> LinkMtu_get (ls_mtu offer') \<le> cap"
    using fwd
  proof (elim disjE conjE exE)
    assume "fwd = payload" "mode \<noteq> DEFAULT_LINK_MODE"
      "sd_mtu (the (SignallingData_unpack (drop 64 payload))) = cap"
    with parts(1,5) c(1,2) show ?thesis
      by (auto simp: parse_request_signalling_def signalling_parse_def Let_def LinkMtu_in_range result_simps
          split: if_splits)
  next
    assume "mode = DEFAULT_LINK_MODE" "fwd = take 64 payload"
    with len c(1) show ?thesis
      by (auto simp: parse_request_signalling_def signalling_parse_def BASE_LINK_MTU_def)
  next
    fix d assume "mode = DEFAULT_LINK_MODE" "fwd = take 64 payload @ SignallingData_pack d"
      "SignallingData_try_new mode cap = Ok d"
    then have "SignallingData_wf d" "sd_mode d = mode" "sd_mtu d = cap"
      using c(1,2) by (auto simp: SignallingData_try_new_def LinkMtu_in_range SignallingData_wf_def not_less
          split: if_splits)
    with SignallingData_unpack_pack [of d "[]"] len c(1,2) \<open>fwd = take 64 payload @ SignallingData_pack d\<close>
    show ?thesis
      by (auto simp: parse_request_signalling_def signalling_parse_def LinkMtu_in_range Let_def
          SignallingData_pack_def)
  qed
  moreover have "\<exists>i e. effective_clear_mtu (ti_packet_capacity ingress) (ti_active_ifac_bytes ingress) = Ok i
      \<and> effective_clear_mtu (ti_packet_capacity egress) (ti_active_ifac_bytes egress) = Ok e
      \<and> cap \<le> i \<and> cap \<le> e"
    using li(3) le(3) c(4,5) by (meson order_trans)
  ultimately show ?thesis
    using same parts(1,5) c(1,3) by blast
qed

definition example_interface :: "bool \<Rightarrow> u32 \<Rightarrow> transit_interface" where
  "example_interface up mtu = \<lparr>ti_id = 1, ti_owner = example_owner,
     ti_packet_capacity = \<lparr>max_clear_packet_bytes = mtu, max_wire_packet_bytes = mtu, link_mtu_upgrade = up\<rparr>,
     ti_active_ifac_bytes = 0\<rparr>"

lemma attenuate_request_safe_witness:
  "\<exists>fwd. attenuate_request example_store (replicate 64 7) (example_interface True 1000) (example_interface False 600)
      = Ok (fwd, 1, 500) \<and> take 64 fwd = take 64 (replicate 64 7)"
proof -
  have "attenuate_request example_store (replicate 64 7) (example_interface True 1000) (example_interface False 600)
      = Ok (replicate 64 7, 1, 500)"
    by (simp add: attenuate_request_def parse_request_signalling_def signalling_parse_def example_interface_def
        InterfaceOwner_is_current_def example_store_def example_owner_def InterfaceOwner_new_def OwnerStore_init_def
        U64_MAX_def Let_def link_ceiling_def effective_clear_mtu_def checked_sub_def min_def
        DEFAULT_LINK_MODE_def BASE_LINK_MTU_def MAX_SIGNALLED_LINK_MTU_def)
  from this attenuate_request_safe [OF this] show ?thesis by blast
qed

end
