(* ===== verification/Tunnel.thy ===== *)
theory Tunnel
  imports Routing_Tables Codec
begin

text \<open>
  Tunnel records and the synthesis payload, \<open>src/crates/rns-transport/src/tunnel.rs\<close>. SHA-256 is the
  argument \<open>sha256\<close>; key parsing and signature verification by the identity layer are the argument
  \<open>verify\<close> (\<open>None\<close> for a key that does not parse). Building a synthesis packet, which draws random bytes
  and signs, is not modelled.
\<close>

subsection \<open>Model\<close>

definition TUNNEL_TIMEOUT :: nat where "TUNNEL_TIMEOUT = 28800"

record TunnelPath =
  tp_timestamp :: unix_time
  tp_next_hop :: "bytes option"
  tp_hops :: u8
  tp_expires :: unix_time
  tp_random_blobs :: "bytes list"
  tp_packet_hash :: "bytes option"

record TunnelEntry =
  te_tunnel_id :: bytes
  te_interface_id :: "InterfaceId option"
  te_tunnel_paths :: "(bytes, TunnelPath) hmap"
  te_expires :: unix_time

record TunnelTable =
  tt_entries :: "(bytes, TunnelEntry) hmap"
  tt_by_interface :: "(InterfaceId, bytes) hmap"

definition TunnelTable_new :: TunnelTable where
  "TunnelTable_new = \<lparr>tt_entries = hm_empty, tt_by_interface = hm_empty\<rparr>"

definition TunnelTable_insert :: "TunnelEntry \<Rightarrow> TunnelTable \<Rightarrow> TunnelTable" where
  "TunnelTable_insert entry t =
    (let t = (case te_interface_id entry of
                Some i \<Rightarrow> t\<lparr>tt_by_interface := hm_insert i (te_tunnel_id entry) (tt_by_interface t)\<rparr>
              | None \<Rightarrow> t)
     in t\<lparr>tt_entries := hm_insert (te_tunnel_id entry) entry (tt_entries t)\<rparr>)"

definition TunnelTable_get :: "TunnelTable \<Rightarrow> bytes \<Rightarrow> TunnelEntry option" where
  "TunnelTable_get t i = hm_get (tt_entries t) i"

definition TunnelTable_get_mut :: "bytes \<Rightarrow> (TunnelEntry \<Rightarrow> TunnelEntry) \<Rightarrow> TunnelTable \<Rightarrow> TunnelTable" where
  "TunnelTable_get_mut i f t = t\<lparr>tt_entries := hm_update i f (tt_entries t)\<rparr>"

definition TunnelTable_remove :: "bytes \<Rightarrow> TunnelTable \<Rightarrow> TunnelTable \<times> TunnelEntry option" where
  "TunnelTable_remove i t = (t\<lparr>tt_entries := hm_remove i (tt_entries t)\<rparr>, hm_get (tt_entries t) i)"

text \<open>What \<open>get_mut_by_interface\<close> resolves to.\<close>

definition TunnelTable_get_by_interface :: "TunnelTable \<Rightarrow> InterfaceId \<Rightarrow> TunnelEntry option" where
  "TunnelTable_get_by_interface t i =
     Option.bind (hm_get (tt_by_interface t) i) (\<lambda>tunnel_id. hm_get (tt_entries t) tunnel_id)"

definition TunnelTable_void_interface :: "InterfaceId \<Rightarrow> TunnelTable \<Rightarrow> TunnelTable \<times> nat" where
  "TunnelTable_void_interface i t =
    (t\<lparr>tt_by_interface := hm_remove i (tt_by_interface t),
       tt_entries := map (\<lambda>(k, e). (k, if te_interface_id e = Some i then e\<lparr>te_interface_id := None\<rparr> else e)) (tt_entries t)\<rparr>,
     length (filter (\<lambda>(_, e). te_interface_id e = Some i) (tt_entries t)))"

definition tunnel_is_stale :: "TunnelEntry \<Rightarrow> unix_time \<Rightarrow> bool" where
  "tunnel_is_stale entry now \<longleftrightarrow>
     te_expires entry \<le> now \<or> te_expires entry > now + 2 * real TUNNEL_TIMEOUT"

definition TunnelTable_cull_expired :: "unix_time \<Rightarrow> TunnelTable \<Rightarrow> TunnelTable \<times> nat" where
  "TunnelTable_cull_expired now t =
    (let before = hm_len (tt_entries t);
         entries = hm_retain (\<lambda>_ entry. \<not> tunnel_is_stale entry now) (tt_entries t)
     in (t\<lparr>tt_entries := entries\<rparr>, before - hm_len entries))"

definition TunnelTable_cull_expired_batch :: "nat \<Rightarrow> unix_time \<Rightarrow> TunnelTable \<Rightarrow> TunnelTable \<times> nat" where
  "TunnelTable_cull_expired_batch limit now t =
    (let to_remove = map fst (take limit (filter (\<lambda>(_, entry). tunnel_is_stale entry now) (tt_entries t)));
         count = length to_remove
     in (t\<lparr>tt_entries := fold hm_remove to_remove (tt_entries t)\<rparr>, count))"

definition handle_tunnel :: "unix_time \<Rightarrow> bytes \<Rightarrow> InterfaceId \<Rightarrow> TunnelTable \<Rightarrow> TunnelTable" where
  "handle_tunnel now tunnel_id interface_id t =
    (let expires = now + real TUNNEL_TIMEOUT in
     if hm_contains (tt_entries t) tunnel_id then
       let t = TunnelTable_get_mut tunnel_id
                 (\<lambda>e. e\<lparr>te_interface_id := Some interface_id, te_expires := expires\<rparr>) t
       in t\<lparr>tt_by_interface := hm_insert interface_id tunnel_id (tt_by_interface t)\<rparr>
     else TunnelTable_insert \<lparr>te_tunnel_id = tunnel_id, te_interface_id = Some interface_id,
            te_tunnel_paths = hm_empty, te_expires = expires\<rparr> t)"

record TunnelSynthesisData =
  ts_public_key :: bytes
  ts_interface_hash :: bytes
  ts_random_hash :: bytes
  ts_signature :: bytes

definition TunnelSynthesisData_pack :: "TunnelSynthesisData \<Rightarrow> bytes" where
  "TunnelSynthesisData_pack d =
     ts_public_key d @ ts_interface_hash d @ ts_random_hash d @ ts_signature d"

definition TunnelSynthesisData_unpack :: "bytes \<Rightarrow> TunnelSynthesisData option" where
  "TunnelSynthesisData_unpack data =
    (if length data \<noteq> 176 then None
     else Some \<lparr>ts_public_key = subslice 0 64 data, ts_interface_hash = subslice 64 96 data,
                ts_random_hash = subslice 96 112 data, ts_signature = subslice 112 176 data\<rparr>)"

definition TunnelSynthesisData_tunnel_id :: "(bytes \<Rightarrow> bytes) \<Rightarrow> TunnelSynthesisData \<Rightarrow> bytes" where
  "TunnelSynthesisData_tunnel_id sha256 d = sha256 (ts_public_key d @ ts_interface_hash d)"

definition TunnelSynthesisData_is_signed ::
    "(bytes \<Rightarrow> (bytes \<Rightarrow> bytes \<Rightarrow> bool) option) \<Rightarrow> TunnelSynthesisData \<Rightarrow> bool" where
  "TunnelSynthesisData_is_signed verify d =
    (case verify (ts_public_key d) of
       None \<Rightarrow> False
     | Some check \<Rightarrow> check (ts_public_key d @ ts_interface_hash d @ ts_random_hash d) (ts_signature d))"

definition interface_hash :: "(bytes \<Rightarrow> bytes) \<Rightarrow> bytes \<Rightarrow> bytes" where
  "interface_hash sha256 name = sha256 name"

definition TunnelSynthesisData_wf :: "TunnelSynthesisData \<Rightarrow> bool" where
  "TunnelSynthesisData_wf d \<longleftrightarrow> length (ts_public_key d) = 64 \<and> length (ts_interface_hash d) = 32
     \<and> length (ts_random_hash d) = 16 \<and> length (ts_signature d) = 64"

definition TunnelTable_wf :: "TunnelTable \<Rightarrow> bool" where
  "TunnelTable_wf t \<longleftrightarrow> hm_wf (tt_entries t) \<and> hm_wf (tt_by_interface t)
     \<and> (\<forall>k e. hm_get (tt_entries t) k = Some e \<longrightarrow> te_tunnel_id e = k)"

subsection \<open>Lemmas\<close>

interpretation tunnel_cull: cull_table tt_entries TunnelTable_cull_expired "\<lambda>now _ e. \<not> tunnel_is_stale e now"
  by unfold_locales (simp_all add: TunnelTable_cull_expired_def Let_def)

interpretation tunnel_batch: batch_cull_table tt_entries TunnelTable_cull_expired_batch
    "\<lambda>now _ e. \<not> tunnel_is_stale e now" "\<lambda>t. hm_wf (tt_entries t)"
proof -
  have ks: "map fst (take limit (filter (\<lambda>(_, e). tunnel_is_stale e now) m)) =
      take limit (dead_keys (\<lambda>_ e. \<not> tunnel_is_stale e now) m)" for limit now and m :: "(bytes, TunnelEntry) hmap"
    by (rule take_dead_keys) auto
  show "batch_cull_table tt_entries TunnelTable_cull_expired_batch (\<lambda>now _ e. \<not> tunnel_is_stale e now)
      (\<lambda>t. hm_wf (tt_entries t))"
    by unfold_locales
      (simp_all add: TunnelTable_cull_expired_batch_def Let_def ks hm_remove_all_def [symmetric] min.commute)
qed

interpretation tunnel_synthesis: strict_codec TunnelSynthesisData_pack TunnelSynthesisData_unpack TunnelSynthesisData_wf
proof (unfold_locales, goal_cases)
  case (1 x)
  then show ?case
    by (simp add: TunnelSynthesisData_wf_def TunnelSynthesisData_pack_def TunnelSynthesisData_unpack_def subslice_def)
next
  case (2 bs x)
  then have len: "length bs = 176" by (simp add: TunnelSynthesisData_unpack_def split: if_splits)
  have "subslice 0 64 bs @ subslice 64 96 bs @ subslice 96 112 bs @ subslice 112 176 bs = bs"
    using len by (simp add: subslice_join)
  with 2 len show ?case
    by (auto simp: TunnelSynthesisData_unpack_def TunnelSynthesisData_wf_def TunnelSynthesisData_pack_def)
qed

lemma map_snd_update_wf [simp]: "hm_wf (map (\<lambda>(k, e). (k, f e)) m) = hm_wf m"
  by (simp add: hm_wf_def case_prod_beta comp_def)

lemma hm_get_map_snd: "hm_get (map (\<lambda>(k, e). (k, f e)) m) k = map_option f (hm_get m k)"
  by (induction m) (auto simp: hm_get_def)

lemma TunnelTable_wf_ops:
  assumes "TunnelTable_wf t"
  shows "TunnelTable_wf (TunnelTable_insert e t)" and "TunnelTable_wf (fst (TunnelTable_remove i t))"
    and "TunnelTable_wf (fst (TunnelTable_void_interface j t))" and "TunnelTable_wf (handle_tunnel now i j t)"
    and "TunnelTable_wf (fst (TunnelTable_cull_expired now t))"
    and "TunnelTable_wf (fst (TunnelTable_cull_expired_batch limit now t))"
  using assms
  by (auto simp: TunnelTable_wf_def TunnelTable_insert_def TunnelTable_remove_def TunnelTable_void_interface_def
      handle_tunnel_def TunnelTable_get_mut_def TunnelTable_cull_expired_def TunnelTable_cull_expired_batch_def
      Let_def hm_get_map_snd hm.get_ret_Some hm_remove_all_def [symmetric] hm_get_remove_all
      split: option.splits if_splits)

subsection \<open>Properties\<close>

text \<open>
  Synthesising a tunnel binds it. After \<open>handle_tunnel\<close> the tunnel is found by its id and through its
  interface, is bound to that interface for exactly eight hours (it survives every sweep before and
  none after), keeps the paths it had, or starts with none, and no other tunnel is touched.
\<close>

lemma handle_tunnel_binds:
  assumes "TunnelTable_wf t"
  shows "let t' = handle_tunnel now i j t in
    (\<exists>e. TunnelTable_get t' i = Some e \<and> TunnelTable_get_by_interface t' j = Some e
        \<and> te_interface_id e = Some j \<and> te_tunnel_id e = i
        \<and> te_tunnel_paths e = (case TunnelTable_get t i of Some old \<Rightarrow> te_tunnel_paths old | None \<Rightarrow> [])
        \<and> (\<forall>later\<ge>now. TunnelTable_get (fst (TunnelTable_cull_expired later t')) i =
              (if later < now + 28800 then Some e else None)))
    \<and> (\<forall>k. k \<noteq> i \<longrightarrow> TunnelTable_get t' k = TunnelTable_get t k)"
proof -
  let ?t = "handle_tunnel now i j t"
  have wf: "hm_wf (tt_entries t)" "hm_wf (tt_by_interface t)" "hm_wf (tt_entries ?t)"
    using assms TunnelTable_wf_ops(4) [OF assms, of now i j] by (auto simp: TunnelTable_wf_def)
  define e where "e = the (TunnelTable_get ?t i)"
  have e: "TunnelTable_get ?t i = Some e" "TunnelTable_get_by_interface ?t j = Some e" "te_interface_id e = Some j"
      "te_tunnel_id e = i" "te_expires e = now + 28800"
      "te_tunnel_paths e = (case TunnelTable_get t i of Some old \<Rightarrow> te_tunnel_paths old | None \<Rightarrow> [])"
    using assms wf
    by (auto simp: e_def handle_tunnel_def TunnelTable_get_def TunnelTable_get_by_interface_def TunnelTable_get_mut_def
        TunnelTable_insert_def hm_contains_def Let_def TUNNEL_TIMEOUT_def hm_empty_def TunnelTable_wf_def split: option.splits)
  have "TunnelTable_get (fst (TunnelTable_cull_expired later ?t)) i = (if later < now + 28800 then Some e else None)"
    if "now \<le> later" for later
    using that e(1,5) wf(3)
    by (simp add: TunnelTable_cull_expired_def TunnelTable_get_def Let_def hm_get_retain tunnel_is_stale_def
        TUNNEL_TIMEOUT_def)
  moreover have "TunnelTable_get ?t k = TunnelTable_get t k" if "k \<noteq> i" for k
    using that wf(1) by (auto simp: handle_tunnel_def TunnelTable_get_def TunnelTable_get_mut_def TunnelTable_insert_def Let_def)
  ultimately show ?thesis using e by (auto simp: Let_def)
qed

lemma handle_tunnel_binds_witness:
  "\<exists>e. TunnelTable_get (handle_tunnel 100 [1] 5 TunnelTable_new) [1] = Some e \<and> te_interface_id e = Some 5"
proof -
  have "TunnelTable_wf TunnelTable_new" by (simp add: TunnelTable_wf_def TunnelTable_new_def)
  from handle_tunnel_binds [OF this, of 100 "[1]" 5] show ?thesis by (auto simp: Let_def)
qed

end
