(* ===== verification/Message_Channel.thy ===== *)
theory Message_Channel
  imports Tables
begin

text \<open>
  The sequenced message channel of a link, \<open>src/crates/rns-protocol/src/channel.rs\<close> and
  \<open>channel_message.rs\<close>. A message is its type and its packed bytes; the monotonic clock is the argument
  \<open>now\<close>; a handler is a function whose \<open>None\<close> is a panic, which the channel catches. Round-trip times
  handed in are doubles, the retained one is a real. \<open>usize\<close> has 64 bits.
\<close>

subsection \<open>Constants and messages\<close>

definition WINDOW_INITIAL :: nat where "WINDOW_INITIAL = 2"
definition WINDOW_MIN :: nat where "WINDOW_MIN = 2"
definition WINDOW_MIN_LIMIT_MEDIUM :: nat where "WINDOW_MIN_LIMIT_MEDIUM = 5"
definition WINDOW_MIN_LIMIT_FAST :: nat where "WINDOW_MIN_LIMIT_FAST = 16"
definition WINDOW_MAX_SLOW :: nat where "WINDOW_MAX_SLOW = 5"
definition WINDOW_MAX_MEDIUM :: nat where "WINDOW_MAX_MEDIUM = 12"
definition WINDOW_MAX_FAST :: nat where "WINDOW_MAX_FAST = 48"
definition WINDOW_MAX :: nat where "WINDOW_MAX = WINDOW_MAX_FAST"
definition FAST_RATE_THRESHOLD :: nat where "FAST_RATE_THRESHOLD = 10"
definition RTT_FAST :: real where "RTT_FAST = 18 / 100"
definition RTT_MEDIUM :: real where "RTT_MEDIUM = 75 / 100"
definition RTT_SLOW :: real where "RTT_SLOW = 145 / 100"
definition WINDOW_FLEXIBILITY :: nat where "WINDOW_FLEXIBILITY = 4"
definition SEQ_MODULUS :: nat where "SEQ_MODULUS = 0x10000"
definition ENVELOPE_HEADER_SIZE :: nat where "ENVELOPE_HEADER_SIZE = 6"
definition MAX_TRIES :: nat where "MAX_TRIES = 5"
definition MIN_TIMEOUT_BASE :: real where "MIN_TIMEOUT_BASE = 25 / 1000"
definition RTT_MAX :: real where "RTT_MAX = 720"
definition SYSTEM_MESSAGE_TYPE_MIN :: u16 where "SYSTEM_MESSAGE_TYPE_MIN = 0xF000"

lemmas window_constants = WINDOW_INITIAL_def WINDOW_MIN_def WINDOW_MIN_LIMIT_MEDIUM_def
  WINDOW_MIN_LIMIT_FAST_def WINDOW_MAX_SLOW_def WINDOW_MAX_MEDIUM_def WINDOW_MAX_FAST_def WINDOW_MAX_def
  FAST_RATE_THRESHOLD_def WINDOW_FLEXIBILITY_def

datatype MessageState = MS_New | MS_Sent | MS_Delivered | MS_Failed

record message =
  msg_type :: u16
  msg_pack :: bytes

datatype ChannelError =
    ChannelClosed
  | NotReady
  | MaxRetriesExceeded
  | InvalidEnvelope
  | UnknownMessageType u16
  | InvalidMessageType u16
  | MessageTooLarge (mtl_actual: nat) (mtl_max: nat)

fun initial_rtt :: "f64 \<Rightarrow> real" where
  "initial_rtt (Fin rtt) = (if rtt \<ge> 0 then min rtt RTT_MAX else 1)"
| "initial_rtt _ = 1"

subsection \<open>Envelopes\<close>

record Envelope =
  env_msg_type :: u16
  env_sequence :: u16
  env_raw :: bytes
  env_packed :: bool
  env_tries :: nat
  env_state :: MessageState
  env_last_sent :: "instant option"

definition Envelope_pack :: "message \<Rightarrow> u16 \<Rightarrow> Envelope" where
  "Envelope_pack msg sequence =
    (let data = msg_pack msg;
         len = word_of_nat (length data) :: u16;
         raw = u16_to_be (msg_type msg) @ u16_to_be sequence @ u16_to_be len @ data
     in \<lparr>env_msg_type = msg_type msg, env_sequence = sequence, env_raw = raw, env_packed = True,
         env_tries = 0, env_state = MS_New, env_last_sent = None\<rparr>)"

text \<open>\<open>None\<close> is \<open>ChannelMessageError::TooShort\<close>.\<close>

definition Envelope_unpack :: "bytes \<Rightarrow> Envelope option" where
  "Envelope_unpack raw =
    (if length raw < ENVELOPE_HEADER_SIZE then None
     else Some \<lparr>env_msg_type = u16_from_be (raw ! 0) (raw ! 1), env_sequence = u16_from_be (raw ! 2) (raw ! 3),
                env_raw = raw, env_packed = True, env_tries = 0, env_state = MS_New, env_last_sent = None\<rparr>)"

definition Envelope_payload :: "Envelope \<Rightarrow> bytes" where
  "Envelope_payload e =
    (if length (env_raw e) > ENVELOPE_HEADER_SIZE then drop ENVELOPE_HEADER_SIZE (env_raw e) else [])"

subsection \<open>Flow-control windows\<close>

record ChannelWindow =
  cw_window :: nat
  cw_window_min :: nat
  cw_window_max :: nat
  cw_window_flexibility :: nat
  cw_fast_rate_rounds :: nat
  cw_medium_rate_rounds :: nat

definition ChannelWindow_new :: "f64 \<Rightarrow> ChannelWindow" where
  "ChannelWindow_new rtt =
    (if initial_rtt rtt > RTT_SLOW then
       \<lparr>cw_window = 1, cw_window_min = 1, cw_window_max = 1, cw_window_flexibility = 1,
        cw_fast_rate_rounds = 0, cw_medium_rate_rounds = 0\<rparr>
     else
       \<lparr>cw_window = WINDOW_INITIAL, cw_window_min = WINDOW_MIN, cw_window_max = WINDOW_MAX_SLOW,
        cw_window_flexibility = WINDOW_FLEXIBILITY, cw_fast_rate_rounds = 0, cw_medium_rate_rounds = 0\<rparr>)"

definition ChannelWindow_clamp :: "ChannelWindow \<Rightarrow> ChannelWindow" where
  "ChannelWindow_clamp w =
     w\<lparr>cw_window := min (cw_window w) WINDOW_MAX, cw_window_min := min (cw_window_min w) WINDOW_MAX,
       cw_window_max := min (cw_window_max w) WINDOW_MAX,
       cw_window_flexibility := min (cw_window_flexibility w) WINDOW_MAX\<rparr>"

text \<open>The rate counters and the promotion of the ceiling, for a positive round-trip time.\<close>

definition ChannelWindow_promote :: "real \<Rightarrow> ChannelWindow \<Rightarrow> ChannelWindow" where
  "ChannelWindow_promote rtt w =
    (if rtt > RTT_FAST then
       let w = w\<lparr>cw_fast_rate_rounds := 0\<rparr> in
       if rtt > RTT_MEDIUM then w\<lparr>cw_medium_rate_rounds := 0\<rparr>
       else let w = w\<lparr>cw_medium_rate_rounds := usize_saturating_add (cw_medium_rate_rounds w) 1\<rparr> in
         if cw_window_max w < WINDOW_MAX_MEDIUM \<and> cw_medium_rate_rounds w = FAST_RATE_THRESHOLD
         then w\<lparr>cw_window_max := WINDOW_MAX_MEDIUM, cw_window_min := WINDOW_MIN_LIMIT_MEDIUM\<rparr>
         else w
     else
       let w = w\<lparr>cw_fast_rate_rounds := usize_saturating_add (cw_fast_rate_rounds w) 1\<rparr> in
       if cw_window_max w < WINDOW_MAX_FAST \<and> cw_fast_rate_rounds w = FAST_RATE_THRESHOLD
       then w\<lparr>cw_window_max := WINDOW_MAX_FAST, cw_window_min := WINDOW_MIN_LIMIT_FAST\<rparr>
       else w)"

definition ChannelWindow_grow :: "f64 \<Rightarrow> ChannelWindow \<Rightarrow> ChannelWindow" where
  "ChannelWindow_grow rtt w =
    (let w = ChannelWindow_clamp w in
     case rtt of
       Fin r \<Rightarrow>
         if r < 0 then w
         else let r = min r RTT_MAX;
                  w = (if cw_window w < cw_window_max w then w\<lparr>cw_window := cw_window w + 1\<rparr> else w)
              in if r = 0 then w else ChannelWindow_promote r w
     | _ \<Rightarrow> w)"

definition ChannelWindow_shrink :: "ChannelWindow \<Rightarrow> ChannelWindow" where
  "ChannelWindow_shrink w =
    (let w = ChannelWindow_clamp w in
     if cw_window w > cw_window_min w then
       let w = w\<lparr>cw_window := cw_window w - 1\<rparr> in
       if cw_window_max w > cw_window_min w + cw_window_flexibility w
       then w\<lparr>cw_window_max := cw_window_max w - 1\<rparr> else w
     else w)"

subsection \<open>Channels\<close>

type_synonym HandlerId = u64
type_synonym MessageCallback = "u16 \<Rightarrow> bytes \<Rightarrow> bool option"

record Channel =
  ch_next_tx_sequence :: u16
  ch_next_rx_sequence :: u16
  ch_tx_ring :: "Envelope list"
  ch_rx_ring :: "Envelope list"
  ch_window :: ChannelWindow
  ch_active :: bool
  ch_current_rtt :: real
  ch_registered_types :: "u16 list"
  ch_message_handlers :: "(HandlerId \<times> MessageCallback) list"
  ch_next_handler_id :: HandlerId

definition Channel_new :: "f64 \<Rightarrow> Channel" where
  "Channel_new rtt =
    (let rtt = initial_rtt rtt in
     \<lparr>ch_next_tx_sequence = 0, ch_next_rx_sequence = 0, ch_tx_ring = [], ch_rx_ring = [],
      ch_window = ChannelWindow_new (Fin rtt), ch_active = True, ch_current_rtt = rtt,
      ch_registered_types = [], ch_message_handlers = [], ch_next_handler_id = 0\<rparr>)"

definition Channel_register_message_type :: "u16 \<Rightarrow> Channel \<Rightarrow> (ChannelError, Channel) result" where
  "Channel_register_message_type t c =
    (if t \<ge> SYSTEM_MESSAGE_TYPE_MIN then Err (InvalidMessageType t)
     else if t \<notin> set (ch_registered_types c)
       then Ok (c\<lparr>ch_registered_types := ch_registered_types c @ [t]\<rparr>)
     else Ok c)"

definition Channel_register_system_type :: "u16 \<Rightarrow> Channel \<Rightarrow> Channel" where
  "Channel_register_system_type t c =
    (if t \<notin> set (ch_registered_types c)
     then c\<lparr>ch_registered_types := ch_registered_types c @ [t]\<rparr> else c)"

definition Channel_add_message_handler :: "MessageCallback \<Rightarrow> Channel \<Rightarrow> Channel \<times> HandlerId" where
  "Channel_add_message_handler h c =
    (let i = ch_next_handler_id c in
     (c\<lparr>ch_next_handler_id := i + 1, ch_message_handlers := ch_message_handlers c @ [(i, h)]\<rparr>, i))"

definition Channel_remove_message_handler :: "HandlerId \<Rightarrow> Channel \<Rightarrow> Channel \<times> bool" where
  "Channel_remove_message_handler i c =
    (case position (\<lambda>(candidate, _). candidate = i) (ch_message_handlers c) of
       None \<Rightarrow> (c, False)
     | Some index \<Rightarrow> (c\<lparr>ch_message_handlers :=
         take index (ch_message_handlers c) @ drop (Suc index) (ch_message_handlers c)\<rparr>, True))"

definition Channel_clear_message_handlers :: "Channel \<Rightarrow> Channel" where
  "Channel_clear_message_handlers c = c\<lparr>ch_message_handlers := []\<rparr>"

text \<open>The handlers called, in order, and whether one of them consumed the message.\<close>

fun run_handlers :: "(HandlerId \<times> MessageCallback) list \<Rightarrow> u16 \<Rightarrow> bytes \<Rightarrow> HandlerId list \<times> bool" where
  "run_handlers [] t p = ([], False)"
| "run_handlers ((i, h) # hs) t p =
    (case h t p of
       Some True \<Rightarrow> ([i], True)
     | _ \<Rightarrow> (let (called, consumed) = run_handlers hs t p in (i # called, consumed)))"

definition Channel_run_callbacks :: "Channel \<Rightarrow> u16 \<Rightarrow> bytes \<Rightarrow> HandlerId list \<times> bool" where
  "Channel_run_callbacks c t p = run_handlers (ch_message_handlers c) t p"

definition Channel_is_type_registered :: "Channel \<Rightarrow> u16 \<Rightarrow> bool" where
  "Channel_is_type_registered c t = (t \<in> set (ch_registered_types c))"

definition Channel_outstanding_count :: "Channel \<Rightarrow> nat" where
  "Channel_outstanding_count c = length (filter (\<lambda>e. env_state e \<noteq> MS_Delivered) (ch_tx_ring c))"

definition Channel_is_ready_to_send :: "Channel \<Rightarrow> bool" where
  "Channel_is_ready_to_send c =
    (if \<not> ch_active c then False
     else Channel_outstanding_count c < min (cw_window (ch_window c)) WINDOW_MAX)"

definition Channel_is_drained :: "Channel \<Rightarrow> bool" where
  "Channel_is_drained c = (ch_tx_ring c = [])"

text \<open>\<open>((seq as u32 + 1) % SEQ_MODULUS) as u16\<close>.\<close>

definition next_sequence :: "u16 \<Rightarrow> u16" where
  "next_sequence s = word_of_nat ((unat s + 1) mod SEQ_MODULUS)"

definition Channel_send_tracked_with_max_envelope ::
    "instant \<Rightarrow> message \<Rightarrow> nat option \<Rightarrow> Channel \<Rightarrow> Channel \<times> (ChannelError, u16 \<times> bytes) result" where
  "Channel_send_tracked_with_max_envelope now msg max_size c =
    (if \<not> ch_active c then (c, Err ChannelClosed)
     else if \<not> Channel_is_ready_to_send c then (c, Err NotReady)
     else
       let seq = ch_next_tx_sequence c;
           envelope = Envelope_pack msg seq
       in if (case max_size of Some m \<Rightarrow> length (env_raw envelope) > m | None \<Rightarrow> False)
          then (c, Err (MessageTooLarge (length (env_raw envelope)) (the max_size)))
          else
            let c = c\<lparr>ch_next_tx_sequence := next_sequence seq\<rparr>;
                envelope = envelope\<lparr>env_state := MS_Sent, env_tries := 1, env_last_sent := Some now\<rparr>
            in (c\<lparr>ch_tx_ring := ch_tx_ring c @ [envelope]\<rparr>, Ok (seq, env_raw envelope)))"

definition Channel_send_tracked :: "instant \<Rightarrow> message \<Rightarrow> Channel \<Rightarrow> Channel \<times> (ChannelError, u16 \<times> bytes) result" where
  "Channel_send_tracked now msg c = Channel_send_tracked_with_max_envelope now msg None c"

definition Channel_send :: "instant \<Rightarrow> message \<Rightarrow> Channel \<Rightarrow> Channel \<times> (ChannelError, bytes) result" where
  "Channel_send now msg c =
    (let (c, r) = Channel_send_tracked now msg c
     in (c, case r of Inl e \<Rightarrow> Err e | Inr (_, raw) \<Rightarrow> Ok raw))"

definition Channel_delivered :: "u16 \<Rightarrow> f64 \<Rightarrow> Channel \<Rightarrow> Channel" where
  "Channel_delivered sequence rtt c =
    (let ring = update_first (\<lambda>e. env_sequence e = sequence) (\<lambda>e. e\<lparr>env_state := MS_Delivered\<rparr>) (ch_tx_ring c);
         ring = dropWhile (\<lambda>e. env_state e = MS_Delivered) ring
     in c\<lparr>ch_tx_ring := ring, ch_window := ChannelWindow_grow rtt (ch_window c)\<rparr>)"

definition Channel_timeout :: "instant \<Rightarrow> u16 \<Rightarrow> Channel \<Rightarrow> Channel \<times> (ChannelError, bytes option) result" where
  "Channel_timeout now sequence c =
    (case find (\<lambda>e. env_sequence e = sequence) (ch_tx_ring c) of
       Some env \<Rightarrow>
         let tries = usize_saturating_add (env_tries env) 1;
             upd = (\<lambda>f. update_first (\<lambda>e. env_sequence e = sequence) f (ch_tx_ring c))
         in if tries > MAX_TRIES
            then (c\<lparr>ch_tx_ring := upd (\<lambda>e. e\<lparr>env_tries := tries\<rparr>), ch_active := False\<rparr>, Err MaxRetriesExceeded)
            else (c\<lparr>ch_tx_ring := upd (\<lambda>e. e\<lparr>env_tries := tries, env_last_sent := Some now\<rparr>),
                    ch_window := ChannelWindow_shrink (ch_window c)\<rparr>, Ok (Some (env_raw env)))
     | None \<Rightarrow> (c, Ok None))"

text \<open>Retransmission timers. \<open>timeout_duration\<close> is in nanoseconds.\<close>

definition Channel_compute_timeout :: "Channel \<Rightarrow> nat \<Rightarrow> real" where
  "Channel_compute_timeout c tries =
    (let rtt = ch_current_rtt c;
         backoff = (3 / 2) ^ (min (max tries 1) MAX_TRIES - 1);
         base = max (rtt * (5 / 2)) MIN_TIMEOUT_BASE;
         outstanding = real (min (Channel_outstanding_count c) WINDOW_MAX) + 3 / 2
     in backoff * base * outstanding)"

definition Channel_timeout_duration :: "Channel \<Rightarrow> nat \<Rightarrow> duration" where
  "Channel_timeout_duration c tries =
    (case try_from_secs_f64 (max (Channel_compute_timeout c tries) MIN_TIMEOUT_BASE) of
       Some d \<Rightarrow> d | None \<Rightarrow> secs 1)"

definition Channel_timed_out_sequences :: "instant \<Rightarrow> Channel \<Rightarrow> u16 list" where
  "Channel_timed_out_sequences now c =
     map env_sequence (filter (\<lambda>env. env_state env \<noteq> MS_Delivered
       \<and> (case env_last_sent env of
            Some sent \<Rightarrow> duration_since now sent \<ge> Channel_timeout_duration c (env_tries env)
          | None \<Rightarrow> False)) (ch_tx_ring c))"

definition Channel_next_timeout_duration :: "instant \<Rightarrow> Channel \<Rightarrow> duration option" where
  "Channel_next_timeout_duration now c =
    (let ds = List.map_filter (\<lambda>env. case env_last_sent env of
                 None \<Rightarrow> None
               | Some sent \<Rightarrow> Some (Channel_timeout_duration c (env_tries env) - duration_since now sent))
             (filter (\<lambda>env. env_state env \<noteq> MS_Delivered) (ch_tx_ring c))
     in if ds = [] then None else Some (Min (set ds)))"

definition Channel_update_rtt :: "f64 \<Rightarrow> Channel \<Rightarrow> Channel" where
  "Channel_update_rtt rtt c =
    (case rtt of Fin r \<Rightarrow> if r \<ge> 0 then c\<lparr>ch_current_rtt := min r RTT_MAX\<rparr> else c | _ \<Rightarrow> c)"

definition Channel_shutdown :: "Channel \<Rightarrow> Channel" where
  "Channel_shutdown c = c\<lparr>ch_active := False, ch_tx_ring := [], ch_rx_ring := [], ch_message_handlers := []\<rparr>"

definition Channel_channel_mdu :: "nat \<Rightarrow> nat" where
  "Channel_channel_mdu link_mdu = min (link_mdu - ENVELOPE_HEADER_SIZE) 0xFFFF"

subsection \<open>Reception\<close>

definition is_acceptable_sequence :: "u16 \<Rightarrow> u16 \<Rightarrow> bool" where
  "is_acceptable_sequence next_rx seq =
    (if seq \<ge> next_rx then unat seq \<le> unat next_rx + WINDOW_MAX
     else let window_overflow = word_of_nat ((unat next_rx + WINDOW_MAX) mod SEQ_MODULUS) :: u16
          in window_overflow < next_rx \<and> seq \<le> window_overflow)"

definition sequence_diff :: "u16 \<Rightarrow> u16 \<Rightarrow> nat" where
  "sequence_diff next_rx seq =
    (if seq \<ge> next_rx then unat (seq - next_rx) else SEQ_MODULUS - unat next_rx + unat seq)"

definition emplace_envelope :: "u16 \<Rightarrow> Envelope \<Rightarrow> Envelope list \<Rightarrow> Envelope list" where
  "emplace_envelope next_rx envelope ring =
    (if \<exists>e\<in>set ring. env_sequence e = env_sequence envelope then ring
     else case position (\<lambda>e. sequence_diff next_rx (env_sequence envelope) < sequence_diff next_rx (env_sequence e)) ring of
       Some idx \<Rightarrow> take idx ring @ envelope # drop idx ring
     | None \<Rightarrow> ring @ [envelope])"

text \<open>
  The delivery loop of \<open>receive\<close>: what is left in the ring, the next expected sequence, the messages
  delivered and the handlers called for each.
\<close>

function deliver_loop :: "(HandlerId \<times> MessageCallback) list \<Rightarrow> u16 \<Rightarrow> Envelope list \<Rightarrow>
    u16 \<times> Envelope list \<times> (u16 \<times> bytes) list \<times> HandlerId list list" where
  "deliver_loop handlers next_rx ring =
    (case position (\<lambda>e. env_sequence e = next_rx) ring of
       Some idx \<Rightarrow>
         let env = ring ! idx;
             payload = Envelope_payload env;
             called = fst (run_handlers handlers (env_msg_type env) payload);
             (n, r, ds, cs) = deliver_loop handlers (next_sequence next_rx) (take idx ring @ drop (Suc idx) ring)
         in (n, r, (env_msg_type env, payload) # ds, called # cs)
     | None \<Rightarrow> (next_rx, ring, [], []))"
  by pat_completeness auto
termination
proof (relation "measure (\<lambda>(handlers, next_rx, ring). length ring)", goal_cases)
  case (2 handlers next_rx ring idx)
  then show ?case by (auto dest!: position_Some_less)
qed simp

declare deliver_loop.simps [simp del]

definition Channel_receive :: "bytes \<Rightarrow> Channel \<Rightarrow> Channel \<times> (ChannelError, (u16 \<times> bytes) list) result" where
  "Channel_receive raw c =
    (if \<not> ch_active c then (c, Err ChannelClosed)
     else case Envelope_unpack raw of
       None \<Rightarrow> (c, Err InvalidEnvelope)
     | Some envelope \<Rightarrow>
         if \<not> Channel_is_type_registered c (env_msg_type envelope)
         then (c, Err (UnknownMessageType (env_msg_type envelope)))
         else if \<not> is_acceptable_sequence (ch_next_rx_sequence c) (env_sequence envelope) then (c, Ok [])
         else
           let ring = emplace_envelope (ch_next_rx_sequence c) envelope (ch_rx_ring c);
               (n, r, delivered, called) = deliver_loop (ch_message_handlers c) (ch_next_rx_sequence c) ring
           in (c\<lparr>ch_next_rx_sequence := n, ch_rx_ring := r\<rparr>, Ok delivered))"

subsection \<open>Sequence numbers\<close>

lemma sequence_diff_eq: "sequence_diff next_rx seq = unat (seq - next_rx)"
  by (auto simp: sequence_diff_def SEQ_MODULUS_def u16_diff)
    (use unat_u16_less [of next_rx] in linarith)

lemma is_acceptable_iff: "is_acceptable_sequence next_rx seq \<longleftrightarrow> unat (seq - next_rx) \<le> 48"
proof -
  let ?n = "unat next_rx" and ?s = "unat seq"
  have b: "?n < 65536" "?s < 65536" by simp_all
  define ov where "ov = (word_of_nat ((?n + 48) mod 65536) :: u16)"
  have m: "(?n + 48) mod 65536 = (if ?n + 48 < 65536 then ?n + 48 else ?n + 48 - 65536)"
  proof (cases "?n + 48 < 65536")
    case False
    have "?n + 48 - 65536 < 65536" using b(1) by linarith
    then show ?thesis using False by (simp add: le_mod_geq del: unat_u16_less)
  qed simp
  have u: "unat ov = (if ?n + 48 < 65536 then ?n + 48 else ?n + 48 - 65536)"
    unfolding ov_def m [symmetric] by (simp add: unat_of_nat take_bit_nat_eq_self)
  have "is_acceptable_sequence next_rx seq \<longleftrightarrow>
      (if ?n \<le> ?s then ?s \<le> ?n + 48 else unat ov < ?n \<and> ?s \<le> unat ov)"
    by (simp add: is_acceptable_sequence_def Let_def SEQ_MODULUS_def window_constants ov_def [symmetric]
        word_le_nat_alt word_less_nat_alt)
  then show ?thesis
    using b by (auto simp: u16_diff word_le_nat_alt u)
qed

lemma unat_index_diff:
  assumes "k < n + 65536" and "n \<le> k + 65535"
  shows "unat (of_nat k - of_nat n :: u16) = (if n \<le> k then k - n else k + 65536 - n)"
proof (cases "n \<le> k")
  case True
  then have "of_nat k - of_nat n = (of_nat (k - n) :: u16)" by simp
  with True assms(1) show ?thesis by (simp add: unat_of_nat take_bit_nat_eq_self del: of_nat_diff)
next
  case False
  have "of_nat (k + 65536 - n) = (of_nat (k + 65536) - of_nat n :: u16)"
    using assms(2) by (intro of_nat_diff) simp
  also have "\<dots> = of_nat k - of_nat n" by simp
  finally have "of_nat k - of_nat n = (of_nat (k + 65536 - n) :: u16)" by simp
  with False assms show ?thesis by (simp add: unat_of_nat take_bit_nat_eq_self del: of_nat_diff)
qed

lemma next_sequence_of_nat: "next_sequence (of_nat n) = of_nat (Suc n)"
proof -
  have "unat (next_sequence (of_nat n)) = unat (of_nat (Suc n) :: u16)"
    by (simp add: next_sequence_def SEQ_MODULUS_def unat_of_nat take_bit_eq_mod mod_Suc_eq del: of_nat_Suc)
  then show ?thesis by (rule unsigned_word_eqI)
qed

subsection \<open>The reliable stream the receiver implements\<close>

definition frame_of :: "(nat \<Rightarrow> message) \<Rightarrow> nat \<Rightarrow> bytes" where
  "frame_of M k = env_raw (Envelope_pack (M k) (of_nat k))"

definition env_of :: "(nat \<Rightarrow> message) \<Rightarrow> nat \<Rightarrow> Envelope" where
  "env_of M k = Envelope_pack (M k) (of_nat k)"

lemma Envelope_unpack_pack: "Envelope_unpack (env_raw (Envelope_pack m s)) = Some (Envelope_pack m s)"
  by (simp add: Envelope_unpack_def Envelope_pack_def Let_def ENVELOPE_HEADER_SIZE_def u16_to_be_def)

lemma Envelope_payload_pack: "Envelope_payload (Envelope_pack m s) = msg_pack m"
  by (simp add: Envelope_payload_def Envelope_pack_def Let_def ENVELOPE_HEADER_SIZE_def u16_to_be_def)

lemma env_of_fields [simp]:
  "env_sequence (env_of M k) = of_nat k" "env_msg_type (env_of M k) = msg_type (M k)"
  "Envelope_payload (env_of M k) = msg_pack (M k)"
  by (simp_all add: env_of_def Envelope_payload_pack) (simp_all add: Envelope_pack_def Let_def)

lemma index_seq_eq:
  assumes "k < n + 65536" and "n \<le> k + 65535"
  shows "(of_nat k :: u16) = of_nat n \<longleftrightarrow> k = n"
  using unat_index_diff [OF assms] assms by (auto split: if_splits)

lemma insort_position:
  assumes "sorted xs" and "k \<notin> set xs"
  shows "(case position (\<lambda>x. k < x) xs of Some i \<Rightarrow> take i xs @ k # drop i xs | None \<Rightarrow> xs @ [k]) = insort k xs"
  using assms
proof (induction xs)
  case Nil
  then show ?case by simp
next
  case (Cons x xs)
  show ?case
  proof (cases "k < x")
    case True
    then show ?thesis by auto
  next
    case False
    with Cons show ?thesis by (auto split: option.splits)
  qed
qed

text \<open>Buffered indices of a receiver that has delivered \<open>n\<close> messages.\<close>

definition in_window :: "nat \<Rightarrow> nat set \<Rightarrow> bool" where
  "in_window n B \<longleftrightarrow> (\<forall>k\<in>B. n \<le> k \<and> k \<le> n + 48)"

lemma in_window_finite: "in_window n B \<Longrightarrow> finite B"
  by (rule finite_subset [of _ "{n..n + 48}"]) (auto simp: in_window_def)

lemma emplace_insert:
  assumes "in_window n B" and "n \<le> k" and "k \<le> n + 48"
  shows "emplace_envelope (of_nat n) (env_of M k) (map (env_of M) (sorted_list_of_set B)) =
    map (env_of M) (sorted_list_of_set (insert k B))"
proof -
  have fin: "finite B" using assms(1) by (rule in_window_finite)
  have eq: "(of_nat j :: u16) = of_nat k \<longleftrightarrow> j = k" if "j \<in> B" for j
    using that assms index_seq_eq [of j k] by (auto simp: in_window_def)
  have diff: "unat (of_nat j - of_nat n :: u16) = j - n" if "n \<le> j" "j \<le> n + 48" for j
    using that unat_index_diff [of j n] by simp
  show ?thesis
  proof (cases "k \<in> B")
    case True
    with fin show ?thesis by (auto simp: emplace_envelope_def insert_absorb)
  next
    case False
    have "position (\<lambda>e. sequence_diff (of_nat n) (env_sequence (env_of M k)) < sequence_diff (of_nat n) (env_sequence e))
        (map (env_of M) (sorted_list_of_set B)) = position (\<lambda>j. k < j) (sorted_list_of_set B)"
      unfolding position_map
      using assms fin diff [OF assms(2,3)]
      by (intro position_cong) (auto simp: sequence_diff_eq in_window_def diff)
    moreover have "\<not> (\<exists>e\<in>set (map (env_of M) (sorted_list_of_set B)). env_sequence e = env_sequence (env_of M k))"
      using False fin eq by auto
    moreover have "sorted_list_of_set (insert k B) = insort k (sorted_list_of_set B)"
      using False fin by simp
    moreover have "insort k (sorted_list_of_set B) = (case position (\<lambda>x. k < x) (sorted_list_of_set B) of
        Some i \<Rightarrow> take i (sorted_list_of_set B) @ k # drop i (sorted_list_of_set B)
      | None \<Rightarrow> sorted_list_of_set B @ [k])"
      using False fin insort_position [of "sorted_list_of_set B" k] by simp
    ultimately show ?thesis
      unfolding emplace_envelope_def by (simp only: if_False) (simp add: take_map drop_map split: option.splits)
  qed
qed

lemma deliver_loop_gap:
  assumes "in_window n B"
  shows "\<exists>g. n \<le> g \<and> g \<notin> B \<and> {n..<g} \<subseteq> B \<and> (\<exists>cs. deliver_loop hs (of_nat n) (map (env_of M) (sorted_list_of_set B)) =
    (of_nat g, map (env_of M) (sorted_list_of_set (B - {n..<g})), map (\<lambda>k. (msg_type (M k), msg_pack (M k))) [n..<g], cs))"
  using assms
proof (induction "card B" arbitrary: n B rule: less_induct)
  case less
  have fin: "finite B" using less.prems by (rule in_window_finite)
  have pos: "position (\<lambda>e. env_sequence e = of_nat n) (map (env_of M) (sorted_list_of_set B)) =
      position (\<lambda>k. k = n) (sorted_list_of_set B)"
    unfolding position_map using less.prems fin index_seq_eq [of _ n]
    by (intro position_cong) (auto simp: in_window_def)
  show ?case
  proof (cases "n \<in> B")
    case False
    then have "position (\<lambda>k. k = n) (sorted_list_of_set B) = None"
      using fin by (auto simp: position_None_iff)
    with False pos show ?thesis
      by (intro exI [of _ n]) (simp add: deliver_loop.simps)
  next
    case True
    have Mn: "Min B = n"
      using True fin less.prems by (intro Min_eqI) (auto simp: in_window_def)
    have sl: "sorted_list_of_set B = n # sorted_list_of_set (B - {n})"
      using True fin less.prems
      by (subst sorted_list_of_set_nonempty) (auto simp: Mn)
    have w: "in_window (Suc n) (B - {n})" using less.prems by (auto simp: in_window_def)
    have "card (B - {n}) < card B" using True fin by (simp only: card_Diff1_less)
    from less.hyps [OF this w] obtain g cs where g: "Suc n \<le> g" "g \<notin> B - {n}" "{Suc n..<g} \<subseteq> B - {n}"
      "deliver_loop hs (of_nat (Suc n)) (map (env_of M) (sorted_list_of_set (B - {n}))) =
        (of_nat g, map (env_of M) (sorted_list_of_set (B - {n} - {Suc n..<g})),
         map (\<lambda>k. (msg_type (M k), msg_pack (M k))) [Suc n..<g], cs)" by blast
    have sets: "B - {n} - {Suc n..<g} = B - {n..<g}" using g(1) by auto
    have "deliver_loop hs (of_nat n) (map (env_of M) (sorted_list_of_set B)) =
        (of_nat g, map (env_of M) (sorted_list_of_set (B - {n..<g})),
         map (\<lambda>k. (msg_type (M k), msg_pack (M k))) [n..<g], fst (run_handlers hs (msg_type (M n)) (msg_pack (M n))) # cs)"
      using g(1,4) unfolding sl
      by (subst deliver_loop.simps) (simp add: next_sequence_of_nat sets upt_conv_Cons Let_def del: of_nat_Suc)
    moreover have "g \<notin> B" using g(1,2) by auto
    moreover have eq: "{n..<g} = insert n {Suc n..<g}" using g(1) by auto
    have "{n..<g} \<subseteq> B" using g(3) True unfolding eq by auto
    ultimately show ?thesis using g(1) by (intro exI [of _ g] conjI) (rule Suc_leD, assumption+, blast)
  qed
qed

text \<open>The receiver has delivered the first \<open>n\<close> messages of the stream and buffers those with index in \<open>B\<close>.\<close>

definition rx_rel :: "(nat \<Rightarrow> message) \<Rightarrow> u16 list \<Rightarrow> Channel \<Rightarrow> nat \<Rightarrow> nat set \<Rightarrow> bool" where
  "rx_rel M T c n B \<longleftrightarrow> ch_active c \<and> ch_registered_types c = T
     \<and> ch_next_rx_sequence c = of_nat n \<and> in_window n B \<and> n \<notin> B
     \<and> ch_rx_ring c = map (env_of M) (sorted_list_of_set B)"

lemma receive_step:
  assumes "rx_rel M T c n B" and "k < n + 65536" and "n \<le> k + 65487" and "msg_type (M k) \<in> set T"
  shows "\<exists>c' g B'. Channel_receive (frame_of M k) c = (c', Ok (map (\<lambda>j. (msg_type (M j), msg_pack (M j))) [n..<g]))
    \<and> rx_rel M T c' g B' \<and> n \<le> g
    \<and> (if n \<le> k \<and> k \<le> n + 48 then g \<notin> insert k B \<and> {n..<g} \<subseteq> insert k B \<and> B' = insert k B - {n..<g}
       else g = n \<and> B' = B)"
proof -
  have un: "Envelope_unpack (frame_of M k) = Some (env_of M k)"
    by (simp add: frame_of_def env_of_def Envelope_unpack_pack)
  have diff: "unat (of_nat k - of_nat n :: u16) = (if n \<le> k then k - n else k + 65536 - n)"
    using assms(2,3) by (intro unat_index_diff) auto
  have acc: "is_acceptable_sequence (ch_next_rx_sequence c) (env_sequence (env_of M k)) \<longleftrightarrow> n \<le> k \<and> k \<le> n + 48"
    using assms diff by (auto simp: rx_rel_def is_acceptable_iff)
  show ?thesis
  proof (cases "n \<le> k \<and> k \<le> n + 48")
    case False
    with assms(1,4) un acc show ?thesis
      by (intro exI [of _ c] exI [of _ n] exI [of _ B])
        (auto simp: Channel_receive_def rx_rel_def Channel_is_type_registered_def)
  next
    case True
    have w: "in_window n (insert k B)" using assms(1) True by (auto simp: rx_rel_def in_window_def)
    have em: "emplace_envelope (ch_next_rx_sequence c) (env_of M k) (ch_rx_ring c) =
        map (env_of M) (sorted_list_of_set (insert k B))"
      using assms(1) True emplace_insert [of n B k M] by (simp add: rx_rel_def)
    obtain g cs where g: "n \<le> g" "g \<notin> insert k B" "{n..<g} \<subseteq> insert k B"
        "deliver_loop (ch_message_handlers c) (of_nat n) (map (env_of M) (sorted_list_of_set (insert k B))) =
         (of_nat g, map (env_of M) (sorted_list_of_set (insert k B - {n..<g})),
          map (\<lambda>k. (msg_type (M k), msg_pack (M k))) [n..<g], cs)"
      using deliver_loop_gap [OF w, of "ch_message_handlers c" M] by blast
    have nx: "ch_next_rx_sequence c = of_nat n" using assms(1) by (simp add: rx_rel_def)
    have "Channel_receive (frame_of M k) c =
        (c\<lparr>ch_next_rx_sequence := of_nat g, ch_rx_ring := map (env_of M) (sorted_list_of_set (insert k B - {n..<g}))\<rparr>,
         Ok (map (\<lambda>j. (msg_type (M j), msg_pack (M j))) [n..<g]))"
      using assms(1,4) un acc True em g(4) nx
      by (simp add: Channel_receive_def rx_rel_def Channel_is_type_registered_def)
    moreover have "in_window g (insert k B - {n..<g})"
      using w g(1) by (force simp: in_window_def)
    ultimately show ?thesis
      using assms(1) True g by (intro exI conjI) (auto simp: rx_rel_def)
  qed
qed

fun receive_all :: "bytes list \<Rightarrow> Channel \<Rightarrow> Channel \<times> (ChannelError, (u16 \<times> bytes) list) result list" where
  "receive_all [] c = (c, [])"
| "receive_all (f # fs) c =
    (let (c, r) = Channel_receive f c; (c, rs) = receive_all fs c in (c, r # rs))"

lemma receive_all_snoc:
  "receive_all (fs @ [f]) c =
    (let (c, rs) = receive_all fs c; (c, r) = Channel_receive f c in (c, rs @ [r]))"
  by (induction fs arbitrary: c) (auto split: prod.splits)

text \<open>The first index of the stream that has not arrived.\<close>

definition first_missing :: "nat list \<Rightarrow> nat" where
  "first_missing ks = length (takeWhile (\<lambda>m. m \<in> set ks) [0..<Suc (length ks)])"

lemma first_missing_eqI:
  assumes "m \<notin> set ks" and "{0..<m} \<subseteq> set ks"
  shows "first_missing ks = m"
proof -
  have "card {0..<m} \<le> card (set ks)" using assms(2) by (intro card_mono) auto
  then have "m \<le> length ks" using card_length [of ks] by simp
  then have "[0..<Suc (length ks)] = [0..<m] @ m # [Suc m..<Suc (length ks)]"
    using upt_split [of 0 m "Suc (length ks)"] upt_conv_Cons [of m "Suc (length ks)"] by simp
  then show ?thesis
    using assms unfolding first_missing_def by (simp add: takeWhile_append subset_iff)
qed

text \<open>Frames arrive at most 48 ahead of the first missing one, and duplicates at most 65487 behind it.\<close>

definition arrivals_in_window :: "nat list \<Rightarrow> bool" where
  "arrivals_in_window ks \<longleftrightarrow> (\<forall>i<length ks.
     ks ! i \<le> first_missing (take i ks) + 48 \<and> first_missing (take i ks) \<le> ks ! i + 65487)"

lemma arrivals_snoc:
  "arrivals_in_window (ks @ [k]) \<longleftrightarrow>
     arrivals_in_window ks \<and> k \<le> first_missing ks + 48 \<and> first_missing ks \<le> k + 65487"
  unfolding arrivals_in_window_def by (auto simp: nth_append less_Suc_eq)

lemma gap_extend:
  fixes n k g :: nat
  assumes "{0..<n} \<subseteq> A" and "k \<le> n + 48" and "n \<notin> {j \<in> A. n \<le> j}" and "n \<le> g"
    and "if n \<le> k \<and> k \<le> n + 48 then g \<notin> insert k {j \<in> A. n \<le> j} \<and> {n..<g} \<subseteq> insert k {j \<in> A. n \<le> j} \<and> Q
       else g = n \<and> R"
  shows "g \<notin> insert k A \<and> {0..<g} \<subseteq> insert k A"
proof (cases "n \<le> k")
  case True
  with assms(2,4,5) have h: "g \<noteq> k" "g \<notin> A" "{n..<g} \<subseteq> insert k A" by auto
  have "{0..<g} = {0..<n} \<union> {n..<g}" using assms(4) by auto
  with h assms(1,4) show ?thesis by (simp add: subset_insertI2)
next
  case False
  with assms(1,3,5) show ?thesis by (simp add: subset_insertI2)
qed

lemma receive_all_stream:
  assumes "rx_rel M T c 0 {}" and "arrivals_in_window ks" and "\<forall>k\<in>set ks. msg_type (M k) \<in> set T"
  shows "\<exists>c' ds. receive_all (map (frame_of M) ks) c = (c', map Ok ds)
    \<and> rx_rel M T c' (first_missing ks) {k \<in> set ks. first_missing ks \<le> k}
    \<and> {0..<first_missing ks} \<subseteq> set ks
    \<and> concat ds = map (\<lambda>j. (msg_type (M j), msg_pack (M j))) [0..<first_missing ks]"
  using assms(2,3)
proof (induction ks rule: rev_induct)
  case Nil
  have "first_missing [] = 0" by (rule first_missing_eqI) auto
  with assms(1) show ?case by simp
next
  case (snoc k ks)
  let ?n = "first_missing ks" and ?B = "{k \<in> set ks. first_missing ks \<le> k}"
  have win: "arrivals_in_window ks" "k \<le> ?n + 48" "?n \<le> k + 65487"
    using snoc.prems(1) by (simp_all add: arrivals_snoc)
  have ty: "\<forall>k\<in>set ks. msg_type (M k) \<in> set T" "msg_type (M k) \<in> set T" using snoc.prems(2) by simp_all
  from snoc.IH [OF win(1) ty(1)] obtain c1 ds where c1: "receive_all (map (frame_of M) ks) c = (c1, map Ok ds)"
      "rx_rel M T c1 ?n ?B" "{0..<?n} \<subseteq> set ks"
      "concat ds = map (\<lambda>j. (msg_type (M j), msg_pack (M j))) [0..<?n]"
    by blast
  obtain c2 g B' where step: "Channel_receive (frame_of M k) c1 =
        (c2, Ok (map (\<lambda>j. (msg_type (M j), msg_pack (M j))) [?n..<g]))" "rx_rel M T c2 g B'" "?n \<le> g"
      "if ?n \<le> k \<and> k \<le> ?n + 48 then g \<notin> insert k ?B \<and> {?n..<g} \<subseteq> insert k ?B \<and> B' = insert k ?B - {?n..<g}
       else g = ?n \<and> B' = ?B"
    using receive_step [OF c1(2) _ _ ty(2)] win(2,3) by auto
  have nB: "?n \<notin> ?B" using c1(2) by (simp add: rx_rel_def)
  have g: "g \<notin> set (ks @ [k])" "{0..<g} \<subseteq> set (ks @ [k])"
    using gap_extend [OF c1(3) win(2) nB step(3,4)] by auto
  then have fm: "first_missing (ks @ [k]) = g" by (rule first_missing_eqI)
  have B': "B' = {j \<in> set (ks @ [k]). g \<le> j}"
    using step(3,4) win(2) by (auto split: if_splits)
  have "concat (ds @ [map (\<lambda>j. (msg_type (M j), msg_pack (M j))) [?n..<g]]) =
      map (\<lambda>j. (msg_type (M j), msg_pack (M j))) [0..<g]"
    using c1(4) step(3) by (simp add: upt_split [of 0 ?n g])
  moreover have "receive_all (map (frame_of M) (ks @ [k])) c =
      (c2, map Ok (ds @ [map (\<lambda>j. (msg_type (M j), msg_pack (M j))) [?n..<g]]))"
    using c1(1) step(1) by (simp add: receive_all_snoc)
  ultimately show ?case
    using step(2) B' g(2) unfolding fm by blast
qed

subsection \<open>Invariants of a channel\<close>

definition window_ok :: "ChannelWindow \<Rightarrow> bool" where
  "window_ok w \<longleftrightarrow> 1 \<le> cw_window w \<and> cw_window w \<le> cw_window_max w \<and> cw_window_max w \<le> WINDOW_MAX
     \<and> 1 \<le> cw_window_min w \<and> cw_window_min w \<le> cw_window_max w"

definition tx_ok :: "Channel \<Rightarrow> bool" where
  "tx_ok c \<longleftrightarrow> Channel_outstanding_count c \<le> WINDOW_MAX
     \<and> (\<forall>e\<in>set (ch_tx_ring c). env_state e \<in> {MS_Sent, MS_Delivered} \<and> env_last_sent e \<noteq> None
          \<and> 1 \<le> env_tries e \<and> (ch_active c \<longrightarrow> env_tries e \<le> MAX_TRIES))"

definition rx_ok :: "u16 \<Rightarrow> Envelope list \<Rightarrow> bool" where
  "rx_ok next_rx ring \<longleftrightarrow> distinct (map env_sequence ring)
     \<and> (\<forall>e\<in>set ring. is_acceptable_sequence next_rx (env_sequence e) \<and> env_sequence e \<noteq> next_rx)"

definition channel_ok :: "Channel \<Rightarrow> bool" where
  "channel_ok c \<longleftrightarrow> window_ok (ch_window c) \<and> tx_ok c \<and> rx_ok (ch_next_rx_sequence c) (ch_rx_ring c)"

lemma window_ok_new: "window_ok (ChannelWindow_new rtt)"
  by (simp add: window_ok_def ChannelWindow_new_def window_constants)

lemma clamp_id: "window_ok w \<Longrightarrow> cw_window_flexibility w \<le> WINDOW_MAX \<Longrightarrow> ChannelWindow_clamp w = w"
  by (simp add: window_ok_def ChannelWindow_clamp_def)

lemma window_ok_clamp: "window_ok w \<Longrightarrow> window_ok (ChannelWindow_clamp w)"
  by (auto simp: window_ok_def ChannelWindow_clamp_def min_def window_constants)

lemma window_ok_promote: "window_ok w \<Longrightarrow> window_ok (ChannelWindow_promote rtt w)"
  by (auto simp: window_ok_def ChannelWindow_promote_def Let_def window_constants)

lemma window_ok_grow: "window_ok w \<Longrightarrow> window_ok (ChannelWindow_grow rtt w)"
  using window_ok_clamp [of w]
  by (auto simp: ChannelWindow_grow_def Let_def split: f64.splits intro!: window_ok_promote)
    (auto simp: window_ok_def)

lemma window_ok_shrink: "window_ok w \<Longrightarrow> window_ok (ChannelWindow_shrink w)"
  using window_ok_clamp [of w]
  by (auto simp: ChannelWindow_shrink_def Let_def window_ok_def)

lemma set_update_first: "x \<in> set (update_first P f xs) \<Longrightarrow> x \<in> set xs \<or> (\<exists>y\<in>set xs. x = f y)"
  by (induction xs) (auto split: if_splits)

lemma length_filter_update_first:
  assumes "\<And>x. Q (f x) \<Longrightarrow> Q x"
  shows "length (filter Q (update_first P f xs)) \<le> length (filter Q xs)"
  using assms by (induction xs) auto

lemma length_filter_dropWhile: "length (filter Q (dropWhile P xs)) \<le> length (filter Q xs)"
  by (induction xs) auto

lemma tx_ok_new: "tx_ok (Channel_new rtt)"
  by (simp add: tx_ok_def Channel_new_def Let_def Channel_outstanding_count_def)

lemma tx_ok_send:
  assumes "tx_ok c"
  shows "tx_ok (fst (Channel_send_tracked_with_max_envelope now msg mx c))"
  using assms
  by (auto simp: Channel_send_tracked_with_max_envelope_def Let_def tx_ok_def Channel_is_ready_to_send_def
      Channel_outstanding_count_def MAX_TRIES_def split: option.splits)

lemma tx_ok_delivered:
  assumes "tx_ok c"
  shows "tx_ok (Channel_delivered s rtt c)"
proof -
  let ?u = "update_first (\<lambda>e. env_sequence e = s) (\<lambda>e. e\<lparr>env_state := MS_Delivered\<rparr>) (ch_tx_ring c)"
  have "Channel_outstanding_count (Channel_delivered s rtt c) \<le> Channel_outstanding_count c"
    unfolding Channel_outstanding_count_def
    using length_filter_dropWhile [of "\<lambda>e. env_state e \<noteq> MS_Delivered" "\<lambda>e. env_state e = MS_Delivered" ?u]
      length_filter_update_first [of "\<lambda>e. env_state e \<noteq> MS_Delivered" "\<lambda>e. e\<lparr>env_state := MS_Delivered\<rparr>"
        "\<lambda>e. env_sequence e = s" "ch_tx_ring c"]
    by (simp add: Channel_delivered_def Let_def)
  then show ?thesis
    using assms by (fastforce simp: tx_ok_def Channel_delivered_def Let_def
        dest!: set_dropWhileD set_update_first)
qed

lemma tx_ok_timeout:
  assumes "tx_ok c"
  shows "tx_ok (fst (Channel_timeout now s c))"
proof (cases "find (\<lambda>e. env_sequence e = s) (ch_tx_ring c)")
  case None
  with assms show ?thesis by (simp add: Channel_timeout_def)
next
  case (Some env)
  then have "env \<in> set (ch_tx_ring c)" by (auto simp: find_Some_iff)
  then show ?thesis
    using assms Some
    by (auto simp: tx_ok_def Channel_timeout_def Let_def Channel_outstanding_count_def usize_saturating_add_def
        intro: order.trans [OF length_filter_update_first] dest!: set_update_first)
qed

lemma rx_ok_length:
  assumes "rx_ok next_rx ring"
  shows "length ring \<le> WINDOW_MAX"
proof -
  let ?f = "\<lambda>e. unat (env_sequence e - next_rx)"
  have "inj_on ?f (set ring)"
    using assms by (fastforce simp: rx_ok_def inj_on_def distinct_map dest: unsigned_word_eqI)
  then have "card (set ring) = card (?f ` set ring)" by (simp add: card_image)
  also have "?f ` set ring \<subseteq> {1..48}"
    using assms by (auto simp: rx_ok_def is_acceptable_iff Suc_le_eq unat_gt_0)
  then have "card (?f ` set ring) \<le> 48" using card_mono [of "{1..48::nat}"] by fastforce
  finally have "card (set ring) \<le> 48" .
  moreover have "distinct ring" using assms by (auto simp: rx_ok_def distinct_map)
  ultimately show ?thesis by (simp add: distinct_card window_constants)
qed

lemma emplace_set:
  "set (emplace_envelope n e ring) \<subseteq> insert e (set ring)"
  by (auto simp: emplace_envelope_def split: option.splits dest: in_set_takeD in_set_dropD)

lemma emplace_distinct:
  assumes "distinct (map env_sequence ring)"
  shows "distinct (map env_sequence (emplace_envelope n e ring))"
proof -
  have "distinct (map env_sequence (take i ring @ e # drop i ring))"
    if "\<forall>x\<in>set ring. env_sequence x \<noteq> env_sequence e" for i
  proof -
    have "distinct (map env_sequence (take i ring @ drop i ring))" using assms by simp
    with that show ?thesis
      by (auto dest: in_set_takeD in_set_dropD simp del: append_take_drop_id simp: image_iff)
  qed
  then show ?thesis
    using assms by (auto simp: emplace_envelope_def split: option.splits)
qed

lemma next_sequence_eq: "next_sequence s = s + 1"
  using next_sequence_of_nat [of "unat s"] by simp

lemma acceptable_advance:
  assumes "is_acceptable_sequence n s" and "s \<noteq> n"
  shows "is_acceptable_sequence (n + 1) s"
proof -
  have "s - n \<noteq> 0" using assms(2) by simp
  then have "unat (s - (n + 1)) = unat (s - n) - 1"
    by (metis diff_diff_add unat_minus_one)
  with assms(1) show ?thesis by (simp add: is_acceptable_iff)
qed

lemma rx_ok_deliver:
  assumes "distinct (map env_sequence ring)"
    and "\<forall>e\<in>set ring. is_acceptable_sequence n (env_sequence e)"
    and "deliver_loop hs n ring = (n', ring', ds, cs)"
  shows "rx_ok n' ring'"
  using assms
proof (induction hs n ring arbitrary: n' ring' ds cs rule: deliver_loop.induct)
  case (1 hs n ring)
  show ?case
  proof (cases "position (\<lambda>e. env_sequence e = n) ring")
    case None
    with 1 show ?thesis
      by (auto simp: rx_ok_def position_None_iff deliver_loop.simps [of hs n ring])
  next
    case (Some i)
    let ?r = "take i ring @ drop (Suc i) ring"
    obtain ds' cs' where rec: "deliver_loop hs (next_sequence n) ?r = (n', ring', ds', cs')"
      using Some 1(4) by (auto simp: deliver_loop.simps [of hs n ring] Let_def split: prod.splits)
    have sp: "ring = take i ring @ ring ! i # drop (Suc i) ring" "env_sequence (ring ! i) = n"
      using position_Some_split [OF Some] by auto
    have "distinct (map env_sequence (take i ring @ ring ! i # drop (Suc i) ring))"
      using 1(2) sp(1) by simp
    then have d: "distinct (map env_sequence ?r)" "\<forall>e\<in>set ?r. env_sequence e \<noteq> n"
      using sp(2) by (auto simp: image_iff)
    have "\<forall>e\<in>set ?r. is_acceptable_sequence n (env_sequence e)"
      using 1(3) by (auto dest: in_set_takeD in_set_dropD)
    with d(2) have "\<forall>e\<in>set ?r. is_acceptable_sequence (next_sequence n) (env_sequence e)"
      by (simp add: next_sequence_eq acceptable_advance)
    from 1(1) [OF Some refl refl refl d(1) this rec] show ?thesis .
  qed
qed

lemma rx_ok_receive:
  assumes "rx_ok (ch_next_rx_sequence c) (ch_rx_ring c)" and "Channel_receive raw c = (c', r)"
  shows "rx_ok (ch_next_rx_sequence c') (ch_rx_ring c')"
proof (cases "ch_next_rx_sequence c' = ch_next_rx_sequence c \<and> ch_rx_ring c' = ch_rx_ring c")
  case True
  with assms(1) show ?thesis by simp
next
  case False
  then obtain e ds cs where "is_acceptable_sequence (ch_next_rx_sequence c) (env_sequence e)"
    "deliver_loop (ch_message_handlers c) (ch_next_rx_sequence c)
      (emplace_envelope (ch_next_rx_sequence c) e (ch_rx_ring c)) = (ch_next_rx_sequence c', ch_rx_ring c', ds, cs)"
    using assms(2) by (auto simp: Channel_receive_def Let_def split: if_splits option.splits prod.splits)
  then show ?thesis
    using assms(1) emplace_set [of "ch_next_rx_sequence c" e "ch_rx_ring c"]
    by (intro rx_ok_deliver [of "emplace_envelope (ch_next_rx_sequence c) e (ch_rx_ring c)"])
      (auto simp: rx_ok_def emplace_distinct)
qed


text \<open>A use of a channel: any sequence of its operations, with whatever arguments the owner or the peer supply.\<close>

inductive channel_step :: "Channel \<Rightarrow> Channel \<Rightarrow> bool" where
  send: "channel_step c (fst (Channel_send_tracked_with_max_envelope now msg mx c))"
| ack: "channel_step c (Channel_delivered s rtt c)"
| timeout: "channel_step c (fst (Channel_timeout now s c))"
| receive: "channel_step c (fst (Channel_receive raw c))"
| update_rtt: "channel_step c (Channel_update_rtt rtt c)"
| register: "Channel_register_message_type t c = Ok c' \<Longrightarrow> channel_step c c'"
| register_system: "channel_step c (Channel_register_system_type t c)"
| add_handler: "channel_step c (fst (Channel_add_message_handler h c))"
| remove_handler: "channel_step c (fst (Channel_remove_message_handler i c))"
| clear_handlers: "channel_step c (Channel_clear_message_handlers c)"
| shutdown: "channel_step c (Channel_shutdown c)"

inductive_cases channel_stepE: "channel_step c c'"

lemma tx_ok_cong:
  "ch_tx_ring c' = ch_tx_ring c \<Longrightarrow> ch_active c' = ch_active c \<Longrightarrow> tx_ok c' = tx_ok c"
  by (simp add: tx_ok_def Channel_outstanding_count_def)

lemma receive_frame:
  "Channel_receive raw c = (c', r) \<Longrightarrow>
     ch_tx_ring c' = ch_tx_ring c \<and> ch_active c' = ch_active c \<and> ch_window c' = ch_window c"
  by (auto simp: Channel_receive_def Let_def split: if_splits option.splits prod.splits)

lemma channel_ok_frame:
  assumes "channel_ok c" and "ch_tx_ring c' = ch_tx_ring c" and "ch_active c' = ch_active c"
    and "ch_window c' = ch_window c" and "ch_rx_ring c' = ch_rx_ring c"
    and "ch_next_rx_sequence c' = ch_next_rx_sequence c"
  shows "channel_ok c'"
  using assms tx_ok_cong [of c' c] by (simp add: channel_ok_def)

lemma tx_ops_frame:
  "ch_rx_ring (fst (Channel_send_tracked_with_max_envelope now msg mx c)) = ch_rx_ring c"
  "ch_next_rx_sequence (fst (Channel_send_tracked_with_max_envelope now msg mx c)) = ch_next_rx_sequence c"
  "ch_window (fst (Channel_send_tracked_with_max_envelope now msg mx c)) = ch_window c"
  "ch_rx_ring (Channel_delivered s rtt c) = ch_rx_ring c"
  "ch_next_rx_sequence (Channel_delivered s rtt c) = ch_next_rx_sequence c"
  "ch_window (Channel_delivered s rtt c) = ChannelWindow_grow rtt (ch_window c)"
  "ch_rx_ring (fst (Channel_timeout now s c)) = ch_rx_ring c"
  "ch_next_rx_sequence (fst (Channel_timeout now s c)) = ch_next_rx_sequence c"
  "ch_window (fst (Channel_timeout now s c)) \<in> {ch_window c, ChannelWindow_shrink (ch_window c)}"
  by (auto simp: Channel_send_tracked_with_max_envelope_def Channel_delivered_def Channel_timeout_def Let_def
      split: option.splits)

lemma misc_frame [simp]:
  "ch_tx_ring (Channel_update_rtt rtt c) = ch_tx_ring c" "ch_active (Channel_update_rtt rtt c) = ch_active c"
  "ch_window (Channel_update_rtt rtt c) = ch_window c" "ch_rx_ring (Channel_update_rtt rtt c) = ch_rx_ring c"
  "ch_next_rx_sequence (Channel_update_rtt rtt c) = ch_next_rx_sequence c"
  by (cases rtt; simp add: Channel_update_rtt_def)+

lemma register_frame:
  "Channel_register_message_type t c = Ok c' \<Longrightarrow> \<exists>ts. c' = c\<lparr>ch_registered_types := ts\<rparr>"
  "\<exists>ts. Channel_register_system_type t c = c\<lparr>ch_registered_types := ts\<rparr>"
  by (auto simp: Channel_register_message_type_def Channel_register_system_type_def split: if_splits
      intro: exI [of _ "ch_registered_types c"])

lemma handlers_frame:
  "\<exists>hs i. fst (Channel_add_message_handler h c) = c\<lparr>ch_next_handler_id := i, ch_message_handlers := hs\<rparr>"
  "\<exists>hs. fst (Channel_remove_message_handler i c) = c\<lparr>ch_message_handlers := hs\<rparr>"
  by (auto simp: Channel_add_message_handler_def Channel_remove_message_handler_def Let_def
      split: option.splits intro: exI [of _ "ch_message_handlers c"])

lemma channel_ok_irrelevant [simp]:
  "channel_ok (c\<lparr>ch_registered_types := ts\<rparr>) = channel_ok c"
  "channel_ok (c\<lparr>ch_message_handlers := hs\<rparr>) = channel_ok c"
  "channel_ok (c\<lparr>ch_next_handler_id := i\<rparr>) = channel_ok c"
  by (simp_all add: channel_ok_def tx_ok_def Channel_outstanding_count_def)

lemma channel_step_ok: "channel_step c c' \<Longrightarrow> channel_ok c \<Longrightarrow> channel_ok c'"
proof (induction rule: channel_step.induct)
  case (send c now msg mx)
  then show ?case by (simp add: channel_ok_def tx_ok_send tx_ops_frame)
next
  case (ack c s rtt)
  then show ?case by (simp add: channel_ok_def tx_ok_delivered tx_ops_frame window_ok_grow)
next
  case (timeout c now s)
  then show ?case
    using tx_ops_frame(9) [of now s c] by (auto simp: channel_ok_def tx_ok_timeout tx_ops_frame window_ok_shrink)
next
  case (receive c raw)
  obtain c' r where r: "Channel_receive raw c = (c', r)" by fastforce
  with receive receive_frame [OF r] rx_ok_receive [OF _ r] tx_ok_cong [of c' c] show ?case
    by (simp add: channel_ok_def)
next
  case (shutdown c)
  then show ?case
    by (simp add: channel_ok_def Channel_shutdown_def tx_ok_def rx_ok_def Channel_outstanding_count_def)
next
  case (update_rtt c rtt)
  then show ?case by (rule channel_ok_frame) simp_all
next
  case (register t c c')
  then show ?case using register_frame(1) [of t c c'] by auto
next
  case (register_system c t)
  then show ?case using register_frame(2) [of t c] by auto
next
  case (add_handler c h)
  then show ?case using handlers_frame(1) [of h c] by auto
next
  case (remove_handler c i)
  then show ?case using handlers_frame(2) [of i c] by auto
next
  case (clear_handlers c)
  then show ?case by (simp add: Channel_clear_message_handlers_def)
qed

lemma channel_ok_new: "channel_ok (Channel_new rtt)"
  using tx_ok_new [of rtt] window_ok_new
  by (simp add: channel_ok_def Channel_new_def Let_def rx_ok_def)

text \<open>
  C29: bounded buffers, whatever the peer does. Starting from a new channel and under any sequence of
  operations, the flow-control window stays between 1 and 48 and below its ceiling, at most 48 envelopes
  are unacknowledged, the reorder buffer holds at most 48 envelopes, all with distinct sequence numbers
  that the receive window still accepts, and while the channel is active no envelope has been tried more
  than five times.
\<close>

theorem channel_bounded:
  assumes "channel_step\<^sup>*\<^sup>* (Channel_new rtt) c"
  shows "1 \<le> cw_window (ch_window c) \<and> cw_window (ch_window c) \<le> cw_window_max (ch_window c)
    \<and> cw_window_max (ch_window c) \<le> 48 \<and> Channel_outstanding_count c \<le> 48
    \<and> length (ch_rx_ring c) \<le> 48 \<and> distinct (map env_sequence (ch_rx_ring c))
    \<and> list_all (\<lambda>e. is_acceptable_sequence (ch_next_rx_sequence c) (env_sequence e)) (ch_rx_ring c)
    \<and> list_all (\<lambda>e. env_tries e \<le> 5) (if ch_active c then ch_tx_ring c else [])"
proof -
  from assms have "channel_ok c"
    by (induction rule: rtranclp_induct) (auto intro: channel_step_ok channel_ok_new)
  then show ?thesis
    using rx_ok_length [of "ch_next_rx_sequence c" "ch_rx_ring c"]
    by (auto simp: channel_ok_def window_ok_def tx_ok_def rx_ok_def window_constants MAX_TRIES_def list_all_iff)
qed

theorem channel_bounded_witness:
  "let m = \<lparr>msg_type = 5, msg_pack = [1, 2]\<rparr>;
       c = fst (Channel_send_tracked_with_max_envelope 0 m None (Channel_new (Fin 1)))
   in length (ch_tx_ring c) = 1 \<and> 1 \<le> cw_window (ch_window c) \<and> Channel_outstanding_count c \<le> 48"
proof -
  let ?m = "\<lparr>msg_type = 5, msg_pack = [1, 2]\<rparr>"
  let ?c = "fst (Channel_send_tracked_with_max_envelope 0 ?m None (Channel_new (Fin 1)))"
  have "channel_step\<^sup>*\<^sup>* (Channel_new (Fin 1)) ?c" by (intro r_into_rtranclp channel_step.send)
  from channel_bounded [OF this] have "1 \<le> cw_window (ch_window ?c)" "Channel_outstanding_count ?c \<le> 48" by simp_all
  moreover have "length (ch_tx_ring ?c) = 1"
    by (simp add: Channel_send_tracked_with_max_envelope_def Channel_new_def Let_def Channel_is_ready_to_send_def
        Channel_outstanding_count_def ChannelWindow_new_def window_constants RTT_SLOW_def RTT_MAX_def)
  ultimately show ?thesis by (simp add: Let_def)
qed

subsection \<open>Sender and receiver together\<close>

text \<open>
  \<open>sender_run ms fs c\<close>: a channel that started fresh has accepted the messages \<open>ms\<close> in this order and
  emitted the frames \<open>fs\<close>, retransmissions included, and is now \<open>c\<close>.
\<close>

inductive sender_run :: "message list \<Rightarrow> bytes list \<Rightarrow> Channel \<Rightarrow> bool" where
  fresh: "sender_run [] [] (Channel_new rtt)"
| accept: "sender_run ms fs c \<Longrightarrow> Channel_send_tracked_with_max_envelope now m mx c = (c', Ok (s, raw)) \<Longrightarrow>
    sender_run (ms @ [m]) (fs @ [raw]) c'"
| refuse: "sender_run ms fs c \<Longrightarrow> Channel_send_tracked_with_max_envelope now m mx c = (c', Err e) \<Longrightarrow>
    sender_run ms fs c'"
| retransmit: "sender_run ms fs c \<Longrightarrow> Channel_timeout now s c = (c', Ok (Some raw)) \<Longrightarrow>
    sender_run ms (fs @ [raw]) c'"
| expire: "sender_run ms fs c \<Longrightarrow> Channel_timeout now s c = (c', Err e) \<Longrightarrow> sender_run ms fs c'"
| proved: "sender_run ms fs c \<Longrightarrow> sender_run ms fs (Channel_delivered s rtt c)"

definition emitted_ok :: "message list \<Rightarrow> bytes \<Rightarrow> bool" where
  "emitted_ok ms f \<longleftrightarrow> (\<exists>k<length ms. f = frame_of ((!) ms) k)"

lemma frame_of_snoc: "k < length ms \<Longrightarrow> frame_of ((!) (ms @ [m])) k = frame_of ((!) ms) k"
  by (simp add: frame_of_def nth_append)

lemma emitted_ok_snoc: "emitted_ok ms f \<Longrightarrow> emitted_ok (ms @ [m]) f"
  by (auto simp: emitted_ok_def frame_of_snoc intro: less_SucI)

lemma emitted_ok_new: "emitted_ok (ms @ [m]) (env_raw (Envelope_pack m (of_nat (length ms))))"
  by (auto simp: emitted_ok_def frame_of_def intro!: exI [of _ "length ms"])

lemma send_Ok:
  assumes "Channel_send_tracked_with_max_envelope now m mx c = (c', Ok (s, raw))"
  shows "raw = env_raw (Envelope_pack m (ch_next_tx_sequence c)) \<and> s = ch_next_tx_sequence c
    \<and> ch_next_tx_sequence c' = next_sequence s
    \<and> env_raw ` set (ch_tx_ring c') = insert raw (env_raw ` set (ch_tx_ring c))"
  using assms
  by (auto simp: Channel_send_tracked_with_max_envelope_def Let_def split: if_splits option.splits)

lemma send_Err:
  "Channel_send_tracked_with_max_envelope now m mx c = (c', Err e) \<Longrightarrow> c' = c"
  by (auto simp: Channel_send_tracked_with_max_envelope_def Let_def split: if_splits option.splits)

lemma raw_update_first:
  "(\<And>e. env_raw (f e) = env_raw e) \<Longrightarrow> env_raw ` set (update_first P f xs) = env_raw ` set xs"
  by (induction xs) auto

lemma timeout_raws:
  assumes "Channel_timeout now s c = (c', r)"
  shows "env_raw ` set (ch_tx_ring c') = env_raw ` set (ch_tx_ring c)
    \<and> ch_next_tx_sequence c' = ch_next_tx_sequence c
    \<and> (\<forall>raw. r = Ok (Some raw) \<longrightarrow> raw \<in> env_raw ` set (ch_tx_ring c))"
proof (cases "find (\<lambda>e. env_sequence e = s) (ch_tx_ring c)")
  case None
  with assms show ?thesis by (auto simp: Channel_timeout_def)
next
  case (Some env)
  then have "env \<in> set (ch_tx_ring c)" by (auto simp: find_Some_iff)
  moreover have "(c', r) = Channel_timeout now s c" using assms by simp
  ultimately show ?thesis
    by (cases "usize_saturating_add (env_tries env) 1 > MAX_TRIES")
      (simp_all add: Some Channel_timeout_def Let_def raw_update_first)
qed

lemma delivered_raws:
  "env_raw ` set (ch_tx_ring (Channel_delivered s rtt c)) \<subseteq> env_raw ` set (ch_tx_ring c)
    \<and> ch_next_tx_sequence (Channel_delivered s rtt c) = ch_next_tx_sequence c"
proof -
  have "env_raw ` set (dropWhile P (update_first Q (\<lambda>e. e\<lparr>env_state := MS_Delivered\<rparr>) xs)) \<subseteq> env_raw ` set xs"
    for P Q and xs :: "Envelope list"
    using raw_update_first [of "\<lambda>e. e\<lparr>env_state := MS_Delivered\<rparr>" Q xs] by (auto dest!: set_dropWhileD)
  then show ?thesis by (simp add: Channel_delivered_def Let_def)
qed

lemma sender_run_emits:
  "sender_run ms fs c \<Longrightarrow> ch_next_tx_sequence c = of_nat (length ms)
    \<and> (\<forall>f\<in>set fs. emitted_ok ms f) \<and> (\<forall>f\<in>env_raw ` set (ch_tx_ring c). emitted_ok ms f)"
proof (induction rule: sender_run.induct)
  case (fresh rtt)
  show ?case by (simp add: Channel_new_def Let_def)
next
  case (accept ms fs c now m mx c' s raw)
  from send_Ok [OF accept(2)] accept.IH show ?case
    using emitted_ok_new [of ms m] emitted_ok_snoc [of ms _ m]
    by (simp add: next_sequence_of_nat del: of_nat_Suc)
next
  case (retransmit ms fs c now s c' raw)
  from timeout_raws [OF retransmit(2)] retransmit.IH show ?case by auto
next
  case (proved ms fs c s rtt)
  from delivered_raws [of s rtt c] proved.IH show ?case by auto
next
  case (expire ms fs c now s c' e)
  from timeout_raws [OF expire(2)] expire.IH show ?case by auto
qed (auto dest: send_Err)

lemma rx_rel_fresh:
  "ch_active c \<Longrightarrow> ch_registered_types c = T \<Longrightarrow> ch_next_rx_sequence c = 0 \<Longrightarrow> ch_rx_ring c = [] \<Longrightarrow> rx_rel M T c 0 {}"
  by (simp add: rx_rel_def in_window_def)

lemma channel_delivers:
  assumes "ch_active c" and "ch_next_rx_sequence c = 0" and "ch_rx_ring c = []"
    and "msg_type ` set ms \<subseteq> set (ch_registered_types c)"
    and "\<forall>k\<in>set ks. k < length ms" and "arrivals_in_window ks"
  shows "first_missing ks \<le> length ms \<and> (\<exists>c' ds. receive_all (map (frame_of ((!) ms)) ks) c = (c', map Ok ds)
      \<and> concat ds = map (\<lambda>m. (msg_type m, msg_pack m)) (take (first_missing ks) ms))"
proof -
  have ty: "\<forall>k\<in>set ks. msg_type (ms ! k) \<in> set (ch_registered_types c)" using assms(4,5) by auto
  have rel: "rx_rel ((!) ms) (ch_registered_types c) c 0 {}" using assms(1-3) by (simp add: rx_rel_fresh)
  obtain c' ds where r: "receive_all (map (frame_of ((!) ms)) ks) c = (c', map Ok ds)"
    "{0..<first_missing ks} \<subseteq> set ks"
    "concat ds = map (\<lambda>j. (msg_type (ms ! j), msg_pack (ms ! j))) [0..<first_missing ks]"
    using receive_all_stream [OF rel assms(6) ty] by blast
  have le: "first_missing ks \<le> length ms"
  proof (rule ccontr)
    assume "\<not> ?thesis"
    then have "length ms \<in> {0..<first_missing ks}" by simp
    with r(2) assms(5) show False by blast
  qed
  then have "map (\<lambda>j. (msg_type (ms ! j), msg_pack (ms ! j))) [0..<first_missing ks] =
      map (\<lambda>m. (msg_type m, msg_pack m)) (take (first_missing ks) ms)"
    by (intro nth_equalityI) auto
  with r(1,3) le show ?thesis by auto
qed

text \<open>
  C1: reliable ordered delivery. Every frame a sender emits, retransmissions included, is the frame of one of
  the messages it accepted, by its position. Let such frames arrive with losses, duplicates and reordering in any
  way, but none more than 48 positions ahead of the first message still missing and none more than 65487
  behind it: a fresh receiver with the message types registered reports no error and hands over exactly
  the longest prefix of the sender's messages that has arrived, in order and each once, across any number of
  wrap-arounds of the 16-bit sequence number.
\<close>

theorem channel_reliable_in_order:
  assumes "sender_run ms fs sender"
    and "ch_active c" and "ch_next_rx_sequence c = 0" and "ch_rx_ring c = []"
    and "msg_type ` set ms \<subseteq> set (ch_registered_types c)"
    and "\<forall>k\<in>set ks. k < length ms" and "arrivals_in_window ks"
  shows "set fs \<subseteq> frame_of ((!) ms) ` {..<length ms}
    \<and> (\<exists>c' ds. receive_all (map (frame_of ((!) ms)) ks) c = (c', map Ok ds)
         \<and> concat ds = map (\<lambda>m. (msg_type m, msg_pack m)) (take (first_missing ks) ms))"
  using sender_run_emits [OF assms(1)] channel_delivers [OF assms(2-7)] by (auto simp: emitted_ok_def)

definition example_messages :: "message list" where
  "example_messages = [\<lparr>msg_type = 5, msg_pack = [1, 2]\<rparr>, \<lparr>msg_type = 6, msg_pack = []\<rparr>]"

definition example_receiver :: Channel where
  "example_receiver = Channel_register_system_type 6 (Channel_register_system_type 5 (Channel_new (Fin 1)))"

lemma example_sender: "\<exists>fs c. sender_run example_messages fs c"
proof -
  let ?c0 = "Channel_new (Fin 1)"
  let ?s = "\<lambda>m c. Channel_send_tracked_with_max_envelope 0 m None c"
  let ?c1 = "fst (?s (example_messages ! 0) ?c0)"
  have ok: "\<exists>c' raw. ?s (example_messages ! 0) ?c0 = (c', Ok (0, raw))"
    "\<exists>c' raw. ?s (example_messages ! 1) ?c1 = (c', Ok (1, raw))"
    by (simp_all add: Channel_send_tracked_with_max_envelope_def Channel_new_def Let_def
        Channel_is_ready_to_send_def Channel_outstanding_count_def ChannelWindow_new_def window_constants
        RTT_SLOW_def RTT_MAX_def next_sequence_eq)
  obtain c1 raw0 where s0: "?s (example_messages ! 0) ?c0 = (c1, Ok (0, raw0))" using ok(1) by blast
  obtain c2 raw1 where s1: "?s (example_messages ! 1) c1 = (c2, Ok (1, raw1))" using ok(2) s0 by auto
  from sender_run.accept [OF sender_run.accept [OF sender_run.fresh s0] s1] show ?thesis
    by (auto simp: example_messages_def)
qed

theorem channel_reliable_in_order_witness:
  "\<exists>c' ds. receive_all (map (frame_of ((!) example_messages)) [1, 0, 0, 1]) example_receiver = (c', map Ok ds)
     \<and> concat ds = [(5, [1, 2]), (6, [])]"
proof -
  have win: "arrivals_in_window [1, 0, 0, 1]"
  proof -
    have "first_missing [] = 0" "first_missing [1] = 0" "first_missing [1, 0] = 2" "first_missing [1, 0, 0] = 2"
      by (rule first_missing_eqI; auto)+
    then show ?thesis
      using arrivals_snoc [of "[]" 1] arrivals_snoc [of "[1]" 0] arrivals_snoc [of "[1, 0]" 0] arrivals_snoc [of "[1, 0, 0]" 1]
      by (simp add: arrivals_in_window_def [of "[]"])
  qed
  have fm: "first_missing [1, 0, 0, 1] = 2" by (rule first_missing_eqI) auto
  obtain fs c where run: "sender_run example_messages fs c" using example_sender by blast
  have rcv: "ch_active example_receiver" "ch_next_rx_sequence example_receiver = 0" "ch_rx_ring example_receiver = []"
    "msg_type ` set example_messages \<subseteq> set (ch_registered_types example_receiver)"
    by (simp_all add: example_receiver_def example_messages_def Channel_register_system_type_def Channel_new_def Let_def)
  have lt: "\<forall>k\<in>set [1, 0, 0, 1]. k < length example_messages" by (simp add: example_messages_def)
  have tk: "map (\<lambda>m. (msg_type m, msg_pack m)) (take 2 example_messages) = [(5, [1, 2]), (6, [])]"
    by (simp add: example_messages_def)
  from channel_reliable_in_order [OF run rcv lt win] show ?thesis
    unfolding fm tk by blast
qed

subsection \<open>Giving up\<close>

fun timeouts :: "instant list \<Rightarrow> u16 \<Rightarrow> Channel \<Rightarrow> Channel \<times> (ChannelError, bytes option) result list" where
  "timeouts [] s c = (c, [])"
| "timeouts (t # ts) s c =
    (let (c, r) = Channel_timeout t s c; (c, rs) = timeouts ts s c in (c, r # rs))"

lemma find_update_first:
  assumes "find P xs = Some x" and "P (f x)"
  shows "find P (update_first P f xs) = Some (f x)"
  using assms by (induction xs) (auto split: if_splits)

lemma timeout_retry:
  assumes "find (\<lambda>e. env_sequence e = s) (ch_tx_ring c) = Some e" and "env_tries e < 5"
  shows "\<exists>c'. Channel_timeout now s c = (c', Ok (Some (env_raw e)))
    \<and> find (\<lambda>e. env_sequence e = s) (ch_tx_ring c') =
        Some (e\<lparr>env_tries := env_tries e + 1, env_last_sent := Some now\<rparr>)"
proof -
  have "env_sequence e = s" using assms(1) by (auto simp: find_Some_iff)
  with assms show ?thesis
    by (simp add: Channel_timeout_def Let_def usize_saturating_add_def MAX_TRIES_def find_update_first)
qed

lemma timeout_exhausted:
  assumes "find (\<lambda>e. env_sequence e = s) (ch_tx_ring c) = Some e" and "env_tries e = 5"
  shows "\<exists>c'. Channel_timeout now s c = (c', Err MaxRetriesExceeded) \<and> \<not> ch_active c'"
  using assms by (simp add: Channel_timeout_def Let_def usize_saturating_add_def MAX_TRIES_def)

lemma timeouts_exhaust:
  assumes "find (\<lambda>e. env_sequence e = s) (ch_tx_ring c) = Some e" and "env_tries e + length ts = 5"
  shows "\<exists>c'. timeouts (ts @ [t]) s c = (c', replicate (length ts) (Ok (Some (env_raw e))) @ [Err MaxRetriesExceeded])
    \<and> \<not> ch_active c'"
  using assms
proof (induction ts arbitrary: c e)
  case Nil
  then show ?case using timeout_exhausted [of s c e t] by auto
next
  case (Cons t' ts)
  obtain c' where c': "Channel_timeout t' s c = (c', Ok (Some (env_raw e)))"
    "find (\<lambda>e. env_sequence e = s) (ch_tx_ring c') = Some (e\<lparr>env_tries := env_tries e + 1, env_last_sent := Some t'\<rparr>)"
    using timeout_retry [OF Cons.prems(1), of t'] Cons.prems(2) by auto
  from Cons.IH [OF c'(2)] Cons.prems(2) c'(1) show ?case by auto
qed

lemma closed_refuses:
  "\<not> ch_active c \<Longrightarrow> Channel_send now msg c = (c, Err ChannelClosed)"
  "\<not> ch_active c \<Longrightarrow> Channel_receive raw c = (c, Err ChannelClosed)"
  by (simp_all add: Channel_send_def Channel_send_tracked_def Channel_send_tracked_with_max_envelope_def
      Channel_receive_def)

text \<open>
  C30: bounded retries. An envelope that has been sent once and never acknowledged is handed out for
  retransmission, with the same bytes, on its first four timeouts; the fifth reports that the retries are exhausted
  and deactivates the channel, which from then on refuses to send and to receive.
\<close>

theorem channel_gives_up:
  assumes "find (\<lambda>e. env_sequence e = s) (ch_tx_ring c) = Some e" and "env_tries e = 1" and "length ts = 4"
  shows "\<exists>c'. timeouts (ts @ [t]) s c = (c', replicate 4 (Ok (Some (env_raw e))) @ [Err MaxRetriesExceeded])
    \<and> Channel_send now msg c' = (c', Err ChannelClosed) \<and> Channel_receive raw c' = (c', Err ChannelClosed)"
  using timeouts_exhaust [OF assms(1), of ts t] assms(2,3) closed_refuses by force

theorem channel_gives_up_witness:
  "snd (timeouts ([1, 2, 3, 4] @ [5]) 0 (fst (Channel_send 0 (example_messages ! 0) (Channel_new (Fin 1))))) =
      replicate 4 (Ok (Some [0, 5, 0, 0, 0, 2, 1, 2])) @ [Err MaxRetriesExceeded]"
proof -
  let ?c = "fst (Channel_send 0 (example_messages ! 0) (Channel_new (Fin 1)))"
  let ?e = "\<lparr>env_msg_type = 5, env_sequence = 0, env_raw = [0, 5, 0, 0, 0, 2, 1, 2], env_packed = True,
     env_tries = 1, env_state = MS_Sent, env_last_sent = Some 0\<rparr>"
  have f: "find (\<lambda>e. env_sequence e = 0) (ch_tx_ring ?c) = Some ?e"
    by (simp add: Channel_send_def Channel_send_tracked_def Channel_send_tracked_with_max_envelope_def
        Channel_new_def Let_def Channel_is_ready_to_send_def Channel_outstanding_count_def ChannelWindow_new_def
        window_constants RTT_SLOW_def RTT_MAX_def example_messages_def Envelope_pack_def u16_to_be_def)
  have "env_tries ?e = 1" "length [1, 2, 3, 4 :: nat] = 4" by simp_all
  from channel_gives_up [OF f this, of 5] obtain c' where
    "timeouts ([1, 2, 3, 4] @ [5]) 0 ?c = (c', replicate 4 (Ok (Some (env_raw ?e))) @ [Err MaxRetriesExceeded])" by blast
  then show ?thesis by (simp del: timeouts.simps append.simps)
qed

end
