(* ===== verification/Link_Handshake.thy ===== *)
theory Link_Handshake
  imports Link_Signalling Ifac
begin

text \<open>
  Keys and handshake messages of a link: \<open>key_derivation.rs\<close>, \<open>encryption.rs\<close>, \<open>handshake.rs\<close> and
  \<open>constants.rs\<close> under \<open>src/crates/rns-link/src\<close>, with the X25519 and Ed25519 wrappers of
  \<open>src/crates/rns-crypto/src\<close>. The crates x25519-dalek and ed25519-dalek are the fields of a
  \<open>curve_lib\<close>; what the code relies on of them is \<open>curve_lib_ok\<close>. Private keys are their 32 bytes; fresh
  randomness is an argument.
\<close>

subsection \<open>Curve libraries and their wrappers\<close>

record curve_lib =
  x_public :: "bytes \<Rightarrow> bytes"
  x_diffie_hellman :: "bytes \<Rightarrow> bytes \<Rightarrow> bytes"
  ed_verifying_key :: "bytes \<Rightarrow> bytes"
  ed_sign :: "bytes \<Rightarrow> bytes \<Rightarrow> bytes"
  ed_decode :: "bytes \<Rightarrow> bool"
  ed_verify :: "bytes \<Rightarrow> bytes \<Rightarrow> bytes \<Rightarrow> bool"

datatype Ed25519Error = VerificationFailed | InvalidPublicKey | Ed_InvalidSignature

definition X25519PrivateKey_exchange :: "curve_lib \<Rightarrow> bytes \<Rightarrow> bytes \<Rightarrow> bytes" where
  "X25519PrivateKey_exchange cl prv peer = x_diffie_hellman cl prv peer"

definition Ed25519PublicKey_from_bytes :: "curve_lib \<Rightarrow> bytes \<Rightarrow> (Ed25519Error, bytes) result" where
  "Ed25519PublicKey_from_bytes cl bytes = (if ed_decode cl bytes then Ok bytes else Err InvalidPublicKey)"

definition Ed25519PublicKey_verify :: "curve_lib \<Rightarrow> bytes \<Rightarrow> bytes \<Rightarrow> bytes \<Rightarrow> (Ed25519Error, unit) result" where
  "Ed25519PublicKey_verify cl key msg signature =
    (if ed_verify cl key msg signature then Ok () else Err VerificationFailed)"

definition curve_lib_ok :: "curve_lib \<Rightarrow> bool" where
  "curve_lib_ok cl \<longleftrightarrow>
     (\<forall>a. length (x_public cl a) = 32)
     \<and> (\<forall>a b. x_diffie_hellman cl a (x_public cl b) = x_diffie_hellman cl b (x_public cl a))
     \<and> (\<forall>s. length (ed_verifying_key cl s) = 32 \<and> ed_decode cl (ed_verifying_key cl s))
     \<and> (\<forall>s m. length (ed_sign cl s m) = 64 \<and> ed_verify cl (ed_verifying_key cl s) m (ed_sign cl s m))"

subsection \<open>Session keys\<close>

definition ECPUBSIZE :: nat where "ECPUBSIZE = 64"
definition LINK_MTU_SIZE :: nat where "LINK_MTU_SIZE = 3"
definition MODE_AES128_CBC :: u8 where "MODE_AES128_CBC = 0"
definition MODE_AES256_CBC :: u8 where "MODE_AES256_CBC = 1"
definition ENABLED_MODES :: "u8 list" where "ENABLED_MODES = [MODE_AES256_CBC]"
definition DEFAULT_MODE :: u8 where "DEFAULT_MODE = MODE_AES256_CBC"
definition AES256_DERIVED_KEY_LENGTH :: nat where "AES256_DERIVED_KEY_LENGTH = 64"
definition AES128_DERIVED_KEY_LENGTH :: nat where "AES128_DERIVED_KEY_LENGTH = 32"

lemmas handshake_constants = ECPUBSIZE_def LINK_MTU_SIZE_def MODE_AES128_CBC_def MODE_AES256_CBC_def
  ENABLED_MODES_def DEFAULT_MODE_def AES256_DERIVED_KEY_LENGTH_def AES128_DERIVED_KEY_LENGTH_def

record LinkKeys =
  lk_signing_key :: bytes
  lk_encryption_key :: bytes

datatype LinkKeyError = LKE_UnsupportedMode u8 | LKE_HkdfFailed

definition LinkKeys_derive ::
    "crypto_lib \<Rightarrow> curve_lib \<Rightarrow> bytes \<Rightarrow> bytes \<Rightarrow> bytes \<Rightarrow> u8 \<Rightarrow> (LinkKeyError, LinkKeys) result" where
  "LinkKeys_derive lib cl my_prv peer_pub link_id mode =
    and_then
      (if mode = MODE_AES128_CBC then Ok AES128_DERIVED_KEY_LENGTH
       else if mode = MODE_AES256_CBC then Ok AES256_DERIVED_KEY_LENGTH
       else Err (LKE_UnsupportedMode mode)) (\<lambda>derived_key_length.
        let shared_key = X25519PrivateKey_exchange cl my_prv peer_pub in
        and_then (map_err (\<lambda>_. LKE_HkdfFailed)
                   (hkdf_sha256 lib derived_key_length shared_key (Some link_id) None)) (\<lambda>derived.
          let half = derived_key_length div 2
          in Ok \<lparr>lk_signing_key = take half derived, lk_encryption_key = drop half derived\<rparr>))"

datatype LinkCryptoError = LCE_EncryptionFailed | LCE_DecryptionFailed

definition link_encrypt :: "crypto_lib \<Rightarrow> bytes \<Rightarrow> LinkKeys \<Rightarrow> bytes \<Rightarrow> (LinkCryptoError, bytes) result" where
  "link_encrypt lib iv keys plaintext =
    (let combined_key = lk_signing_key keys @ lk_encryption_key keys
     in map_err (\<lambda>_. LCE_EncryptionFailed) (token_encrypt lib iv plaintext combined_key))"

definition link_decrypt :: "crypto_lib \<Rightarrow> LinkKeys \<Rightarrow> bytes \<Rightarrow> (LinkCryptoError, bytes) result" where
  "link_decrypt lib keys ciphertext =
    (let combined_key = lk_signing_key keys @ lk_encryption_key keys
     in map_err (\<lambda>_. LCE_DecryptionFailed) (token_decrypt lib ciphertext combined_key))"

subsection \<open>Handshake messages\<close>

record EphemeralKeys =
  ek_x25519_prv :: bytes
  ek_x25519_pub :: bytes
  ek_ed25519_prv :: bytes
  ek_ed25519_pub :: bytes

definition EphemeralKeys_generate :: "curve_lib \<Rightarrow> bytes \<Rightarrow> bytes \<Rightarrow> EphemeralKeys" where
  "EphemeralKeys_generate cl x25519_seed ed25519_seed =
     \<lparr>ek_x25519_prv = x25519_seed, ek_x25519_pub = x_public cl x25519_seed,
      ek_ed25519_prv = ed25519_seed, ek_ed25519_pub = ed_verifying_key cl ed25519_seed\<rparr>"

datatype HandshakeError =
    HSE_Signalling LinkSignallingError
  | HSE_TooShort
  | HSE_InvalidLength nat
  | HSE_InvalidSignature
  | HSE_KeyDerivation LinkKeyError
  | HSE_UnsupportedMode u8

record LinkRequestData =
  lr_peer_x25519_pub :: bytes
  lr_peer_ed25519_pub :: bytes
  lr_signalling :: SignallingData

definition LinkRequestData_pack :: "EphemeralKeys \<Rightarrow> SignallingData \<Rightarrow> bytes" where
  "LinkRequestData_pack keys signalling =
     ek_x25519_pub keys @ ek_ed25519_pub keys @ SignallingData_pack signalling"

definition default_signalling :: SignallingData where
  "default_signalling = SignallingData_new DEFAULT_MODE (word_of_nat MTU)"

definition LinkRequestData_unpack :: "bytes \<Rightarrow> (HandshakeError, LinkRequestData) result" where
  "LinkRequestData_unpack data =
    (if length data < ECPUBSIZE then Err HSE_TooShort
     else if length data \<noteq> ECPUBSIZE \<and> length data \<noteq> ECPUBSIZE + LINK_MTU_SIZE
       then Err (HSE_InvalidLength (length data))
     else and_then (map_err HSE_Signalling (parse_request_signalling data)) (\<lambda>_.
       let signalling =
             (if length data = ECPUBSIZE + LINK_MTU_SIZE
              then (case SignallingData_unpack (subslice ECPUBSIZE (ECPUBSIZE + LINK_MTU_SIZE) data) of
                      Some s \<Rightarrow> s | None \<Rightarrow> default_signalling)
              else default_signalling)
       in Ok \<lparr>lr_peer_x25519_pub = subslice 0 32 data, lr_peer_ed25519_pub = subslice 32 64 data,
              lr_signalling = signalling\<rparr>))"

definition compute_link_id :: "crypto_lib \<Rightarrow> bytes \<Rightarrow> bytes \<Rightarrow> bytes" where
  "compute_link_id lib destination_hash request_data =
    (let flags_low_nibble = 2; context = 0;
         data_len = min (length request_data) ECPUBSIZE;
         hashable = [flags_low_nibble] @ destination_hash @ [context] @ take data_len request_data
     in truncated_hash lib hashable)"

record LinkProofData =
  lp_signature :: bytes
  lp_responder_x25519_pub :: bytes
  lp_signalling :: SignallingData

definition LinkProofData_create_with ::
    "(bytes \<Rightarrow> bytes) \<Rightarrow> bytes \<Rightarrow> bytes \<Rightarrow> bytes \<Rightarrow> SignallingData \<Rightarrow> LinkProofData" where
  "LinkProofData_create_with sign_fn responder_x25519_pub identity_ed25519_pub link_id signalling =
    (let sig_bytes = SignallingData_pack signalling;
         signed_data = link_id @ responder_x25519_pub @ identity_ed25519_pub @ sig_bytes
     in \<lparr>lp_signature = sign_fn signed_data, lp_responder_x25519_pub = responder_x25519_pub,
         lp_signalling = signalling\<rparr>)"

definition LinkProofData_create ::
    "curve_lib \<Rightarrow> bytes \<Rightarrow> bytes \<Rightarrow> bytes \<Rightarrow> bytes \<Rightarrow> SignallingData \<Rightarrow> LinkProofData" where
  "LinkProofData_create cl identity_signing_key responder_x25519_pub identity_ed25519_pub link_id signalling =
    (let sig_bytes = SignallingData_pack signalling;
         signed_data = link_id @ responder_x25519_pub @ identity_ed25519_pub @ sig_bytes
     in \<lparr>lp_signature = ed_sign cl identity_signing_key signed_data,
         lp_responder_x25519_pub = responder_x25519_pub, lp_signalling = signalling\<rparr>)"

definition LinkProofData_pack :: "LinkProofData \<Rightarrow> bytes" where
  "LinkProofData_pack p = lp_signature p @ lp_responder_x25519_pub p @ SignallingData_pack (lp_signalling p)"

definition LinkProofData_unpack :: "bytes \<Rightarrow> (HandshakeError, LinkProofData) result" where
  "LinkProofData_unpack data =
    (if length data < 96 then Err HSE_TooShort
     else if length data \<noteq> 96 \<and> length data \<noteq> 96 + LINK_MTU_SIZE then Err (HSE_InvalidLength (length data))
     else and_then (map_err HSE_Signalling (parse_proof_signalling data)) (\<lambda>_.
       let signalling =
             (if length data = 96 + LINK_MTU_SIZE
              then (case SignallingData_unpack (subslice 96 (96 + LINK_MTU_SIZE) data) of
                      Some s \<Rightarrow> s | None \<Rightarrow> default_signalling)
              else default_signalling)
       in Ok \<lparr>lp_signature = subslice 0 64 data, lp_responder_x25519_pub = subslice 64 96 data,
              lp_signalling = signalling\<rparr>))"

definition LinkProofData_validate :: "curve_lib \<Rightarrow> bytes \<Rightarrow> bytes \<Rightarrow> bytes \<Rightarrow> LinkProofData \<Rightarrow> bool" where
  "LinkProofData_validate cl identity_verify_key link_id peer_ed25519_pub p =
    (let sig_bytes = SignallingData_pack (lp_signalling p);
         signed_data = link_id @ lp_responder_x25519_pub p @ peer_ed25519_pub @ sig_bytes
     in Ed25519PublicKey_verify cl identity_verify_key signed_data (lp_signature p) = Ok ())"

definition perform_handshake ::
    "crypto_lib \<Rightarrow> curve_lib \<Rightarrow> bytes \<Rightarrow> bytes \<Rightarrow> bytes \<Rightarrow> u8 \<Rightarrow> (LinkKeyError, LinkKeys) result" where
  "perform_handshake lib cl my_x25519_prv peer_x25519_pub link_id mode =
     LinkKeys_derive lib cl my_x25519_prv peer_x25519_pub link_id mode"

subsection \<open>Lemmas on session keys\<close>

lemma hkdf_sha256_Ok:
  assumes "hkdf_lib_ok lib" and "n \<le> 8160"
  shows "\<exists>okm. hkdf_sha256 lib n ikm salt info = Ok okm \<and> length okm = n"
proof -
  obtain okm where "lib_expand lib ikm salt (case info of Some i \<Rightarrow> i | None \<Rightarrow> []) n = Some okm" "length okm = n"
    using assms unfolding hkdf_lib_ok_def by blast
  with assms(2) show ?thesis by (simp add: hkdf_sha256_def)
qed

lemma perform_handshake_mode1:
  assumes "hkdf_lib_ok lib"
  shows "\<exists>keys. perform_handshake lib cl prv pub link_id MODE_AES256_CBC = Ok keys
    \<and> length (lk_signing_key keys) = 32 \<and> length (lk_encryption_key keys) = 32"
proof -
  obtain okm where "hkdf_sha256 lib 64 (X25519PrivateKey_exchange cl prv pub) (Some link_id) None = Ok okm"
    "length okm = 64"
    using hkdf_sha256_Ok [OF assms, of 64 "X25519PrivateKey_exchange cl prv pub" "Some link_id" None] by auto
  then show ?thesis
    by (simp add: perform_handshake_def LinkKeys_derive_def handshake_constants)
qed

lemma perform_handshake_agree:
  assumes "curve_lib_ok cl"
  shows "perform_handshake lib cl a (x_public cl b) link_id mode = perform_handshake lib cl b (x_public cl a) link_id mode"
proof -
  have "x_diffie_hellman cl a (x_public cl b) = x_diffie_hellman cl b (x_public cl a)"
    using assms unfolding curve_lib_ok_def by blast
  then show ?thesis
    by (simp add: perform_handshake_def LinkKeys_derive_def X25519PrivateKey_exchange_def)
qed

definition keys_ok :: "LinkKeys \<Rightarrow> bool" where
  "keys_ok keys \<longleftrightarrow> length (lk_signing_key keys @ lk_encryption_key keys) \<in> {32, 64}"

lemma link_encrypt_decrypt:
  assumes "cipher_lib_ok lib" and "length iv = 16" and "keys_ok keys"
  shows "\<exists>t. link_encrypt lib iv keys p = Ok t \<and> length t = 48 + (length p div 16 + 1) * 16
    \<and> link_decrypt lib keys t = Ok p"
  using token_encrypt_decrypt [OF assms(1,2) assms(3) [unfolded keys_ok_def], of p]
  by (simp only: link_encrypt_def link_decrypt_def Let_def) auto

subsection \<open>Lemmas on handshake messages\<close>

lemma length_SignallingData_pack [simp]: "length (SignallingData_pack d) = 3"
  by (simp add: SignallingData_pack_def Let_def)

lemma signalling_parse_pack:
  assumes "SignallingData_try_new mode mtu = Ok d" and "length body = n"
  shows "signalling_parse (body @ SignallingData_pack d) n =
    Ok \<lparr>ls_mode = mode, ls_mtu = LinkMtu (sd_mtu d), ls_signalling_present = True\<rparr>"
    and "SignallingData_unpack (SignallingData_pack d) = Some d"
proof -
  have d: "SignallingData_wf d" "sd_mode d = mode" "LinkMtu_try_from_signal (Some (sd_mtu d)) = Ok (LinkMtu (sd_mtu d))"
    using assms(1) by (auto simp: SignallingData_try_new_def LinkMtu_try_from_signal_def BASE_LINK_MTU_def
        MAX_SIGNALLED_LINK_MTU_def SignallingData_wf_def split: if_splits)
  show u: "SignallingData_unpack (SignallingData_pack d) = Some d"
    using SignallingData_unpack_pack [OF d(1), of "[]"] by simp
  with d assms(2) show "signalling_parse (body @ SignallingData_pack d) n =
    Ok \<lparr>ls_mode = mode, ls_mtu = LinkMtu (sd_mtu d), ls_signalling_present = True\<rparr>"
    by (simp add: signalling_parse_def)
qed

lemma LinkRequestData_unpack_pack:
  assumes "SignallingData_try_new mode mtu = Ok d" and "length (ek_x25519_pub ks) = 32" and "length (ek_ed25519_pub ks) = 32"
  shows "LinkRequestData_unpack (LinkRequestData_pack ks d) =
    Ok \<lparr>lr_peer_x25519_pub = ek_x25519_pub ks, lr_peer_ed25519_pub = ek_ed25519_pub ks, lr_signalling = d\<rparr>"
  using signalling_parse_pack [OF assms(1), of "ek_x25519_pub ks @ ek_ed25519_pub ks" 64] assms(2,3)
  by (simp add: LinkRequestData_unpack_def LinkRequestData_pack_def handshake_constants parse_request_signalling_def
      subslice_def)

lemma LinkProofData_unpack_pack:
  assumes "SignallingData_try_new mode mtu = Ok (lp_signalling p)" and "length (lp_signature p) = 64"
    and "length (lp_responder_x25519_pub p) = 32"
  shows "LinkProofData_unpack (LinkProofData_pack p) = Ok p"
    and "parse_proof_signalling (LinkProofData_pack p) =
      Ok \<lparr>ls_mode = mode, ls_mtu = LinkMtu (sd_mtu (lp_signalling p)), ls_signalling_present = True\<rparr>"
  using signalling_parse_pack [OF assms(1), of "lp_signature p @ lp_responder_x25519_pub p" 96] assms(2,3)
  by (simp_all add: LinkProofData_unpack_def LinkProofData_pack_def handshake_constants parse_proof_signalling_def
      subslice_def)

lemma default_signalling_new: "SignallingData_try_new 1 500 = Ok default_signalling"
  by (simp add: SignallingData_try_new_def LinkMtu_try_from_signal_def BASE_LINK_MTU_def MAX_SIGNALLED_LINK_MTU_def
      default_signalling_def SignallingData_new_def handshake_constants MTU_def)

subsection \<open>Properties\<close>

text \<open>
  One link id. The id that the endpoints compute from the destination and the request payload is the id that
  a transport node computes from the raw request packet, whatever hop count, transport id,
  header type or context flag the packet has acquired, and whatever signalling follows the 64 bytes of keys.
\<close>

lemma link_id_agreed:
  assumes "PacketHeader_wf h" and "destination_type (ph_flags h) = DT_Single"
    and "packet_type (ph_flags h) = PT_LinkRequest" and "ph_context h = Ctx_None"
    and "length keys = 64"
  shows "link_id_from_raw (lib_sha256 lib) (PacketHeader_pack h @ keys @ signalling') (header_type (ph_flags h)) =
    Some (compute_link_id lib (ph_destination_hash h) (keys @ signalling))"
  using assms link_id_from_raw_pack [OF assms(1), of "keys @ signalling'"]
  by (simp add: compute_link_id_def truncated_hash_def handshake_constants)

definition example_curve :: curve_lib where
  "example_curve = \<lparr>x_public = (\<lambda>a. take 32 (a @ replicate 32 0)),
     x_diffie_hellman = (\<lambda>a b. map (\<lambda>(x, y). x + y) (zip (take 32 (a @ replicate 32 0)) b)),
     ed_verifying_key = (\<lambda>s. take 32 (s @ replicate 32 0)),
     ed_sign = (\<lambda>s m. take 64 (take 32 (s @ replicate 32 0) @ m @ replicate 64 0)), ed_decode = (\<lambda>_. True),
     ed_verify = (\<lambda>k m sig. sig = take 64 (k @ m @ replicate 64 0))\<rparr>"

lemma example_curve_ok: "curve_lib_ok example_curve"
  by (auto simp: curve_lib_ok_def example_curve_def add.commute zip_commute [of "take 32 _" "take 32 _"] intro!: nth_equalityI)

definition example_request_header :: PacketHeader where
  "example_request_header = \<lparr>ph_flags = \<lparr>header_type = Header2, context_flag = False, transport_type = Transport,
      destination_type = DT_Single, packet_type = PT_LinkRequest\<rparr>, ph_hops = 3,
      ph_transport_id = Some (replicate 16 0xAA), ph_destination_hash = replicate 16 0xBB, ph_context = Ctx_None\<rparr>"

lemma link_id_agreed_witness:
  "link_id_from_raw (lib_sha256 example_lib) (PacketHeader_pack example_request_header @ replicate 64 7 @ [1, 2, 3]) Header2 =
     Some (compute_link_id example_lib (replicate 16 0xBB) (replicate 64 7 @ [9, 9, 9]))"
  using link_id_agreed [of example_request_header "replicate 64 7" example_lib "[1, 2, 3]" "[9, 9, 9]"]
  by (simp add: example_request_header_def PacketHeader_wf_def)

end
