(* ===== verification/Link_Timers.thy ===== *)
theory Link_Timers
  imports Prelude
begin

text \<open>
  Timers of a link: the keepalive state, \<open>src/crates/rns-link/src/keepalive.rs\<close>, and request receipts,
  \<open>src/crates/rns-link/src/request.rs\<close>. The monotonic clock and the random jitter fraction are
  arguments; a callback is whether it is registered, and the operations return which callbacks they
  invoke. Progress fractions are reals.
\<close>

subsection \<open>Keepalive\<close>

definition KEEPALIVE_MAX_RTT :: real where "KEEPALIVE_MAX_RTT = 175 / 100"
definition KEEPALIVE_TIMEOUT_FACTOR :: nat where "KEEPALIVE_TIMEOUT_FACTOR = 4"
definition STALE_GRACE :: real where "STALE_GRACE = 5"
definition KEEPALIVE_MAX :: real where "KEEPALIVE_MAX = 360"
definition KEEPALIVE_MIN :: real where "KEEPALIVE_MIN = 5"
definition KEEPALIVE_DEFAULT :: real where "KEEPALIVE_DEFAULT = 360"
definition STALE_FACTOR :: real where "STALE_FACTOR = 2"
definition STALE_TIME_DEFAULT :: real where "STALE_TIME_DEFAULT = 720"

lemmas keepalive_constants = KEEPALIVE_MAX_RTT_def KEEPALIVE_TIMEOUT_FACTOR_def STALE_GRACE_def
  KEEPALIVE_MAX_def KEEPALIVE_MIN_def KEEPALIVE_DEFAULT_def STALE_FACTOR_def STALE_TIME_DEFAULT_def

record KeepaliveState =
  ka_keepalive_interval :: duration
  ka_stale_time :: duration
  ka_is_initiator :: bool
  ka_last_inbound :: instant
  ka_last_keepalive_sent :: "instant option"
  ka_last_data :: instant
  ka_last_outbound :: "instant option"
  ka_last_proof :: "instant option"
  ka_activated_at :: "instant option"
  ka_jitter_offset :: duration
  ka_jitter_negative :: bool

text \<open>\<open>as_secs_f64\<close>.\<close>

definition as_secs_f64 :: "duration \<Rightarrow> real" where
  "as_secs_f64 d = real d / 10 ^ 9"

definition KeepaliveState_new :: "instant \<Rightarrow> real \<Rightarrow> bool \<Rightarrow> KeepaliveState" where
  "KeepaliveState_new now jitter_frac is_initiator =
     \<lparr>ka_keepalive_interval = from_secs_f64 KEEPALIVE_DEFAULT, ka_stale_time = from_secs_f64 STALE_TIME_DEFAULT,
      ka_is_initiator = is_initiator, ka_last_inbound = now, ka_last_keepalive_sent = None, ka_last_data = now,
      ka_last_outbound = None, ka_last_proof = None, ka_activated_at = None,
      ka_jitter_offset = from_secs_f64 (abs jitter_frac * KEEPALIVE_DEFAULT),
      ka_jitter_negative = (jitter_frac < 0)\<rparr>"

definition KeepaliveState_update_from_rtt :: "real \<Rightarrow> duration \<Rightarrow> KeepaliveState \<Rightarrow> KeepaliveState" where
  "KeepaliveState_update_from_rtt jitter_frac rtt k =
    (let rtt_secs = as_secs_f64 rtt;
         scale_factor = KEEPALIVE_MAX / KEEPALIVE_MAX_RTT;
         interval = max KEEPALIVE_MIN (min (rtt_secs * scale_factor) KEEPALIVE_MAX)
     in k\<lparr>ka_keepalive_interval := from_secs_f64 interval,
          ka_stale_time := from_secs_f64 (interval * STALE_FACTOR),
          ka_jitter_offset := from_secs_f64 (abs jitter_frac * interval),
          ka_jitter_negative := (jitter_frac < 0)\<rparr>)"

definition KeepaliveState_record_inbound :: "instant \<Rightarrow> KeepaliveState \<Rightarrow> KeepaliveState" where
  "KeepaliveState_record_inbound now k = k\<lparr>ka_last_inbound := now\<rparr>"

definition KeepaliveState_record_data :: "instant \<Rightarrow> KeepaliveState \<Rightarrow> KeepaliveState" where
  "KeepaliveState_record_data now k = k\<lparr>ka_last_data := now, ka_last_inbound := now\<rparr>"

definition KeepaliveState_record_outbound :: "instant \<Rightarrow> KeepaliveState \<Rightarrow> KeepaliveState" where
  "KeepaliveState_record_outbound now k = k\<lparr>ka_last_outbound := Some now\<rparr>"

definition KeepaliveState_record_proof :: "instant \<Rightarrow> KeepaliveState \<Rightarrow> KeepaliveState" where
  "KeepaliveState_record_proof now k = k\<lparr>ka_last_proof := Some now, ka_last_inbound := now\<rparr>"

definition KeepaliveState_mark_activated :: "instant \<Rightarrow> KeepaliveState \<Rightarrow> KeepaliveState" where
  "KeepaliveState_mark_activated now k = k\<lparr>ka_activated_at := Some now\<rparr>"

text \<open>The jittered interval of \<open>should_send_keepalive_at\<close>; the sum does not overflow for jitter below the interval.\<close>

definition jittered_interval :: "KeepaliveState \<Rightarrow> duration" where
  "jittered_interval k =
    (if ka_jitter_negative k
     then max (ka_keepalive_interval k - ka_jitter_offset k) (from_secs_f64 KEEPALIVE_MIN)
     else ka_keepalive_interval k + ka_jitter_offset k)"

definition KeepaliveState_should_send_keepalive_at :: "instant \<Rightarrow> KeepaliveState \<Rightarrow> bool" where
  "KeepaliveState_should_send_keepalive_at now k =
    (let jittered = jittered_interval k;
         inbound_elapsed = duration_since now (ka_last_inbound k);
         outbound_elapsed =
           (case (case ka_last_outbound k of Some t \<Rightarrow> Some t | None \<Rightarrow> ka_activated_at k) of
              Some baseline \<Rightarrow> duration_since now baseline
            | None \<Rightarrow> inbound_elapsed);
         keepalive_elapsed =
           (case ka_last_keepalive_sent k of Some t \<Rightarrow> duration_since now t | None \<Rightarrow> DURATION_MAX)
     in ka_is_initiator k \<and> (inbound_elapsed \<ge> jittered \<or> outbound_elapsed \<ge> jittered)
        \<and> keepalive_elapsed \<ge> jittered)"

definition KeepaliveState_should_respond_to_keepalive_at :: "instant \<Rightarrow> KeepaliveState \<Rightarrow> bool" where
  "KeepaliveState_should_respond_to_keepalive_at now k =
    (\<not> ka_is_initiator k
     \<and> (case ka_last_outbound k of
          Some t \<Rightarrow> duration_since now t \<ge> ka_keepalive_interval k | None \<Rightarrow> True))"

definition later_of :: "instant \<Rightarrow> instant option \<Rightarrow> instant" where
  "later_of latest t = (case t of Some p \<Rightarrow> if p > latest then p else latest | None \<Rightarrow> latest)"

definition KeepaliveState_is_stale_at :: "instant \<Rightarrow> KeepaliveState \<Rightarrow> bool" where
  "KeepaliveState_is_stale_at now k =
    (let latest = later_of (later_of (ka_last_inbound k) (ka_last_proof k)) (ka_activated_at k)
     in duration_since now latest \<ge> ka_stale_time k)"

definition KeepaliveState_stale_grace_timeout :: "duration \<Rightarrow> duration" where
  "KeepaliveState_stale_grace_timeout rtt =
     duration_saturating_add (duration_saturating_mul rtt KEEPALIVE_TIMEOUT_FACTOR) (from_secs_f64 STALE_GRACE)"

definition KeepaliveState_mark_keepalive_sent_at :: "instant \<Rightarrow> KeepaliveState \<Rightarrow> KeepaliveState" where
  "KeepaliveState_mark_keepalive_sent_at now k = k\<lparr>ka_last_keepalive_sent := Some now\<rparr>"

definition KeepaliveState_record_keepalive_outbound :: "instant \<Rightarrow> KeepaliveState \<Rightarrow> KeepaliveState" where
  "KeepaliveState_record_keepalive_outbound now k =
     k\<lparr>ka_last_outbound := Some now, ka_last_keepalive_sent := Some now\<rparr>"

definition KeepaliveState_since_inbound :: "instant \<Rightarrow> KeepaliveState \<Rightarrow> duration" where
  "KeepaliveState_since_inbound now k = duration_since now (ka_last_inbound k)"

subsection \<open>Request receipts\<close>

datatype RequestState = RS_Sent | RS_SendingResource | RS_Receiving | RS_Delivered | RS_Failed | RS_ResponseReceived

record RequestCallbacks =
  cb_response :: bool
  cb_failed :: bool
  cb_progress :: bool

record RequestReceipt =
  rr_request_id :: bytes
  rr_link_id :: bytes
  rr_state :: RequestState
  rr_sent_at :: instant
  rr_timeout :: duration
  rr_response :: "bytes option"
  rr_rtt :: "duration option"
  rr_progress :: real
  rr_callbacks :: RequestCallbacks

datatype request_event = ResponseCallback | FailedCallback | ProgressCallback real

definition RequestReceipt_new :: "instant \<Rightarrow> bytes \<Rightarrow> bytes \<Rightarrow> duration \<Rightarrow> RequestReceipt" where
  "RequestReceipt_new now request_id link_id timeout =
     \<lparr>rr_request_id = request_id, rr_link_id = link_id, rr_state = RS_Sent, rr_sent_at = now,
      rr_timeout = timeout, rr_response = None, rr_rtt = None, rr_progress = 0,
      rr_callbacks = \<lparr>cb_response = False, cb_failed = False, cb_progress = False\<rparr>\<rparr>"

definition RequestReceipt_is_pending :: "RequestReceipt \<Rightarrow> bool" where
  "RequestReceipt_is_pending r \<longleftrightarrow> rr_state r \<in> {RS_Sent, RS_SendingResource, RS_Receiving}"

text \<open>\<open>callbacks.response.take()\<close> and \<open>callbacks.failed.take()\<close>, followed by the call.\<close>

definition take_response :: "RequestReceipt \<Rightarrow> RequestReceipt \<times> request_event list" where
  "take_response r =
    (if cb_response (rr_callbacks r)
     then (r\<lparr>rr_callbacks := (rr_callbacks r)\<lparr>cb_response := False\<rparr>\<rparr>, [ResponseCallback]) else (r, []))"

definition take_failed :: "RequestReceipt \<Rightarrow> RequestReceipt \<times> request_event list" where
  "take_failed r =
    (if cb_failed (rr_callbacks r)
     then (r\<lparr>rr_callbacks := (rr_callbacks r)\<lparr>cb_failed := False\<rparr>\<rparr>, [FailedCallback]) else (r, []))"

definition RequestReceipt_deliver :: "instant \<Rightarrow> bytes \<Rightarrow> RequestReceipt \<Rightarrow> RequestReceipt \<times> request_event list" where
  "RequestReceipt_deliver now response r =
    (if rr_state r \<in> {RS_Sent, RS_SendingResource, RS_Receiving}
     then take_response (r\<lparr>rr_rtt := Some (duration_since now (rr_sent_at r)), rr_response := Some response,
            rr_state := RS_Delivered, rr_progress := 1\<rparr>)
     else (r, []))"

definition RequestReceipt_fail :: "RequestReceipt \<Rightarrow> RequestReceipt \<times> request_event list" where
  "RequestReceipt_fail r =
    (if rr_state r \<in> {RS_Sent, RS_SendingResource, RS_Receiving}
     then take_failed (r\<lparr>rr_state := RS_Failed\<rparr>) else (r, []))"

definition RequestReceipt_is_timed_out :: "instant \<Rightarrow> RequestReceipt \<Rightarrow> bool" where
  "RequestReceipt_is_timed_out now r \<longleftrightarrow>
     rr_state r \<in> {RS_Sent, RS_Receiving} \<and> duration_since now (rr_sent_at r) \<ge> rr_timeout r"

definition RequestReceipt_receive_response ::
    "instant \<Rightarrow> bytes \<Rightarrow> RequestReceipt \<Rightarrow> RequestReceipt \<times> request_event list" where
  "RequestReceipt_receive_response now data r =
    (if rr_state r \<in> {RS_Sent, RS_SendingResource, RS_Receiving, RS_Delivered}
     then take_response (r\<lparr>rr_rtt := Some (duration_since now (rr_sent_at r)), rr_response := Some data,
            rr_state := RS_ResponseReceived, rr_progress := 1\<rparr>)
     else (r, []))"

definition RequestReceipt_mark_delivered :: "RequestReceipt \<Rightarrow> RequestReceipt" where
  "RequestReceipt_mark_delivered r = (if rr_state r = RS_Sent then r\<lparr>rr_state := RS_Delivered\<rparr> else r)"

definition RequestReceipt_mark_failed :: "RequestReceipt \<Rightarrow> RequestReceipt" where
  "RequestReceipt_mark_failed r =
    (if rr_state r \<in> {RS_Sent, RS_SendingResource, RS_Receiving} then r\<lparr>rr_state := RS_Failed\<rparr> else r)"

definition RequestReceipt_mark_resource_sending :: "RequestReceipt \<Rightarrow> RequestReceipt" where
  "RequestReceipt_mark_resource_sending r =
    (if rr_state r = RS_Sent then r\<lparr>rr_state := RS_SendingResource\<rparr> else r)"

definition RequestReceipt_mark_resource_sent :: "instant \<Rightarrow> RequestReceipt \<Rightarrow> RequestReceipt" where
  "RequestReceipt_mark_resource_sent now r =
    (if rr_state r = RS_SendingResource then r\<lparr>rr_state := RS_Sent, rr_sent_at := now\<rparr> else r)"

definition RequestReceipt_concluded :: "RequestReceipt \<Rightarrow> bool" where
  "RequestReceipt_concluded r \<longleftrightarrow> rr_state r \<in> {RS_Delivered, RS_Failed, RS_ResponseReceived}"

definition RequestReceipt_update_progress :: "real \<Rightarrow> RequestReceipt \<Rightarrow> RequestReceipt \<times> request_event list" where
  "RequestReceipt_update_progress progress r =
    (r\<lparr>rr_progress := progress\<rparr>, if cb_progress (rr_callbacks r) then [ProgressCallback progress] else [])"

definition RequestReceipt_set_response_callback :: "RequestReceipt \<Rightarrow> RequestReceipt" where
  "RequestReceipt_set_response_callback r = r\<lparr>rr_callbacks := (rr_callbacks r)\<lparr>cb_response := True\<rparr>\<rparr>"

definition RequestReceipt_set_failed_callback :: "RequestReceipt \<Rightarrow> RequestReceipt" where
  "RequestReceipt_set_failed_callback r = r\<lparr>rr_callbacks := (rr_callbacks r)\<lparr>cb_failed := True\<rparr>\<rparr>"

definition RequestReceipt_set_progress_callback :: "RequestReceipt \<Rightarrow> RequestReceipt" where
  "RequestReceipt_set_progress_callback r = r\<lparr>rr_callbacks := (rr_callbacks r)\<lparr>cb_progress := True\<rparr>\<rparr>"

definition RequestReceipt_check_timeout :: "instant \<Rightarrow> RequestReceipt \<Rightarrow> RequestReceipt \<times> request_event list \<times> bool" where
  "RequestReceipt_check_timeout now r =
    (if RequestReceipt_is_timed_out now r
     then (let (r, ev) = RequestReceipt_fail r in (r, ev, True)) else (r, [], False))"

subsection \<open>Receipts conclude once\<close>

inductive request_step :: "RequestReceipt \<Rightarrow> request_event list \<Rightarrow> RequestReceipt \<Rightarrow> bool" where
  deliver: "RequestReceipt_deliver now d r = (r', ev) \<Longrightarrow> request_step r ev r'"
| fail: "RequestReceipt_fail r = (r', ev) \<Longrightarrow> request_step r ev r'"
| receive_response: "RequestReceipt_receive_response now d r = (r', ev) \<Longrightarrow> request_step r ev r'"
| mark_delivered: "request_step r [] (RequestReceipt_mark_delivered r)"
| mark_failed: "request_step r [] (RequestReceipt_mark_failed r)"
| resource_sending: "request_step r [] (RequestReceipt_mark_resource_sending r)"
| resource_sent: "request_step r [] (RequestReceipt_mark_resource_sent now r)"
| progress: "RequestReceipt_update_progress p r = (r', ev) \<Longrightarrow> request_step r ev r'"
| check_timeout: "RequestReceipt_check_timeout now r = (r', ev, b) \<Longrightarrow> request_step r ev r'"

inductive request_run :: "RequestReceipt \<Rightarrow> request_event list \<Rightarrow> RequestReceipt \<Rightarrow> bool" where
  stop: "request_run r [] r"
| more: "request_run r evs m \<Longrightarrow> request_step m ev r' \<Longrightarrow> request_run r (evs @ ev) r'"

fun is_outcome :: "request_event \<Rightarrow> bool" where
  "is_outcome (ProgressCallback _) = False"
| "is_outcome _ = True"

text \<open>How many outcome callbacks a receipt can still invoke.\<close>

definition outcome_budget :: "RequestReceipt \<Rightarrow> nat" where
  "outcome_budget r = (case rr_state r of
      RS_Failed \<Rightarrow> 0 | RS_ResponseReceived \<Rightarrow> 0
    | RS_Delivered \<Rightarrow> (if cb_response (rr_callbacks r) then 1 else 0)
    | _ \<Rightarrow> 1)"

lemmas receipt_defs = RequestReceipt_deliver_def RequestReceipt_fail_def RequestReceipt_receive_response_def
  RequestReceipt_mark_delivered_def RequestReceipt_mark_failed_def RequestReceipt_mark_resource_sending_def
  RequestReceipt_mark_resource_sent_def RequestReceipt_update_progress_def RequestReceipt_check_timeout_def
  take_response_def take_failed_def

lemma request_step_budget:
  "request_step r ev r' \<Longrightarrow> length (filter is_outcome ev) + outcome_budget r' \<le> outcome_budget r"
  by (induction rule: request_step.induct)
    (cases "rr_state r"; auto simp: receipt_defs outcome_budget_def split: if_splits)+

lemma request_step_final:
  "request_step r ev r' \<Longrightarrow> rr_state r \<in> {RS_Failed, RS_ResponseReceived} \<Longrightarrow>
     rr_state r' = rr_state r \<and> rr_response r' = rr_response r \<and> filter is_outcome ev = []"
  by (induction rule: request_step.induct)
    (auto simp: receipt_defs RequestReceipt_is_timed_out_def split: if_splits)

lemma request_run_budget:
  "request_run r evs r' \<Longrightarrow> length (filter is_outcome evs) + outcome_budget r' \<le> outcome_budget r"
  by (induction rule: request_run.induct) (auto dest: request_step_budget)

lemma request_run_final:
  "request_run r evs r' \<Longrightarrow> rr_state r \<in> {RS_Failed, RS_ResponseReceived} \<Longrightarrow>
     rr_state r' = rr_state r \<and> rr_response r' = rr_response r"
proof (induction rule: request_run.induct)
  case (more r evs m ev r')
  then show ?case using request_step_final [of m ev r'] by auto
qed simp


definition example_receipt :: RequestReceipt where
  "example_receipt = RequestReceipt_set_failed_callback (RequestReceipt_set_response_callback
     (RequestReceipt_new 0 (replicate 32 1) (replicate 16 2) 100))"


end
