(* ===== verification/Link_Machine.thy ===== *)
theory Link_Machine
  imports Link_Handshake Link_Timers
begin

text \<open>
  The link state machine, \<open>src/crates/rns-link/src/link.rs\<close>. The monotonic clock \<open>now\<close>, the random
  initialisation vector \<open>iv\<close>, ephemeral seeds and keepalive jitter are arguments of the steps that draw
  them; the MessagePack crate rmpv is the record \<open>msgpack_lib\<close>. The stored application
  callbacks are dispatched by the owner and left out; invocations of request callbacks are appended to
  the trace \<open>l_log\<close>, which is not a field of the code. Byte counters wrap as in a release build.
\<close>

subsection \<open>Data\<close>

datatype LinkState = LS_Pending | LS_Handshake | LS_Active | LS_Stale | LS_Closed
datatype LinkRole = Initiator | Responder

datatype PacketProofError =
    PPE_WrongRole
  | PPE_InvalidState LinkState
  | PPE_SignerUnavailable
  | PPE_PeerKeyUnavailable
  | PPE_MalformedProof
  | PPE_HashMismatch
  | PPE_InvalidSignature

datatype TimeoutError = TimeoutError
datatype CloseReason = CR_Timeout | CR_InitiatorClosed | CR_DestinationClosed
datatype ResourceStrategy = AcceptNone | AcceptApp | AcceptAll
datatype ResourceAcceptance = RA_Accept | RA_Reject | RA_AskApp
datatype OutboundResourceState = OR_Transferring | OR_AwaitingProof | OR_Complete | OR_Failed
datatype RequestSendMode = SM_Packet bytes | SM_Resource bytes

datatype LinkAction =
    LA_None
  | LA_SendKeepalive
  | LA_TransitionedToStale
  | LA_SendTeardownAndClose bytes
  | LA_Closed CloseReason

text \<open>
  The operations of rmpv that the code uses; \<open>mp_read\<close> returns the value and the number of bytes
  consumed.
\<close>

record 'v msgpack_lib =
  mp_nil :: 'v
  mp_f64 :: "f64 \<Rightarrow> 'v"
  mp_binary :: "bytes \<Rightarrow> 'v"
  mp_string :: "bytes \<Rightarrow> 'v"
  mp_array :: "'v list \<Rightarrow> 'v"
  mp_as_f64 :: "'v \<Rightarrow> f64 option"
  mp_as_slice :: "'v \<Rightarrow> bytes option"
  mp_as_str :: "'v \<Rightarrow> bytes option"
  mp_as_array :: "'v \<Rightarrow> 'v list option"
  mp_write :: "'v \<Rightarrow> bytes option"
  mp_read :: "bytes \<Rightarrow> ('v \<times> nat) option"

definition msgpack_value_from_bytes_or_binary :: "'v msgpack_lib \<Rightarrow> bytes \<Rightarrow> 'v" where
  "msgpack_value_from_bytes_or_binary mp data =
    (case mp_read mp data of
       Some (value, pos) \<Rightarrow> if pos = length data then value else mp_binary mp data
     | None \<Rightarrow> mp_binary mp data)"

definition msgpack_value_to_bytes :: "'v msgpack_lib \<Rightarrow> 'v \<Rightarrow> (LinkCryptoError, bytes) result" where
  "msgpack_value_to_bytes mp value =
    (case mp_as_slice mp value of
       Some bytes \<Rightarrow> Ok bytes
     | None \<Rightarrow> (case mp_as_str mp value of
         Some text \<Rightarrow> Ok text
       | None \<Rightarrow> ok_or LCE_DecryptionFailed (mp_write mp value)))"

definition PEER_RTT_MAX_SECS :: real where "PEER_RTT_MAX_SECS = STALE_TIME_DEFAULT"

fun peer_reported_rtt :: "f64 \<Rightarrow> duration option" where
  "peer_reported_rtt NaN = None"
| "peer_reported_rtt NegInf = None"
| "peer_reported_rtt PosInf = try_from_secs_f64 PEER_RTT_MAX_SECS"
| "peer_reported_rtt (Fin s) = (if s < 0 then None else try_from_secs_f64 (min s PEER_RTT_MAX_SECS))"

definition ESTABLISHMENT_TIMEOUT_PER_HOP :: real where "ESTABLISHMENT_TIMEOUT_PER_HOP = 6"
definition TRAFFIC_TIMEOUT_FACTOR :: nat where "TRAFFIC_TIMEOUT_FACTOR = 6"
definition RESPONSE_MAX_GRACE_TIME :: real where "RESPONSE_MAX_GRACE_TIME = 10"

record Link =
  l_link_id :: bytes
  l_state :: LinkState
  l_teardown_reason :: "CloseReason option"
  l_is_initiator :: bool
  l_mode :: u8
  l_offered_mode :: u8
  l_offered_mtu :: LinkMtu
  l_ephemeral_keys :: "EphemeralKeys option"
  l_peer_x25519_pub :: "bytes option"
  l_peer_packet_proof_key :: "bytes option"
  l_responder_identity_signing_key :: "bytes option"
  l_session_keys :: "LinkKeys option"
  l_request_time :: instant
  l_rtt :: "duration option"
  l_establishment_timeout :: duration
  l_activated_at :: "instant option"
  l_stale_since :: "instant option"
  l_keepalive :: KeepaliveState
  l_mtu :: u32
  l_mdu :: nat
  l_resource_strategy :: ResourceStrategy
  l_pending_requests :: "RequestReceipt list"
  l_incoming_resources :: "bytes list"
  l_outgoing_resources :: "bytes list"
  l_outgoing_resource_states :: "OutboundResourceState list"
  l_incoming_resource_count :: nat
  l_establishment_cost :: nat
  l_establishment_rate :: "real option"
  l_expected_rate :: "real option"
  l_expected_hops :: "u8 option"
  l_destination_hash :: bytes
  l_remote_identity_pub :: "bytes option"
  l_identified :: bool
  l_tx_bytes :: u64
  l_rx_bytes :: u64
  l_tx_count :: u64
  l_rx_count :: u64
  l_rssi :: "f64 option"
  l_snr :: "f64 option"
  l_q :: "f64 option"
  l_track_phy_stats :: bool
  l_has_channel :: bool
  l_log :: "(bytes \<times> request_event) list"

subsection \<open>Establishment\<close>

text \<open>\<open>LinkMtu::BASE\<close>.\<close>

definition LinkMtu_BASE :: LinkMtu where "LinkMtu_BASE = LinkMtu BASE_LINK_MTU"

definition Link_new_initiator ::
    "crypto_lib \<Rightarrow> curve_lib \<Rightarrow> EphemeralKeys \<Rightarrow> instant \<Rightarrow> real \<Rightarrow> bytes \<Rightarrow> u8 \<Rightarrow> Link \<times> bytes" where
  "Link_new_initiator lib cl ephemeral_keys now jitter destination_hash hops =
    (let signalling = SignallingData_new DEFAULT_MODE (word_of_nat MTU);
         request_data = LinkRequestData_pack ephemeral_keys signalling;
         link_id = compute_link_id lib destination_hash request_data;
         timeout_secs = ESTABLISHMENT_TIMEOUT_PER_HOP * real (unat (max hops 1));
         link = \<lparr>l_link_id = link_id, l_state = LS_Pending, l_teardown_reason = None, l_is_initiator = True,
           l_mode = DEFAULT_MODE, l_offered_mode = DEFAULT_MODE, l_offered_mtu = LinkMtu_BASE,
           l_ephemeral_keys = Some ephemeral_keys, l_peer_x25519_pub = None, l_peer_packet_proof_key = None,
           l_responder_identity_signing_key = None, l_session_keys = None, l_request_time = now, l_rtt = None,
           l_establishment_timeout = from_secs_f64 timeout_secs, l_activated_at = None, l_stale_since = None,
           l_keepalive = KeepaliveState_new now jitter True, l_mtu = word_of_nat MTU, l_mdu = LINK_MDU,
           l_resource_strategy = AcceptNone, l_pending_requests = [], l_incoming_resources = [],
           l_outgoing_resources = [], l_outgoing_resource_states = [], l_incoming_resource_count = 0,
           l_establishment_cost = length request_data, l_establishment_rate = None, l_expected_rate = None,
           l_expected_hops = Some hops, l_destination_hash = destination_hash, l_remote_identity_pub = None,
           l_identified = False, l_tx_bytes = 0, l_rx_bytes = 0, l_tx_count = 0, l_rx_count = 0,
           l_rssi = None, l_snr = None, l_q = None, l_track_phy_stats = False, l_has_channel = False,
           l_log = []\<rparr>
     in (link, request_data))"

text \<open>\<open>Instant::checked_add\<close> on a platform with 64-bit seconds.\<close>

definition INSTANT_MAX :: instant where "INSTANT_MAX = 2 ^ 63 * 10 ^ 9 - 1"

fun Link_try_extend_establishment_timeout :: "f64 \<Rightarrow> Link \<Rightarrow> Link \<times> (TimeoutError, unit) result" where
  "Link_try_extend_establishment_timeout (Fin additional_secs) l =
    (case try_from_secs_f64 additional_secs of
       None \<Rightarrow> (l, Err TimeoutError)
     | Some additional \<Rightarrow>
         let timeout = l_establishment_timeout l + additional in
         if timeout > DURATION_MAX then (l, Err TimeoutError)
         else if l_request_time l + timeout > INSTANT_MAX then (l, Err TimeoutError)
         else (l\<lparr>l_establishment_timeout := timeout\<rparr>, Ok ()))"
| "Link_try_extend_establishment_timeout _ l = (l, Err TimeoutError)"

definition Link_validate_proof ::
    "crypto_lib \<Rightarrow> curve_lib \<Rightarrow> 'v msgpack_lib \<Rightarrow> bytes \<Rightarrow> instant \<Rightarrow> real \<Rightarrow> bytes \<Rightarrow> bytes \<Rightarrow> bytes \<Rightarrow>
     Link \<Rightarrow> Link \<times> (HandshakeError, bytes) result" where
  "Link_validate_proof lib cl mp iv now jitter proof_data identity_verify_key identity_ed25519_pub_bytes l =
    (let outcome =
       (if l_state l \<noteq> LS_Pending then Err HSE_InvalidSignature
        else and_then (map_err HSE_Signalling (parse_proof_signalling proof_data)) (\<lambda>checked.
          if ls_mode checked \<noteq> l_offered_mode l then Err HSE_InvalidSignature
          else if ls_mode checked \<notin> set ENABLED_MODES then Err (HSE_UnsupportedMode (ls_mode checked))
          else if LinkMtu_get (ls_mtu checked) > LinkMtu_get (l_offered_mtu l)
            then Err (HSE_Signalling (LS_InvalidMtu (LinkMtu_get (ls_mtu checked))))
          else and_then (map_err HSE_Signalling (LinkMtu_checked_mdu (ls_mtu checked))) (\<lambda>mdu.
            and_then (LinkProofData_unpack proof_data) (\<lambda>proof.
              let signed = l_link_id l @ lp_responder_x25519_pub proof @ identity_ed25519_pub_bytes
                             @ drop 96 proof_data
              in if Ed25519PublicKey_verify cl identity_verify_key signed (lp_signature proof) \<noteq> Ok ()
                 then Err HSE_InvalidSignature
                 else and_then (ok_or HSE_InvalidSignature (l_ephemeral_keys l)) (\<lambda>ephemeral.
                   and_then (map_err HSE_KeyDerivation (perform_handshake lib cl (ek_x25519_prv ephemeral)
                              (lp_responder_x25519_pub proof) (l_link_id l) (ls_mode checked))) (\<lambda>keys.
                     let rtt = duration_since now (l_request_time l) in
                     and_then (ok_or HSE_InvalidSignature (mp_write mp (mp_f64 mp (Fin (as_secs_f64 rtt)))))
                       (\<lambda>rtt_bytes. and_then (map_err (\<lambda>_. HSE_InvalidSignature) (link_encrypt lib iv keys rtt_bytes))
                         (\<lambda>encrypted_rtt. Ok (checked, mdu, proof, keys, rtt, encrypted_rtt)))))))))
     in case outcome of
          Inl e \<Rightarrow> (l, Err e)
        | Inr (checked, mdu, proof, keys, rtt, encrypted_rtt) \<Rightarrow>
            let l = l\<lparr>l_establishment_cost := usize_saturating_add (l_establishment_cost l) (length proof_data),
                  l_peer_x25519_pub := Some (lp_responder_x25519_pub proof),
                  l_peer_packet_proof_key := Some identity_ed25519_pub_bytes,
                  l_session_keys := Some keys, l_mode := ls_mode checked, l_mtu := LinkMtu_get (ls_mtu checked),
                  l_mdu := mdu, l_rtt := Some rtt, l_state := LS_Active, l_activated_at := Some now,
                  l_keepalive := KeepaliveState_update_from_rtt jitter rtt
                                   (KeepaliveState_mark_activated now (l_keepalive l))\<rparr>;
                l = (if as_secs_f64 rtt > 0
                     then l\<lparr>l_establishment_rate := Some (real (l_establishment_cost l) / as_secs_f64 rtt)\<rparr> else l)
            in (l, Ok encrypted_rtt))"

definition Link_new_responder_inner ::
    "crypto_lib \<Rightarrow> curve_lib \<Rightarrow> EphemeralKeys \<Rightarrow> instant \<Rightarrow> real \<Rightarrow> bytes \<Rightarrow> bytes \<Rightarrow> bytes \<Rightarrow> u8 \<Rightarrow>
     bytes option \<Rightarrow> (bytes \<Rightarrow> bytes option) \<Rightarrow> (HandshakeError, Link \<times> bytes) result" where
  "Link_new_responder_inner lib cl responder_keys now jitter request_data identity_ed25519_pub destination_hash
      hops identity_signing_key sign_fn =
    and_then (LinkRequestData_unpack request_data) (\<lambda>request.
      let link_id = compute_link_id lib destination_hash request_data;
          mode = sd_mode (lr_signalling request)
      in if mode \<notin> set ENABLED_MODES then Err (HSE_UnsupportedMode mode)
         else and_then (map_err HSE_Signalling (LinkMtu_try_from_signal (Some (sd_mtu (lr_signalling request)))))
           (\<lambda>offered. let accepted_mtu = (if LinkMtu_get LinkMtu_BASE < LinkMtu_get offered then LinkMtu_BASE else offered) in
            and_then (map_err HSE_Signalling (LinkMtu_checked_mdu accepted_mtu)) (\<lambda>accepted_mdu.
            and_then (map_err HSE_KeyDerivation (perform_handshake lib cl (ek_x25519_prv responder_keys)
                        (lr_peer_x25519_pub request) link_id mode)) (\<lambda>session_keys.
            and_then (map_err HSE_Signalling (SignallingData_try_new mode (LinkMtu_get accepted_mtu))) (\<lambda>signalling.
              let responder_x25519_pub = ek_x25519_pub responder_keys;
                  sig_bytes = SignallingData_pack signalling;
                  signed_data = link_id @ responder_x25519_pub @ identity_ed25519_pub @ sig_bytes
              in and_then (ok_or HSE_InvalidSignature (sign_fn signed_data)) (\<lambda>signature.
                let proof_data = LinkProofData_pack \<lparr>lp_signature = signature,
                      lp_responder_x25519_pub = responder_x25519_pub, lp_signalling = signalling\<rparr>;
                    timeout_secs = ESTABLISHMENT_TIMEOUT_PER_HOP * real (unat (max hops 1)) + KEEPALIVE_DEFAULT;
                    link = \<lparr>l_link_id = link_id, l_state = LS_Handshake, l_teardown_reason = None,
                      l_is_initiator = False, l_mode = mode, l_offered_mode = mode, l_offered_mtu = accepted_mtu,
                      l_ephemeral_keys = Some responder_keys, l_peer_x25519_pub = Some (lr_peer_x25519_pub request),
                      l_peer_packet_proof_key = Some (lr_peer_ed25519_pub request),
                      l_responder_identity_signing_key = identity_signing_key,
                      l_session_keys = Some session_keys, l_request_time = now, l_rtt = None,
                      l_establishment_timeout = from_secs_f64 timeout_secs, l_activated_at = None,
                      l_stale_since = None, l_keepalive = KeepaliveState_new now jitter False,
                      l_mtu = LinkMtu_get accepted_mtu, l_mdu = accepted_mdu, l_resource_strategy = AcceptNone,
                      l_pending_requests = [], l_incoming_resources = [], l_outgoing_resources = [],
                      l_outgoing_resource_states = [], l_incoming_resource_count = 0,
                      l_establishment_cost = length request_data + length proof_data,
                      l_establishment_rate = None, l_expected_rate = None, l_expected_hops = None,
                      l_destination_hash = destination_hash, l_remote_identity_pub = None, l_identified = False,
                      l_tx_bytes = 0, l_rx_bytes = 0, l_tx_count = 0, l_rx_count = 0, l_rssi = None, l_snr = None,
                      l_q = None, l_track_phy_stats = False, l_has_channel = False, l_log = []\<rparr>
                in Ok (link, proof_data)))))))"

definition Link_new_responder ::
    "crypto_lib \<Rightarrow> curve_lib \<Rightarrow> EphemeralKeys \<Rightarrow> instant \<Rightarrow> real \<Rightarrow> bytes \<Rightarrow> bytes \<Rightarrow> bytes \<Rightarrow> u8 \<Rightarrow>
     (HandshakeError, Link \<times> bytes) result" where
  "Link_new_responder lib cl responder_keys now jitter request_data identity_signing_key destination_hash hops =
     Link_new_responder_inner lib cl responder_keys now jitter request_data
       (ed_verifying_key cl identity_signing_key) destination_hash hops (Some identity_signing_key)
       (\<lambda>signed_data. Some (ed_sign cl identity_signing_key signed_data))"

definition Link_new_responder_with ::
    "crypto_lib \<Rightarrow> curve_lib \<Rightarrow> EphemeralKeys \<Rightarrow> instant \<Rightarrow> real \<Rightarrow> bytes \<Rightarrow> bytes \<Rightarrow> bytes \<Rightarrow> u8 \<Rightarrow>
     (bytes \<Rightarrow> bytes option) \<Rightarrow> (HandshakeError, Link \<times> bytes) result" where
  "Link_new_responder_with lib cl responder_keys now jitter request_data identity_ed25519_pub destination_hash
      hops sign_fn =
     Link_new_responder_inner lib cl responder_keys now jitter request_data identity_ed25519_pub
       destination_hash hops None sign_fn"

definition Link_encrypt :: "crypto_lib \<Rightarrow> bytes \<Rightarrow> Link \<Rightarrow> bytes \<Rightarrow> (LinkCryptoError, bytes) result" where
  "Link_encrypt lib iv l plaintext =
     and_then (ok_or LCE_EncryptionFailed (l_session_keys l)) (\<lambda>keys. link_encrypt lib iv keys plaintext)"

definition Link_decrypt :: "crypto_lib \<Rightarrow> Link \<Rightarrow> bytes \<Rightarrow> (LinkCryptoError, bytes) result" where
  "Link_decrypt lib l ciphertext =
     and_then (ok_or LCE_DecryptionFailed (l_session_keys l)) (\<lambda>keys. link_decrypt lib keys ciphertext)"

text \<open>\<open>read_value\<close> followed by \<open>as_f64\<close>.\<close>

definition read_f64 :: "'v msgpack_lib \<Rightarrow> bytes \<Rightarrow> f64 option" where
  "read_f64 mp plaintext = (case mp_read mp plaintext of Some (value, _) \<Rightarrow> mp_as_f64 mp value | None \<Rightarrow> None)"

definition Link_receive_rtt_packet ::
    "crypto_lib \<Rightarrow> 'v msgpack_lib \<Rightarrow> instant \<Rightarrow> real \<Rightarrow> bytes \<Rightarrow> Link \<Rightarrow> Link \<times> (HandshakeError, unit) result" where
  "Link_receive_rtt_packet lib mp now jitter encrypted_data l =
    (if l_state l \<noteq> LS_Handshake then (l, Err HSE_InvalidSignature)
     else case and_then (LinkMtu_try_from_signal (Some (l_mtu l))) LinkMtu_checked_mdu of
       Inl e \<Rightarrow> (l, Err (HSE_Signalling e))
     | Inr mdu \<Rightarrow>
         let l = l\<lparr>l_establishment_cost := l_establishment_cost l + length encrypted_data\<rparr> in
         case Link_decrypt lib l encrypted_data of
           Inl _ \<Rightarrow> (l, Err HSE_InvalidSignature)
         | Inr plaintext \<Rightarrow>
             let l = (case read_f64 mp plaintext of
                        None \<Rightarrow> l
                      | Some peer_rtt \<Rightarrow>
                          let local_rtt = duration_since now (l_request_time l);
                              rtt = (case peer_reported_rtt peer_rtt of
                                       None \<Rightarrow> local_rtt | Some peer \<Rightarrow> max peer local_rtt)
                          in l\<lparr>l_rtt := Some rtt,
                               l_keepalive := KeepaliveState_update_from_rtt jitter rtt (l_keepalive l)\<rparr>);
                 l = l\<lparr>l_state := LS_Active, l_activated_at := Some now,
                       l_keepalive := KeepaliveState_mark_activated now (l_keepalive l), l_mdu := mdu\<rparr>;
                 l = (case l_rtt l of
                        None \<Rightarrow> l
                      | Some rtt \<Rightarrow>
                          let rtt_secs = as_secs_f64 rtt in
                          if rtt_secs > 0 \<and> l_establishment_cost l > 0
                          then l\<lparr>l_establishment_rate := Some (real (l_establishment_cost l) / rtt_secs)\<rparr> else l)
             in (l, Ok ()))"

subsection \<open>Identification\<close>

definition Link_role :: "Link \<Rightarrow> LinkRole" where
  "Link_role l = (if l_is_initiator l then Initiator else Responder)"

definition Link_identify_with_fallible ::
    "crypto_lib \<Rightarrow> bytes \<Rightarrow> bytes \<Rightarrow> (bytes \<Rightarrow> bytes option) \<Rightarrow> Link \<Rightarrow> (LinkCryptoError, bytes) result" where
  "Link_identify_with_fallible lib iv identity_pub_key sign_fn l =
    (if \<not> l_is_initiator l \<or> l_state l \<noteq> LS_Active then Err LCE_EncryptionFailed
     else let signed_data = l_link_id l @ identity_pub_key in
       and_then (ok_or LCE_EncryptionFailed (sign_fn signed_data)) (\<lambda>signature.
         Link_encrypt lib iv l (identity_pub_key @ signature)))"

definition Link_identify ::
    "crypto_lib \<Rightarrow> curve_lib \<Rightarrow> bytes \<Rightarrow> bytes \<Rightarrow> bytes \<Rightarrow> Link \<Rightarrow> (LinkCryptoError, bytes) result" where
  "Link_identify lib cl iv identity_pub_key identity_signing_key l =
     Link_identify_with_fallible lib iv identity_pub_key (\<lambda>m. Some (ed_sign cl identity_signing_key m)) l"

definition Link_handle_identification ::
    "crypto_lib \<Rightarrow> curve_lib \<Rightarrow> bytes \<Rightarrow> Link \<Rightarrow> Link \<times> (LinkCryptoError, bytes) result" where
  "Link_handle_identification lib cl encrypted_data l =
    (if Link_role l \<noteq> Responder \<or> l_state l \<notin> {LS_Handshake, LS_Active, LS_Stale}
     then (l, Err LCE_DecryptionFailed)
     else case Link_decrypt lib l encrypted_data of
       Inl e \<Rightarrow> (l, Err e)
     | Inr plaintext \<Rightarrow>
         if length plaintext \<noteq> 128 then (l, Err LCE_DecryptionFailed)
         else
           let public_key = take 64 plaintext;
               signature = subslice 64 128 plaintext;
               signed_data = l_link_id l @ public_key;
               ed25519_pub_bytes = subslice 32 64 public_key
           in case Ed25519PublicKey_from_bytes cl ed25519_pub_bytes of
                Inl _ \<Rightarrow> (l, Err LCE_DecryptionFailed)
              | Inr verify_key \<Rightarrow>
                  if Ed25519PublicKey_verify cl verify_key signed_data signature \<noteq> Ok ()
                  then (l, Err LCE_DecryptionFailed)
                  else case l_remote_identity_pub l of
                    Some existing \<Rightarrow> (l, Ok existing)
                  | None \<Rightarrow> (l\<lparr>l_remote_identity_pub := Some public_key, l_identified := True\<rparr>, Ok public_key))"

subsection \<open>Requests and responses\<close>

text \<open>
  \<open>with_receipt id f l\<close> is \<open>iter_mut().find\<close> of the receipt with the truncated id, followed by \<open>f\<close> on it;
  \<open>None\<close> when there is none.
\<close>

definition has_request_id :: "bytes \<Rightarrow> RequestReceipt \<Rightarrow> bool" where
  "has_request_id request_id r \<longleftrightarrow> take 16 (rr_request_id r) = request_id"

definition with_receipt ::
    "bytes \<Rightarrow> (RequestReceipt \<Rightarrow> RequestReceipt \<times> request_event list) \<Rightarrow> Link \<Rightarrow> Link option" where
  "with_receipt request_id f l =
    (case position (has_request_id request_id) (l_pending_requests l) of
       None \<Rightarrow> None
     | Some i \<Rightarrow>
         let old = l_pending_requests l ! i; (r, events) = f old
         in Some (l\<lparr>l_pending_requests := (l_pending_requests l)[i := r],
                    l_log := l_log l @ map (Pair (rr_request_id old)) events\<rparr>))"

definition Link_discard_pending_request :: "bytes \<Rightarrow> Link \<Rightarrow> Link" where
  "Link_discard_pending_request request_id l =
     l\<lparr>l_pending_requests := filter (\<lambda>r. \<not> has_request_id request_id r) (l_pending_requests l)\<rparr>"

definition Link_prepare_request_value ::
    "crypto_lib \<Rightarrow> 'v msgpack_lib \<Rightarrow> instant \<Rightarrow> unix_time \<Rightarrow> bytes \<Rightarrow> 'v \<Rightarrow> duration \<Rightarrow> Link \<Rightarrow>
     Link \<times> (LinkCryptoError, bytes \<times> bytes) result" where
  "Link_prepare_request_value lib mp now timestamp path data_value timeout l =
    (if l_state l \<noteq> LS_Active then (l, Err LCE_EncryptionFailed)
     else
       let path_hash = truncated_hash lib path;
           array = mp_array mp [mp_f64 mp (Fin timestamp), mp_binary mp path_hash, data_value]
       in case mp_write mp array of
            None \<Rightarrow> (l, Err LCE_EncryptionFailed)
          | Some packed \<Rightarrow>
              let request_id = truncated_hash lib packed;
                  receipt_id = request_id @ replicate 16 0;
                  receipt = RequestReceipt_new now receipt_id (l_link_id l) timeout
              in (l\<lparr>l_pending_requests := l_pending_requests l @ [receipt]\<rparr>, Ok (packed, request_id)))"

definition Link_prepare_request ::
    "crypto_lib \<Rightarrow> 'v msgpack_lib \<Rightarrow> instant \<Rightarrow> unix_time \<Rightarrow> bytes \<Rightarrow> bytes option \<Rightarrow> duration \<Rightarrow> Link \<Rightarrow>
     Link \<times> (LinkCryptoError, bytes \<times> bytes) result" where
  "Link_prepare_request lib mp now timestamp path data timeout l =
    (let data_value = (case data of Some d \<Rightarrow> msgpack_value_from_bytes_or_binary mp d | None \<Rightarrow> mp_nil mp)
     in Link_prepare_request_value lib mp now timestamp path data_value timeout l)"

text \<open>The encryption step that \<open>request\<close> and \<open>request_str\<close> share, with its rollback.\<close>

definition encrypt_request ::
    "crypto_lib \<Rightarrow> bytes \<Rightarrow> Link \<times> (LinkCryptoError, bytes \<times> bytes) result \<Rightarrow>
     Link \<times> (LinkCryptoError, bytes \<times> bytes) result" where
  "encrypt_request lib iv p =
    (case p of
       (l, Inl e) \<Rightarrow> (l, Err e)
     | (l, Inr (packed, request_id)) \<Rightarrow>
         (case Link_encrypt lib iv l packed of
            Inr encrypted \<Rightarrow> (l, Ok (encrypted, request_id))
          | Inl e \<Rightarrow> (Link_discard_pending_request request_id l, Err e)))"

definition Link_request ::
    "crypto_lib \<Rightarrow> 'v msgpack_lib \<Rightarrow> bytes \<Rightarrow> instant \<Rightarrow> unix_time \<Rightarrow> bytes \<Rightarrow> bytes option \<Rightarrow> duration \<Rightarrow> Link \<Rightarrow>
     Link \<times> (LinkCryptoError, bytes \<times> bytes) result" where
  "Link_request lib mp iv now timestamp path data timeout l =
     encrypt_request lib iv (Link_prepare_request lib mp now timestamp path data timeout l)"

definition Link_request_str ::
    "crypto_lib \<Rightarrow> 'v msgpack_lib \<Rightarrow> bytes \<Rightarrow> instant \<Rightarrow> unix_time \<Rightarrow> bytes \<Rightarrow> bytes \<Rightarrow> duration \<Rightarrow> Link \<Rightarrow>
     Link \<times> (LinkCryptoError, bytes \<times> bytes) result" where
  "Link_request_str lib mp iv now timestamp path data timeout l =
     encrypt_request lib iv (Link_prepare_request_value lib mp now timestamp path (mp_string mp data) timeout l)"

definition Link_mark_request_resource_sending :: "bytes \<Rightarrow> Link \<Rightarrow> Link \<times> bool" where
  "Link_mark_request_resource_sending request_id l =
    (case with_receipt request_id (\<lambda>r. (RequestReceipt_mark_resource_sending r, [])) l of
       None \<Rightarrow> (l, False) | Some l' \<Rightarrow> (l', True))"

definition Link_mark_request_resource_sent :: "instant \<Rightarrow> bytes \<Rightarrow> Link \<Rightarrow> Link \<times> bool" where
  "Link_mark_request_resource_sent now request_id l =
    (case with_receipt request_id (\<lambda>r. (RequestReceipt_mark_resource_sent now r, [])) l of
       None \<Rightarrow> (l, False) | Some l' \<Rightarrow> (l', True))"

definition Link_fail_pending_request :: "bytes \<Rightarrow> Link \<Rightarrow> Link \<times> bool" where
  "Link_fail_pending_request request_id l =
    (case with_receipt request_id RequestReceipt_fail l of
       None \<Rightarrow> (l, False)
     | Some l' \<Rightarrow> (l'\<lparr>l_pending_requests := filter (\<lambda>r. \<not> has_request_id request_id r) (l_pending_requests l')\<rparr>, True))"

definition Link_update_pending_request_id :: "bytes \<Rightarrow> bytes \<Rightarrow> Link \<Rightarrow> Link \<times> bool" where
  "Link_update_pending_request_id old_request_id new_request_id l =
    (case with_receipt old_request_id (\<lambda>r. (r\<lparr>rr_request_id := new_request_id @ replicate 16 0\<rparr>, [])) l of
       None \<Rightarrow> (l, False) | Some l' \<Rightarrow> (l', True))"

definition Link_parse_request ::
    "crypto_lib \<Rightarrow> 'v msgpack_lib \<Rightarrow> bytes \<Rightarrow> (LinkCryptoError, bytes \<times> bytes \<times> f64 \<times> bytes) result" where
  "Link_parse_request lib mp plaintext =
    (let request_id = truncated_hash lib plaintext in
     and_then (ok_or LCE_DecryptionFailed (mp_read mp plaintext)) (\<lambda>(value, _).
     and_then (ok_or LCE_DecryptionFailed (mp_as_array mp value)) (\<lambda>array.
       if length array < 3 then Err LCE_DecryptionFailed
       else and_then (ok_or LCE_DecryptionFailed (mp_as_f64 mp (array ! 0))) (\<lambda>timestamp.
            and_then (ok_or LCE_DecryptionFailed (mp_as_slice mp (array ! 1))) (\<lambda>path_hash.
              if length path_hash \<noteq> 16 then Err LCE_DecryptionFailed
              else and_then (msgpack_value_to_bytes mp (array ! 2)) (\<lambda>data.
                Ok (request_id, path_hash, timestamp, data)))))))"

definition Link_handle_request ::
    "crypto_lib \<Rightarrow> 'v msgpack_lib \<Rightarrow> bytes \<Rightarrow> Link \<Rightarrow> (LinkCryptoError, bytes \<times> bytes \<times> f64 \<times> bytes) result" where
  "Link_handle_request lib mp encrypted_data l =
     and_then (Link_decrypt lib l encrypted_data) (Link_parse_request lib mp)"

definition Link_pack_response :: "'v msgpack_lib \<Rightarrow> bytes \<Rightarrow> bytes \<Rightarrow> (LinkCryptoError, bytes) result" where
  "Link_pack_response mp request_id response_data =
    (let response_value = msgpack_value_from_bytes_or_binary mp response_data;
         array = mp_array mp [mp_binary mp request_id, response_value]
     in ok_or LCE_EncryptionFailed (mp_write mp array))"

definition Link_create_response ::
    "crypto_lib \<Rightarrow> 'v msgpack_lib \<Rightarrow> bytes \<Rightarrow> bytes \<Rightarrow> bytes \<Rightarrow> Link \<Rightarrow> (LinkCryptoError, bytes) result" where
  "Link_create_response lib mp iv request_id response_data l =
     and_then (Link_pack_response mp request_id response_data) (Link_encrypt lib iv l)"

definition Link_parse_response_plaintext ::
    "'v msgpack_lib \<Rightarrow> bytes \<Rightarrow> (LinkCryptoError, bytes \<times> bytes) result" where
  "Link_parse_response_plaintext mp plaintext =
    and_then (ok_or LCE_DecryptionFailed (mp_read mp plaintext)) (\<lambda>(value, _).
    and_then (ok_or LCE_DecryptionFailed (mp_as_array mp value)) (\<lambda>array.
      if length array < 2 then Err LCE_DecryptionFailed
      else and_then (ok_or LCE_DecryptionFailed (mp_as_slice mp (array ! 0))) (\<lambda>id_bytes.
        if length id_bytes \<noteq> 16 then Err LCE_DecryptionFailed
        else and_then (msgpack_value_to_bytes mp (array ! 1)) (\<lambda>response_data.
          Ok (id_bytes, response_data)))))"

definition Link_deliver_response_data :: "instant \<Rightarrow> bytes \<Rightarrow> bytes \<Rightarrow> Link \<Rightarrow> Link \<times> bool" where
  "Link_deliver_response_data now request_id response_data l =
    (case with_receipt request_id (RequestReceipt_receive_response now response_data) l of
       None \<Rightarrow> (l, False)
     | Some l' \<Rightarrow> (l'\<lparr>l_pending_requests := filter (\<lambda>r. \<not> has_request_id request_id r) (l_pending_requests l')\<rparr>, True))"

definition Link_handle_response_plaintext ::
    "'v msgpack_lib \<Rightarrow> instant \<Rightarrow> bytes \<Rightarrow> Link \<Rightarrow> Link \<times> (LinkCryptoError, bytes \<times> bytes) result" where
  "Link_handle_response_plaintext mp now plaintext l =
    (case Link_parse_response_plaintext mp plaintext of
       Inl e \<Rightarrow> (l, Err e)
     | Inr (request_id, response_data) \<Rightarrow>
         (fst (Link_deliver_response_data now request_id response_data l), Ok (request_id, response_data)))"

definition Link_handle_response ::
    "crypto_lib \<Rightarrow> 'v msgpack_lib \<Rightarrow> instant \<Rightarrow> bytes \<Rightarrow> Link \<Rightarrow> Link \<times> (LinkCryptoError, bytes \<times> bytes) result" where
  "Link_handle_response lib mp now encrypted_data l =
    (case Link_decrypt lib l encrypted_data of
       Inl e \<Rightarrow> (l, Err e)
     | Inr plaintext \<Rightarrow> Link_handle_response_plaintext mp now plaintext l)"

subsection \<open>Round-trip times\<close>

definition Link_update_rtt_from_packet ::
    "crypto_lib \<Rightarrow> 'v msgpack_lib \<Rightarrow> real \<Rightarrow> bytes \<Rightarrow> Link \<Rightarrow> Link \<times> (LinkCryptoError, duration) result" where
  "Link_update_rtt_from_packet lib mp jitter encrypted_data l =
    (case and_then (Link_decrypt lib l encrypted_data) (\<lambda>plaintext.
            and_then (ok_or LCE_DecryptionFailed (read_f64 mp plaintext)) (\<lambda>peer_rtt.
              case (peer_reported_rtt peer_rtt, l_rtt l) of
                (Some peer, Some existing) \<Rightarrow> Ok (max peer existing)
              | (Some peer, None) \<Rightarrow> Ok peer
              | (None, existing) \<Rightarrow> ok_or LCE_DecryptionFailed existing)) of
       Inl e \<Rightarrow> (l, Err e)
     | Inr rtt \<Rightarrow> (l\<lparr>l_rtt := Some rtt,
                      l_keepalive := KeepaliveState_update_from_rtt jitter rtt (l_keepalive l)\<rparr>, Ok rtt))"

definition Link_rtt_secs :: "Link \<Rightarrow> real" where
  "Link_rtt_secs l = (case l_rtt l of Some r \<Rightarrow> as_secs_f64 r | None \<Rightarrow> 0)"

definition Link_create_rtt_packet ::
    "crypto_lib \<Rightarrow> 'v msgpack_lib \<Rightarrow> bytes \<Rightarrow> Link \<Rightarrow> (LinkCryptoError, bytes) result" where
  "Link_create_rtt_packet lib mp iv l =
     and_then (ok_or LCE_EncryptionFailed (mp_write mp (mp_f64 mp (Fin (Link_rtt_secs l))))) (Link_encrypt lib iv l)"

definition Link_packet_proof_timeout :: "Link \<Rightarrow> duration" where
  "Link_packet_proof_timeout l =
    (let rtt = (case l_rtt l of Some r \<Rightarrow> r | None \<Rightarrow> 500 * 10 ^ 6)
     in max (duration_saturating_mul rtt TRAFFIC_TIMEOUT_FACTOR) (5 * 10 ^ 6))"

definition Link_default_request_timeout :: "Link \<Rightarrow> duration" where
  "Link_default_request_timeout l =
    (let rtt = (case l_rtt l of Some r \<Rightarrow> r | None \<Rightarrow> secs 1)
     in duration_saturating_add (duration_saturating_mul rtt TRAFFIC_TIMEOUT_FACTOR)
          (from_secs_f64 (RESPONSE_MAX_GRACE_TIME * (1125 / 1000))))"

subsection \<open>Packet proofs\<close>

definition Link_ensure_packet_proof_state :: "Link \<Rightarrow> (PacketProofError, unit) result" where
  "Link_ensure_packet_proof_state l =
    (let allowed = l_state l \<in> {LS_Active, LS_Stale} \<or> (Link_role l = Responder \<and> l_state l = LS_Handshake)
     in if allowed then Ok () else Err (PPE_InvalidState (l_state l)))"

definition Link_encode_packet_proof :: "bytes \<Rightarrow> bytes option \<Rightarrow> Link \<Rightarrow> (PacketProofError, bytes) result" where
  "Link_encode_packet_proof hash signature l =
    and_then (Link_ensure_packet_proof_state l) (\<lambda>_.
    and_then (ok_or PPE_SignerUnavailable signature) (\<lambda>sig. Ok (hash @ sig)))"

definition Link_prove_packet_with_local_signer :: "curve_lib \<Rightarrow> bytes \<Rightarrow> Link \<Rightarrow> (PacketProofError, bytes) result" where
  "Link_prove_packet_with_local_signer cl hash l =
    and_then (Link_ensure_packet_proof_state l) (\<lambda>_.
      let signature = (case Link_role l of
             Initiator \<Rightarrow> map_option (\<lambda>keys. ed_sign cl (ek_ed25519_prv keys) hash) (l_ephemeral_keys l)
           | Responder \<Rightarrow> map_option (\<lambda>key. ed_sign cl key hash) (l_responder_identity_signing_key l))
      in Link_encode_packet_proof hash signature l)"

definition Link_prove_responder_packet_with ::
    "bytes \<Rightarrow> (bytes \<Rightarrow> bytes option) \<Rightarrow> Link \<Rightarrow> (PacketProofError, bytes) result" where
  "Link_prove_responder_packet_with hash sign_fn l =
    (if Link_role l \<noteq> Responder then Err PPE_WrongRole
     else and_then (Link_ensure_packet_proof_state l) (\<lambda>_.
       Link_encode_packet_proof hash (sign_fn hash) l))"

definition Link_validate_peer_packet_proof ::
    "curve_lib \<Rightarrow> bytes \<Rightarrow> bytes \<Rightarrow> Link \<Rightarrow> (PacketProofError, unit) result" where
  "Link_validate_peer_packet_proof cl hash proof_data l =
    (if length proof_data \<noteq> 96 then Err PPE_MalformedProof
     else if take 32 proof_data \<noteq> hash then Err PPE_HashMismatch
     else
       let signature = drop 32 proof_data in
       and_then (ok_or PPE_PeerKeyUnavailable (l_peer_packet_proof_key l)) (\<lambda>peer_key.
       and_then (map_err (\<lambda>_. PPE_PeerKeyUnavailable) (Ed25519PublicKey_from_bytes cl peer_key)) (\<lambda>verify_key.
         map_err (\<lambda>_. PPE_InvalidSignature) (Ed25519PublicKey_verify cl verify_key hash signature))))"

definition Link_validate_packet_proof :: "curve_lib \<Rightarrow> bytes \<Rightarrow> bytes \<Rightarrow> Link \<Rightarrow> bool" where
  "Link_validate_packet_proof cl hash proof_data l =
     (Link_validate_peer_packet_proof cl hash proof_data l = Ok ())"

definition Link_set_signing_key :: "bytes \<Rightarrow> Link \<Rightarrow> Link" where
  "Link_set_signing_key key l =
    (if Link_role l = Responder then l\<lparr>l_responder_identity_signing_key := Some key\<rparr> else l)"

definition Link_sign :: "curve_lib \<Rightarrow> bytes \<Rightarrow> Link \<Rightarrow> bytes option" where
  "Link_sign cl message l = map_option (\<lambda>key. ed_sign cl key message) (l_responder_identity_signing_key l)"

definition Link_validate :: "curve_lib \<Rightarrow> bytes \<Rightarrow> bytes \<Rightarrow> Link \<Rightarrow> bool" where
  "Link_validate cl signature message l =
    (case l_peer_packet_proof_key l of
       None \<Rightarrow> False
     | Some peer_pub_bytes \<Rightarrow>
         if length signature \<noteq> 64 then False
         else case Ed25519PublicKey_from_bytes cl peer_pub_bytes of
           Inr pub_key \<Rightarrow> Ed25519PublicKey_verify cl pub_key message signature = Ok ()
         | Inl _ \<Rightarrow> False)"

subsection \<open>Resources, counters and measurements\<close>

definition Link_mark_channel_created :: "Link \<Rightarrow> Link" where
  "Link_mark_channel_created l = l\<lparr>l_has_channel := True\<rparr>"

definition Link_set_resource_strategy :: "ResourceStrategy \<Rightarrow> Link \<Rightarrow> Link" where
  "Link_set_resource_strategy strategy l = l\<lparr>l_resource_strategy := strategy\<rparr>"

definition Link_should_accept_resource :: "Link \<Rightarrow> ResourceAcceptance" where
  "Link_should_accept_resource l =
    (case l_resource_strategy l of AcceptNone \<Rightarrow> RA_Reject | AcceptAll \<Rightarrow> RA_Accept | AcceptApp \<Rightarrow> RA_AskApp)"

definition Link_track_incoming_resource :: "bytes \<Rightarrow> Link \<Rightarrow> Link" where
  "Link_track_incoming_resource h l = l\<lparr>l_incoming_resources := l_incoming_resources l @ [h]\<rparr>"

definition Link_track_outgoing_resource :: "bytes \<Rightarrow> Link \<Rightarrow> Link" where
  "Link_track_outgoing_resource h l = l\<lparr>l_outgoing_resources := l_outgoing_resources l @ [h]\<rparr>"

definition Link_untrack_resource :: "bytes \<Rightarrow> Link \<Rightarrow> Link" where
  "Link_untrack_resource h l =
     l\<lparr>l_incoming_resources := filter (\<lambda>x. x \<noteq> h) (l_incoming_resources l),
       l_outgoing_resources := filter (\<lambda>x. x \<noteq> h) (l_outgoing_resources l)\<rparr>"

definition Link_record_tx :: "instant \<Rightarrow> nat \<Rightarrow> Link \<Rightarrow> Link" where
  "Link_record_tx now bytes l =
     l\<lparr>l_tx_bytes := l_tx_bytes l + word_of_nat bytes, l_tx_count := l_tx_count l + 1,
       l_keepalive := KeepaliveState_record_outbound now (l_keepalive l)\<rparr>"

definition Link_record_tx_keepalive :: "instant \<Rightarrow> nat \<Rightarrow> Link \<Rightarrow> Link" where
  "Link_record_tx_keepalive now bytes l =
     l\<lparr>l_tx_bytes := l_tx_bytes l + word_of_nat bytes, l_tx_count := l_tx_count l + 1,
       l_keepalive := KeepaliveState_record_keepalive_outbound now (l_keepalive l)\<rparr>"

definition Link_should_respond_to_keepalive :: "instant \<Rightarrow> Link \<Rightarrow> bool" where
  "Link_should_respond_to_keepalive now l = KeepaliveState_should_respond_to_keepalive_at now (l_keepalive l)"

definition Link_record_rx :: "nat \<Rightarrow> Link \<Rightarrow> Link" where
  "Link_record_rx bytes l =
     l\<lparr>l_rx_bytes := l_rx_bytes l + word_of_nat bytes, l_rx_count := l_rx_count l + 1\<rparr>"

definition Link_set_track_phy_stats :: "bool \<Rightarrow> Link \<Rightarrow> Link" where
  "Link_set_track_phy_stats track l = l\<lparr>l_track_phy_stats := track\<rparr>"

definition or_else :: "'a option \<Rightarrow> 'a option \<Rightarrow> 'a option" where
  "or_else a b = (case a of Some x \<Rightarrow> Some x | None \<Rightarrow> b)"

definition Link_update_phy_stats_force :: "f64 option \<Rightarrow> f64 option \<Rightarrow> f64 option \<Rightarrow> Link \<Rightarrow> Link" where
  "Link_update_phy_stats_force rssi snr q l =
     l\<lparr>l_rssi := or_else rssi (l_rssi l), l_snr := or_else snr (l_snr l), l_q := or_else q (l_q l)\<rparr>"

definition Link_update_phy_stats :: "f64 option \<Rightarrow> f64 option \<Rightarrow> f64 option \<Rightarrow> Link \<Rightarrow> Link" where
  "Link_update_phy_stats rssi snr q l =
    (if \<not> l_track_phy_stats l then l else Link_update_phy_stats_force rssi snr q l)"

definition Link_phy_stats :: "Link \<Rightarrow> f64 option \<times> f64 option \<times> f64 option" where
  "Link_phy_stats l = (if l_track_phy_stats l then (l_rssi l, l_snr l, l_q l) else (None, None, None))"

definition Link_get_mtu :: "Link \<Rightarrow> u32 option" where
  "Link_get_mtu l = (if l_state l = LS_Active then Some (l_mtu l) else None)"

definition Link_get_mdu :: "Link \<Rightarrow> nat option" where
  "Link_get_mdu l = (if l_state l = LS_Active then Some (l_mdu l) else None)"

definition Link_get_expected_rate :: "Link \<Rightarrow> real option" where
  "Link_get_expected_rate l = (if l_state l = LS_Active then l_expected_rate l else None)"

definition Link_inactive_for :: "instant \<Rightarrow> Link \<Rightarrow> duration" where
  "Link_inactive_for now l =
    (let k = l_keepalive l;
         last_outbound = (case ka_last_outbound k of Some t \<Rightarrow> t | None \<Rightarrow> ka_last_inbound k);
         last = (if last_outbound > ka_last_inbound k then last_outbound else ka_last_inbound k)
     in duration_since now last)"

definition Link_add_establishment_cost :: "nat \<Rightarrow> Link \<Rightarrow> Link" where
  "Link_add_establishment_cost bytes l = l\<lparr>l_establishment_cost := l_establishment_cost l + bytes\<rparr>"

definition is_settled :: "OutboundResourceState \<Rightarrow> bool" where
  "is_settled s \<longleftrightarrow> s \<in> {OR_AwaitingProof, OR_Complete, OR_Failed}"

text \<open>\<open>transfer_duration_secs.max(0.0001)\<close> takes the second operand when the first is NaN; an infinite
  duration gives the rate zero.\<close>

fun clamped_secs :: "f64 \<Rightarrow> real option" where
  "clamped_secs (Fin d) = Some (max d (1 / 10000))"
| "clamped_secs PosInf = None"
| "clamped_secs _ = Some (1 / 10000)"

definition Link_resource_concluded :: "nat \<Rightarrow> f64 \<Rightarrow> bool \<Rightarrow> Link \<Rightarrow> Link" where
  "Link_resource_concluded resource_size transfer_duration_secs is_incoming l =
    (let rate = (case clamped_secs transfer_duration_secs of
                   Some d \<Rightarrow> real resource_size * 8 / d | None \<Rightarrow> 0);
         l = l\<lparr>l_expected_rate := Some rate\<rparr>
     in if is_incoming then
          (if l_incoming_resource_count l > 0
           then l\<lparr>l_incoming_resource_count := l_incoming_resource_count l - 1\<rparr> else l)
        else case position is_settled (l_outgoing_resource_states l) of
          Some pos \<Rightarrow> l\<lparr>l_outgoing_resource_states :=
             take pos (l_outgoing_resource_states l) @ drop (Suc pos) (l_outgoing_resource_states l)\<rparr>
        | None \<Rightarrow> l)"

definition Link_register_outgoing_resource :: "Link \<Rightarrow> Link" where
  "Link_register_outgoing_resource l =
     l\<lparr>l_outgoing_resource_states := l_outgoing_resource_states l @ [OR_Transferring]\<rparr>"

definition Link_register_incoming_resource :: "Link \<Rightarrow> Link" where
  "Link_register_incoming_resource l = l\<lparr>l_incoming_resource_count := l_incoming_resource_count l + 1\<rparr>"

definition Link_update_outgoing_resource_state :: "nat \<Rightarrow> OutboundResourceState \<Rightarrow> Link \<Rightarrow> Link" where
  "Link_update_outgoing_resource_state index state l =
    (if index < length (l_outgoing_resource_states l)
     then l\<lparr>l_outgoing_resource_states := (l_outgoing_resource_states l)[index := state]\<rparr> else l)"

definition Link_ready_for_new_resource :: "Link \<Rightarrow> bool" where
  "Link_ready_for_new_resource l =
    (if l_outgoing_resource_states l = [] then True
     else list_all is_settled (l_outgoing_resource_states l))"

definition Link_classify_request :: "bytes \<Rightarrow> Link \<Rightarrow> RequestSendMode" where
  "Link_classify_request packed_request l =
    (if length packed_request \<le> l_mdu l then SM_Packet packed_request else SM_Resource packed_request)"

subsection \<open>Closing and the timer tick\<close>

definition Link_purge_keys :: "Link \<Rightarrow> Link" where
  "Link_purge_keys l = l\<lparr>l_ephemeral_keys := None, l_session_keys := None, l_peer_x25519_pub := None,
     l_peer_packet_proof_key := None, l_responder_identity_signing_key := None\<rparr>"

text \<open>The events of an operation applied to each receipt in order.\<close>

definition receipts_log ::
    "(RequestReceipt \<Rightarrow> RequestReceipt \<times> request_event list) \<Rightarrow> RequestReceipt list \<Rightarrow> (bytes \<times> request_event) list" where
  "receipts_log f rs = concat (map (\<lambda>r. map (Pair (rr_request_id r)) (snd (f r))) rs)"

definition Link_close :: "CloseReason \<Rightarrow> Link \<Rightarrow> Link" where
  "Link_close reason l =
    (let l = l\<lparr>l_teardown_reason := Some reason,
               l_log := l_log l @ receipts_log RequestReceipt_fail (l_pending_requests l),
               l_pending_requests := [], l_state := LS_Closed\<rparr>
     in Link_purge_keys l)"

definition Link_mark_closed :: "CloseReason \<Rightarrow> Link \<Rightarrow> Link" where
  "Link_mark_closed reason l = (if l_state l \<noteq> LS_Closed then Link_close reason l else l)"

definition Link_teardown :: "crypto_lib \<Rightarrow> bytes \<Rightarrow> CloseReason \<Rightarrow> Link \<Rightarrow> Link \<times> bytes option" where
  "Link_teardown lib iv reason l =
    (if l_state l = LS_Closed then (l, None)
     else let teardown_data = (case Link_encrypt lib iv l (l_link_id l) of Inr d \<Rightarrow> Some d | Inl _ \<Rightarrow> None)
          in (Link_close reason l, teardown_data))"

definition Link_receive_teardown :: "crypto_lib \<Rightarrow> bytes \<Rightarrow> Link \<Rightarrow> Link \<times> bool" where
  "Link_receive_teardown lib encrypted_data l =
    (case Link_decrypt lib l encrypted_data of
       Inr plaintext \<Rightarrow>
         if length plaintext \<ge> 16 \<and> take 16 plaintext = l_link_id l
         then (Link_close CR_DestinationClosed l, True) else (l, False)
     | Inl _ \<Rightarrow> (l, False))"

definition Link_record_inbound :: "instant \<Rightarrow> Link \<Rightarrow> Link" where
  "Link_record_inbound now l =
    (let l = l\<lparr>l_keepalive := KeepaliveState_record_inbound now (l_keepalive l)\<rparr>
     in if l_state l = LS_Stale then l\<lparr>l_state := LS_Active, l_stale_since := None\<rparr> else l)"

text \<open>
  \<open>tick_at\<close>: the receipts read the clock themselves, at \<open>clock\<close>; the rest of the step uses \<open>now\<close>.
\<close>

definition Link_expire_requests :: "instant \<Rightarrow> Link \<Rightarrow> Link" where
  "Link_expire_requests clock l =
    (let checked = map (\<lambda>r. fst (RequestReceipt_check_timeout clock r)) (l_pending_requests l)
     in l\<lparr>l_log := l_log l @ receipts_log (\<lambda>r. let (r', ev, _) = RequestReceipt_check_timeout clock r in (r', ev))
                                 (l_pending_requests l),
          l_pending_requests := filter (\<lambda>r. \<not> RequestReceipt_concluded r) checked\<rparr>)"

definition Link_tick_at :: "crypto_lib \<Rightarrow> bytes \<Rightarrow> instant \<Rightarrow> instant \<Rightarrow> Link \<Rightarrow> Link \<times> LinkAction" where
  "Link_tick_at lib iv clock now l =
    (let l = Link_expire_requests clock l in
     case l_state l of
       LS_Pending \<Rightarrow>
         if duration_since now (l_request_time l) > l_establishment_timeout l
         then (Link_close CR_Timeout l, LA_Closed CR_Timeout) else (l, LA_None)
     | LS_Handshake \<Rightarrow>
         if duration_since now (l_request_time l) > l_establishment_timeout l
         then (Link_close CR_Timeout l, LA_Closed CR_Timeout) else (l, LA_None)
     | LS_Active \<Rightarrow>
         if KeepaliveState_should_send_keepalive_at now (l_keepalive l)
         then (l\<lparr>l_keepalive := KeepaliveState_mark_keepalive_sent_at now (l_keepalive l)\<rparr>, LA_SendKeepalive)
         else if KeepaliveState_is_stale_at now (l_keepalive l)
         then (l\<lparr>l_state := LS_Stale, l_stale_since := Some now\<rparr>, LA_TransitionedToStale)
         else (l, LA_None)
     | LS_Stale \<Rightarrow>
         let rtt = (case l_rtt l of Some r \<Rightarrow> r | None \<Rightarrow> secs 1);
             grace = KeepaliveState_stale_grace_timeout rtt
         in (case l_stale_since l of
               Some stale_since \<Rightarrow>
                 if duration_since now stale_since \<ge> grace
                 then let teardown_data = (case Link_encrypt lib iv l (l_link_id l) of Inr d \<Rightarrow> d | Inl _ \<Rightarrow> [])
                      in (Link_close CR_Timeout l, LA_SendTeardownAndClose teardown_data)
                 else (l, LA_None)
             | None \<Rightarrow> (l, LA_None))
     | LS_Closed \<Rightarrow> (l, LA_None))"

subsection \<open>Establishing a link\<close>

lemma base_mtu: "LinkMtu_try_from_signal (Some 500) = Ok LinkMtu_BASE" "LinkMtu_get LinkMtu_BASE = 500"
  "LinkMtu_checked_mdu LinkMtu_BASE = Ok 431"
  by (simp_all add: LinkMtu_try_from_signal_def BASE_LINK_MTU_def LinkMtu_BASE_def MAX_SIGNALLED_LINK_MTU_def
      LinkMtu_checked_mdu_eq)

lemma default_signalling_fields: "sd_mode default_signalling = 1" "sd_mtu default_signalling = 500"
  by (simp_all add: default_signalling_def SignallingData_new_def handshake_constants MTU_def MAX_SIGNALLED_LINK_MTU_def)

lemma curve_lengths:
  assumes "curve_lib_ok cl"
  shows "length (x_public cl a) = 32" "length (ed_verifying_key cl s) = 32" "length (ed_sign cl s m) = 64"
    "ed_verify cl (ed_verifying_key cl s) m (ed_sign cl s m)" "ed_decode cl (ed_verifying_key cl s)"
  using assms unfolding curve_lib_ok_def by blast+

lemma new_initiator_fields:
  assumes "Link_new_initiator lib cl ks now j dest hops = (l, req)"
  shows "req = LinkRequestData_pack ks default_signalling" "l_link_id l = compute_link_id lib dest req"
    "l_state l = LS_Pending" "l_is_initiator l" "l_offered_mode l = 1" "l_offered_mtu l = LinkMtu_BASE"
    "l_ephemeral_keys l = Some ks" "l_session_keys l = None" "l_teardown_reason l = None"
    "l_remote_identity_pub l = None" "\<not> l_identified l" "l_pending_requests l = []"
  using assms by (auto simp: Link_new_initiator_def Let_def default_signalling_def handshake_constants)

text \<open>The link and the proof of a responder that accepts a well-formed base request.\<close>

lemma new_responder_accepts:
  assumes "hkdf_lib_ok lib" and "curve_lib_ok cl" and "length (ek_x25519_pub ks) = 32" and "length (ek_ed25519_pub ks) = 32"
    and "req = LinkRequestData_pack ks default_signalling" and "lid = compute_link_id lib dest req"
  shows "\<exists>l keys. Link_new_responder lib cl rk now j req seed dest hops = Ok (l,
      LinkProofData_pack \<lparr>lp_signature = ed_sign cl seed (lid @ ek_x25519_pub rk @ ed_verifying_key cl seed @ SignallingData_pack default_signalling),
        lp_responder_x25519_pub = ek_x25519_pub rk, lp_signalling = default_signalling\<rparr>)
    \<and> perform_handshake lib cl (ek_x25519_prv rk) (ek_x25519_pub ks) lid 1 = Ok keys
    \<and> l_session_keys l = Some keys \<and> l_state l = LS_Handshake \<and> l_link_id l = lid \<and> l_mtu l = 500 \<and> l_mode l = 1
    \<and> \<not> l_is_initiator l \<and> keys_ok keys"
proof -
  obtain keys where keys: "perform_handshake lib cl (ek_x25519_prv rk) (ek_x25519_pub ks) lid 1 = Ok keys" "keys_ok keys"
    using perform_handshake_mode1 [OF assms(1), of cl "ek_x25519_prv rk" "ek_x25519_pub ks" lid]
    by (auto simp: MODE_AES256_CBC_def keys_ok_def)
  have un: "LinkRequestData_unpack req = Ok \<lparr>lr_peer_x25519_pub = ek_x25519_pub ks,
      lr_peer_ed25519_pub = ek_ed25519_pub ks, lr_signalling = default_signalling\<rparr>"
    unfolding assms(5) by (rule LinkRequestData_unpack_pack [OF default_signalling_new assms(3,4)])
  show ?thesis
    using keys assms(6)
    by (simp add: Link_new_responder_def Link_new_responder_inner_def un default_signalling_fields base_mtu
        default_signalling_new Let_def handshake_constants)
qed

lemma validate_proof_accepts:
  assumes "cipher_lib_ok lib" and "curve_lib_ok cl" and "length iv = 16"
    and "l_state l = LS_Pending" and "l_offered_mode l = 1" and "l_offered_mtu l = LinkMtu_BASE"
    and "l_ephemeral_keys l = Some ks" and "length rpub = 32"
    and "perform_handshake lib cl (ek_x25519_prv ks) rpub (l_link_id l) 1 = Ok keys" and "keys_ok keys"
    and "\<forall>x. mp_write mp (mp_f64 mp x) \<noteq> None"
    and "proof = \<lparr>lp_signature = ed_sign cl seed (l_link_id l @ rpub @ ed_verifying_key cl seed @ SignallingData_pack default_signalling),
        lp_responder_x25519_pub = rpub, lp_signalling = default_signalling\<rparr>"
  shows "\<exists>l' enc b. Link_validate_proof lib cl mp iv now j (LinkProofData_pack proof) (ed_verifying_key cl seed)
        (ed_verifying_key cl seed) l = (l', Ok enc)
    \<and> link_encrypt lib iv keys b = Ok enc \<and> l_state l' = LS_Active \<and> l_session_keys l' = Some keys
    \<and> l_link_id l' = l_link_id l \<and> l_mtu l' = 500 \<and> l_mode l' = 1 \<and> l_mdu l' = 431"
proof -
  have sg: "length (lp_signature proof) = 64" "length (lp_responder_x25519_pub proof) = 32"
    "SignallingData_try_new 1 500 = Ok (lp_signalling proof)"
    using assms(8,12) curve_lengths(3) [OF assms(2)] default_signalling_new by simp_all
  note up = LinkProofData_unpack_pack [OF sg(3) sg(1,2)]
  have tail: "drop 96 (LinkProofData_pack proof) = SignallingData_pack default_signalling"
    using sg assms(12) by (simp add: LinkProofData_pack_def)
  have mtu: "LinkMtu (sd_mtu (lp_signalling proof)) = LinkMtu_BASE"
    using assms(12) by (simp add: default_signalling_fields LinkMtu_BASE_def BASE_LINK_MTU_def)
  have ver: "Ed25519PublicKey_verify cl (ed_verifying_key cl seed)
      (l_link_id l @ rpub @ ed_verifying_key cl seed @ SignallingData_pack default_signalling) (lp_signature proof) = Ok ()"
    using assms(12) curve_lengths(4) [OF assms(2)] by (simp add: Ed25519PublicKey_verify_def)
  obtain b where b: "mp_write mp (mp_f64 mp (Fin (as_secs_f64 (duration_since now (l_request_time l))))) = Some b"
    using assms(11) by blast
  obtain enc where enc: "link_encrypt lib iv keys b = Ok enc"
    using link_encrypt_decrypt [OF assms(1,3,10)] by blast
  have rp: "lp_responder_x25519_pub proof = rpub" using assms(12) by simp
  show ?thesis
    using assms(4-7,9) b enc
    by (simp add: Link_validate_proof_def up tail mtu ver rp base_mtu handshake_constants Let_def) blast
qed

lemma receive_rtt_accepts:
  assumes "cipher_lib_ok lib" and "length iv = 16" and "keys_ok keys" and "link_encrypt lib iv keys b = Ok enc"
    and "l_state l = LS_Handshake" and "l_mtu l = 500" and "l_session_keys l = Some keys"
  shows "\<exists>l'. Link_receive_rtt_packet lib mp now j enc l = (l', Ok ())
    \<and> l_state l' = LS_Active \<and> l_session_keys l' = Some keys \<and> l_link_id l' = l_link_id l
    \<and> l_mtu l' = l_mtu l \<and> l_mode l' = l_mode l \<and> l_mdu l' = 431"
proof -
  have "link_decrypt lib keys enc = Ok b"
    using link_encrypt_decrypt [OF assms(1-3), of b] assms(4) by auto
  then show ?thesis
    using assms(5-7)
    by (simp add: Link_receive_rtt_packet_def base_mtu Link_decrypt_def Let_def split: option.split)
qed

lemma same_keys_traffic:
  assumes "cipher_lib_ok lib" and "length iv = 16" and "l_session_keys a = Some keys" and "l_session_keys b = Some keys"
    and "keys_ok keys"
  shows "\<exists>t. Link_encrypt lib iv a p = Ok t \<and> Link_decrypt lib b t = Ok p"
  using link_encrypt_decrypt [OF assms(1,2,5), of p] assms(3,4)
  by (auto simp: Link_encrypt_def Link_decrypt_def)

text \<open>
  C10: the three-message handshake establishes a link. With the request of an initiator, a responder that holds
  the destination's identity key produces a proof; the initiator accepts that proof and produces the
  round-trip packet; the responder accepts that packet. Both ends are then active with the same
  link id, session keys, cipher mode, MTU and payload budget, and everything either end encrypts
  is decrypted unchanged by the other.
\<close>

theorem link_handshake_establishes:
  fixes mp :: "'v msgpack_lib"
  assumes "cipher_lib_ok lib" and "hkdf_lib_ok lib" and "curve_lib_ok cl"
    and "\<forall>x. mp_write mp (mp_f64 mp x) \<noteq> None" and "length iv = 16"
  shows "let (i0, req) = Link_new_initiator lib cl (EphemeralKeys_generate cl xi ei) t0 j0 dest hops in
    \<exists>r0 prf i1 enc r1.
      Link_new_responder lib cl (EphemeralKeys_generate cl xr er) t1 j1 req seed dest hops' = Ok (r0, prf)
      \<and> Link_validate_proof lib cl mp iv t2 j2 prf (ed_verifying_key cl seed) (ed_verifying_key cl seed) i0 = (i1, Ok enc)
      \<and> Link_receive_rtt_packet lib mp t3 j3 enc r0 = (r1, Ok ())
      \<and> l_state i1 = LS_Active \<and> l_state r1 = LS_Active \<and> l_link_id i1 = l_link_id r1
      \<and> l_session_keys i1 = l_session_keys r1 \<and> l_mode i1 = l_mode r1 \<and> l_mtu i1 = l_mtu r1 \<and> l_mdu i1 = l_mdu r1
      \<and> (\<exists>t. Link_encrypt lib iv i1 p = Ok t \<and> Link_decrypt lib r1 t = Ok p)
      \<and> (\<exists>t. Link_encrypt lib iv r1 p = Ok t \<and> Link_decrypt lib i1 t = Ok p)"
proof -
  define ki where "ki = EphemeralKeys_generate cl xi ei"
  define kr where "kr = EphemeralKeys_generate cl xr er"
  have k: "ek_x25519_prv ki = xi" "ek_x25519_pub ki = x_public cl xi" "ek_ed25519_pub ki = ed_verifying_key cl ei"
    "ek_x25519_prv kr = xr" "ek_x25519_pub kr = x_public cl xr"
    by (simp_all add: ki_def kr_def EphemeralKeys_generate_def)
  obtain i0 req where ini: "Link_new_initiator lib cl ki t0 j0 dest hops = (i0, req)" by fastforce
  note i0 = new_initiator_fields [OF ini]
  have len: "length (ek_x25519_pub ki) = 32" "length (ek_ed25519_pub ki) = 32"
    by (simp_all add: k curve_lengths [OF assms(3)])
  obtain r0 keys where r0: "Link_new_responder lib cl kr t1 j1 req seed dest hops' = Ok (r0,
      LinkProofData_pack \<lparr>lp_signature = ed_sign cl seed (l_link_id i0 @ x_public cl xr @ ed_verifying_key cl seed @ SignallingData_pack default_signalling),
        lp_responder_x25519_pub = x_public cl xr, lp_signalling = default_signalling\<rparr>)" (is "_ = Ok (_, LinkProofData_pack ?prf)")
    "perform_handshake lib cl xr (x_public cl xi) (l_link_id i0) 1 = Ok keys"
    "l_session_keys r0 = Some keys" "l_state r0 = LS_Handshake" "l_link_id r0 = l_link_id i0" "l_mtu r0 = 500"
    "l_mode r0 = 1" "keys_ok keys"
    using new_responder_accepts [OF assms(2,3) len i0(1,2), of kr t1 j1 seed hops'] unfolding k by blast
  have hs: "perform_handshake lib cl (ek_x25519_prv ki) (x_public cl xr) (l_link_id i0) 1 = Ok keys"
    using r0(2) perform_handshake_agree [OF assms(3), of lib xi xr] by (simp add: k)
  obtain i1 enc b where i1: "Link_validate_proof lib cl mp iv t2 j2 (LinkProofData_pack ?prf) (ed_verifying_key cl seed)
        (ed_verifying_key cl seed) i0 = (i1, Ok enc)" "link_encrypt lib iv keys b = Ok enc" "l_state i1 = LS_Active"
      "l_session_keys i1 = Some keys" "l_link_id i1 = l_link_id i0" "l_mtu i1 = 500" "l_mode i1 = 1" "l_mdu i1 = 431"
    using validate_proof_accepts [OF assms(1,3,5) i0(3,5,6,7) curve_lengths(1) [OF assms(3)] hs r0(8) assms(4) refl] by blast
  obtain r1 where r1: "Link_receive_rtt_packet lib mp t3 j3 enc r0 = (r1, Ok ())" "l_state r1 = LS_Active"
      "l_session_keys r1 = Some keys" "l_link_id r1 = l_link_id r0" "l_mtu r1 = l_mtu r0" "l_mode r1 = l_mode r0" "l_mdu r1 = 431"
    using receive_rtt_accepts [OF assms(1,5) r0(8) i1(2) r0(4,6,3), of mp t3 j3] by blast
  note traffic = same_keys_traffic [OF assms(1,5) i1(4) r1(3) r0(8), of p] same_keys_traffic [OF assms(1,5) r1(3) i1(4) r0(8), of p]
  show ?thesis
    unfolding ki_def [symmetric] kr_def [symmetric] ini prod.case Let_def
    by (rule exI [of _ r0], rule exI [of _ "LinkProofData_pack ?prf"], rule exI [of _ i1], rule exI [of _ enc],
        rule exI [of _ r1]) (simp add: r0 i1 r1 traffic)
qed

definition example_msgpack :: "bytes msgpack_lib" where
  "example_msgpack = \<lparr>mp_nil = [], mp_f64 = (\<lambda>_. [1]), mp_binary = id, mp_string = id, mp_array = concat,
     mp_as_f64 = (\<lambda>_. None), mp_as_slice = Some, mp_as_str = Some, mp_as_array = (\<lambda>_. None), mp_write = Some,
     mp_read = (\<lambda>b. Some (b, length b))\<rparr>"

theorem link_handshake_establishes_witness:
  "let (i0, req) = Link_new_initiator example_lib example_curve (EphemeralKeys_generate example_curve [1] [2]) 0 0
         (replicate 16 7) 3 in
     \<exists>r0 prf i1 enc. Link_new_responder example_lib example_curve (EphemeralKeys_generate example_curve [3] [4]) 5 0
           req [9] (replicate 16 7) 3 = Ok (r0, prf)
       \<and> Link_validate_proof example_lib example_curve example_msgpack (replicate 16 0) 10 0 prf
           (ed_verifying_key example_curve [9]) (ed_verifying_key example_curve [9]) i0 = (i1, Ok enc)
       \<and> l_state i1 = LS_Active"
proof -
  have "\<forall>x. mp_write example_msgpack (mp_f64 example_msgpack x) \<noteq> None" by (simp add: example_msgpack_def)
  note est = link_handshake_establishes [OF example_lib_ok example_hkdf_ok example_curve_ok this, of "replicate 16 0"
      "[1]" "[2]" 0 0 "replicate 16 7" 3 "[3]" "[4]" 5 0 "[9]" 3 10 0 20 0 "[]"]
  obtain i0 req where ini: "Link_new_initiator example_lib example_curve (EphemeralKeys_generate example_curve [1] [2]) 0 0
         (replicate 16 7) 3 = (i0, req)" by fastforce
  show ?thesis
    using est unfolding ini Let_def prod.case by auto
qed

text \<open>
  C8: a link proof authenticates the destination. The initiator accepts a proof only in the pending state, only if
  its signature verifies under the given identity key over the link id, the responder's key, the identity
  key and the signalling bytes exactly as received, only for the mode it offered, which is the one
  enabled mode, and only for an MTU within its offer; the session keys are then those derived from
  its ephemeral key and the signed responder key. Every refusal leaves the link as it was.
\<close>

theorem link_proof_authentic:
  "case Link_validate_proof lib cl mp iv now j prf verify_key identity_pub l of
     (l', Inl e) \<Rightarrow> l' = l
   | (l', Inr enc) \<Rightarrow>
       l_state l = LS_Pending \<and> l_state l' = LS_Active \<and> length prf \<in> {96, 99}
       \<and> ed_verify cl verify_key (l_link_id l @ subslice 64 96 prf @ identity_pub @ drop 96 prf) (subslice 0 64 prf)
       \<and> l_mode l' = l_offered_mode l \<and> l_mode l' = 1 \<and> l_mtu l' \<le> LinkMtu_get (l_offered_mtu l)
       \<and> (\<exists>ks keys. l_ephemeral_keys l = Some ks \<and> l_session_keys l' = Some keys
            \<and> perform_handshake lib cl (ek_x25519_prv ks) (subslice 64 96 prf) (l_link_id l) 1 = Ok keys)"
proof -
  obtain l' r where v: "Link_validate_proof lib cl mp iv now j prf verify_key identity_pub l = (l', r)" by fastforce
  show ?thesis
  proof (cases r)
    case (Inl e)
    with v show ?thesis by (auto simp: Link_validate_proof_def Let_def split: sum.splits prod.splits)
  next
    case (Inr enc)
    with v show ?thesis
      by (simp add: Link_validate_proof_def Let_def result_simps LinkProofData_unpack_def handshake_constants
          Ed25519PublicKey_verify_def split: sum.splits prod.splits if_splits) (auto simp: not_less)
  qed
qed

end
