(* ===== verification/Link_Lifecycle.thy ===== *)
theory Link_Lifecycle
  imports Link_Machine
begin

text \<open>
  The life cycle of a link over arbitrary sequences of its operations: one step relation for all
  operations of \<open>Link_Machine\<close> that change state, the invariant that every one of them keeps, what never
  changes, and what the timer tick achieves when the peer falls silent.
\<close>

subsection \<open>The life cycle of a link\<close>

text \<open>The jitter fractions that the code draws are at most a tenth.\<close>

inductive link_step :: "crypto_lib \<Rightarrow> curve_lib \<Rightarrow> 'v msgpack_lib \<Rightarrow> Link \<Rightarrow> Link \<Rightarrow> bool"
  for lib cl mp where
  extend: "link_step lib cl mp l (fst (Link_try_extend_establishment_timeout s l))"
| proof_packet: "abs j \<le> 1 / 10 \<Longrightarrow> link_step lib cl mp l (fst (Link_validate_proof lib cl mp iv now j prf vk pub l))"
| rtt_packet: "abs j \<le> 1 / 10 \<Longrightarrow> link_step lib cl mp l (fst (Link_receive_rtt_packet lib mp now j enc l))"
| identification: "link_step lib cl mp l (fst (Link_handle_identification lib cl enc l))"
| prepare: "link_step lib cl mp l (fst (Link_prepare_request_value lib mp now ts path v timeout l))"
| request: "link_step lib cl mp l (fst (Link_request lib mp iv now ts path data timeout l))"
| request_str: "link_step lib cl mp l (fst (Link_request_str lib mp iv now ts path text timeout l))"
| sending: "link_step lib cl mp l (fst (Link_mark_request_resource_sending i l))"
| sent: "link_step lib cl mp l (fst (Link_mark_request_resource_sent now i l))"
| fail_request: "link_step lib cl mp l (fst (Link_fail_pending_request i l))"
| rename_request: "link_step lib cl mp l (fst (Link_update_pending_request_id i i' l))"
| deliver: "link_step lib cl mp l (fst (Link_deliver_response_data now i data' l))"
| response: "link_step lib cl mp l (fst (Link_handle_response lib mp now enc l))"
| update_rtt: "abs j \<le> 1 / 10 \<Longrightarrow> link_step lib cl mp l (fst (Link_update_rtt_from_packet lib mp j enc l))"
| channel: "link_step lib cl mp l (Link_mark_channel_created l)"
| strategy: "link_step lib cl mp l (Link_set_resource_strategy st l)"
| track_in: "link_step lib cl mp l (Link_track_incoming_resource h l)"
| track_out: "link_step lib cl mp l (Link_track_outgoing_resource h l)"
| untrack: "link_step lib cl mp l (Link_untrack_resource h l)"
| tx: "link_step lib cl mp l (Link_record_tx now n l)"
| tx_keepalive: "link_step lib cl mp l (Link_record_tx_keepalive now n l)"
| rx: "link_step lib cl mp l (Link_record_rx n l)"
| track_phy: "link_step lib cl mp l (Link_set_track_phy_stats b l)"
| phy: "link_step lib cl mp l (Link_update_phy_stats r1 r2 r3 l)"
| phy_force: "link_step lib cl mp l (Link_update_phy_stats_force r1 r2 r3 l)"
| cost: "link_step lib cl mp l (Link_add_establishment_cost n l)"
| concluded: "link_step lib cl mp l (Link_resource_concluded n d inc l)"
| register_out: "link_step lib cl mp l (Link_register_outgoing_resource l)"
| register_in: "link_step lib cl mp l (Link_register_incoming_resource l)"
| out_state: "link_step lib cl mp l (Link_update_outgoing_resource_state n ost l)"
| signing_key: "link_step lib cl mp l (Link_set_signing_key key l)"
| inbound: "link_step lib cl mp l (Link_record_inbound now l)"
| mark_closed: "link_step lib cl mp l (Link_mark_closed reason l)"
| teardown: "link_step lib cl mp l (fst (Link_teardown lib iv reason l))"
| remote_teardown: "link_step lib cl mp l (fst (Link_receive_teardown lib enc l))"
| tick: "link_step lib cl mp l (fst (Link_tick_at lib iv clock now l))"

definition link_inv :: "Link \<Rightarrow> bool" where
  "link_inv l \<longleftrightarrow> (l_session_keys l \<noteq> None \<longleftrightarrow> l_state l \<in> {LS_Handshake, LS_Active, LS_Stale})
     \<and> (l_teardown_reason l \<noteq> None \<longleftrightarrow> l_state l = LS_Closed)
     \<and> (l_state l = LS_Closed \<longrightarrow> l_pending_requests l = [] \<and> l_ephemeral_keys l = None \<and> l_peer_packet_proof_key l = None)
     \<and> (l_identified l \<longleftrightarrow> l_remote_identity_pub l \<noteq> None)
     \<and> (l_state l = LS_Stale \<longrightarrow> l_stale_since l \<noteq> None)"

fun phase :: "LinkState \<Rightarrow> nat" where
  "phase LS_Pending = 0" | "phase LS_Handshake = 0" | "phase LS_Active = 1" | "phase LS_Stale = 1" | "phase LS_Closed = 2"

definition link_le :: "Link \<Rightarrow> Link \<Rightarrow> bool" where
  "link_le l l' \<longleftrightarrow> l_link_id l' = l_link_id l \<and> l_is_initiator l' = l_is_initiator l
     \<and> phase (l_state l) \<le> phase (l_state l')
     \<and> (l_state l = LS_Closed \<longrightarrow> l_teardown_reason l' = l_teardown_reason l)
     \<and> (\<forall>k. l_remote_identity_pub l = Some k \<longrightarrow> l_remote_identity_pub l' = Some k)"

lemma link_le_refl [simp]: "link_le l l" by (simp add: link_le_def)

lemma phase_closed: "phase LS_Closed \<le> phase s \<longleftrightarrow> s = LS_Closed" by (cases s) simp_all

lemma link_le_trans: "link_le a b \<Longrightarrow> link_le b c \<Longrightarrow> link_le a c"
  unfolding link_le_def by (metis order_trans phase_closed)

text \<open>Steps that leave the fields of the invariant alone, but for the pending requests of an open link.\<close>

definition same_core :: "Link \<Rightarrow> Link \<Rightarrow> bool" where
  "same_core l l' \<longleftrightarrow> l_link_id l' = l_link_id l \<and> l_is_initiator l' = l_is_initiator l \<and> l_state l' = l_state l
     \<and> l_teardown_reason l' = l_teardown_reason l \<and> l_session_keys l' = l_session_keys l
     \<and> l_ephemeral_keys l' = l_ephemeral_keys l \<and> l_peer_packet_proof_key l' = l_peer_packet_proof_key l
     \<and> l_remote_identity_pub l' = l_remote_identity_pub l \<and> l_identified l' = l_identified l
     \<and> l_stale_since l' = l_stale_since l
     \<and> (l_pending_requests l = [] \<and> l_state l \<noteq> LS_Active \<longrightarrow> l_pending_requests l' = [])"

lemma same_core_keeps: "same_core l l' \<Longrightarrow> link_inv l \<Longrightarrow> link_inv l' \<and> link_le l l'"
  by (simp add: same_core_def link_inv_def link_le_def)

lemma same_core_refl [simp]: "same_core l l"
  by (simp add: same_core_def)

lemma same_core_trans: "same_core a b \<Longrightarrow> same_core b c \<Longrightarrow> same_core a c"
  by (simp add: same_core_def)

lemma close_keeps: "l_state l \<noteq> LS_Closed \<Longrightarrow> link_inv l \<Longrightarrow> link_inv (Link_close reason l) \<and> link_le l (Link_close reason l)"
  by (cases "l_state l") (simp_all add: Link_close_def Link_purge_keys_def Let_def link_inv_def link_le_def)

lemma with_receipt_core: "with_receipt i f l = Some l' \<Longrightarrow> same_core l l'"
  by (auto simp: with_receipt_def Let_def same_core_def split: option.splits prod.splits)

lemma core_filter: "same_core l l' \<Longrightarrow> same_core l (l'\<lparr>l_pending_requests := filter P (l_pending_requests l')\<rparr>)"
  by (auto simp: same_core_def)

lemma prepare_core: "same_core l (fst (Link_prepare_request_value lib mp now ts path v timeout l))"
  by (simp add: Link_prepare_request_value_def same_core_def Let_def split: option.split)

lemma encrypt_request_core: "same_core l (fst p) \<Longrightarrow> same_core l (fst (encrypt_request lib iv p))"
  by (cases p; cases "snd p")
    (auto simp: encrypt_request_def Link_discard_pending_request_def core_filter split: sum.split)

lemma deliver_core: "same_core l (fst (Link_deliver_response_data now i d l))"
  by (auto simp: Link_deliver_response_data_def intro!: core_filter dest: with_receipt_core split: option.split)

lemma request_cores:
  "same_core l (fst (Link_request lib mp iv now ts path data timeout l))"
  "same_core l (fst (Link_request_str lib mp iv now ts path text timeout l))"
  "same_core l (fst (Link_mark_request_resource_sending i l))"
  "same_core l (fst (Link_mark_request_resource_sent now i l))"
  "same_core l (fst (Link_fail_pending_request i l))"
  "same_core l (fst (Link_update_pending_request_id i i' l))"
  "same_core l (fst (Link_handle_response lib mp now enc l))"
  by (auto simp: Link_request_def Link_request_str_def Link_prepare_request_def Let_def
      Link_mark_request_resource_sending_def Link_mark_request_resource_sent_def Link_fail_pending_request_def
      Link_update_pending_request_id_def Link_handle_response_def Link_handle_response_plaintext_def deliver_core
      intro!: encrypt_request_core prepare_core core_filter dest: with_receipt_core split: option.split sum.split)

lemma field_cores:
  "same_core l (fst (Link_try_extend_establishment_timeout s l))"
  "same_core l (fst (Link_update_rtt_from_packet lib mp j enc l))"
  "same_core l (Link_mark_channel_created l)" "same_core l (Link_set_resource_strategy st l)"
  "same_core l (Link_track_incoming_resource h l)" "same_core l (Link_track_outgoing_resource h l)"
  "same_core l (Link_untrack_resource h l)" "same_core l (Link_record_tx now n l)"
  "same_core l (Link_record_tx_keepalive now n l)" "same_core l (Link_record_rx n l)"
  "same_core l (Link_set_track_phy_stats b l)" "same_core l (Link_update_phy_stats r1 r2 r3 l)"
  "same_core l (Link_update_phy_stats_force r1 r2 r3 l)" "same_core l (Link_add_establishment_cost n l)"
  "same_core l (Link_register_outgoing_resource l)" "same_core l (Link_register_incoming_resource l)"
  "same_core l (Link_update_outgoing_resource_state n ost l)" "same_core l (Link_set_signing_key key l)"
  by (cases s; simp add: same_core_def Let_def split: option.split)
    (simp_all add: same_core_def Link_update_rtt_from_packet_def Link_mark_channel_created_def Link_set_resource_strategy_def
      Link_track_incoming_resource_def Link_track_outgoing_resource_def Link_untrack_resource_def Link_record_tx_def
      Link_record_tx_keepalive_def Link_record_rx_def Link_set_track_phy_stats_def Link_update_phy_stats_def
      Link_update_phy_stats_force_def Link_add_establishment_cost_def Link_register_outgoing_resource_def
      Link_register_incoming_resource_def Link_update_outgoing_resource_state_def Link_set_signing_key_def split: sum.split)

lemma concluded_core: "same_core l (Link_resource_concluded n d inc l)"
  by (auto simp: Link_resource_concluded_def Let_def same_core_def split: option.split)

lemma expire_core: "same_core l (Link_expire_requests clock l)"
  by (auto simp: Link_expire_requests_def Let_def same_core_def)

definition keeps :: "Link \<Rightarrow> Link \<Rightarrow> bool" where
  "keeps l l' \<longleftrightarrow> (link_inv l \<longrightarrow> link_inv l' \<and> link_le l l')"

lemma keeps_refl [simp]: "keeps l l"
  by (simp add: keeps_def)

lemma keeps_core: "same_core l l' \<Longrightarrow> keeps l l'"
  by (simp add: keeps_def same_core_keeps)

lemma keeps_after_core: "same_core l m \<Longrightarrow> keeps m l' \<Longrightarrow> keeps l l'"
  using same_core_keeps [of l m] link_le_trans unfolding keeps_def by blast

lemma keeps_close: "l_state l \<noteq> LS_Closed \<Longrightarrow> keeps l (Link_close reason l)"
  by (simp add: keeps_def close_keeps)

lemma keeps_proof: "keeps l (fst (Link_validate_proof lib cl mp iv now j prf vk pub l))"
  by (auto simp: Link_validate_proof_def Let_def keeps_def link_inv_def link_le_def result_simps
      split: sum.splits prod.splits if_splits)

lemma keeps_rtt: "keeps l (fst (Link_receive_rtt_packet lib mp now j enc l))"
  by (auto simp: Link_receive_rtt_packet_def Let_def keeps_def link_inv_def link_le_def
      split: sum.split option.split)

lemma keeps_identification: "keeps l (fst (Link_handle_identification lib cl enc l))"
  by (auto simp: Link_handle_identification_def Let_def keeps_def link_inv_def link_le_def
      split: sum.split option.split)

lemma keeps_inbound: "keeps l (Link_record_inbound now l)"
  by (cases "l_state l") (auto simp: Link_record_inbound_def Let_def keeps_def link_inv_def link_le_def)

lemma keeps_closings:
  "keeps l (Link_mark_closed reason l)" "keeps l (fst (Link_teardown lib iv reason l))"
  by (auto simp: Link_mark_closed_def Link_teardown_def Let_def intro: keeps_close)

lemma keeps_remote_teardown: "keeps l (fst (Link_receive_teardown lib enc l))"
proof (cases "l_state l = LS_Closed")
  case True
  then have "link_inv l \<Longrightarrow> Link_decrypt lib l enc = Err LCE_DecryptionFailed"
    by (auto simp: link_inv_def Link_decrypt_def)
  then show ?thesis by (auto simp: keeps_def Link_receive_teardown_def)
qed (auto simp: Link_receive_teardown_def intro: keeps_close split: sum.split)

lemma keeps_tick: "keeps l (fst (Link_tick_at lib iv clock now l))"
proof -
  let ?m = "Link_expire_requests clock l"
  have "keeps ?m (fst (Link_tick_at lib iv clock now l))"
  proof (cases "l_state ?m")
    case LS_Active
    then show ?thesis by (auto simp: Link_tick_at_def Let_def keeps_def link_inv_def link_le_def)
  next
    case LS_Stale
    then show ?thesis by (auto simp: Link_tick_at_def Let_def intro: keeps_close split: option.split)
  qed (auto simp: Link_tick_at_def Let_def intro: keeps_close)
  then show ?thesis by (rule keeps_after_core [OF expire_core])
qed

lemma link_step_keeps: "link_step lib cl mp l l' \<Longrightarrow> keeps l l'"
  by (induction rule: link_step.induct)
    (auto intro: keeps_core request_cores field_cores concluded_core prepare_core deliver_core keeps_proof keeps_rtt
      keeps_identification keeps_inbound keeps_closings keeps_remote_teardown keeps_tick)

lemma link_run_keeps: "(link_step lib cl mp)\<^sup>*\<^sup>* l l' \<Longrightarrow> link_inv l \<Longrightarrow> link_inv l' \<and> link_le l l'"
proof (induction rule: rtranclp_induct)
  case (step m n)
  then show ?case using link_step_keeps [OF step(2)] link_le_trans by (auto simp: keeps_def)
qed simp

definition link_fresh :: "crypto_lib \<Rightarrow> curve_lib \<Rightarrow> Link \<Rightarrow> bool" where
  "link_fresh lib cl l \<longleftrightarrow>
     (\<exists>ks now j dest hops. abs j \<le> 1 / 10 \<and> l = fst (Link_new_initiator lib cl ks now j dest hops))
     \<or> (\<exists>ks now j req pub dest hops sk f pf. abs j \<le> 1 / 10
          \<and> Link_new_responder_inner lib cl ks now j req pub dest hops sk f = Ok (l, pf))"

lemma new_responder_inv:
  assumes "Link_new_responder_inner lib cl ks now j req pub dest hops sk f = Ok (l, pf)"
  shows "link_inv l"
proof -
  from assms have "l_session_keys l \<noteq> None \<and> l_state l = LS_Handshake \<and> l_teardown_reason l = None
      \<and> l_identified l = False \<and> l_remote_identity_pub l = None"
    unfolding Link_new_responder_inner_def Let_def and_then_Ok_iff
    by (elim exE conjE, simp only: if_split_eq1 and_then_Ok_iff) (elim exE conjE, clarsimp simp: and_then_Ok_iff)
  then show ?thesis by (simp add: link_inv_def)
qed

lemma new_initiator_inv: "link_inv (fst (Link_new_initiator lib cl ks now j dest hops))"
proof -
  obtain l req where l: "Link_new_initiator lib cl ks now j dest hops = (l, req)" by fastforce
  show ?thesis using new_initiator_fields [OF l] by (simp add: l link_inv_def)
qed

lemma link_fresh_inv:
  assumes "link_fresh lib cl l"
  shows "link_inv l"
proof -
  consider (initiator) ks now j dest hops where "l = fst (Link_new_initiator lib cl ks now j dest hops)"
    | (responder) ks now j req pub dest hops sk f pf
      where "Link_new_responder_inner lib cl ks now j req pub dest hops sk f = Ok (l, pf)"
    using assms unfolding link_fresh_def by blast
  then show ?thesis
  proof cases
    case initiator
    show ?thesis unfolding initiator by (rule new_initiator_inv)
  next
    case responder
    then show ?thesis by (rule new_responder_inv)
  qed
qed

text \<open>
  C11: the life cycle of a link. Over every sequence of operations on a link of either role: its id and role never
  change; it holds session keys exactly in the handshake, active and stale states; it never returns from an established to an
  unestablished state; once closed it stays closed with its first close reason, holds no pending request and no
  key, and neither encrypts nor decrypts; and the first verified remote identity is never
  replaced.
\<close>

theorem link_lifecycle:
  assumes "link_fresh lib cl l0" and "(link_step lib cl mp)\<^sup>*\<^sup>* l0 l" and "(link_step lib cl mp)\<^sup>*\<^sup>* l l'"
  shows "l_link_id l' = l_link_id l \<and> l_is_initiator l' = l_is_initiator l
    \<and> (l_session_keys l \<noteq> None \<longleftrightarrow> l_state l \<in> {LS_Handshake, LS_Active, LS_Stale})
    \<and> phase (l_state l) \<le> phase (l_state l')
    \<and> (l_state l = LS_Closed \<longrightarrow> l_state l' = LS_Closed \<and> l_teardown_reason l' = l_teardown_reason l
         \<and> l_teardown_reason l \<noteq> None \<and> l_pending_requests l' = []
         \<and> Link_encrypt lib iv l' p = Err LCE_EncryptionFailed \<and> Link_decrypt lib l' p = Err LCE_DecryptionFailed)
    \<and> (l_remote_identity_pub l \<noteq> None \<longrightarrow> l_remote_identity_pub l' = l_remote_identity_pub l)"
proof -
  have inv: "link_inv l" using link_run_keeps [OF assms(2) link_fresh_inv [OF assms(1)]] by simp
  have inv': "link_inv l'" and le: "link_le l l'" using link_run_keeps [OF assms(3) inv] by simp_all
  have closed: "l_state l' = LS_Closed" if "l_state l = LS_Closed"
    using le that phase_closed [of "l_state l'"] by (simp add: link_le_def)
  have "Link_encrypt lib iv l' p = Err LCE_EncryptionFailed \<and> Link_decrypt lib l' p = Err LCE_DecryptionFailed"
    if "l_state l' = LS_Closed"
    using inv' that by (auto simp: link_inv_def Link_encrypt_def Link_decrypt_def)
  note crypt = this [OF closed]
  have ids: "l_link_id l' = l_link_id l" "l_is_initiator l' = l_is_initiator l" "phase (l_state l) \<le> phase (l_state l')"
    using le by (simp_all add: link_le_def)
  have keys: "l_session_keys l \<noteq> None \<longleftrightarrow> l_state l \<in> {LS_Handshake, LS_Active, LS_Stale}"
    using inv unfolding link_inv_def by blast
  have reason: "l_teardown_reason l' = l_teardown_reason l \<and> l_teardown_reason l \<noteq> None \<and> l_pending_requests l' = []"
    if "l_state l = LS_Closed"
    using that closed [OF that] inv inv' le unfolding link_inv_def link_le_def by blast
  have "l_remote_identity_pub l \<noteq> None \<longrightarrow> l_remote_identity_pub l' = l_remote_identity_pub l"
    using le by (cases "l_remote_identity_pub l") (simp_all add: link_le_def)
  with ids keys closed reason crypt show ?thesis by simp
qed

theorem link_lifecycle_witness:
  "\<exists>l. l = Link_mark_closed CR_Timeout (fst (Link_new_initiator example_lib example_curve
        (EphemeralKeys_generate example_curve [1] [2]) 0 0 (replicate 16 7) 3))
     \<and> l_state (Link_record_inbound 9 l) = LS_Closed \<and> l_teardown_reason (Link_record_inbound 9 l) = Some CR_Timeout
     \<and> Link_decrypt example_lib (Link_record_inbound 9 l) [1] = Err LCE_DecryptionFailed"
proof -
  obtain l0 req where l0: "Link_new_initiator example_lib example_curve
        (EphemeralKeys_generate example_curve [1] [2]) 0 0 (replicate 16 7) 3 = (l0, req)" by fastforce
  let ?l = "Link_mark_closed CR_Timeout l0"
  have st: "l_state l0 = LS_Pending" using new_initiator_fields [OF l0] by simp
  have closed: "l_state ?l = LS_Closed" "l_teardown_reason ?l = Some CR_Timeout"
    by (simp_all add: Link_mark_closed_def st Link_close_def Let_def Link_purge_keys_def)
  have "abs (0 :: real) \<le> 1 / 10 \<and> l0 = fst (Link_new_initiator example_lib example_curve
        (EphemeralKeys_generate example_curve [1] [2]) 0 0 (replicate 16 7) 3)" by (simp add: l0)
  then have fresh: "link_fresh example_lib example_curve l0"
    unfolding link_fresh_def by blast
  have s1: "(link_step example_lib example_curve example_msgpack)\<^sup>*\<^sup>* l0 ?l"
    by (intro r_into_rtranclp link_step.mark_closed)
  have s2: "(link_step example_lib example_curve example_msgpack)\<^sup>*\<^sup>* ?l (Link_record_inbound 9 ?l)"
    by (intro r_into_rtranclp link_step.inbound)
  show ?thesis
    using link_lifecycle [OF fresh s1 s2, of "[]" "[1]"] closed by (simp add: l0)
qed

subsection \<open>A silent peer\<close>

lemma round_ge: "x - 1 / 2 \<le> real_of_int (round (x :: real))"
  using of_int_round_ge [of x] by simp

lemma from_secs_f64_bounds:
  assumes "0 \<le> x"
  shows "x * 1000000000 - 1 / 2 \<le> real (from_secs_f64 x)" and "real (from_secs_f64 x) \<le> x * 1000000000 + 1 / 2"
proof -
  have "0 \<le> round (x * 10 ^ 9)"
    using assms round_mono [of 0 "x * 10 ^ 9"] by simp
  then have "real (from_secs_f64 x) = real_of_int (round (x * 10 ^ 9))"
    by (simp add: from_secs_f64_def)
  then show "x * 1000000000 - 1 / 2 \<le> real (from_secs_f64 x)" "real (from_secs_f64 x) \<le> x * 1000000000 + 1 / 2"
    using of_int_round_ge [of "x * 10 ^ 9"] of_int_round_le [of "x * 10 ^ 9"] by simp_all
qed

text \<open>With jitter of at most a tenth, the keepalive interval stays below the time after which a link is stale.\<close>

definition timers_ok :: "KeepaliveState \<Rightarrow> bool" where
  "timers_ok k \<longleftrightarrow> 0 < jittered_interval k \<and> jittered_interval k < ka_stale_time k
     \<and> ka_stale_time k \<le> secs 720 + 1"

lemma interval_jitter:
  assumes "5 \<le> i" and "abs j \<le> 1 / 10"
  shows "from_secs_f64 i + from_secs_f64 (abs j * i) < from_secs_f64 (i * 2)"
    and "max (from_secs_f64 i - d) (from_secs_f64 5) < from_secs_f64 (i * 2)"
    and "0 < from_secs_f64 i" and "0 < from_secs_f64 5"
proof -
  define m where "m = abs j * i"
  have "abs j * i \<le> 1 / 10 * i" using assms by (intro mult_right_mono) auto
  moreover have "0 \<le> abs j * i" using assms by simp
  ultimately have "real (from_secs_f64 i) + real (from_secs_f64 m) < real (from_secs_f64 (i * 2))"
    using assms(1) from_secs_f64_bounds [of i] from_secs_f64_bounds [of m] from_secs_f64_bounds [of "i * 2"]
    unfolding m_def [symmetric] by linarith
  then have "from_secs_f64 i + from_secs_f64 m < from_secs_f64 (i * 2)" by linarith
  then show "from_secs_f64 i + from_secs_f64 (abs j * i) < from_secs_f64 (i * 2)" by (simp add: m_def)
  have "real (from_secs_f64 i) < real (from_secs_f64 (i * 2))" "real (from_secs_f64 5) < real (from_secs_f64 (i * 2))"
    using assms from_secs_f64_bounds [of i] from_secs_f64_bounds [of 5] from_secs_f64_bounds [of "i * 2"] by simp_all
  then show "max (from_secs_f64 i - d) (from_secs_f64 5) < from_secs_f64 (i * 2)" by linarith
  have "0 < real (from_secs_f64 i)" "0 < real (from_secs_f64 5)"
    using assms(1) from_secs_f64_bounds(1) [of i] from_secs_f64_bounds(1) [of 5] by simp_all
  then show "0 < from_secs_f64 i" "0 < from_secs_f64 5" by simp_all
qed

lemma update_from_rtt_timers:
  assumes "abs j \<le> 1 / 10"
  shows "timers_ok (KeepaliveState_update_from_rtt j rtt k)"
proof -
  define i where "i = max KEEPALIVE_MIN (min (as_secs_f64 rtt * (KEEPALIVE_MAX / KEEPALIVE_MAX_RTT)) KEEPALIVE_MAX)"
  have i: "5 \<le> i" "i \<le> 360" by (simp_all add: i_def keepalive_constants)
  have "real (from_secs_f64 (i * 2)) < real (secs 720 + 2)"
    using i from_secs_f64_bounds(2) [of "i * 2"] by (simp add: secs_def)
  then have st: "from_secs_f64 (i * 2) \<le> secs 720 + 1" by linarith
  let ?k = "KeepaliveState_update_from_rtt j rtt k"
  have k: "ka_keepalive_interval ?k = from_secs_f64 i" "ka_stale_time ?k = from_secs_f64 (i * 2)"
    "ka_jitter_offset ?k = from_secs_f64 (abs j * i)"
    by (simp_all only: KeepaliveState_update_from_rtt_def Let_def i_def STALE_FACTOR_def) simp_all
  show ?thesis
    using interval_jitter [OF i(1) assms] st
    unfolding timers_ok_def jittered_interval_def k KEEPALIVE_MIN_def by (simp add: less_max_iff_disj)
qed

definition same_timers :: "KeepaliveState \<Rightarrow> KeepaliveState \<Rightarrow> bool" where
  "same_timers k k' \<longleftrightarrow> jittered_interval k' = jittered_interval k \<and> ka_stale_time k' = ka_stale_time k"

definition timers_kept :: "Link \<Rightarrow> Link \<Rightarrow> bool" where
  "timers_kept l l' \<longleftrightarrow> (timers_ok (l_keepalive l) \<longrightarrow> timers_ok (l_keepalive l'))"

lemma same_timers_kept: "same_timers (l_keepalive l) (l_keepalive l') \<Longrightarrow> timers_kept l l'"
  by (simp add: same_timers_def timers_kept_def timers_ok_def)

lemma same_timers_refl [simp]: "same_timers k k"
  by (simp add: same_timers_def)

lemma keepalive_same_timers [simp]:
  "same_timers k (KeepaliveState_record_inbound now k)" "same_timers k (KeepaliveState_record_outbound now k)"
  "same_timers k (KeepaliveState_mark_activated now k)" "same_timers k (KeepaliveState_mark_keepalive_sent_at now k)"
  "same_timers k (KeepaliveState_record_keepalive_outbound now k)"
  by (simp_all add: same_timers_def jittered_interval_def KeepaliveState_record_inbound_def
      KeepaliveState_record_outbound_def KeepaliveState_mark_activated_def KeepaliveState_mark_keepalive_sent_at_def
      KeepaliveState_record_keepalive_outbound_def)

lemma timers_ok_marked [simp]: "timers_ok (KeepaliveState_mark_activated now k) = timers_ok k"
  by (simp add: timers_ok_def KeepaliveState_mark_activated_def jittered_interval_def)

lemma with_receipt_keepalive: "with_receipt i f l = Some l' \<Longrightarrow> l_keepalive l' = l_keepalive l"
  by (auto simp: with_receipt_def Let_def split: option.splits prod.splits)

lemma prepare_keepalive [simp]:
  "l_keepalive (fst (Link_prepare_request_value lib mp now ts path v timeout l)) = l_keepalive l"
  by (simp add: Link_prepare_request_value_def Let_def split: option.split)

lemma encrypt_request_keepalive [simp]: "l_keepalive (fst (encrypt_request lib iv p)) = l_keepalive (fst p)"
  by (cases p; cases "snd p") (auto simp: encrypt_request_def Link_discard_pending_request_def split: sum.split)

lemma deliver_keepalive [simp]: "l_keepalive (fst (Link_deliver_response_data now i d l)) = l_keepalive l"
  by (auto simp: Link_deliver_response_data_def dest: with_receipt_keepalive split: option.split)

lemma request_keepalive [simp]:
  "l_keepalive (fst (Link_request lib mp iv now ts path data timeout l)) = l_keepalive l"
  "l_keepalive (fst (Link_request_str lib mp iv now ts path text timeout l)) = l_keepalive l"
  "l_keepalive (fst (Link_mark_request_resource_sending i l)) = l_keepalive l"
  "l_keepalive (fst (Link_mark_request_resource_sent now i l)) = l_keepalive l"
  "l_keepalive (fst (Link_fail_pending_request i l)) = l_keepalive l"
  "l_keepalive (fst (Link_update_pending_request_id i i' l)) = l_keepalive l"
  "l_keepalive (fst (Link_handle_response lib mp now enc l)) = l_keepalive l"
  by (auto simp: Link_request_def Link_request_str_def Link_prepare_request_def Let_def
      Link_mark_request_resource_sending_def Link_mark_request_resource_sent_def Link_fail_pending_request_def
      Link_update_pending_request_id_def Link_handle_response_def Link_handle_response_plaintext_def
      dest: with_receipt_keepalive split: option.split sum.split)

lemma close_keepalive [simp]: "l_keepalive (Link_close reason l) = l_keepalive l"
  by (simp add: Link_close_def Link_purge_keys_def Let_def)

lemma expire_fields [simp]:
  "l_keepalive (Link_expire_requests clock l) = l_keepalive l" "l_state (Link_expire_requests clock l) = l_state l"
  "l_rtt (Link_expire_requests clock l) = l_rtt l" "l_stale_since (Link_expire_requests clock l) = l_stale_since l"
  by (simp_all add: Link_expire_requests_def Let_def)

lemma timers_kept_rtt:
  assumes "abs j \<le> 1 / 10"
  shows "timers_kept l (fst (Link_validate_proof lib cl mp iv now j prf vk pub l))"
    and "timers_kept l (fst (Link_receive_rtt_packet lib mp now j enc l))"
    and "timers_kept l (fst (Link_update_rtt_from_packet lib mp j enc l))"
  using update_from_rtt_timers [OF assms]
  by (auto simp: timers_kept_def Link_validate_proof_def Link_receive_rtt_packet_def Link_update_rtt_from_packet_def Let_def
      split: sum.split prod.split option.split)

lemma timers_kept_tick: "timers_kept l (fst (Link_tick_at lib iv clock now l))"
  by (rule same_timers_kept) (auto simp: Link_tick_at_def Let_def split: LinkState.split option.split)

lemma timers_kept_inbound: "timers_kept l (Link_record_inbound now l)"
  by (rule same_timers_kept) (simp add: Link_record_inbound_def Let_def)

lemma timers_kept_identification: "timers_kept l (fst (Link_handle_identification lib cl enc l))"
  by (rule same_timers_kept) (auto simp: Link_handle_identification_def Let_def split: sum.split option.split)

lemma timers_kept_closings:
  "timers_kept l (Link_mark_closed reason l)" "timers_kept l (fst (Link_teardown lib iv reason l))"
  "timers_kept l (fst (Link_receive_teardown lib enc l))"
  by (auto simp: Link_mark_closed_def Link_teardown_def Link_receive_teardown_def Let_def intro: same_timers_kept
      split: sum.split)

lemma timers_kept_fields:
  "timers_kept l (fst (Link_try_extend_establishment_timeout s l))"
  "timers_kept l (Link_mark_channel_created l)" "timers_kept l (Link_set_resource_strategy st l)"
  "timers_kept l (Link_track_incoming_resource h l)" "timers_kept l (Link_track_outgoing_resource h l)"
  "timers_kept l (Link_untrack_resource h l)" "timers_kept l (Link_record_tx now n l)"
  "timers_kept l (Link_record_tx_keepalive now n l)" "timers_kept l (Link_record_rx n l)"
  "timers_kept l (Link_set_track_phy_stats b l)" "timers_kept l (Link_update_phy_stats r1 r2 r3 l)"
  "timers_kept l (Link_update_phy_stats_force r1 r2 r3 l)" "timers_kept l (Link_add_establishment_cost n l)"
  "timers_kept l (Link_register_outgoing_resource l)" "timers_kept l (Link_register_incoming_resource l)"
  "timers_kept l (Link_update_outgoing_resource_state n ost l)" "timers_kept l (Link_set_signing_key key l)"
  "timers_kept l (Link_resource_concluded m d inc l)"
  by (rule same_timers_kept, cases s, simp_all add: Let_def split: option.split)
    (rule same_timers_kept, simp add: Link_mark_channel_created_def Link_set_resource_strategy_def
      Link_track_incoming_resource_def Link_track_outgoing_resource_def Link_untrack_resource_def Link_record_tx_def
      Link_record_tx_keepalive_def Link_record_rx_def Link_set_track_phy_stats_def Link_update_phy_stats_def
      Link_update_phy_stats_force_def Link_add_establishment_cost_def Link_register_outgoing_resource_def
      Link_register_incoming_resource_def Link_update_outgoing_resource_state_def Link_set_signing_key_def
      Link_resource_concluded_def Let_def split: option.split)+

lemma link_step_timers: "link_step lib cl mp l l' \<Longrightarrow> timers_kept l l'"
proof (induction rule: link_step.induct)
qed (auto intro: timers_kept_rtt timers_kept_tick timers_kept_inbound timers_kept_identification timers_kept_closings
      timers_kept_fields same_timers_kept)

lemma new_timers: 
  assumes "abs j \<le> 1 / 10"
  shows "timers_ok (KeepaliveState_new now j b)"
proof -
  have st: "real (from_secs_f64 720) < real (secs 720 + 2)"
    using from_secs_f64_bounds(2) [of 720] by (simp add: secs_def)
  have "from_secs_f64 720 \<le> secs 720 + 1" using st by linarith
  then show ?thesis
    using interval_jitter [of 360, OF _ assms]
    by (cases "j < 0") (simp_all add: timers_ok_def KeepaliveState_new_def jittered_interval_def keepalive_constants
          less_max_iff_disj)
qed

lemma new_responder_keepalive:
  assumes "Link_new_responder_inner lib cl ks now j req pub dest hops sk f = Ok (l, pf)"
  shows "l_keepalive l = KeepaliveState_new now j False"
  using assms unfolding Link_new_responder_inner_def Let_def and_then_Ok_iff
  by (elim exE conjE, simp only: if_split_eq1 and_then_Ok_iff) (elim exE conjE, clarsimp simp: and_then_Ok_iff)

lemma new_initiator_keepalive:
  "l_keepalive (fst (Link_new_initiator lib cl ks now j dest hops)) = KeepaliveState_new now j True"
  by (simp add: Link_new_initiator_def Let_def)

lemma link_fresh_timers:
  assumes "link_fresh lib cl l"
  shows "timers_ok (l_keepalive l)"
proof -
  consider (initiator) ks now j dest hops
      where "abs j \<le> 1 / 10" "l = fst (Link_new_initiator lib cl ks now j dest hops)"
    | (responder) ks now j req pub dest hops sk f pf
      where "abs j \<le> 1 / 10" "Link_new_responder_inner lib cl ks now j req pub dest hops sk f = Ok (l, pf)"
    using assms unfolding link_fresh_def by blast
  then show ?thesis
  proof cases
    case initiator
    show ?thesis unfolding initiator(2) new_initiator_keepalive by (rule new_timers [OF initiator(1)])
  next
    case responder
    show ?thesis unfolding new_responder_keepalive [OF responder(2)] by (rule new_timers [OF responder(1)])
  qed
qed

lemma link_run_timers:
  "(link_step lib cl mp)\<^sup>*\<^sup>* l l' \<Longrightarrow> timers_ok (l_keepalive l) \<Longrightarrow> timers_ok (l_keepalive l')"
proof (induction rule: rtranclp_induct)
  case (step m n)
  then show ?case using link_step_timers [OF step(2)] by (simp add: timers_kept_def)
qed

lemma tick_active:
  assumes "l_state l = LS_Active" and "l' = fst (Link_tick_at lib iv clock now l)"
  shows "if KeepaliveState_should_send_keepalive_at now (l_keepalive l)
    then l_state l' = LS_Active \<and> l_keepalive l' = KeepaliveState_mark_keepalive_sent_at now (l_keepalive l)
      \<and> l_rtt l' = l_rtt l \<and> snd (Link_tick_at lib iv clock now l) = LA_SendKeepalive
    else KeepaliveState_is_stale_at now (l_keepalive l) \<longrightarrow>
      l_state l' = LS_Stale \<and> l_stale_since l' = Some now \<and> l_rtt l' = l_rtt l"
  using assms by (simp add: Link_tick_at_def Let_def)

lemma tick_stale:
  assumes "l_state l = LS_Stale" and "l_stale_since l = Some t" and "l' = fst (Link_tick_at lib iv clock now l)"
    and "g = KeepaliveState_stale_grace_timeout (case l_rtt l of Some r \<Rightarrow> r | None \<Rightarrow> secs 1)"
  shows "if g \<le> duration_since now t then l_state l' = LS_Closed \<and> l_teardown_reason l' = Some CR_Timeout
    else l_state l' = LS_Stale \<and> l_stale_since l' = Some t \<and> l_rtt l' = l_rtt l"
  using assms by (simp add: Link_tick_at_def Let_def Link_close_def Link_purge_keys_def)

lemma tick_closed:
  "l_state l = LS_Closed \<Longrightarrow> l_state (fst (Link_tick_at lib iv clock now l)) = LS_Closed
     \<and> l_teardown_reason (fst (Link_tick_at lib iv clock now l)) = l_teardown_reason l"
  by (simp add: Link_tick_at_def Let_def Link_expire_requests_def)

lemma keepalive_not_again:
  assumes "now \<le> now'" and "now' < now + jittered_interval k"
  shows "\<not> KeepaliveState_should_send_keepalive_at now' (KeepaliveState_mark_keepalive_sent_at now k)"
proof -
  let ?k = "KeepaliveState_mark_keepalive_sent_at now k"
  have j: "jittered_interval ?k = jittered_interval k" using keepalive_same_timers(4) by (simp add: same_timers_def)
  have s: "ka_last_keepalive_sent ?k = Some now" by (simp add: KeepaliveState_mark_keepalive_sent_at_def)
  have "\<not> duration_since now' now \<ge> jittered_interval k" using assms by (simp add: duration_since_def)
  then show ?thesis unfolding KeepaliveState_should_send_keepalive_at_def Let_def j s by simp
qed

lemma stale_stays:
  assumes "KeepaliveState_is_stale_at now k" and "now \<le> now'"
  shows "KeepaliveState_is_stale_at now' (KeepaliveState_mark_keepalive_sent_at t k)"
proof -
  define latest where "latest = later_of (later_of (ka_last_inbound k) (ka_last_proof k)) (ka_activated_at k)"
  have "ka_stale_time k \<le> now - latest"
    using assms(1) by (simp add: KeepaliveState_is_stale_at_def duration_since_def latest_def)
  then have "ka_stale_time k \<le> now' - latest" using assms(2) by linarith
  then show ?thesis
    by (simp add: KeepaliveState_is_stale_at_def KeepaliveState_mark_keepalive_sent_at_def duration_since_def latest_def)
qed

lemma initiator_probes:
  assumes "KeepaliveState_is_stale_at now k" and "ka_is_initiator k" and "timers_ok k"
    and "\<forall>t. ka_last_keepalive_sent k = Some t \<longrightarrow> t + jittered_interval k \<le> now"
  shows "KeepaliveState_should_send_keepalive_at now k"
proof -
  have "ka_last_inbound k \<le> later_of (later_of (ka_last_inbound k) (ka_last_proof k)) (ka_activated_at k)"
    by (auto simp: later_of_def split: option.split)
  then have "ka_stale_time k \<le> duration_since now (ka_last_inbound k)"
    using assms(1) by (simp add: KeepaliveState_is_stale_at_def Let_def duration_since_def)
  moreover have "jittered_interval k \<le> DURATION_MAX"
    using assms(3) by (simp add: timers_ok_def DURATION_MAX_def secs_def)
  ultimately show ?thesis
    using assms(2-4)
    by (auto simp: KeepaliveState_should_send_keepalive_at_def Let_def timers_ok_def duration_since_def
        split: option.split)
qed

lemma example_active:
  "\<exists>l0 l. link_fresh example_lib example_curve l0
     \<and> (link_step example_lib example_curve example_msgpack)\<^sup>*\<^sup>* l0 l \<and> l_state l = LS_Active"
proof -
  let ?ki = "EphemeralKeys_generate example_curve [1] [2]" and ?kr = "EphemeralKeys_generate example_curve [3] [4]"
  have len: "length (ek_x25519_pub ?ki) = 32" "length (ek_ed25519_pub ?ki) = 32"
    by (simp_all add: EphemeralKeys_generate_def example_curve_def)
  obtain l0 keys pf where l0: "Link_new_responder example_lib example_curve ?kr 5 0
      (LinkRequestData_pack ?ki default_signalling) [9] (replicate 16 7) 3 = Ok (l0, pf)"
    "l_session_keys l0 = Some keys" "l_state l0 = LS_Handshake" "l_mtu l0 = 500" "keys_ok keys"
    using new_responder_accepts [OF example_hkdf_ok example_curve_ok len refl refl, of ?kr 5 0 "[9]" "replicate 16 7" 3] by blast
  obtain enc where enc: "link_encrypt example_lib (replicate 16 0) keys [] = Ok enc"
    using link_encrypt_decrypt [OF example_lib_ok _ l0(5), of "replicate 16 0" "[]"] by auto
  have ivl: "length (replicate 16 (0 :: u8)) = 16" by simp
  obtain l where l: "Link_receive_rtt_packet example_lib example_msgpack 10 0 enc l0 = (l, Ok ())" "l_state l = LS_Active"
    using receive_rtt_accepts [OF example_lib_ok ivl l0(5) enc l0(3,4,2), of example_msgpack 10 0] by blast
  have "abs (0 :: real) \<le> 1 / 10" by simp
  moreover note l0(1) [unfolded Link_new_responder_def]
  ultimately have "link_fresh example_lib example_curve l0" unfolding link_fresh_def by blast
  moreover have "link_step example_lib example_curve example_msgpack l0 l"
    using link_step.rtt_packet [of 0 example_lib example_curve example_msgpack l0 10 enc] l(1) by simp
  ultimately show ?thesis using l(2) by blast
qed


end
