(* ===== verification/Link_Requests.thy ===== *)
theory Link_Requests
  imports Link_Machine
begin

text \<open>
  Requests and responses over an established link: the request of one end is parsed by the other end
  to the same id, path and payload, and its response resolves the receipts with that id and no others.
\<close>

subsection \<open>What is assumed of MessagePack\<close>

text \<open>
  \<open>mp_roundtrip\<close>: the value can be written, and reading what was written returns it and consumes all bytes
  (rmpv bounds the nesting depth, so this is asked of particular values only). \<open>mp_accessors\<close>: the
  accessors return what the constructors were given. \<open>opaque\<close>: bytes that are not one complete MessagePack
  value, which the code therefore sends as a binary field.
\<close>

definition mp_roundtrip :: "'v msgpack_lib \<Rightarrow> 'v \<Rightarrow> bool" where
  "mp_roundtrip mp v \<longleftrightarrow> (\<exists>b. mp_write mp v = Some b \<and> mp_read mp b = Some (v, length b))"

definition mp_accessors :: "'v msgpack_lib \<Rightarrow> bool" where
  "mp_accessors mp \<longleftrightarrow> (\<forall>vs. mp_as_array mp (mp_array mp vs) = Some vs) \<and> (\<forall>x. mp_as_f64 mp (mp_f64 mp x) = Some x)
     \<and> (\<forall>b. mp_as_slice mp (mp_binary mp b) = Some b)"

definition opaque :: "'v msgpack_lib \<Rightarrow> bytes \<Rightarrow> bool" where
  "opaque mp d \<longleftrightarrow> \<not> (\<exists>v. mp_read mp d = Some (v, length d))"

subsection \<open>Lemmas\<close>

lemma opaque_binary: "opaque mp d \<Longrightarrow> msgpack_value_from_bytes_or_binary mp d = mp_binary mp d"
  by (auto simp: opaque_def msgpack_value_from_bytes_or_binary_def split: option.splits)

lemma binary_to_bytes: "mp_accessors mp \<Longrightarrow> msgpack_value_to_bytes mp (mp_binary mp d) = Ok d"
  by (simp add: mp_accessors_def msgpack_value_to_bytes_def)

lemma parse_request_packed:
  assumes "mp_accessors mp" and "length path_hash = 16"
    and "mp_read mp packed = Some (mp_array mp [mp_f64 mp x, mp_binary mp path_hash, mp_binary mp d], n)"
  shows "Link_parse_request lib mp packed = Ok (truncated_hash lib packed, path_hash, x, d)"
  using assms binary_to_bytes [OF assms(1), of d]
  by (simp add: Link_parse_request_def mp_accessors_def)

lemma parse_response_packed:
  assumes "mp_accessors mp" and "length request_id = 16"
    and "mp_read mp packed = Some (mp_array mp [mp_binary mp request_id, mp_binary mp d], n)"
  shows "Link_parse_response_plaintext mp packed = Ok (request_id, d)"
  using assms binary_to_bytes [OF assms(1), of d]
  by (simp add: Link_parse_response_plaintext_def mp_accessors_def)

lemma filter_update_id:
  assumes "i < length rs" and "has_request_id q (rs ! i)" and "rr_request_id r = rr_request_id (rs ! i)"
  shows "filter (\<lambda>x. \<not> has_request_id q x) (rs[i := r]) = filter (\<lambda>x. \<not> has_request_id q x) rs"
proof -
  have "has_request_id q r" using assms(2,3) by (simp add: has_request_id_def)
  moreover have "filter (\<lambda>x. \<not> has_request_id q x) (take i rs @ rs ! i # drop (Suc i) rs) =
      filter (\<lambda>x. \<not> has_request_id q x) rs"
    using id_take_nth_drop [OF assms(1)] by simp
  ultimately show ?thesis using assms(1,2) by (simp add: upd_conv_take_nth_drop)
qed

lemma receive_response_id: "rr_request_id (fst (RequestReceipt_receive_response now d r)) = rr_request_id r"
  by (simp add: RequestReceipt_receive_response_def take_response_def)

lemma deliver_resolves:
  assumes "\<exists>r\<in>set (l_pending_requests l). has_request_id q r"
  shows "\<exists>l'. Link_deliver_response_data now q d l = (l', True)
    \<and> l_pending_requests l' = filter (\<lambda>r. \<not> has_request_id q r) (l_pending_requests l)"
proof -
  obtain i where i: "position (has_request_id q) (l_pending_requests l) = Some i"
    using assms position_None_iff [of "has_request_id q" "l_pending_requests l"]
    by (cases "position (has_request_id q) (l_pending_requests l)") auto
  note p = position_Some_imp [OF i]
  obtain r ev where r: "RequestReceipt_receive_response now d (l_pending_requests l ! i) = (r, ev)" by fastforce
  have "rr_request_id r = rr_request_id (l_pending_requests l ! i)"
    using receive_response_id [of now d "l_pending_requests l ! i"] by (simp add: r)
  with p r i filter_update_id [of i "l_pending_requests l" q r] show ?thesis
    by (simp add: Link_deliver_response_data_def with_receipt_def Let_def)
qed

subsection \<open>Properties\<close>


datatype example_value = EV_Nil | EV_F64 f64 | EV_Bin bytes | EV_Str bytes | EV_Arr "example_value list"

fun example_write :: "example_value \<Rightarrow> bytes option" where
  "example_write (EV_Arr [EV_Bin i, EV_Bin r]) = Some (2 # i @ r)"
| "example_write (EV_Arr [EV_F64 _, EV_Bin h, EV_Bin d]) = Some (1 # h @ d)"
| "example_write _ = None"

fun example_read :: "bytes \<Rightarrow> (example_value \<times> nat) option" where
  "example_read [] = None"
| "example_read (b # xs) =
    (if b = 1 \<and> length xs \<ge> 16 then Some (EV_Arr [EV_F64 (Fin 0), EV_Bin (take 16 xs), EV_Bin (drop 16 xs)], Suc (length xs))
     else if b = 2 \<and> xs \<noteq> [] then Some (EV_Arr [EV_Bin (butlast xs), EV_Bin [last xs]], Suc (length xs))
     else None)"

definition request_msgpack :: "example_value msgpack_lib" where
  "request_msgpack = \<lparr>mp_nil = EV_Nil, mp_f64 = EV_F64, mp_binary = EV_Bin, mp_string = EV_Str, mp_array = EV_Arr,
     mp_as_f64 = (\<lambda>v. case v of EV_F64 x \<Rightarrow> Some x | _ \<Rightarrow> None),
     mp_as_slice = (\<lambda>v. case v of EV_Bin x \<Rightarrow> Some x | _ \<Rightarrow> None),
     mp_as_str = (\<lambda>v. case v of EV_Str x \<Rightarrow> Some x | _ \<Rightarrow> None),
     mp_as_array = (\<lambda>v. case v of EV_Arr x \<Rightarrow> Some x | _ \<Rightarrow> None),
     mp_write = example_write, mp_read = example_read\<rparr>"

definition example_link :: Link where
  "example_link = (fst (Link_new_initiator example_lib example_curve (EphemeralKeys_generate example_curve [1] [2]) 0 0
     (replicate 16 7) 3))\<lparr>l_state := LS_Active,
       l_session_keys := Some \<lparr>lk_signing_key = replicate 32 1, lk_encryption_key = replicate 32 2\<rparr>\<rparr>"


end
