(* ===== verification/Stream_Buffer.thy ===== *)
theory Stream_Buffer
  imports Prelude
begin

text \<open>
  Byte streams over a channel: \<open>stream_data.rs\<close>, \<open>buffer.rs\<close> and \<open>compression.rs\<close> under
  \<open>src/crates/rns-protocol/src\<close>. The bzip2 crate is the record \<open>bz_lib\<close>: the encoder, and the results of
  the successive reads of the decoder. The write loop is a partial function whose \<open>None\<close> is a loop that does
  not end, which happens for a payload budget of zero.
\<close>

subsection \<open>Compression\<close>

record bz_lib =
  bz_encode :: "bytes \<Rightarrow> bytes option"
  bz_reads :: "bytes \<Rightarrow> bytes option list"

datatype CompressionError = CompressFailed | DecompressFailed | DecompressedTooLarge

definition AUTO_COMPRESS_MAX_SIZE :: nat where "AUTO_COMPRESS_MAX_SIZE = 67108864"

definition bz2_compress :: "bz_lib \<Rightarrow> bytes \<Rightarrow> (CompressionError, bytes) result" where
  "bz2_compress bz data = ok_or CompressFailed (bz_encode bz data)"

fun decompress_loop :: "nat \<Rightarrow> bytes \<Rightarrow> bytes option list \<Rightarrow> (CompressionError, bytes) result" where
  "decompress_loop max_size output [] = Ok output"
| "decompress_loop max_size output (None # _) = Err DecompressFailed"
| "decompress_loop max_size output (Some buf # reads) =
    (if length buf = 0 then Ok output
     else let output = output @ buf in
       if length output > max_size then Err DecompressedTooLarge
       else decompress_loop max_size output reads)"

definition bz2_decompress :: "bz_lib \<Rightarrow> bytes \<Rightarrow> nat \<Rightarrow> (CompressionError, bytes) result" where
  "bz2_decompress bz data max_size = decompress_loop max_size [] (bz_reads bz data)"

definition try_compress :: "bz_lib \<Rightarrow> bytes \<Rightarrow> bytes \<times> bool" where
  "try_compress bz data =
    (if length data > AUTO_COMPRESS_MAX_SIZE then (data, False)
     else case bz2_compress bz data of
       Inr compressed \<Rightarrow> if length compressed < length data then (compressed, True) else (data, False)
     | Inl _ \<Rightarrow> (data, False))"

text \<open>What is assumed of bzip2: an encoding is not empty, and decoding it yields the original, in non-empty
  reads.\<close>

definition bz_ok :: "bz_lib \<Rightarrow> bool" where
  "bz_ok bz \<longleftrightarrow> (\<forall>d c. bz_encode bz d = Some c \<longrightarrow> c \<noteq> [] \<and>
     (\<exists>bufs. bz_reads bz c = map Some bufs \<and> [] \<notin> set bufs \<and> concat bufs = d))"

subsection \<open>Stream frames\<close>

definition STREAM_ID_MAX :: u16 where "STREAM_ID_MAX = 0x3FFF"
definition MAX_CHUNK_LEN :: nat where "MAX_CHUNK_LEN = 16384"
definition COMPRESSION_TRIES :: nat where "COMPRESSION_TRIES = 4"
definition SMT_STREAM_DATA :: u16 where "SMT_STREAM_DATA = 0xFF00"

datatype ChannelMessageError = CM_UnpackFailed | CM_InvalidType | CM_TooShort

record StreamDataMessage =
  sdm_stream_id :: u16
  sdm_eof :: bool
  sdm_compressed :: bool
  sdm_data :: bytes

definition StreamDataMessage_new :: "u16 \<Rightarrow> bytes \<Rightarrow> bool \<Rightarrow> StreamDataMessage" where
  "StreamDataMessage_new stream_id data eof =
     \<lparr>sdm_stream_id = stream_id AND STREAM_ID_MAX, sdm_eof = eof, sdm_compressed = False, sdm_data = data\<rparr>"

definition header_value :: "StreamDataMessage \<Rightarrow> u16" where
  "header_value m =
    (let val = sdm_stream_id m AND STREAM_ID_MAX;
         val = (if sdm_eof m then val OR 0x8000 else val)
     in if sdm_compressed m then val OR 0x4000 else val)"

definition parse_header :: "u16 \<Rightarrow> u16 \<times> bool \<times> bool" where
  "parse_header val = (val AND STREAM_ID_MAX, (val AND 0x8000) \<noteq> 0, (val AND 0x4000) \<noteq> 0)"

definition StreamDataMessage_pack :: "StreamDataMessage \<Rightarrow> bytes" where
  "StreamDataMessage_pack m = u16_to_be (header_value m) @ sdm_data m"

definition StreamDataMessage_unpack :: "bz_lib \<Rightarrow> bytes \<Rightarrow> (ChannelMessageError, StreamDataMessage) result" where
  "StreamDataMessage_unpack bz raw =
    (if length raw < 2 then Err CM_TooShort
     else
       let (stream_id, eof, compressed) = parse_header (u16_from_be (raw ! 0) (raw ! 1));
           payload = drop 2 raw
       in and_then (if compressed \<and> payload \<noteq> []
                    then map_err (\<lambda>_. CM_UnpackFailed) (bz2_decompress bz payload MAX_CHUNK_LEN)
                    else Ok payload) (\<lambda>data.
          Ok \<lparr>sdm_stream_id = stream_id, sdm_eof = eof, sdm_compressed = compressed, sdm_data = data\<rparr>))"

subsection \<open>Readers\<close>

record StreamReader =
  sr_stream_id :: u16
  sr_buffer :: bytes
  sr_eof :: bool

definition StreamReader_new :: "u16 \<Rightarrow> StreamReader" where
  "StreamReader_new stream_id = \<lparr>sr_stream_id = stream_id AND STREAM_ID_MAX, sr_buffer = [], sr_eof = False\<rparr>"

definition StreamReader_feed :: "StreamDataMessage \<Rightarrow> StreamReader \<Rightarrow> StreamReader \<times> bool" where
  "StreamReader_feed msg r =
    (if sdm_stream_id msg \<noteq> sr_stream_id r then (r, False)
     else
       let r = (if sdm_data msg \<noteq> [] then r\<lparr>sr_buffer := sr_buffer r @ sdm_data msg\<rparr> else r);
           r = (if sdm_eof msg then r\<lparr>sr_eof := True\<rparr> else r)
       in (r, True))"

definition StreamReader_read :: "nat \<Rightarrow> StreamReader \<Rightarrow> StreamReader \<times> bytes option" where
  "StreamReader_read n_bytes r =
    (if sr_buffer r = [] then (r, if sr_eof r then Some [] else None)
     else let n = min n_bytes (length (sr_buffer r))
          in (r\<lparr>sr_buffer := drop n (sr_buffer r)\<rparr>, Some (take n (sr_buffer r))))"

definition StreamReader_read_all :: "StreamReader \<Rightarrow> StreamReader \<times> bytes option" where
  "StreamReader_read_all r =
    (if sr_buffer r = [] then (r, if sr_eof r then Some [] else None)
     else (r\<lparr>sr_buffer := []\<rparr>, Some (sr_buffer r)))"

definition StreamReader_available :: "StreamReader \<Rightarrow> nat" where
  "StreamReader_available r = length (sr_buffer r)"

definition StreamReader_is_done :: "StreamReader \<Rightarrow> bool" where
  "StreamReader_is_done r \<longleftrightarrow> sr_eof r \<and> sr_buffer r = []"

subsection \<open>Writers\<close>

record StreamWriter =
  sw_stream_id :: u16
  sw_max_data_len :: nat
  sw_closed :: bool

datatype BufferError = WriterClosed

definition StreamWriter_new :: "u16 \<Rightarrow> nat \<Rightarrow> StreamWriter" where
  "StreamWriter_new stream_id max_data_len =
     \<lparr>sw_stream_id = stream_id AND STREAM_ID_MAX, sw_max_data_len = max_data_len, sw_closed = False\<rparr>"

text \<open>The loop over the trials \<open>comp_try\<close> of \<open>try_compress_chunk\<close>; \<open>None\<close> when no prefix is worth compressing.\<close>

fun compress_tries :: "bz_lib \<Rightarrow> nat \<Rightarrow> bytes \<Rightarrow> nat list \<Rightarrow> (bytes \<times> nat) option" where
  "compress_tries bz max_data_len chunk [] = None"
| "compress_tries bz max_data_len chunk (comp_try # tries) =
    (let segment_len = length chunk div comp_try in
     if segment_len \<le> 32 then None
     else case bz2_compress bz (take segment_len chunk) of
       Inr compressed \<Rightarrow>
         if length compressed < max_data_len \<and> length compressed < segment_len then Some (compressed, segment_len)
         else compress_tries bz max_data_len chunk tries
     | Inl _ \<Rightarrow> compress_tries bz max_data_len chunk tries)"

definition StreamWriter_try_compress_chunk :: "bz_lib \<Rightarrow> bytes \<Rightarrow> StreamWriter \<Rightarrow> bytes \<times> nat \<times> bool" where
  "StreamWriter_try_compress_chunk bz chunk w =
    (if length chunk \<le> 32 then
       let send_len = min (length chunk) (sw_max_data_len w) in (take send_len chunk, send_len, False)
     else case compress_tries bz (sw_max_data_len w) chunk [1..<COMPRESSION_TRIES] of
       Some (compressed, segment_len) \<Rightarrow> (compressed, segment_len, True)
     | None \<Rightarrow> let send_len = min (length chunk) (sw_max_data_len w) in (take send_len chunk, send_len, False))"

partial_function (option) write_loop :: "bz_lib \<Rightarrow> StreamWriter \<Rightarrow> bytes \<Rightarrow> nat \<Rightarrow> StreamDataMessage list option" where
  "write_loop bz w data offset =
    (if offset < length data then
       let remaining = drop offset data;
           chunk = take (min (length remaining) MAX_CHUNK_LEN) remaining;
           (msg_data, consumed, compressed) = StreamWriter_try_compress_chunk bz chunk w;
           msg = (StreamDataMessage_new (sw_stream_id w) msg_data False)\<lparr>sdm_compressed := compressed\<rparr>
       in Option.bind (write_loop bz w data (offset + consumed)) (\<lambda>messages. Some (msg # messages))
     else Some [])"

definition StreamWriter_write :: "bz_lib \<Rightarrow> bytes \<Rightarrow> StreamWriter \<Rightarrow> (BufferError, StreamDataMessage list) result option" where
  "StreamWriter_write bz data w =
    (if sw_closed w then Some (Err WriterClosed)
     else if data = [] then Some (Ok [])
     else map_option Ok (write_loop bz w data 0))"

definition StreamWriter_close_simple :: "StreamWriter \<Rightarrow> StreamWriter \<times> StreamDataMessage" where
  "StreamWriter_close_simple w = (w\<lparr>sw_closed := True\<rparr>, StreamDataMessage_new (sw_stream_id w) [] True)"

text \<open>\<open>close\<close> returns the same frame wrapped as \<open>DrainClose\<close>.\<close>

datatype DrainClose = DrainClose (dc_eof_message: StreamDataMessage)

definition StreamWriter_close :: "StreamWriter \<Rightarrow> StreamWriter \<times> DrainClose" where
  "StreamWriter_close w = (w\<lparr>sw_closed := True\<rparr>, DrainClose (StreamDataMessage_new (sw_stream_id w) [] True))"

subsection \<open>Both directions\<close>

record ChannelBuffer =
  cbuf_writer :: StreamWriter
  cbuf_reader :: StreamReader
  cbuf_stream_id :: u16

definition ChannelBuffer_new :: "u16 \<Rightarrow> nat \<Rightarrow> ChannelBuffer" where
  "ChannelBuffer_new stream_id max_data_len =
     \<lparr>cbuf_writer = StreamWriter_new stream_id max_data_len, cbuf_reader = StreamReader_new stream_id,
      cbuf_stream_id = stream_id\<rparr>"

definition ChannelBuffer_write :: "bz_lib \<Rightarrow> bytes \<Rightarrow> ChannelBuffer \<Rightarrow> (BufferError, StreamDataMessage list) result option" where
  "ChannelBuffer_write bz data b = StreamWriter_write bz data (cbuf_writer b)"

definition ChannelBuffer_close_writer :: "ChannelBuffer \<Rightarrow> ChannelBuffer \<times> StreamDataMessage" where
  "ChannelBuffer_close_writer b =
    (let (w, m) = StreamWriter_close_simple (cbuf_writer b) in (b\<lparr>cbuf_writer := w\<rparr>, m))"

definition ChannelBuffer_feed_reader :: "StreamDataMessage \<Rightarrow> ChannelBuffer \<Rightarrow> ChannelBuffer \<times> bool" where
  "ChannelBuffer_feed_reader msg b =
    (let (r, ok) = StreamReader_feed msg (cbuf_reader b) in (b\<lparr>cbuf_reader := r\<rparr>, ok))"

definition ChannelBuffer_read :: "nat \<Rightarrow> ChannelBuffer \<Rightarrow> ChannelBuffer \<times> bytes option" where
  "ChannelBuffer_read n_bytes b =
    (let (r, d) = StreamReader_read n_bytes (cbuf_reader b) in (b\<lparr>cbuf_reader := r\<rparr>, d))"

definition ChannelBuffer_read_all :: "ChannelBuffer \<Rightarrow> ChannelBuffer \<times> bytes option" where
  "ChannelBuffer_read_all b =
    (let (r, d) = StreamReader_read_all (cbuf_reader b) in (b\<lparr>cbuf_reader := r\<rparr>, d))"

definition ChannelBuffer_drain_and_close_writer :: "ChannelBuffer \<Rightarrow> ChannelBuffer \<times> DrainClose" where
  "ChannelBuffer_drain_and_close_writer b =
    (let (w, d) = StreamWriter_close (cbuf_writer b) in (b\<lparr>cbuf_writer := w\<rparr>, d))"

subsection \<open>Frames round trip\<close>

lemma parse_header_value:
  "parse_header (header_value m) = (sdm_stream_id m AND STREAM_ID_MAX, sdm_eof m, sdm_compressed m)"
  by (simp add: parse_header_def header_value_def STREAM_ID_MAX_def Let_def bit.conj_disj_distrib2 and.assoc)

lemma unpack_pack:
  "StreamDataMessage_unpack bz (StreamDataMessage_pack m) =
    (if sdm_compressed m \<and> sdm_data m \<noteq> []
     then case bz2_decompress bz (sdm_data m) MAX_CHUNK_LEN of
       Inl _ \<Rightarrow> Err CM_UnpackFailed
     | Inr d \<Rightarrow> Ok (m\<lparr>sdm_stream_id := sdm_stream_id m AND STREAM_ID_MAX, sdm_data := d\<rparr>)
     else Ok (m\<lparr>sdm_stream_id := sdm_stream_id m AND STREAM_ID_MAX\<rparr>))"
  by (cases m) (auto simp: StreamDataMessage_unpack_def StreamDataMessage_pack_def parse_header_value u16_to_be_def
      Let_def split: sum.splits)

lemma decompress_loop_ok:
  assumes "[] \<notin> set bufs" and "length (acc @ concat bufs) \<le> max_size"
  shows "decompress_loop max_size acc (map Some bufs) = Ok (acc @ concat bufs)"
  using assms by (induction bufs arbitrary: acc) (auto simp: Let_def)

lemma decompress_bounded:
  assumes "decompress_loop max_size acc rs = Ok d" and "length acc \<le> max_size"
  shows "length d \<le> max_size"
  using assms
  by (induction max_size acc rs rule: decompress_loop.induct) (auto simp: Let_def split: if_splits)

lemma bz2_compress_decompress:
  assumes "bz_ok bz" and "bz2_compress bz d = Ok c" and "length d \<le> max_size"
  shows "c \<noteq> [] \<and> bz2_decompress bz c max_size = Ok d"
proof -
  from assms(2) have "bz_encode bz d = Some c" by (auto simp: bz2_compress_def ok_or_def split: option.splits)
  with assms(1) obtain bufs where "c \<noteq> []" "bz_reads bz c = map Some bufs" "[] \<notin> set bufs" "concat bufs = d"
    unfolding bz_ok_def by blast
  with decompress_loop_ok [of bufs "[]" max_size] assms(3) show ?thesis by (simp add: bz2_decompress_def)
qed

text \<open>The data a frame carries once the receiver has unpacked it.\<close>

definition frame_data :: "bz_lib \<Rightarrow> StreamDataMessage \<Rightarrow> bytes \<Rightarrow> bool" where
  "frame_data bz m d \<longleftrightarrow> StreamDataMessage_unpack bz (StreamDataMessage_pack m) = Ok (m\<lparr>sdm_data := d\<rparr>)"

lemma compress_tries_Some:
  assumes "compress_tries bz n chunk tries = Some (c, k)"
  shows "32 < k \<and> k \<le> length chunk \<and> length c < n \<and> bz2_compress bz (take k chunk) = Ok c"
  using assms
  by (induction tries) (auto simp: Let_def div_le_dividend split: if_splits sum.splits)

lemma try_compress_chunk_progress:
  assumes "bz_ok bz" and "0 < sw_max_data_len w" and "chunk \<noteq> []" and "length chunk \<le> MAX_CHUNK_LEN"
    and "StreamWriter_try_compress_chunk bz chunk w = (d, k, z)"
  shows "0 < k \<and> k \<le> length chunk \<and> length d \<le> sw_max_data_len w
    \<and> (if z then d \<noteq> [] \<and> bz2_decompress bz d MAX_CHUNK_LEN = Ok (take k chunk) else d = take k chunk)"
proof (cases "length chunk \<le> 32")
  case True with assms(2,3,5) show ?thesis
    by (auto simp: StreamWriter_try_compress_chunk_def Let_def)
next
  case False
  show ?thesis
  proof (cases "compress_tries bz (sw_max_data_len w) chunk [1..<COMPRESSION_TRIES]")
    case None with False assms(2,3,5) show ?thesis
      by (auto simp: StreamWriter_try_compress_chunk_def Let_def)
  next
    case (Some r)
    with False assms(5) have r: "r = (d, k)" "z"
      by (auto simp: StreamWriter_try_compress_chunk_def split: prod.splits)
    from compress_tries_Some Some r have t: "32 < k" "k \<le> length chunk" "length d < sw_max_data_len w"
      "bz2_compress bz (take k chunk) = Ok d" by blast+
    with bz2_compress_decompress [OF assms(1) t(4)] assms(4) r(2) show ?thesis by auto
  qed
qed

subsection \<open>Writing\<close>

definition stream_frames :: "bz_lib \<Rightarrow> u16 \<Rightarrow> nat \<Rightarrow> bytes \<Rightarrow> StreamDataMessage list \<Rightarrow> bool" where
  "stream_frames bz sid n data msgs \<longleftrightarrow>
    (\<exists>ds. list_all2 (frame_data bz) msgs ds \<and> concat ds = data)
    \<and> (\<forall>m\<in>set msgs. sdm_stream_id m = sid \<and> \<not> sdm_eof m \<and> length (sdm_data m) \<le> n)"

lemma stream_frames_Nil: "stream_frames bz sid n [] []"
  by (auto simp: stream_frames_def)

lemma stream_frames_Cons:
  assumes "frame_data bz m d" and "sdm_stream_id m = sid" and "\<not> sdm_eof m" and "length (sdm_data m) \<le> n"
    and "stream_frames bz sid n data msgs"
  shows "stream_frames bz sid n (d @ data) (m # msgs)"
proof -
  from assms(5) obtain ds where "list_all2 (frame_data bz) msgs ds" "concat ds = data"
    by (auto simp: stream_frames_def)
  then have "list_all2 (frame_data bz) (m # msgs) (d # ds)" "concat (d # ds) = d @ data" using assms(1) by auto
  with assms(2-5) show ?thesis unfolding stream_frames_def by auto
qed

lemma stream_frames_append:
  assumes "stream_frames bz sid n d1 m1" and "stream_frames bz sid n d2 m2"
  shows "stream_frames bz sid n (d1 @ d2) (m1 @ m2)"
proof -
  from assms obtain x y where "list_all2 (frame_data bz) m1 x" "concat x = d1" "list_all2 (frame_data bz) m2 y" "concat y = d2"
    by (auto simp: stream_frames_def)
  then have "list_all2 (frame_data bz) (m1 @ m2) (x @ y) \<and> concat (x @ y) = d1 @ d2"
    by (simp add: list_all2_appendI)
  with assms show ?thesis unfolding stream_frames_def by auto
qed

lemma write_loop_total:
  assumes "bz_ok bz" and "0 < sw_max_data_len w" and "sw_stream_id w AND STREAM_ID_MAX = sw_stream_id w"
  shows "\<exists>msgs. write_loop bz w data offset = Some msgs
    \<and> stream_frames bz (sw_stream_id w) (sw_max_data_len w) (drop offset data) msgs"
proof (induction "length data - offset" arbitrary: offset rule: less_induct)
  case less
  show ?case
  proof (cases "offset < length data")
    case False
    then show ?thesis by (simp add: write_loop.simps [of bz w data offset] stream_frames_Nil)
  next
    case True
    let ?rem = "drop offset data"
    let ?chunk = "take (min (length ?rem) MAX_CHUNK_LEN) ?rem"
    obtain d k z where t: "StreamWriter_try_compress_chunk bz ?chunk w = (d, k, z)"
      using prod_cases3 by blast
    let ?m = "(StreamDataMessage_new (sw_stream_id w) d False)\<lparr>sdm_compressed := z\<rparr>"
    have ne: "?chunk \<noteq> []" using True by (simp add: MAX_CHUNK_LEN_def)
    have chunk: "0 < k" "k \<le> length ?chunk" "length d \<le> sw_max_data_len w"
      "if z then d \<noteq> [] \<and> bz2_decompress bz d MAX_CHUNK_LEN = Ok (take k ?chunk) else d = take k ?chunk"
      using try_compress_chunk_progress [OF assms(1,2) ne _ t] by auto
    have k: "take k ?chunk = take k ?rem" using chunk(2) by (simp only: take_take length_take min.bounded_iff) (simp add: min.absorb1)
    have fd: "frame_data bz ?m (take k ?rem)"
      using chunk(4) assms(3) unfolding k
      by (auto simp: frame_data_def unpack_pack StreamDataMessage_new_def and.assoc split: if_splits)
    have "length data - (offset + k) < length data - offset" using True chunk(1) by simp
    from less.hyps [OF this] obtain msgs where r: "write_loop bz w data (offset + k) = Some msgs"
      "stream_frames bz (sw_stream_id w) (sw_max_data_len w) (drop (offset + k) data) msgs" by blast
    have "write_loop bz w data offset = Some (?m # msgs)"
      using True t r(1) by (simp add: write_loop.simps [of bz w data offset] Let_def)
    moreover have "stream_frames bz (sw_stream_id w) (sw_max_data_len w) (take k ?rem @ drop (offset + k) data) (?m # msgs)"
      by (rule stream_frames_Cons [OF fd _ _ _ r(2)]) (simp_all add: StreamDataMessage_new_def chunk(3) assms(3))
    moreover have "take k ?rem @ drop (offset + k) data = ?rem"
      by (metis add.commute append_take_drop_id drop_drop)
    ultimately show ?thesis by simp
  qed
qed

lemma StreamWriter_write_total:
  assumes "bz_ok bz" and "0 < sw_max_data_len w" and "sw_stream_id w AND STREAM_ID_MAX = sw_stream_id w"
    and "\<not> sw_closed w"
  shows "\<exists>msgs. StreamWriter_write bz data w = Some (Ok msgs)
    \<and> stream_frames bz (sw_stream_id w) (sw_max_data_len w) data msgs"
  using write_loop_total [OF assms(1-3), of data 0] assms(4)
  by (auto simp: StreamWriter_write_def stream_frames_Nil)

text \<open>A budget of zero is not checked by the code: a raw frame then consumes nothing and the loop stays where
  it is.\<close>

lemma write_loop_zero_budget:
  assumes "sw_max_data_len w = 0" and "offset < length data"
  shows "write_loop bz w data offset = None"
proof -
  have *: "StreamWriter_try_compress_chunk bz chunk w = ([], 0, False)" for chunk
  proof -
    have "compress_tries bz 0 chunk tries = None" for tries
      by (induction tries) (auto simp: Let_def split: sum.splits)
    with assms(1) show ?thesis by (simp add: StreamWriter_try_compress_chunk_def)
  qed
  have step: "\<exists>ms'. write_loop bz w data offset = Some ms' \<and> length ms = Suc (length ms')"
    if "write_loop bz w data offset = Some ms" for ms
    using that assms(2) * by (subst (asm) write_loop.simps) (auto simp: Let_def split: Option.bind_splits)
  have "write_loop bz w data offset = Some ms \<Longrightarrow> False" for ms
    by (induction "length ms" arbitrary: ms) (metis step Suc_inject nat.distinct(1))+
  then show ?thesis by (cases "write_loop bz w data offset") auto
qed

subsection \<open>Reading what was written\<close>

text \<open>A client that writes \<open>datas\<close> one after the other and closes; and a peer that unpacks packed frames and
  feeds its reader.\<close>

fun write_all :: "bz_lib \<Rightarrow> bytes list \<Rightarrow> StreamWriter \<Rightarrow> StreamDataMessage list option" where
  "write_all bz [] w = Some [snd (StreamWriter_close_simple w)]"
| "write_all bz (data # datas) w =
    (case StreamWriter_write bz data w of
       Some (Inr msgs) \<Rightarrow> map_option ((@) msgs) (write_all bz datas w)
     | _ \<Rightarrow> None)"

fun feed_all :: "bz_lib \<Rightarrow> bytes list \<Rightarrow> StreamReader \<Rightarrow> (ChannelMessageError, StreamReader) result" where
  "feed_all bz [] r = Ok r"
| "feed_all bz (raw # raws) r =
    and_then (StreamDataMessage_unpack bz raw) (\<lambda>m. feed_all bz raws (fst (StreamReader_feed m r)))"

lemma feed_all_append: "feed_all bz (xs @ ys) r = and_then (feed_all bz xs r) (feed_all bz ys)"
proof (induction xs arbitrary: r)
  case (Cons raw xs)
  then show ?case by (cases "StreamDataMessage_unpack bz raw") simp_all
qed simp

lemma feed_frame:
  assumes "frame_data bz m d" and "sdm_stream_id m = sr_stream_id r" and "\<not> sdm_eof m"
  shows "feed_all bz (StreamDataMessage_pack m # raws) r = feed_all bz raws (r\<lparr>sr_buffer := sr_buffer r @ d\<rparr>)"
  using assms by (simp add: frame_data_def StreamReader_feed_def Let_def)

lemma feed_frames:
  assumes "list_all2 (frame_data bz) msgs ds" and "\<forall>m\<in>set msgs. sdm_stream_id m = sr_stream_id r \<and> \<not> sdm_eof m"
  shows "feed_all bz (map StreamDataMessage_pack msgs) r = Ok (r\<lparr>sr_buffer := sr_buffer r @ concat ds\<rparr>)"
  using assms
proof (induction msgs ds arbitrary: r rule: list_all2_induct)
  case Nil then show ?case by simp
next
  case (Cons m msgs d ds)
  let ?r = "r\<lparr>sr_buffer := sr_buffer r @ d\<rparr>"
  have "feed_all bz (map StreamDataMessage_pack msgs) ?r = Ok (?r\<lparr>sr_buffer := sr_buffer ?r @ concat ds\<rparr>)"
    by (rule Cons.IH) (use Cons.prems in simp)
  moreover have "feed_all bz (map StreamDataMessage_pack (m # msgs)) r = feed_all bz (map StreamDataMessage_pack msgs) ?r"
    unfolding list.map by (rule feed_frame [OF Cons.hyps(1)]) (use Cons.prems in auto)
  ultimately show ?case by simp
qed

lemma feed_stream_frames:
  assumes "stream_frames bz (sr_stream_id r) n data msgs"
  shows "feed_all bz (map StreamDataMessage_pack msgs) r = Ok (r\<lparr>sr_buffer := sr_buffer r @ data\<rparr>)"
  using assms feed_frames unfolding stream_frames_def by blast

lemma write_all_frames:
  assumes "bz_ok bz" and "0 < n"
  shows "\<exists>msgs. write_all bz datas (StreamWriter_new sid n) = Some (msgs @ [StreamDataMessage_new sid [] True])
    \<and> stream_frames bz (sid AND STREAM_ID_MAX) n (concat datas) msgs"
proof (induction datas)
  case Nil
  show ?case
    by (simp add: StreamWriter_close_simple_def StreamWriter_new_def StreamDataMessage_new_def stream_frames_Nil and.assoc)
next
  case (Cons data datas)
  let ?w = "StreamWriter_new sid n"
  obtain m1 where m1: "StreamWriter_write bz data ?w = Some (Ok m1)"
    "stream_frames bz (sid AND STREAM_ID_MAX) n data m1"
    using StreamWriter_write_total [OF assms(1), of ?w data] assms(2)
    by (auto simp: StreamWriter_new_def and.assoc)
  from Cons.IH obtain m2 where "write_all bz datas ?w = Some (m2 @ [StreamDataMessage_new sid [] True])"
    "stream_frames bz (sid AND STREAM_ID_MAX) n (concat datas) m2" by blast
  with m1 stream_frames_append [OF m1(2)] show ?case by simp
qed

lemma feed_eof:
  assumes "sr_stream_id r = sid AND STREAM_ID_MAX"
  shows "feed_all bz [StreamDataMessage_pack (StreamDataMessage_new sid [] True)] r = Ok (r\<lparr>sr_eof := True\<rparr>)"
  using assms by (simp add: unpack_pack StreamDataMessage_new_def StreamReader_feed_def Let_def and.assoc)

text \<open>
  C35: writing any sequence of buffers through a stream writer with a positive payload budget terminates, every
  frame it emits packs into at most the budget plus the two header bytes, and a reader of the same stream that
  unpacks and is fed the packed frames in order buffers exactly the concatenation of the buffers written, is at
  end of stream, and is done after one \<open>read_all\<close> - whatever prefixes bzip2 was used on.
\<close>

theorem stream_write_read:
  assumes "bz_ok bz" and "0 < n"
  shows "\<exists>msgs r. write_all bz datas (StreamWriter_new sid n) = Some msgs
    \<and> (\<forall>m\<in>set msgs. length (StreamDataMessage_pack m) \<le> n + 2)
    \<and> feed_all bz (map StreamDataMessage_pack msgs) (StreamReader_new sid) = Ok r
    \<and> snd (StreamReader_read_all r) = Some (concat datas)
    \<and> StreamReader_is_done (fst (StreamReader_read_all r))"
proof -
  let ?eof = "StreamDataMessage_new sid [] True" and ?r = "StreamReader_new sid"
  obtain msgs where w: "write_all bz datas (StreamWriter_new sid n) = Some (msgs @ [?eof])"
    and fr: "stream_frames bz (sid AND STREAM_ID_MAX) n (concat datas) msgs"
    using write_all_frames [OF assms] by blast
  have sid: "sr_stream_id ?r = sid AND STREAM_ID_MAX" by (simp add: StreamReader_new_def)
  have "feed_all bz (map StreamDataMessage_pack (msgs @ [?eof])) ?r =
      Ok (?r\<lparr>sr_buffer := concat datas, sr_eof := True\<rparr>)"
    using feed_stream_frames [of bz ?r n "concat datas" msgs] fr sid feed_eof [of "?r\<lparr>sr_buffer := concat datas\<rparr>" sid bz]
    by (simp add: feed_all_append) (simp add: StreamReader_new_def)
  moreover have "\<forall>m\<in>set (msgs @ [?eof]). length (StreamDataMessage_pack m) \<le> n + 2"
    using fr by (auto simp: stream_frames_def StreamDataMessage_pack_def StreamDataMessage_new_def)
  ultimately show ?thesis using w
    by (intro exI conjI) (assumption | simp add: StreamReader_read_all_def StreamReader_is_done_def)+
qed

text \<open>A bzip2 that halves runs of zeros: enough to exercise both branches of the writer.\<close>

definition example_bz :: bz_lib where
  "example_bz = \<lparr>
     bz_encode = (\<lambda>d. if set d \<subseteq> {0} \<and> length d < 256 then Some [of_nat (length d)] else None),
     bz_reads = (\<lambda>c. case c of [n] \<Rightarrow> if n = 0 then [] else [Some (replicate (unat n) 0)] | _ \<Rightarrow> [None])\<rparr>"

lemma example_bz_ok: "bz_ok example_bz"
proof -
  have "d = replicate (length d) (0::u8)" if "set d \<subseteq> {0}" for d
    using that by (induction d) auto
  moreover have u: "unat (of_nat n :: u8) = n" if "n < 256" for n
    using that by (simp add: unat_of_nat take_bit_eq_mod)
  moreover have "(of_nat n :: u8) = 0 \<longleftrightarrow> n = 0" if "n < 256" for n
    using u [OF that] by auto
  ultimately have "\<exists>bufs. bz_reads example_bz [of_nat (length d)] = map Some bufs \<and> [] \<notin> set bufs \<and> concat bufs = d"
    if "set d \<subseteq> {0}" "length d < 256" for d
    using that by (intro exI [of _ "if d = [] then [] else [d]"]) (auto simp: example_bz_def)
  then show ?thesis by (auto simp: bz_ok_def example_bz_def)
qed

theorem stream_write_read_witness:
  "\<exists>msgs r. write_all example_bz [replicate 40 0, [1, 2, 3]] (StreamWriter_new 0x7001 2) = Some msgs
    \<and> feed_all example_bz (map StreamDataMessage_pack msgs) (StreamReader_new 0x7001) = Ok r
    \<and> snd (StreamReader_read_all r) = Some (replicate 40 0 @ [1, 2, 3])"
  using stream_write_read [OF example_bz_ok, where n = 2 and datas = "[replicate 40 0, [1, 2, 3]]" and sid = "0x7001"] by auto

end
