(* ===== verification/Link_Channel.thy ===== *)
theory Link_Channel
  imports Message_Channel Link_Handshake Stream_Buffer
begin

text \<open>
  A channel bound to a link: \<open>LinkChannel\<close> of \<open>src/crates/rns-protocol/src/channel.rs\<close>, which encrypts
  outbound envelopes and decrypts inbound ones with the session keys of the link and remembers which packet hash
  carries which sequence. The clock, the initialisation vector and the crypto library are arguments.
\<close>

subsection \<open>State and operations\<close>

record LinkChannel =
  lc_channel :: Channel
  lc_link_id :: bytes
  lc_link_mdu :: nat
  lc_session_keys :: "LinkKeys option"
  lc_outbound_packet_hashes :: "bytes \<rightharpoonup> u16"

record PreparedChannelData =
  pcd_sequence :: u16
  pcd_data :: bytes

definition LinkChannel_new_with_mdu :: "bytes \<Rightarrow> f64 \<Rightarrow> nat \<Rightarrow> LinkChannel" where
  "LinkChannel_new_with_mdu link_id rtt link_mdu =
     \<lparr>lc_channel = Channel_new rtt, lc_link_id = link_id, lc_link_mdu = link_mdu, lc_session_keys = None,
      lc_outbound_packet_hashes = Map.empty\<rparr>"

definition LinkChannel_new :: "bytes \<Rightarrow> f64 \<Rightarrow> LinkChannel" where
  "LinkChannel_new link_id rtt = LinkChannel_new_with_mdu link_id rtt LINK_MDU"

definition LinkChannel_new_encrypted_with_mdu :: "bytes \<Rightarrow> f64 \<Rightarrow> nat \<Rightarrow> LinkKeys \<Rightarrow> LinkChannel" where
  "LinkChannel_new_encrypted_with_mdu link_id rtt link_mdu keys =
     \<lparr>lc_channel = Channel_new rtt, lc_link_id = link_id, lc_link_mdu = link_mdu, lc_session_keys = Some keys,
      lc_outbound_packet_hashes = Map.empty\<rparr>"

definition LinkChannel_new_encrypted :: "bytes \<Rightarrow> f64 \<Rightarrow> LinkKeys \<Rightarrow> LinkChannel" where
  "LinkChannel_new_encrypted link_id rtt keys = LinkChannel_new_encrypted_with_mdu link_id rtt LINK_MDU keys"

definition LinkChannel_prepare_send_tracked ::
    "crypto_lib \<Rightarrow> bytes \<Rightarrow> instant \<Rightarrow> message \<Rightarrow> LinkChannel \<Rightarrow> LinkChannel \<times> (ChannelError, PreparedChannelData) result" where
  "LinkChannel_prepare_send_tracked lib iv now msg lc =
    (let (c, r) = Channel_send_tracked_with_max_envelope now msg (Some (lc_link_mdu lc)) (lc_channel lc);
         lc = lc\<lparr>lc_channel := c\<rparr>
     in (lc, and_then r (\<lambda>(sequence, raw).
          case lc_session_keys lc of
            Some keys \<Rightarrow> and_then (map_err (\<lambda>_. ChannelClosed) (link_encrypt lib iv keys raw))
                           (\<lambda>data. Ok \<lparr>pcd_sequence = sequence, pcd_data = data\<rparr>)
          | None \<Rightarrow> Ok \<lparr>pcd_sequence = sequence, pcd_data = raw\<rparr>)))"

definition LinkChannel_prepare_send ::
    "crypto_lib \<Rightarrow> bytes \<Rightarrow> instant \<Rightarrow> message \<Rightarrow> LinkChannel \<Rightarrow> LinkChannel \<times> (ChannelError, bytes) result" where
  "LinkChannel_prepare_send lib iv now msg lc =
    (let (lc, r) = LinkChannel_prepare_send_tracked lib iv now msg lc in (lc, and_then r (\<lambda>p. Ok (pcd_data p))))"

definition LinkChannel_receive_data ::
    "crypto_lib \<Rightarrow> bytes \<Rightarrow> LinkChannel \<Rightarrow> LinkChannel \<times> (ChannelError, (u16 \<times> bytes) list) result" where
  "LinkChannel_receive_data lib raw lc =
    (case (case lc_session_keys lc of
             Some keys \<Rightarrow> map_err (\<lambda>_. ChannelClosed) (link_decrypt lib keys raw)
           | None \<Rightarrow> Ok raw) of
       Inl e \<Rightarrow> (lc, Err e)
     | Inr plaintext \<Rightarrow>
         let (c, r) = Channel_receive plaintext (lc_channel lc) in (lc\<lparr>lc_channel := c\<rparr>, r))"

definition LinkChannel_delivered :: "u16 \<Rightarrow> f64 \<Rightarrow> LinkChannel \<Rightarrow> LinkChannel" where
  "LinkChannel_delivered sequence rtt lc =
     lc\<lparr>lc_channel := Channel_delivered sequence rtt (Channel_update_rtt rtt (lc_channel lc))\<rparr>"

definition LinkChannel_track_outbound_packet_hash :: "bytes \<Rightarrow> u16 \<Rightarrow> LinkChannel \<Rightarrow> LinkChannel" where
  "LinkChannel_track_outbound_packet_hash h sequence lc =
     lc\<lparr>lc_outbound_packet_hashes := (lc_outbound_packet_hashes lc)(h \<mapsto> sequence)\<rparr>"

definition LinkChannel_delivered_by_packet_hash :: "bytes \<Rightarrow> f64 \<Rightarrow> LinkChannel \<Rightarrow> LinkChannel \<times> u16 option" where
  "LinkChannel_delivered_by_packet_hash h rtt lc =
    (case lc_outbound_packet_hashes lc h of
       None \<Rightarrow> (lc, None)
     | Some sequence \<Rightarrow>
         let hashes = (lc_outbound_packet_hashes lc)(h := None);
             hashes = (\<lambda>k. case hashes k of Some s \<Rightarrow> if s \<noteq> sequence then Some s else None | None \<Rightarrow> None)
         in (LinkChannel_delivered sequence rtt (lc\<lparr>lc_outbound_packet_hashes := hashes\<rparr>), Some sequence))"

definition LinkChannel_mdu :: "LinkChannel \<Rightarrow> nat" where
  "LinkChannel_mdu lc = Channel_channel_mdu (lc_link_mdu lc)"

definition LinkChannel_is_ready_to_send :: "LinkChannel \<Rightarrow> bool" where
  "LinkChannel_is_ready_to_send lc = Channel_is_ready_to_send (lc_channel lc)"

definition LinkChannel_register_message_type :: "u16 \<Rightarrow> LinkChannel \<Rightarrow> (ChannelError, LinkChannel) result" where
  "LinkChannel_register_message_type t lc =
     and_then (Channel_register_message_type t (lc_channel lc)) (\<lambda>c. Ok (lc\<lparr>lc_channel := c\<rparr>))"

definition LinkChannel_register_system_type :: "u16 \<Rightarrow> LinkChannel \<Rightarrow> LinkChannel" where
  "LinkChannel_register_system_type t lc = lc\<lparr>lc_channel := Channel_register_system_type t (lc_channel lc)\<rparr>"

definition LinkChannel_shutdown :: "LinkChannel \<Rightarrow> LinkChannel" where
  "LinkChannel_shutdown lc =
     lc\<lparr>lc_channel := Channel_shutdown (lc_channel lc), lc_outbound_packet_hashes := Map.empty\<rparr>"

definition LinkChannel_timeout ::
    "crypto_lib \<Rightarrow> bytes \<Rightarrow> instant \<Rightarrow> u16 \<Rightarrow> LinkChannel \<Rightarrow> LinkChannel \<times> (ChannelError, bytes option) result" where
  "LinkChannel_timeout lib iv now sequence lc =
    (let (c, r) = Channel_timeout now sequence (lc_channel lc);
         lc = lc\<lparr>lc_channel := c\<rparr>
     in (lc, and_then r (\<lambda>raw.
          case raw of
            None \<Rightarrow> Ok None
          | Some raw \<Rightarrow>
              (case lc_session_keys lc of
                 Some keys \<Rightarrow> and_then (map_err (\<lambda>_. ChannelClosed) (link_encrypt lib iv keys raw)) (\<lambda>d. Ok (Some d))
               | None \<Rightarrow> Ok (Some raw)))))"

subsection \<open>What a sender emits\<close>

text \<open>
  \<open>link_sender_run lib keys ms fs lc\<close>: a fresh encrypted link channel has accepted the messages \<open>ms\<close> in this
  order and handed out the packet bodies \<open>fs\<close>, retransmissions included, and is now \<open>lc\<close>.
\<close>

inductive link_sender_run :: "crypto_lib \<Rightarrow> nat \<Rightarrow> LinkKeys \<Rightarrow> message list \<Rightarrow> bytes list \<Rightarrow> LinkChannel \<Rightarrow> bool"
  for lib mdu keys where
  fresh: "link_sender_run lib mdu keys [] [] (LinkChannel_new_encrypted_with_mdu link_id rtt mdu keys)"
| accept: "link_sender_run lib mdu keys ms fs lc \<Longrightarrow> length iv = 16 \<Longrightarrow>
    LinkChannel_prepare_send_tracked lib iv now m lc = (lc', Ok p) \<Longrightarrow>
    link_sender_run lib mdu keys (ms @ [m]) (fs @ [pcd_data p]) lc'"
| refuse: "link_sender_run lib mdu keys ms fs lc \<Longrightarrow> length iv = 16 \<Longrightarrow>
    LinkChannel_prepare_send_tracked lib iv now m lc = (lc', Err e) \<Longrightarrow> link_sender_run lib mdu keys ms fs lc'"
| retransmit: "link_sender_run lib mdu keys ms fs lc \<Longrightarrow> length iv = 16 \<Longrightarrow>
    LinkChannel_timeout lib iv now s lc = (lc', Ok (Some f)) \<Longrightarrow> link_sender_run lib mdu keys ms (fs @ [f]) lc'"
| expire: "link_sender_run lib mdu keys ms fs lc \<Longrightarrow> length iv = 16 \<Longrightarrow>
    LinkChannel_timeout lib iv now s lc = (lc', Err e) \<Longrightarrow> link_sender_run lib mdu keys ms fs lc'"
| tracked: "link_sender_run lib mdu keys ms fs lc \<Longrightarrow>
    link_sender_run lib mdu keys ms fs (LinkChannel_track_outbound_packet_hash h s lc)"
| proved: "link_sender_run lib mdu keys ms fs lc \<Longrightarrow>
    link_sender_run lib mdu keys ms fs (fst (LinkChannel_delivered_by_packet_hash h rtt lc))"

text \<open>\<open>carries lib keys ms f k\<close>: the packet body \<open>f\<close> is an encryption of the envelope of message \<open>k\<close>.\<close>

definition carries :: "crypto_lib \<Rightarrow> LinkKeys \<Rightarrow> message list \<Rightarrow> bytes \<Rightarrow> nat \<Rightarrow> bool" where
  "carries lib keys ms f k \<longleftrightarrow> k < length ms
     \<and> (\<exists>iv. length iv = 16 \<and> link_encrypt lib iv keys (frame_of ((!) ms) k) = Ok f)"

definition lc_raws_ok :: "nat \<Rightarrow> message list \<Rightarrow> LinkChannel \<Rightarrow> bool" where
  "lc_raws_ok mdu ms lc \<longleftrightarrow> ch_next_tx_sequence (lc_channel lc) = of_nat (length ms)
     \<and> (\<forall>raw\<in>env_raw ` set (ch_tx_ring (lc_channel lc)). emitted_ok ms raw \<and> length raw \<le> mdu)"

lemma carries_snoc: "carries lib keys ms f k \<Longrightarrow> carries lib keys (ms @ [m]) f k"
  by (auto simp: carries_def frame_of_snoc)

lemma send_fits:
  assumes "Channel_send_tracked_with_max_envelope now m (Some mdu) c = (c', Ok (s, raw))"
  shows "length raw \<le> mdu"
  using assms by (auto simp: Channel_send_tracked_with_max_envelope_def Let_def split: if_splits)

lemma Channel_update_rtt_simps [simp]:
  "ch_tx_ring (Channel_update_rtt rtt c) = ch_tx_ring c"
  "ch_next_tx_sequence (Channel_update_rtt rtt c) = ch_next_tx_sequence c"
  by (simp_all add: Channel_update_rtt_def split: f64.splits)

lemma carries_size:
  assumes "cipher_lib_ok lib" and "keys_ok keys" and "length iv = 16"
    and "link_encrypt lib iv keys raw = Ok f" and "length raw \<le> (n div 16) * 16 - 1" and "16 \<le> n"
  shows "length f \<le> 48 + n"
proof -
  have "length f = 48 + (length raw div 16 + 1) * 16"
    using link_encrypt_decrypt [OF assms(1,3,2), of raw] assms(4) by auto
  moreover have "length raw < (n div 16) * 16" using assms(5,6) by (simp add: Suc_le_eq div_greater_zero_iff)
  then have "length raw div 16 < n div 16" by (simp add: less_mult_imp_div_less)
  then have "(length raw div 16 + 1) * 16 \<le> n" by (metis Suc_eq_plus1 Suc_leI div_times_less_eq_dividend le_trans mult_le_mono1)
  ultimately show ?thesis by simp
qed

lemma prepare_send_Ok:
  assumes "cipher_lib_ok lib" and "keys_ok keys" and "length iv = 16" and "lc_session_keys lc = Some keys"
    and "LinkChannel_prepare_send_tracked lib iv now m lc = (lc', r)"
  shows "lc_session_keys lc' = Some keys \<and> lc_link_mdu lc' = lc_link_mdu lc
    \<and> (case r of
        Inr p \<Rightarrow> \<exists>s raw. Channel_send_tracked_with_max_envelope now m (Some (lc_link_mdu lc)) (lc_channel lc) =
              (lc_channel lc', Ok (s, raw)) \<and> pcd_sequence p = s \<and> link_encrypt lib iv keys raw = Ok (pcd_data p)
      | Inl e \<Rightarrow> lc_channel lc' = lc_channel lc)"
proof -
  obtain c q where c: "Channel_send_tracked_with_max_envelope now m (Some (lc_link_mdu lc)) (lc_channel lc) = (c, q)"
    by fastforce
  show ?thesis
  proof (cases q)
    case (Inl e)
    with c assms(4,5) send_Err [of now m "Some (lc_link_mdu lc)" "lc_channel lc" c e] show ?thesis
      by (auto simp: LinkChannel_prepare_send_tracked_def)
  next
    case (Inr sr)
    obtain s raw where sr: "sr = (s, raw)" by fastforce
    obtain f where "link_encrypt lib iv keys raw = Ok f" using link_encrypt_decrypt [OF assms(1,3,2)] by blast
    with c Inr sr assms(4,5) show ?thesis by (auto simp: LinkChannel_prepare_send_tracked_def)
  qed
qed

lemma link_timeout_Ok:
  assumes "cipher_lib_ok lib" and "keys_ok keys" and "length iv = 16" and "lc_session_keys lc = Some keys"
    and "LinkChannel_timeout lib iv now s lc = (lc', r)"
  shows "lc_session_keys lc' = Some keys \<and> lc_link_mdu lc' = lc_link_mdu lc
    \<and> (\<exists>q. Channel_timeout now s (lc_channel lc) = (lc_channel lc', q)
        \<and> (\<forall>f. r = Ok (Some f) \<longrightarrow> (\<exists>raw. q = Ok (Some raw) \<and> link_encrypt lib iv keys raw = Ok f)))"
proof -
  obtain c q where c: "Channel_timeout now s (lc_channel lc) = (c, q)" by fastforce
  show ?thesis
  proof (cases q)
    case (Inr o')
    then show ?thesis
    proof (cases o')
      case (Some raw)
      with Inr c assms(4,5) show ?thesis
        by (cases "link_encrypt lib iv keys raw") (auto simp: LinkChannel_timeout_def)
    qed (use c assms(4,5) in \<open>auto simp: LinkChannel_timeout_def\<close>)
  qed (use c assms(4,5) in \<open>auto simp: LinkChannel_timeout_def\<close>)
qed

lemma delivered_by_hash_channel:
  "\<exists>c. lc_channel (fst (LinkChannel_delivered_by_packet_hash h rtt lc)) = c
     \<and> (c = lc_channel lc \<or> (\<exists>s. c = Channel_delivered s rtt (Channel_update_rtt rtt (lc_channel lc))))"
  "lc_session_keys (fst (LinkChannel_delivered_by_packet_hash h rtt lc)) = lc_session_keys lc"
  "lc_link_mdu (fst (LinkChannel_delivered_by_packet_hash h rtt lc)) = lc_link_mdu lc"
  by (auto simp: LinkChannel_delivered_by_packet_hash_def LinkChannel_delivered_def Let_def split: option.splits)

definition sender_inv where
  "sender_inv lib mdu keys ms fs lc \<longleftrightarrow> lc_session_keys lc = Some keys \<and> lc_link_mdu lc = mdu \<and> lc_raws_ok mdu ms lc
     \<and> (\<forall>f\<in>set fs. \<exists>k iv. length iv = 16 \<and> k < length ms \<and> length (frame_of ((!) ms) k) \<le> mdu
          \<and> link_encrypt lib iv keys (frame_of ((!) ms) k) = Ok f)"

lemma link_sender_run_inv:
  assumes "cipher_lib_ok lib" and "keys_ok keys" and "link_sender_run lib mdu keys ms fs lc"
  shows "sender_inv lib mdu keys ms fs lc"
  using assms(3)
proof (induction rule: link_sender_run.induct)
  case (fresh link_id rtt)
  show ?case
    by (simp add: sender_inv_def lc_raws_ok_def LinkChannel_new_encrypted_with_mdu_def Channel_new_def Let_def)
next
  case (accept ms fs lc iv now m lc' p)
  have k: "lc_session_keys lc = Some keys" "lc_link_mdu lc = mdu" using accept.IH by (auto simp: sender_inv_def)
  obtain s raw where s: "Channel_send_tracked_with_max_envelope now m (Some mdu) (lc_channel lc) = (lc_channel lc', Ok (s, raw))"
    "link_encrypt lib iv keys raw = Ok (pcd_data p)" "lc_session_keys lc' = Some keys" "lc_link_mdu lc' = mdu"
    using prepare_send_Ok [OF assms(1,2) accept(2) k(1) accept(3)] k(2) by auto
  have raw: "raw = frame_of ((!) (ms @ [m])) (length ms)" "length raw \<le> mdu"
    using send_Ok [OF s(1)] send_fits [OF s(1)] accept.IH by (auto simp: sender_inv_def lc_raws_ok_def frame_of_def)
  have new: "\<exists>k iv. length iv = 16 \<and> k < length (ms @ [m]) \<and> length (frame_of ((!) (ms @ [m])) k) \<le> mdu
      \<and> link_encrypt lib iv keys (frame_of ((!) (ms @ [m])) k) = Ok (pcd_data p)"
    using raw s(2) accept(2) by (intro exI [of _ "length ms"] exI [of _ iv]) auto
  have old: "\<exists>k iv. length iv = 16 \<and> k < length (ms @ [m]) \<and> length (frame_of ((!) (ms @ [m])) k) \<le> mdu
      \<and> link_encrypt lib iv keys (frame_of ((!) (ms @ [m])) k) = Ok f" if "f \<in> set fs" for f
    using accept.IH that by (simp add: sender_inv_def) (metis frame_of_snoc less_Suc_eq)
  have "lc_raws_ok mdu (ms @ [m]) lc'"
    using send_Ok [OF s(1)] accept.IH emitted_ok_new [of ms m] emitted_ok_snoc [of ms _ m] raw(2)
    by (auto simp: lc_raws_ok_def sender_inv_def next_sequence_of_nat simp del: of_nat_Suc)
  with s(3,4) new old show ?case by (auto simp: sender_inv_def)
next
  case (refuse ms fs lc iv now m lc' e)
  then have k: "lc_session_keys lc = Some keys" by (simp add: sender_inv_def)
  from prepare_send_Ok [OF assms(1,2) refuse(2) k refuse(3)] refuse.IH show ?case
    by (simp add: sender_inv_def lc_raws_ok_def)
next
  case (retransmit ms fs lc iv now s lc' f)
  then have k: "lc_session_keys lc = Some keys" by (simp add: sender_inv_def)
  from link_timeout_Ok [OF assms(1,2) retransmit(2) k retransmit(3)] obtain raw where
    t: "Channel_timeout now s (lc_channel lc) = (lc_channel lc', Ok (Some raw))" "link_encrypt lib iv keys raw = Ok f"
      "lc_session_keys lc' = Some keys" "lc_link_mdu lc' = lc_link_mdu lc" by auto
  from timeout_raws [OF t(1)] t retransmit.IH retransmit(2) show ?case
    by (fastforce simp: sender_inv_def lc_raws_ok_def emitted_ok_def)
next
  case (expire ms fs lc iv now s lc' e)
  then have k: "lc_session_keys lc = Some keys" by (simp add: sender_inv_def)
  from link_timeout_Ok [OF assms(1,2) expire(2) k expire(3)] obtain q where
    t: "Channel_timeout now s (lc_channel lc) = (lc_channel lc', q)"
      "lc_session_keys lc' = Some keys" "lc_link_mdu lc' = lc_link_mdu lc" by auto
  from timeout_raws [OF t(1)] t expire.IH show ?case by (simp add: sender_inv_def lc_raws_ok_def)
next
  case (tracked ms fs lc h s)
  then show ?case by (simp add: sender_inv_def lc_raws_ok_def LinkChannel_track_outbound_packet_hash_def)
next
  case (proved ms fs lc h rtt)
  have "lc_raws_ok mdu ms (fst (LinkChannel_delivered_by_packet_hash h rtt lc))"
    using delivered_by_hash_channel(1) [of h rtt lc] proved.IH delivered_raws [of _ rtt "Channel_update_rtt rtt (lc_channel lc)"]
    by (fastforce simp: sender_inv_def lc_raws_ok_def)
  with proved.IH show ?case by (simp add: sender_inv_def delivered_by_hash_channel)
qed

subsection \<open>What a receiver makes of it\<close>

fun link_receive_all :: "crypto_lib \<Rightarrow> bytes list \<Rightarrow> LinkChannel \<Rightarrow>
    LinkChannel \<times> (ChannelError, (u16 \<times> bytes) list) result list" where
  "link_receive_all lib [] lc = (lc, [])"
| "link_receive_all lib (f # fs) lc =
    (let (lc, r) = LinkChannel_receive_data lib f lc; (lc, rs) = link_receive_all lib fs lc in (lc, r # rs))"

lemma receive_carried:
  assumes "cipher_lib_ok lib" and "keys_ok keys" and "lc_session_keys lc = Some keys" and "carries lib keys ms f k"
    and "Channel_receive (frame_of ((!) ms) k) (lc_channel lc) = (c', r)"
  shows "LinkChannel_receive_data lib f lc = (lc\<lparr>lc_channel := c'\<rparr>, r)"
proof -
  from assms(4) obtain iv where iv: "length iv = 16" "link_encrypt lib iv keys (frame_of ((!) ms) k) = Ok f"
    by (auto simp: carries_def)
  with link_encrypt_decrypt [OF assms(1) iv(1) assms(2), of "frame_of ((!) ms) k"]
  have "link_decrypt lib keys f = Ok (frame_of ((!) ms) k)" by auto
  with assms(3,5) show ?thesis by (simp add: LinkChannel_receive_data_def)
qed

text \<open>The encrypted channel simulates the plain one, frame by frame.\<close>

lemma link_receive_all_refines:
  assumes "cipher_lib_ok lib" and "keys_ok keys" and "lc_session_keys lc = Some keys"
    and "list_all2 (carries lib keys ms) fs ks"
    and "receive_all (map (frame_of ((!) ms)) ks) (lc_channel lc) = (c', rs)"
  shows "link_receive_all lib fs lc = (lc\<lparr>lc_channel := c'\<rparr>, rs)"
  using assms(4,3,5)
proof (induction fs ks arbitrary: lc c' rs rule: list_all2_induct)
  case (Cons f fs k ks)
  obtain c1 r1 where r1: "Channel_receive (frame_of ((!) ms) k) (lc_channel lc) = (c1, r1)" by fastforce
  obtain c2 rs2 where rs2: "receive_all (map (frame_of ((!) ms)) ks) c1 = (c2, rs2)" by fastforce
  have "link_receive_all lib fs (lc\<lparr>lc_channel := c1\<rparr>) = (lc\<lparr>lc_channel := c2\<rparr>, rs2)"
    using Cons.IH [of "lc\<lparr>lc_channel := c1\<rparr>"] Cons.prems(1) rs2 by simp
  with receive_carried [OF assms(1,2) Cons.prems(1) Cons.hyps(1) r1] r1 rs2 Cons.prems(2) show ?case by simp
qed simp

lemma sender_inv_carries:
  assumes "sender_inv lib mdu keys ms fs lc" and "f \<in> set fs"
  shows "\<exists>k. carries lib keys ms f k"
  using assms by (fastforce simp: sender_inv_def carries_def)

text \<open>
  C34: an encrypted link channel whose payload budget is the one computed from the link MTU only hands out packet
  bodies that fit, with header and one access-code byte, in a packet of that MTU - retransmissions included;
  each is an encryption of the envelope of one of the accepted messages. A peer with the same keys
  that receives such bodies in an order the receive window tolerates, with losses and duplicates, delivers exactly
  the longest gap-free prefix of the accepted messages, in order.
\<close>

theorem link_channel_delivers:
  assumes "cipher_lib_ok lib" and "keys_ok keys" and "500 \<le> unat (LinkMtu_get mtu)"
    and "LinkMtu_checked_mdu mtu = Ok mdu" and "link_sender_run lib mdu keys ms fs sender"
    and "lc_session_keys lc = Some keys" and "ch_active (lc_channel lc)" and "ch_next_rx_sequence (lc_channel lc) = 0"
    and "ch_rx_ring (lc_channel lc) = []" and "msg_type ` set ms \<subseteq> set (ch_registered_types (lc_channel lc))"
    and "list_all2 (carries lib keys ms) es ks" and "arrivals_in_window ks"
  shows "(\<forall>f\<in>set fs. HEADER_MINSIZE + 1 + length f \<le> unat (LinkMtu_get mtu) \<and> (\<exists>k. carries lib keys ms f k))
    \<and> (\<exists>lc' ds. link_receive_all lib es lc = (lc', map Ok ds)
         \<and> concat ds = map (\<lambda>m. (msg_type m, msg_pack m)) (take (first_missing ks) ms))"
proof
  let ?n = "unat (LinkMtu_get mtu) - 68"
  have mdu: "mdu = ?n div 16 * 16 - 1" using LinkMtu_checked_mdu_eq [OF assms(3)] assms(4) by simp
  note s = link_sender_run_inv [OF assms(1,2,5)]
  have "length f \<le> 48 + ?n" if f: "f \<in> set fs" for f
  proof -
    obtain k iv where "length iv = 16" "length (frame_of ((!) ms) k) \<le> mdu"
      "link_encrypt lib iv keys (frame_of ((!) ms) k) = Ok f"
      using s f unfolding sender_inv_def by blast
    then show ?thesis using carries_size [OF assms(1,2), of iv _ f ?n] assms(3) mdu by simp
  qed
  then show "\<forall>f\<in>set fs. HEADER_MINSIZE + 1 + length f \<le> unat (LinkMtu_get mtu) \<and> (\<exists>k. carries lib keys ms f k)"
    using sender_inv_carries [OF s] assms(3) by (fastforce simp: wire_constants)
  have "\<forall>k\<in>set ks. k < length ms"
    using assms(11) by (auto simp: list_all2_conv_all_nth carries_def in_set_conv_nth)
  from channel_delivers [OF assms(7-10) this assms(12)] link_receive_all_refines [OF assms(1,2,6,11)]
  show "\<exists>lc' ds. link_receive_all lib es lc = (lc', map Ok ds)
      \<and> concat ds = map (\<lambda>m. (msg_type m, msg_pack m)) (take (first_missing ks) ms)" by blast
qed

definition example_keys :: LinkKeys where
  "example_keys = \<lparr>lk_signing_key = replicate 32 1, lk_encryption_key = replicate 32 2\<rparr>"

definition example_message :: message where
  "example_message = \<lparr>msg_type = SMT_STREAM_DATA, msg_pack = [0, 1, 2]\<rparr>"

definition example_link_receiver :: LinkChannel where
  "example_link_receiver = LinkChannel_register_system_type SMT_STREAM_DATA
     (LinkChannel_new_encrypted (replicate 16 0) (Fin 1) example_keys)"

lemma example_keys_ok: "keys_ok example_keys"
  by (simp add: keys_ok_def example_keys_def)

lemma example_link_sender:
  "\<exists>p lc. LinkChannel_prepare_send_tracked example_lib (replicate 16 5) 0 example_message
     (LinkChannel_new_encrypted_with_mdu (replicate 16 0) (Fin 1) 431 example_keys) = (lc, Ok p)
     \<and> carries example_lib example_keys [example_message] (pcd_data p) 0"
proof -
  let ?lc = "LinkChannel_new_encrypted_with_mdu (replicate 16 0) (Fin 1) 431 example_keys"
  let ?raw = "env_raw (Envelope_pack example_message 0)"
  obtain c where c: "Channel_send_tracked_with_max_envelope 0 example_message (Some 431) (Channel_new (Fin 1)) =
      (c, Ok (0, ?raw))"
    by (simp add: Channel_send_tracked_with_max_envelope_def Channel_new_def Let_def
        Channel_is_ready_to_send_def Channel_outstanding_count_def ChannelWindow_new_def window_constants
        RTT_SLOW_def RTT_MAX_def next_sequence_eq Envelope_pack_def example_message_def)
  obtain f where f: "link_encrypt example_lib (replicate 16 5) example_keys ?raw = Ok f"
    using link_encrypt_decrypt [OF example_lib_ok _ example_keys_ok, of "replicate 16 5"] by auto
  with c have "LinkChannel_prepare_send_tracked example_lib (replicate 16 5) 0 example_message ?lc =
      (?lc\<lparr>lc_channel := c\<rparr>, Ok \<lparr>pcd_sequence = 0, pcd_data = f\<rparr>)"
    by (simp add: LinkChannel_prepare_send_tracked_def LinkChannel_new_encrypted_with_mdu_def)
  moreover have "carries example_lib example_keys [example_message] f 0"
    using f by (auto simp: carries_def frame_of_def intro!: exI [of _ "replicate 16 5"])
  ultimately show ?thesis by simp
qed

theorem link_channel_delivers_witness:
  "\<exists>f lc' ds. HEADER_MINSIZE + 1 + length f \<le> 500
     \<and> link_receive_all example_lib [f, f] example_link_receiver = (lc', map Ok ds)
     \<and> concat ds = [(SMT_STREAM_DATA, [0, 1, 2])]"
proof -
  obtain p lc where p: "LinkChannel_prepare_send_tracked example_lib (replicate 16 5) 0 example_message
     (LinkChannel_new_encrypted_with_mdu (replicate 16 0) (Fin 1) 431 example_keys) = (lc, Ok p)"
    "carries example_lib example_keys [example_message] (pcd_data p) 0"
    using example_link_sender by blast
  have run: "link_sender_run example_lib 431 example_keys ([] @ [example_message]) ([] @ [pcd_data p]) lc"
    by (rule link_sender_run.accept [OF link_sender_run.fresh _ p(1)]) simp
  have rx: "lc_session_keys example_link_receiver = Some example_keys" "ch_active (lc_channel example_link_receiver)"
    "ch_next_rx_sequence (lc_channel example_link_receiver) = 0" "ch_rx_ring (lc_channel example_link_receiver) = []"
    "msg_type ` set ([] @ [example_message]) \<subseteq> set (ch_registered_types (lc_channel example_link_receiver))"
    by (simp_all add: example_link_receiver_def LinkChannel_register_system_type_def LinkChannel_new_encrypted_def
        LinkChannel_new_encrypted_with_mdu_def Channel_register_system_type_def Channel_new_def Let_def example_message_def)
  have fm: "first_missing [] = 0" "first_missing [0] = 1" "first_missing [0, 0] = 1" by (rule first_missing_eqI; auto)+
  have win: "arrivals_in_window [0, 0]"
    using fm arrivals_snoc [of "[]" 0] arrivals_snoc [of "[0]" 0] by (simp add: arrivals_in_window_def [of "[]"])
  have car: "list_all2 (carries example_lib example_keys ([] @ [example_message])) [pcd_data p, pcd_data p] [0, 0]"
    using p(2) by simp
  have mtu: "500 \<le> unat (LinkMtu_get (LinkMtu 500))" "LinkMtu_checked_mdu (LinkMtu 500) = Ok 431"
    by (simp_all add: LinkMtu_checked_mdu_eq)
  from link_channel_delivers [OF example_lib_ok example_keys_ok mtu run rx car win] show ?thesis
    by (auto simp: fm example_message_def)
qed

end
