(* ===== verification/Packet_Receipt.thy ===== *)
theory Packet_Receipt
  imports Link_Handshake
begin

text \<open>
  Receipts of sent packets, \<open>src/crates/rns-wire/src/receipt.rs\<close>. A callback is whether one is registered; the
  operations that invoke callbacks return the list of invocations. The clock is an argument.
\<close>

definition DEFAULT_PER_HOP_TIMEOUT :: real where "DEFAULT_PER_HOP_TIMEOUT = 6"

definition receipt_timeout_for_route :: "duration \<Rightarrow> u8 \<Rightarrow> duration" where
  "receipt_timeout_for_route first_hop hops =
     duration_saturating_add first_hop (from_secs_f64 (real (unat hops) * DEFAULT_PER_HOP_TIMEOUT))"

datatype ReceiptStatus = Rcpt_Sent | Rcpt_Delivered | Rcpt_Failed | Rcpt_Culled | Rcpt_Receiving

record ReceiptCallbacks =
  rc_delivery :: bool
  rc_timeout :: bool

datatype receipt_event = DeliveryCallback | TimeoutCallback

record PacketReceipt =
  pr_hash :: bytes
  pr_truncated_hash :: bytes
  pr_destination_hash :: "bytes option"
  pr_destination_public_key :: "bytes option"
  pr_status :: ReceiptStatus
  pr_sent_at :: instant
  pr_concluded_at :: "instant option"
  pr_timeout :: "duration option"
  pr_callbacks :: ReceiptCallbacks

definition PacketReceipt_new :: "instant \<Rightarrow> bytes \<Rightarrow> bytes \<Rightarrow> duration option \<Rightarrow> PacketReceipt" where
  "PacketReceipt_new now h truncated timeout =
     \<lparr>pr_hash = h, pr_truncated_hash = truncated, pr_destination_hash = None, pr_destination_public_key = None,
      pr_status = Rcpt_Sent, pr_sent_at = now, pr_concluded_at = None, pr_timeout = timeout,
      pr_callbacks = \<lparr>rc_delivery = False, rc_timeout = False\<rparr>\<rparr>"

definition PacketReceipt_set_destination_identity :: "bytes \<Rightarrow> bytes option \<Rightarrow> PacketReceipt \<Rightarrow> PacketReceipt" where
  "PacketReceipt_set_destination_identity destination_hash public_key r =
    (let r = (if pr_destination_hash r = None then r\<lparr>pr_destination_hash := Some destination_hash\<rparr> else r)
     in if pr_destination_hash r = Some destination_hash \<and> pr_destination_public_key r = None \<and> public_key \<noteq> None
        then r\<lparr>pr_destination_public_key := public_key\<rparr> else r)"

text \<open>\<open>callbacks.delivery.take()\<close> and \<open>callbacks.timeout.take()\<close>, followed by the call.\<close>

definition take_delivery :: "PacketReceipt \<Rightarrow> PacketReceipt \<times> receipt_event list" where
  "take_delivery r =
    (if rc_delivery (pr_callbacks r)
     then (r\<lparr>pr_callbacks := (pr_callbacks r)\<lparr>rc_delivery := False\<rparr>\<rparr>, [DeliveryCallback]) else (r, []))"

definition take_timeout :: "PacketReceipt \<Rightarrow> PacketReceipt \<times> receipt_event list" where
  "take_timeout r =
    (if rc_timeout (pr_callbacks r)
     then (r\<lparr>pr_callbacks := (pr_callbacks r)\<lparr>rc_timeout := False\<rparr>\<rparr>, [TimeoutCallback]) else (r, []))"

definition PacketReceipt_deliver :: "instant \<Rightarrow> PacketReceipt \<Rightarrow> PacketReceipt \<times> receipt_event list" where
  "PacketReceipt_deliver now r = take_delivery (r\<lparr>pr_status := Rcpt_Delivered, pr_concluded_at := Some now\<rparr>)"

definition PacketReceipt_fail :: "instant \<Rightarrow> PacketReceipt \<Rightarrow> PacketReceipt \<times> receipt_event list" where
  "PacketReceipt_fail now r = take_timeout (r\<lparr>pr_status := Rcpt_Failed, pr_concluded_at := Some now\<rparr>)"

definition PacketReceipt_cull :: "instant \<Rightarrow> PacketReceipt \<Rightarrow> PacketReceipt" where
  "PacketReceipt_cull now r = r\<lparr>pr_status := Rcpt_Culled, pr_concluded_at := Some now\<rparr>"

definition PacketReceipt_get_rtt :: "PacketReceipt \<Rightarrow> duration option" where
  "PacketReceipt_get_rtt r = map_option (\<lambda>t. duration_since t (pr_sent_at r)) (pr_concluded_at r)"

definition PacketReceipt_is_timed_out :: "instant \<Rightarrow> PacketReceipt \<Rightarrow> bool" where
  "PacketReceipt_is_timed_out now r =
    (case pr_timeout r of Some timeout \<Rightarrow> duration_since now (pr_sent_at r) > timeout | None \<Rightarrow> False)"

definition PacketReceipt_set_delivery_callback :: "PacketReceipt \<Rightarrow> PacketReceipt" where
  "PacketReceipt_set_delivery_callback r = r\<lparr>pr_callbacks := (pr_callbacks r)\<lparr>rc_delivery := True\<rparr>\<rparr>"

definition PacketReceipt_set_timeout_callback :: "PacketReceipt \<Rightarrow> PacketReceipt" where
  "PacketReceipt_set_timeout_callback r = r\<lparr>pr_callbacks := (pr_callbacks r)\<lparr>rc_timeout := True\<rparr>\<rparr>"

definition PacketReceipt_validate_proof ::
    "instant \<Rightarrow> bytes \<Rightarrow> (bytes \<Rightarrow> bytes \<Rightarrow> bool) \<Rightarrow> PacketReceipt \<Rightarrow> PacketReceipt \<times> receipt_event list \<times> bool" where
  "PacketReceipt_validate_proof now proof_bytes verify r =
    (let accepted = (let (r, ev) = take_delivery (r\<lparr>pr_status := Rcpt_Delivered, pr_concluded_at := Some now\<rparr>)
                     in (r, ev, True))
     in if length proof_bytes = EXPL_LENGTH then
          let proof_hash = take 32 proof_bytes; signature = subslice 32 96 proof_bytes
          in if proof_hash = pr_hash r \<and> verify signature (pr_hash r) then accepted else (r, [], False)
        else if length proof_bytes = IMPL_LENGTH then
          let signature = take 64 proof_bytes
          in if verify signature (pr_hash r) then accepted else (r, [], False)
        else (r, [], False))"

definition PacketReceipt_validate_proof_from_destination ::
    "curve_lib \<Rightarrow> instant \<Rightarrow> bytes \<Rightarrow> PacketReceipt \<Rightarrow> PacketReceipt \<times> receipt_event list \<times> bool" where
  "PacketReceipt_validate_proof_from_destination cl now proof_bytes r =
    (case pr_destination_public_key r of
       None \<Rightarrow> (r, [], False)
     | Some public_key \<Rightarrow>
         (case Ed25519PublicKey_from_bytes cl (drop 32 public_key) of
            Inl _ \<Rightarrow> (r, [], False)
          | Inr verifier \<Rightarrow>
              PacketReceipt_validate_proof now proof_bytes
                (\<lambda>signature msg. length signature = 64 \<and> Ed25519PublicKey_verify cl verifier msg signature = Ok ()) r))"

definition PacketReceipt_check_timeout :: "instant \<Rightarrow> PacketReceipt \<Rightarrow> PacketReceipt \<times> receipt_event list \<times> bool" where
  "PacketReceipt_check_timeout now r =
    (if PacketReceipt_is_timed_out now r \<and> pr_status r = Rcpt_Sent
     then let (r, ev) = take_timeout (r\<lparr>pr_status := Rcpt_Failed, pr_concluded_at := Some now\<rparr>) in (r, ev, True)
     else (r, [], False))"

subsection \<open>Properties\<close>

lemma receipt_accepted:
  "\<exists>r' ev. take_delivery (r\<lparr>pr_status := Rcpt_Delivered, pr_concluded_at := Some now\<rparr>) = (r', ev)
    \<and> pr_status r' = Rcpt_Delivered \<and> pr_concluded_at r' = Some now \<and> \<not> rc_delivery (pr_callbacks r')
    \<and> ev = (if rc_delivery (pr_callbacks r) then [DeliveryCallback] else [])"
  by (simp add: take_delivery_def)

lemma validate_proof_iff:
  assumes "length (pr_hash r) = 32" and "\<And>sig m. verify sig m \<Longrightarrow> length sig = 64"
    and "PacketReceipt_validate_proof now pb verify r = (r', ev, ok)"
  shows "(ok \<longleftrightarrow> (\<exists>sig. (pb = sig \<or> pb = pr_hash r @ sig) \<and> verify sig (pr_hash r)))
    \<and> (if ok then take_delivery (r\<lparr>pr_status := Rcpt_Delivered, pr_concluded_at := Some now\<rparr>) = (r', ev)
       else r' = r \<and> ev = [])"
proof -
  have split: "(\<exists>sig. (pb = sig \<or> pb = pr_hash r @ sig) \<and> verify sig (pr_hash r)) \<longleftrightarrow>
      length pb = 96 \<and> take 32 pb = pr_hash r \<and> verify (subslice 32 96 pb) (pr_hash r)
      \<or> length pb = 64 \<and> verify (take 64 pb) (pr_hash r)" (is "?L \<longleftrightarrow> ?R")
  proof
    assume ?L
    then obtain sig where sig: "pb = sig \<or> pb = pr_hash r @ sig" "verify sig (pr_hash r)" by blast
    from assms(2) [OF sig(2)] sig assms(1) show ?R by (auto simp: subslice_def)
  next
    assume ?R
    then show ?L
    proof
      assume *: "length pb = 96 \<and> take 32 pb = pr_hash r \<and> verify (subslice 32 96 pb) (pr_hash r)"
      then have "pb = pr_hash r @ subslice 32 96 pb" 
        using append_take_drop_id [of 32 pb] by (simp add: subslice_def)
      with * show ?L by blast
    next
      assume "length pb = 64 \<and> verify (take 64 pb) (pr_hash r)"
      then show ?L by auto
    qed
  qed
  show ?thesis unfolding split using assms(3)
    by (auto simp: PacketReceipt_validate_proof_def Let_def wire_constants split: if_splits prod.splits)
qed

text \<open>
  C36: a receipt bound to a destination key is marked delivered by a proof exactly when the proof is a signature of
  that key over the receipt's own packet hash, either bare or preceded by that very hash; then the delivery
  callback runs, at most once, and any other proof leaves the receipt as it is.
\<close>

theorem receipt_proof_authentic:
  assumes "pr_destination_public_key r = Some key" and "length (pr_hash r) = 32"
    and "PacketReceipt_validate_proof_from_destination cl now pb r = (r', ev, ok)"
  shows "(ok \<longleftrightarrow> (\<exists>sig. length sig = 64 \<and> (pb = sig \<or> pb = pr_hash r @ sig)
             \<and> ed_decode cl (drop 32 key) \<and> ed_verify cl (drop 32 key) (pr_hash r) sig))
    \<and> (if ok then pr_status r' = Rcpt_Delivered \<and> PacketReceipt_get_rtt r' = Some (duration_since now (pr_sent_at r))
           \<and> ev = (if rc_delivery (pr_callbacks r) then [DeliveryCallback] else []) \<and> \<not> rc_delivery (pr_callbacks r')
       else r' = r \<and> ev = [])"
proof (cases "ed_decode cl (drop 32 key)")
  case False
  with assms show ?thesis
    by (auto simp: PacketReceipt_validate_proof_from_destination_def Ed25519PublicKey_from_bytes_def)
next
  case True
  let ?v = "\<lambda>signature msg. length signature = 64 \<and> Ed25519PublicKey_verify cl (drop 32 key) msg signature = Ok ()"
  have v: "?v sig m \<longleftrightarrow> length sig = 64 \<and> ed_verify cl (drop 32 key) m sig" for sig m
    by (simp add: Ed25519PublicKey_verify_def)
  have "PacketReceipt_validate_proof now pb ?v r = (r', ev, ok)"
    using assms(1,3) True by (simp add: PacketReceipt_validate_proof_from_destination_def Ed25519PublicKey_from_bytes_def)
  from validate_proof_iff [OF assms(2) _ this] True show ?thesis
    unfolding v by (cases ok) (auto simp: take_delivery_def PacketReceipt_get_rtt_def split: if_splits)
qed

theorem receipt_proof_authentic_witness:
  "fst (snd (PacketReceipt_validate_proof_from_destination
       \<lparr>x_public = id, x_diffie_hellman = (@), ed_verifying_key = id, ed_sign = (@), ed_decode = (\<lambda>k. length k = 32),
        ed_verify = (\<lambda>k m s. s = m @ k)\<rparr> 7 (replicate 32 1 @ replicate 32 1 @ replicate 32 2)
       (PacketReceipt_set_delivery_callback (PacketReceipt_set_destination_identity [] (Some (replicate 32 0 @ replicate 32 2))
          (PacketReceipt_new 3 (replicate 32 1) [] None))))) = [DeliveryCallback]"
proof -
  let ?cl = "\<lparr>x_public = id, x_diffie_hellman = (@), ed_verifying_key = id, ed_sign = (@), ed_decode = (\<lambda>k. length k = 32),
        ed_verify = (\<lambda>k m s. s = m @ k)\<rparr>"
  let ?r = "PacketReceipt_set_delivery_callback (PacketReceipt_set_destination_identity [] (Some (replicate 32 0 @ replicate 32 2))
          (PacketReceipt_new 3 (replicate 32 1) [] None))"
  obtain r' ev ok where v: "PacketReceipt_validate_proof_from_destination ?cl 7
      (replicate 32 1 @ replicate 32 1 @ replicate 32 2) ?r = (r', ev, ok)" by (metis prod_cases3)
  have r: "pr_destination_public_key ?r = Some (replicate 32 0 @ replicate 32 2)" "length (pr_hash ?r) = 32"
    "pr_hash ?r = replicate 32 1" "rc_delivery (pr_callbacks ?r)"
    by (simp_all add: PacketReceipt_set_delivery_callback_def PacketReceipt_set_destination_identity_def PacketReceipt_new_def)
  have sig: "\<exists>sig. length sig = 64 \<and> (replicate 32 1 @ replicate 32 1 @ replicate 32 2 = sig
      \<or> replicate 32 1 @ replicate 32 1 @ replicate 32 2 = replicate 32 1 @ sig)
      \<and> length (drop 32 (replicate 32 0 @ replicate 32 2)) = 32 \<and> sig = replicate 32 1 @ drop 32 (replicate 32 (0::u8) @ replicate 32 2)"
    by (intro exI [of _ "replicate 32 1 @ replicate 32 2"]) simp
  from receipt_proof_authentic [OF r(1,2) v] sig have "ok" by (simp add: r(3))
  with receipt_proof_authentic [OF r(1,2) v] r(4) v show ?thesis by auto
qed

end
