(* ===== verification/Identity_Keys.thy ===== *)
theory Identity_Keys
  imports Link_Handshake
begin

text \<open>
  Identities, \<open>src/crates/rns-identity/src/identity.rs\<close>: key pairs, hashes, signatures and encryption to an
  identity or one of its ratchets. A private key is its 32 bytes, a hardware backend is the pair of functions of
  the trait \<open>LocalKeyBackend\<close>; the ephemeral key and the initialisation vector of an encryption are arguments. Reading and
  writing key files is not modelled.
\<close>

subsection \<open>State\<close>

definition RATCHET_ID_LENGTH :: nat where "RATCHET_ID_LENGTH = 10"
definition IDENTITY_OVERHEAD :: nat where "IDENTITY_OVERHEAD = 32 + TOKEN_OVERHEAD"

datatype IdentityError =
    InvalidPrivateKeyLength nat | InvalidPublicKeyLength nat | IdentityDecryptionFailed | IdentityEd25519 Ed25519Error

record LocalKeyBackend =
  kb_sign_ed25519 :: "bytes \<Rightarrow> bytes option"
  kb_ecdh :: "bytes \<Rightarrow> bytes option"

record Identity =
  id_prv :: "bytes option"
  id_sig_prv :: "bytes option"
  id_pub_key :: bytes
  id_sig_pub :: bytes
  id_hash :: bytes
  id_backend :: "LocalKeyBackend option"

record DecryptionResult =
  dr_plaintext :: bytes
  dr_ratchet_id :: "bytes option"

subsection \<open>Construction\<close>

definition Identity_compute_hash :: "crypto_lib \<Rightarrow> bytes \<Rightarrow> bytes \<Rightarrow> bytes" where
  "Identity_compute_hash lib pub_key sig_pub = truncated_hash lib (pub_key @ sig_pub)"

definition Identity_new :: "crypto_lib \<Rightarrow> curve_lib \<Rightarrow> bytes \<Rightarrow> bytes \<Rightarrow> Identity" where
  "Identity_new lib cl prv sig_prv =
    (let pub_key = x_public cl prv; sig_pub = ed_verifying_key cl sig_prv
     in \<lparr>id_prv = Some prv, id_sig_prv = Some sig_prv, id_pub_key = pub_key, id_sig_pub = sig_pub,
         id_hash = Identity_compute_hash lib pub_key sig_pub, id_backend = None\<rparr>)"

definition Identity_from_private_key :: "crypto_lib \<Rightarrow> curve_lib \<Rightarrow> bytes \<Rightarrow> (IdentityError, Identity) result" where
  "Identity_from_private_key lib cl key =
    (if length key \<noteq> 64 then Err (InvalidPrivateKeyLength (length key))
     else
       let prv = take 32 key; sig_prv = drop 32 key;
           pub_key = x_public cl prv; sig_pub = ed_verifying_key cl sig_prv
       in Ok \<lparr>id_prv = Some prv, id_sig_prv = Some sig_prv, id_pub_key = pub_key, id_sig_pub = sig_pub,
              id_hash = Identity_compute_hash lib pub_key sig_pub, id_backend = None\<rparr>)"

definition Identity_from_public_key :: "crypto_lib \<Rightarrow> curve_lib \<Rightarrow> bytes \<Rightarrow> (IdentityError, Identity) result" where
  "Identity_from_public_key lib cl key =
    (if length key \<noteq> 64 then Err (InvalidPublicKeyLength (length key))
     else
       let pub_key = take 32 key
       in and_then (map_err IdentityEd25519 (Ed25519PublicKey_from_bytes cl (drop 32 key))) (\<lambda>sig_pub.
            Ok \<lparr>id_prv = None, id_sig_prv = None, id_pub_key = pub_key, id_sig_pub = sig_pub,
                id_hash = Identity_compute_hash lib pub_key sig_pub, id_backend = None\<rparr>))"

definition Identity_from_backend ::
    "crypto_lib \<Rightarrow> curve_lib \<Rightarrow> bytes \<Rightarrow> LocalKeyBackend \<Rightarrow> (IdentityError, Identity) result" where
  "Identity_from_backend lib cl public_key backend =
     and_then (Identity_from_public_key lib cl public_key) (\<lambda>i. Ok (i\<lparr>id_backend := Some backend\<rparr>))"

definition Identity_get_private_key :: "Identity \<Rightarrow> bytes option" where
  "Identity_get_private_key i =
    (case id_prv i of None \<Rightarrow> None
     | Some prv \<Rightarrow> (case id_sig_prv i of None \<Rightarrow> None | Some sig_prv \<Rightarrow> Some (prv @ sig_prv)))"

definition Identity_get_public_key :: "Identity \<Rightarrow> bytes" where
  "Identity_get_public_key i = id_pub_key i @ id_sig_pub i"

definition Identity_has_private_key :: "Identity \<Rightarrow> bool" where
  "Identity_has_private_key i \<longleftrightarrow> id_prv i \<noteq> None \<and> id_sig_prv i \<noteq> None"

subsection \<open>Signatures\<close>

definition Identity_sign :: "curve_lib \<Rightarrow> bytes \<Rightarrow> Identity \<Rightarrow> bytes option" where
  "Identity_sign cl msg i =
    (case id_sig_prv i of
       Some key \<Rightarrow> Some (ed_sign cl key msg)
     | None \<Rightarrow> (case id_backend i of Some b \<Rightarrow> kb_sign_ed25519 b msg | None \<Rightarrow> None))"

definition Identity_verify :: "curve_lib \<Rightarrow> bytes \<Rightarrow> bytes \<Rightarrow> Identity \<Rightarrow> bool" where
  "Identity_verify cl msg signature i \<longleftrightarrow> Ed25519PublicKey_verify cl (id_sig_pub i) msg signature = Ok ()"

definition Identity_prove :: "curve_lib \<Rightarrow> bytes \<Rightarrow> bool \<Rightarrow> Identity \<Rightarrow> (IdentityError, bytes) result" where
  "Identity_prove cl h implicit_proof i =
     and_then (ok_or IdentityDecryptionFailed (Identity_sign cl h i)) (\<lambda>signature.
       Ok (if implicit_proof then signature else h @ signature))"

subsection \<open>Encryption\<close>

definition Identity_encrypt ::
    "crypto_lib \<Rightarrow> curve_lib \<Rightarrow> bytes \<Rightarrow> bytes \<Rightarrow> bytes \<Rightarrow> bytes option \<Rightarrow> Identity \<Rightarrow> (IdentityError, bytes) result" where
  "Identity_encrypt lib cl ephemeral iv plaintext ratchet i =
    (let target = (case ratchet of Some r \<Rightarrow> r | None \<Rightarrow> id_pub_key i);
         shared = X25519PrivateKey_exchange cl ephemeral target
     in and_then (map_err (\<lambda>_. IdentityDecryptionFailed) (derive_key_64 lib shared (id_hash i))) (\<lambda>derived.
        and_then (map_err (\<lambda>_. IdentityDecryptionFailed) (token_encrypt lib iv plaintext derived)) (\<lambda>ciphertext.
        Ok (x_public cl ephemeral @ ciphertext))))"

definition Identity_ratchet_id :: "crypto_lib \<Rightarrow> bytes \<Rightarrow> bytes" where
  "Identity_ratchet_id lib ratchet_public_key = take RATCHET_ID_LENGTH (lib_sha256 lib ratchet_public_key)"

text \<open>The loop over the ratchets of \<open>decrypt_with_ratchet_id\<close>; \<open>None\<close> when no ratchet authenticates.\<close>

fun decrypt_ratchets :: "crypto_lib \<Rightarrow> curve_lib \<Rightarrow> bytes \<Rightarrow> bytes \<Rightarrow> bytes list \<Rightarrow> Identity \<Rightarrow> DecryptionResult option" where
  "decrypt_ratchets lib cl peer_pub ct [] i = None"
| "decrypt_ratchets lib cl peer_pub ct (ratchet # ratchets) i =
    (case and_then (map_err (\<lambda>_. IdentityDecryptionFailed)
             (derive_key_64 lib (X25519PrivateKey_exchange cl ratchet peer_pub) (id_hash i)))
           (\<lambda>derived. map_err (\<lambda>_. IdentityDecryptionFailed) (token_decrypt lib ct derived)) of
       Inr plaintext \<Rightarrow> Some \<lparr>dr_plaintext = plaintext, dr_ratchet_id = Some (Identity_ratchet_id lib (x_public cl ratchet))\<rparr>
     | Inl _ \<Rightarrow> decrypt_ratchets lib cl peer_pub ct ratchets i)"

definition Identity_decrypt_with_ratchet_id ::
    "crypto_lib \<Rightarrow> curve_lib \<Rightarrow> bytes \<Rightarrow> bytes list option \<Rightarrow> bool \<Rightarrow> Identity \<Rightarrow> (IdentityError, DecryptionResult) result" where
  "Identity_decrypt_with_ratchet_id lib cl ciphertext ratchets enforce_ratchets i =
    (if length ciphertext < 32 then Err IdentityDecryptionFailed
     else
       let peer_pub = take 32 ciphertext; ct = drop 32 ciphertext
       in case (case ratchets of Some rs \<Rightarrow> decrypt_ratchets lib cl peer_pub ct rs i | None \<Rightarrow> None) of
            Some r \<Rightarrow> Ok r
          | None \<Rightarrow>
              if enforce_ratchets then Err IdentityDecryptionFailed
              else and_then
                (case id_prv i of
                   Some prv \<Rightarrow> Ok (X25519PrivateKey_exchange cl prv peer_pub)
                 | None \<Rightarrow>
                     (case id_backend i of
                        Some backend \<Rightarrow> ok_or IdentityDecryptionFailed (kb_ecdh backend peer_pub)
                      | None \<Rightarrow> Err IdentityDecryptionFailed)) (\<lambda>shared.
                and_then (map_err (\<lambda>_. IdentityDecryptionFailed) (derive_key_64 lib shared (id_hash i))) (\<lambda>derived.
                and_then (map_err (\<lambda>_. IdentityDecryptionFailed) (token_decrypt lib ct derived)) (\<lambda>plaintext.
                Ok \<lparr>dr_plaintext = plaintext, dr_ratchet_id = None\<rparr>))))"

definition Identity_decrypt ::
    "crypto_lib \<Rightarrow> curve_lib \<Rightarrow> bytes \<Rightarrow> bytes list option \<Rightarrow> bool \<Rightarrow> Identity \<Rightarrow> (IdentityError, bytes) result" where
  "Identity_decrypt lib cl ciphertext ratchets enforce_ratchets i =
     and_then (Identity_decrypt_with_ratchet_id lib cl ciphertext ratchets enforce_ratchets i) (\<lambda>r. Ok (dr_plaintext r))"

subsection \<open>Lemmas\<close>

text \<open>An identity whose public half belongs to its private half and whose hash is that of the public half.\<close>

definition identity_wf :: "crypto_lib \<Rightarrow> curve_lib \<Rightarrow> Identity \<Rightarrow> bool" where
  "identity_wf lib cl i \<longleftrightarrow>
     id_hash i = truncated_hash lib (Identity_get_public_key i)
     \<and> (\<forall>prv. id_prv i = Some prv \<longrightarrow> id_pub_key i = x_public cl prv)
     \<and> (\<forall>s. id_sig_prv i = Some s \<longrightarrow> id_sig_pub i = ed_verifying_key cl s)"

lemma Identity_new_wf: "identity_wf lib cl (Identity_new lib cl prv sig_prv)"
  by (simp add: identity_wf_def Identity_new_def Let_def Identity_compute_hash_def Identity_get_public_key_def)

lemma Identity_from_private_key_wf:
  "Identity_from_private_key lib cl key = Ok i \<Longrightarrow> identity_wf lib cl i \<and> Identity_get_private_key i = Some key"
  by (auto simp: identity_wf_def Identity_from_private_key_def Let_def Identity_compute_hash_def
      Identity_get_public_key_def Identity_get_private_key_def split: if_splits)

lemma Identity_from_public_key_wf:
  "Identity_from_public_key lib cl key = Ok i \<Longrightarrow>
    identity_wf lib cl i \<and> Identity_get_public_key i = key \<and> id_sig_pub i = drop 32 key \<and> ed_decode cl (drop 32 key)
    \<and> id_hash i = truncated_hash lib key"
  by (auto simp: identity_wf_def Identity_from_public_key_def Let_def Identity_compute_hash_def
      Identity_get_public_key_def Ed25519PublicKey_from_bytes_def split: if_splits)

lemma Identity_from_public_key_Ok_iff:
  "(\<exists>i. Identity_from_public_key lib cl key = Ok i) \<longleftrightarrow> length key = 64 \<and> ed_decode cl (drop 32 key)"
  by (auto simp: Identity_from_public_key_def Let_def Ed25519PublicKey_from_bytes_def)

lemma Identity_sign_verifies:
  assumes "curve_lib_ok cl" and "identity_wf lib cl i" and "id_sig_prv i = Some s"
  shows "\<exists>sig. Identity_sign cl m i = Some sig \<and> length sig = 64 \<and> Identity_verify cl m sig i"
  using assms by (auto simp: Identity_sign_def Identity_verify_def identity_wf_def curve_lib_ok_def Ed25519PublicKey_verify_def)

text \<open>The key that both sides of an identity encryption derive.\<close>

lemma derive_key_64_Ok:
  assumes "hkdf_lib_ok lib"
  shows "\<exists>k. derive_key_64 lib shared salt = Ok k \<and> length k = 64"
proof -
  obtain k where "lib_expand lib shared (Some salt) [] 64 = Some k" "length k = 64"
    using assms [unfolded hkdf_lib_ok_def, rule_format, of 64 shared "Some salt" "[]"] by auto
  then show ?thesis by (simp add: derive_key_64_def)
qed


lemma Identity_encrypt_form:
  assumes "cipher_lib_ok lib" and "hkdf_lib_ok lib" and "length iv = 16"
  shows "\<exists>k t. derive_key_64 lib (x_diffie_hellman cl e (case r of Some r \<Rightarrow> r | None \<Rightarrow> id_pub_key i)) (id_hash i) = Ok k
    \<and> Identity_encrypt lib cl e iv p r i = Ok (x_public cl e @ t) \<and> length t = 48 + (length p div 16 + 1) * 16
    \<and> token_decrypt lib t k = Ok p"
proof -
  let ?sh = "x_diffie_hellman cl e (case r of Some r \<Rightarrow> r | None \<Rightarrow> id_pub_key i)"
  obtain k where k: "derive_key_64 lib ?sh (id_hash i) = Ok k" "length k \<in> {32, 64}"
    using derive_key_64_Ok [OF assms(2), of ?sh "id_hash i"] by blast
  obtain t where "token_encrypt lib iv p k = Ok t" "length t = 48 + (length p div 16 + 1) * 16"
    "token_decrypt lib t k = Ok p"
    using token_encrypt_decrypt [OF assms(1,3) k(2)] by blast
  with k(1) show ?thesis by (simp add: Identity_encrypt_def X25519PrivateKey_exchange_def)
qed

text \<open>\<open>ratchet_opens lib cl c r i\<close>: the ratchet private key \<open>r\<close> authenticates the ciphertext \<open>c\<close>.\<close>

definition ratchet_opens :: "crypto_lib \<Rightarrow> curve_lib \<Rightarrow> bytes \<Rightarrow> Identity \<Rightarrow> bytes \<Rightarrow> bool" where
  "ratchet_opens lib cl c i r \<longleftrightarrow> decrypt_ratchets lib cl (take 32 c) (drop 32 c) [r] i \<noteq> None"

lemma decrypt_ratchets_skip:
  assumes "\<not> ratchet_opens lib cl c i r"
  shows "decrypt_ratchets lib cl (take 32 c) (drop 32 c) (r # rs) i = decrypt_ratchets lib cl (take 32 c) (drop 32 c) rs i"
  using assms by (auto simp: ratchet_opens_def split: sum.splits)

lemma decrypt_ratchets_append:
  assumes "\<forall>r\<in>set rs. \<not> ratchet_opens lib cl c i r"
  shows "decrypt_ratchets lib cl (take 32 c) (drop 32 c) (rs @ rs') i = decrypt_ratchets lib cl (take 32 c) (drop 32 c) rs' i"
  using assms by (induction rs) (simp_all add: decrypt_ratchets_skip del: decrypt_ratchets.simps(2))

lemma ratchet_decrypts:
  assumes "cipher_lib_ok lib" and "hkdf_lib_ok lib" and "curve_lib_ok cl" and "length iv = 16"
    and "Identity_encrypt lib cl e iv p (Some (x_public cl r)) j = Ok c" and "id_hash j = id_hash i"
    and "\<forall>r'\<in>set newer. \<not> ratchet_opens lib cl c i r'"
  shows "Identity_decrypt_with_ratchet_id lib cl c (Some (newer @ r # older)) enforce i =
    Ok \<lparr>dr_plaintext = p, dr_ratchet_id = Some (Identity_ratchet_id lib (x_public cl r))\<rparr>"
proof -
  obtain k t where kt: "derive_key_64 lib (x_diffie_hellman cl e (x_public cl r)) (id_hash i) = Ok k"
    "c = x_public cl e @ t" "token_decrypt lib t k = Ok p"
    using Identity_encrypt_form [OF assms(1,2,4), where r = "Some (x_public cl r)" and i = j and p = p and cl = cl and e = e] assms(5,6) by auto
  have len: "length (x_public cl e) = 32" and dh: "x_diffie_hellman cl r (x_public cl e) = x_diffie_hellman cl e (x_public cl r)"
    using assms(3) by (auto simp: curve_lib_ok_def)
  have "decrypt_ratchets lib cl (take 32 c) (drop 32 c) (newer @ r # older) i =
      Some \<lparr>dr_plaintext = p, dr_ratchet_id = Some (Identity_ratchet_id lib (x_public cl r))\<rparr>"
    unfolding decrypt_ratchets_append [OF assms(7)]
    using kt len dh by (simp add: X25519PrivateKey_exchange_def)
  with kt(2) len show ?thesis by (simp add: Identity_decrypt_with_ratchet_id_def Let_def)
qed

lemma identity_key_decrypts:
  assumes "cipher_lib_ok lib" and "hkdf_lib_ok lib" and "curve_lib_ok cl" and "length iv = 16"
    and "Identity_encrypt lib cl e iv p None j = Ok c" and "id_hash j = id_hash i" and "id_pub_key j = x_public cl prv"
    and "id_prv i = Some prv" and "\<forall>r\<in>set (case rs of Some rs \<Rightarrow> rs | None \<Rightarrow> []). \<not> ratchet_opens lib cl c i r"
  shows "Identity_decrypt_with_ratchet_id lib cl c rs enforce i =
    (if enforce then Err IdentityDecryptionFailed else Ok \<lparr>dr_plaintext = p, dr_ratchet_id = None\<rparr>)"
proof -
  obtain k t where kt: "derive_key_64 lib (x_diffie_hellman cl e (x_public cl prv)) (id_hash i) = Ok k"
    "c = x_public cl e @ t" "token_decrypt lib t k = Ok p"
    using Identity_encrypt_form [OF assms(1,2,4), where r = None and i = j and p = p and cl = cl and e = e] assms(5-7) by auto
  have len: "length (x_public cl e) = 32" and dh: "x_diffie_hellman cl prv (x_public cl e) = x_diffie_hellman cl e (x_public cl prv)"
    using assms(3) by (auto simp: curve_lib_ok_def)
  have c: "take 32 c = x_public cl e" "drop 32 c = t" "\<not> length c < 32" using kt(2) len by simp_all
  note simps = kt(1,3) dh assms(8) c Identity_decrypt_with_ratchet_id_def X25519PrivateKey_exchange_def Let_def
  show ?thesis
  proof (cases rs)
    case None then show ?thesis by (simp add: simps)
  next
    case (Some xs)
    have "decrypt_ratchets lib cl (take 32 c) (drop 32 c) xs i = None"
      using decrypt_ratchets_append [of xs lib cl c i "[]"] assms(9) Some by simp
    then show ?thesis by (simp add: simps Some)
  qed
qed

end
