(* ===== verification/Announces.thy ===== *)
theory Announces
  imports Identity_Keys
begin

text \<open>
  Announces: \<open>announce.rs\<close> and the ordering state of \<open>announce_state.rs\<close> under
  \<open>src/crates/rns-identity/src\<close>, with the reading of an announce's emission time in
  \<open>src/crates/rns-transport/src/actor/mod.rs\<close>. Names are their UTF-8 bytes; the five random bytes of an announce are an
  argument. Saving and loading the ordering state is not modelled.
\<close>

subsection \<open>Announce bodies\<close>

definition PUBKEY_SIZE :: nat where "PUBKEY_SIZE = 64"
definition NAME_HASH_SIZE :: nat where "NAME_HASH_SIZE = 10"
definition RANDOM_HASH_SIZE :: nat where "RANDOM_HASH_SIZE = 10"
definition SIGNATURE_SIZE :: nat where "SIGNATURE_SIZE = 64"
definition RATCHET_SIZE :: nat where "RATCHET_SIZE = 32"
definition ANNOUNCE_TIME_MAX :: u64 where "ANNOUNCE_TIME_MAX = push_bit 40 1 - 1"
definition MIN_ANNOUNCE_SIZE :: nat where
  "MIN_ANNOUNCE_SIZE = PUBKEY_SIZE + NAME_HASH_SIZE + RANDOM_HASH_SIZE + SIGNATURE_SIZE"

lemmas announce_sizes = PUBKEY_SIZE_def NAME_HASH_SIZE_def RANDOM_HASH_SIZE_def SIGNATURE_SIZE_def RATCHET_SIZE_def
  MIN_ANNOUNCE_SIZE_def

datatype AnnounceError =
    AnnounceTooShort nat | SignatureInvalid | HashMismatch | NoPrivateKey | AnnounceInvalidPublicKey | HashCollision
  | InvalidWireTime u64

record AnnounceData =
  ad_public_key :: bytes
  ad_name_hash :: bytes
  ad_random_hash :: bytes
  ad_ratchet :: "bytes option"
  ad_signature :: bytes
  ad_app_data :: "bytes option"

abbreviation opt_bytes :: "bytes option \<Rightarrow> bytes" where
  "opt_bytes x \<equiv> (case x of Some b \<Rightarrow> b | None \<Rightarrow> [])"

definition u64_to_be :: "u64 \<Rightarrow> bytes" where
  "u64_to_be w = map (\<lambda>i. ucast (drop_bit (8 * (7 - i)) w)) [0..<8]"

definition Destination_compute_hash :: "crypto_lib \<Rightarrow> bytes \<Rightarrow> bytes option \<Rightarrow> bytes" where
  "Destination_compute_hash lib nh identity_hash =
    (case identity_hash of Some ih \<Rightarrow> truncated_hash lib (nh @ ih) | None \<Rightarrow> truncated_hash lib nh)"

definition hash_from_name_and_identity :: "crypto_lib \<Rightarrow> bytes \<Rightarrow> bytes option \<Rightarrow> bytes" where
  "hash_from_name_and_identity lib app_name identity_hash =
     Destination_compute_hash lib (name_hash lib app_name) identity_hash"

definition AnnounceData_create_at ::
    "crypto_lib \<Rightarrow> curve_lib \<Rightarrow> bytes \<Rightarrow> Identity \<Rightarrow> bytes \<Rightarrow> bytes option \<Rightarrow> bytes option \<Rightarrow> u64
      \<Rightarrow> (AnnounceError, AnnounceData) result" where
  "AnnounceData_create_at lib cl random_bytes identity app_name app_data ratchet_pub wire_time =
    (if wire_time > ANNOUNCE_TIME_MAX then Err (InvalidWireTime wire_time)
     else
       let public_key = Identity_get_public_key identity;
           nh = name_hash lib app_name;
           random_hash = random_bytes @ subslice 3 8 (u64_to_be wire_time);
           dest_hash = hash_from_name_and_identity lib app_name (Some (id_hash identity));
           signed_data = dest_hash @ public_key @ nh @ random_hash @ opt_bytes ratchet_pub @ opt_bytes app_data
       in and_then (ok_or NoPrivateKey (Identity_sign cl signed_data identity)) (\<lambda>signature.
            Ok \<lparr>ad_public_key = public_key, ad_name_hash = nh, ad_random_hash = random_hash, ad_ratchet = ratchet_pub,
                ad_signature = signature, ad_app_data = app_data\<rparr>))"

definition AnnounceData_pack :: "AnnounceData \<Rightarrow> bytes" where
  "AnnounceData_pack a = ad_public_key a @ ad_name_hash a @ ad_random_hash a @ opt_bytes (ad_ratchet a)
     @ ad_signature a @ opt_bytes (ad_app_data a)"

definition AnnounceData_unpack :: "bytes \<Rightarrow> bool \<Rightarrow> (AnnounceError, AnnounceData) result" where
  "AnnounceData_unpack data has_ratchet =
    (let min_size = (if has_ratchet then MIN_ANNOUNCE_SIZE + RATCHET_SIZE else MIN_ANNOUNCE_SIZE)
     in if length data < min_size then Err (AnnounceTooShort (length data))
        else
          let public_key = subslice 0 64 data; nh = subslice 64 74 data; random_hash = subslice 74 84 data;
              ratchet = (if has_ratchet then Some (subslice 84 116 data) else None);
              pos = (if has_ratchet then 116 else 84);
              signature = subslice pos (pos + 64) data;
              pos = pos + 64;
              app_data = (if pos < length data then Some (drop pos data) else None)
          in Ok \<lparr>ad_public_key = public_key, ad_name_hash = nh, ad_random_hash = random_hash, ad_ratchet = ratchet,
                 ad_signature = signature, ad_app_data = app_data\<rparr>)"

subsection \<open>Validation\<close>

definition AnnounceData_verify_signature ::
    "crypto_lib \<Rightarrow> curve_lib \<Rightarrow> bytes \<Rightarrow> AnnounceData \<Rightarrow> (AnnounceError, Identity) result" where
  "AnnounceData_verify_signature lib cl packet_dest_hash a =
     and_then (map_err (\<lambda>_. AnnounceInvalidPublicKey) (Identity_from_public_key lib cl (ad_public_key a))) (\<lambda>identity.
       let signed_data = packet_dest_hash @ ad_public_key a @ ad_name_hash a @ ad_random_hash a
             @ opt_bytes (ad_ratchet a) @ opt_bytes (ad_app_data a)
       in if \<not> Identity_verify cl signed_data (ad_signature a) identity then Err SignatureInvalid else Ok identity)"

definition AnnounceData_validate_destination_binding ::
    "crypto_lib \<Rightarrow> bytes \<Rightarrow> Identity \<Rightarrow> bytes option \<Rightarrow> AnnounceData \<Rightarrow> (AnnounceError, unit) result" where
  "AnnounceData_validate_destination_binding lib packet_dest_hash identity known_public_key a =
    (let expected_hash = truncated_hash lib (ad_name_hash a @ id_hash identity)
     in if expected_hash \<noteq> packet_dest_hash then Err HashMismatch
        else if (case known_public_key of Some known_key \<Rightarrow> known_key \<noteq> ad_public_key a | None \<Rightarrow> False) then Err HashCollision
        else Ok ())"

definition AnnounceData_validate_with_known_key ::
    "crypto_lib \<Rightarrow> curve_lib \<Rightarrow> bytes \<Rightarrow> bytes option \<Rightarrow> AnnounceData \<Rightarrow> (AnnounceError, Identity) result" where
  "AnnounceData_validate_with_known_key lib cl packet_dest_hash known_public_key a =
     and_then (AnnounceData_verify_signature lib cl packet_dest_hash a) (\<lambda>identity.
     and_then (AnnounceData_validate_destination_binding lib packet_dest_hash identity known_public_key a) (\<lambda>_.
     Ok identity))"

definition AnnounceData_validate ::
    "crypto_lib \<Rightarrow> curve_lib \<Rightarrow> bytes \<Rightarrow> AnnounceData \<Rightarrow> (AnnounceError, Identity) result" where
  "AnnounceData_validate lib cl packet_dest_hash a = AnnounceData_validate_with_known_key lib cl packet_dest_hash None a"

subsection \<open>Emission times\<close>

definition u64_from_be :: "bytes \<Rightarrow> u64" where
  "u64_from_be bs = foldl (\<lambda>acc b. push_bit 8 acc OR ucast b) 0 bs"

definition announce_timebase :: "bytes \<Rightarrow> u64" where
  "announce_timebase random_blob = u64_from_be (replicate 3 0 @ subslice 5 10 random_blob)"

definition announce_emitted_from_raw :: "bytes \<Rightarrow> u64 option" where
  "announce_emitted_from_raw raw =
    (case PacketHeader_unpack raw of
       Inl _ \<Rightarrow> None
     | Inr (h, data_offset) \<Rightarrow>
         if packet_type (ph_flags h) \<noteq> PT_Announce \<or> data_offset \<ge> length raw then None
         else case AnnounceData_unpack (drop data_offset raw) (context_flag (ph_flags h)) of
                Inl _ \<Rightarrow> None
              | Inr announce \<Rightarrow> Some (announce_timebase (ad_random_hash announce)))"

definition path_timebase_from_random_blobs :: "bytes list \<Rightarrow> u64" where
  "path_timebase_from_random_blobs random_blobs =
    (case random_blobs of [] \<Rightarrow> 0 | b # bs \<Rightarrow> fold (\<lambda>x m. max m (announce_timebase x)) bs (announce_timebase b))"

subsection \<open>Ordering state\<close>

record RatchetControlState =
  cs_identity_hash :: bytes
  cs_destination_hash :: bytes
  cs_last_rotation_wall :: "u64 option"
  cs_last_announce_wire :: "u64 option"

definition RatchetControlState_new :: "bytes \<Rightarrow> bytes \<Rightarrow> RatchetControlState" where
  "RatchetControlState_new identity_hash destination_hash =
     \<lparr>cs_identity_hash = identity_hash, cs_destination_hash = destination_hash, cs_last_rotation_wall = None,
      cs_last_announce_wire = None\<rparr>"

definition anchor_rotation_if_unknown :: "u64 \<Rightarrow> RatchetControlState \<Rightarrow> RatchetControlState" where
  "anchor_rotation_if_unknown wall_now s =
    (if cs_last_rotation_wall s = None then s\<lparr>cs_last_rotation_wall := Some wall_now\<rparr> else s)"

definition rotation_due :: "u64 \<Rightarrow> u64 \<Rightarrow> RatchetControlState \<Rightarrow> bool" where
  "rotation_due wall_now interval_secs s =
    (case cs_last_rotation_wall s of
       Some prev \<Rightarrow> wall_now \<ge> prev \<and> (if prev \<le> wall_now then wall_now - prev else 0) \<ge> interval_secs
     | None \<Rightarrow> False)"

definition with_rotation_at :: "u64 \<Rightarrow> RatchetControlState \<Rightarrow> RatchetControlState" where
  "with_rotation_at wall_now s = s\<lparr>cs_last_rotation_wall := Some wall_now\<rparr>"

datatype control_error = WallTimeExceedsField u64

definition prepare_announce :: "u64 \<Rightarrow> RatchetControlState \<Rightarrow> (control_error, RatchetControlState option) result" where
  "prepare_announce wall_now s =
    (if wall_now > ANNOUNCE_TIME_MAX then Err (WallTimeExceedsField wall_now)
     else if (case cs_last_announce_wire s of Some prev \<Rightarrow> wall_now \<le> prev | None \<Rightarrow> False) then Ok None
     else Ok (Some (s\<lparr>cs_last_announce_wire := Some wall_now\<rparr>)))"

subsection \<open>Emission times are read back\<close>

lemma subslice_u64_to_be:
  "subslice 3 8 (u64_to_be w) = [ucast (drop_bit 32 w), ucast (drop_bit 24 w), ucast (drop_bit 16 w), ucast (drop_bit 8 w), ucast w]"
  by (simp add: u64_to_be_def subslice_def upt_rec)

lemma u64_from_be_40:
  "u64_from_be [0, 0, 0, ucast (drop_bit 32 w), ucast (drop_bit 24 w), ucast (drop_bit 16 w), ucast (drop_bit 8 w), ucast w]
    = take_bit 40 w"
proof (rule bit_word_eqI)
  fix n assume "n < LENGTH(64)"
  then show "bit (u64_from_be [0, 0, 0, ucast (drop_bit 32 w), ucast (drop_bit 24 w), ucast (drop_bit 16 w), ucast (drop_bit 8 w), ucast w]) n
     = bit (take_bit 40 w) n"
  proof -
    consider "n < 8" | "8 \<le> n" "n < 16" | "16 \<le> n" "n < 24" | "24 \<le> n" "n < 32" | "32 \<le> n" "n < 40" | "40 \<le> n"
      by linarith
    then show ?thesis
      by cases (auto simp: u64_from_be_def bit_simps)
  qed
qed

lemma replicate_eq_3: "replicate 3 x = [x, x, x]"
  by (simp add: numeral_3_eq_3)

lemma announce_timebase_wire:
  assumes "length rnd = 5" and "w \<le> ANNOUNCE_TIME_MAX"
  shows "announce_timebase (rnd @ subslice 3 8 (u64_to_be w)) = w"
proof -
  have "w < 2 ^ 40" using assms(2) by (simp add: ANNOUNCE_TIME_MAX_def word_le_nat_alt word_less_nat_alt push_bit_eq_mult)
  then have "unat w < 2 ^ 40" by (simp add: word_less_nat_alt)
  then have "take_bit 40 w = w" by (simp add: word_unat_eq_iff unsigned_take_bit_eq take_bit_nat_eq_self)
  moreover have "subslice 5 10 (rnd @ subslice 3 8 (u64_to_be w)) = subslice 3 8 (u64_to_be w)"
    using assms(1) by (simp add: subslice_def u64_to_be_def)
  ultimately show ?thesis
    using u64_from_be_40 [of w] by (simp add: announce_timebase_def subslice_u64_to_be replicate_eq_3)
qed

subsection \<open>Bodies round trip\<close>

definition announce_wf :: "AnnounceData \<Rightarrow> bool" where
  "announce_wf a \<longleftrightarrow> length (ad_public_key a) = 64 \<and> length (ad_name_hash a) = 10 \<and> length (ad_random_hash a) = 10
     \<and> length (ad_signature a) = 64 \<and> (\<forall>r. ad_ratchet a = Some r \<longrightarrow> length r = 32)"

text \<open>On the wire an empty application data field is no field.\<close>

lemma AnnounceData_unpack_pack:
  assumes "announce_wf a"
  shows "AnnounceData_unpack (AnnounceData_pack a) (ad_ratchet a \<noteq> None) =
    Ok (a\<lparr>ad_app_data := (if ad_app_data a = Some [] then None else ad_app_data a)\<rparr>)"
proof -
  have "length (AnnounceData_pack a) =
      (if ad_ratchet a \<noteq> None then 180 else 148) + length (opt_bytes (ad_app_data a))"
    using assms by (auto simp: AnnounceData_pack_def announce_wf_def split: option.splits)
  with assms show ?thesis
    by (cases a; cases "ad_ratchet a"; cases "ad_app_data a")
      (auto simp: AnnounceData_unpack_def AnnounceData_pack_def announce_wf_def announce_sizes subslice_def Let_def)
qed

lemma subslice_drop: "a \<le> b \<Longrightarrow> subslice a b xs @ drop b xs = drop a xs"
  using append_take_drop_id [of "b - a" "drop a xs"] by (simp add: subslice_def)

lemma AnnounceData_pack_unpack:
  assumes "AnnounceData_unpack data has_ratchet = Ok a"
  shows "announce_wf a \<and> AnnounceData_pack a = data \<and> (ad_ratchet a \<noteq> None) = has_ratchet"
proof -
  have len: "(if has_ratchet then 180 else 148) \<le> length data"
    using assms by (auto simp: AnnounceData_unpack_def announce_sizes Let_def split: if_splits)
  have tail: "opt_bytes (if n < length data then Some (drop n data) else None) = drop n data" for n by simp
  show ?thesis
  proof (cases has_ratchet)
    case True
    then have "announce_wf a" "ad_ratchet a \<noteq> None" "AnnounceData_pack a = subslice 0 64 data @ subslice 64 74 data @
        subslice 74 84 data @ subslice 84 116 data @ subslice 116 180 data @ drop 180 data"
      using assms len tail [of 180]
      by (auto simp: AnnounceData_unpack_def AnnounceData_pack_def announce_wf_def announce_sizes Let_def simp del: if_split)
    with True show ?thesis by (simp add: subslice_drop)
  next
    case False
    then have "announce_wf a" "ad_ratchet a = None" "AnnounceData_pack a = subslice 0 64 data @ subslice 64 74 data @
        subslice 74 84 data @ subslice 84 148 data @ drop 148 data"
      using assms len tail [of 148]
      by (auto simp: AnnounceData_unpack_def AnnounceData_pack_def announce_wf_def announce_sizes Let_def simp del: if_split)
    with False show ?thesis by (simp add: subslice_drop)
  qed
qed


subsection \<open>Properties\<close>

lemma validate_with_known_key_iff:
  "AnnounceData_validate_with_known_key lib cl d known a = Ok i \<longleftrightarrow>
     length (ad_public_key a) = 64 \<and> ed_decode cl (drop 32 (ad_public_key a))
     \<and> ed_verify cl (drop 32 (ad_public_key a)) (d @ ad_public_key a @ ad_name_hash a @ ad_random_hash a
           @ opt_bytes (ad_ratchet a) @ opt_bytes (ad_app_data a)) (ad_signature a)
     \<and> d = truncated_hash lib (ad_name_hash a @ truncated_hash lib (ad_public_key a))
     \<and> known \<in> {None, Some (ad_public_key a)}
     \<and> i = \<lparr>id_prv = None, id_sig_prv = None, id_pub_key = take 32 (ad_public_key a),
            id_sig_pub = drop 32 (ad_public_key a), id_hash = truncated_hash lib (ad_public_key a), id_backend = None\<rparr>"
proof (cases "length (ad_public_key a) = 64 \<and> ed_decode cl (drop 32 (ad_public_key a))")
  case True
  then have pk: "Identity_from_public_key lib cl (ad_public_key a) =
      Ok \<lparr>id_prv = None, id_sig_prv = None, id_pub_key = take 32 (ad_public_key a),
            id_sig_pub = drop 32 (ad_public_key a), id_hash = truncated_hash lib (ad_public_key a), id_backend = None\<rparr>"
    by (simp add: Identity_from_public_key_def Ed25519PublicKey_from_bytes_def Identity_compute_hash_def)
  show ?thesis
    by (auto simp: AnnounceData_validate_with_known_key_def AnnounceData_verify_signature_def pk True Let_def
        Identity_verify_def Ed25519PublicKey_verify_def AnnounceData_validate_destination_binding_def
        split: if_splits option.splits)
next
  case False
  then have "\<nexists>j. Identity_from_public_key lib cl (ad_public_key a) = Ok j" by (simp add: Identity_from_public_key_Ok_iff)
  with False show ?thesis
    by (cases "Identity_from_public_key lib cl (ad_public_key a)")
      (auto simp: AnnounceData_validate_with_known_key_def AnnounceData_verify_signature_def)
qed

text \<open>
  C7: an announce validates for a destination, with or without an already known key, exactly when its public key
  decodes, its signature verifies under that key over the destination and all announced fields, the
  destination is the hash of the announced name and key, and a known key is the announced one; the identity returned
  is the public identity of that key and nothing else.
\<close>

theorem announce_authentic:
  "AnnounceData_validate_with_known_key lib cl d known a = Ok i \<longleftrightarrow>
     length (ad_public_key a) = 64 \<and> ed_decode cl (drop 32 (ad_public_key a))
     \<and> ed_verify cl (drop 32 (ad_public_key a)) (d @ ad_public_key a @ ad_name_hash a @ ad_random_hash a
           @ opt_bytes (ad_ratchet a) @ opt_bytes (ad_app_data a)) (ad_signature a)
     \<and> d = truncated_hash lib (ad_name_hash a @ truncated_hash lib (ad_public_key a))
     \<and> known \<in> {None, Some (ad_public_key a)}
     \<and> i = \<lparr>id_prv = None, id_sig_prv = None, id_pub_key = take 32 (ad_public_key a),
            id_sig_pub = drop 32 (ad_public_key a), id_hash = truncated_hash lib (ad_public_key a), id_backend = None\<rparr>"
  by (rule validate_with_known_key_iff)

lemma create_at_form:
  assumes "curve_lib_ok cl" and "\<forall>d. length (lib_sha256 lib d) = 32" and "identity_wf lib cl i" and "id_sig_prv i = Some s"
    and "length (id_pub_key i) = 32" and "length rnd = 5" and "\<forall>r. ratchet = Some r \<longrightarrow> length r = 32" and "w \<le> ANNOUNCE_TIME_MAX"
  shows "\<exists>a. AnnounceData_create_at lib cl rnd i app_name app_data ratchet w = Ok a \<and> announce_wf a
    \<and> ad_public_key a = Identity_get_public_key i \<and> ad_ratchet a = ratchet \<and> ad_app_data a = app_data
    \<and> announce_timebase (ad_random_hash a) = w
    \<and> ed_decode cl (drop 32 (ad_public_key a)) \<and> id_hash i = truncated_hash lib (ad_public_key a)
    \<and> hash_from_name_and_identity lib app_name (Some (id_hash i)) = truncated_hash lib (ad_name_hash a @ id_hash i)
    \<and> ed_verify cl (drop 32 (ad_public_key a)) (hash_from_name_and_identity lib app_name (Some (id_hash i)) @ ad_public_key a
         @ ad_name_hash a @ ad_random_hash a @ opt_bytes (ad_ratchet a) @ opt_bytes (ad_app_data a)) (ad_signature a)"
proof -
  let ?m = "hash_from_name_and_identity lib app_name (Some (id_hash i)) @ Identity_get_public_key i @ name_hash lib app_name
     @ (rnd @ subslice 3 8 (u64_to_be w)) @ opt_bytes ratchet @ opt_bytes app_data"
  obtain sig where sig: "Identity_sign cl ?m i = Some sig" "length sig = 64" "Identity_verify cl ?m sig i"
    using Identity_sign_verifies [OF assms(1,3,4)] by blast
  have key: "id_sig_pub i = ed_verifying_key cl s" "length (id_sig_pub i) = 32" "ed_decode cl (id_sig_pub i)"
    using assms(1,3,4) by (auto simp: identity_wf_def curve_lib_ok_def)
  have nh: "length (name_hash lib app_name) = 10" using assms(2) by (simp add: name_hash_def)
  have rh: "length (rnd @ subslice 3 8 (u64_to_be w)) = 10" using assms(6) by (simp add: u64_to_be_def)
  have ver: "ed_verify cl (id_sig_pub i) ?m sig"
    using sig(3) by (simp add: Identity_verify_def Ed25519PublicKey_verify_def split: if_splits)
  have id: "id_hash i = truncated_hash lib (Identity_get_public_key i)" using assms(3) by (simp add: identity_wf_def)
  let ?a = "\<lparr>ad_public_key = Identity_get_public_key i, ad_name_hash = name_hash lib app_name,
      ad_random_hash = rnd @ subslice 3 8 (u64_to_be w), ad_ratchet = ratchet, ad_signature = sig, ad_app_data = app_data\<rparr>"
  have "AnnounceData_create_at lib cl rnd i app_name app_data ratchet w = Ok ?a"
    using assms(8) sig(1) by (simp add: AnnounceData_create_at_def Let_def)
  moreover have "announce_wf ?a"
    using nh rh sig(2) key(2) assms(5,7) by (simp add: announce_wf_def Identity_get_public_key_def)
  moreover have "drop 32 (Identity_get_public_key i) = id_sig_pub i" using assms(5) by (simp add: Identity_get_public_key_def)
  ultimately show ?thesis
    using announce_timebase_wire [OF assms(6,8)] key(3) ver id
    by (intro exI [of _ ?a]) (simp add: hash_from_name_and_identity_def Destination_compute_hash_def)
qed

text \<open>
  C37: the announce that an identity creates for a name reaches its hearers: in any well-formed announce packet to that
  destination whose context flag says whether a ratchet is carried, the body parses back to the same
  fields, its emission time reads as the time it was created with, and it validates - for a first hearing and for one that already
  knows the key - to the announcing identity.
\<close>

theorem announce_reaches:
  assumes "curve_lib_ok cl" and "\<forall>d. length (lib_sha256 lib d) = 32" and "identity_wf lib cl i" and "id_sig_prv i = Some s"
    and "length (id_pub_key i) = 32" and "length rnd = 5" and "\<forall>r. ratchet = Some r \<longrightarrow> length r = 32" and "w \<le> ANNOUNCE_TIME_MAX"
    and "PacketHeader_wf h" and "packet_type (ph_flags h) = PT_Announce" and "context_flag (ph_flags h) = (ratchet \<noteq> None)"
    and "ph_destination_hash h = hash_from_name_and_identity lib app_name (Some (id_hash i))"
    and "known \<in> {None, Some (Identity_get_public_key i)}"
  shows "\<exists>a a' j. AnnounceData_create_at lib cl rnd i app_name app_data ratchet w = Ok a
    \<and> announce_emitted_from_raw (PacketHeader_pack h @ AnnounceData_pack a) = Some w
    \<and> AnnounceData_unpack (AnnounceData_pack a) (context_flag (ph_flags h)) = Ok a'
    \<and> ad_ratchet a' = ratchet \<and> opt_bytes (ad_app_data a') = opt_bytes app_data
    \<and> AnnounceData_validate_with_known_key lib cl (ph_destination_hash h) known a' = Ok j
    \<and> Identity_get_public_key j = Identity_get_public_key i \<and> id_hash j = id_hash i"
proof -
  from create_at_form [OF assms(1-8), of app_name app_data] obtain a where
    a: "AnnounceData_create_at lib cl rnd i app_name app_data ratchet w = Ok a" "announce_wf a"
      "ad_public_key a = Identity_get_public_key i" "ad_ratchet a = ratchet" "ad_app_data a = app_data"
      "announce_timebase (ad_random_hash a) = w"
      "ed_decode cl (drop 32 (ad_public_key a))" "id_hash i = truncated_hash lib (ad_public_key a)"
      "ph_destination_hash h = truncated_hash lib (ad_name_hash a @ id_hash i)"
      "ed_verify cl (drop 32 (ad_public_key a)) (ph_destination_hash h @ ad_public_key a
         @ ad_name_hash a @ ad_random_hash a @ opt_bytes (ad_ratchet a) @ opt_bytes (ad_app_data a)) (ad_signature a)"
    unfolding assms(12) by blast
  let ?a = "a\<lparr>ad_app_data := (if ad_app_data a = Some [] then None else ad_app_data a)\<rparr>"
  have un: "AnnounceData_unpack (AnnounceData_pack a) (context_flag (ph_flags h)) = Ok ?a"
    using AnnounceData_unpack_pack [OF a(2)] assms(11) a(4) by simp
  have app: "opt_bytes (ad_app_data ?a) = opt_bytes (ad_app_data a)" by simp
  have em: "announce_emitted_from_raw (PacketHeader_pack h @ AnnounceData_pack a) = Some w"
    using PacketHeader_unpack_pack [OF assms(9), of "AnnounceData_pack a"] PacketHeader_pack_length [OF assms(9)] a(2,6) un assms(10)
    by (simp add: announce_emitted_from_raw_def AnnounceData_pack_def announce_wf_def)
  let ?pk = "ad_public_key a"
  let ?j = "\<lparr>id_prv = None, id_sig_prv = None, id_pub_key = take 32 ?pk, id_sig_pub = drop 32 ?pk,
     id_hash = truncated_hash lib ?pk, id_backend = None\<rparr>"
  have "AnnounceData_validate_with_known_key lib cl (ph_destination_hash h) known ?a = Ok ?j"
    unfolding validate_with_known_key_iff app using a(2,3,7-10) assms(13) by (simp add: announce_wf_def)
  moreover have "Identity_get_public_key ?j = Identity_get_public_key i"
    unfolding a(3) [symmetric] by (simp add: Identity_get_public_key_def)
  moreover have "ad_ratchet ?a = ratchet" "opt_bytes (ad_app_data ?a) = opt_bytes app_data" using a(4) app by (simp_all add: a(5))
  moreover have "id_hash ?j = id_hash i" using a(8) by simp
  ultimately show ?thesis using a(1) un em by blast
qed

definition example_identity :: Identity where
  "example_identity = Identity_new example_lib example_curve (replicate 32 1) (replicate 32 2)"

definition example_announce_header :: PacketHeader where
  "example_announce_header = \<lparr>ph_flags = \<lparr>header_type = Header1, context_flag = True, transport_type = Broadcast,
      destination_type = DT_Single, packet_type = PT_Announce\<rparr>, ph_hops = 0, ph_transport_id = None,
      ph_destination_hash = hash_from_name_and_identity example_lib [97] (Some (id_hash example_identity)), ph_context = Ctx_None\<rparr>"

theorem announce_reaches_witness:
  "\<exists>a a' j. AnnounceData_create_at example_lib example_curve [1, 2, 3, 4, 5] example_identity [97] (Some [])
       (Some (replicate 32 9)) 1700000000 = Ok a
    \<and> announce_emitted_from_raw (PacketHeader_pack example_announce_header @ AnnounceData_pack a) = Some 1700000000
    \<and> AnnounceData_unpack (AnnounceData_pack a) True = Ok a'
    \<and> AnnounceData_validate_with_known_key example_lib example_curve (ph_destination_hash example_announce_header)
         (Some (Identity_get_public_key example_identity)) a' = Ok j
    \<and> Identity_get_public_key j = Identity_get_public_key example_identity"
proof -
  have sha: "\<forall>d. length (lib_sha256 example_lib d) = 32" by (auto simp: example_lib_def)
  have wf: "identity_wf example_lib example_curve example_identity" unfolding example_identity_def by (rule Identity_new_wf)
  have key: "id_sig_prv example_identity = Some (replicate 32 2)" "length (id_pub_key example_identity) = 32"
    by (simp_all add: example_identity_def Identity_new_def Let_def example_curve_def)
  have h: "PacketHeader_wf example_announce_header" "packet_type (ph_flags example_announce_header) = PT_Announce"
    "context_flag (ph_flags example_announce_header) = (Some (replicate 32 9 :: bytes) \<noteq> None)"
    "ph_destination_hash example_announce_header = hash_from_name_and_identity example_lib [97] (Some (id_hash example_identity))"
    using sha by (simp_all add: example_announce_header_def PacketHeader_wf_def hash_from_name_and_identity_def
        Destination_compute_hash_def truncated_hash_def)
  have small: "length ([1, 2, 3, 4, 5] :: bytes) = 5" "\<forall>r. Some (replicate 32 9 :: bytes) = Some r \<longrightarrow> length r = 32"
    "(1700000000 :: u64) \<le> ANNOUNCE_TIME_MAX" by (simp_all add: ANNOUNCE_TIME_MAX_def)
  from announce_reaches [OF example_curve_ok sha wf key small h, of "Some (Identity_get_public_key example_identity)" "Some []"]
  show ?thesis by (simp add: example_announce_header_def) blast
qed

subsection \<open>Announces are ordered\<close>

fun announce_times :: "u64 list \<Rightarrow> RatchetControlState \<Rightarrow> u64 list" where
  "announce_times [] s = []"
| "announce_times (now # nows) s =
    (case prepare_announce now s of
       Inr (Some s') \<Rightarrow> now # announce_times nows s'
     | _ \<Rightarrow> announce_times nows s)"

lemma prepare_announce_Some_iff:
  "prepare_announce now s = Ok (Some s') \<longleftrightarrow>
    now \<le> ANNOUNCE_TIME_MAX \<and> (\<forall>t. cs_last_announce_wire s = Some t \<longrightarrow> t < now) \<and> s' = s\<lparr>cs_last_announce_wire := Some now\<rparr>"
  by (auto simp: prepare_announce_def not_le not_less split: option.splits)

lemma announce_times_sorted:
  "sorted_wrt (<) (announce_times nows s)
    \<and> (\<forall>w\<in>set (announce_times nows s). w \<le> ANNOUNCE_TIME_MAX \<and> (\<forall>t. cs_last_announce_wire s = Some t \<longrightarrow> t < w))"
proof (induction nows arbitrary: s)
  case (Cons now nows)
  show ?case
  proof (cases "prepare_announce now s")
    case (Inr o')
    then show ?thesis
    proof (cases o')
      case (Some s')
      with Inr have s': "now \<le> ANNOUNCE_TIME_MAX" "\<forall>t. cs_last_announce_wire s = Some t \<longrightarrow> t < now"
        "cs_last_announce_wire s' = Some now" by (auto simp: prepare_announce_Some_iff)
      with Inr Some Cons.IH [of s'] show ?thesis by (auto dest: order.strict_trans)
    qed (use Inr Cons.IH [of s] in simp)
  qed (use Cons.IH [of s] in simp)
qed simp

end
