(* ===== verification/Ratchets.thy ===== *)
theory Ratchets
  imports Identity_Keys
begin

text \<open>
  Ratchet keys and known destinations, \<open>ratchet.rs\<close> and \<open>known_destinations.rs\<close> under
  \<open>src/crates/rns-identity/src\<close>: the ring of private ratchet keys of a destination, the public ratchets learnt from
  announces and the table of known destinations, all in memory. The file formats and the disk-backed variants are not
  modelled; a fresh key and the wall clock are arguments; wiping a key has no functional effect.
\<close>

subsection \<open>The ring of ratchet keys\<close>

definition RATCHET_COUNT :: nat where "RATCHET_COUNT = 512"
definition RATCHET_INTERVAL :: nat where "RATCHET_INTERVAL = 1800"
definition RATCHET_EXPIRY :: nat where "RATCHET_EXPIRY = 2592000"
definition NAME_HASH_LENGTH :: nat where "NAME_HASH_LENGTH = 10"

record RatchetRing =
  rr_keys :: "bytes list"
  rr_last_rotation :: real
  rr_retained_count :: nat
  rr_rotation_interval :: nat

definition RatchetRing_new :: RatchetRing where
  "RatchetRing_new = \<lparr>rr_keys = [], rr_last_rotation = 0, rr_retained_count = RATCHET_COUNT,
     rr_rotation_interval = RATCHET_INTERVAL\<rparr>"

text \<open>A clock value as the code uses it: \<open>now\<close> when it is finite and not negative.\<close>

definition valid_clock :: "f64 \<Rightarrow> real option" where
  "valid_clock now = (case now of Fin t \<Rightarrow> if t \<ge> 0 then Some t else None | _ \<Rightarrow> None)"

text \<open>The loop that makes room before the insertion.\<close>

function make_room :: "nat \<Rightarrow> bytes list \<Rightarrow> bytes list option" where
  "make_room retained keys =
    (if length keys \<ge> retained
     then if keys = [] then None else make_room retained (butlast keys)
     else Some keys)"
  by pat_completeness auto
termination by (relation "measure (\<lambda>(_, keys). length keys)") auto

definition RatchetRing_rotate_at :: "curve_lib \<Rightarrow> bytes \<Rightarrow> f64 \<Rightarrow> RatchetRing \<Rightarrow> (RatchetRing \<times> bytes) option" where
  "RatchetRing_rotate_at cl prv now r =
     map_option (\<lambda>keys. (r\<lparr>rr_keys := prv # keys, rr_last_rotation := (case valid_clock now of Some t \<Rightarrow> t | None \<Rightarrow> 0)\<rparr>,
         x_public cl prv))
       (make_room (rr_retained_count r) (rr_keys r))"

definition RatchetRing_needs_rotation_at :: "f64 \<Rightarrow> RatchetRing \<Rightarrow> bool" where
  "RatchetRing_needs_rotation_at now r =
    (case valid_clock now of
       None \<Rightarrow> False
     | Some t \<Rightarrow> rr_last_rotation r \<le> 0
         \<or> t \<ge> rr_last_rotation r \<and> t - rr_last_rotation r \<ge> real (rr_rotation_interval r))"

definition RatchetRing_anchor_rotation_at :: "f64 \<Rightarrow> RatchetRing \<Rightarrow> RatchetRing \<times> bool" where
  "RatchetRing_anchor_rotation_at now r =
    (case valid_clock now of None \<Rightarrow> (r, False) | Some t \<Rightarrow> (r\<lparr>rr_last_rotation := t\<rparr>, True))"

record PreparedRatchetRotation =
  prr_candidate :: RatchetRing
  prr_public_key :: bytes

definition RatchetRing_prepare_rotation_at :: "curve_lib \<Rightarrow> bytes \<Rightarrow> f64 \<Rightarrow> RatchetRing \<Rightarrow> PreparedRatchetRotation option" where
  "RatchetRing_prepare_rotation_at cl prv now r =
     map_option (\<lambda>(c, pk). \<lparr>prr_candidate = c, prr_public_key = pk\<rparr>) (RatchetRing_rotate_at cl prv now r)"

definition RatchetRing_commit_prepared_rotation :: "PreparedRatchetRotation \<Rightarrow> RatchetRing \<Rightarrow> RatchetRing \<times> bytes" where
  "RatchetRing_commit_prepared_rotation p r = (prr_candidate p, prr_public_key p)"

definition RatchetRing_current_public_key :: "curve_lib \<Rightarrow> RatchetRing \<Rightarrow> bytes option" where
  "RatchetRing_current_public_key cl r = (case rr_keys r of [] \<Rightarrow> None | prv # _ \<Rightarrow> Some (x_public cl prv))"

definition RatchetRing_clean :: "RatchetRing \<Rightarrow> RatchetRing" where
  "RatchetRing_clean r =
    (if length (rr_keys r) > rr_retained_count r then r\<lparr>rr_keys := take (rr_retained_count r) (rr_keys r)\<rparr> else r)"

definition RatchetRing_set_retained_ratchets :: "nat \<Rightarrow> RatchetRing \<Rightarrow> RatchetRing \<times> bool" where
  "RatchetRing_set_retained_ratchets count r =
    (if 1 \<le> count \<and> count \<le> RATCHET_COUNT
     then (RatchetRing_clean (r\<lparr>rr_retained_count := count\<rparr>), True) else (r, False))"

definition RatchetRing_set_ratchet_interval :: "nat \<Rightarrow> RatchetRing \<Rightarrow> RatchetRing \<times> bool" where
  "RatchetRing_set_ratchet_interval interval r =
    (if interval > 0 then (r\<lparr>rr_rotation_interval := interval\<rparr>, True) else (r, False))"

subsection \<open>Ratchets of other destinations\<close>

record ReceivedRatchet =
  rx_ratchet_pub :: bytes
  rx_received_at :: real

definition ReceivedRatchet_new_at :: "bytes \<Rightarrow> f64 \<Rightarrow> ReceivedRatchet" where
  "ReceivedRatchet_new_at ratchet_pub received_at =
     \<lparr>rx_ratchet_pub = ratchet_pub, rx_received_at = (case valid_clock received_at of Some t \<Rightarrow> t | None \<Rightarrow> 0)\<rparr>"

definition ReceivedRatchet_is_expired_at :: "f64 \<Rightarrow> ReceivedRatchet \<Rightarrow> bool" where
  "ReceivedRatchet_is_expired_at now r =
    (case now of Fin t \<Rightarrow> t \<ge> rx_received_at r \<and> t - rx_received_at r > real RATCHET_EXPIRY | _ \<Rightarrow> False)"

definition get_ratchet_id :: "crypto_lib \<Rightarrow> bytes \<Rightarrow> bytes" where
  "get_ratchet_id lib ratchet_pub = take NAME_HASH_LENGTH (lib_sha256 lib ratchet_pub)"

definition purge_expired_ratchets_in_memory :: "f64 \<Rightarrow> ('k \<rightharpoonup> ReceivedRatchet) \<Rightarrow> ('k \<rightharpoonup> ReceivedRatchet) \<times> nat" where
  "purge_expired_ratchets_in_memory now m =
    (let m' = (\<lambda>k. case m k of Some r \<Rightarrow> if \<not> ReceivedRatchet_is_expired_at now r then Some r else None | None \<Rightarrow> None)
     in (m', card (dom m) - card (dom m')))"

type_synonym ReceivedRatchetStore = "bytes \<rightharpoonup> ReceivedRatchet"

definition ReceivedRatchetStore_remember_at :: "bytes \<Rightarrow> bytes \<Rightarrow> f64 \<Rightarrow> ReceivedRatchetStore \<Rightarrow> ReceivedRatchetStore" where
  "ReceivedRatchetStore_remember_at dest_hash ratchet_pub received_at s =
    (if (case s dest_hash of Some existing \<Rightarrow> rx_ratchet_pub existing = ratchet_pub | None \<Rightarrow> False) then s
     else s(dest_hash \<mapsto> ReceivedRatchet_new_at ratchet_pub received_at))"

definition ReceivedRatchetStore_get_at :: "bytes \<Rightarrow> f64 \<Rightarrow> ReceivedRatchetStore \<Rightarrow> bytes option" where
  "ReceivedRatchetStore_get_at dest_hash now s =
    (case s dest_hash of
       Some r \<Rightarrow> if \<not> ReceivedRatchet_is_expired_at now r then Some (rx_ratchet_pub r) else None
     | None \<Rightarrow> None)"

definition ReceivedRatchetStore_clean_expired :: "f64 \<Rightarrow> ReceivedRatchetStore \<Rightarrow> ReceivedRatchetStore" where
  "ReceivedRatchetStore_clean_expired now s =
    (\<lambda>k. case s k of Some r \<Rightarrow> if \<not> ReceivedRatchet_is_expired_at now r then Some r else None | None \<Rightarrow> None)"

subsection \<open>Known destinations\<close>

record KnownDestination =
  kd_timestamp :: real
  kd_packet_hash :: bytes
  kd_public_key :: bytes
  kd_app_data :: "bytes option"
  kd_retained :: bool

type_synonym KnownDestinations = "bytes \<rightharpoonup> KnownDestination"

definition KnownDestinations_remember ::
    "bytes \<Rightarrow> real \<Rightarrow> bytes \<Rightarrow> bytes \<Rightarrow> bytes option \<Rightarrow> KnownDestinations \<Rightarrow> KnownDestinations" where
  "KnownDestinations_remember dest_hash timestamp h public_key app_data t =
    (case t dest_hash of
       Some existing \<Rightarrow> t(dest_hash \<mapsto> existing\<lparr>kd_timestamp := timestamp, kd_packet_hash := h,
           kd_public_key := public_key, kd_app_data := app_data\<rparr>)
     | None \<Rightarrow> t(dest_hash \<mapsto> \<lparr>kd_timestamp = timestamp, kd_packet_hash = h, kd_public_key = public_key,
           kd_app_data = app_data, kd_retained = False\<rparr>))"

definition KnownDestinations_recall_app_data :: "bytes \<Rightarrow> KnownDestinations \<Rightarrow> bytes option" where
  "KnownDestinations_recall_app_data dest_hash t = (case t dest_hash of Some e \<Rightarrow> kd_app_data e | None \<Rightarrow> None)"

definition KnownDestinations_remove :: "bytes \<Rightarrow> KnownDestinations \<Rightarrow> KnownDestinations \<times> KnownDestination option" where
  "KnownDestinations_remove dest_hash t = (t(dest_hash := None), t dest_hash)"

definition KnownDestinations_retain :: "bytes \<Rightarrow> KnownDestinations \<Rightarrow> KnownDestinations" where
  "KnownDestinations_retain dest_hash t =
    (case t dest_hash of Some e \<Rightarrow> t(dest_hash \<mapsto> e\<lparr>kd_retained := True\<rparr>) | None \<Rightarrow> t)"

definition KnownDestinations_retain_identity :: "crypto_lib \<Rightarrow> bytes \<Rightarrow> KnownDestinations \<Rightarrow> KnownDestinations \<times> nat" where
  "KnownDestinations_retain_identity lib identity_hash t =
    (let hit = (\<lambda>e. truncated_hash lib (kd_public_key e) = identity_hash)
     in (\<lambda>k. map_option (\<lambda>e. if hit e then e\<lparr>kd_retained := True\<rparr> else e) (t k),
         card {k \<in> dom t. hit (the (t k))}))"

definition KnownDestinations_unretain :: "bytes \<Rightarrow> KnownDestinations \<Rightarrow> KnownDestinations" where
  "KnownDestinations_unretain dest_hash t =
    (case t dest_hash of Some e \<Rightarrow> t(dest_hash \<mapsto> e\<lparr>kd_retained := False\<rparr>) | None \<Rightarrow> t)"

text \<open>The hashes that \<open>cleanup\<close> returns are a set: their order is that of a hash map.\<close>

definition KnownDestinations_cleanup ::
    "real \<Rightarrow> real \<Rightarrow> (bytes \<Rightarrow> bool) \<Rightarrow> KnownDestinations \<Rightarrow> KnownDestinations \<times> bytes set" where
  "KnownDestinations_cleanup now destination_timeout_secs has_path t =
    (let to_remove = {k \<in> dom t. \<not> (kd_retained (the (t k)) \<or> has_path k)
           \<and> now - kd_timestamp (the (t k)) > destination_timeout_secs}
     in (\<lambda>k. if k \<in> to_remove then None else t k, to_remove))"

definition KnownDestinations_merge :: "KnownDestinations \<Rightarrow> KnownDestinations \<Rightarrow> KnownDestinations" where
  "KnownDestinations_merge other t = (\<lambda>k. case t k of Some e \<Rightarrow> Some e | None \<Rightarrow> other k)"

subsection \<open>The ring holds the newest keys\<close>

declare make_room.simps [simp del]

definition ring_ok :: "RatchetRing \<Rightarrow> bool" where
  "ring_ok r \<longleftrightarrow> 1 \<le> rr_retained_count r \<and> rr_retained_count r \<le> RATCHET_COUNT \<and> length (rr_keys r) \<le> rr_retained_count r
     \<and> 0 < rr_rotation_interval r \<and> 0 \<le> rr_last_rotation r"

lemma make_room_eq: "1 \<le> n \<Longrightarrow> make_room n keys = Some (take (n - 1) keys)"
proof (induction n keys rule: make_room.induct)
  case (1 n keys)
  show ?case
  proof (cases "n \<le> length keys")
    case True
    with 1 have "make_room n keys = Some (take (n - 1) (butlast keys))" by (auto simp: make_room.simps [of n keys])
    with True 1(2) show ?thesis by (simp add: take_butlast)
  qed (simp add: make_room.simps [of n keys])
qed

lemma rotate_at_eq:
  assumes "ring_ok r"
  shows "\<exists>t. 0 \<le> t \<and> RatchetRing_rotate_at cl prv now r =
    Some (r\<lparr>rr_keys := prv # take (rr_retained_count r - 1) (rr_keys r), rr_last_rotation := t\<rparr>, x_public cl prv)"
  using assms by (auto simp: RatchetRing_rotate_at_def make_room_eq ring_ok_def valid_clock_def split: f64.splits)

lemma ring_ok_new: "ring_ok RatchetRing_new"
  by (simp add: ring_ok_def RatchetRing_new_def RATCHET_COUNT_def RATCHET_INTERVAL_def)

lemma ring_ok_rotate: "ring_ok r \<Longrightarrow> RatchetRing_rotate_at cl prv now r = Some (r', pk) \<Longrightarrow> ring_ok r'"
  using rotate_at_eq [of r cl prv now] by (auto simp: ring_ok_def)

lemma ring_ok_ops:
  assumes "ring_ok r"
  shows "ring_ok (fst (RatchetRing_set_retained_ratchets n r))" "ring_ok (fst (RatchetRing_set_ratchet_interval n r))"
    "ring_ok (fst (RatchetRing_anchor_rotation_at now r))"
  using assms by (auto simp: ring_ok_def RatchetRing_set_retained_ratchets_def RatchetRing_clean_def
      RatchetRing_set_ratchet_interval_def RatchetRing_anchor_rotation_at_def valid_clock_def split: f64.splits)

fun rotate_all :: "curve_lib \<Rightarrow> (bytes \<times> f64) list \<Rightarrow> RatchetRing \<Rightarrow> RatchetRing option" where
  "rotate_all cl [] r = Some r"
| "rotate_all cl ((prv, now) # rest) r =
    (case RatchetRing_rotate_at cl prv now r of None \<Rightarrow> None | Some (r, _) \<Rightarrow> rotate_all cl rest r)"

lemma rotate_all_keys:
  assumes "ring_ok r"
  shows "\<exists>r'. rotate_all cl rots r = Some r' \<and> ring_ok r' \<and> rr_retained_count r' = rr_retained_count r
    \<and> rr_keys r' = take (rr_retained_count r) (rev (map fst rots) @ rr_keys r)"
  using assms
proof (induction rots arbitrary: r)
  case Nil then show ?case by (simp add: ring_ok_def)
next
  case (Cons pn rots)
  obtain prv now where pn: "pn = (prv, now)" by fastforce
  let ?n = "rr_retained_count r"
  obtain t where r1: "RatchetRing_rotate_at cl prv now r =
      Some (r\<lparr>rr_keys := prv # take (?n - 1) (rr_keys r), rr_last_rotation := t\<rparr>, x_public cl prv)" (is "_ = Some (?r1, _)")
    using rotate_at_eq [OF Cons.prems] by blast
  from Cons.IH [OF ring_ok_rotate [OF Cons.prems r1]] obtain r' where
    r': "rotate_all cl rots ?r1 = Some r'" "ring_ok r'" "rr_retained_count r' = ?n"
      "rr_keys r' = take ?n (rev (map fst rots) @ prv # take (?n - 1) (rr_keys r))" by auto
  have "prv # take (?n - 1) (rr_keys r) = take ?n (prv # rr_keys r)"
    using Cons.prems by (cases ?n) (auto simp: ring_ok_def)
  then have "rr_keys r' = take ?n (rev (map fst (pn # rots)) @ rr_keys r)"
    unfolding r'(4) by (simp add: pn take_append)
  with r1 r'(1-3) show ?case by (simp add: pn)
qed

text \<open>
  C38: a message encrypted to the current ratchet of a ring is decrypted through up to one rotation less than the
  ring retains, with or without enforcement and reporting that ratchet, provided no newer ratchet
  happens to authenticate it; after as many rotations as the ring retains, none of the keys it held is
  left in the ring. The ring never exceeds its bound and a rotation never fails.
\<close>

theorem ratchet_window:
  assumes "cipher_lib_ok lib" and "hkdf_lib_ok lib" and "curve_lib_ok cl" and "length iv = 16"
    and "ring_ok ring" and "RatchetRing_current_public_key cl ring = Some pk"
    and "Identity_encrypt lib cl e iv p (Some pk) j = Ok c" and "id_hash j = id_hash i"
    and "\<forall>r\<in>set (map fst rots). \<not> ratchet_opens lib cl c i r"
  shows "\<exists>ring'. rotate_all cl rots ring = Some ring' \<and> length (rr_keys ring') \<le> rr_retained_count ring
    \<and> (if length rots < rr_retained_count ring
       then Identity_decrypt_with_ratchet_id lib cl c (Some (rr_keys ring')) enforce i =
              Ok \<lparr>dr_plaintext = p, dr_ratchet_id = Some (Identity_ratchet_id lib pk)\<rparr>
       else set (rr_keys ring') \<subseteq> set (map fst rots))"
proof -
  let ?n = "rr_retained_count ring"
  obtain k ks where k: "rr_keys ring = k # ks" "pk = x_public cl k"
    using assms(6) by (auto simp: RatchetRing_current_public_key_def split: list.splits)
  obtain ring' where r': "rotate_all cl rots ring = Some ring'" "ring_ok ring'" "rr_retained_count ring' = ?n"
    "rr_keys ring' = take ?n (rev (map fst rots) @ k # ks)"
    using rotate_all_keys [OF assms(5)] k(1) by metis
  show ?thesis
  proof (cases "length rots < ?n")
    case True
    then obtain older where keys: "rr_keys ring' = rev (map fst rots) @ k # older"
      unfolding r'(4) by (cases "?n - length rots") (auto simp: take_append)
    have newer: "\<forall>r\<in>set (rev (map fst rots)). \<not> ratchet_opens lib cl c i r" using assms(9) by simp
    from ratchet_decrypts [OF assms(1-4) assms(7) [unfolded k(2)] assms(8) newer, of older enforce]
    show ?thesis using True r'(1-3) unfolding keys k(2) by (simp add: ring_ok_def keys)
  next
    case False
    then have "set (rr_keys ring') \<subseteq> set (map fst rots)"
      unfolding r'(4) by (auto dest: in_set_takeD)
    with False r'(1-3) show ?thesis by (simp add: ring_ok_def)
  qed
qed

definition example_ring :: RatchetRing where
  "example_ring = \<lparr>rr_keys = [[1]], rr_last_rotation = 5, rr_retained_count = 2, rr_rotation_interval = 1800\<rparr>"

definition example_recipient :: Identity where
  "example_recipient = \<lparr>id_prv = None, id_sig_prv = None, id_pub_key = [], id_sig_pub = [], id_hash = [7], id_backend = None\<rparr>"

lemma example_not_opens:
  "Identity_encrypt example_lib example_curve [3] (replicate 16 0) [42] (Some (x_public example_curve [1])) example_recipient = Ok c
    \<Longrightarrow> \<not> ratchet_opens example_lib example_curve c example_recipient [2]"
proof -
  have *: "case Identity_encrypt example_lib example_curve [3] (replicate 16 0) [42] (Some (x_public example_curve [1])) example_recipient of
      Inr c \<Rightarrow> \<not> ratchet_opens example_lib example_curve c example_recipient [2] | Inl _ \<Rightarrow> True"
    by code_simp
  assume "Identity_encrypt example_lib example_curve [3] (replicate 16 0) [42] (Some (x_public example_curve [1])) example_recipient = Ok c"
  with * show ?thesis by simp
qed

theorem ratchet_window_witness:
  "\<exists>c ring'. Identity_encrypt example_lib example_curve [3] (replicate 16 0) [42]
       (RatchetRing_current_public_key example_curve example_ring) example_recipient = Ok c
     \<and> rotate_all example_curve [([2], Fin 9)] example_ring = Some ring'
     \<and> Identity_decrypt_with_ratchet_id example_lib example_curve c (Some (rr_keys ring')) True example_recipient =
         Ok \<lparr>dr_plaintext = [42], dr_ratchet_id = Some (Identity_ratchet_id example_lib (x_public example_curve [1]))\<rparr>"
proof -
  have ring: "ring_ok example_ring" "RatchetRing_current_public_key example_curve example_ring = Some (x_public example_curve [1])"
    by (simp_all add: ring_ok_def example_ring_def RATCHET_COUNT_def RatchetRing_current_public_key_def)
  have iv: "length (replicate 16 (0 :: u8)) = 16" by simp
  obtain c where c: "Identity_encrypt example_lib example_curve [3] (replicate 16 0) [42] (Some (x_public example_curve [1]))
      example_recipient = Ok c"
    using Identity_encrypt_form [OF example_lib_ok example_hkdf_ok iv] by blast
  have no: "\<forall>r\<in>set (map fst [([2], Fin 9)]). \<not> ratchet_opens example_lib example_curve c example_recipient r"
    using example_not_opens [OF c] by simp
  from ratchet_window [OF example_lib_ok example_hkdf_ok example_curve_ok iv ring c refl no, of True] c ring(2) show ?thesis
    by (auto simp: example_ring_def)
qed

end
