(* ===== verification/Destinations.thy ===== *)
theory Destinations
  imports Announces Ratchets
begin

text \<open>
  Destinations, \<open>src/crates/rns-identity/src/destination.rs\<close>: names and hashes, keys, packets to and from a
  destination, request handlers, announces and the cache of path responses. Names are their UTF-8 bytes. Of an application
  callback only its registration is state, and the calls are returned; a proof callback is its decision function. Random bytes, fresh
  identities and initialisation vectors are arguments.
\<close>

subsection \<open>Types\<close>

datatype AllowPolicy = AllowNone | AllowAll | AllowList

record RequestHandler =
  rh_path :: bytes
  rh_allow :: AllowPolicy
  rh_allowed_list :: "bytes list"
  rh_auto_compress :: bool

datatype DefaultAppData = AppData_Static bytes | AppData_Dynamic "unit \<Rightarrow> bytes option"

record PathResponseCache =
  prc_timestamp :: real
  prc_announce_data :: bytes
  prc_has_ratchet :: bool

definition PR_TAG_WINDOW :: real where "PR_TAG_WINDOW = 30"
definition LEGACY_KEY_LENGTH :: nat where "LEGACY_KEY_LENGTH = 32"
definition GROUP_KEY_LENGTH :: nat where "GROUP_KEY_LENGTH = 64"

datatype DestType = Dest_Single | Dest_Group | Dest_Plain | Dest_Link
datatype Direction = Dir_In | Dir_Out
datatype ProofStrategy = ProveNone | ProveApp | ProveAll

datatype DestinationError =
    OutboundMissingIdentity | PlainWithIdentity | EncryptionUnavailable | DestDecryptionFailed | ProveNotSingle
  | DestIdentity IdentityError | InvalidAnnounceTime f64 | InvalidNameComponent bytes | NotGroup
  | InvalidGroupKeyLength nat | NotSingle | NotInbound | IdentityMismatch | SigningUnavailable

record AnnounceTime =
  at_wire :: u64
  at_cache :: f64

definition AnnounceTime_new :: "u64 \<Rightarrow> f64 \<Rightarrow> (DestinationError, AnnounceTime) result" where
  "AnnounceTime_new wire cache =
    (case valid_clock cache of
       Some t \<Rightarrow> if wire > ANNOUNCE_TIME_MAX then Err (InvalidAnnounceTime cache) else Ok \<lparr>at_wire = wire, at_cache = cache\<rparr>
     | None \<Rightarrow> Err (InvalidAnnounceTime cache))"

text \<open>The cache clock of a checked time, which is finite.\<close>

definition cache_secs :: "AnnounceTime \<Rightarrow> real" where
  "cache_secs time = (case at_cache time of Fin t \<Rightarrow> t | _ \<Rightarrow> 0)"

record DestinationPacketOptions =
  po_packet_type :: PacketType
  po_context :: PacketContext
  po_context_flag :: bool
  po_header_type :: HeaderType
  po_transport_type :: TransportType
  po_transport_id :: "bytes option"

definition default_packet_options :: DestinationPacketOptions where
  "default_packet_options = \<lparr>po_packet_type = PT_Data, po_context = Ctx_None, po_context_flag = False,
     po_header_type = Header1, po_transport_type = Broadcast, po_transport_id = None\<rparr>"

record PackedDestinationPacket =
  pdp_packet :: Packet
  pdp_ratchet_id :: "bytes option"

datatype DestinationPacketError =
    DPE_Destination DestinationError | DPE_Packet PacketError | DPE_MissingIdentity | DPE_MissingTransportId
  | DPE_LinkRuntimeRequired | DPE_LrproofRequiresLink

record Destination =
  d_dest_type :: DestType
  d_direction :: Direction
  d_hash :: bytes
  d_name_hash :: bytes
  d_app_name :: bytes
  d_name :: bytes
  d_identity_hash :: "bytes option"
  d_proof_strategy :: ProofStrategy
  d_only_validate_signature :: bool
  d_group_key :: "bytes option"
  d_auto_identity :: "Identity option"
  d_packet_callback :: bool
  d_link_established_callback :: bool
  d_proof_requested_callback :: "(bytes \<Rightarrow> bool) option"
  d_request_handlers :: "bytes \<rightharpoonup> RequestHandler"
  d_links :: "bytes list"
  d_accept_link_requests :: bool
  d_default_app_data :: "DefaultAppData option"
  d_ratchets_enabled :: bool
  d_ratchets_enforced :: bool
  d_remote_ratchet_pub :: "bytes option"
  d_local_ratchet_pub :: "bytes option"
  d_path_responses :: "bytes \<rightharpoonup> PathResponseCache"

subsection \<open>Names and construction\<close>

definition hex_digit :: "u8 \<Rightarrow> u8" where
  "hex_digit n = (if n < 10 then 48 + n else 87 + n)"

definition hex_encode :: "bytes \<Rightarrow> bytes" where
  "hex_encode bs = concat (map (\<lambda>b. [hex_digit (drop_bit 4 b), hex_digit (take_bit 4 b)]) bs)"

fun join_dots :: "bytes list \<Rightarrow> bytes" where
  "join_dots [] = []"
| "join_dots [x] = x"
| "join_dots (x # xs) = x @ 46 # join_dots xs"

definition Destination_expand_name ::
    "Identity option \<Rightarrow> bytes \<Rightarrow> bytes list \<Rightarrow> (DestinationError, bytes) result" where
  "Destination_expand_name identity app_name aspects =
    (if 46 \<in> set app_name then Err (InvalidNameComponent app_name)
     else case find (\<lambda>aspect. 46 \<in> set aspect) aspects of
       Some aspect \<Rightarrow> Err (InvalidNameComponent aspect)
     | None \<Rightarrow> Ok (join_dots ([app_name] @ aspects @ (case identity of Some i \<Rightarrow> [hex_encode (id_hash i)] | None \<Rightarrow> []))))"

fun split_dots :: "bytes \<Rightarrow> bytes list" where
  "split_dots [] = [[]]"
| "split_dots (b # bs) =
    (if b = 46 then [] # split_dots bs
     else case split_dots bs of [] \<Rightarrow> [[b]] | c # cs \<Rightarrow> (b # c) # cs)"

definition Destination_app_and_aspects_from_name :: "bytes \<Rightarrow> bytes \<times> bytes list" where
  "Destination_app_and_aspects_from_name full_name =
    (case split_dots full_name of [] \<Rightarrow> ([], []) | app # aspects \<Rightarrow> (app, aspects))"

definition fresh_destination :: "DestType \<Rightarrow> Direction \<Rightarrow> bytes \<Rightarrow> bytes \<Rightarrow> bytes \<Rightarrow> bytes \<Rightarrow> bytes option \<Rightarrow> Identity option \<Rightarrow> Destination" where
  "fresh_destination dest_type direction h nh app_name name identity_hash auto_id =
     \<lparr>d_dest_type = dest_type, d_direction = direction, d_hash = h, d_name_hash = nh, d_app_name = app_name, d_name = name,
      d_identity_hash = identity_hash, d_proof_strategy = ProveNone, d_only_validate_signature = False, d_group_key = None,
      d_auto_identity = auto_id, d_packet_callback = False, d_link_established_callback = False,
      d_proof_requested_callback = None, d_request_handlers = Map.empty, d_links = [], d_accept_link_requests = True,
      d_default_app_data = None, d_ratchets_enabled = False, d_ratchets_enforced = False, d_remote_ratchet_pub = None,
      d_local_ratchet_pub = None, d_path_responses = Map.empty\<rparr>"

text \<open>\<open>new_id\<close> is the identity that \<open>Identity::new\<close> would generate.\<close>

definition Destination_new ::
    "crypto_lib \<Rightarrow> Identity \<Rightarrow> Identity option \<Rightarrow> Direction \<Rightarrow> DestType \<Rightarrow> bytes \<Rightarrow> (DestinationError, Destination) result" where
  "Destination_new lib new_id identity direction dest_type app_name =
    (if dest_type = Dest_Single \<or> dest_type = Dest_Group then
       and_then
         (case identity of
            Some i \<Rightarrow> Ok (id_hash i, None, app_name)
          | None \<Rightarrow>
              if direction = Dir_In then Ok (id_hash new_id, Some new_id, app_name @ 46 # hex_encode (id_hash new_id))
              else Err OutboundMissingIdentity) (\<lambda>(id_ref, auto_id, hash_name).
         let nh = name_hash lib hash_name;
             h = Destination_compute_hash lib nh (Some id_ref);
             name = hash_name @ 46 # hex_encode id_ref
         in Ok (fresh_destination dest_type direction h nh app_name name (Some id_ref) auto_id))
     else if dest_type = Dest_Plain then
       if identity \<noteq> None then Err PlainWithIdentity
       else let nh = name_hash lib app_name
            in Ok (fresh_destination dest_type direction (Destination_compute_hash lib nh None) nh app_name app_name None None)
     else
       let nh = name_hash lib app_name;
           name = (case identity of Some i \<Rightarrow> app_name @ 46 # hex_encode (id_hash i) | None \<Rightarrow> app_name)
       in Ok (fresh_destination dest_type direction (Destination_compute_hash lib nh (map_option id_hash identity)) nh
                app_name name (map_option id_hash identity) None))"

definition Destination_new_with_aspects ::
    "crypto_lib \<Rightarrow> Identity \<Rightarrow> Identity option \<Rightarrow> Direction \<Rightarrow> DestType \<Rightarrow> bytes \<Rightarrow> bytes list \<Rightarrow> (DestinationError, Destination) result" where
  "Destination_new_with_aspects lib new_id identity direction dest_type app_name aspects =
     and_then (Destination_expand_name None app_name aspects) (\<lambda>full_name.
       Destination_new lib new_id identity direction dest_type full_name)"

definition Destination_ensure_identity :: "crypto_lib \<Rightarrow> Identity \<Rightarrow> Destination \<Rightarrow> (DestinationError, unit) result" where
  "Destination_ensure_identity lib identity d =
    (if d_identity_hash d \<noteq> Some (id_hash identity)
        \<or> Destination_compute_hash lib (d_name_hash d) (Some (id_hash identity)) \<noteq> d_hash d
     then Err IdentityMismatch else Ok ())"

subsection \<open>Keys, proofs and signatures\<close>

definition Destination_set_group_key :: "bytes \<Rightarrow> Destination \<Rightarrow> Destination" where
  "Destination_set_group_key key d = d\<lparr>d_group_key := Some key\<rparr>"

definition Destination_generate_group_key :: "bytes \<Rightarrow> Destination \<Rightarrow> (DestinationError, Destination) result" where
  "Destination_generate_group_key new_key d =
    (if d_dest_type d \<noteq> Dest_Group then Err NotGroup else Ok (d\<lparr>d_group_key := Some new_key\<rparr>))"

definition Destination_load_group_key :: "bytes \<Rightarrow> Destination \<Rightarrow> (DestinationError, Destination) result" where
  "Destination_load_group_key key d =
    (if d_dest_type d \<noteq> Dest_Group then Err NotGroup
     else if length key \<noteq> LEGACY_KEY_LENGTH \<and> length key \<noteq> GROUP_KEY_LENGTH then Err (InvalidGroupKeyLength (length key))
     else Ok (d\<lparr>d_group_key := Some key\<rparr>))"

definition Destination_group_key :: "Destination \<Rightarrow> (DestinationError, bytes) result" where
  "Destination_group_key d =
    (if d_dest_type d \<noteq> Dest_Group then Err NotGroup else ok_or EncryptionUnavailable (d_group_key d))"

definition Destination_take_auto_identity :: "Destination \<Rightarrow> Destination \<times> Identity option" where
  "Destination_take_auto_identity d = (d\<lparr>d_auto_identity := None\<rparr>, d_auto_identity d)"

definition Destination_prove ::
    "crypto_lib \<Rightarrow> curve_lib \<Rightarrow> bytes \<Rightarrow> Identity \<Rightarrow> bool \<Rightarrow> Destination \<Rightarrow> (DestinationError, bytes) result" where
  "Destination_prove lib cl h identity implicit_proof d =
    (if d_dest_type d \<noteq> Dest_Single then Err ProveNotSingle
     else and_then (Destination_ensure_identity lib identity d) (\<lambda>_.
       map_err DestIdentity (Identity_prove cl h implicit_proof identity)))"

definition Destination_sign ::
    "crypto_lib \<Rightarrow> curve_lib \<Rightarrow> bytes \<Rightarrow> Identity \<Rightarrow> Destination \<Rightarrow> (DestinationError, bytes) result" where
  "Destination_sign lib cl msg identity d =
    (if d_dest_type d \<noteq> Dest_Single then Err NotSingle
     else and_then (Destination_ensure_identity lib identity d) (\<lambda>_.
       ok_or SigningUnavailable (Identity_sign cl msg identity)))"

subsection \<open>Encryption and decryption\<close>

definition Destination_encrypt ::
    "crypto_lib \<Rightarrow> curve_lib \<Rightarrow> bytes \<Rightarrow> bytes \<Rightarrow> bytes \<Rightarrow> Identity \<Rightarrow> bytes option \<Rightarrow> Destination \<Rightarrow> (DestinationError, bytes) result" where
  "Destination_encrypt lib cl ephemeral iv plaintext identity remote_ratchet_pub d =
    (case d_dest_type d of
       Dest_Plain \<Rightarrow> Ok plaintext
     | Dest_Single \<Rightarrow>
         and_then (Destination_ensure_identity lib identity d) (\<lambda>_.
           map_err DestIdentity (Identity_encrypt lib cl ephemeral iv plaintext remote_ratchet_pub identity))
     | Dest_Group \<Rightarrow>
         and_then (ok_or EncryptionUnavailable (d_group_key d)) (\<lambda>key.
           map_err (\<lambda>_. DestDecryptionFailed) (token_encrypt lib iv plaintext key))
     | Dest_Link \<Rightarrow> Err EncryptionUnavailable)"

definition Destination_decrypt_with_ratchet_id ::
    "crypto_lib \<Rightarrow> curve_lib \<Rightarrow> bytes \<Rightarrow> Identity \<Rightarrow> bytes list option \<Rightarrow> Destination \<Rightarrow> (DestinationError, DecryptionResult) result" where
  "Destination_decrypt_with_ratchet_id lib cl ciphertext identity ratchet_keys d =
    (case d_dest_type d of
       Dest_Plain \<Rightarrow> Ok \<lparr>dr_plaintext = ciphertext, dr_ratchet_id = None\<rparr>
     | Dest_Single \<Rightarrow>
         and_then (Destination_ensure_identity lib identity d) (\<lambda>_.
           map_err DestIdentity (Identity_decrypt_with_ratchet_id lib cl ciphertext
             (if d_ratchets_enabled d then ratchet_keys else None) (d_ratchets_enforced d) identity))
     | Dest_Group \<Rightarrow>
         and_then (ok_or EncryptionUnavailable (d_group_key d)) (\<lambda>key.
         and_then (map_err (\<lambda>_. DestDecryptionFailed) (token_decrypt lib ciphertext key)) (\<lambda>plaintext.
           Ok \<lparr>dr_plaintext = plaintext, dr_ratchet_id = None\<rparr>))
     | Dest_Link \<Rightarrow> Err EncryptionUnavailable)"

definition Destination_decrypt_with_ratchets ::
    "crypto_lib \<Rightarrow> curve_lib \<Rightarrow> bytes \<Rightarrow> Identity \<Rightarrow> bytes list option \<Rightarrow> Destination \<Rightarrow> (DestinationError, bytes) result" where
  "Destination_decrypt_with_ratchets lib cl ciphertext identity ratchet_keys d =
     and_then (Destination_decrypt_with_ratchet_id lib cl ciphertext identity ratchet_keys d) (\<lambda>r. Ok (dr_plaintext r))"

definition Destination_decrypt ::
    "crypto_lib \<Rightarrow> curve_lib \<Rightarrow> bytes \<Rightarrow> Identity \<Rightarrow> Destination \<Rightarrow> (DestinationError, bytes) result" where
  "Destination_decrypt lib cl ciphertext identity d = Destination_decrypt_with_ratchets lib cl ciphertext identity None d"

subsection \<open>Packets\<close>

fun DestType_wire :: "DestType \<Rightarrow> DestinationType" where
  "DestType_wire Dest_Single = DT_Single"
| "DestType_wire Dest_Group = DT_Group"
| "DestType_wire Dest_Plain = DT_Plain"
| "DestType_wire Dest_Link = DT_Link"

definition bypass_encryption :: "DestinationPacketOptions \<Rightarrow> bool" where
  "bypass_encryption options \<longleftrightarrow>
     po_packet_type options \<in> {PT_Announce, PT_LinkRequest}
     \<or> po_packet_type options = PT_Proof \<and> po_context options = Ctx_ResourcePrf
     \<or> is_plaintext_context (po_context options) \<or> po_context options = Ctx_Lrproof"

definition Destination_pack_packet ::
    "crypto_lib \<Rightarrow> curve_lib \<Rightarrow> bytes \<Rightarrow> bytes \<Rightarrow> bytes \<Rightarrow> Identity option \<Rightarrow> bytes option \<Rightarrow> DestinationPacketOptions \<Rightarrow> Destination
      \<Rightarrow> (DestinationPacketError, PackedDestinationPacket) result" where
  "Destination_pack_packet lib cl ephemeral iv data identity remote_ratchet_pub options d =
    (if po_context options = Ctx_Lrproof \<and> d_dest_type d \<noteq> Dest_Link then Err DPE_LrproofRequiresLink
     else if d_dest_type d = Dest_Link \<and> po_context options \<noteq> Ctx_Lrproof then Err DPE_LinkRuntimeRequired
     else
       let selected_ratchet = (case remote_ratchet_pub of Some r \<Rightarrow> Some r | None \<Rightarrow> d_remote_ratchet_pub d)
       in and_then
         (if bypass_encryption options then Ok (data, None)
          else case d_dest_type d of
            Dest_Plain \<Rightarrow> Ok (data, None)
          | Dest_Single \<Rightarrow>
              and_then (ok_or DPE_MissingIdentity identity) (\<lambda>i.
              and_then (map_err DPE_Destination (Destination_ensure_identity lib i d)) (\<lambda>_.
              and_then (map_err (\<lambda>e. DPE_Destination (DestIdentity e))
                  (Identity_encrypt lib cl ephemeral iv data selected_ratchet i)) (\<lambda>ciphertext.
              Ok (ciphertext, map_option (Identity_ratchet_id lib) selected_ratchet))))
          | Dest_Group \<Rightarrow>
              and_then (ok_or (DPE_Destination EncryptionUnavailable) (d_group_key d)) (\<lambda>key.
              and_then (map_err (\<lambda>_. DPE_Destination DestDecryptionFailed) (token_encrypt lib iv data key)) (\<lambda>t.
              Ok (t, None)))
          | Dest_Link \<Rightarrow> Ok (data, None) \<comment> \<open>unreachable: a link destination bypasses encryption here\<close>) (\<lambda>(payload, ratchet_id).
         and_then
           (case po_header_type options of
              Header1 \<Rightarrow> Ok None
            | Header2 \<Rightarrow> and_then (ok_or DPE_MissingTransportId (po_transport_id options)) (\<lambda>t. Ok (Some t))) (\<lambda>transport_id.
         let destination_type = (if po_context options = Ctx_Lrproof then DT_Link else DestType_wire (d_dest_type d))
         in and_then (map_err DPE_Packet (Packet_new (lib_sha256 lib)
               \<lparr>ph_flags = \<lparr>header_type = po_header_type options, context_flag = po_context_flag options,
                   transport_type = po_transport_type options, destination_type = destination_type,
                   packet_type = po_packet_type options\<rparr>,
                ph_hops = 0, ph_transport_id = transport_id, ph_destination_hash = d_hash d, ph_context = po_context options\<rparr>
               payload)) (\<lambda>packet.
             Ok \<lparr>pdp_packet = packet, pdp_ratchet_id = ratchet_id\<rparr>))))"

text \<open>The packet callback is called with the plaintext and the raw packet; the calls are returned.\<close>

definition Destination_receive_packet_with_ratchets ::
    "crypto_lib \<Rightarrow> curve_lib \<Rightarrow> u8 \<Rightarrow> bytes \<Rightarrow> bytes \<Rightarrow> Identity \<Rightarrow> bytes list option \<Rightarrow> Destination
      \<Rightarrow> (DestinationError, bytes option) result \<times> (bytes \<times> bytes) list" where
  "Destination_receive_packet_with_ratchets lib cl packet_type_byte data raw_packet identity ratchet_keys d =
    (if packet_type_byte = 0x02 then (Ok (Some data), [])
     else case Destination_decrypt_with_ratchets lib cl data identity ratchet_keys d of
       Inl e \<Rightarrow> (Err e, [])
     | Inr plaintext \<Rightarrow>
         (Ok (Some plaintext), if packet_type_byte = 0x00 \<and> d_packet_callback d then [(plaintext, raw_packet)] else []))"

definition Destination_receive_packet ::
    "crypto_lib \<Rightarrow> curve_lib \<Rightarrow> u8 \<Rightarrow> bytes \<Rightarrow> bytes \<Rightarrow> Identity \<Rightarrow> Destination
      \<Rightarrow> (DestinationError, bytes option) result \<times> (bytes \<times> bytes) list" where
  "Destination_receive_packet lib cl packet_type_byte data raw_packet identity d =
     Destination_receive_packet_with_ratchets lib cl packet_type_byte data raw_packet identity None d"

definition Destination_receive ::
    "crypto_lib \<Rightarrow> curve_lib \<Rightarrow> u8 \<Rightarrow> bytes \<Rightarrow> Identity \<Rightarrow> Destination
      \<Rightarrow> (DestinationError, bytes option) result \<times> (bytes \<times> bytes) list" where
  "Destination_receive lib cl packet_type_byte data identity d =
     Destination_receive_packet lib cl packet_type_byte data data identity d"

definition Destination_should_prove :: "bytes \<Rightarrow> Destination \<Rightarrow> bool" where
  "Destination_should_prove packet_data d =
    (case d_proof_strategy d of
       ProveNone \<Rightarrow> False
     | ProveAll \<Rightarrow> True
     | ProveApp \<Rightarrow> (case d_proof_requested_callback d of Some cb \<Rightarrow> cb packet_data | None \<Rightarrow> False))"

subsection \<open>Settings, links and request handlers\<close>

definition Destination_set_remote_ratchet :: "bytes \<Rightarrow> Destination \<Rightarrow> Destination" where
  "Destination_set_remote_ratchet pub_key d = d\<lparr>d_remote_ratchet_pub := Some pub_key\<rparr>"

definition Destination_set_local_ratchet :: "bytes \<Rightarrow> Destination \<Rightarrow> Destination" where
  "Destination_set_local_ratchet pub_key d = d\<lparr>d_local_ratchet_pub := Some pub_key\<rparr>"

definition Destination_get_ratchet_for_announce :: "Destination \<Rightarrow> bytes option" where
  "Destination_get_ratchet_for_announce d = (if d_ratchets_enabled d then d_local_ratchet_pub d else None)"

definition Destination_register_request_handler ::
    "crypto_lib \<Rightarrow> bytes \<Rightarrow> AllowPolicy \<Rightarrow> bytes list option \<Rightarrow> bool \<Rightarrow> Destination \<Rightarrow> Destination \<times> bool" where
  "Destination_register_request_handler lib path allow allowed_list auto_compress d =
    (if path = [] then (d, False)
     else (d\<lparr>d_request_handlers := (d_request_handlers d)(truncated_hash lib path \<mapsto>
              \<lparr>rh_path = path, rh_allow = allow, rh_allowed_list = (case allowed_list of Some l \<Rightarrow> l | None \<Rightarrow> []),
               rh_auto_compress = auto_compress\<rparr>)\<rparr>, True))"

definition Destination_deregister_request_handler :: "crypto_lib \<Rightarrow> bytes \<Rightarrow> Destination \<Rightarrow> Destination \<times> bool" where
  "Destination_deregister_request_handler lib path d =
     (d\<lparr>d_request_handlers := (d_request_handlers d)(truncated_hash lib path := None)\<rparr>,
      d_request_handlers d (truncated_hash lib path) \<noteq> None)"

definition Destination_check_request_allowed :: "bytes \<Rightarrow> bytes option \<Rightarrow> Destination \<Rightarrow> bool" where
  "Destination_check_request_allowed path_hash remote_identity_hash d =
    (case d_request_handlers d path_hash of
       None \<Rightarrow> False
     | Some handler \<Rightarrow>
         (case rh_allow handler of
            AllowNone \<Rightarrow> False
          | AllowAll \<Rightarrow> True
          | AllowList \<Rightarrow> (case remote_identity_hash of Some h \<Rightarrow> h \<in> set (rh_allowed_list handler) | None \<Rightarrow> False)))"

definition Destination_incoming_link_request :: "bytes \<Rightarrow> Destination \<Rightarrow> Destination \<times> bool" where
  "Destination_incoming_link_request link_id d =
    (if \<not> d_accept_link_requests d then (d, False) else (d\<lparr>d_links := d_links d @ [link_id]\<rparr>, True))"

definition Destination_remove_link :: "bytes \<Rightarrow> Destination \<Rightarrow> Destination" where
  "Destination_remove_link link_id d = d\<lparr>d_links := filter (\<lambda>l. l \<noteq> link_id) (d_links d)\<rparr>"

definition Destination_set_accepts_links :: "bool \<Rightarrow> Destination \<Rightarrow> Destination" where
  "Destination_set_accepts_links accept d = d\<lparr>d_accept_link_requests := accept\<rparr>"

definition Destination_enable_ratchets :: "bool \<Rightarrow> Destination \<Rightarrow> Destination" where
  "Destination_enable_ratchets enforce d = d\<lparr>d_ratchets_enabled := True, d_ratchets_enforced := enforce\<rparr>"

definition Destination_disable_ratchets :: "Destination \<Rightarrow> Destination" where
  "Destination_disable_ratchets d = d\<lparr>d_ratchets_enabled := False, d_ratchets_enforced := False\<rparr>"

definition Destination_resolve_app_data :: "Destination \<Rightarrow> bytes option" where
  "Destination_resolve_app_data d =
    (case d_default_app_data d of
       None \<Rightarrow> None
     | Some (AppData_Static data) \<Rightarrow> Some data
     | Some (AppData_Dynamic generator) \<Rightarrow> generator ())"

subsection \<open>Announces\<close>

definition retain_responses :: "real \<Rightarrow> (bytes \<rightharpoonup> PathResponseCache) \<Rightarrow> (bytes \<rightharpoonup> PathResponseCache)" where
  "retain_responses now m =
    (\<lambda>k. case m k of Some v \<Rightarrow> if now \<le> prc_timestamp v + PR_TAG_WINDOW then Some v else None | None \<Rightarrow> None)"

definition Destination_create_announce_at ::
    "curve_lib \<Rightarrow> bytes \<Rightarrow> Identity \<Rightarrow> bytes option \<Rightarrow> bytes option \<Rightarrow> bytes option \<Rightarrow> AnnounceTime \<Rightarrow> Destination
      \<Rightarrow> Destination \<times> (DestinationError, bytes \<times> bool) result" where
  "Destination_create_announce_at cl random_bytes identity app_data ratchet tag time d =
    (case AnnounceTime_new (at_wire time) (at_cache time) of
       Inl e \<Rightarrow> (d, Err e)
     | Inr time \<Rightarrow>
         if d_dest_type d \<noteq> Dest_Single then (d, Err NotSingle)
         else if d_direction d \<noteq> Dir_In then (d, Err NotInbound)
         else
           let d = d\<lparr>d_path_responses := retain_responses (cache_secs time) (d_path_responses d)\<rparr>
           in case (case tag of Some t \<Rightarrow> d_path_responses d t | None \<Rightarrow> None) of
                Some cached \<Rightarrow> (d, Ok (prc_announce_data cached, prc_has_ratchet cached))
              | None \<Rightarrow>
                  let effective_app_data = (case app_data of Some a \<Rightarrow> Some a | None \<Rightarrow> Destination_resolve_app_data d);
                      public_key = Identity_get_public_key identity;
                      random_hash = random_bytes @ subslice 3 8 (u64_to_be (at_wire time));
                      has_ratchet = (ratchet \<noteq> None);
                      signed_data = d_hash d @ public_key @ d_name_hash d @ random_hash @ opt_bytes ratchet @ opt_bytes effective_app_data
                  in case Identity_sign cl signed_data identity of
                       None \<Rightarrow> (d, Err EncryptionUnavailable)
                     | Some signature \<Rightarrow>
                         let announce_data = public_key @ d_name_hash d @ random_hash @ opt_bytes ratchet @ signature
                               @ opt_bytes effective_app_data;
                             d = (case tag of
                                    Some t \<Rightarrow> d\<lparr>d_path_responses := (d_path_responses d)(t \<mapsto>
                                        \<lparr>prc_timestamp = cache_secs time, prc_announce_data = announce_data, prc_has_ratchet = has_ratchet\<rparr>)\<rparr>
                                  | None \<Rightarrow> d)
                         in (d, Ok (announce_data, has_ratchet)))"

definition Destination_pack_announce_packet :: "bytes \<Rightarrow> bool \<Rightarrow> bool \<Rightarrow> Destination \<Rightarrow> bytes" where
  "Destination_pack_announce_packet announce_data has_ratchet path_response d =
     PacketHeader_pack \<lparr>ph_flags = \<lparr>header_type = Header1, context_flag = has_ratchet, transport_type = Broadcast,
         destination_type = DT_Single, packet_type = PT_Announce\<rparr>, ph_hops = 0, ph_transport_id = None,
       ph_destination_hash = d_hash d, ph_context = (if path_response then Ctx_PathResponse else Ctx_None)\<rparr>
     @ announce_data"

definition Destination_announce_packet_at ::
    "curve_lib \<Rightarrow> bytes \<Rightarrow> Identity \<Rightarrow> bytes option \<Rightarrow> bytes option \<Rightarrow> bool \<Rightarrow> bytes option \<Rightarrow> AnnounceTime \<Rightarrow> Destination
      \<Rightarrow> Destination \<times> (DestinationError, bytes) result" where
  "Destination_announce_packet_at cl random_bytes identity app_data ratchet path_response tag time d =
    (let (d, r) = Destination_create_announce_at cl random_bytes identity app_data ratchet tag time d
     in (d, and_then r (\<lambda>(announce_data, has_ratchet).
          Ok (Destination_pack_announce_packet announce_data has_ratchet path_response d))))"

text \<open>The check of \<open>now\<close> in \<open>create_announce\<close> and \<open>announce_packet\<close>, and the time they then use.\<close>

definition checked_announce_time :: "f64 \<Rightarrow> (DestinationError, AnnounceTime) result" where
  "checked_announce_time now =
    (case valid_clock now of
       None \<Rightarrow> Err (InvalidAnnounceTime now)
     | Some t \<Rightarrow>
         if t > real (unat ANNOUNCE_TIME_MAX) then Err (InvalidAnnounceTime now)
         else AnnounceTime_new (word_of_nat (nat \<lfloor>t\<rfloor>)) now)"

definition Destination_create_announce ::
    "curve_lib \<Rightarrow> bytes \<Rightarrow> Identity \<Rightarrow> bytes option \<Rightarrow> bytes option \<Rightarrow> bytes option \<Rightarrow> f64 \<Rightarrow> Destination
      \<Rightarrow> Destination \<times> (DestinationError, bytes \<times> bool) result" where
  "Destination_create_announce cl random_bytes identity app_data ratchet tag now d =
    (case checked_announce_time now of
       Inl e \<Rightarrow> (d, Err e)
     | Inr time \<Rightarrow> Destination_create_announce_at cl random_bytes identity app_data ratchet tag time d)"

definition Destination_announce_packet ::
    "curve_lib \<Rightarrow> bytes \<Rightarrow> Identity \<Rightarrow> bytes option \<Rightarrow> bytes option \<Rightarrow> bool \<Rightarrow> bytes option \<Rightarrow> f64 \<Rightarrow> Destination
      \<Rightarrow> Destination \<times> (DestinationError, bytes) result" where
  "Destination_announce_packet cl random_bytes identity app_data ratchet path_response tag now d =
    (case checked_announce_time now of
       Inl e \<Rightarrow> (d, Err e)
     | Inr time \<Rightarrow> Destination_announce_packet_at cl random_bytes identity app_data ratchet path_response tag time d)"

definition Destination_cached_path_response_packet ::
    "bytes \<Rightarrow> f64 \<Rightarrow> Destination \<Rightarrow> Destination \<times> (DestinationError, bytes option) result" where
  "Destination_cached_path_response_packet tag cache_now d =
    (case valid_clock cache_now of
       None \<Rightarrow> (d, Err (InvalidAnnounceTime cache_now))
     | Some t \<Rightarrow>
         let d = d\<lparr>d_path_responses := retain_responses t (d_path_responses d)\<rparr>
         in (d, Ok (map_option (\<lambda>cached. Destination_pack_announce_packet (prc_announce_data cached) (prc_has_ratchet cached) True d)
              (d_path_responses d tag))))"

subsection \<open>Packets to a destination\<close>

text \<open>
  \<open>opens_at lib cl c keys pk d i\<close>: the destination is set up to read \<open>c\<close>, which was encrypted to the ratchet
  \<open>pk\<close> or, without one, to the identity key: the private half of the ratchet is among the retained keys and ratchets are
  enabled, or ratchets are not enforced; and no key tried earlier happens to authenticate \<open>c\<close>.
\<close>

definition opens_at :: "crypto_lib \<Rightarrow> curve_lib \<Rightarrow> bytes \<Rightarrow> bytes list \<Rightarrow> bytes option \<Rightarrow> Destination \<Rightarrow> Identity \<Rightarrow> bool" where
  "opens_at lib cl c keys pk d i \<longleftrightarrow>
    (case pk of
       Some pk \<Rightarrow> d_ratchets_enabled d \<and> (\<exists>newer r older. keys = newer @ r # older \<and> pk = x_public cl r
           \<and> (\<forall>k\<in>set newer. \<not> ratchet_opens lib cl c i k))
     | None \<Rightarrow> \<not> d_ratchets_enforced d \<and> (\<forall>k\<in>set keys. \<not> ratchet_opens lib cl c i k))"

lemma decrypt_opens:
  assumes "cipher_lib_ok lib" and "hkdf_lib_ok lib" and "curve_lib_ok cl" and "length iv = 16"
    and "Identity_encrypt lib cl e iv data pk j = Ok c" and "id_hash j = id_hash i" and "id_pub_key j = x_public cl prv"
    and "id_prv i = Some prv" and "opens_at lib cl c keys pk d i"
  shows "Identity_decrypt_with_ratchet_id lib cl c (if d_ratchets_enabled d then Some keys else None) (d_ratchets_enforced d) i =
    Ok \<lparr>dr_plaintext = data, dr_ratchet_id = map_option (Identity_ratchet_id lib) pk\<rparr>"
proof (cases pk)
  case None
  let ?rs = "if d_ratchets_enabled d then Some keys else None"
  have none: "\<forall>r\<in>set (case ?rs of Some rs \<Rightarrow> rs | None \<Rightarrow> []). \<not> ratchet_opens lib cl c i r"
    using assms(9) None by (auto simp: opens_at_def)
  show ?thesis
    using identity_key_decrypts [OF assms(1-4) assms(5) [unfolded None] assms(6-8) none, of "d_ratchets_enforced d"] assms(9) None
    by (simp add: opens_at_def)
next
  case (Some k)
  then obtain newer r older where k: "keys = newer @ r # older" "k = x_public cl r" "d_ratchets_enabled d"
    "\<forall>k\<in>set newer. \<not> ratchet_opens lib cl c i k" using assms(9) by (auto simp: opens_at_def)
  show ?thesis
    using ratchet_decrypts [OF assms(1-4) assms(5) [unfolded Some k(2)] assms(6) k(4), of older "d_ratchets_enforced d"] k(1-3) Some
    by simp
qed

lemma pack_packet_Single:
  assumes "d_dest_type d = Dest_Single" and "\<not> bypass_encryption options"
    and "Destination_pack_packet lib cl e iv data (Some j) rr options d = Ok pdp"
  shows "\<exists>c tid. Identity_encrypt lib cl e iv data (case rr of Some r \<Rightarrow> Some r | None \<Rightarrow> d_remote_ratchet_pub d) j = Ok c
    \<and> Destination_ensure_identity lib j d = Ok ()
    \<and> (tid = None \<longleftrightarrow> po_header_type options = Header1) \<and> (\<forall>t. tid = Some t \<longrightarrow> po_transport_id options = Some t)
    \<and> pdp_ratchet_id pdp = map_option (Identity_ratchet_id lib) (case rr of Some r \<Rightarrow> Some r | None \<Rightarrow> d_remote_ratchet_pub d)
    \<and> Packet_new (lib_sha256 lib)
          \<lparr>ph_flags = \<lparr>header_type = po_header_type options, context_flag = po_context_flag options,
              transport_type = po_transport_type options, destination_type = DT_Single, packet_type = po_packet_type options\<rparr>,
           ph_hops = 0, ph_transport_id = tid, ph_destination_hash = d_hash d, ph_context = po_context options\<rparr> c = Ok (pdp_packet pdp)"
  using assms
  by (auto simp: Destination_pack_packet_def Let_def and_then_Ok_iff map_err_def ok_or_def
      split: if_splits option.splits HeaderType.splits sum.splits)

text \<open>
  C17: a packet for a single destination, packed by a sender that knows only its public identity - to the
  ratchet it selects or to the identity key - is read by that destination: the raw bytes parse to the packet,
  their payload decrypts to exactly the data packed, and the packet callback sees that data and the raw packet.
\<close>

theorem destination_packet_delivered:
  assumes "cipher_lib_ok lib" and "hkdf_lib_ok lib" and "curve_lib_ok cl" and "length iv = 16"
    and "d_dest_type d = Dest_Single" and "length (d_hash d) = 16" and "\<not> bypass_encryption options"
    and "PacketContext_canonical (po_context options)"
    and "\<forall>t. po_transport_id options = Some t \<longrightarrow> length t = 16"
    and "Destination_pack_packet lib cl e iv data (Some j) rr options d = Ok pdp"
    and "id_hash j = id_hash i" and "id_pub_key j = x_public cl prv" and "id_prv i = Some prv"
    and "d_dest_type d' = Dest_Single" and "d_hash d' = d_hash d" and "d_name_hash d' = d_name_hash d"
    and "d_identity_hash d' = Some (id_hash i)"
    and "opens_at lib cl (Packet_data (pdp_packet pdp)) keys (case rr of Some r \<Rightarrow> Some r | None \<Rightarrow> d_remote_ratchet_pub d) d' i"
  shows "Packet_from_raw (lib_sha256 lib) (pkt_raw (pdp_packet pdp)) = Ok (pdp_packet pdp)
    \<and> Destination_receive_packet_with_ratchets lib cl (PacketType_u8 (po_packet_type options)) (Packet_data (pdp_packet pdp))
        (pkt_raw (pdp_packet pdp)) i (Some keys) d' =
      (Ok (Some data), if po_packet_type options = PT_Data \<and> d_packet_callback d' then [(data, pkt_raw (pdp_packet pdp))] else [])"
proof -
  let ?pk = "case rr of Some r \<Rightarrow> Some r | None \<Rightarrow> d_remote_ratchet_pub d"
  from pack_packet_Single [OF assms(5,7,10)] obtain c tid where
    enc: "Identity_encrypt lib cl e iv data ?pk j = Ok c" "Destination_ensure_identity lib j d = Ok ()"
    and tid: "tid = None \<longleftrightarrow> po_header_type options = Header1" "\<forall>t. tid = Some t \<longrightarrow> po_transport_id options = Some t"
    and new: "Packet_new (lib_sha256 lib)
          \<lparr>ph_flags = \<lparr>header_type = po_header_type options, context_flag = po_context_flag options,
              transport_type = po_transport_type options, destination_type = DT_Single, packet_type = po_packet_type options\<rparr>,
           ph_hops = 0, ph_transport_id = tid, ph_destination_hash = d_hash d, ph_context = po_context options\<rparr> c = Ok (pdp_packet pdp)"
      (is "Packet_new _ ?h _ = _") by blast
  have wf: "PacketHeader_wf ?h"
    using tid assms(6,8,9) by (cases tid; cases "po_header_type options") (auto simp: PacketHeader_wf_def)
  have data: "Packet_data (pdp_packet pdp) = c" using Packet_new_wf [OF wf new] by simp
  have dec: "Identity_decrypt_with_ratchet_id lib cl c (if d_ratchets_enabled d' then Some keys else None) (d_ratchets_enforced d') i =
      Ok \<lparr>dr_plaintext = data, dr_ratchet_id = map_option (Identity_ratchet_id lib) ?pk\<rparr>"
    using decrypt_opens [OF assms(1-4) enc(1) assms(11-13), of keys d'] assms(18) data by simp
  have ens: "Destination_ensure_identity lib i d' = Ok ()"
    using enc(2) assms(11,15-17) by (auto simp: Destination_ensure_identity_def split: if_splits)
  have "Destination_decrypt_with_ratchets lib cl c i (Some keys) d' = Ok data"
    using dec ens assms(14) by (simp add: Destination_decrypt_with_ratchets_def Destination_decrypt_with_ratchet_id_def)
  then show ?thesis
    using Packet_new_parses [OF wf new] data assms(7)
    by (cases "po_packet_type options") (auto simp: Destination_receive_packet_with_ratchets_def bypass_encryption_def)
qed

definition example_destination :: Destination where
  "example_destination = fresh_destination Dest_Single Dir_In
     (Destination_compute_hash example_lib (name_hash example_lib [97]) (Some (id_hash example_identity)))
     (name_hash example_lib [97]) [97] [] (Some (id_hash example_identity)) None"

lemma example_destination_new:
  "\<exists>d. Destination_new example_lib example_identity (Some example_identity) Dir_In Dest_Single [97] = Ok d
     \<and> d\<lparr>d_name := []\<rparr> = example_destination"
  by (simp add: Destination_new_def example_destination_def fresh_destination_def Let_def)

theorem destination_packet_delivered_witness:
  "\<exists>pdp. Destination_pack_packet example_lib example_curve [3] (replicate 16 0) [42] (Some example_identity)
       (Some (x_public example_curve [1])) default_packet_options example_destination = Ok pdp
     \<and> Destination_receive_packet_with_ratchets example_lib example_curve 0 (Packet_data (pdp_packet pdp)) (pkt_raw (pdp_packet pdp))
         example_identity (Some [[1]]) (Destination_enable_ratchets True example_destination) = (Ok (Some [42]), [])"
proof -
  let ?d = example_destination and ?d' = "Destination_enable_ratchets True example_destination"
  have iv: "length (replicate 16 (0 :: u8)) = 16" by simp
  have sha: "length (lib_sha256 example_lib x) = 32" for x by (simp add: example_lib_def)
  have d: "d_dest_type ?d = Dest_Single" "length (d_hash ?d) = 16"
    using sha by (simp_all add: example_destination_def fresh_destination_def Destination_compute_hash_def truncated_hash_def)
  have o: "\<not> bypass_encryption default_packet_options" "PacketContext_canonical (po_context default_packet_options)"
    "\<forall>t. po_transport_id default_packet_options = Some t \<longrightarrow> length t = 16"
    by (simp_all add: bypass_encryption_def default_packet_options_def is_plaintext_context_def)
  have ens: "Destination_ensure_identity example_lib example_identity ?d = Ok ()"
    by (simp add: Destination_ensure_identity_def example_destination_def fresh_destination_def)
  obtain t where t: "Identity_encrypt example_lib example_curve [3] (replicate 16 0) [42] (Some (x_public example_curve [1]))
      example_identity = Ok (x_public example_curve [3] @ t)" "length t = 48 + (length [42 :: u8] div 16 + 1) * 16"
    using Identity_encrypt_form [OF example_lib_ok example_hkdf_ok iv] by blast
  have len: "length (x_public example_curve [3]) = 32" using example_curve_ok by (simp add: curve_lib_ok_def)
  obtain pdp where pdp: "Destination_pack_packet example_lib example_curve [3] (replicate 16 0) [42] (Some example_identity)
       (Some (x_public example_curve [1])) default_packet_options ?d = Ok pdp"
    using t ens d o(1) len
    by (simp add: Destination_pack_packet_def Let_def default_packet_options_def Packet_new_def PacketHeader_pack_def wire_constants)
  have i: "id_pub_key example_identity = x_public example_curve (replicate 32 1)" "id_prv example_identity = Some (replicate 32 1)"
    by (simp_all add: example_identity_def Identity_new_def Let_def)
  have d': "d_dest_type ?d' = Dest_Single" "d_hash ?d' = d_hash ?d" "d_name_hash ?d' = d_name_hash ?d"
    "d_identity_hash ?d' = Some (id_hash example_identity)" "\<not> d_packet_callback ?d'"
    by (simp_all add: Destination_enable_ratchets_def example_destination_def fresh_destination_def)
  have op: "opens_at example_lib example_curve (Packet_data (pdp_packet pdp)) [[1]]
      (case Some (x_public example_curve [1]) of Some r \<Rightarrow> Some r | None \<Rightarrow> d_remote_ratchet_pub ?d) ?d' example_identity"
    by (simp add: opens_at_def Destination_enable_ratchets_def) (rule exI [of _ "[]"], rule exI [of _ "[1]"], simp)
  from destination_packet_delivered [OF example_lib_ok example_hkdf_ok example_curve_ok iv d o pdp refl i d'(1-4) op] pdp d'(5)
  show ?thesis by (auto simp: default_packet_options_def)
qed

subsection \<open>Announces of a destination\<close>

lemma create_announce_at_cached:
  assumes "d_dest_type d = Dest_Single" and "d_direction d = Dir_In" and "w \<le> ANNOUNCE_TIME_MAX" and "0 \<le> t"
    and "d_path_responses d tag = Some c" and "t \<le> prc_timestamp c + PR_TAG_WINDOW"
  shows "snd (Destination_create_announce_at cl rnd i app ratchet (Some tag) \<lparr>at_wire = w, at_cache = Fin t\<rparr> d) =
    Ok (prc_announce_data c, prc_has_ratchet c)"
  using assms by (simp add: Destination_create_announce_at_def AnnounceTime_new_def valid_clock_def Let_def
      retain_responses_def cache_secs_def)

lemma create_announce_at_fresh:
  assumes "d_dest_type d = Dest_Single" and "d_direction d = Dir_In" and "w \<le> ANNOUNCE_TIME_MAX" and "0 \<le> t"
    and "retain_responses t (d_path_responses d) tag = None"
  shows "Destination_create_announce_at cl rnd i app ratchet (Some tag) \<lparr>at_wire = w, at_cache = Fin t\<rparr> d =
    (let d1 = d\<lparr>d_path_responses := retain_responses t (d_path_responses d)\<rparr>;
         app' = (case app of Some a \<Rightarrow> Some a | None \<Rightarrow> Destination_resolve_app_data d);
         rh = rnd @ subslice 3 8 (u64_to_be w)
     in case Identity_sign cl (d_hash d @ Identity_get_public_key i @ d_name_hash d @ rh @ opt_bytes ratchet @ opt_bytes app') i of
          None \<Rightarrow> (d1, Err EncryptionUnavailable)
        | Some sig \<Rightarrow>
            let a = Identity_get_public_key i @ d_name_hash d @ rh @ opt_bytes ratchet @ sig @ opt_bytes app'
            in (d1\<lparr>d_path_responses := (retain_responses t (d_path_responses d))(tag \<mapsto>
                  \<lparr>prc_timestamp = t, prc_announce_data = a, prc_has_ratchet = (ratchet \<noteq> None)\<rparr>)\<rparr>, Ok (a, ratchet \<noteq> None)))"
proof -
  have res: "Destination_resolve_app_data (d\<lparr>d_path_responses := x\<rparr>) = Destination_resolve_app_data d" for x
    by (simp add: Destination_resolve_app_data_def)
  from assms show ?thesis
    by (cases app) (simp_all add: Destination_create_announce_at_def AnnounceTime_new_def valid_clock_def Let_def cache_secs_def res not_less
        split: option.split)
qed

text \<open>
  A destination announces what its identity would: outside the cache of path responses, the body that an inbound
  single destination creates is the packed announce for its name, with the default application data where none is given and an
  error exactly when the identity cannot sign; and for thirty seconds every further request with the same tag is
  answered with these very bytes, whatever it asks for.
\<close>

lemma destination_announce_equiv:
  assumes "Destination_new lib nid (Some i) Dir_In Dest_Single app_name = Ok d0"
    and "d_dest_type d = Dest_Single" and "d_direction d = Dir_In" and "d_hash d = d_hash d0" and "d_name_hash d = d_name_hash d0"
    and "w \<le> ANNOUNCE_TIME_MAX" and "0 \<le> t" and "retain_responses t (d_path_responses d) tag = None"
    and "Destination_create_announce_at cl rnd i app ratchet (Some tag) \<lparr>at_wire = w, at_cache = Fin t\<rparr> d = (d', r)"
  shows "case AnnounceData_create_at lib cl rnd i app_name (case app of Some a \<Rightarrow> Some a | None \<Rightarrow> Destination_resolve_app_data d) ratchet w of
      Inl e \<Rightarrow> e = NoPrivateKey \<and> r = Err EncryptionUnavailable
    | Inr a \<Rightarrow> r = Ok (AnnounceData_pack a, ratchet \<noteq> None)
        \<and> (t \<le> t2 \<and> t2 \<le> t + PR_TAG_WINDOW \<and> w2 \<le> ANNOUNCE_TIME_MAX \<longrightarrow>
             snd (Destination_create_announce_at cl rnd2 i2 app2 ratchet2 (Some tag) \<lparr>at_wire = w2, at_cache = Fin t2\<rparr> d') = r
             \<and> snd (Destination_cached_path_response_packet tag (Fin t2) d') =
                 Ok (Some (Destination_pack_announce_packet (AnnounceData_pack a) (ratchet \<noteq> None) True d)))"
proof -
  let ?app = "case app of Some a \<Rightarrow> Some a | None \<Rightarrow> Destination_resolve_app_data d"
  let ?nh = "name_hash lib app_name" and ?h = "hash_from_name_and_identity lib app_name (Some (id_hash i))"
  have h: "d_hash d = ?h" "d_name_hash d = ?nh"
    using assms(1,4,5) by (auto simp: Destination_new_def Let_def fresh_destination_def hash_from_name_and_identity_def)
  let ?rh = "rnd @ subslice 3 8 (u64_to_be w)"
  let ?m = "?h @ Identity_get_public_key i @ ?nh @ ?rh @ opt_bytes ratchet @ opt_bytes ?app"
  note fresh = create_announce_at_fresh [OF assms(2,3,6-8), of cl rnd i app ratchet, unfolded h]
  show ?thesis
  proof (cases "Identity_sign cl ?m i")
    case None
    then show ?thesis
      using assms(6,9) fresh by (simp add: AnnounceData_create_at_def Let_def not_less)
  next
    case (Some sig)
    let ?a = "\<lparr>ad_public_key = Identity_get_public_key i, ad_name_hash = ?nh, ad_random_hash = ?rh, ad_ratchet = ratchet,
        ad_signature = sig, ad_app_data = ?app\<rparr>"
    have a: "AnnounceData_create_at lib cl rnd i app_name ?app ratchet w = Ok ?a"
      using Some assms(6) by (simp add: AnnounceData_create_at_def Let_def)
    let ?c = "\<lparr>prc_timestamp = t, prc_announce_data = AnnounceData_pack ?a, prc_has_ratchet = (ratchet \<noteq> None)\<rparr>"
    have d': "d' = d\<lparr>d_path_responses := (retain_responses t (d_path_responses d))(tag \<mapsto> ?c)\<rparr>"
      "r = Ok (AnnounceData_pack ?a, ratchet \<noteq> None)"
      using assms(9) fresh Some by (simp_all add: Let_def AnnounceData_pack_def)
    have again: "snd (Destination_create_announce_at cl rnd2 i2 app2 ratchet2 (Some tag) \<lparr>at_wire = w2, at_cache = Fin t2\<rparr> d') = r"
      if "t \<le> t2" "t2 \<le> t + PR_TAG_WINDOW" "w2 \<le> ANNOUNCE_TIME_MAX"
      using create_announce_at_cached [of d' w2 t2 tag ?c] that assms(2,3,7) d' by simp
    have cached: "snd (Destination_cached_path_response_packet tag (Fin t2) d') =
                 Ok (Some (Destination_pack_announce_packet (AnnounceData_pack ?a) (ratchet \<noteq> None) True d))"
      if "t \<le> t2" "t2 \<le> t + PR_TAG_WINDOW"
      using that assms(7) by (simp add: d'(1) Destination_cached_path_response_packet_def valid_clock_def retain_responses_def
          Destination_pack_announce_packet_def Let_def)
    show ?thesis unfolding a using d'(2) again cached by auto
  qed
qed

lemma destination_announce_equiv_witness:
  "\<exists>d a d' r. Destination_new example_lib example_identity (Some example_identity) Dir_In Dest_Single [97] = Ok d
    \<and> AnnounceData_create_at example_lib example_curve [1, 2, 3, 4, 5] example_identity [97] None None 7 = Ok a
    \<and> Destination_create_announce_at example_curve [1, 2, 3, 4, 5] example_identity None None (Some [5])
         \<lparr>at_wire = 7, at_cache = Fin 9\<rparr> d = (d', r) \<and> r = Ok (AnnounceData_pack a, False)
    \<and> snd (Destination_create_announce_at example_curve [5, 4, 3, 2, 1] example_identity (Some [8]) None (Some [5])
         \<lparr>at_wire = 8, at_cache = Fin 20\<rparr> d') = r"
proof -
  obtain d where d: "Destination_new example_lib example_identity (Some example_identity) Dir_In Dest_Single [97] = Ok d"
    "d\<lparr>d_name := []\<rparr> = example_destination" using example_destination_new by blast
  have t: "d_dest_type d = Dest_Single" "d_direction d = Dir_In" "retain_responses 9 (d_path_responses d) [5] = None"
    "Destination_resolve_app_data d = None"
    using d(1) by (auto simp: Destination_new_def Let_def fresh_destination_def retain_responses_def Destination_resolve_app_data_def)
  have w: "(7 :: u64) \<le> ANNOUNCE_TIME_MAX" "(8 :: u64) \<le> ANNOUNCE_TIME_MAX" "(0::real) \<le> 9"
    by (simp_all add: ANNOUNCE_TIME_MAX_def)
  obtain d' r where r: "Destination_create_announce_at example_curve [1, 2, 3, 4, 5] example_identity None None (Some [5])
         \<lparr>at_wire = 7, at_cache = Fin 9\<rparr> d = (d', r)" by fastforce
  have a: "\<exists>a. AnnounceData_create_at example_lib example_curve [1, 2, 3, 4, 5] example_identity [97] None None 7 = Ok a"
    using w by (simp add: AnnounceData_create_at_def Let_def Identity_sign_def example_identity_def Identity_new_def not_less)
  from destination_announce_equiv [OF d(1) t(1,2) refl refl w(1,3) t(3) r, where ?t2.0 = 20 and ?w2.0 = 8 and
      ?rnd2.0 = "[5, 4, 3, 2, 1]" and ?i2.0 = example_identity and ?app2.0 = "Some [8]" and ?ratchet2.0 = None] a w d(1) r t(4)
  show ?thesis by (auto simp: PR_TAG_WINDOW_def)
qed

end
