(* ===== verification/Resource_Control.thy ===== *)
theory Resource_Control
  imports Stream_Buffer Link_Handshake
begin

text \<open>
  The control messages of resource transfers: the flags, hashes, flow-control window and errors of \<open>resource.rs\<close>,
  the advertisements of \<open>resource_adv.rs\<close> and the admission checks of \<open>resource_control.rs\<close>, all under
  \<open>src/crates/rns-protocol/src\<close>. The MessagePack crates are the record \<open>resource_msgpack\<close>: values and their
  accessors (rmpv), writing into a vector, which does not fail, reading the first value of a buffer, and the
  serialisation of a map with string keys (rmp-serde).
\<close>

unbundle bit_operations_syntax

subsection \<open>Checked arithmetic\<close>

definition checked_add :: "nat \<Rightarrow> nat \<Rightarrow> nat option" where
  "checked_add a b = (if a + b < 2 ^ 64 then Some (a + b) else None)"

definition checked_mul :: "nat \<Rightarrow> nat \<Rightarrow> nat option" where
  "checked_mul a b = (if a * b < 2 ^ 64 then Some (a * b) else None)"

definition checked_div :: "nat \<Rightarrow> nat \<Rightarrow> nat option" where
  "checked_div a b = (if b = 0 then None else Some (a div b))"

definition div_ceil :: "nat \<Rightarrow> nat \<Rightarrow> nat" where
  "div_ceil a b = (a + b - 1) div b"

definition is_multiple_of :: "nat \<Rightarrow> nat \<Rightarrow> bool" where
  "is_multiple_of a b \<longleftrightarrow> (if b = 0 then a = 0 else a mod b = 0)"

text \<open>\<open>chunks(n)\<close>, with a shorter last chunk, and \<open>as_chunks::<n>().0\<close>, which drops it.\<close>

function chunks :: "nat \<Rightarrow> 'a list \<Rightarrow> 'a list list" where
  "chunks n xs = (if n = 0 \<or> xs = [] then [] else take n xs # chunks n (drop n xs))"
  by auto
termination by (relation "measure (\<lambda>(n, xs). length xs)") auto

declare chunks.simps [simp del]

definition as_chunks :: "nat \<Rightarrow> 'a list \<Rightarrow> 'a list list" where
  "as_chunks n xs = filter (\<lambda>c. length c = n) (chunks n xs)"

subsection \<open>Constants\<close>

definition RESOURCE_WINDOW_INITIAL :: nat where "RESOURCE_WINDOW_INITIAL = 4"
definition RESOURCE_WINDOW_MIN :: nat where "RESOURCE_WINDOW_MIN = 2"
definition RESOURCE_WINDOW_MAX_SLOW :: nat where "RESOURCE_WINDOW_MAX_SLOW = 10"
definition WINDOW_MAX_VERY_SLOW :: nat where "WINDOW_MAX_VERY_SLOW = 4"
definition RESOURCE_WINDOW_MAX_FAST :: nat where "RESOURCE_WINDOW_MAX_FAST = 75"
definition RESOURCE_WINDOW_MAX :: nat where "RESOURCE_WINDOW_MAX = 75"
definition RESOURCE_FAST_RATE_THRESHOLD :: nat where "RESOURCE_FAST_RATE_THRESHOLD = 4"
definition VERY_SLOW_RATE_THRESHOLD :: nat where "VERY_SLOW_RATE_THRESHOLD = 2"
definition RATE_FAST :: nat where "RATE_FAST = 6250"
definition RATE_VERY_SLOW :: nat where "RATE_VERY_SLOW = 250"
definition RESOURCE_WINDOW_FLEXIBILITY :: nat where "RESOURCE_WINDOW_FLEXIBILITY = 4"
definition MAPHASH_LEN :: nat where "MAPHASH_LEN = 4"
definition RESOURCE_RANDOM_HASH_SIZE :: nat where "RESOURCE_RANDOM_HASH_SIZE = 4"
definition SDU :: nat where "SDU = MDU"
definition MAX_EFFICIENT_SIZE :: nat where "MAX_EFFICIENT_SIZE = 1048575"
definition METADATA_MAX_SIZE :: nat where "METADATA_MAX_SIZE = 16777215"
definition MAX_RETRIES :: nat where "MAX_RETRIES = 16"
definition MAX_ADV_RETRIES :: nat where "MAX_ADV_RETRIES = 4"
definition SENDER_GRACE_TIME :: real where "SENDER_GRACE_TIME = 10"
definition PROCESSING_GRACE :: real where "PROCESSING_GRACE = 1"
definition PART_TIMEOUT_FACTOR :: real where "PART_TIMEOUT_FACTOR = 4"
definition PART_TIMEOUT_FACTOR_AFTER_RTT :: real where "PART_TIMEOUT_FACTOR_AFTER_RTT = 2"
definition RETRY_GRACE_TIME :: real where "RETRY_GRACE_TIME = 1 / 4"
definition PER_RETRY_DELAY :: real where "PER_RETRY_DELAY = 1 / 2"
definition HMU_WAIT_FACTOR :: real where "HMU_WAIT_FACTOR = 7 / 2"
definition EIFR_COLD_START_BYTES :: nat where "EIFR_COLD_START_BYTES = 600"
definition HASHMAP_IS_NOT_EXHAUSTED :: u8 where "HASHMAP_IS_NOT_EXHAUSTED = 0x00"
definition HASHMAP_IS_EXHAUSTED :: u8 where "HASHMAP_IS_EXHAUSTED = 0xFF"
definition MAX_RESOURCE_SIZE :: nat where "MAX_RESOURCE_SIZE = 134217727"
definition MAX_SEGMENTS :: nat where "MAX_SEGMENTS = 128"
definition HASHMAP_STRIDE :: nat where "HASHMAP_STRIDE = 74"
definition OVERHEAD :: nat where "OVERHEAD = 134"

lemmas resource_window_constants = RESOURCE_WINDOW_INITIAL_def RESOURCE_WINDOW_MIN_def RESOURCE_WINDOW_MAX_SLOW_def WINDOW_MAX_VERY_SLOW_def
  RESOURCE_WINDOW_MAX_FAST_def RESOURCE_WINDOW_MAX_def RESOURCE_FAST_RATE_THRESHOLD_def VERY_SLOW_RATE_THRESHOLD_def RATE_FAST_def
  RATE_VERY_SLOW_def RESOURCE_WINDOW_FLEXIBILITY_def

subsection \<open>States, flags and errors\<close>

datatype ResourceState =
    RSt_None | RSt_Queued | RSt_Advertised | RSt_Transferring | RSt_AwaitingProof | RSt_Assembling | RSt_Complete
  | RSt_Failed | RSt_Corrupt | RSt_Rejected

record ResourceFlags =
  rf_encrypted :: bool
  rf_compressed :: bool
  rf_split :: bool
  rf_is_request :: bool
  rf_is_response :: bool
  rf_has_metadata :: bool

definition ResourceFlags_to_byte :: "ResourceFlags \<Rightarrow> u8" where
  "ResourceFlags_to_byte r =
    (let f = 0;
         f = (if rf_encrypted r then f OR 0x01 else f);
         f = (if rf_compressed r then f OR 0x02 else f);
         f = (if rf_split r then f OR 0x04 else f);
         f = (if rf_is_request r then f OR 0x08 else f);
         f = (if rf_is_response r then f OR 0x10 else f)
     in if rf_has_metadata r then f OR 0x20 else f)"

definition ResourceFlags_from_byte :: "u8 \<Rightarrow> ResourceFlags" where
  "ResourceFlags_from_byte b =
    \<lparr>rf_encrypted = (b AND 0x01 \<noteq> 0), rf_compressed = (b AND 0x02 \<noteq> 0), rf_split = (b AND 0x04 \<noteq> 0),
     rf_is_request = (b AND 0x08 \<noteq> 0), rf_is_response = (b AND 0x10 \<noteq> 0), rf_has_metadata = (b AND 0x20 \<noteq> 0)\<rparr>"

datatype ResourceError =
    RE_TooLarge | RE_Incomplete | RE_Corrupt | RE_DecryptFailed | RE_HashMismatch | RE_DecompressionFailed
  | RE_InvalidMetadata nat nat
  | RE_ControlFrameTooLarge PacketContext nat nat
  | RE_InvalidAdvertisement | RE_MapHashCollision | RE_MetadataTooLarge | RE_DuplicateSegment

subsection \<open>Hashes\<close>

definition get_map_hash :: "crypto_lib \<Rightarrow> bytes \<Rightarrow> bytes \<Rightarrow> bytes" where
  "get_map_hash lib data random_hash = take MAPHASH_LEN (lib_sha256 lib (data @ random_hash))"

definition compute_resource_hash :: "crypto_lib \<Rightarrow> bytes \<Rightarrow> bytes \<Rightarrow> bytes" where
  "compute_resource_hash lib data random_hash = lib_sha256 lib (data @ random_hash)"

definition compute_expected_proof :: "crypto_lib \<Rightarrow> bytes \<Rightarrow> bytes \<Rightarrow> bytes" where
  "compute_expected_proof lib data resource_hash = lib_sha256 lib (data @ resource_hash)"

subsection \<open>The flow-control window\<close>

record WindowState =
  ws_window :: nat
  ws_window_min :: nat
  ws_window_max :: nat
  ws_fast_rate_rounds :: nat
  ws_very_slow_rate_rounds :: nat

definition WindowState_new :: WindowState where
  "WindowState_new = \<lparr>ws_window = RESOURCE_WINDOW_INITIAL, ws_window_min = RESOURCE_WINDOW_MIN, ws_window_max = RESOURCE_WINDOW_MAX_SLOW,
     ws_fast_rate_rounds = 0, ws_very_slow_rate_rounds = 0\<rparr>"

definition WindowState_grow :: "nat \<Rightarrow> WindowState \<Rightarrow> WindowState" where
  "WindowState_grow rate w =
    (let w = (if ws_window w < ws_window_max w then
                let w = w\<lparr>ws_window := ws_window w + 1\<rparr> in
                if ws_window w - ws_window_min w > RESOURCE_WINDOW_FLEXIBILITY - 1
                then w\<lparr>ws_window_min := ws_window_min w + 1\<rparr> else w
              else w)
     in if rate > RATE_FAST then
          let w = w\<lparr>ws_fast_rate_rounds := ws_fast_rate_rounds w + 1, ws_very_slow_rate_rounds := 0\<rparr> in
          if ws_fast_rate_rounds w \<ge> RESOURCE_FAST_RATE_THRESHOLD then w\<lparr>ws_window_max := RESOURCE_WINDOW_MAX_FAST\<rparr> else w
        else if rate < RATE_VERY_SLOW then
          let w = w\<lparr>ws_very_slow_rate_rounds := ws_very_slow_rate_rounds w + 1, ws_fast_rate_rounds := 0\<rparr> in
          if ws_very_slow_rate_rounds w \<ge> VERY_SLOW_RATE_THRESHOLD then
            let w = w\<lparr>ws_window_max := WINDOW_MAX_VERY_SLOW\<rparr> in
            if ws_window w > ws_window_max w then w\<lparr>ws_window := ws_window_max w\<rparr> else w
          else w
        else w\<lparr>ws_fast_rate_rounds := 0, ws_very_slow_rate_rounds := 0\<rparr>)"

text \<open>The subtractions of \<open>shrink\<close> are on \<open>usize\<close>: \<open>None\<close> is an underflow.\<close>

definition WindowState_shrink :: "WindowState \<Rightarrow> WindowState option" where
  "WindowState_shrink w =
    (let w = (if ws_window w > ws_window_min w then w\<lparr>ws_window := ws_window w - 1\<rparr> else w);
         w = (if ws_window_max w > ws_window_min w then w\<lparr>ws_window_max := ws_window_max w - 1\<rparr> else w)
     in if ws_window_max w - ws_window w > RESOURCE_WINDOW_FLEXIBILITY - 1
        then (if ws_window_max w = 0 then None else Some (w\<lparr>ws_window_max := ws_window_max w - 1\<rparr>))
        else Some w)"

subsection \<open>Advertisements\<close>

record 'v resource_msgpack =
  rm_nil :: 'v
  rm_uint :: "nat \<Rightarrow> 'v"
  rm_binary :: "bytes \<Rightarrow> 'v"
  rm_array :: "'v list \<Rightarrow> 'v"
  rm_is_nil :: "'v \<Rightarrow> bool"
  rm_as_u64 :: "'v \<Rightarrow> nat option"
  rm_as_slice :: "'v \<Rightarrow> bytes option"
  rm_as_str :: "'v \<Rightarrow> string option"
  rm_as_array :: "'v \<Rightarrow> 'v list option"
  rm_as_map :: "'v \<Rightarrow> ('v \<times> 'v) list option"
  rm_write :: "'v \<Rightarrow> bytes"
  rm_read :: "bytes \<Rightarrow> 'v option"
  rm_serialize :: "(string \<times> 'v) list \<Rightarrow> bytes"

definition hashmap_max_len :: "nat \<Rightarrow> nat" where
  "hashmap_max_len mdu = (if mdu > OVERHEAD then (mdu - OVERHEAD) div MAPHASH_LEN else 0)"

definition collision_guard_size :: "nat \<Rightarrow> nat" where
  "collision_guard_size mdu = 2 * RESOURCE_WINDOW_MAX_FAST + hashmap_max_len mdu"

record ResourceAdvertisement =
  ra_transfer_size :: nat
  ra_data_size :: nat
  ra_num_parts :: nat
  ra_resource_hash :: bytes
  ra_random_hash :: bytes
  ra_original_hash :: bytes
  ra_segment_index :: nat
  ra_total_segments :: nat
  ra_request_id :: "bytes option"
  ra_flags :: ResourceFlags
  ra_hashmap :: bytes
  ra_metadata_size :: nat

definition ResourceAdvertisement_with_metadata_size ::
    "nat \<Rightarrow> nat \<Rightarrow> nat \<Rightarrow> bytes \<Rightarrow> bytes \<Rightarrow> ResourceFlags \<Rightarrow> bytes list \<Rightarrow> nat \<Rightarrow> nat \<Rightarrow> ResourceAdvertisement" where
  "ResourceAdvertisement_with_metadata_size transfer_size data_size num_parts resource_hash random_hash flags
     map_hashes mdu metadata_size =
    (let max_hashes = hashmap_max_len mdu;
         initial_hashes = min (length map_hashes) max_hashes;
         hashmap = concat (take initial_hashes map_hashes)
     in \<lparr>ra_transfer_size = transfer_size, ra_data_size = data_size, ra_num_parts = num_parts,
         ra_resource_hash = resource_hash, ra_random_hash = random_hash, ra_original_hash = resource_hash,
         ra_segment_index = 1, ra_total_segments = 1, ra_request_id = None, ra_flags = flags,
         ra_hashmap = hashmap, ra_metadata_size = metadata_size\<rparr>)"

definition ResourceAdvertisement_new ::
    "nat \<Rightarrow> nat \<Rightarrow> nat \<Rightarrow> bytes \<Rightarrow> bytes \<Rightarrow> ResourceFlags \<Rightarrow> bytes list \<Rightarrow> nat \<Rightarrow> ResourceAdvertisement" where
  "ResourceAdvertisement_new transfer_size data_size num_parts resource_hash random_hash flags map_hashes mdu =
     ResourceAdvertisement_with_metadata_size transfer_size data_size num_parts resource_hash random_hash flags
       map_hashes mdu 0"

text \<open>The map written by \<open>Serialize for AdvertisementRef\<close>, entry by entry.\<close>

definition AdvertisementRef_serialize :: "'v resource_msgpack \<Rightarrow> ResourceAdvertisement \<Rightarrow> (string \<times> 'v) list" where
  "AdvertisementRef_serialize rm a =
    [(''t'', rm_uint rm (ra_transfer_size a)),
     (''d'', rm_uint rm (ra_data_size a)),
     (''n'', rm_uint rm (ra_num_parts a)),
     (''h'', rm_binary rm (ra_resource_hash a)),
     (''r'', rm_binary rm (ra_random_hash a)),
     (''o'', rm_binary rm (ra_original_hash a)),
     (''i'', rm_uint rm (ra_segment_index a)),
     (''l'', rm_uint rm (ra_total_segments a)),
     (''q'', case ra_request_id a of None \<Rightarrow> rm_nil rm | Some q \<Rightarrow> rm_binary rm q),
     (''f'', rm_uint rm (unat (ResourceFlags_to_byte (ra_flags a)))),
     (''m'', rm_binary rm (ra_hashmap a))]"

definition ResourceAdvertisement_pack :: "'v resource_msgpack \<Rightarrow> ResourceAdvertisement \<Rightarrow> bytes" where
  "ResourceAdvertisement_pack rm a = rm_serialize rm (AdvertisementRef_serialize rm a)"

definition ResourceAdvertisement_encoded_len ::
    "'v resource_msgpack \<Rightarrow> ResourceAdvertisement \<Rightarrow> (ResourceError, nat) result" where
  "ResourceAdvertisement_encoded_len rm a =
     ok_or RE_TooLarge (checked_add 0 (length (rm_serialize rm (AdvertisementRef_serialize rm a))))"

definition get_map_hashes :: "ResourceAdvertisement \<Rightarrow> bytes list" where
  "get_map_hashes a = as_chunks MAPHASH_LEN (ra_hashmap a)"

subsection \<open>Admission of control frames\<close>

definition encrypted_len :: "nat \<Rightarrow> (ResourceError, nat) result" where
  "encrypted_len plaintext_len = ok_or RE_TooLarge
    (Option.bind (checked_div plaintext_len 16) (\<lambda>n.
     Option.bind (checked_add n 1) (\<lambda>n.
     Option.bind (checked_mul n 16) (\<lambda>n. checked_add n 48))))"

definition check_control_frame ::
    "PacketContext \<Rightarrow> nat \<Rightarrow> bool \<Rightarrow> nat \<Rightarrow> nat \<Rightarrow> (ResourceError, unit) result" where
  "check_control_frame context payload_len encrypted header_len mtu =
     and_then (if encrypted then encrypted_len payload_len else Ok payload_len) (\<lambda>body.
     and_then (ok_or RE_TooLarge (checked_add header_len body)) (\<lambda>encoded_len.
       if encoded_len > mtu then Err (RE_ControlFrameTooLarge context encoded_len mtu) else Ok ()))"

definition check_advertisement ::
    "'v resource_msgpack \<Rightarrow> ResourceAdvertisement \<Rightarrow> nat \<Rightarrow> (ResourceError, unit) result" where
  "check_advertisement rm advertisement mtu =
     and_then (ResourceAdvertisement_encoded_len rm advertisement) (\<lambda>len.
       check_control_frame Ctx_ResourceAdv len True HEADER_MINSIZE mtu)"

datatype AdvertisementError =
  AE_Control ResourceError | AE_Decode | AE_NotMap | AE_MissingKey string | AE_ShortBytes string nat nat

definition adv_get :: "'v resource_msgpack \<Rightarrow> ('v \<times> 'v) list \<Rightarrow> string \<Rightarrow> 'v option" where
  "adv_get rm m key = map_option snd (List.find (\<lambda>(k, v). rm_as_str rm k = Some key) m)"

definition adv_get_usize ::
    "'v resource_msgpack \<Rightarrow> ('v \<times> 'v) list \<Rightarrow> string \<Rightarrow> (AdvertisementError, nat) result" where
  "adv_get_usize rm m key = ok_or (AE_MissingKey key) (Option.bind (adv_get rm m key) (rm_as_u64 rm))"

definition adv_get_bytes ::
    "'v resource_msgpack \<Rightarrow> ('v \<times> 'v) list \<Rightarrow> string \<Rightarrow> nat \<Rightarrow> (AdvertisementError, bytes) result" where
  "adv_get_bytes rm m key len =
     and_then (ok_or (AE_MissingKey key) (Option.bind (adv_get rm m key) (rm_as_slice rm))) (\<lambda>bytes.
       if length bytes < len then Err (AE_ShortBytes key len (length bytes)) else Ok bytes)"

definition ResourceAdvertisement_unpack ::
    "'v resource_msgpack \<Rightarrow> bytes \<Rightarrow> (AdvertisementError, ResourceAdvertisement) result" where
  "ResourceAdvertisement_unpack rm data =
     and_then (map_err AE_Control (check_control_frame Ctx_ResourceAdv (length data) True HEADER_MINSIZE MTU)) (\<lambda>_.
     and_then (ok_or AE_Decode (rm_read rm data)) (\<lambda>value.
     and_then (ok_or AE_NotMap (rm_as_map rm value)) (\<lambda>m.
     and_then (adv_get_usize rm m ''t'') (\<lambda>transfer_size.
     and_then (adv_get_usize rm m ''d'') (\<lambda>data_size.
     and_then (adv_get_usize rm m ''n'') (\<lambda>num_parts.
     and_then (adv_get_bytes rm m ''h'' 32) (\<lambda>h_bytes.
     and_then (adv_get_bytes rm m ''r'' 4) (\<lambda>random_hash.
     and_then (adv_get_bytes rm m ''o'' 32) (\<lambda>o_bytes.
     and_then (adv_get_usize rm m ''i'') (\<lambda>segment_index.
     and_then (adv_get_usize rm m ''l'') (\<lambda>total_segments.
       let request_id = Option.bind (adv_get rm m ''q'') (\<lambda>v. if rm_is_nil rm v then None else rm_as_slice rm v);
           flags_byte = of_nat (case Option.bind (adv_get rm m ''f'') (rm_as_u64 rm) of Some f \<Rightarrow> f | None \<Rightarrow> 0);
           hashmap = (case Option.bind (adv_get rm m ''m'') (rm_as_slice rm) of Some s \<Rightarrow> s | None \<Rightarrow> [])
       in Ok \<lparr>ra_transfer_size = transfer_size, ra_data_size = data_size, ra_num_parts = num_parts,
              ra_resource_hash = take 32 h_bytes, ra_random_hash = random_hash, ra_original_hash = take 32 o_bytes,
              ra_segment_index = segment_index, ra_total_segments = total_segments, ra_request_id = request_id,
              ra_flags = ResourceFlags_from_byte flags_byte, ra_hashmap = hashmap, ra_metadata_size = 0\<rparr>)))))))))))"

definition encode_hashmap_update :: "'v resource_msgpack \<Rightarrow> bytes \<Rightarrow> nat \<Rightarrow> bytes \<Rightarrow> bytes" where
  "encode_hashmap_update rm resource_hash segment hashes =
     resource_hash @ rm_write rm (rm_array rm [rm_uint rm segment, rm_binary rm hashes])"

definition parse_hashmap_update ::
    "'v resource_msgpack \<Rightarrow> bytes \<Rightarrow> (ResourceError, bytes \<times> nat \<times> bytes) result" where
  "parse_hashmap_update rm data =
    (if length data < 32 then Err RE_Corrupt
     else
       let resource_hash = take 32 data in
       and_then (ok_or RE_Corrupt (rm_read rm (drop 32 data))) (\<lambda>value.
       and_then (ok_or RE_Corrupt (rm_as_array rm value)) (\<lambda>items.
         if length items \<noteq> 2 then Err RE_Corrupt
         else
           and_then (ok_or RE_Corrupt (rm_as_u64 rm (items ! 0))) (\<lambda>segment.
           and_then (ok_or RE_Corrupt (rm_as_slice rm (items ! 1))) (\<lambda>hashmap.
             Ok (resource_hash, segment, hashmap))))))"

definition preflight_outbound_with_sdu ::
    "'v resource_msgpack \<Rightarrow> nat \<Rightarrow> nat option \<Rightarrow> bytes option \<Rightarrow> bool \<Rightarrow> bool \<Rightarrow> nat \<Rightarrow> nat \<Rightarrow>
     (ResourceError, unit) result" where
  "preflight_outbound_with_sdu rm data_len metadata_len request_id is_response encrypted part_sdu mtu =
    (if part_sdu = 0 then Err RE_InvalidAdvertisement
     else if data_len > MAX_RESOURCE_SIZE then Err RE_TooLarge
     else
       and_then (case metadata_len of None \<Rightarrow> Ok 0 | Some n \<Rightarrow> ok_or RE_MetadataTooLarge (checked_add n 3)) (\<lambda>metadata_wire.
       if metadata_wire > MAX_EFFICIENT_SIZE then Err RE_MetadataTooLarge
       else
         and_then (ok_or RE_TooLarge (checked_add data_len metadata_wire)) (\<lambda>total_data.
         let first = min data_len (MAX_EFFICIENT_SIZE - metadata_wire) in
         and_then (ok_or RE_TooLarge (checked_add 1 (div_ceil (data_len - first) MAX_EFFICIENT_SIZE))) (\<lambda>total_segments.
         if total_segments > MAX_SEGMENTS then Err RE_TooLarge
         else
           and_then (case request_id of
               None \<Rightarrow> Ok ()
             | Some rid \<Rightarrow> check_control_frame Ctx_ResourceAdv (length rid) True HEADER_MINSIZE mtu) (\<lambda>_.
           let segment_len = min total_data MAX_EFFICIENT_SIZE in
           and_then (ok_or RE_TooLarge (checked_add segment_len RESOURCE_RANDOM_HASH_SIZE)) (\<lambda>blob.
           and_then (if encrypted then encrypted_len blob else Ok blob) (\<lambda>transfer_size.
           let parts = div_ceil transfer_size part_sdu;
               hashes = replicate HASHMAP_STRIDE (replicate MAPHASH_LEN 0);
               advertisement = ResourceAdvertisement_new transfer_size total_data parts (replicate 32 0)
                 (replicate RESOURCE_RANDOM_HASH_SIZE 0)
                 \<lparr>rf_encrypted = encrypted, rf_compressed = False, rf_split = (total_segments > 1),
                  rf_is_request = (request_id \<noteq> None \<and> \<not> is_response), rf_is_response = is_response,
                  rf_has_metadata = (metadata_len \<noteq> None)\<rparr>
                 (take (min parts HASHMAP_STRIDE) hashes) LINK_MDU;
               advertisement = advertisement\<lparr>ra_segment_index := total_segments,
                 ra_total_segments := total_segments, ra_request_id := request_id\<rparr> in
           and_then (check_advertisement rm advertisement mtu) (\<lambda>_.
           let max_map_segment = (parts - 1) div HASHMAP_STRIDE;
               hmu = encode_hashmap_update rm (replicate 32 0) max_map_segment
                 (replicate (HASHMAP_STRIDE * MAPHASH_LEN) 0) in
           and_then (check_control_frame Ctx_ResourceHmu (length hmu) True HEADER_MINSIZE mtu) (\<lambda>_.
           and_then (check_control_frame Ctx_ResourceReq (1 + MAPHASH_LEN + 32 + RESOURCE_WINDOW_MAX * MAPHASH_LEN) True
             HEADER_MINSIZE mtu) (\<lambda>_.
           and_then (check_control_frame Ctx_ResourcePrf 64 False HEADER_MINSIZE mtu) (\<lambda>_.
             check_control_frame Ctx_ResourceIcl 32 True HEADER_MINSIZE mtu)))))))))))"

definition preflight_outbound ::
    "'v resource_msgpack \<Rightarrow> nat \<Rightarrow> nat option \<Rightarrow> bytes option \<Rightarrow> bool \<Rightarrow> bool \<Rightarrow> nat \<Rightarrow> (ResourceError, unit) result" where
  "preflight_outbound rm data_len metadata_len request_id is_response encrypted mtu =
     preflight_outbound_with_sdu rm data_len metadata_len request_id is_response encrypted SDU mtu"


subsection \<open>Chunks\<close>

lemma chunks_Nil [simp]: "chunks n [] = []"
  by (simp add: chunks.simps)

lemma chunks_zero [simp]: "chunks 0 xs = []"
  by (simp add: chunks.simps)

lemma chunks_step: "n > 0 \<Longrightarrow> xs \<noteq> [] \<Longrightarrow> chunks n xs = take n xs # chunks n (drop n xs)"
  by (subst chunks.simps) simp

lemma chunks_append: "length c = n \<Longrightarrow> n > 0 \<Longrightarrow> chunks n (c @ xs) = c # chunks n xs"
  using chunks_step [of n "c @ xs"] by auto

lemma concat_chunks: "n > 0 \<Longrightarrow> concat (chunks n xs) = xs"
proof (induction n xs rule: chunks.induct)
  case (1 n xs)
  then show ?case
  proof (cases "xs = []")
    case False
    have "concat (chunks n xs) = take n xs @ concat (chunks n (drop n xs))"
      using chunks_step [OF 1(2) False] by simp
    then show ?thesis using 1 False by simp
  qed simp
qed

lemma chunks_eq_Nil: "n > 0 \<Longrightarrow> chunks n xs = [] \<longleftrightarrow> xs = []"
  using chunks_step [of n xs] by (cases "xs = []") simp_all

lemma div_ceil_step:
  assumes "n > 0" and "a > 0"
  shows "div_ceil a n = Suc (div_ceil (a - n) n)"
proof (cases "a \<ge> n")
  case True
  then obtain k where a: "a = n + k" using le_Suc_ex by blast
  have "n + k + n - 1 = n + (k + n - 1)" using assms by simp
  then have "(n + k + n - 1) div n = Suc ((k + n - 1) div n)" using assms div_add_self1 [of n "k + n - 1"] by simp
  then show ?thesis by (simp add: div_ceil_def a)
next
  case False
  have "a + n - 1 = n + (a - 1)" "a - 1 < n" using assms False by auto
  then have "(a + n - 1) div n = 1" using assms div_add_self1 [of n "a - 1"] by simp
  then show ?thesis using False assms by (simp add: div_ceil_def)
qed

lemma length_chunks: "n > 0 \<Longrightarrow> length (chunks n xs) = div_ceil (length xs) n"
proof (induction n xs rule: chunks.induct)
  case (1 n xs)
  show ?case
  proof (cases "xs = []")
    case True
    then show ?thesis using 1(2) by (simp add: div_ceil_def)
  next
    case False
    then have "length (chunks n xs) = Suc (div_ceil (length xs - n) n)"
      using 1 chunks_step [OF 1(2) False] by simp
    moreover have "div_ceil (length xs) n = Suc (div_ceil (length xs - n) n)"
      using div_ceil_step [OF 1(2), of "length xs"] False by simp
    ultimately show ?thesis by simp
  qed
qed

lemma chunks_concat: "n > 0 \<Longrightarrow> \<forall>c \<in> set cs. length c = n \<Longrightarrow> chunks n (concat cs) = cs"
  by (induction cs) (simp_all add: chunks_append)

lemma as_chunks_concat: "n > 0 \<Longrightarrow> \<forall>c \<in> set cs. length c = n \<Longrightarrow> as_chunks n (concat cs) = cs"
  by (simp add: as_chunks_def chunks_concat)

subsection \<open>Window bounds\<close>

text \<open>The states of a window under any sequence of grown rounds (\<open>Some rate\<close>) and timeouts (\<open>None\<close>).\<close>

fun window_run :: "nat option list \<Rightarrow> WindowState \<Rightarrow> WindowState option" where
  "window_run [] w = Some w"
| "window_run (Some rate # es) w = window_run es (WindowState_grow rate w)"
| "window_run (None # es) w = Option.bind (WindowState_shrink w) (window_run es)"

definition resource_window_wf :: "WindowState \<Rightarrow> bool" where
  "resource_window_wf w \<longleftrightarrow> 2 \<le> ws_window w \<and> ws_window w \<le> ws_window_max w \<and> ws_window_max w \<le> RESOURCE_WINDOW_MAX
     \<and> 2 \<le> ws_window_min w \<and> ws_window_min w \<le> RESOURCE_WINDOW_MAX"

lemma window_wf_new: "resource_window_wf WindowState_new"
  by (simp add: resource_window_wf_def WindowState_new_def resource_window_constants)

lemma window_wf_grow: "resource_window_wf w \<Longrightarrow> resource_window_wf (WindowState_grow rate w)"
  unfolding resource_window_wf_def WindowState_grow_def Let_def resource_window_constants by auto

lemma window_wf_shrink: "resource_window_wf w \<Longrightarrow> \<exists>w'. WindowState_shrink w = Some w' \<and> resource_window_wf w'"
  unfolding resource_window_wf_def WindowState_shrink_def Let_def resource_window_constants by auto

lemma window_run_wf: "resource_window_wf w \<Longrightarrow> \<exists>w'. window_run es w = Some w' \<and> resource_window_wf w'"
proof (induction es arbitrary: w)
  case (Cons e es)
  then show ?case
    using window_wf_shrink [OF Cons.prems] window_wf_grow [OF Cons.prems] by (cases e) fastforce+
qed simp

text \<open>
  C39: the flow-control window of a transfer, under any sequence of completed rounds at any rate and of timeouts:
  no subtraction underflows, the window stays between 2 parts and its ceiling, and the ceiling never exceeds
  \<open>RESOURCE_WINDOW_MAX\<close>, the number of hashes for which a request frame was admitted.
\<close>

theorem window_bounds:
  "\<exists>w. window_run es WindowState_new = Some w \<and> 2 \<le> ws_window w \<and> ws_window w \<le> ws_window_max w
     \<and> ws_window_max w \<le> RESOURCE_WINDOW_MAX"
  using window_run_wf [OF window_wf_new, of es] by (auto simp: resource_window_wf_def)

subsection \<open>Advertisements and hashmap updates on the wire\<close>

text \<open>
  What is assumed of MessagePack: reading what was written returns the value, a serialised map reads as a map with
  string keys in the written order when its values are nil, integers or binaries, and the accessors return what the constructors were given; bytes that follow
  the value do not matter.
\<close>

definition rm_flat :: "'v resource_msgpack \<Rightarrow> 'v \<Rightarrow> bool" where
  "rm_flat rm v \<longleftrightarrow> v = rm_nil rm \<or> (\<exists>n. v = rm_uint rm n) \<or> (\<exists>b. v = rm_binary rm b)"

definition rm_ok :: "'v resource_msgpack \<Rightarrow> bool" where
  "rm_ok rm \<longleftrightarrow>
     (\<forall>n < 2 ^ 64. rm_as_u64 rm (rm_uint rm n) = Some n) \<and> (\<forall>b. rm_as_slice rm (rm_binary rm b) = Some b)
   \<and> (\<forall>b. \<not> rm_is_nil rm (rm_binary rm b)) \<and> rm_is_nil rm (rm_nil rm)
   \<and> (\<forall>vs. rm_as_array rm (rm_array rm vs) = Some vs)
   \<and> (\<forall>n b. rm_read rm (rm_write rm (rm_array rm [rm_uint rm n, rm_binary rm b])) = Some (rm_array rm [rm_uint rm n, rm_binary rm b]))
   \<and> (\<forall>es. (\<forall>e \<in> set es. rm_flat rm (snd e)) \<longrightarrow> (\<exists>v ks. rm_read rm (rm_serialize rm es) = Some v \<and> length ks = length es
        \<and> rm_as_map rm v = Some (zip ks (map snd es)) \<and> map (rm_as_str rm) ks = map (Some \<circ> fst) es))"

lemma ResourceFlags_roundtrip: "ResourceFlags_from_byte (ResourceFlags_to_byte f) = f"
  by (cases f) (simp add: ResourceFlags_to_byte_def ResourceFlags_from_byte_def)

lemma hmu_roundtrip:
  assumes "rm_ok rm" and "length h = 32" and "segment < 2 ^ 64"
  shows "parse_hashmap_update rm (encode_hashmap_update rm h segment hashes) = Ok (h, segment, hashes)"
  using assms by (simp add: parse_hashmap_update_def encode_hashmap_update_def rm_ok_def and_then_def ok_or_def)

definition advertisement_wf :: "ResourceAdvertisement \<Rightarrow> bool" where
  "advertisement_wf a \<longleftrightarrow> ra_transfer_size a < 2 ^ 64 \<and> ra_data_size a < 2 ^ 64 \<and> ra_num_parts a < 2 ^ 64
     \<and> length (ra_resource_hash a) = 32 \<and> 4 \<le> length (ra_random_hash a) \<and> length (ra_original_hash a) = 32
     \<and> ra_segment_index a < 2 ^ 64 \<and> ra_total_segments a < 2 ^ 64"

lemma adv_get_zip:
  "map (rm_as_str rm) ks = map (Some \<circ> fst) es \<Longrightarrow> length ks = length es \<Longrightarrow>
   adv_get rm (zip ks (map snd es)) key = map_of es key"
proof (induction es arbitrary: ks)
  case (Cons e es)
  then obtain k ks' where "ks = k # ks'" by (cases ks) auto
  with Cons show ?case by (cases e) (auto simp: adv_get_def)
qed (simp add: adv_get_def)

lemma flags_byte_u64: "unat (ResourceFlags_to_byte f) < 2 ^ 64"
  by (rule less_trans [OF unsigned_less]) simp

lemma unpack_pack_advertisement:
  assumes "rm_ok rm" and "advertisement_wf a" and "check_advertisement rm a MTU = Ok ()"
  shows "ResourceAdvertisement_unpack rm (ResourceAdvertisement_pack rm a) = Ok (a\<lparr>ra_metadata_size := 0\<rparr>)"
proof -
  let ?es = "AdvertisementRef_serialize rm a"
  have flat: "\<forall>e \<in> set ?es. rm_flat rm (snd e)"
    by (auto simp: AdvertisementRef_serialize_def rm_flat_def split: option.splits)
  obtain v ks where v: "rm_read rm (rm_serialize rm ?es) = Some v" "length ks = length ?es"
      "rm_as_map rm v = Some (zip ks (map snd ?es))" "map (rm_as_str rm) ks = map (Some \<circ> fst) ?es"
    using assms(1) flat unfolding rm_ok_def by metis
  note get = adv_get_zip [OF v(4,2)]
  have frame: "check_control_frame Ctx_ResourceAdv (length (ResourceAdvertisement_pack rm a)) True HEADER_MINSIZE MTU = Ok ()"
    using assms(3) by (auto simp: check_advertisement_def ResourceAdvertisement_encoded_len_def
        ResourceAdvertisement_pack_def checked_add_def ok_or_def and_then_def split: if_splits)
  have usize: "adv_get_usize rm (zip ks (map snd ?es)) k = Ok n" if "map_of ?es k = Some (rm_uint rm n)" "n < 2 ^ 64" for k n
    using that assms(1) by (simp add: adv_get_usize_def get rm_ok_def ok_or_def)
  have bytes: "adv_get_bytes rm (zip ks (map snd ?es)) k len = Ok b" if "map_of ?es k = Some (rm_binary rm b)" "len \<le> length b" for k len b
    using that assms(1) by (simp add: adv_get_bytes_def get rm_ok_def ok_or_def and_then_def)
  note es = AdvertisementRef_serialize_def and wf = assms(2) [unfolded advertisement_wf_def]
  have "adv_get_usize rm (zip ks (map snd ?es)) ''t'' = Ok (ra_transfer_size a)"
    "adv_get_usize rm (zip ks (map snd ?es)) ''d'' = Ok (ra_data_size a)"
    "adv_get_usize rm (zip ks (map snd ?es)) ''n'' = Ok (ra_num_parts a)"
    "adv_get_usize rm (zip ks (map snd ?es)) ''i'' = Ok (ra_segment_index a)"
    "adv_get_usize rm (zip ks (map snd ?es)) ''l'' = Ok (ra_total_segments a)"
    by (rule usize; use wf in \<open>simp add: es\<close>)+
  moreover have "adv_get_bytes rm (zip ks (map snd ?es)) ''h'' 32 = Ok (ra_resource_hash a)"
    "adv_get_bytes rm (zip ks (map snd ?es)) ''r'' 4 = Ok (ra_random_hash a)"
    "adv_get_bytes rm (zip ks (map snd ?es)) ''o'' 32 = Ok (ra_original_hash a)"
    by (rule bytes; use wf in \<open>simp add: es\<close>)+
  moreover have "adv_get rm (zip ks (map snd ?es)) ''q'' = Some (case ra_request_id a of None \<Rightarrow> rm_nil rm | Some q \<Rightarrow> rm_binary rm q)"
    "adv_get rm (zip ks (map snd ?es)) ''f'' = Some (rm_uint rm (unat (ResourceFlags_to_byte (ra_flags a))))"
    "adv_get rm (zip ks (map snd ?es)) ''m'' = Some (rm_binary rm (ra_hashmap a))"
    by (simp only: get, simp add: es)+
  moreover have "rm_as_u64 rm (rm_uint rm (unat (ResourceFlags_to_byte (ra_flags a)))) = Some (unat (ResourceFlags_to_byte (ra_flags a)))"
    "rm_is_nil rm (rm_nil rm)" "\<not> rm_is_nil rm (rm_binary rm b)" "rm_as_slice rm (rm_binary rm b) = Some b" for b
    using assms(1) flags_byte_u64 by (simp_all add: rm_ok_def)
  ultimately show ?thesis
    using v(1,3) wf frame unfolding ResourceAdvertisement_unpack_def ResourceAdvertisement_pack_def
    by (cases "ra_request_id a") (simp_all add: and_then_def map_err_def ok_or_def ResourceFlags_roundtrip)
qed

text \<open>
  An advertisement that passed the admission check of its frame is unpacked by the receiver to the same
  fields: sizes, hashes, segment numbers, request identifier, flags and hashmap. Only the sender's local
  metadata annotation is not transmitted.
\<close>

lemma advertisement_roundtrip:
  assumes "rm_ok rm" and "advertisement_wf a" and "check_advertisement rm a MTU = Ok ()"
  shows "ResourceAdvertisement_unpack rm (ResourceAdvertisement_pack rm a) = Ok (a\<lparr>ra_metadata_size := 0\<rparr>)"
  using assms by (rule unpack_pack_advertisement)

text \<open>A small MessagePack: tags, and lengths and integers as terminated base-255 digits.\<close>

datatype rm_val = RV_Nil | RV_Uint nat | RV_Bin bytes | RV_Str string | RV_Arr "rm_val list" | RV_Map "(rm_val \<times> rm_val) list"

fun enc_nat :: "nat \<Rightarrow> bytes" where
  "enc_nat n = (if n = 0 then [0] else of_nat (Suc (n mod 255)) # enc_nat (n div 255))"

declare enc_nat.simps [simp del]

fun dec_nat :: "bytes \<Rightarrow> (nat \<times> bytes) option" where
  "dec_nat [] = None"
| "dec_nat (b # bs) = (if b = 0 then Some (0, bs) else map_option (map_prod (\<lambda>n. unat b - 1 + 255 * n) id) (dec_nat bs))"

fun enc_flat :: "rm_val \<Rightarrow> bytes" where
  "enc_flat (RV_Uint n) = 1 # enc_nat n"
| "enc_flat (RV_Bin b) = 2 # enc_nat (length b) @ b"
| "enc_flat _ = [0]"

fun dec_flat :: "bytes \<Rightarrow> (rm_val \<times> bytes) option" where
  "dec_flat [] = None"
| "dec_flat (t # bs) =
    (if t = 1 then map_option (map_prod RV_Uint id) (dec_nat bs)
     else if t = 2 then map_option (\<lambda>(n, r). (RV_Bin (take n r), drop n r)) (dec_nat bs)
     else Some (RV_Nil, bs))"

definition enc_entry :: "string \<times> rm_val \<Rightarrow> bytes" where
  "enc_entry e = enc_nat (length (fst e)) @ map (\<lambda>c. of_nat (of_char c)) (fst e) @ enc_flat (snd e)"

definition dec_entry :: "bytes \<Rightarrow> ((rm_val \<times> rm_val) \<times> bytes) option" where
  "dec_entry bs = Option.bind (dec_nat bs) (\<lambda>(n, r).
     map_option (map_prod (Pair (RV_Str (map (\<lambda>b. char_of (unat b)) (take n r)))) id) (dec_flat (drop n r)))"

fun dec_entries :: "nat \<Rightarrow> bytes \<Rightarrow> ((rm_val \<times> rm_val) list) option" where
  "dec_entries 0 bs = Some []"
| "dec_entries (Suc n) bs = Option.bind (dec_entry bs) (\<lambda>(e, r). map_option (Cons e) (dec_entries n r))"

fun rv_write :: "rm_val \<Rightarrow> bytes" where
  "rv_write (RV_Arr [a, b]) = 5 # enc_flat a @ enc_flat b"
| "rv_write v = enc_flat v"

fun rv_read :: "bytes \<Rightarrow> rm_val option" where
  "rv_read [] = None"
| "rv_read (t # bs) =
    (if t = 4 then Option.bind (dec_nat bs) (\<lambda>(n, r). map_option RV_Map (dec_entries n r))
     else if t = 5 then Option.bind (dec_flat bs) (\<lambda>(a, r). map_option (\<lambda>(b, _). RV_Arr [a, b]) (dec_flat r))
     else map_option fst (dec_flat (t # bs)))"

definition example_rm :: "rm_val resource_msgpack" where
  "example_rm = \<lparr>rm_nil = RV_Nil, rm_uint = RV_Uint, rm_binary = RV_Bin, rm_array = RV_Arr,
     rm_is_nil = (\<lambda>v. case v of RV_Nil \<Rightarrow> True | _ \<Rightarrow> False),
     rm_as_u64 = (\<lambda>v. case v of RV_Uint n \<Rightarrow> Some n | _ \<Rightarrow> None),
     rm_as_slice = (\<lambda>v. case v of RV_Bin b \<Rightarrow> Some b | _ \<Rightarrow> None),
     rm_as_str = (\<lambda>v. case v of RV_Str s \<Rightarrow> Some s | _ \<Rightarrow> None),
     rm_as_array = (\<lambda>v. case v of RV_Arr vs \<Rightarrow> Some vs | _ \<Rightarrow> None),
     rm_as_map = (\<lambda>v. case v of RV_Map m \<Rightarrow> Some m | _ \<Rightarrow> None),
     rm_write = rv_write, rm_read = rv_read,
     rm_serialize = (\<lambda>es. 4 # enc_nat (length es) @ concat (map enc_entry es))\<rparr>"

lemma dec_enc_nat [simp]: "dec_nat (enc_nat n @ r) = Some (n, r)"
proof (induction n rule: enc_nat.induct)
  case (1 n)
  have digit: "unat (of_nat (Suc (n mod 255)) :: u8) = Suc (n mod 255)"
    using mod_less_divisor [of 255 n] by (simp del: of_nat_Suc add: unat_of_nat take_bit_eq_mod)
  then have "(of_nat (Suc (n mod 255)) :: u8) \<noteq> 0" by (metis Zero_not_Suc unsigned_0)
  then show ?case using 1 digit by (cases "n = 0") (simp_all add: enc_nat.simps [of n] enc_nat.simps [of 0] del: of_nat_Suc)
qed

definition flat_val :: "rm_val \<Rightarrow> bool" where
  "flat_val v \<longleftrightarrow> v = RV_Nil \<or> (\<exists>n. v = RV_Uint n) \<or> (\<exists>b. v = RV_Bin b)"

lemma dec_enc_flat: "flat_val v \<Longrightarrow> dec_flat (enc_flat v @ r) = Some (v, r)"
  by (auto simp: flat_val_def)

lemma char_of_of_char_u8: "char_of (unat (of_nat (of_char c) :: u8)) = c"
proof -
  have "(of_char c :: nat) < 2 ^ 8" using nat_of_char_less_256 [of c] by simp
  then have "unat (of_nat (of_char c) :: u8) = of_char c" by (simp add: unat_of_nat take_bit_nat_eq_self)
  then show ?thesis by (simp only: char_of_char)
qed

lemma dec_enc_entry: "flat_val (snd e) \<Longrightarrow> dec_entry (enc_entry e @ r) = Some ((RV_Str (fst e), snd e), r)"
  by (simp add: dec_entry_def enc_entry_def dec_enc_flat char_of_of_char_u8 comp_def)

lemma dec_enc_entries:
  "\<forall>e \<in> set es. flat_val (snd e) \<Longrightarrow>
   dec_entries (length es) (concat (map enc_entry es)) = Some (map (\<lambda>e. (RV_Str (fst e), snd e)) es)"
  by (induction es) (simp_all add: dec_enc_entry)

lemma example_rm_ok: "rm_ok example_rm"
  unfolding rm_ok_def
proof (intro conjI allI impI)
  fix es :: "(string \<times> rm_val) list"
  assume a: "\<forall>e \<in> set es. rm_flat example_rm (snd e)"
  have "\<forall>e \<in> set es. flat_val (snd e)" using a by (simp add: rm_flat_def flat_val_def example_rm_def)
  then have "rm_read example_rm (rm_serialize example_rm es) = Some (RV_Map (map (\<lambda>e. (RV_Str (fst e), snd e)) es))"
    by (simp add: example_rm_def dec_enc_entries)
  moreover have "map (\<lambda>e. (RV_Str (fst e), snd e)) es = zip (map (RV_Str \<circ> fst) es) (map snd es)"
    by (induction es) simp_all
  moreover have "map (rm_as_str example_rm) (map (RV_Str \<circ> fst) es) = map (Some \<circ> fst) es"
    by (simp add: example_rm_def)
  ultimately show "\<exists>v ks. rm_read example_rm (rm_serialize example_rm es) = Some v \<and> length ks = length es
        \<and> rm_as_map example_rm v = Some (zip ks (map snd es)) \<and> map (rm_as_str example_rm) ks = map (Some \<circ> fst) es"
    by (intro exI [of _ "RV_Map (map (\<lambda>e. (RV_Str (fst e), snd e)) es)"] exI [of _ "map (RV_Str \<circ> fst) es"])
       (simp add: example_rm_def)
next
  fix n b
  show "rm_read example_rm (rm_write example_rm (rm_array example_rm [rm_uint example_rm n, rm_binary example_rm b])) =
      Some (rm_array example_rm [rm_uint example_rm n, rm_binary example_rm b])"
    using dec_enc_flat [of "RV_Uint n"] dec_enc_flat [of "RV_Bin b" "[]"] by (simp add: example_rm_def flat_val_def)
qed (simp_all add: example_rm_def)

definition example_flags :: ResourceFlags where
  "example_flags = \<lparr>rf_encrypted = True, rf_compressed = False, rf_split = False, rf_is_request = False,
     rf_is_response = False, rf_has_metadata = False\<rparr>"

definition example_adv :: ResourceAdvertisement where
  "example_adv = ResourceAdvertisement_new 20 16 1 (replicate 32 1) (replicate 4 2) example_flags
     [replicate 4 3] LINK_MDU"

lemma advertisement_roundtrip_witness:
  "ResourceAdvertisement_unpack example_rm (ResourceAdvertisement_pack example_rm example_adv) = Ok example_adv"
proof -
  have "advertisement_wf example_adv" "check_advertisement example_rm example_adv MTU = Ok ()"
    by (simp_all add: advertisement_wf_def check_advertisement_def check_control_frame_def encrypted_len_def
        ResourceAdvertisement_encoded_len_def checked_add_def checked_mul_def checked_div_def and_then_def ok_or_def
        AdvertisementRef_serialize_def example_rm_def enc_entry_def enc_nat.simps example_adv_def wire_constants
        ResourceAdvertisement_new_def ResourceAdvertisement_with_metadata_size_def Let_def hashmap_max_len_def
        OVERHEAD_def MAPHASH_LEN_def example_flags_def ResourceFlags_to_byte_def)
  then show ?thesis
    using advertisement_roundtrip [OF example_rm_ok, of example_adv]
    by (simp add: example_adv_def ResourceAdvertisement_new_def ResourceAdvertisement_with_metadata_size_def Let_def)
qed

end
