(* ===== verification/Resource_Data.thy ===== *)
theory Resource_Data
  imports Resource_Control
begin

text \<open>
  The two ends of one resource and of a split resource: \<open>OutboundResource\<close>, \<open>InboundResource\<close>,
  \<open>LazyMultiSegmentOutbound\<close>, \<open>MultiSegmentOutbound\<close>, \<open>MultiSegmentInbound\<close> and \<open>LinkResource\<close> of
  \<open>src/crates/rns-protocol/src/resource.rs\<close>. A constructor draws a random tag and calls its encryption hook once per
  attempt; both are functions of the number of the attempt.
\<close>

subsection \<open>Outbound resources\<close>

type_synonym encryptor = "nat \<Rightarrow> bytes \<Rightarrow> bytes"
type_synonym decryptor = "bytes \<Rightarrow> (ResourceError, bytes) result"

record OutboundResource =
  or_state :: ResourceState
  or_data :: bytes
  or_random_hash :: bytes
  or_resource_hash :: bytes
  or_expected_proof :: bytes
  or_flags :: ResourceFlags
  or_parts :: "bytes list"
  or_map_hashes :: "bytes list"
  or_total_size :: nat
  or_advertisement_data_size :: nat
  or_segment_index :: nat
  or_total_segments :: nat
  or_request_id :: "bytes option"
  or_original_hash :: "bytes option"
  or_window :: WindowState
  or_retries :: nat
  or_sdu :: nat
  or_metadata :: "bytes option"
  or_metadata_size :: nat

definition MAX_COLLISION_RETRIES :: nat where "MAX_COLLISION_RETRIES = 5"

text \<open>The prefix \<open>length(3 BE)\<close> of a metadata block, and its reading by \<open>assemble\<close>.\<close>

definition u24_to_be :: "nat \<Rightarrow> bytes" where
  "u24_to_be len = [of_nat (drop_bit 16 len AND 0xFF), of_nat (drop_bit 8 len AND 0xFF), of_nat (len AND 0xFF)]"

definition u24_from_be :: "byte \<Rightarrow> byte \<Rightarrow> byte \<Rightarrow> nat" where
  "u24_from_be a b c = push_bit 16 (unat a) OR push_bit 8 (unat b) OR unat c"

function OutboundResource_with_options_inner ::
    "crypto_lib \<Rightarrow> bz_lib \<Rightarrow> 'v resource_msgpack \<Rightarrow> (nat \<Rightarrow> bytes) \<Rightarrow> bytes \<Rightarrow> bool \<Rightarrow> bytes option \<Rightarrow> nat option \<Rightarrow>
     encryptor option \<Rightarrow> nat \<Rightarrow> (ResourceError, OutboundResource) result" where
  "OutboundResource_with_options_inner lib bz rm random_bytes data auto_compress metadata link_sdu encrypt_fn collision_retries =
    (let sdu = (case link_sdu of Some s \<Rightarrow> s | None \<Rightarrow> SDU) in
     if sdu = 0 then Err RE_InvalidAdvertisement
     else
       and_then (preflight_outbound_with_sdu rm (length data) (map_option length metadata) None False
         (encrypt_fn \<noteq> None) sdu MTU) (\<lambda>_.
       and_then (case metadata of
           Some meta \<Rightarrow>
             if length meta > METADATA_MAX_SIZE then Err RE_MetadataTooLarge
             else let packed = u24_to_be (length meta) @ meta in Ok (Some packed, length packed, True)
         | None \<Rightarrow> Ok (None, 0, False)) (\<lambda>(packed_metadata, metadata_size, has_metadata).
       if metadata_size + length data > MAX_EFFICIENT_SIZE then Err RE_TooLarge
       else
         let random_hash = random_bytes collision_retries;
             full_data = (case packed_metadata of Some meta \<Rightarrow> meta @ data | None \<Rightarrow> data);
             (processed_data, compressed) =
               (if auto_compress \<and> length full_data \<le> AUTO_COMPRESS_MAX_SIZE then try_compress bz full_data
                else (full_data, False));
             blob = random_hash @ processed_data;
             blob = (case encrypt_fn of Some enc \<Rightarrow> enc collision_retries blob | None \<Rightarrow> blob);
             resource_hash = compute_resource_hash lib full_data random_hash;
             expected_proof = compute_expected_proof lib full_data resource_hash;
             parts = chunks sdu blob;
             map_hashes = map (\<lambda>part. get_map_hash lib part random_hash) parts;
             has_collision = (\<not> distinct map_hashes)
         in if has_collision \<and> collision_retries < MAX_COLLISION_RETRIES then
              OutboundResource_with_options_inner lib bz rm random_bytes data auto_compress metadata link_sdu encrypt_fn
                (collision_retries + 1)
            else
              Ok \<lparr>or_state = RSt_None, or_data = data, or_random_hash = random_hash, or_resource_hash = resource_hash,
                  or_expected_proof = expected_proof,
                  or_flags = \<lparr>rf_encrypted = (encrypt_fn \<noteq> None), rf_compressed = compressed, rf_split = False,
                    rf_is_request = False, rf_is_response = False, rf_has_metadata = has_metadata\<rparr>,
                  or_parts = parts, or_map_hashes = map_hashes, or_total_size = length blob,
                  or_advertisement_data_size = length full_data, or_segment_index = 1, or_total_segments = 1,
                  or_request_id = None, or_original_hash = None, or_window = WindowState_new, or_retries = 0,
                  or_sdu = sdu, or_metadata = packed_metadata, or_metadata_size = metadata_size\<rparr>)))"
  by pat_completeness auto
termination
  by (relation "measure (\<lambda>(_, _, _, _, _, _, _, _, _, n). MAX_COLLISION_RETRIES - n)") auto

declare OutboundResource_with_options_inner.simps [simp del]

definition OutboundResource_with_options ::
    "crypto_lib \<Rightarrow> bz_lib \<Rightarrow> 'v resource_msgpack \<Rightarrow> (nat \<Rightarrow> bytes) \<Rightarrow> bytes \<Rightarrow> bool \<Rightarrow> bytes option \<Rightarrow> nat option \<Rightarrow>
     encryptor option \<Rightarrow> (ResourceError, OutboundResource) result" where
  "OutboundResource_with_options lib bz rm random_bytes data auto_compress metadata link_sdu encrypt_fn =
     OutboundResource_with_options_inner lib bz rm random_bytes data auto_compress metadata link_sdu encrypt_fn 0"

definition OutboundResource_new ::
    "crypto_lib \<Rightarrow> bz_lib \<Rightarrow> 'v resource_msgpack \<Rightarrow> (nat \<Rightarrow> bytes) \<Rightarrow> bytes \<Rightarrow> bool \<Rightarrow> encryptor option \<Rightarrow>
     (ResourceError, OutboundResource) result" where
  "OutboundResource_new lib bz rm random_bytes data auto_compress encrypt_fn =
     OutboundResource_with_options lib bz rm random_bytes data auto_compress None None encrypt_fn"

definition OutboundResource_validate_proof :: "bytes \<Rightarrow> OutboundResource \<Rightarrow> OutboundResource \<times> bool" where
  "OutboundResource_validate_proof proof_data r =
    (if length proof_data < 64 then (r, False)
     else if subslice 32 64 proof_data = or_expected_proof r then (r\<lparr>or_state := RSt_Complete\<rparr>, True)
     else (r, False))"

definition OutboundResource_get_part :: "nat \<Rightarrow> OutboundResource \<Rightarrow> bytes option" where
  "OutboundResource_get_part i r = (if i < length (or_parts r) then Some (or_parts r ! i) else None)"

definition OutboundResource_num_parts :: "OutboundResource \<Rightarrow> nat" where
  "OutboundResource_num_parts r = length (or_parts r)"

definition OutboundResource_handle_hmu :: "bytes \<Rightarrow> OutboundResource \<Rightarrow> OutboundResource \<times> nat list" where
  "OutboundResource_handle_hmu plaintext r =
    (case plaintext of
       [] \<Rightarrow> (r, [])
     | flag # data \<Rightarrow>
         if flag = HASHMAP_IS_EXHAUSTED then
           (r\<lparr>or_state := RSt_AwaitingProof, or_window := WindowState_grow 0 (or_window r)\<rparr>, [])
         else if length data \<ge> MAPHASH_LEN then
           (case position (\<lambda>h. h = take MAPHASH_LEN data) (or_map_hashes r) of
              Some i \<Rightarrow>
                let start = i + 1;
                    stop = min (start + ws_window (or_window r)) (OutboundResource_num_parts r)
                in (r, [start..<stop])
            | None \<Rightarrow> (r, []))
         else (r, []))"

definition OutboundResource_handle_cancel :: "OutboundResource \<Rightarrow> OutboundResource" where
  "OutboundResource_handle_cancel r = r\<lparr>or_state := RSt_Rejected\<rparr>"

subsection \<open>Inbound resources\<close>

record InboundResource =
  ir_state :: ResourceState
  ir_parts :: "bytes option list"
  ir_total_parts :: nat
  ir_random_hash :: bytes
  ir_resource_hash :: bytes
  ir_flags :: ResourceFlags
  ir_total_size :: nat
  ir_data_size :: nat
  ir_consecutive_completed :: nat
  ir_window :: WindowState
  ir_map_hashes :: "bytes list"
  ir_sdu :: nat
  ir_metadata :: "bytes option"

definition MAX_AES_BLOCK_PAD :: nat where "MAX_AES_BLOCK_PAD = 16"
definition MIN_PART_SIZE :: nat where "MIN_PART_SIZE = 32"

definition InboundResource_with_sdu ::
    "nat \<Rightarrow> nat \<Rightarrow> nat \<Rightarrow> bytes \<Rightarrow> bytes \<Rightarrow> ResourceFlags \<Rightarrow> bytes list \<Rightarrow> nat option \<Rightarrow>
     (ResourceError, InboundResource) result" where
  "InboundResource_with_sdu total_parts total_size data_size random_hash resource_hash flags initial_map_hashes link_sdu =
    (if total_parts = 0 then Err RE_InvalidAdvertisement
     else
       let max_total_size = MAX_EFFICIENT_SIZE + RESOURCE_RANDOM_HASH_SIZE + TOKEN_OVERHEAD + MAX_AES_BLOCK_PAD in
       if total_size > max_total_size then Err RE_TooLarge
       else
         let max_parts = usize_saturating_add (div_ceil total_size MIN_PART_SIZE) 16 in
         if total_parts > max_parts then Err RE_TooLarge
         else Ok \<lparr>ir_state = RSt_Transferring, ir_parts = replicate total_parts None, ir_total_parts = total_parts,
                 ir_random_hash = random_hash, ir_resource_hash = resource_hash, ir_flags = flags,
                 ir_total_size = total_size, ir_data_size = data_size, ir_consecutive_completed = 0,
                 ir_window = WindowState_new, ir_map_hashes = initial_map_hashes,
                 ir_sdu = (case link_sdu of Some s \<Rightarrow> s | None \<Rightarrow> SDU), ir_metadata = None\<rparr>)"

definition InboundResource_new ::
    "nat \<Rightarrow> nat \<Rightarrow> nat \<Rightarrow> bytes \<Rightarrow> bytes \<Rightarrow> ResourceFlags \<Rightarrow> bytes list \<Rightarrow> (ResourceError, InboundResource) result" where
  "InboundResource_new total_parts total_size data_size random_hash resource_hash flags initial_map_hashes =
     InboundResource_with_sdu total_parts total_size data_size random_hash resource_hash flags initial_map_hashes None"

text \<open>The loop of \<open>update_consecutive\<close>: the first index from \<open>i\<close> on, up to the end, whose slot is empty.\<close>

function consecutive_from :: "bytes option list \<Rightarrow> nat \<Rightarrow> nat \<Rightarrow> nat" where
  "consecutive_from parts total_parts i =
    (if i < total_parts \<and> parts ! i \<noteq> None then consecutive_from parts total_parts (i + 1) else i)"
  by auto
termination by (relation "measure (\<lambda>(_, n, i). n - i)") auto

declare consecutive_from.simps [simp del]

definition InboundResource_update_consecutive :: "InboundResource \<Rightarrow> InboundResource" where
  "InboundResource_update_consecutive r =
     r\<lparr>ir_consecutive_completed := consecutive_from (ir_parts r) (ir_total_parts r) (ir_consecutive_completed r)\<rparr>"

definition InboundResource_receive_part :: "crypto_lib \<Rightarrow> bytes \<Rightarrow> InboundResource \<Rightarrow> InboundResource \<times> bool" where
  "InboundResource_receive_part lib data r =
    (let mh = get_map_hash lib data (ir_random_hash r);
         search_start = ir_consecutive_completed r;
         search_end = min (ir_consecutive_completed r + ws_window (ir_window r)) (ir_total_parts r)
     in case List.find (\<lambda>i. i < length (ir_map_hashes r) \<and> ir_map_hashes r ! i = mh \<and> ir_parts r ! i = None)
            [search_start..<search_end] of
          Some i \<Rightarrow> (InboundResource_update_consecutive (r\<lparr>ir_parts := (ir_parts r)[i := Some data]\<rparr>), True)
        | None \<Rightarrow> (r, False))"

definition InboundResource_is_complete :: "InboundResource \<Rightarrow> bool" where
  "InboundResource_is_complete r \<longleftrightarrow> ir_consecutive_completed r = ir_total_parts r"

text \<open>The concatenation of the slots, which fails on an empty one.\<close>

fun concat_parts :: "bytes option list \<Rightarrow> (ResourceError, bytes) result" where
  "concat_parts [] = Ok []"
| "concat_parts (None # _) = Err RE_Incomplete"
| "concat_parts (Some p # ps) = and_then (concat_parts ps) (\<lambda>rest. Ok (p @ rest))"

definition InboundResource_assemble ::
    "crypto_lib \<Rightarrow> bz_lib \<Rightarrow> decryptor option \<Rightarrow> InboundResource \<Rightarrow> InboundResource \<times> (ResourceError, bytes) result" where
  "InboundResource_assemble lib bz decrypt_fn r =
    (if \<not> InboundResource_is_complete r then (r, Err RE_Incomplete)
     else
       let r = r\<lparr>ir_state := RSt_Assembling\<rparr> in
       case concat_parts (ir_parts r) of
         Inl e \<Rightarrow> (r, Err e)
       | Inr stream \<Rightarrow>
         (case (case decrypt_fn of Some dec \<Rightarrow> dec stream | None \<Rightarrow> Ok stream) of
            Inl e \<Rightarrow> (r, Err e)
          | Inr stream \<Rightarrow>
            if length stream < RESOURCE_RANDOM_HASH_SIZE then (r\<lparr>ir_state := RSt_Corrupt\<rparr>, Err RE_Corrupt)
            else
              let data = drop RESOURCE_RANDOM_HASH_SIZE stream in
              case (if rf_compressed (ir_flags r)
                    then map_err (\<lambda>_. RE_DecompressionFailed) (bz2_decompress bz data MAX_EFFICIENT_SIZE)
                    else Ok data) of
                Inl e \<Rightarrow> (r, Err e)
              | Inr final_data \<Rightarrow>
                let calculated_hash = compute_resource_hash lib final_data (ir_random_hash r) in
                if calculated_hash \<noteq> ir_resource_hash r then (r\<lparr>ir_state := RSt_Corrupt\<rparr>, Err RE_HashMismatch)
                else if rf_has_metadata (ir_flags r) then
                  if length final_data < 3
                  then (r\<lparr>ir_state := RSt_Corrupt\<rparr>, Err (RE_InvalidMetadata 0 (length final_data)))
                  else
                    let metadata_size = u24_from_be (final_data ! 0) (final_data ! 1) (final_data ! 2) in
                    if length final_data < 3 + metadata_size
                    then (r\<lparr>ir_state := RSt_Corrupt\<rparr>, Err (RE_InvalidMetadata metadata_size (length final_data - 3)))
                    else (r\<lparr>ir_metadata := Some (subslice 3 (3 + metadata_size) final_data), ir_state := RSt_Complete\<rparr>,
                          Ok (drop (3 + metadata_size) final_data))
                else (r\<lparr>ir_state := RSt_Complete\<rparr>, Ok final_data)))"

definition InboundResource_generate_proof :: "crypto_lib \<Rightarrow> bytes \<Rightarrow> InboundResource \<Rightarrow> bytes" where
  "InboundResource_generate_proof lib data r =
     ir_resource_hash r @ compute_expected_proof lib data (ir_resource_hash r)"

definition InboundResource_received_count :: "InboundResource \<Rightarrow> nat" where
  "InboundResource_received_count r = length (filter (\<lambda>p. p \<noteq> None) (ir_parts r))"

definition InboundResource_progress :: "InboundResource \<Rightarrow> real" where
  "InboundResource_progress r =
    (if ir_total_parts r = 0 then 1 else real (InboundResource_received_count r) / real (ir_total_parts r))"

definition InboundResource_handle_cancel :: "InboundResource \<Rightarrow> InboundResource" where
  "InboundResource_handle_cancel r = r\<lparr>ir_state := RSt_Failed, ir_parts := replicate (length (ir_parts r)) None\<rparr>"


subsection \<open>Split resources\<close>

record LazyMultiSegmentOutbound =
  lz_data :: bytes
  lz_auto_compress :: bool
  lz_metadata :: "bytes option"
  lz_metadata_wire_size :: nat
  lz_request_id :: "bytes option"
  lz_is_response :: bool
  lz_next_offset :: nat
  lz_next_segment_index :: nat
  lz_original_hash :: bytes
  lz_total_segments :: nat
  lz_data_size :: nat

definition required_segment_count :: "nat \<Rightarrow> nat \<Rightarrow> nat" where
  "required_segment_count data_size metadata_wire_size =
    (if data_size = 0 then 1
     else let first_payload_size = MAX_EFFICIENT_SIZE - metadata_wire_size;
              first_len = min data_size first_payload_size
          in 1 + div_ceil (data_size - first_len) MAX_EFFICIENT_SIZE)"

definition LazyMultiSegmentOutbound_with_options ::
    "crypto_lib \<Rightarrow> 'v resource_msgpack \<Rightarrow> bytes \<Rightarrow> bytes \<Rightarrow> bool \<Rightarrow> bytes option \<Rightarrow> bytes option \<Rightarrow> bool \<Rightarrow>
     (ResourceError, LazyMultiSegmentOutbound) result" where
  "LazyMultiSegmentOutbound_with_options lib rm random_hash data auto_compress metadata request_id is_response =
    (if length data > MAX_RESOURCE_SIZE then Err RE_TooLarge
     else
       let data_size = length data;
           metadata_wire_size = (case metadata of Some value \<Rightarrow> 3 + length value | None \<Rightarrow> 0) in
       if metadata_wire_size > MAX_EFFICIENT_SIZE then Err RE_MetadataTooLarge
       else
         let total_segments = required_segment_count data_size metadata_wire_size in
         if total_segments > MAX_SEGMENTS then Err RE_TooLarge
         else
           and_then (preflight_outbound rm data_size (map_option length metadata) request_id is_response True MTU) (\<lambda>_.
             Ok \<lparr>lz_data = data, lz_auto_compress = auto_compress, lz_metadata = metadata,
                 lz_metadata_wire_size = metadata_wire_size, lz_request_id = request_id, lz_is_response = is_response,
                 lz_next_offset = 0, lz_next_segment_index = 1,
                 lz_original_hash = compute_resource_hash lib data random_hash,
                 lz_total_segments = total_segments, lz_data_size = data_size\<rparr>))"

definition LazyMultiSegmentOutbound_remaining_segments :: "LazyMultiSegmentOutbound \<Rightarrow> nat" where
  "LazyMultiSegmentOutbound_remaining_segments z = lz_total_segments z - (lz_next_segment_index z - 1)"

definition LazyMultiSegmentOutbound_next_segment ::
    "crypto_lib \<Rightarrow> bz_lib \<Rightarrow> 'v resource_msgpack \<Rightarrow> (nat \<Rightarrow> bytes) \<Rightarrow> encryptor option \<Rightarrow> LazyMultiSegmentOutbound \<Rightarrow>
     LazyMultiSegmentOutbound \<times> (ResourceError, OutboundResource option) result" where
  "LazyMultiSegmentOutbound_next_segment lib bz rm random_bytes encrypt_fn z =
    (if lz_next_segment_index z > lz_total_segments z then (z, Ok None)
     else
       let segment_index = lz_next_segment_index z;
           segment_metadata = (if segment_index = 1 then lz_metadata z else None);
           z = (if segment_index = 1 then z\<lparr>lz_metadata := None\<rparr> else z);
           payload_limit = (if segment_index = 1 then MAX_EFFICIENT_SIZE - lz_metadata_wire_size z else MAX_EFFICIENT_SIZE);
           stop = min (usize_saturating_add (lz_next_offset z) payload_limit) (length (lz_data z));
           chunk = subslice (lz_next_offset z) stop (lz_data z)
       in case OutboundResource_with_options lib bz rm random_bytes chunk (lz_auto_compress z) segment_metadata None encrypt_fn of
            Inl e \<Rightarrow> (z, Err e)
          | Inr resource \<Rightarrow>
              let resource = resource\<lparr>
                    or_flags := (or_flags resource)\<lparr>rf_split := True, rf_is_response := lz_is_response z\<rparr>,
                    or_segment_index := segment_index, or_total_segments := lz_total_segments z,
                    or_request_id := lz_request_id z,
                    or_advertisement_data_size := lz_data_size z + lz_metadata_wire_size z,
                    or_original_hash := Some (lz_original_hash z)\<rparr>;
                  z = z\<lparr>lz_next_offset := stop, lz_next_segment_index := segment_index + 1\<rparr>;
                  z = (if lz_next_segment_index z > lz_total_segments z then z\<lparr>lz_data := []\<rparr> else z)
              in (z, Ok (Some resource)))"

record MultiSegmentOutbound =
  mo_original_hash :: bytes
  mo_segments :: "OutboundResource list"
  mo_total_segments :: nat
  mo_data_size :: nat

text \<open>The loop of \<open>MultiSegmentOutbound::with_options\<close>; the hooks of segment \<open>i\<close> are \<open>rnd i\<close> and \<open>enc i\<close>.\<close>

function segments_loop ::
    "crypto_lib \<Rightarrow> bz_lib \<Rightarrow> 'v resource_msgpack \<Rightarrow> (nat \<Rightarrow> nat \<Rightarrow> bytes) \<Rightarrow> (nat \<Rightarrow> encryptor option) \<Rightarrow>
     LazyMultiSegmentOutbound \<Rightarrow> (ResourceError, OutboundResource list) result" where
  "segments_loop lib bz rm rnd enc z =
    (case LazyMultiSegmentOutbound_next_segment lib bz rm (rnd (lz_next_segment_index z)) (enc (lz_next_segment_index z)) z of
       (z', Inl e) \<Rightarrow> Err e
     | (z', Inr None) \<Rightarrow> Ok []
     | (z', Inr (Some segment)) \<Rightarrow> and_then (segments_loop lib bz rm rnd enc z') (\<lambda>rest. Ok (segment # rest)))"
  by pat_completeness auto
termination
  by (relation "measure (\<lambda>(_, _, _, _, _, z). Suc (lz_total_segments z) - lz_next_segment_index z)")
     (auto simp: LazyMultiSegmentOutbound_next_segment_def Let_def split: if_splits sum.splits)

declare segments_loop.simps [simp del]

definition MultiSegmentOutbound_with_options ::
    "crypto_lib \<Rightarrow> bz_lib \<Rightarrow> 'v resource_msgpack \<Rightarrow> bytes \<Rightarrow> (nat \<Rightarrow> nat \<Rightarrow> bytes) \<Rightarrow> bytes \<Rightarrow> bool \<Rightarrow> bytes option \<Rightarrow>
     bytes option \<Rightarrow> bool \<Rightarrow> (nat \<Rightarrow> encryptor option) \<Rightarrow> (ResourceError, MultiSegmentOutbound) result" where
  "MultiSegmentOutbound_with_options lib bz rm random_hash rnd data auto_compress metadata request_id is_response enc =
     and_then (LazyMultiSegmentOutbound_with_options lib rm random_hash data auto_compress metadata request_id is_response)
       (\<lambda>lazy. and_then (segments_loop lib bz rm rnd enc lazy) (\<lambda>segments.
          Ok \<lparr>mo_original_hash = lz_original_hash lazy, mo_segments = segments,
              mo_total_segments = lz_total_segments lazy, mo_data_size = lz_data_size lazy\<rparr>))"

definition MultiSegmentOutbound_is_complete :: "MultiSegmentOutbound \<Rightarrow> bool" where
  "MultiSegmentOutbound_is_complete m \<longleftrightarrow> list_all (\<lambda>s. or_state s = RSt_Complete) (mo_segments m)"

definition cancellable :: "OutboundResource \<Rightarrow> bool" where
  "cancellable s \<longleftrightarrow> or_state s \<notin> {RSt_Failed, RSt_Complete}"

definition MultiSegmentOutbound_cancel_all :: "MultiSegmentOutbound \<Rightarrow> MultiSegmentOutbound \<times> nat" where
  "MultiSegmentOutbound_cancel_all m =
    (m\<lparr>mo_segments := map (\<lambda>s. if cancellable s then s\<lparr>or_state := RSt_Failed\<rparr> else s) (mo_segments m)\<rparr>,
     length (filter cancellable (mo_segments m)))"

record MultiSegmentInbound =
  mi_original_hash :: bytes
  mi_total_segments :: nat
  mi_segments :: "InboundResource option list"
  mi_assembled_segments :: "bytes option list"
  mi_data_size :: nat
  mi_metadata :: "bytes option"

definition MultiSegmentInbound_new :: "nat \<Rightarrow> bytes \<Rightarrow> MultiSegmentInbound" where
  "MultiSegmentInbound_new total_segments original_hash =
    \<lparr>mi_original_hash = original_hash, mi_total_segments = total_segments,
     mi_segments = replicate total_segments None, mi_assembled_segments = replicate total_segments None,
     mi_data_size = 0, mi_metadata = None\<rparr>"

definition MultiSegmentInbound_set_segment :: "nat \<Rightarrow> InboundResource \<Rightarrow> MultiSegmentInbound \<Rightarrow> MultiSegmentInbound" where
  "MultiSegmentInbound_set_segment segment_index resource m =
    (if segment_index \<ge> 1 \<and> segment_index \<le> mi_total_segments m
     then m\<lparr>mi_segments := (mi_segments m)[segment_index - 1 := Some resource]\<rparr> else m)"

definition MultiSegmentInbound_assemble_segment ::
    "crypto_lib \<Rightarrow> bz_lib \<Rightarrow> nat \<Rightarrow> decryptor option \<Rightarrow> MultiSegmentInbound \<Rightarrow>
     MultiSegmentInbound \<times> (ResourceError, unit) result" where
  "MultiSegmentInbound_assemble_segment lib bz segment_index decrypt_fn m =
    (if segment_index < 1 \<or> segment_index > mi_total_segments m then (m, Err RE_InvalidAdvertisement)
     else
       let idx = segment_index - 1 in
       case mi_segments m ! idx of
         Some resource \<Rightarrow>
           (case InboundResource_assemble lib bz decrypt_fn resource of
              (resource, Inl e) \<Rightarrow> (m\<lparr>mi_segments := (mi_segments m)[idx := Some resource]\<rparr>, Err e)
            | (resource, Inr data) \<Rightarrow>
                (m\<lparr>mi_segments := (mi_segments m)[idx := Some resource],
                   mi_assembled_segments := (mi_assembled_segments m)[idx := Some data]\<rparr>, Ok ()))
       | None \<Rightarrow> (m, Err RE_Incomplete))"

definition MultiSegmentInbound_set_segment_data ::
    "nat \<Rightarrow> bytes \<Rightarrow> MultiSegmentInbound \<Rightarrow> MultiSegmentInbound \<times> (ResourceError, unit) result" where
  "MultiSegmentInbound_set_segment_data segment_index data m =
    (if segment_index < 1 \<or> segment_index > mi_total_segments m then (m, Err RE_InvalidAdvertisement)
     else
       let idx = segment_index - 1 in
       if mi_assembled_segments m ! idx \<noteq> None then (m, Err RE_DuplicateSegment)
       else (m\<lparr>mi_data_size := usize_saturating_add (mi_data_size m) (length data),
               mi_assembled_segments := (mi_assembled_segments m)[idx := Some data]\<rparr>, Ok ()))"

definition MultiSegmentInbound_set_metadata :: "bytes \<Rightarrow> MultiSegmentInbound \<Rightarrow> MultiSegmentInbound" where
  "MultiSegmentInbound_set_metadata meta m = (if mi_metadata m = None then m\<lparr>mi_metadata := Some meta\<rparr> else m)"

definition MultiSegmentInbound_is_complete :: "MultiSegmentInbound \<Rightarrow> bool" where
  "MultiSegmentInbound_is_complete m \<longleftrightarrow> list_all (\<lambda>s. s \<noteq> None) (mi_assembled_segments m)"

definition MultiSegmentInbound_reassemble :: "MultiSegmentInbound \<Rightarrow> (ResourceError, bytes) result" where
  "MultiSegmentInbound_reassemble m =
    (if \<not> MultiSegmentInbound_is_complete m then Err RE_Incomplete else concat_parts (mi_assembled_segments m))"

definition MultiSegmentInbound_assembled_count :: "MultiSegmentInbound \<Rightarrow> nat" where
  "MultiSegmentInbound_assembled_count m = length (filter (\<lambda>s. s \<noteq> None) (mi_assembled_segments m))"

definition MultiSegmentInbound_progress :: "MultiSegmentInbound \<Rightarrow> real" where
  "MultiSegmentInbound_progress m =
    (if mi_total_segments m = 0 then 1 else real (MultiSegmentInbound_assembled_count m) / real (mi_total_segments m))"

subsection \<open>Resources with session keys\<close>

text \<open>The hook of the encrypted constructors: the plaintext when encryption fails. \<open>iv n\<close> is the vector drawn in
  attempt \<open>n\<close>.\<close>

definition link_encryptor :: "crypto_lib \<Rightarrow> (nat \<Rightarrow> bytes) \<Rightarrow> LinkKeys \<Rightarrow> encryptor" where
  "link_encryptor lib iv keys n plaintext =
    (case link_encrypt lib (iv n) keys plaintext of Inr c \<Rightarrow> c | Inl _ \<Rightarrow> plaintext)"

definition link_decryptor :: "crypto_lib \<Rightarrow> LinkKeys \<Rightarrow> decryptor" where
  "link_decryptor lib keys ciphertext = map_err (\<lambda>_. RE_Corrupt) (link_decrypt lib keys ciphertext)"

record LinkResource =
  lr_link_id :: bytes
  lr_outbound :: "OutboundResource option"
  lr_inbound :: "InboundResource option"
  lr_session_keys :: "LinkKeys option"

definition LinkResource_new_outbound ::
    "crypto_lib \<Rightarrow> bz_lib \<Rightarrow> 'v resource_msgpack \<Rightarrow> (nat \<Rightarrow> bytes) \<Rightarrow> bytes \<Rightarrow> bytes \<Rightarrow> bool \<Rightarrow>
     (ResourceError, LinkResource) result" where
  "LinkResource_new_outbound lib bz rm random_bytes link_id data auto_compress =
     and_then (OutboundResource_new lib bz rm random_bytes data auto_compress None) (\<lambda>outbound.
       Ok \<lparr>lr_link_id = link_id, lr_outbound = Some outbound, lr_inbound = None, lr_session_keys = None\<rparr>)"

definition LinkResource_new_outbound_encrypted ::
    "crypto_lib \<Rightarrow> bz_lib \<Rightarrow> 'v resource_msgpack \<Rightarrow> (nat \<Rightarrow> bytes) \<Rightarrow> (nat \<Rightarrow> bytes) \<Rightarrow> bytes \<Rightarrow> bytes \<Rightarrow> bool \<Rightarrow> LinkKeys \<Rightarrow>
     (ResourceError, LinkResource) result" where
  "LinkResource_new_outbound_encrypted lib bz rm random_bytes iv link_id data auto_compress keys =
     and_then (OutboundResource_new lib bz rm random_bytes data auto_compress (Some (link_encryptor lib iv keys))) (\<lambda>outbound.
       Ok \<lparr>lr_link_id = link_id, lr_outbound = Some outbound, lr_inbound = None, lr_session_keys = Some keys\<rparr>)"

definition LinkResource_new_inbound ::
    "bytes \<Rightarrow> nat \<Rightarrow> nat \<Rightarrow> nat \<Rightarrow> bytes \<Rightarrow> bytes \<Rightarrow> ResourceFlags \<Rightarrow> bytes list \<Rightarrow> (ResourceError, LinkResource) result" where
  "LinkResource_new_inbound link_id total_parts total_size data_size random_hash resource_hash flags map_hashes =
     and_then (InboundResource_new total_parts total_size data_size random_hash resource_hash flags map_hashes) (\<lambda>inbound.
       Ok \<lparr>lr_link_id = link_id, lr_outbound = None, lr_inbound = Some inbound, lr_session_keys = None\<rparr>)"

definition LinkResource_next_part :: "crypto_lib \<Rightarrow> bytes \<Rightarrow> nat \<Rightarrow> LinkResource \<Rightarrow> bytes option" where
  "LinkResource_next_part lib iv i l =
     Option.bind (lr_outbound l) (\<lambda>outbound.
     Option.bind (OutboundResource_get_part i outbound) (\<lambda>part.
       case lr_session_keys l of
         Some keys \<Rightarrow> (case link_encrypt lib iv keys part of Inr c \<Rightarrow> Some c | Inl _ \<Rightarrow> None)
       | None \<Rightarrow> Some part))"

definition LinkResource_receive_part :: "crypto_lib \<Rightarrow> bytes \<Rightarrow> LinkResource \<Rightarrow> LinkResource \<times> bool" where
  "LinkResource_receive_part lib data l =
    (case (case lr_session_keys l of Some keys \<Rightarrow> link_decrypt lib keys data | None \<Rightarrow> Ok data) of
       Inl _ \<Rightarrow> (l, False)
     | Inr plaintext \<Rightarrow>
         (case lr_inbound l of
            Some inbound \<Rightarrow>
              (case InboundResource_receive_part lib plaintext inbound of
                 (inbound, accepted) \<Rightarrow> (l\<lparr>lr_inbound := Some inbound\<rparr>, accepted))
          | None \<Rightarrow> (l, False)))"

definition LinkResource_is_complete :: "LinkResource \<Rightarrow> bool" where
  "LinkResource_is_complete l = (case lr_inbound l of Some i \<Rightarrow> InboundResource_is_complete i | None \<Rightarrow> False)"

definition LinkResource_assemble ::
    "crypto_lib \<Rightarrow> bz_lib \<Rightarrow> LinkResource \<Rightarrow> LinkResource \<times> (ResourceError, bytes) result" where
  "LinkResource_assemble lib bz l =
    (let decrypt_fn = map_option (link_decryptor lib) (lr_session_keys l) in
     case lr_inbound l of
       None \<Rightarrow> (l, Err RE_Incomplete)
     | Some inbound \<Rightarrow>
         (case InboundResource_assemble lib bz decrypt_fn inbound of (inbound, r) \<Rightarrow> (l\<lparr>lr_inbound := Some inbound\<rparr>, r)))"

definition LinkResource_progress :: "LinkResource \<Rightarrow> real" where
  "LinkResource_progress l = (case lr_inbound l of Some i \<Rightarrow> InboundResource_progress i | None \<Rightarrow> 0)"

definition LinkResource_num_parts :: "LinkResource \<Rightarrow> nat" where
  "LinkResource_num_parts l =
    (case lr_outbound l of Some outbound \<Rightarrow> OutboundResource_num_parts outbound
     | None \<Rightarrow> (case lr_inbound l of Some inbound \<Rightarrow> ir_total_parts inbound | None \<Rightarrow> 0))"

definition LinkResource_validate_proof :: "bytes \<Rightarrow> LinkResource \<Rightarrow> LinkResource \<times> bool" where
  "LinkResource_validate_proof proof_data l =
    (case lr_outbound l of
       Some outbound \<Rightarrow>
         (case OutboundResource_validate_proof proof_data outbound of
            (outbound, ok) \<Rightarrow> (l\<lparr>lr_outbound := Some outbound\<rparr>, ok))
     | None \<Rightarrow> (l, False))"

subsection \<open>Metadata prefixes\<close>

lemma u24_bytes:
  "push_bit 16 (take_bit 8 (drop_bit 16 n)) OR push_bit 8 (take_bit 8 (drop_bit 8 n)) OR take_bit 8 n = take_bit 24 (n :: nat)"
proof (rule bit_eqI)
  fix k :: nat
  consider "k < 8" | "8 \<le> k" "k < 16" | "16 \<le> k" by linarith
  then show "bit (push_bit 16 (take_bit 8 (drop_bit 16 n)) OR push_bit 8 (take_bit 8 (drop_bit 8 n)) OR take_bit 8 n) k
      = bit (take_bit 24 n) k"
    by cases (auto simp: bit_or_iff bit_push_bit_iff bit_take_bit_iff bit_drop_bit_eq)
qed

lemma u24_roundtrip:
  assumes "n < 2 ^ 24"
  shows "u24_from_be (u24_to_be n ! 0) (u24_to_be n ! 1) (u24_to_be n ! 2) = n"
proof -
  have byte: "unat (of_nat (m AND 0xFF) :: u8) = take_bit 8 m" for m
  proof -
    have "m AND 0xFF = take_bit 8 m" by (simp add: take_bit_eq_mask mask_eq_exp_minus_1)
    then show ?thesis by (simp add: unat_of_nat take_bit_eq_mod)
  qed
  have "take_bit 24 n = n" using assms by (simp add: take_bit_nat_eq_self)
  then show ?thesis using u24_bytes [of n] by (simp add: u24_to_be_def u24_from_be_def byte or.assoc)
qed

lemma length_u24_to_be [simp]: "length (u24_to_be n) = 3"
  by (simp add: u24_to_be_def)

subsection \<open>What a constructor builds\<close>

definition full_content :: "bytes option \<Rightarrow> bytes \<Rightarrow> bytes" where
  "full_content metadata data = (case metadata of Some m \<Rightarrow> u24_to_be (length m) @ m @ data | None \<Rightarrow> data)"

definition processed_content :: "bz_lib \<Rightarrow> bool \<Rightarrow> bytes \<Rightarrow> bytes \<times> bool" where
  "processed_content bz auto_compress full =
    (if auto_compress \<and> length full \<le> AUTO_COMPRESS_MAX_SIZE then try_compress bz full else (full, False))"

definition sealed :: "encryptor option \<Rightarrow> nat \<Rightarrow> bytes \<Rightarrow> bytes" where
  "sealed encrypt_fn n blob = (case encrypt_fn of Some enc \<Rightarrow> enc n blob | None \<Rightarrow> blob)"

text \<open>The resource made in attempt \<open>n\<close>.\<close>

definition built ::
    "crypto_lib \<Rightarrow> bz_lib \<Rightarrow> (nat \<Rightarrow> bytes) \<Rightarrow> bytes \<Rightarrow> bool \<Rightarrow> bytes option \<Rightarrow> nat \<Rightarrow> encryptor option \<Rightarrow> nat \<Rightarrow> OutboundResource" where
  "built lib bz rnd data auto_compress metadata sdu encrypt_fn n =
    (let full = full_content metadata data;
         blob = sealed encrypt_fn n (rnd n @ fst (processed_content bz auto_compress full));
         resource_hash = compute_resource_hash lib full (rnd n)
     in \<lparr>or_state = RSt_None, or_data = data, or_random_hash = rnd n, or_resource_hash = resource_hash,
         or_expected_proof = compute_expected_proof lib full resource_hash,
         or_flags = \<lparr>rf_encrypted = (encrypt_fn \<noteq> None), rf_compressed = snd (processed_content bz auto_compress full),
           rf_split = False, rf_is_request = False, rf_is_response = False, rf_has_metadata = (metadata \<noteq> None)\<rparr>,
         or_parts = chunks sdu blob, or_map_hashes = map (\<lambda>p. get_map_hash lib p (rnd n)) (chunks sdu blob),
         or_total_size = length blob, or_advertisement_data_size = length full, or_segment_index = 1,
         or_total_segments = 1, or_request_id = None, or_original_hash = None, or_window = WindowState_new,
         or_retries = 0, or_sdu = sdu, or_metadata = map_option (\<lambda>m. u24_to_be (length m) @ m) metadata,
         or_metadata_size = (case metadata of Some m \<Rightarrow> 3 + length m | None \<Rightarrow> 0)\<rparr>)"

lemma with_options_inner_step:
  assumes "OutboundResource_with_options_inner lib bz rm rnd data ac metadata link_sdu enc n = Ok res"
    and "sdu = (case link_sdu of Some s \<Rightarrow> s | None \<Rightarrow> SDU)"
  shows "0 < sdu \<and> length (full_content metadata data) \<le> MAX_EFFICIENT_SIZE \<and>
    (if \<not> distinct (or_map_hashes (built lib bz rnd data ac metadata sdu enc n)) \<and> n < MAX_COLLISION_RETRIES
     then OutboundResource_with_options_inner lib bz rm rnd data ac metadata link_sdu enc (n + 1) = Ok res
     else res = built lib bz rnd data ac metadata sdu enc n)"
proof (cases metadata)
  case None
  then show ?thesis
    using assms(1) unfolding OutboundResource_with_options_inner.simps [of _ _ _ _ _ _ _ _ _ n] assms(2) [symmetric]
    by (auto simp: Let_def case_prod_unfold and_then_def built_def full_content_def processed_content_def sealed_def
         split: if_split_asm sum.split_asm)
next
  case (Some meta)
  then show ?thesis
    using assms(1) unfolding OutboundResource_with_options_inner.simps [of _ _ _ _ _ _ _ _ _ n] assms(2) [symmetric]
    by (auto simp: Let_def case_prod_unfold and_then_def built_def full_content_def processed_content_def sealed_def
         split: if_split_asm sum.split_asm)
qed

lemma with_options_inner_built:
  assumes "OutboundResource_with_options_inner lib bz rm rnd data ac metadata link_sdu enc n = Ok res"
    and "sdu = (case link_sdu of Some s \<Rightarrow> s | None \<Rightarrow> SDU)"
  shows "\<exists>k. res = built lib bz rnd data ac metadata sdu enc k
    \<and> (distinct (or_map_hashes res) \<or> k \<ge> MAX_COLLISION_RETRIES)"
  using assms(1)
proof (induction "MAX_COLLISION_RETRIES - n" arbitrary: n)
  case 0
  then show ?case using with_options_inner_step [OF 0(2) assms(2)] by (auto split: if_splits)
next
  case (Suc m)
  have "m = MAX_COLLISION_RETRIES - (n + 1)" using Suc(2) by simp
  then show ?case using with_options_inner_step [OF Suc(3) assms(2)] Suc(1) by (auto split: if_splits)
qed

lemma with_options_built:
  assumes "OutboundResource_with_options lib bz rm rnd data ac metadata link_sdu enc = Ok res"
    and "sdu = (case link_sdu of Some s \<Rightarrow> s | None \<Rightarrow> SDU)"
  obtains k where "res = built lib bz rnd data ac metadata sdu enc k" "0 < sdu"
    "length (full_content metadata data) \<le> MAX_EFFICIENT_SIZE"
  using with_options_inner_built [OF assms [unfolded OutboundResource_with_options_def]]
    with_options_inner_step [OF assms [unfolded OutboundResource_with_options_def]] by blast

lemma built_data [simp]: "or_data (built lib bz rnd data ac metadata sdu enc k) = data"
  by (simp add: built_def Let_def)

subsection \<open>Reassembly\<close>

definition unsealed :: "decryptor option \<Rightarrow> bytes \<Rightarrow> (ResourceError, bytes) result" where
  "unsealed decrypt_fn stream = (case decrypt_fn of Some dec \<Rightarrow> dec stream | None \<Rightarrow> Ok stream)"

definition hooks_match :: "encryptor option \<Rightarrow> decryptor option \<Rightarrow> bool" where
  "hooks_match enc dec \<longleftrightarrow> (\<forall>n blob. unsealed dec (sealed enc n blob) = Ok blob)"

lemma hooks_match_none [simp]: "hooks_match None None"
  by (simp add: hooks_match_def unsealed_def sealed_def)

lemma hooks_match_link:
  assumes "cipher_lib_ok lib" and "\<forall>n. length (iv n) = 16" and "keys_ok keys"
  shows "hooks_match (Some (link_encryptor lib iv keys)) (Some (link_decryptor lib keys))"
proof -
  have "link_decryptor lib keys (link_encryptor lib iv keys n b) = Ok b" for n b
    using link_encrypt_decrypt [OF assms(1) assms(2) [rule_format, of n] assms(3), of b]
    by (auto simp: link_encryptor_def link_decryptor_def map_err_def)
  then show ?thesis by (simp add: hooks_match_def unsealed_def sealed_def)
qed

lemma concat_parts_Some [simp]: "concat_parts (map Some ps) = Ok (concat ps)"
  by (induction ps) (simp_all add: and_then_def)

lemma processed_content_undone:
  assumes "bz_ok bz" and "length full \<le> MAX_EFFICIENT_SIZE" and "processed_content bz ac full = (p, c)"
  shows "(if c then map_err (\<lambda>_. RE_DecompressionFailed) (bz2_decompress bz p MAX_EFFICIENT_SIZE) else Ok p) = Ok full"
proof (cases "ac \<and> length full \<le> AUTO_COMPRESS_MAX_SIZE \<and> c")
  case True
  then have "bz2_compress bz full = Ok p" using assms(3)
    by (auto simp: processed_content_def try_compress_def split: sum.splits if_splits)
  then show ?thesis using bz2_compress_decompress [OF assms(1) _ assms(2)] True by (simp add: map_err_def)
next
  case False
  then show ?thesis using assms(3)
    by (auto simp: processed_content_def try_compress_def split: sum.splits if_splits)
qed

lemma full_content_split:
  assumes "length (full_content (Some m) data) \<le> MAX_EFFICIENT_SIZE"
  shows "u24_from_be (full_content (Some m) data ! 0) (full_content (Some m) data ! 1) (full_content (Some m) data ! 2) = length m"
proof -
  have "length m < 2 ^ 24" using assms by (simp add: full_content_def MAX_EFFICIENT_SIZE_def)
  from u24_roundtrip [OF this] show ?thesis by (simp add: full_content_def nth_append)
qed

text \<open>A receiver that holds all parts of the resource built in attempt \<open>k\<close>.\<close>

definition holds_all :: "OutboundResource \<Rightarrow> InboundResource \<Rightarrow> bool" where
  "holds_all res r \<longleftrightarrow> ir_parts r = map Some (or_parts res) \<and> ir_total_parts r = length (or_parts res)
     \<and> ir_consecutive_completed r = ir_total_parts r \<and> ir_flags r = or_flags res
     \<and> ir_random_hash r = or_random_hash res \<and> ir_resource_hash r = or_resource_hash res"

lemma assemble_built:
  assumes "bz_ok bz" and "length (rnd k) = 4" and "hooks_match enc dec" and "0 < sdu"
    and "length (full_content metadata data) \<le> MAX_EFFICIENT_SIZE"
    and "holds_all ((built lib bz rnd data ac metadata sdu enc k)\<lparr>or_flags := fl\<rparr>) r"
    and "rf_compressed fl = rf_compressed (or_flags (built lib bz rnd data ac metadata sdu enc k))"
    and "rf_has_metadata fl = (metadata \<noteq> None)"
  shows "InboundResource_assemble lib bz dec r =
    (r\<lparr>ir_state := RSt_Complete, ir_metadata := (if metadata = None then ir_metadata r else metadata)\<rparr>, Ok data)"
proof -
  let ?full = "full_content metadata data"
  obtain p c where pc: "processed_content bz ac ?full = (p, c)" by fastforce
  let ?blob = "sealed enc k (rnd k @ p)"
  have r: "InboundResource_is_complete r" "ir_parts r = map Some (chunks sdu ?blob)" "ir_random_hash r = rnd k"
      "ir_resource_hash r = compute_resource_hash lib ?full (rnd k)" "rf_compressed (ir_flags r) = c"
      "rf_has_metadata (ir_flags r) = (metadata \<noteq> None)"
    using assms(6,7,8) by (auto simp: holds_all_def built_def Let_def pc InboundResource_is_complete_def)
  have stream: "concat_parts (ir_parts r) = Ok ?blob" using r(2) concat_chunks [OF assms(4)] by simp
  have opened: "(case dec of Some d \<Rightarrow> d ?blob | None \<Rightarrow> Ok ?blob) = Ok (rnd k @ p)"
    using assms(3) by (simp add: hooks_match_def unsealed_def)
  have undone: "(if c then map_err (\<lambda>_. RE_DecompressionFailed) (bz2_decompress bz p MAX_EFFICIENT_SIZE) else Ok p) = Ok ?full"
    by (rule processed_content_undone [OF assms(1,5) pc])
  show ?thesis
  proof (cases metadata)
    case None
    then show ?thesis
      using r stream opened undone assms(2)
      by (simp add: InboundResource_assemble_def RESOURCE_RANDOM_HASH_SIZE_def full_content_def)
  next
    case (Some m)
    have len: "length ?full = 3 + length m + length data" using Some by (simp add: full_content_def)
    have "subslice 3 (3 + length m) ?full = m" "drop (3 + length m) ?full = data"
      using Some by (simp_all add: full_content_def subslice_def)
    then show ?thesis
      using r stream opened undone assms(2) Some len full_content_split [OF assms(5) [unfolded Some]]
      by (simp add: InboundResource_assemble_def RESOURCE_RANDOM_HASH_SIZE_def)
  qed
qed

lemma u24_from_be_bytes: "u24_to_be (u24_from_be a b c) = [a, b, c]"
proof -
  let ?n = "u24_from_be a b c"
  have bits: "drop_bit 16 ?n AND 0xFF = unat a" "drop_bit 8 ?n AND 0xFF = unat b" "?n AND 0xFF = unat c"
  proof -
    have ff: "m AND 0xFF = take_bit 8 m" for m :: nat by (simp add: take_bit_eq_mask mask_eq_exp_minus_1)
    have small: "take_bit 8 (unat x) = unat x" for x :: u8
      using unsigned_less [of x] by (intro take_bit_nat_eq_self) simp
    have hi: "\<not> bit (unat x) k" if "8 \<le> k" for x :: u8 and k
      using small [of x] that by (metis bit_take_bit_iff linorder_not_le)
    have low: "bit (unat x) k \<Longrightarrow> k < 8" for x :: u8 and k using hi [of k x] by (meson not_less)
    show "drop_bit 16 ?n AND 0xFF = unat a" unfolding ff u24_from_be_def
      by (rule bit_eqI) (auto simp: bit_or_iff bit_push_bit_iff bit_take_bit_iff bit_drop_bit_eq hi dest: low)
    show "drop_bit 8 ?n AND 0xFF = unat b" unfolding ff u24_from_be_def
      by (rule bit_eqI) (auto simp: bit_or_iff bit_push_bit_iff bit_take_bit_iff bit_drop_bit_eq hi dest: low)
    show "?n AND 0xFF = unat c" unfolding ff u24_from_be_def
      by (rule bit_eqI) (auto simp: bit_or_iff bit_push_bit_iff bit_take_bit_iff bit_drop_bit_eq hi dest: low)
  qed
  then show ?thesis by (simp add: u24_to_be_def)
qed

text \<open>The steps of reassembly on the decrypted stream.\<close>

definition decoded :: "bz_lib \<Rightarrow> ResourceFlags \<Rightarrow> bytes \<Rightarrow> (ResourceError, bytes) result" where
  "decoded bz fl data =
    (if rf_compressed fl then map_err (\<lambda>_. RE_DecompressionFailed) (bz2_decompress bz data MAX_EFFICIENT_SIZE) else Ok data)"

definition verified :: "crypto_lib \<Rightarrow> bytes \<Rightarrow> InboundResource \<Rightarrow> InboundResource \<times> (ResourceError, bytes) result" where
  "verified lib d r =
    (if compute_resource_hash lib d (ir_random_hash r) \<noteq> ir_resource_hash r then (r\<lparr>ir_state := RSt_Corrupt\<rparr>, Err RE_HashMismatch)
     else if rf_has_metadata (ir_flags r) then
       if length d < 3 then (r\<lparr>ir_state := RSt_Corrupt\<rparr>, Err (RE_InvalidMetadata 0 (length d)))
       else let n = u24_from_be (d ! 0) (d ! 1) (d ! 2) in
         if length d < 3 + n then (r\<lparr>ir_state := RSt_Corrupt\<rparr>, Err (RE_InvalidMetadata n (length d - 3)))
         else (r\<lparr>ir_metadata := Some (subslice 3 (3 + n) d), ir_state := RSt_Complete\<rparr>, Ok (drop (3 + n) d))
     else (r\<lparr>ir_state := RSt_Complete\<rparr>, Ok d))"

text \<open>
  C18: integrity of a received resource. When reassembly succeeds, the resource is complete and the SHA-256 hash of
  the framed metadata, the payload and the random tag is the advertised resource hash; the metadata stored is the
  one that was framed. When reassembly fails, the resource does not become complete.
\<close>

theorem resource_integrity:
  assumes "InboundResource_assemble lib bz dec r = (r', res)" and "ir_state r \<noteq> RSt_Complete"
  shows "case res of
      Inr payload \<Rightarrow> ir_state r' = RSt_Complete
        \<and> compute_resource_hash lib (full_content (if rf_has_metadata (ir_flags r) then ir_metadata r' else None) payload)
            (ir_random_hash r) = ir_resource_hash r
        \<and> (rf_has_metadata (ir_flags r) \<longrightarrow> ir_metadata r' \<noteq> None)
    | Inl e \<Rightarrow> ir_state r' \<noteq> RSt_Complete"
proof (cases res)
  case (Inl e)
  then show ?thesis using assms
    by (auto simp: InboundResource_assemble_def Let_def split: if_splits sum.splits option.splits)
next
  case (Inr payload)
  have frame: "full_content (Some (subslice 3 (3 + n) d)) (drop (3 + n) d) = d"
    if "n = u24_from_be (d ! 0) (d ! 1) (d ! 2)" "3 + n \<le> length d" for d n
  proof -
    have "[d ! 0, d ! 1, d ! 2] = take 3 d" using that(2) by (intro nth_equalityI) (auto simp: less_Suc_eq numeral_3_eq_3 numeral_2_eq_2)
    moreover have "length (subslice 3 (3 + n) d) = n" using that(2) by (simp add: subslice_def)
    moreover have "take 3 d @ take n (drop 3 d) @ drop (3 + n) d = d"
      by (metis append.assoc append_take_drop_id take_add)
    ultimately show ?thesis using u24_from_be_bytes [of "d ! 0" "d ! 1" "d ! 2"] that(1)
      by (simp add: full_content_def subslice_def)
  qed
  obtain s0 where s0: "concat_parts (ir_parts r) = Ok s0"
    using assms Inr by (auto simp: InboundResource_assemble_def Let_def split: if_splits sum.splits)
  obtain s where s: "(case dec of Some dec \<Rightarrow> dec s0 | None \<Rightarrow> Ok s0) = Ok s"
    using assms(1) Inr s0 by (auto simp: InboundResource_assemble_def Let_def split: if_splits sum.splits)
  have complete: "InboundResource_is_complete r" "\<not> length s < RESOURCE_RANDOM_HASH_SIZE"
    using assms(1) Inr s0 s by (auto simp: InboundResource_assemble_def Let_def split: if_splits)
  have eq: "InboundResource_assemble lib bz dec r = (case decoded bz (ir_flags r) (drop RESOURCE_RANDOM_HASH_SIZE s) of
      Inl e \<Rightarrow> (r\<lparr>ir_state := RSt_Assembling\<rparr>, Err e)
    | Inr d \<Rightarrow> verified lib d r)"
    using s0 s complete by (simp add: InboundResource_assemble_def Let_def decoded_def [symmetric] verified_def split: sum.split)
  then obtain d where d: "verified lib d r = (r', Ok payload)"
    using assms(1) Inr by (auto split: sum.splits)
  then show ?thesis using Inr frame [OF refl, of d]
    by (auto simp: verified_def Let_def full_content_def [of None] split: if_split_asm)
qed

definition example_inbound :: InboundResource where
  "example_inbound = \<lparr>ir_state = RSt_Transferring, ir_parts = [Some [1, 2, 3, 4, 0, 0, 1, 9], Some [7, 8]], ir_total_parts = 2,
     ir_random_hash = [1, 2, 3, 4], ir_resource_hash = lib_sha256 example_lib [0, 0, 1, 9, 7, 8, 1, 2, 3, 4],
     ir_flags = example_flags\<lparr>rf_has_metadata := True\<rparr>, ir_total_size = 10, ir_data_size = 6, ir_consecutive_completed = 2,
     ir_window = WindowState_new, ir_map_hashes = [], ir_sdu = 8, ir_metadata = None\<rparr>"

theorem resource_integrity_witness:
  "\<exists>r'. InboundResource_assemble example_lib example_bz None example_inbound = (r', Ok [7, 8])
     \<and> compute_resource_hash example_lib (full_content (ir_metadata r') [7, 8]) [1, 2, 3, 4] = ir_resource_hash example_inbound"
proof -
  let ?r = "example_inbound\<lparr>ir_metadata := Some [9], ir_state := RSt_Complete\<rparr>"
  have run: "InboundResource_assemble example_lib example_bz None example_inbound = (?r, Ok [7, 8])"
    by (simp add: InboundResource_assemble_def InboundResource_is_complete_def example_inbound_def example_flags_def
        RESOURCE_RANDOM_HASH_SIZE_def and_then_def compute_resource_hash_def u24_from_be_def subslice_def Let_def)
  have "ir_state example_inbound \<noteq> RSt_Complete" by (simp add: example_inbound_def)
  from resource_integrity [OF run this] run show ?thesis
    by (intro exI [of _ ?r]) (simp add: example_inbound_def example_flags_def)
qed

subsection \<open>Splitting and joining\<close>

lemma next_segment_Some:
  assumes "LazyMultiSegmentOutbound_next_segment lib bz rm rnd enc z = (z', Ok (Some s))"
    and "length (lz_data z) \<le> MAX_RESOURCE_SIZE" and "lz_next_offset z \<le> length (lz_data z)"
    and "limit = (if lz_next_segment_index z = 1 then MAX_EFFICIENT_SIZE - lz_metadata_wire_size z else MAX_EFFICIENT_SIZE)"
  shows "lz_next_segment_index z \<le> lz_total_segments z"
    and "or_data s = take limit (drop (lz_next_offset z) (lz_data z))"
    and "lz_next_offset z' = min (lz_next_offset z + limit) (length (lz_data z))"
    and "lz_next_segment_index z' = Suc (lz_next_segment_index z)"
    and "lz_total_segments z' = lz_total_segments z" and "lz_metadata_wire_size z' = lz_metadata_wire_size z"
    and "lz_data z' = (if lz_next_segment_index z = lz_total_segments z then [] else lz_data z)"
    and "or_segment_index s = lz_next_segment_index z" and "or_total_segments s = lz_total_segments z"
    and "or_original_hash s = Some (lz_original_hash z)" and "lz_original_hash z' = lz_original_hash z"
proof -
  have idx: "\<not> lz_next_segment_index z > lz_total_segments z"
    using assms(1) by (auto simp: LazyMultiSegmentOutbound_next_segment_def)
  have sat: "usize_saturating_add (lz_next_offset z) limit = lz_next_offset z + limit"
    using assms(2-4) by (auto simp: usize_saturating_add_def MAX_RESOURCE_SIZE_def MAX_EFFICIENT_SIZE_def)
  let ?stop = "min (lz_next_offset z + limit) (length (lz_data z))"
  let ?meta = "if lz_next_segment_index z = 1 then lz_metadata z else None"
  obtain res where res: "OutboundResource_with_options lib bz rm rnd (subslice (lz_next_offset z) ?stop (lz_data z))
      (lz_auto_compress z) ?meta None enc = Ok res"
    and zs: "z' = (let w = (if lz_next_segment_index z = 1 then z\<lparr>lz_metadata := None\<rparr> else z)\<lparr>lz_next_offset := ?stop,
          lz_next_segment_index := lz_next_segment_index z + 1\<rparr>
        in if lz_next_segment_index z + 1 > lz_total_segments z then w\<lparr>lz_data := []\<rparr> else w)"
      "s = res\<lparr>or_flags := (or_flags res)\<lparr>rf_split := True, rf_is_response := lz_is_response z\<rparr>,
          or_segment_index := lz_next_segment_index z, or_total_segments := lz_total_segments z,
          or_request_id := lz_request_id z, or_advertisement_data_size := lz_data_size z + lz_metadata_wire_size z,
          or_original_hash := Some (lz_original_hash z)\<rparr>"
    using assms(1) idx sat assms(4)
    by (cases "lz_next_segment_index z = 1")
       (auto simp: LazyMultiSegmentOutbound_next_segment_def Let_def split: sum.splits if_splits)
  have "or_data res = subslice (lz_next_offset z) ?stop (lz_data z)"
    using with_options_built [OF res refl] built_data by metis
  also have "\<dots> = take limit (drop (lz_next_offset z) (lz_data z))"
    using assms(3) by (auto simp: subslice_def min_def)
  finally have d: "or_data s = take limit (drop (lz_next_offset z) (lz_data z))" using zs(2) by simp
  show "or_data s = take limit (drop (lz_next_offset z) (lz_data z))" by (rule d)
  show "lz_next_segment_index z \<le> lz_total_segments z" using idx by simp
  show "lz_next_offset z' = min (lz_next_offset z + limit) (length (lz_data z))"
    "lz_next_segment_index z' = Suc (lz_next_segment_index z)" "lz_total_segments z' = lz_total_segments z"
    "lz_metadata_wire_size z' = lz_metadata_wire_size z" "lz_original_hash z' = lz_original_hash z"
    "lz_data z' = (if lz_next_segment_index z = lz_total_segments z then [] else lz_data z)"
    using zs(1) idx by (auto simp: Let_def)
  show "or_segment_index s = lz_next_segment_index z" "or_total_segments s = lz_total_segments z"
    "or_original_hash s = Some (lz_original_hash z)"
    using zs(2) by simp_all
qed

lemma segments_loop_first:
  assumes "segments_loop lib bz rm rnd enc z = Ok segs" and "lz_next_segment_index z \<le> lz_total_segments z"
  shows "\<exists>z' s rest. LazyMultiSegmentOutbound_next_segment lib bz rm (rnd (lz_next_segment_index z))
      (enc (lz_next_segment_index z)) z = (z', Ok (Some s)) \<and> segments_loop lib bz rm rnd enc z' = Ok rest \<and> segs = s # rest"
proof -
  let ?next = "LazyMultiSegmentOutbound_next_segment lib bz rm (rnd (lz_next_segment_index z)) (enc (lz_next_segment_index z)) z"
  obtain z' r where r: "?next = (z', r)" by fastforce
  have "r \<noteq> Ok None"
    using r assms(2) by (auto simp: LazyMultiSegmentOutbound_next_segment_def Let_def split: sum.splits)
  moreover have "r \<noteq> Err e" for e
    using assms(1) r by (subst (asm) segments_loop.simps) auto
  ultimately obtain s where s: "r = Ok (Some s)" by (cases r) auto
  show ?thesis using assms(1) r s
    by (subst (asm) segments_loop.simps) (auto simp: and_then_def split: sum.splits)
qed

text \<open>What the segments from the current one on can carry.\<close>

definition segment_capacity :: "LazyMultiSegmentOutbound \<Rightarrow> nat" where
  "segment_capacity z = (lz_total_segments z - lz_next_segment_index z) * MAX_EFFICIENT_SIZE
     + (if lz_next_segment_index z = 1 then MAX_EFFICIENT_SIZE - lz_metadata_wire_size z else MAX_EFFICIENT_SIZE)"

lemma segments_loop_concat:
  assumes "segments_loop lib bz rm rnd enc z = Ok segs" and "lz_next_segment_index z \<le> lz_total_segments z"
    and "length (lz_data z) \<le> MAX_RESOURCE_SIZE" and "lz_next_offset z \<le> length (lz_data z)"
    and "0 < lz_next_segment_index z"
    and "length (lz_data z) - lz_next_offset z \<le> segment_capacity z"
  shows "concat (map or_data segs) = drop (lz_next_offset z) (lz_data z)
    \<and> map or_segment_index segs = [lz_next_segment_index z..<Suc (lz_total_segments z)]
    \<and> (\<forall>s \<in> set segs. or_total_segments s = lz_total_segments z \<and> or_original_hash s = Some (lz_original_hash z))"
  using assms
proof (induction "lz_total_segments z - lz_next_segment_index z" arbitrary: z segs)
  case (0 z segs)
  then have last: "lz_next_segment_index z = lz_total_segments z" by simp
  define limit where "limit = (if lz_next_segment_index z = 1 then MAX_EFFICIENT_SIZE - lz_metadata_wire_size z else MAX_EFFICIENT_SIZE)"
  obtain z' s rest where step: "LazyMultiSegmentOutbound_next_segment lib bz rm (rnd (lz_next_segment_index z))
      (enc (lz_next_segment_index z)) z = (z', Ok (Some s))"
      and rest: "segments_loop lib bz rm rnd enc z' = Ok rest" "segs = s # rest"
    using segments_loop_first [OF 0(2,3)] by blast
  note f = next_segment_Some [OF step 0(4,5) limit_def]
  have "LazyMultiSegmentOutbound_next_segment lib bz rm r e z' = (z', Ok None)" for r e
    using f(4,5) last by (simp add: LazyMultiSegmentOutbound_next_segment_def)
  then have "rest = []" using rest(1) by (subst (asm) segments_loop.simps) simp
  moreover have "length (lz_data z) - lz_next_offset z \<le> limit"
    using 0(7) last by (simp add: segment_capacity_def limit_def)
  ultimately show ?case using f rest(2) last by simp
next
  case (Suc m z segs)
  define limit where "limit = (if lz_next_segment_index z = 1 then MAX_EFFICIENT_SIZE - lz_metadata_wire_size z else MAX_EFFICIENT_SIZE)"
  obtain z' s rest where step: "LazyMultiSegmentOutbound_next_segment lib bz rm (rnd (lz_next_segment_index z))
      (enc (lz_next_segment_index z)) z = (z', Ok (Some s))"
      and rest: "segments_loop lib bz rm rnd enc z' = Ok rest" "segs = s # rest"
    using segments_loop_first [OF Suc(3,4)] by blast
  note f = next_segment_Some [OF step Suc(5,6) limit_def]
  have more: "lz_next_segment_index z < lz_total_segments z" using Suc(2) by simp
  have data: "lz_data z' = lz_data z" using f(7) more by simp
  have diff: "lz_total_segments z - lz_next_segment_index z = Suc (lz_total_segments z - Suc (lz_next_segment_index z))"
    using more by simp
  have "segment_capacity z = limit + segment_capacity z'"
    using Suc(7) f(4,5,6) diff by (simp add: segment_capacity_def limit_def)
  then have "length (lz_data z') - lz_next_offset z' \<le> segment_capacity z'"
    using Suc(8) f(3) data by auto
  with Suc(1) [OF _ rest(1)] have ih: "concat (map or_data rest) = drop (lz_next_offset z') (lz_data z')
      \<and> map or_segment_index rest = [lz_next_segment_index z'..<Suc (lz_total_segments z')]
      \<and> (\<forall>s \<in> set rest. or_total_segments s = lz_total_segments z' \<and> or_original_hash s = Some (lz_original_hash z'))"
    using f more Suc(2,5) data by auto
  have "take limit (drop (lz_next_offset z) (lz_data z)) @ drop (lz_next_offset z') (lz_data z) = drop (lz_next_offset z) (lz_data z)"
    using f(3) by (cases "lz_next_offset z + limit \<le> length (lz_data z)")
      (simp_all add: min_def, metis add.commute append_take_drop_id drop_drop)
  then show ?case using ih f data rest(2) more by (simp add: upt_conv_Cons)
qed

lemma div_ceil_covers: "0 < n \<Longrightarrow> a \<le> div_ceil a n * n"
proof (induction a rule: less_induct)
  case (less a)
  then show ?case
  proof (cases "a = 0")
    case False
    then have "a - n \<le> div_ceil (a - n) n * n" using less by simp
    then show ?thesis using div_ceil_step [OF less(2), of a] False by simp
  qed simp
qed

lemma required_segments_cover:
  assumes "w \<le> MAX_EFFICIENT_SIZE"
  shows "n \<le> (required_segment_count n w - 1) * MAX_EFFICIENT_SIZE + (MAX_EFFICIENT_SIZE - w)"
  using div_ceil_covers [of MAX_EFFICIENT_SIZE "n - min n (MAX_EFFICIENT_SIZE - w)"]
  by (auto simp: required_segment_count_def Let_def MAX_EFFICIENT_SIZE_def min_def split: if_splits)

text \<open>The segments of a split resource as the owner hands them over: number and verified payload.\<close>

definition deliver_segments :: "(nat \<times> bytes) list \<Rightarrow> MultiSegmentInbound \<Rightarrow> MultiSegmentInbound" where
  "deliver_segments ds m = fold (\<lambda>(i, d) m. fst (MultiSegmentInbound_set_segment_data i d m)) ds m"

definition slots_of :: "bytes list \<Rightarrow> MultiSegmentInbound \<Rightarrow> bool" where
  "slots_of segs m \<longleftrightarrow> mi_total_segments m = length segs \<and> length (mi_assembled_segments m) = length segs
     \<and> (\<forall>i < length segs. mi_assembled_segments m ! i \<noteq> None \<longrightarrow> mi_assembled_segments m ! i = Some (segs ! i))"

lemma set_segment_data_slots:
  assumes "slots_of segs m" and "1 \<le> i \<and> i \<le> length segs \<Longrightarrow> d = segs ! (i - 1)"
  shows "slots_of segs (fst (MultiSegmentInbound_set_segment_data i d m))"
    and "k < length segs \<Longrightarrow> mi_assembled_segments m ! k \<noteq> None \<or> i = Suc k \<Longrightarrow>
      mi_assembled_segments (fst (MultiSegmentInbound_set_segment_data i d m)) ! k \<noteq> None"
  using assms by (auto simp: slots_of_def MultiSegmentInbound_set_segment_data_def Let_def nth_list_update split: if_splits)

lemma deliver_segments_slots:
  assumes "slots_of segs m" and "\<forall>(i, d) \<in> set ds. 1 \<le> i \<and> i \<le> length segs \<longrightarrow> d = segs ! (i - 1)"
  shows "slots_of segs (deliver_segments ds m) \<and> (\<forall>k < length segs. mi_assembled_segments m ! k \<noteq> None \<or> Suc k \<in> fst ` set ds \<longrightarrow>
      mi_assembled_segments (deliver_segments ds m) ! k \<noteq> None)"
  using assms
proof (induction ds arbitrary: m)
  case (Cons p ds)
  obtain i d where p: "p = (i, d)" by fastforce
  let ?m = "fst (MultiSegmentInbound_set_segment_data i d m)"
  have d: "1 \<le> i \<and> i \<le> length segs \<Longrightarrow> d = segs ! (i - 1)" using Cons.prems(2) p by auto
  have "slots_of segs ?m" by (rule set_segment_data_slots(1) [OF Cons.prems(1) d])
  moreover have "\<forall>(i, d) \<in> set ds. 1 \<le> i \<and> i \<le> length segs \<longrightarrow> d = segs ! (i - 1)" using Cons.prems(2) by simp
  ultimately have ih: "slots_of segs (deliver_segments ds ?m) \<and> (\<forall>k < length segs. mi_assembled_segments ?m ! k \<noteq> None \<or> Suc k \<in> fst ` set ds \<longrightarrow>
      mi_assembled_segments (deliver_segments ds ?m) ! k \<noteq> None)"
    by (rule Cons.IH)
  moreover have "deliver_segments (p # ds) m = deliver_segments ds ?m" by (simp add: deliver_segments_def p)
  ultimately show ?case using set_segment_data_slots(2) [OF Cons.prems(1) d] p by auto
qed (simp add: deliver_segments_def)

lemma slots_filled:
  assumes "slots_of segs m" and "\<forall>k < length segs. mi_assembled_segments m ! k \<noteq> None"
  shows "MultiSegmentInbound_reassemble m = Ok (concat segs)"
proof -
  have "mi_assembled_segments m = map Some segs"
    using assms by (intro nth_equalityI) (auto simp: slots_of_def)
  then show ?thesis
    by (simp add: MultiSegmentInbound_reassemble_def MultiSegmentInbound_is_complete_def list_all_iff)
qed

lemma slots_of_new: "slots_of segs (MultiSegmentInbound_new (length segs) h)"
  by (simp add: slots_of_def MultiSegmentInbound_new_def)

lemma with_options_segments:
  assumes "MultiSegmentOutbound_with_options lib bz rm random_hash rnd data ac metadata request_id is_response enc = Ok m"
  shows "concat (map or_data (mo_segments m)) = data" and "map or_segment_index (mo_segments m) = [1..<Suc (mo_total_segments m)]"
    and "mo_total_segments m \<le> MAX_SEGMENTS" and "1 \<le> mo_total_segments m"
    and "\<forall>s \<in> set (mo_segments m). or_original_hash s = Some (mo_original_hash m)"
proof -
  obtain z segs where z: "LazyMultiSegmentOutbound_with_options lib rm random_hash data ac metadata request_id is_response = Ok z"
      and segs: "segments_loop lib bz rm rnd enc z = Ok segs"
      and m: "mo_segments m = segs" "mo_total_segments m = lz_total_segments z" "mo_original_hash m = lz_original_hash z"
    using assms by (auto simp: MultiSegmentOutbound_with_options_def and_then_def split: sum.splits)
  have zf: "lz_data z = data" "length data \<le> MAX_RESOURCE_SIZE" "lz_next_offset z = 0" "lz_next_segment_index z = 1"
      "lz_total_segments z \<le> MAX_SEGMENTS" "lz_metadata_wire_size z \<le> MAX_EFFICIENT_SIZE"
      "lz_total_segments z = required_segment_count (length data) (lz_metadata_wire_size z)"
    using z by (auto simp: LazyMultiSegmentOutbound_with_options_def Let_def and_then_def split: if_splits sum.splits)
  have pos: "1 \<le> lz_total_segments z" unfolding zf(7) by (simp add: required_segment_count_def Let_def)
  have cap: "length (lz_data z) - lz_next_offset z \<le> segment_capacity z"
    using required_segments_cover [OF zf(6), of "length data"] zf(1,3,4,7) by (simp add: segment_capacity_def)
  note all = segments_loop_concat [OF segs _ _ _ _ cap]
  show "concat (map or_data (mo_segments m)) = data" "map or_segment_index (mo_segments m) = [1..<Suc (mo_total_segments m)]"
    "\<forall>s \<in> set (mo_segments m). or_original_hash s = Some (mo_original_hash m)"
    using all zf pos m by simp_all
  show "mo_total_segments m \<le> MAX_SEGMENTS" "1 \<le> mo_total_segments m" using zf(5) pos m(2) by simp_all
qed

text \<open>
  C19: a resource that does not fit one segment. Splitting it makes at most \<open>MAX_SEGMENTS\<close> segments, numbered from 1 and
  tagged with the common hash, and handing their payloads to the receiving coordinator in any order, with repetitions
  and with segments that do not exist, reassembles exactly the original data.
\<close>

theorem split_resource_reassembles:
  assumes "MultiSegmentOutbound_with_options lib bz rm random_hash rnd data ac metadata request_id is_response enc = Ok m"
    and "\<forall>(i, d) \<in> set ds. 1 \<le> i \<and> i \<le> mo_total_segments m \<longrightarrow> d = or_data (mo_segments m ! (i - 1))"
    and "{1..mo_total_segments m} \<subseteq> fst ` set ds"
  shows "map or_segment_index (mo_segments m) = [1..<Suc (mo_total_segments m)]
    \<and> mo_total_segments m \<le> MAX_SEGMENTS
    \<and> (\<forall>s \<in> set (mo_segments m). or_original_hash s = Some (mo_original_hash m))
    \<and> MultiSegmentInbound_reassemble
        (deliver_segments ds (MultiSegmentInbound_new (mo_total_segments m) (mo_original_hash m))) = Ok data"
proof -
  note w = with_options_segments [OF assms(1)]
  let ?segs = "map or_data (mo_segments m)"
  have len: "length (mo_segments m) = mo_total_segments m" using arg_cong [OF w(2), of length] by simp
  have ds: "\<forall>(i, d) \<in> set ds. 1 \<le> i \<and> i \<le> length ?segs \<longrightarrow> d = ?segs ! (i - 1)"
    using assms(2) len by fastforce
  have new: "slots_of ?segs (MultiSegmentInbound_new (mo_total_segments m) (mo_original_hash m))"
    using slots_of_new [of ?segs] len by simp
  have "\<forall>k < length ?segs. Suc k \<in> fst ` set ds" using assms(3) len by auto
  then have "MultiSegmentInbound_reassemble (deliver_segments ds (MultiSegmentInbound_new (mo_total_segments m) (mo_original_hash m)))
      = Ok (concat ?segs)"
    using deliver_segments_slots [OF new ds] by (intro slots_filled) auto
  then show ?thesis using w by simp
qed

lemmas preflight_simps = preflight_outbound_with_sdu_def checked_add_def checked_mul_def checked_div_def div_ceil_def
  MAX_RESOURCE_SIZE_def MAX_EFFICIENT_SIZE_def MAX_SEGMENTS_def SDU_def wire_constants RESOURCE_RANDOM_HASH_SIZE_def
  encrypted_len_def check_control_frame_def check_advertisement_def ResourceAdvertisement_encoded_len_def and_then_def
  ok_or_def AdvertisementRef_serialize_def example_rm_def enc_entry_def enc_nat.simps ResourceAdvertisement_new_def
  ResourceAdvertisement_with_metadata_size_def Let_def hashmap_max_len_def OVERHEAD_def MAPHASH_LEN_def
  ResourceFlags_to_byte_def HASHMAP_STRIDE_def encode_hashmap_update_def RESOURCE_WINDOW_MAX_def

lemma preflight_example:
  "preflight_outbound_with_sdu example_rm 2 None None False True SDU MTU = Ok ()"
  "preflight_outbound_with_sdu example_rm 2 None None False False SDU MTU = Ok ()"
  by (simp_all add: preflight_simps)


lemma with_options_first:
  assumes "preflight_outbound_with_sdu rm (length data) None None False (enc \<noteq> None) sdu MTU = Ok ()"
    and "sdu = (case link_sdu of Some s \<Rightarrow> s | None \<Rightarrow> SDU)" and "0 < sdu" and "length data \<le> MAX_EFFICIENT_SIZE"
    and "distinct (or_map_hashes (built lib bz rnd data ac None sdu enc 0))"
  shows "OutboundResource_with_options lib bz rm rnd data ac None link_sdu enc = Ok (built lib bz rnd data ac None sdu enc 0)"
  using assms(1,3-5) unfolding OutboundResource_with_options_def OutboundResource_with_options_inner.simps [of _ _ _ _ _ _ _ _ _ 0]
    assms(2) [symmetric]
  by (auto simp: Let_def case_prod_unfold and_then_def built_def full_content_def processed_content_def sealed_def)

definition example_sent :: OutboundResource where
  "example_sent = built example_lib example_bz (\<lambda>_. [1, 2, 3, 4]) [5, 6] False None SDU None 0"

lemma example_sent_ok:
  "OutboundResource_with_options example_lib example_bz example_rm (\<lambda>_. [1, 2, 3, 4]) [5, 6] False None None None = Ok example_sent"
  unfolding example_sent_def
proof (rule with_options_first)
  show "preflight_outbound_with_sdu example_rm (length [5, 6 :: u8]) None None False ((None :: encryptor option) \<noteq> None) SDU MTU = Ok ()"
    using preflight_example(2) by (simp add: numeral_2_eq_2)
qed (simp_all add: SDU_def wire_constants MAX_EFFICIENT_SIZE_def built_def Let_def full_content_def processed_content_def
    sealed_def chunks.simps)

definition example_split :: MultiSegmentOutbound where
  "example_split = \<lparr>mo_original_hash = compute_resource_hash example_lib [5, 6] [1, 2, 3, 4],
     mo_segments = [example_sent\<lparr>or_flags := (or_flags example_sent)\<lparr>rf_split := True, rf_is_response := False\<rparr>,
       or_original_hash := Some (compute_resource_hash example_lib [5, 6] [1, 2, 3, 4])\<rparr>],
     mo_total_segments = 1, mo_data_size = 2\<rparr>"

lemma example_split_ok:
  "MultiSegmentOutbound_with_options example_lib example_bz example_rm [1, 2, 3, 4] (\<lambda>_ _. [1, 2, 3, 4]) [5, 6] False None None False
     (\<lambda>_. None) = Ok example_split"
proof -
  let ?z = "\<lparr>lz_data = [5, 6], lz_auto_compress = False, lz_metadata = None, lz_metadata_wire_size = 0, lz_request_id = None,
    lz_is_response = False, lz_next_offset = 0, lz_next_segment_index = 1,
    lz_original_hash = compute_resource_hash example_lib [5, 6] [1, 2, 3, 4], lz_total_segments = 1, lz_data_size = 2\<rparr> :: LazyMultiSegmentOutbound"
  let ?s = "hd (mo_segments example_split)" and ?z' = "?z\<lparr>lz_next_offset := 2, lz_next_segment_index := 2, lz_data := []\<rparr>"
  have z: "LazyMultiSegmentOutbound_with_options example_lib example_rm [1, 2, 3, 4] [5, 6] False None None False = Ok ?z"
    using preflight_example(1)
    by (simp add: LazyMultiSegmentOutbound_with_options_def preflight_outbound_def MAX_RESOURCE_SIZE_def MAX_SEGMENTS_def
        required_segment_count_def MAX_EFFICIENT_SIZE_def div_ceil_def and_then_def Let_def numeral_2_eq_2)
  have one: "LazyMultiSegmentOutbound_next_segment example_lib example_bz example_rm (\<lambda>_. [1, 2, 3, 4]) None ?z = (?z', Ok (Some ?s))"
    using example_sent_ok
    by (simp add: LazyMultiSegmentOutbound_next_segment_def usize_saturating_add_def MAX_EFFICIENT_SIZE_def subslice_def
        example_split_def example_sent_def built_def Let_def full_content_def)
  have "segments_loop example_lib example_bz example_rm (\<lambda>_ _. [1, 2, 3, 4]) (\<lambda>_. None) ?z' = Ok []"
    by (subst segments_loop.simps) (simp add: LazyMultiSegmentOutbound_next_segment_def)
  then have "segments_loop example_lib example_bz example_rm (\<lambda>_ _. [1, 2, 3, 4]) (\<lambda>_. None) ?z = Ok [?s]"
    by (subst segments_loop.simps) (simp only: one prod.case sum.case option.case, simp add: and_then_def)
  then show ?thesis using z
    by (simp add: MultiSegmentOutbound_with_options_def and_then_def example_split_def)
qed

theorem split_resource_reassembles_witness:
  "MultiSegmentInbound_reassemble
     (deliver_segments [(3, [9]), (1, [5, 6]), (1, [5, 6])] (MultiSegmentInbound_new 1 (mo_original_hash example_split))) = Ok [5, 6]"
proof -
  have "mo_total_segments example_split = 1" "or_data (mo_segments example_split ! 0) = [5, 6]"
    by (simp_all add: example_split_def example_sent_def)
  then show ?thesis
    using split_resource_reassembles [OF example_split_ok, of "[(3, [9]), (1, [5, 6]), (1, [5, 6])]"] by auto
qed

end
