(* ===== verification/Resource_Transfer.thy ===== *)
theory Resource_Transfer
  imports Resource_Data Link_Machine
begin

text \<open>
  The transfer state machines of \<open>src/crates/rns-protocol/src/resource.rs\<close>: \<open>OutboundTransfer\<close>, which advertises a
  resource and answers requests for its parts, and \<open>InboundTransfer\<close>, which requests, collects and proves it. A
  \<open>HashSet\<close> is a set. Every method reads the clock through the argument \<open>now\<close>; cloned state and log output are left out.
\<close>

subsection \<open>Actions\<close>

datatype CancelType = Icl | Rcl

datatype fail_reason = FR_Text string | FR_Error ResourceError

datatype TransferAction =
    TA_None
  | SendAdvertisement bytes
  | SendPart nat bytes
  | SendProof bytes
  | SendHmu bytes
  | SendRequest bytes
  | TA_Complete
  | TA_Failed fail_reason
  | SendCancel CancelType bytes

definition f64_as_usize :: "real \<Rightarrow> nat" where
  "f64_as_usize x = min (nat \<lfloor>x\<rfloor>) (2 ^ 64 - 1)"

definition byte_rate :: "nat \<Rightarrow> duration \<Rightarrow> nat" where
  "byte_rate parts elapsed =
    f64_as_usize (if as_secs_f64 elapsed > 0 then real (parts * SDU) / as_secs_f64 elapsed else 0)"

subsection \<open>Outbound transfers\<close>

record OutboundTransfer =
  ot_resource :: OutboundResource
  ot_cursor :: nat
  ot_confirmed_parts :: "bool list"
  ot_window_cursor :: nat
  ot_retries :: nat
  ot_last_part_sent :: "instant option"
  ot_started_at :: instant
  ot_rtt :: duration
  ot_awaiting_hmu :: bool
  ot_advertised :: bool
  ot_window_max_sent :: nat
  ot_receiver_min_consecutive_height :: nat
  ot_sent_parts :: nat
  ot_sent_part_indices :: "nat set"
  ot_req_hashlist :: "bytes set"
  ot_last_progress :: instant
  ot_last_request_parts :: nat

definition OutboundTransfer_from_resource :: "instant \<Rightarrow> OutboundResource \<Rightarrow> duration \<Rightarrow> OutboundTransfer" where
  "OutboundTransfer_from_resource now resource rtt =
    \<lparr>ot_resource = resource, ot_cursor = 0, ot_confirmed_parts = replicate (OutboundResource_num_parts resource) False,
     ot_window_cursor = 0, ot_retries = 0, ot_last_part_sent = None, ot_started_at = now, ot_rtt = rtt,
     ot_awaiting_hmu = False, ot_advertised = False, ot_window_max_sent = 0, ot_receiver_min_consecutive_height = 0,
     ot_sent_parts = 0, ot_sent_part_indices = {}, ot_req_hashlist = {}, ot_last_progress = now,
     ot_last_request_parts = 0\<rparr>"

definition OutboundTransfer_new ::
    "crypto_lib \<Rightarrow> bz_lib \<Rightarrow> 'v resource_msgpack \<Rightarrow> (nat \<Rightarrow> bytes) \<Rightarrow> instant \<Rightarrow> bytes \<Rightarrow> bool \<Rightarrow> duration \<Rightarrow>
     (ResourceError, OutboundTransfer) result" where
  "OutboundTransfer_new lib bz rm random_bytes now data auto_compress rtt =
     and_then (OutboundResource_new lib bz rm random_bytes data auto_compress None) (\<lambda>resource.
       Ok (OutboundTransfer_from_resource now resource rtt))"

definition OutboundTransfer_new_encrypted ::
    "crypto_lib \<Rightarrow> bz_lib \<Rightarrow> 'v resource_msgpack \<Rightarrow> (nat \<Rightarrow> bytes) \<Rightarrow> (nat \<Rightarrow> bytes) \<Rightarrow> instant \<Rightarrow> bytes \<Rightarrow> bool \<Rightarrow> duration \<Rightarrow>
     LinkKeys \<Rightarrow> (ResourceError, OutboundTransfer) result" where
  "OutboundTransfer_new_encrypted lib bz rm random_bytes iv now data auto_compress rtt keys =
     and_then (OutboundResource_new lib bz rm random_bytes data auto_compress (Some (link_encryptor lib iv keys))) (\<lambda>resource.
       Ok (OutboundTransfer_from_resource now resource rtt))"

definition set_state :: "ResourceState \<Rightarrow> OutboundTransfer \<Rightarrow> OutboundTransfer" where
  "set_state s t = t\<lparr>ot_resource := (ot_resource t)\<lparr>or_state := s\<rparr>\<rparr>"

definition OutboundTransfer_create_advertisement ::
    "'v resource_msgpack \<Rightarrow> OutboundTransfer \<Rightarrow> (ResourceError, bytes) result" where
  "OutboundTransfer_create_advertisement rm t =
    (let r = ot_resource t in
     and_then (case or_request_id r of
         None \<Rightarrow> Ok ()
       | Some rid \<Rightarrow> check_control_frame Ctx_ResourceAdv (length rid) True HEADER_MINSIZE MTU) (\<lambda>_.
     let adv = ResourceAdvertisement_new (or_total_size r) (or_advertisement_data_size r) (OutboundResource_num_parts r)
           (or_resource_hash r) (or_random_hash r) (or_flags r) (or_map_hashes r) LINK_MDU;
         adv = (if rf_split (or_flags r) then
                  let adv = adv\<lparr>ra_segment_index := or_segment_index r, ra_total_segments := or_total_segments r\<rparr> in
                  case or_original_hash r of Some oh \<Rightarrow> adv\<lparr>ra_original_hash := oh\<rparr> | None \<Rightarrow> adv
                else adv);
         adv = adv\<lparr>ra_request_id := or_request_id r\<rparr> in
     and_then (check_advertisement rm adv MTU) (\<lambda>_. Ok (ResourceAdvertisement_pack rm adv))))"

definition OutboundTransfer_progress_timeout :: "OutboundTransfer \<Rightarrow> duration" where
  "OutboundTransfer_progress_timeout t =
    (let retry_wait = PER_RETRY_DELAY * real (MAX_RETRIES * (MAX_RETRIES + 1) div 2);
         request_count = (let n = usize_saturating_add MAX_RETRIES (ot_last_request_parts t)
                          in if n < 2 ^ 32 then n else 2 ^ 32 - 1)
     in duration_saturating_add
          (duration_saturating_mul (duration_saturating_mul (ot_rtt t) (nat \<lfloor>PART_TIMEOUT_FACTOR\<rfloor>)) request_count)
          (from_secs_f64 (SENDER_GRACE_TIME + retry_wait)))"

definition advertisement_timeout :: "OutboundTransfer \<Rightarrow> duration" where
  "advertisement_timeout t =
     duration_saturating_add (duration_saturating_mul (ot_rtt t) TRAFFIC_TIMEOUT_FACTOR) (from_secs_f64 PROCESSING_GRACE)"

definition OutboundTransfer_check_timeout ::
    "'v resource_msgpack \<Rightarrow> instant \<Rightarrow> OutboundTransfer \<Rightarrow> OutboundTransfer \<times> TransferAction" where
  "OutboundTransfer_check_timeout rm now t =
    (let state = or_state (ot_resource t) in
     if state \<in> {RSt_Failed, RSt_Rejected, RSt_Corrupt} then (t, TA_Failed (FR_Text ''transfer failed''))
     else if state \<in> {RSt_Transferring, RSt_AwaitingProof} then
       (let timeout = OutboundTransfer_progress_timeout t in
        if duration_since now (ot_last_progress t) > timeout then
          let reason = (if state = RSt_AwaitingProof then ''resource proof timed out'' else ''resource part requests timed out'')
          in (set_state RSt_Failed t, TA_Failed (FR_Text reason))
        else (t, TA_None))
     else if state \<noteq> RSt_Advertised then (t, TA_None)
     else if duration_since now (ot_started_at t) \<le> advertisement_timeout t then (t, TA_None)
     else if ot_retries t < MAX_ADV_RETRIES then
       (let t = t\<lparr>ot_retries := ot_retries t + 1, ot_started_at := now\<rparr> in
        case OutboundTransfer_create_advertisement rm t of
          Inr bytes \<Rightarrow> (t, SendAdvertisement bytes)
        | Inl error \<Rightarrow> (set_state RSt_Failed t, TA_Failed (FR_Error error)))
     else (set_state RSt_Failed t, TA_Failed (FR_Text ''resource advertisement timed out'')))"

definition OutboundTransfer_tick ::
    "'v resource_msgpack \<Rightarrow> instant \<Rightarrow> OutboundTransfer \<Rightarrow> OutboundTransfer \<times> TransferAction" where
  "OutboundTransfer_tick rm now t =
    (if or_state (ot_resource t) = RSt_Complete then (t, TA_Complete)
     else if or_state (ot_resource t) \<in> {RSt_Failed, RSt_Rejected, RSt_Corrupt} then (t, TA_Failed (FR_Text ''transfer failed''))
     else if \<not> ot_advertised t then
       (case OutboundTransfer_create_advertisement rm t of
          Inr advertisement \<Rightarrow>
            (set_state RSt_Advertised (t\<lparr>ot_advertised := True, ot_started_at := now\<rparr>), SendAdvertisement advertisement)
        | Inl error \<Rightarrow> (set_state RSt_Failed t, TA_Failed (FR_Error error)))
     else OutboundTransfer_check_timeout rm now t)"

definition OutboundTransfer_timeout_window :: "OutboundTransfer \<Rightarrow> (instant \<times> duration) option" where
  "OutboundTransfer_timeout_window t =
    (case or_state (ot_resource t) of
       RSt_Advertised \<Rightarrow>
         Some (ot_started_at t, duration_saturating_mul (advertisement_timeout t)
           (usize_saturating_add (MAX_ADV_RETRIES - ot_retries t) 1))
     | RSt_Transferring \<Rightarrow> Some (ot_last_progress t, OutboundTransfer_progress_timeout t)
     | RSt_AwaitingProof \<Rightarrow> Some (ot_last_progress t, OutboundTransfer_progress_timeout t)
     | _ \<Rightarrow> None)"

text \<open>The loops of \<open>handle_hmu\<close>: confirming what the receiver no longer asks for, and advancing the cursor.\<close>

definition confirm_parts :: "bytes list \<Rightarrow> bytes set \<Rightarrow> nat \<Rightarrow> nat \<Rightarrow> bool list \<Rightarrow> bool list \<times> nat" where
  "confirm_parts map_hashes requested_set window_start window_end confirmed =
     fold (\<lambda>i (confirmed, n).
         if i < length map_hashes \<and> \<not> confirmed ! i \<and> map_hashes ! i \<notin> requested_set
         then (confirmed[i := True], n + 1) else (confirmed, n))
       [window_start..<window_end] (confirmed, 0)"

function cursor_from :: "bool list \<Rightarrow> nat \<Rightarrow> nat \<Rightarrow> nat" where
  "cursor_from confirmed num_parts cursor =
    (if cursor < num_parts \<and> confirmed ! cursor then cursor_from confirmed num_parts (cursor + 1) else cursor)"
  by auto
termination by (relation "measure (\<lambda>(_, n, i). n - i)") auto

declare cursor_from.simps [simp del]

definition closed_states :: "ResourceState set" where
  "closed_states = {RSt_Complete, RSt_Failed, RSt_Rejected, RSt_Corrupt}"

definition OutboundTransfer_handle_hmu :: "instant \<Rightarrow> bytes \<Rightarrow> OutboundTransfer \<Rightarrow> OutboundTransfer" where
  "OutboundTransfer_handle_hmu now hmu_data t =
    (let r = ot_resource t in
     if hmu_data = [] \<or> or_state r \<in> closed_states then t
     else
       let exhausted = (hmu_data ! 0 = HASHMAP_IS_EXHAUSTED);
           offset = (if exhausted then 1 + MAPHASH_LEN else 1) in
       if length hmu_data < offset + 32 then t
       else if subslice offset (offset + 32) hmu_data \<noteq> or_resource_hash r then t
       else if \<not> exhausted then
         let requested_set = set (as_chunks MAPHASH_LEN (drop (offset + 32) hmu_data));
             window_end = max (ot_window_max_sent t)
               (min (ot_cursor t + ws_window (or_window r)) (OutboundResource_num_parts r));
             (confirmed, newly_confirmed) = confirm_parts (or_map_hashes r) requested_set (ot_cursor t) window_end (ot_confirmed_parts t);
             cursor = cursor_from confirmed (OutboundResource_num_parts r) (ot_cursor t);
             t = t\<lparr>ot_confirmed_parts := confirmed, ot_cursor := cursor, ot_window_cursor := cursor, ot_awaiting_hmu := False\<rparr>
         in if newly_confirmed > 0 then
              t\<lparr>ot_resource := r\<lparr>or_window := WindowState_grow (byte_rate newly_confirmed (duration_since now (ot_started_at t))) (or_window r)\<rparr>,
                ot_retries := 0\<rparr>
            else t
       else
         t\<lparr>ot_confirmed_parts := replicate (length (ot_confirmed_parts t)) True, ot_cursor := OutboundResource_num_parts r,
           ot_window_cursor := OutboundResource_num_parts r, ot_awaiting_hmu := False,
           ot_resource := r\<lparr>or_state := RSt_AwaitingProof, or_window := WindowState_grow 0 (or_window r)\<rparr>\<rparr>)"

text \<open>The part loop of \<open>handle_request\<close>: the actions, the indices sent so far and their number.\<close>

fun send_parts :: "OutboundResource \<Rightarrow> bytes list \<Rightarrow> nat list \<Rightarrow> nat set \<Rightarrow> nat \<Rightarrow> TransferAction list \<times> nat set \<times> nat" where
  "send_parts r requested [] sent_indices sent_parts = ([], sent_indices, sent_parts)"
| "send_parts r requested (i # is) sent_indices sent_parts =
    (case (if i < length (or_map_hashes r) \<and> or_map_hashes r ! i \<in> set requested then OutboundResource_get_part i r else None) of
       Some part_data \<Rightarrow>
         (let (actions, indices, sent) = send_parts r requested is (insert i sent_indices)
                (if i \<in> sent_indices then sent_parts else sent_parts + 1)
          in (SendPart i part_data # actions, indices, sent))
     | None \<Rightarrow> send_parts r requested is sent_indices sent_parts)"

fun locate_part :: "bytes list \<Rightarrow> bytes \<Rightarrow> nat \<Rightarrow> nat list \<Rightarrow> nat" where
  "locate_part map_hashes last_map_hash part_index [] = part_index"
| "locate_part map_hashes last_map_hash part_index (i # is) =
    (if i < length map_hashes \<and> map_hashes ! i = last_map_hash then i + 1
     else locate_part map_hashes last_map_hash (i + 1) is)"

text \<open>The answer to a receiver that has run out of map hashes: \<open>None\<close> cancels the transfer.\<close>

definition hashmap_answer :: "'v resource_msgpack \<Rightarrow> nat \<Rightarrow> OutboundResource \<Rightarrow> TransferAction list option" where
  "hashmap_answer rm part_index r =
    (let max_len = hashmap_max_len LINK_MDU in
     if max_len > 0 \<and> \<not> is_multiple_of part_index max_len then None
     else case checked_div part_index max_len of
       None \<Rightarrow> Some []
     | Some segment \<Rightarrow>
         let hashmap_start = segment * max_len;
             hashmap_end = min ((segment + 1) * max_len) (OutboundResource_num_parts r);
             hashmap_bytes = concat (map (\<lambda>i. if i < length (or_map_hashes r) then or_map_hashes r ! i else [])
               [hashmap_start..<hashmap_end])
         in if hashmap_bytes = [] then None
            else Some [SendHmu (encode_hashmap_update rm (or_resource_hash r) segment hashmap_bytes)])"

definition OutboundTransfer_handle_request ::
    "'v resource_msgpack \<Rightarrow> instant \<Rightarrow> bytes \<Rightarrow> OutboundTransfer \<Rightarrow> OutboundTransfer \<times> TransferAction list" where
  "OutboundTransfer_handle_request rm now request_data t =
    (let r = ot_resource t in
     if request_data = [] \<or> or_state r \<in> closed_states then (t, [])
     else if request_data ! 0 \<notin> {HASHMAP_IS_NOT_EXHAUSTED, HASHMAP_IS_EXHAUSTED} then (t, [])
     else
       let wants_more_hashmap = (request_data ! 0 = HASHMAP_IS_EXHAUSTED);
           pad = (if wants_more_hashmap then 1 + MAPHASH_LEN else 1);
           hash_offset = pad + 32 in
       if length request_data < hash_offset then (t, [])
       else if subslice pad hash_offset request_data \<noteq> or_resource_hash r
           \<or> \<not> is_multiple_of (length request_data - hash_offset) MAPHASH_LEN then (t, [])
       else
         let requested_map_hashes = as_chunks MAPHASH_LEN (drop hash_offset request_data);
             search_start = ot_receiver_min_consecutive_height t;
             search_end = min (search_start + collision_guard_size LINK_MDU) (OutboundResource_num_parts r);
             previously_sent = ot_sent_parts t;
             (actions, sent_indices, sent_parts) =
               send_parts r requested_map_hashes [search_start..<search_end] (ot_sent_part_indices t) (ot_sent_parts t);
             sent_count = length actions;
             t = t\<lparr>ot_sent_part_indices := sent_indices, ot_sent_parts := sent_parts\<rparr>;
             part_index = locate_part (or_map_hashes r) (subslice 1 (1 + MAPHASH_LEN) request_data) search_start
               [search_start..<search_end];
             more = wants_more_hashmap \<and> length request_data > MAPHASH_LEN;
             t = (if more then t\<lparr>ot_receiver_min_consecutive_height :=
                    (if part_index > RESOURCE_WINDOW_MAX then part_index - 1 - RESOURCE_WINDOW_MAX else 0)\<rparr> else t);
             answer = (if more then hashmap_answer rm part_index r else Some [])
         in case answer of
              None \<Rightarrow> (set_state RSt_Failed t, actions @ [SendCancel Icl (or_resource_hash r)])
            | Some hmu \<Rightarrow>
                (if sent_count > 0 then
                   let t = (if or_state r = RSt_Advertised \<and> ot_rtt t = 0 then t\<lparr>ot_rtt := duration_since now (ot_started_at t)\<rparr> else t);
                       t = t\<lparr>ot_last_part_sent := Some now\<rparr>;
                       t = (if ot_sent_parts t > previously_sent
                            then t\<lparr>ot_last_progress := now, ot_last_request_parts := sent_count, ot_retries := 0\<rparr> else t)
                   in set_state (if ot_sent_parts t = OutboundResource_num_parts r then RSt_AwaitingProof else RSt_Transferring) t
                 else t,
                 actions @ hmu))"

definition OutboundTransfer_handle_request_packet ::
    "'v resource_msgpack \<Rightarrow> instant \<Rightarrow> bytes \<Rightarrow> bytes \<Rightarrow> OutboundTransfer \<Rightarrow> OutboundTransfer \<times> TransferAction list" where
  "OutboundTransfer_handle_request_packet rm now phash request_data t =
    (if phash \<in> ot_req_hashlist t then (t, [])
     else OutboundTransfer_handle_request rm now request_data (t\<lparr>ot_req_hashlist := insert phash (ot_req_hashlist t)\<rparr>))"

definition OutboundTransfer_handle_cancel :: "OutboundTransfer \<Rightarrow> OutboundTransfer" where
  "OutboundTransfer_handle_cancel t = set_state RSt_Failed t"

definition OutboundTransfer_handle_proof :: "bytes \<Rightarrow> OutboundTransfer \<Rightarrow> OutboundTransfer \<times> bool" where
  "OutboundTransfer_handle_proof proof_data t =
    (if or_state (ot_resource t) \<in> closed_states \<or> length proof_data \<noteq> 64
        \<or> take 32 proof_data \<noteq> or_resource_hash (ot_resource t) then (t, False)
     else case OutboundResource_validate_proof proof_data (ot_resource t) of (r, ok) \<Rightarrow> (t\<lparr>ot_resource := r\<rparr>, ok))"

definition OutboundTransfer_all_confirmed :: "OutboundTransfer \<Rightarrow> bool" where
  "OutboundTransfer_all_confirmed t \<longleftrightarrow> list_all id (ot_confirmed_parts t)"

definition OutboundTransfer_progress :: "OutboundTransfer \<Rightarrow> real" where
  "OutboundTransfer_progress t =
    (let n = OutboundResource_num_parts (ot_resource t) in
     if n = 0 then 1 else real (min (ot_sent_parts t) n) / real n)"


subsection \<open>Inbound transfers\<close>

record InboundTransfer =
  it_resource :: InboundResource
  it_parts_since_hmu :: nat
  it_started_at :: instant
  it_accepted :: bool
  it_rtt :: duration
  it_outstanding_parts :: nat
  it_last_activity :: instant
  it_req_sent :: "instant option"
  it_req_resp :: "instant option"
  it_retries_left :: nat
  it_waiting_for_hmu :: bool
  it_hashmap_height :: nat
  it_part_timeout_factor :: real
  it_rtt_rxd_bytes :: nat
  it_rtt_rxd_bytes_at_part_req :: nat
  it_req_data_rtt_rate :: real
  it_eifr :: "real option"
  it_previous_eifr :: "real option"

definition InboundTransfer_from_advertisement ::
    "instant \<Rightarrow> nat \<Rightarrow> nat \<Rightarrow> nat \<Rightarrow> bytes \<Rightarrow> bytes \<Rightarrow> ResourceFlags \<Rightarrow> bytes list \<Rightarrow> duration \<Rightarrow>
     (ResourceError, InboundTransfer) result" where
  "InboundTransfer_from_advertisement now total_parts total_size data_size random_hash resource_hash flags map_hashes rtt =
     and_then (InboundResource_new total_parts total_size data_size random_hash resource_hash flags map_hashes) (\<lambda>resource.
       Ok \<lparr>it_resource = resource, it_parts_since_hmu = 0, it_started_at = now, it_accepted = True, it_rtt = rtt,
           it_outstanding_parts = 0, it_last_activity = now, it_req_sent = None, it_req_resp = None,
           it_retries_left = MAX_RETRIES, it_waiting_for_hmu = False, it_hashmap_height = length map_hashes,
           it_part_timeout_factor = PART_TIMEOUT_FACTOR, it_rtt_rxd_bytes = 0, it_rtt_rxd_bytes_at_part_req = 0,
           it_req_data_rtt_rate = 0, it_eifr = None, it_previous_eifr = None\<rparr>)"

definition InboundTransfer_seed_previous_eifr :: "real \<Rightarrow> InboundTransfer \<Rightarrow> InboundTransfer" where
  "InboundTransfer_seed_previous_eifr bits_per_sec t =
    (if bits_per_sec > 0 then t\<lparr>it_previous_eifr := Some bits_per_sec\<rparr> else t)"

definition InboundTransfer_update_eifr :: "InboundTransfer \<Rightarrow> InboundTransfer" where
  "InboundTransfer_update_eifr t =
    (let rtt_secs = max (as_secs_f64 (it_rtt t)) (1 / 1000);
         rate = (if it_req_data_rtt_rate t > 0 then it_req_data_rtt_rate t * 8
                 else case it_previous_eifr t of
                   Some prev \<Rightarrow> prev
                 | None \<Rightarrow> (real EIFR_COLD_START_BYTES * 8) / rtt_secs);
         t = t\<lparr>it_eifr := Some rate\<rparr>
     in if rate > 0 then t\<lparr>it_previous_eifr := Some rate\<rparr> else t)"

text \<open>The loop of \<open>request_next\<close>: the hashes asked for, their number, and whether the map is exhausted.\<close>

fun request_loop :: "InboundResource \<Rightarrow> nat list \<Rightarrow> nat \<Rightarrow> bytes \<times> nat \<times> bool" where
  "request_loop r [] count = ([], 0, False)"
| "request_loop r (pn # pns) count =
    (let missing = (ir_parts r ! pn = None);
         known = (pn < length (ir_map_hashes r));
         exhausted = (missing \<and> \<not> known);
         count = (if missing \<and> known then count + 1 else count);
         (hashes, n, ex) = (if count \<ge> ws_window (ir_window r) \<or> exhausted then ([], 0, False) else request_loop r pns count)
     in (if missing \<and> known then ir_map_hashes r ! pn @ hashes else hashes,
         if missing \<and> known then n + 1 else n,
         exhausted \<or> ex))"

definition InboundTransfer_request_next :: "instant \<Rightarrow> InboundTransfer \<Rightarrow> InboundTransfer \<times> TransferAction" where
  "InboundTransfer_request_next now t =
    (let r = it_resource t in
     if ir_state r \<noteq> RSt_Transferring \<or> InboundResource_is_complete r then (t, TA_None)
     else if it_waiting_for_hmu t then (t, TA_None)
     else
       let search_start = ir_consecutive_completed r;
           search_end = min (search_start + ws_window (ir_window r)) (ir_total_parts r);
           (requested_hashes, count, exhausted) = request_loop r [search_start..<search_end] 0;
           last_hash = (if it_hashmap_height t > 0 \<and> it_hashmap_height t - 1 < length (ir_map_hashes r)
                        then ir_map_hashes r ! (it_hashmap_height t - 1) else []);
           head = (if exhausted then HASHMAP_IS_EXHAUSTED # last_hash else [HASHMAP_IS_NOT_EXHAUSTED]);
           t = t\<lparr>it_outstanding_parts := count,
                it_waiting_for_hmu := (if exhausted then True else it_waiting_for_hmu t),
                it_last_activity := now, it_req_sent := Some now, it_req_resp := None,
                it_rtt_rxd_bytes_at_part_req := it_rtt_rxd_bytes t\<rparr>
       in (t, SendRequest (head @ ir_resource_hash r @ requested_hashes)))"

definition InboundTransfer_receive_part ::
    "crypto_lib \<Rightarrow> instant \<Rightarrow> bytes \<Rightarrow> InboundTransfer \<Rightarrow> InboundTransfer \<times> TransferAction" where
  "InboundTransfer_receive_part lib now data t =
    (if ir_state (it_resource t) \<noteq> RSt_Transferring then (t, TA_None)
     else case InboundResource_receive_part lib data (it_resource t) of
       (r, False) \<Rightarrow> (t\<lparr>it_resource := r\<rparr>, TA_None)
     | (r, True) \<Rightarrow>
         let t = t\<lparr>it_resource := r, it_last_activity := now, it_retries_left := MAX_RETRIES\<rparr>;
             t = (if it_req_resp t = None then
                    let t = t\<lparr>it_req_resp := Some now\<rparr> in
                    case it_req_sent t of
                      Some sent \<Rightarrow> t\<lparr>it_rtt := duration_since now sent, it_part_timeout_factor := PART_TIMEOUT_FACTOR_AFTER_RTT\<rparr>
                    | None \<Rightarrow> t
                  else t);
             t = t\<lparr>it_parts_since_hmu := it_parts_since_hmu t + 1,
                  it_rtt_rxd_bytes := usize_saturating_add (it_rtt_rxd_bytes t) (length data),
                  it_outstanding_parts := it_outstanding_parts t - 1\<rparr>
         in if InboundResource_is_complete r then (t\<lparr>it_parts_since_hmu := 0\<rparr>, TA_Complete)
            else if it_outstanding_parts t = 0 then
              let t = (case it_req_sent t of
                         Some sent_at \<Rightarrow>
                           let rtt = as_secs_f64 (duration_since now sent_at) in
                           if rtt > 0 then
                             let req_transferred = it_rtt_rxd_bytes t - it_rtt_rxd_bytes_at_part_req t;
                                 t = InboundTransfer_update_eifr (t\<lparr>it_req_data_rtt_rate := real req_transferred / rtt\<rparr>)
                             in t\<lparr>it_rtt_rxd_bytes_at_part_req := it_rtt_rxd_bytes t\<rparr>
                           else t
                       | None \<Rightarrow> t);
                  rate = byte_rate (InboundResource_received_count r) (duration_since now (it_started_at t));
                  t = t\<lparr>it_resource := r\<lparr>ir_window := WindowState_grow rate (ir_window r)\<rparr>\<rparr>
              in InboundTransfer_request_next now t
            else (t, TA_None))"

text \<open>\<open>None\<close> is an arithmetic underflow in \<open>shrink\<close>.\<close>

definition InboundTransfer_check_timeout :: "instant \<Rightarrow> InboundTransfer \<Rightarrow> (InboundTransfer \<times> TransferAction) option" where
  "InboundTransfer_check_timeout now t =
    (if ir_state (it_resource t) \<noteq> RSt_Transferring then Some (t, TA_None)
     else if InboundResource_is_complete (it_resource t) then Some (t, TA_None)
     else
       let elapsed = as_secs_f64 (duration_since now (it_last_activity t));
           retries_used = MAX_RETRIES - it_retries_left t;
           extra_wait = real retries_used * PER_RETRY_DELAY;
           t = InboundTransfer_update_eifr t;
           eifr = max (case it_eifr t of Some e \<Rightarrow> e | None \<Rightarrow> 1) 1;
           sdu_f = real (ir_sdu (it_resource t));
           expected_hmu_wait_remaining = (if it_waiting_for_hmu t \<or> it_outstanding_parts t = 0
             then (sdu_f * 8 * HMU_WAIT_FACTOR) / eifr else 0);
           expected_tof_remaining = (real (it_outstanding_parts t) * sdu_f * 8) / eifr;
           timeout = (if it_req_data_rtt_rate t > 0
             then it_part_timeout_factor t * expected_tof_remaining + expected_hmu_wait_remaining + RETRY_GRACE_TIME + extra_wait
             else it_part_timeout_factor t * ((3 * sdu_f) / eifr) + RETRY_GRACE_TIME + extra_wait)
       in if elapsed > timeout then
            if it_retries_left t > 0 then
              map_option (\<lambda>w.
                InboundTransfer_request_next now
                  (t\<lparr>it_resource := (it_resource t)\<lparr>ir_window := w\<rparr>, it_retries_left := it_retries_left t - 1,
                     it_waiting_for_hmu := False\<rparr>)) (WindowState_shrink (ir_window (it_resource t)))
            else Some (t\<lparr>it_resource := (it_resource t)\<lparr>ir_state := RSt_Failed\<rparr>\<rparr>, TA_Failed (FR_Text ''resource transfer timed out''))
          else Some (t, TA_None))"

definition InboundTransfer_cancel :: "InboundTransfer \<Rightarrow> InboundTransfer \<times> TransferAction" where
  "InboundTransfer_cancel t =
    (t\<lparr>it_resource := (it_resource t)\<lparr>ir_state := RSt_Failed\<rparr>\<rparr>, SendCancel Rcl (ir_resource_hash (it_resource t)))"

text \<open>The loop of \<open>hashmap_update\<close> over the received hashes.\<close>

fun merge_hashes :: "nat \<Rightarrow> nat \<Rightarrow> bytes \<Rightarrow> nat list \<Rightarrow> bytes list \<Rightarrow> nat \<Rightarrow> bytes list \<times> nat" where
  "merge_hashes segment_start total_parts hashmap_data [] map_hashes height = (map_hashes, height)"
| "merge_hashes segment_start total_parts hashmap_data (i # is) map_hashes height =
    (case checked_add segment_start i of
       None \<Rightarrow> (map_hashes, height)
     | Some idx \<Rightarrow>
         if idx < total_parts then
           let start = i * MAPHASH_LEN; stop = start + MAPHASH_LEN in
           if stop \<le> length hashmap_data then
             let mh = subslice start stop hashmap_data;
                 map_hashes = map_hashes @ replicate (idx + 1 - length map_hashes) (replicate MAPHASH_LEN 0);
                 height = (if map_hashes ! idx = replicate MAPHASH_LEN 0 then height + 1 else height)
             in merge_hashes segment_start total_parts hashmap_data is (map_hashes[idx := mh]) height
           else merge_hashes segment_start total_parts hashmap_data is map_hashes height
         else (map_hashes, height))"

definition InboundTransfer_hashmap_update ::
    "instant \<Rightarrow> nat \<Rightarrow> bytes \<Rightarrow> InboundTransfer \<Rightarrow> InboundTransfer \<times> TransferAction" where
  "InboundTransfer_hashmap_update now segment hashmap_data t =
    (let r = it_resource t in
     if ir_state r \<noteq> RSt_Transferring then (t, TA_None)
     else if \<not> it_waiting_for_hmu t then (t, TA_None)
     else if length hashmap_data < MAPHASH_LEN \<or> \<not> is_multiple_of (length hashmap_data) MAPHASH_LEN then InboundTransfer_cancel t
     else case checked_mul segment (hashmap_max_len LINK_MDU) of
       None \<Rightarrow> InboundTransfer_cancel t
     | Some segment_start \<Rightarrow>
         if segment_start \<ge> ir_total_parts r then InboundTransfer_cancel t
         else
           let hashes_count = length hashmap_data div MAPHASH_LEN in
           if segment_start > it_hashmap_height t then InboundTransfer_cancel t
           else if usize_saturating_add segment_start hashes_count \<le> it_hashmap_height t then (t, TA_None)
           else
             let (map_hashes, height) = merge_hashes segment_start (ir_total_parts r) hashmap_data [0..<hashes_count]
                   (ir_map_hashes r) (it_hashmap_height t);
                 t = t\<lparr>it_resource := r\<lparr>ir_state := RSt_Transferring, ir_map_hashes := map_hashes\<rparr>,
                      it_last_activity := now, it_retries_left := MAX_RETRIES, it_hashmap_height := height,
                      it_waiting_for_hmu := False\<rparr>
             in InboundTransfer_request_next now t)"

definition InboundTransfer_create_hmu :: "InboundTransfer \<Rightarrow> bytes" where
  "InboundTransfer_create_hmu t =
    (let r = it_resource t;
         is_complete = InboundResource_is_complete r;
         exhausted = (if is_complete then HASHMAP_IS_EXHAUSTED else HASHMAP_IS_NOT_EXHAUSTED);
         last_mh = (if is_complete \<and> ir_map_hashes r \<noteq> [] then last (ir_map_hashes r) else []);
         search_start = ir_consecutive_completed r;
         search_end = min (search_start + ws_window (ir_window r)) (ir_total_parts r);
         needed = (if is_complete then []
           else concat (map (\<lambda>i. if i < length (ir_map_hashes r) \<and> ir_parts r ! i = None then ir_map_hashes r ! i else [])
                  [search_start..<search_end]))
     in exhausted # last_mh @ ir_resource_hash r @ needed)"

definition InboundTransfer_complete ::
    "crypto_lib \<Rightarrow> bz_lib \<Rightarrow> decryptor option \<Rightarrow> InboundTransfer \<Rightarrow>
     InboundTransfer \<times> (ResourceError, bytes \<times> bytes) result" where
  "InboundTransfer_complete lib bz decrypt_fn t =
    (case InboundResource_assemble lib bz decrypt_fn (it_resource t) of
       (r, Inl e) \<Rightarrow> (t\<lparr>it_resource := r\<rparr>, Err e)
     | (r, Inr data) \<Rightarrow>
         let proof_input = (if rf_has_metadata (ir_flags r) then
               (case ir_metadata r of Some meta \<Rightarrow> u24_to_be (length meta) @ meta @ data | None \<Rightarrow> data)
             else data)
         in (t\<lparr>it_resource := r\<rparr>, Ok (data, InboundResource_generate_proof lib proof_input r)))"

definition InboundTransfer_handle_cancel :: "InboundTransfer \<Rightarrow> InboundTransfer" where
  "InboundTransfer_handle_cancel t = t\<lparr>it_resource := (it_resource t)\<lparr>ir_state := RSt_Failed\<rparr>\<rparr>"

definition InboundTransfer_progress :: "InboundTransfer \<Rightarrow> real" where
  "InboundTransfer_progress t = InboundResource_progress (it_resource t)"


subsection \<open>Admission by a link session\<close>

text \<open>From \<open>src/crates/rns-runtime/src/link_session.rs\<close>.\<close>

text \<open>An \<open>io::Error\<close> is its text.\<close>

datatype ResourceSourceError =
  RSE_Io string | RSE_TooLarge | RSE_TooManySegments | RSE_Protocol ResourceError

datatype LinkSessionResourceError =
  LSRE_LinkNotActive | LSRE_LinkCrypto | LSRE_TransportUnavailable | LSRE_QueueFull | LSRE_PreparationTask
| LSRE_Cancelled | LSRE_Rejected | LSRE_OfferExpired | LSRE_InvalidAdvertisement fail_reason
| LSRE_Control ResourceError | LSRE_Failed fail_reason | LSRE_Source ResourceSourceError | LSRE_SessionClosed

definition resource_logical_id :: "ResourceAdvertisement \<Rightarrow> bytes" where
  "resource_logical_id a = (if ra_total_segments a > 1 then ra_original_hash a else ra_resource_hash a)"

definition validate_inbound_advertisement :: "ResourceAdvertisement \<Rightarrow> (LinkSessionResourceError, unit) result" where
  "validate_inbound_advertisement a =
    (if ra_total_segments a = 0 \<or> ra_total_segments a > MAX_SEGMENTS \<or> ra_segment_index a = 0
        \<or> ra_segment_index a > ra_total_segments a then Err (LSRE_InvalidAdvertisement (FR_Text ''segment metadata is out of range''))
     else if ra_total_segments a = 1 \<and> ra_segment_index a \<noteq> 1 then Err (LSRE_InvalidAdvertisement (FR_Text ''single-segment resource has a non-first segment index''))
     else Ok ())"

definition inbound_transfer_from_advertisement ::
    "instant \<Rightarrow> ResourceAdvertisement \<Rightarrow> duration \<Rightarrow> (LinkSessionResourceError, InboundTransfer) result" where
  "inbound_transfer_from_advertisement now a rtt =
     and_then (validate_inbound_advertisement a) (\<lambda>_.
       if length (ra_random_hash a) < RESOURCE_RANDOM_HASH_SIZE then Err (LSRE_InvalidAdvertisement (FR_Text ''resource random hash is truncated''))
       else
         let random_hash = take RESOURCE_RANDOM_HASH_SIZE (ra_random_hash a);
             flags = (if ra_total_segments a > 1 \<and> ra_segment_index a > 1
                      then (ra_flags a)\<lparr>rf_has_metadata := False\<rparr> else ra_flags a)
         in map_err (LSRE_InvalidAdvertisement \<circ> FR_Error) (InboundTransfer_from_advertisement now (ra_num_parts a) (ra_transfer_size a)
              (ra_data_size a) random_hash (ra_resource_hash a) flags (get_map_hashes a) rtt))"

definition resource_request_hash :: "bytes \<Rightarrow> bytes option" where
  "resource_request_hash request =
    (case request of
       [] \<Rightarrow> None
     | flag # _ \<Rightarrow>
         let offset = (if flag = HASHMAP_IS_EXHAUSTED then 1 + MAPHASH_LEN else 1)
         in if length request < offset + 32 then None else Some (subslice offset (offset + 32) request))"

end
