(* ===== verification/Resource_Delivery.thy ===== *)
theory Resource_Delivery
  imports Resource_Transfer
begin

text \<open>
  What resource transfers achieve: a transfer over a link that loses nothing ends with the data at the receiver and the
  proof at the sender; a receiver stays in a well-formed state whatever arrives; a sender completes only on the proof of
  its resource. The lemmas follow the rounds of requests and answers of \<open>src/crates/rns-protocol/src/resource.rs\<close>.
\<close>

subsection \<open>A transfer over a link that loses nothing\<close>

text \<open>
  What the receiver does with the packets that the sender emits for one request: a part goes to \<open>receive_part\<close>, a
  hashmap update of this resource to \<open>hashmap_update\<close>. The result is the last action that is not \<open>TA_None\<close>.
\<close>

definition or_else :: "TransferAction \<Rightarrow> TransferAction \<Rightarrow> TransferAction" where
  "or_else a b = (if b = TA_None then a else b)"

fun receive_actions ::
    "crypto_lib \<Rightarrow> 'v resource_msgpack \<Rightarrow> instant \<Rightarrow> TransferAction list \<Rightarrow> InboundTransfer \<Rightarrow> InboundTransfer \<times> TransferAction" where
  "receive_actions lib rm now [] u = (u, TA_None)"
| "receive_actions lib rm now (a # as) u =
    (let (u, x) = (case a of
           SendPart i part \<Rightarrow> InboundTransfer_receive_part lib now part u
         | SendHmu hmu \<Rightarrow>
             (case parse_hashmap_update rm hmu of
                Inr (h, segment, hashmap) \<Rightarrow>
                  if h = ir_resource_hash (it_resource u) then InboundTransfer_hashmap_update now segment hashmap u else (u, TA_None)
              | Inl _ \<Rightarrow> (u, TA_None))
         | _ \<Rightarrow> (u, TA_None));
         (u, y) = receive_actions lib rm now as u
     in (u, or_else x y))"

text \<open>Requests and answers until the receiver reports completion; \<open>clk\<close> is the clock, read anew in every round.\<close>

fun exchange ::
    "crypto_lib \<Rightarrow> 'v resource_msgpack \<Rightarrow> (nat \<Rightarrow> instant) \<Rightarrow> nat \<Rightarrow> OutboundTransfer \<Rightarrow> InboundTransfer \<times> TransferAction \<Rightarrow>
     (OutboundTransfer \<times> InboundTransfer) option" where
  "exchange lib rm clk 0 t ua = None"
| "exchange lib rm clk (Suc n) t (u, SendRequest q) =
    (let (t', as) = OutboundTransfer_handle_request rm (clk n) q t in
     case receive_actions lib rm (clk n) as u of
       (u', TA_Complete) \<Rightarrow> Some (t', u')
     | (u', a) \<Rightarrow> exchange lib rm clk n t' (u', a))"
| "exchange lib rm clk (Suc n) t (u, _) = None"

lemma receive_actions_append:
  "receive_actions lib rm now (as @ bs) u =
    (let (u1, x) = receive_actions lib rm now as u; (u2, y) = receive_actions lib rm now bs u1 in (u2, or_else x y))"
  by (induction as arbitrary: u) (auto simp: or_else_def Let_def split: prod.splits)

subsection \<open>Collecting parts in order\<close>

text \<open>The receiver holds the first \<open>c\<close> parts of \<open>res\<close> and knows the first \<open>h\<close> map hashes.\<close>

definition collected :: "OutboundResource \<Rightarrow> nat \<Rightarrow> nat \<Rightarrow> InboundResource \<Rightarrow> bool" where
  "collected res c h r \<longleftrightarrow>
     ir_state r = RSt_Transferring \<and> ir_total_parts r = length (or_parts res)
   \<and> ir_parts r = map Some (take c (or_parts res)) @ replicate (length (or_parts res) - c) None
   \<and> ir_consecutive_completed r = c \<and> ir_map_hashes r = take h (or_map_hashes res)
   \<and> ir_flags r = or_flags res \<and> ir_random_hash r = or_random_hash res \<and> ir_resource_hash r = or_resource_hash res
   \<and> resource_window_wf (ir_window r) \<and> ir_metadata r = None
   \<and> c \<le> h \<and> h \<le> length (or_parts res)"

text \<open>What the proof needs of a resource: one map hash of four bytes per part, all different.\<close>

definition sendable :: "crypto_lib \<Rightarrow> OutboundResource \<Rightarrow> bool" where
  "sendable lib res \<longleftrightarrow> or_map_hashes res = map (\<lambda>p. get_map_hash lib p (or_random_hash res)) (or_parts res)
     \<and> distinct (or_map_hashes res) \<and> (\<forall>m \<in> set (or_map_hashes res). length m = 4) \<and> length (or_resource_hash res) = 32
     \<and> or_parts res \<noteq> [] \<and> length (or_parts res) < 2 ^ 32"

lemma consecutive_from_collected:
  assumes "c \<le> length ps"
  shows "consecutive_from (map Some (take c ps) @ replicate (length ps - c) None) (length ps) i = (if i \<le> c then c else i)"
proof (induction "c - i" arbitrary: i)
  case 0
  then show ?case using assms
    by (subst consecutive_from.simps) (auto simp: nth_append not_less)
next
  case (Suc m)
  then have "i < c" "m = c - (i + 1)" by simp_all
  then show ?case using assms Suc(1) [of "i + 1"]
    by (subst consecutive_from.simps) (auto simp: nth_append)
qed

lemma collected_nth_None:
  assumes "collected res c h r" and "c \<le> i" and "i < length (or_parts res)"
  shows "ir_parts r ! i = None"
  using assms by (simp add: collected_def nth_append)

lemma receive_next_part:
  assumes "collected res c h r" and "sendable lib res" and "c < h"
  shows "InboundResource_receive_part lib (or_parts res ! c) r =
      (r\<lparr>ir_parts := map Some (take (Suc c) (or_parts res)) @ replicate (length (or_parts res) - Suc c) None,
         ir_consecutive_completed := Suc c\<rparr>, True)"
    and "collected res (Suc c) h (r\<lparr>ir_parts := map Some (take (Suc c) (or_parts res)) @ replicate (length (or_parts res) - Suc c) None,
         ir_consecutive_completed := Suc c\<rparr>)"
proof -
  let ?ps = "or_parts res"
  have c: "c < length ?ps" using assms(1,3) by (simp add: collected_def)
  have "List.find (\<lambda>i. i < length (ir_map_hashes r) \<and> ir_map_hashes r ! i = get_map_hash lib (?ps ! c) (ir_random_hash r) \<and> ir_parts r ! i = None)
      [c..<min (c + ws_window (ir_window r)) (ir_total_parts r)] = Some c"
  proof -
    have "min (c + ws_window (ir_window r)) (ir_total_parts r) > c"
      using assms(1) c by (auto simp: collected_def resource_window_wf_def)
    then have "[c..<min (c + ws_window (ir_window r)) (ir_total_parts r)] = c # [Suc c..<min (c + ws_window (ir_window r)) (ir_total_parts r)]"
      by (simp add: upt_conv_Cons)
    moreover have "c < length (ir_map_hashes r)" "ir_map_hashes r ! c = get_map_hash lib (?ps ! c) (ir_random_hash r)"
      using assms c by (simp_all add: collected_def sendable_def)
    ultimately show ?thesis using collected_nth_None [OF assms(1) order.refl c] by simp
  qed
  moreover have upd: "(ir_parts r)[c := Some (?ps ! c)] = map Some (take (Suc c) ?ps) @ replicate (length ?ps - Suc c) None"
  proof -
    have "replicate (length ?ps - c) (None :: bytes option) = None # replicate (length ?ps - Suc c) None"
      using c by (metis Suc_diff_Suc replicate_Suc)
    then show ?thesis using assms(1) c by (simp add: collected_def list_update_append take_Suc_conv_app_nth)
  qed
  moreover have "consecutive_from (map Some (take (Suc c) ?ps) @ replicate (length ?ps - Suc c) None) (length ?ps) c = Suc c"
    using consecutive_from_collected [of "Suc c" ?ps c] c by simp
  ultimately show "InboundResource_receive_part lib (?ps ! c) r =
      (r\<lparr>ir_parts := map Some (take (Suc c) ?ps) @ replicate (length ?ps - Suc c) None, ir_consecutive_completed := Suc c\<rparr>, True)"
    using assms(1) by (simp add: InboundResource_receive_part_def InboundResource_update_consecutive_def collected_def)
  show "collected res (Suc c) h (r\<lparr>ir_parts := map Some (take (Suc c) ?ps) @ replicate (length ?ps - Suc c) None,
         ir_consecutive_completed := Suc c\<rparr>)"
    using assms(1,3) by (simp add: collected_def)
qed

lemma request_loop_eq:
  assumes "ir_map_hashes r = take h mh" and "h \<le> length mh" and "\<forall>i. a \<le> i \<and> i < e \<longrightarrow> ir_parts r ! i = None"
    and "count + (e - a) \<le> ws_window (ir_window r)" and "a \<le> e" and "a \<le> h"
  shows "request_loop r [a..<e] count = (concat (map ((!) mh) [a..<min e h]), min e h - a, h < e)"
  using assms(3-6)
proof (induction "e - a" arbitrary: a count)
  case (Suc n)
  have upt: "[a..<e] = a # [Suc a..<e]" using Suc(2) by (simp add: upt_conv_Cons)
  have miss: "ir_parts r ! a = None" using Suc by simp
  show ?case
  proof (cases "a < h")
    case True
    then have upt': "[a..<min e h] = a # [Suc a..<min e h]" using Suc(2) by (simp add: upt_conv_Cons)
    have known: "a < length (ir_map_hashes r)" "ir_map_hashes r ! a = mh ! a" using True assms(1,2) by simp_all
    show ?thesis
    proof (cases "count + 1 \<ge> ws_window (ir_window r)")
      case last: True
      then have "e = Suc a" using Suc(2,4) by linarith
      then show ?thesis using last miss known True by (simp add: upt upt')
    next
      case False
      have "request_loop r [Suc a..<e] (count + 1) = (concat (map ((!) mh) [Suc a..<min e h]), min e h - Suc a, h < e)"
        using Suc True by (intro Suc(1)) auto
      then show ?thesis using False miss known True Suc(2) by (simp add: upt upt' Let_def)
    qed
  next
    case False
    then have "a = h" using Suc by simp
    then have "request_loop r (a # [Suc a..<e]) count = ([], 0, True)" using miss assms(1,2) by (simp add: Let_def)
    then show ?thesis using \<open>a = h\<close> Suc(2) upt by simp
  qed
qed simp

definition receiving :: "OutboundResource \<Rightarrow> nat \<Rightarrow> nat \<Rightarrow> nat \<Rightarrow> bool \<Rightarrow> InboundTransfer \<Rightarrow> bool" where
  "receiving res c h k wt u \<longleftrightarrow> collected res c h (it_resource u) \<and> it_hashmap_height u = h
     \<and> it_outstanding_parts u = k \<and> it_waiting_for_hmu u = wt"

definition request_bytes :: "OutboundResource \<Rightarrow> nat \<Rightarrow> nat \<Rightarrow> nat \<Rightarrow> bool \<Rightarrow> bytes" where
  "request_bytes res h c e exhausted =
    (if exhausted then HASHMAP_IS_EXHAUSTED # or_map_hashes res ! (h - 1) else [HASHMAP_IS_NOT_EXHAUSTED])
     @ or_resource_hash res @ concat (map ((!) (or_map_hashes res)) [c..<e])"

lemma sendable_hashes:
  "sendable lib res \<Longrightarrow> length (or_map_hashes res) = length (or_parts res)"
  by (simp add: sendable_def)

lemma request_next_collected:
  assumes "receiving res c h k False u" and "sendable lib res" and "0 < h" and "c < length (or_parts res)"
    and "e = min (c + ws_window (ir_window (it_resource u))) (length (or_parts res))"
  obtains u' where "InboundTransfer_request_next now u = (u', SendRequest (request_bytes res h c (min e h) (h < e)))"
    and "receiving res c h (min e h - c) (h < e) u'"
proof -
  let ?r = "it_resource u"
  have col: "collected res c h ?r" and u: "it_hashmap_height u = h" "\<not> it_waiting_for_hmu u"
    using assms(1) by (simp_all add: receiving_def)
  have r: "ir_state ?r = RSt_Transferring" "\<not> InboundResource_is_complete ?r" "ir_consecutive_completed ?r = c"
      "ir_total_parts ?r = length (or_parts res)" "ir_resource_hash ?r = or_resource_hash res"
      "ir_map_hashes ?r = take h (or_map_hashes res)" "c \<le> h" "h \<le> length (or_map_hashes res)"
    using col assms(4) sendable_hashes [OF assms(2)] by (simp_all add: collected_def InboundResource_is_complete_def)
  have "request_loop ?r [c..<e] 0 = (concat (map ((!) (or_map_hashes res)) [c..<min e h]), min e h - c, h < e)"
    using r(6-8) assms(4,5) collected_nth_None [OF col] by (intro request_loop_eq) auto
  then have "InboundTransfer_request_next now u = (u\<lparr>it_outstanding_parts := min e h - c, it_waiting_for_hmu := (h < e),
      it_last_activity := now, it_req_sent := Some now, it_req_resp := None,
      it_rtt_rxd_bytes_at_part_req := it_rtt_rxd_bytes u\<rparr>, SendRequest (request_bytes res h c (min e h) (h < e)))"
    using r u assms(3) assms(5) [symmetric] by (simp add: InboundTransfer_request_next_def request_bytes_def Let_def)
  then show ?thesis by (rule that) (use col u in \<open>simp add: receiving_def\<close>)
qed

lemma update_eifr_fields [simp]:
  "it_resource (InboundTransfer_update_eifr u) = it_resource u"
  "it_hashmap_height (InboundTransfer_update_eifr u) = it_hashmap_height u"
  "it_outstanding_parts (InboundTransfer_update_eifr u) = it_outstanding_parts u"
  "it_waiting_for_hmu (InboundTransfer_update_eifr u) = it_waiting_for_hmu u"
  by (simp_all add: InboundTransfer_update_eifr_def Let_def)

lemma collected_grow: "collected res c h r \<Longrightarrow> collected res c h (r\<lparr>ir_window := WindowState_grow rate (ir_window r)\<rparr>)"
  by (simp add: collected_def window_wf_grow)

lemma receive_part_step:
  assumes "receiving res c h k wt u" and "sendable lib res" and "c < h" and "0 < k"
  shows "\<exists>u'. if Suc c = length (or_parts res)
      then InboundTransfer_receive_part lib now (or_parts res ! c) u = (u', TA_Complete) \<and> collected res (Suc c) h (it_resource u')
      else if k = 1
      then InboundTransfer_receive_part lib now (or_parts res ! c) u = InboundTransfer_request_next now u' \<and> receiving res (Suc c) h 0 wt u'
      else InboundTransfer_receive_part lib now (or_parts res ! c) u = (u', TA_None) \<and> receiving res (Suc c) h (k - 1) wt u'"
proof -
  let ?r = "(it_resource u)\<lparr>ir_parts := map Some (take (Suc c) (or_parts res)) @ replicate (length (or_parts res) - Suc c) None,
      ir_consecutive_completed := Suc c\<rparr>"
  have col: "collected res c h (it_resource u)" using assms(1) by (simp add: receiving_def)
  note rec = receive_next_part [OF col assms(2,3)]
  have state: "ir_state (it_resource u) = RSt_Transferring" using col by (simp add: collected_def)
  have complete: "InboundResource_is_complete ?r \<longleftrightarrow> Suc c = length (or_parts res)"
    using col by (auto simp: InboundResource_is_complete_def collected_def)
  have fields: "it_hashmap_height u = h" "it_outstanding_parts u = k" "it_waiting_for_hmu u = wt"
    using assms(1) by (simp_all add: receiving_def)
  consider "Suc c = length (or_parts res)" | "Suc c \<noteq> length (or_parts res)" "k = 1" | "Suc c \<noteq> length (or_parts res)" "k \<noteq> 1" by blast
  then show ?thesis
  proof cases
    case 1
    then show ?thesis using rec complete state
      by (auto simp: InboundTransfer_receive_part_def Let_def split: option.splits)
  next
    case 2
    then show ?thesis using rec complete state fields collected_grow [OF rec(2)]
      by (auto simp: InboundTransfer_receive_part_def Let_def receiving_def intro!: exI split: option.splits)
  next
    case 3
    then show ?thesis using rec complete state fields assms(4)
      by (auto simp: InboundTransfer_receive_part_def Let_def receiving_def split: option.splits)
  qed
qed

lemma receive_parts_run:
  assumes "receiving res c h (e - c) wt u" and "sendable lib res" and "c < e" and "e \<le> h"
  shows "\<exists>u'. if e = length (or_parts res)
      then receive_actions lib rm now (map (\<lambda>i. SendPart i (or_parts res ! i)) [c..<e]) u = (u', TA_Complete)
        \<and> collected res e h (it_resource u')
      else receive_actions lib rm now (map (\<lambda>i. SendPart i (or_parts res ! i)) [c..<e]) u = InboundTransfer_request_next now u'
        \<and> receiving res e h 0 wt u'"
  using assms(1,3)
proof (induction "e - Suc c" arbitrary: c u)
  case 0
  then have e: "e = Suc c" by simp
  then have k: "receiving res c h 1 wt u" using 0(2) by simp
  have "c < h" using 0 assms(4) by simp
  obtain u1 x where step: "InboundTransfer_receive_part lib now (or_parts res ! c) u = (u1, x)" by fastforce
  have run: "receive_actions lib rm now (map (\<lambda>i. SendPart i (or_parts res ! i)) [c..<e]) u = (u1, x)"
    using step by (simp add: e or_else_def)
  show ?case unfolding run step [symmetric]
    using receive_part_step [OF k assms(2) \<open>c < h\<close>, of now]
    by (cases "Suc c = length (or_parts res)") (simp_all add: e)
next
  case (Suc m)
  have upt: "[c..<e] = c # [Suc c..<e]" using Suc(2) by (simp add: upt_conv_Cons)
  have "e \<le> length (or_parts res)" using Suc(3) assms(4) by (simp add: receiving_def collected_def)
  then have "Suc c \<noteq> length (or_parts res)" using Suc(2) by linarith
  moreover have less: "e - c \<noteq> 1" "c < h" "0 < e - c" using Suc(2) assms(4) by linarith+
  ultimately obtain u1 where u1: "InboundTransfer_receive_part lib now (or_parts res ! c) u = (u1, TA_None)" "receiving res (Suc c) h (e - c - 1) wt u1"
    using receive_part_step [OF Suc(3) assms(2), of now] Suc(2) assms(4) less by auto
  have "m = e - Suc (Suc c)" "receiving res (Suc c) h (e - Suc c) wt u1" "Suc c < e" using u1(2) Suc(2) by simp_all
  note ih = Suc(1) [OF this]
  have "receive_actions lib rm now (map (\<lambda>i. SendPart i (or_parts res ! i)) [c..<e]) u =
      receive_actions lib rm now (map (\<lambda>i. SendPart i (or_parts res ! i)) [Suc c..<e]) u1"
    using u1(1) by (auto simp: upt or_else_def case_prod_unfold Let_def prod_eq_iff)
  then show ?case using ih by (simp only: )
qed

subsection \<open>Answering requests\<close>

definition sending :: "OutboundResource \<Rightarrow> nat \<Rightarrow> OutboundTransfer \<Rightarrow> bool" where
  "sending res b t \<longleftrightarrow> (\<exists>s. s \<notin> closed_states \<and> ot_resource t = res\<lparr>or_state := s\<rparr>) \<and> ot_receiver_min_consecutive_height t = b"

lemma fst_send_parts:
  assumes "length (or_map_hashes r) = length (or_parts r)"
  shows "fst (send_parts r requested is S k) =
    map (\<lambda>i. SendPart i (or_parts r ! i)) (filter (\<lambda>i. i < length (or_parts r) \<and> or_map_hashes r ! i \<in> set requested) is)"
  by (induction "is" arbitrary: S k) (auto simp: assms OutboundResource_get_part_def Let_def case_prod_unfold)

lemma filter_upt_range:
  "b \<le> c \<Longrightarrow> e \<le> n \<Longrightarrow> c \<le> e \<Longrightarrow> filter (\<lambda>i. c \<le> i \<and> i < e) [b..<n] = [c..<e]"
proof -
  assume a: "b \<le> c" "e \<le> n" "c \<le> e"
  have "[b..<n] = [b..<c] @ [c..<e] @ [e..<n]"
    using a by (metis le_add_diff_inverse le_trans upt_add_eq_append)
  then show ?thesis by (simp add: filter_empty_conv filter_id_conv)
qed

lemma locate_part_found:
  assumes "distinct mh" and "b \<le> j" and "j < n" and "n \<le> length mh"
  shows "locate_part mh (mh ! j) p [b..<n] = Suc j"
  using assms(2)
proof (induction "j - b" arbitrary: b p)
  case 0
  then have "b = j" by simp
  then show ?case using assms(3,4) by (simp add: upt_conv_Cons)
next
  case (Suc m)
  have "[b..<n] = b # [Suc b..<n]" "mh ! b \<noteq> mh ! j"
    using Suc assms by (auto simp: upt_conv_Cons nth_eq_iff_index_eq)
  then show ?case using Suc by simp
qed

lemma hashmap_stride: "hashmap_max_len LINK_MDU = 74" "collision_guard_size LINK_MDU = 224"
  by (simp_all add: collision_guard_size_def hashmap_max_len_def OVERHEAD_def MAPHASH_LEN_def wire_constants RESOURCE_WINDOW_MAX_FAST_def)

lemma requested_range:
  assumes "sendable lib res" and "e \<le> length (or_parts res)"
  shows "(\<lambda>i. i < length (or_parts res) \<and> or_map_hashes res ! i \<in> set (map ((!) (or_map_hashes res)) [c..<e])) = (\<lambda>i. c \<le> i \<and> i < e)"
proof -
  have "distinct (or_map_hashes res)" "length (or_map_hashes res) = length (or_parts res)"
    using assms(1) sendable_hashes by (auto simp: sendable_def)
  then show ?thesis using assms(2) by (auto simp: nth_eq_iff_index_eq fun_eq_iff)
qed

lemma requested_hashes:
  assumes "sendable lib res" and "e \<le> length (or_parts res)"
  shows "as_chunks MAPHASH_LEN (concat (map ((!) (or_map_hashes res)) [c..<e])) = map ((!) (or_map_hashes res)) [c..<e]"
    and "length (concat (map ((!) (or_map_hashes res)) [c..<e])) = 4 * (e - c)"
proof -
  have len: "\<forall>m \<in> set (map ((!) (or_map_hashes res)) [c..<e]). length m = 4"
    using assms sendable_hashes [OF assms(1)] by (auto simp: sendable_def)
  then show "as_chunks MAPHASH_LEN (concat (map ((!) (or_map_hashes res)) [c..<e])) = map ((!) (or_map_hashes res)) [c..<e]"
    by (intro as_chunks_concat) (simp_all add: MAPHASH_LEN_def)
  have "map length (map ((!) (or_map_hashes res)) [c..<e]) = replicate (e - c) 4"
    using len by (intro nth_equalityI) auto
  then show "length (concat (map ((!) (or_map_hashes res)) [c..<e])) = 4 * (e - c)"
    by (simp add: length_concat sum_list_replicate)
qed

lemma hashmap_answer_segment:
  assumes "sendable lib res" and "74 dvd h" and "h < length (or_parts res)"
  shows "hashmap_answer rm h res = Some [SendHmu (encode_hashmap_update rm (or_resource_hash res) (h div 74)
      (concat (map ((!) (or_map_hashes res)) [h..<min (h + 74) (length (or_parts res))])))]"
proof -
  let ?e = "min (h + 74) (length (or_parts res))"
  have seg: "h div 74 * 74 = h" using assms(2) by simp
  have len: "length (concat (map ((!) (or_map_hashes res)) [h..<?e])) = 4 * (?e - h)"
    by (rule requested_hashes(2) [OF assms(1)]) simp
  then have ne: "concat (map ((!) (or_map_hashes res)) [h..<?e]) \<noteq> []" using assms(3) by force
  define hb where "hb = concat (map (\<lambda>i. if i < length (or_map_hashes res) then or_map_hashes res ! i else []) [h..<?e])"
  have hb: "hb = concat (map ((!) (or_map_hashes res)) [h..<?e])"
    unfolding hb_def using sendable_hashes [OF assms(1)] by (intro arg_cong [of _ _ concat] map_cong) auto
  have "(h div 74 + 1) * 74 = h + 74" using seg by simp
  moreover have "is_multiple_of h 74" using assms(2) by (simp add: is_multiple_of_def)
  ultimately have "hashmap_answer rm h res =
      (if hb = [] then None else Some [SendHmu (encode_hashmap_update rm (or_resource_hash res) (h div 74) hb)])"
    using seg by (simp add: hashmap_answer_def hashmap_stride checked_div_def Let_def OutboundResource_num_parts_def hb_def
        add.commute del: concat_eq_Nil_conv)
  then show ?thesis using ne unfolding hb by (simp only: if_False)
qed

lemma set_state_sending:
  "s \<notin> closed_states \<Longrightarrow> ot_resource t = res\<lparr>or_state := s'\<rparr> \<Longrightarrow> ot_receiver_min_consecutive_height t = b \<Longrightarrow>
   sending res b (set_state s t)"
  by (auto simp: sending_def set_state_def intro!: exI [of _ s])

text \<open>The part of \<open>handle_request\<close> after its checks, for the hashes \<open>req\<close> and, when the map is exhausted, the last known hash.\<close>

definition answered ::
    "'v resource_msgpack \<Rightarrow> instant \<Rightarrow> bytes list \<Rightarrow> bytes option \<Rightarrow> OutboundTransfer \<Rightarrow> OutboundTransfer \<times> TransferAction list" where
  "answered rm now req last_hash t =
    (let r = ot_resource t;
         b = ot_receiver_min_consecutive_height t;
         range = [b..<min (b + 224) (length (or_parts r))];
         (actions, sent_indices, sent_parts) = send_parts r req range (ot_sent_part_indices t) (ot_sent_parts t);
         previously_sent = ot_sent_parts t;
         t = t\<lparr>ot_sent_part_indices := sent_indices, ot_sent_parts := sent_parts\<rparr>;
         part_index = (case last_hash of Some l \<Rightarrow> locate_part (or_map_hashes r) l b range | None \<Rightarrow> 0);
         t = (if last_hash \<noteq> None then t\<lparr>ot_receiver_min_consecutive_height := part_index - 76\<rparr> else t)
     in case (if last_hash \<noteq> None then hashmap_answer rm part_index r else Some []) of
          None \<Rightarrow> (set_state RSt_Failed t, actions @ [SendCancel Icl (or_resource_hash r)])
        | Some hmu \<Rightarrow>
            (if length actions > 0 then
               let t = (if or_state r = RSt_Advertised \<and> ot_rtt t = 0 then t\<lparr>ot_rtt := duration_since now (ot_started_at t)\<rparr> else t);
                   t = t\<lparr>ot_last_part_sent := Some now\<rparr>;
                   t = (if ot_sent_parts t > previously_sent
                        then t\<lparr>ot_last_progress := now, ot_last_request_parts := length actions, ot_retries := 0\<rparr> else t)
               in set_state (if ot_sent_parts t = length (or_parts r) then RSt_AwaitingProof else RSt_Transferring) t
             else t,
             actions @ hmu))"

lemma height_clamp: "(if p > RESOURCE_WINDOW_MAX then p - 1 - RESOURCE_WINDOW_MAX else 0) = p - 76"
  by (simp add: RESOURCE_WINDOW_MAX_def)

lemma handle_request_answered:
  assumes "or_state (ot_resource t) \<notin> closed_states" and "length (or_resource_hash (ot_resource t)) = 32"
    and "last_hash = None \<or> (\<exists>l. last_hash = Some l \<and> length l = 4)" and "\<forall>m \<in> set req. length m = 4"
    and "q = (case last_hash of Some l \<Rightarrow> HASHMAP_IS_EXHAUSTED # l | None \<Rightarrow> [HASHMAP_IS_NOT_EXHAUSTED])
      @ or_resource_hash (ot_resource t) @ concat req"
  shows "OutboundTransfer_handle_request rm now q t = answered rm now req last_hash t"
proof -
  have chunked: "as_chunks MAPHASH_LEN (concat req) = req"
    using assms(4) by (intro as_chunks_concat) (simp_all add: MAPHASH_LEN_def)
  have "length (concat req) = 4 * length req"
    using assms(4) by (induction req) simp_all
  then have mult: "is_multiple_of (length (concat req)) 4" by (simp add: is_multiple_of_def)
  have flags: "HASHMAP_IS_NOT_EXHAUSTED \<noteq> HASHMAP_IS_EXHAUSTED"
    by (simp add: HASHMAP_IS_NOT_EXHAUSTED_def HASHMAP_IS_EXHAUSTED_def)
  obtain acts S k where sp: "send_parts (ot_resource t) req [ot_receiver_min_consecutive_height t..<
      min (ot_receiver_min_consecutive_height t + 224) (length (or_parts (ot_resource t)))] (ot_sent_part_indices t) (ot_sent_parts t) = (acts, S, k)"
    by (metis prod_cases3)
  note common = OutboundTransfer_handle_request_def answered_def hashmap_stride OutboundResource_num_parts_def height_clamp
    MAPHASH_LEN_def subslice_def
  show ?thesis
  proof (cases last_hash)
    case None
    have q: "q = HASHMAP_IS_NOT_EXHAUSTED # or_resource_hash (ot_resource t) @ concat req" using assms(5) None by simp
    show ?thesis unfolding common using assms(1,2) mult flags chunked None
      by (simp add: q MAPHASH_LEN_def Let_def sp)
  next
    case (Some l)
    have q: "q = HASHMAP_IS_EXHAUSTED # l @ or_resource_hash (ot_resource t) @ concat req" and l: "length l = 4"
      using assms(3,5) Some by simp_all
    show ?thesis unfolding common using assms(1,2) mult flags chunked Some l
      by (simp add: q MAPHASH_LEN_def Let_def sp)
  qed
qed


lemma sendable_state [simp]: "sendable lib (res\<lparr>or_state := s\<rparr>) = sendable lib res"
  by (simp add: sendable_def)

lemma answered_parts:
  assumes "ot_resource t = res\<lparr>or_state := s\<rparr>" and "s \<notin> closed_states" and "ot_receiver_min_consecutive_height t = b"
    and "sendable lib res" and "b \<le> c" and "c \<le> e" and "e \<le> length (or_parts res)" and "e \<le> b + 224"
    and "case last_hash of None \<Rightarrow> b' = b \<and> hmu = []
      | Some l \<Rightarrow> b' = locate_part (or_map_hashes res) l b [b..<min (b + 224) (length (or_parts res))] - 76
          \<and> hashmap_answer rm (locate_part (or_map_hashes res) l b [b..<min (b + 224) (length (or_parts res))]) (res\<lparr>or_state := s\<rparr>) = Some hmu"
  shows "\<exists>t'. answered rm now (map ((!) (or_map_hashes res)) [c..<e]) last_hash t =
      (t', map (\<lambda>i. SendPart i (or_parts res ! i)) [c..<e] @ hmu) \<and> sending res b' t'"
proof -
  let ?req = "map ((!) (or_map_hashes res)) [c..<e]" and ?range = "[b..<min (b + 224) (length (or_parts res))]"
  obtain acts S k where sp: "send_parts (res\<lparr>or_state := s\<rparr>) ?req ?range (ot_sent_part_indices t) (ot_sent_parts t) = (acts, S, k)"
    by (metis prod_cases3)
  have "filter (\<lambda>i. i < length (or_parts res) \<and> or_map_hashes res ! i \<in> set ?req) ?range = [c..<e]"
    unfolding requested_range [OF assms(4,7)] using assms by (intro filter_upt_range) auto
  then have acts: "acts = map (\<lambda>i. SendPart i (or_parts res ! i)) [c..<e]"
    using fst_send_parts [of "res\<lparr>or_state := s\<rparr>" ?req ?range "ot_sent_part_indices t" "ot_sent_parts t"] sp sendable_hashes [OF assms(4)] by simp
  have ns: "RSt_AwaitingProof \<notin> closed_states" "RSt_Transferring \<notin> closed_states" by (simp_all add: closed_states_def)
  show ?thesis
  proof (cases last_hash)
    case None
    then show ?thesis using assms(1-3,9) sp acts ns
      by (auto simp: answered_def Let_def sending_def set_state_def split: if_splits)
  next
    case (Some l)
    then show ?thesis using assms(1-3,9) sp acts ns
      by (auto simp: answered_def Let_def sending_def set_state_def split: if_splits)
  qed
qed

lemma subslice_concat:
  assumes "\<forall>x \<in> set xs. length x = n" and "j < length xs"
  shows "subslice (j * n) (j * n + n) (concat xs) = xs ! j"
  using assms
proof (induction xs arbitrary: j)
  case (Cons x xs)
  show ?case
  proof (cases j)
    case 0
    then show ?thesis using Cons by (simp add: subslice_def)
  next
    case (Suc i)
    have "subslice (j * n) (j * n + n) (concat (x # xs)) = subslice (i * n) (i * n + n) (concat xs)"
      using Cons.prems(1) Suc by (simp add: subslice_def)
    also have "\<dots> = xs ! i" using Cons.prems Suc by (intro Cons.IH) simp_all
    finally show ?thesis by (simp only: Suc nth_Cons_Suc)
  qed
qed simp

lemma merge_hashes_segment:
  assumes "\<forall>m \<in> set mh. length m = 4" and "h + k \<le> length mh" and "length mh < 2 ^ 32" and "j \<le> k"
  shows "merge_hashes h (length mh) (concat (map ((!) mh) [h..<h + k])) [j..<k] (take (h + j) mh) (h + j) = (take (h + k) mh, h + k)"
  using assms(4)
proof (induction "k - j" arbitrary: j)
  case (Suc m)
  let ?D = "concat (map ((!) mh) [h..<h + k])"
  have j: "j < k" "[j..<k] = j # [Suc j..<k]" using Suc(2) by (simp_all add: upt_conv_Cons)
  have lens: "\<forall>x \<in> set (map ((!) mh) [h..<h + k]). length x = 4" using assms(1,2) by auto
  have "map length (map ((!) mh) [h..<h + k]) = replicate k 4"
    using lens by (intro nth_equalityI) auto
  then have len: "length ?D = 4 * k" by (simp add: length_concat sum_list_replicate)
  have mh: "subslice (j * MAPHASH_LEN) (j * MAPHASH_LEN + MAPHASH_LEN) ?D = mh ! (h + j)"
    using subslice_concat [OF lens, of j] j(1) by (simp add: MAPHASH_LEN_def)
  have idx: "checked_add h j = Some (h + j)" "h + j < length mh" using assms(2,3) j(1) by (simp_all add: checked_add_def)
  have stop: "j * MAPHASH_LEN + MAPHASH_LEN \<le> length ?D" using j(1) len by (simp add: MAPHASH_LEN_def)
  have upd: "(take (h + j) mh @ [replicate MAPHASH_LEN 0])[h + j := mh ! (h + j)] = take (h + Suc j) mh"
    using idx(2) by (simp add: list_update_append take_Suc_conv_app_nth)
  have "merge_hashes h (length mh) ?D [j..<k] (take (h + j) mh) (h + j)
      = merge_hashes h (length mh) ?D [Suc j..<k] (take (h + Suc j) mh) (h + Suc j)"
    using idx mh stop upd by (simp add: j(2) Let_def nth_append)
  also have "\<dots> = (take (h + k) mh, h + k)" using Suc(2) j(1) by (intro Suc(1)) simp_all
  finally show ?case .
qed simp

lemma receive_hashmap:
  assumes "receiving res h h 0 True u" and "sendable lib res" and "74 dvd h" and "h < length (or_parts res)" and "rm_ok rm"
    and "h' = min (h + 74) (length (or_parts res))"
  obtains u' where "receive_actions lib rm now [SendHmu (encode_hashmap_update rm (or_resource_hash res) (h div 74)
      (concat (map ((!) (or_map_hashes res)) [h..<h'])))] u = InboundTransfer_request_next now u'"
    and "receiving res h h' 0 False u'"
proof -
  let ?D = "concat (map ((!) (or_map_hashes res)) [h..<h'])" and ?mh = "or_map_hashes res" and ?r = "it_resource u"
  have s: "\<forall>m \<in> set ?mh. length m = 4" "length ?mh < 2 ^ 32" "length (or_resource_hash res) = 32" "length ?mh = length (or_parts res)"
    using assms(2) by (auto simp: sendable_def)
  have h': "h < h'" "h' \<le> length (or_parts res)" using assms(4,6) by simp_all
  have parse: "parse_hashmap_update rm (encode_hashmap_update rm (or_resource_hash res) (h div 74) ?D) = Ok (or_resource_hash res, h div 74, ?D)"
    using s assms(4) by (intro hmu_roundtrip [OF assms(5)]) simp_all
  have len: "length ?D = 4 * (h' - h)" by (rule requested_hashes(2) [OF assms(2) h'(2)])
  have seg: "checked_mul (h div 74) (hashmap_max_len LINK_MDU) = Some h"
    using assms(3,4) s(2,4) by (simp add: checked_mul_def hashmap_stride)
  have r: "ir_state ?r = RSt_Transferring" "ir_total_parts ?r = length (or_parts res)" "ir_map_hashes ?r = take h ?mh"
      "ir_resource_hash ?r = or_resource_hash res" "it_hashmap_height u = h" "it_waiting_for_hmu u"
    using assms(1) by (simp_all add: receiving_def collected_def)
  have merged: "merge_hashes h (length (or_parts res)) ?D [0..<h' - h] (take h ?mh) h = (take h' ?mh, h')"
    using merge_hashes_segment [of ?mh h "h' - h" 0] s h' by simp
  let ?u = "u\<lparr>it_resource := ?r\<lparr>ir_state := RSt_Transferring, ir_map_hashes := take h' ?mh\<rparr>, it_last_activity := now,
      it_retries_left := MAX_RETRIES, it_hashmap_height := h', it_waiting_for_hmu := False\<rparr>"
  have "\<not> usize_saturating_add h (h' - h) \<le> h"
    using h' s(2,4) by (simp add: usize_saturating_add_def)
  then have upd: "InboundTransfer_hashmap_update now (h div 74) ?D u = InboundTransfer_request_next now ?u"
    using r seg len merged h' by (simp add: InboundTransfer_hashmap_update_def MAPHASH_LEN_def is_multiple_of_def Let_def)
  show ?thesis
  proof (rule that)
    show "receive_actions lib rm now [SendHmu (encode_hashmap_update rm (or_resource_hash res) (h div 74) ?D)] u = InboundTransfer_request_next now ?u"
      using parse r(4) upd by (simp add: or_else_def case_prod_unfold)
    show "receiving res h h' 0 False ?u" using assms(1) h' by (simp add: receiving_def collected_def)
  qed
qed

subsection \<open>Rounds\<close>

definition ready :: "OutboundResource \<Rightarrow> nat \<Rightarrow> nat \<Rightarrow> nat \<Rightarrow> OutboundTransfer \<Rightarrow> InboundTransfer \<Rightarrow> bool" where
  "ready res b c h t u \<longleftrightarrow> (\<exists>k. receiving res c h k False u) \<and> sending res b t \<and> b \<le> c \<and> b < h \<and> h \<le> b + 224
     \<and> c < length (or_parts res) \<and> (h = length (or_parts res) \<or> 74 dvd h)"

definition finished :: "OutboundResource \<Rightarrow> OutboundTransfer \<Rightarrow> InboundTransfer \<Rightarrow> bool" where
  "finished res t u \<longleftrightarrow> (\<exists>b. sending res b t) \<and> (\<exists>h. collected res (length (or_parts res)) h (it_resource u))"

lemma request_next_sends:
  assumes "receiving res c h k False u" and "sendable lib res" and "0 < h" and "c < length (or_parts res)"
  shows "\<exists>u' q. InboundTransfer_request_next now u = (u', SendRequest q)"
  by (rule request_next_collected [OF assms refl, of now]) blast

lemma receive_parts_waiting:
  assumes "receiving res c h (h - c) True u" and "sendable lib res" and "h < length (or_parts res)"
  obtains u' where "receive_actions lib rm now (map (\<lambda>i. SendPart i (or_parts res ! i)) [c..<h]) u = (u', TA_None)"
    and "receiving res h h 0 True u'"
proof (cases "c = h")
  case True
  then show ?thesis using assms(1) that by simp
next
  case False
  have "c < h" using assms(1) False by (auto simp: receiving_def collected_def)
  from receive_parts_run [OF assms(1,2) this order.refl, of rm now] assms(3)
  obtain u' where u': "receive_actions lib rm now (map (\<lambda>i. SendPart i (or_parts res ! i)) [c..<h]) u = InboundTransfer_request_next now u'"
    "receiving res h h 0 True u'" by auto
  have "InboundTransfer_request_next now u' = (u', TA_None)"
    using u'(2) by (simp add: InboundTransfer_request_next_def receiving_def Let_def)
  then show ?thesis using u' that by simp
qed

lemma handle_request_sending:
  assumes "sending res b t" and "sendable lib res" and "b \<le> c" and "c \<le> e" and "e \<le> length (or_parts res)" and "e \<le> b + 224"
  shows "\<exists>t'. OutboundTransfer_handle_request rm now (request_bytes res h c e False) t =
      (t', map (\<lambda>i. SendPart i (or_parts res ! i)) [c..<e]) \<and> sending res b t'"
proof -
  obtain s where s: "s \<notin> closed_states" "ot_resource t = res\<lparr>or_state := s\<rparr>" "ot_receiver_min_consecutive_height t = b"
    using assms(1) by (auto simp: sending_def)
  have len: "\<forall>m \<in> set (map ((!) (or_map_hashes res)) [c..<e]). length m = 4"
    using assms(2,5) sendable_hashes [OF assms(2)] by (auto simp: sendable_def)
  have "OutboundTransfer_handle_request rm now (request_bytes res h c e False) t
      = answered rm now (map ((!) (or_map_hashes res)) [c..<e]) None t"
    using s assms(2) len by (intro handle_request_answered) (simp_all add: request_bytes_def sendable_def)
  then show ?thesis using answered_parts [OF s(2,1,3) assms(2-6), where last_hash = None and b' = b and hmu = "[]" and rm = rm and now = now] by simp
qed

lemma handle_request_hashmap:
  assumes "sending res b t" and "sendable lib res" and "b \<le> c" and "c \<le> h" and "h < length (or_parts res)"
    and "b < h" and "h \<le> b + 224" and "74 dvd h"
  shows "\<exists>t'. OutboundTransfer_handle_request rm now (request_bytes res h c h True) t =
      (t', map (\<lambda>i. SendPart i (or_parts res ! i)) [c..<h]
        @ [SendHmu (encode_hashmap_update rm (or_resource_hash res) (h div 74)
            (concat (map ((!) (or_map_hashes res)) [h..<min (h + 74) (length (or_parts res))])))]) \<and> sending res (h - 76) t'"
proof -
  let ?l = "or_map_hashes res ! (h - 1)" and ?range = "[b..<min (b + 224) (length (or_parts res))]"
  obtain s where s: "s \<notin> closed_states" "ot_resource t = res\<lparr>or_state := s\<rparr>" "ot_receiver_min_consecutive_height t = b"
    using assms(1) by (auto simp: sending_def)
  have mh: "length (or_map_hashes res) = length (or_parts res)" "distinct (or_map_hashes res)"
      "\<forall>i < length (or_parts res). length (or_map_hashes res ! i) = 4"
    using assms(2) by (auto simp: sendable_def)
  have "OutboundTransfer_handle_request rm now (request_bytes res h c h True) t
      = answered rm now (map ((!) (or_map_hashes res)) [c..<h]) (Some ?l) t"
    using s assms(2,5) mh(3) by (intro handle_request_answered) (simp_all add: request_bytes_def sendable_def)
  moreover have "b \<le> h - 1" "h - 1 < min (b + 224) (length (or_parts res))" "Suc (h - 1) = h" using assms(5-7) by linarith+
  then have "locate_part (or_map_hashes res) ?l b ?range = h"
    using locate_part_found [OF mh(2), of b "h - 1" "min (b + 224) (length (or_parts res))" b] mh(1) by simp
  moreover have "hashmap_answer rm h (res\<lparr>or_state := s\<rparr>) = Some [SendHmu (encode_hashmap_update rm (or_resource_hash res) (h div 74)
      (concat (map ((!) (or_map_hashes res)) [h..<min (h + 74) (length (or_parts res))])))]"
    using hashmap_answer_segment [of lib "res\<lparr>or_state := s\<rparr>" h rm] assms(2,5,8) by simp
  moreover have "h \<le> length (or_parts res)" using assms(5) by simp
  ultimately show ?thesis
    using answered_parts [OF s(2,1,3) assms(2,3,4) _ assms(7), where last_hash = "Some ?l" and b' = "h - 76" and rm = rm and now = now] by simp
qed

lemma exchange_round:
  assumes "ready res b c h t u" and "sendable lib res" and "rm_ok rm"
  shows "(\<exists>t' u'. exchange lib rm clk (Suc n) t (InboundTransfer_request_next now u) = Some (t', u') \<and> finished res t' u')
    \<or> (\<exists>b' c' h' t' u'. exchange lib rm clk (Suc n) t (InboundTransfer_request_next now u) =
          exchange lib rm clk n t' (InboundTransfer_request_next (clk n) u') \<and> ready res b' c' h' t' u' \<and> c + h < c' + h')"
proof -
  let ?n = "length (or_parts res)" and ?ps = "or_parts res"
  obtain k where rc: "receiving res c h k False u" and s: "sending res b t" "b \<le> c" "b < h" "h \<le> b + 224" "c < ?n"
      and al: "h = ?n \<or> 74 dvd h" using assms(1) by (auto simp: ready_def)
  define e where "e = min (c + ws_window (ir_window (it_resource u))) ?n"
  have col: "collected res c h (it_resource u)" using rc by (simp add: receiving_def)
  have w: "2 \<le> ws_window (ir_window (it_resource u))" "ws_window (ir_window (it_resource u)) \<le> 75" "c \<le> h" "h \<le> ?n"
    using col by (auto simp: collected_def resource_window_wf_def RESOURCE_WINDOW_MAX_def)
  have "0 < h" using s(3) by simp
  from request_next_collected [OF rc assms(2) this s(5) e_def, of now]
  obtain u1 where u1: "InboundTransfer_request_next now u = (u1, SendRequest (request_bytes res h c (min e h) (h < e)))"
      "receiving res c h (min e h - c) (h < e) u1" by blast
  show ?thesis
  proof (cases "h < e")
    case False
    then have m: "min e h = e" "c < e" "e \<le> ?n" "e \<le> h" using w s(5) by (auto simp: e_def)
    obtain t' where t': "OutboundTransfer_handle_request rm (clk n) (request_bytes res h c e False) t =
        (t', map (\<lambda>i. SendPart i (?ps ! i)) [c..<e])" "sending res b t'"
      using handle_request_sending [OF s(1) assms(2) s(2), of e rm "clk n" h] m s(4) by auto
    have u1': "receiving res c h (e - c) False u1" using u1(2) m False by simp
    obtain u2 where run: "if e = ?n then receive_actions lib rm (clk n) (map (\<lambda>i. SendPart i (?ps ! i)) [c..<e]) u1 = (u2, TA_Complete)
          \<and> collected res e h (it_resource u2)
        else receive_actions lib rm (clk n) (map (\<lambda>i. SendPart i (?ps ! i)) [c..<e]) u1 = InboundTransfer_request_next (clk n) u2
          \<and> receiving res e h 0 False u2"
      using receive_parts_run [OF u1' assms(2) m(2,4)] by blast
    show ?thesis
    proof (cases "e = ?n")
      case True
      then have "finished res t' u2" using run t'(2) by (auto simp: finished_def)
      then show ?thesis using u1(1) t'(1) run True m(1) False by auto
    next
      case e: False
      then have "ready res b e h t' u2" using run t'(2) s m al by (auto simp: ready_def)
      moreover obtain q u3 where "InboundTransfer_request_next (clk n) u2 = (u3, SendRequest q)"
        using request_next_sends [OF _ assms(2) \<open>0 < h\<close>, of e 0 u2 "clk n"] run e m(3) by auto
      ultimately have "exchange lib rm clk (Suc n) t (InboundTransfer_request_next now u) = exchange lib rm clk n t' (InboundTransfer_request_next (clk n) u2)"
        using u1(1) t'(1) run e m(1) False by auto
      moreover have "c + h < e + h" using m(2) by simp
      ultimately show ?thesis using \<open>ready res b e h t' u2\<close> by (intro disjI2) blast
    qed
  next
    case True
    then have m: "min e h = h" "h < ?n" "74 dvd h" using al by (auto simp: e_def)
    define h' where "h' = min (h + 74) ?n"
    let ?hmu = "SendHmu (encode_hashmap_update rm (or_resource_hash res) (h div 74) (concat (map ((!) (or_map_hashes res)) [h..<h'])))"
    obtain t' where t': "OutboundTransfer_handle_request rm (clk n) (request_bytes res h c h True) t =
        (t', map (\<lambda>i. SendPart i (?ps ! i)) [c..<h] @ [?hmu])" "sending res (h - 76) t'"
      using handle_request_hashmap [OF s(1) assms(2) s(2) w(3) m(2) s(3,4) m(3), of rm "clk n"] unfolding h'_def by blast
    have u1': "receiving res c h (h - c) True u1" using u1(2) m True by simp
    obtain u2 where u2: "receive_actions lib rm (clk n) (map (\<lambda>i. SendPart i (?ps ! i)) [c..<h]) u1 = (u2, TA_None)" "receiving res h h 0 True u2"
      using receive_parts_waiting [OF u1' assms(2) m(2)] by blast
    obtain u3 where u3: "receive_actions lib rm (clk n) [?hmu] u2 = InboundTransfer_request_next (clk n) u3" "receiving res h h' 0 False u3"
      using receive_hashmap [OF u2(2) assms(2) m(3,2) assms(3) h'_def] by blast
    have h': "h < h'" "h' \<le> h + 74" "h' = ?n \<or> h' = h + 74" using m(2) by (auto simp: h'_def)
    have "ready res (h - 76) h h' t' u3"
      using u3(2) t'(2) h' m(2,3) by (auto simp: ready_def intro: dvd_add)
    moreover obtain q u4 where q: "InboundTransfer_request_next (clk n) u3 = (u4, SendRequest q)"
      using request_next_sends [OF u3(2) assms(2) _ m(2), of "clk n"] h'(1) by auto
    moreover have "receive_actions lib rm (clk n) (map (\<lambda>i. SendPart i (?ps ! i)) [c..<h] @ [?hmu]) u1 = (u4, SendRequest q)"
      using u2(1) u3(1) q by (simp add: receive_actions_append or_else_def)
    ultimately have "exchange lib rm clk (Suc n) t (InboundTransfer_request_next now u) = exchange lib rm clk n t' (InboundTransfer_request_next (clk n) u3)"
      using u1(1) t'(1) m(1) True by simp
    moreover have "c + h < h + h'" using h'(1) w(3) by simp
    ultimately show ?thesis using \<open>ready res (h - 76) h h' t' u3\<close> by (intro disjI2) blast
  qed
qed

lemma exchange_finishes:
  assumes "ready res b c h t u" and "sendable lib res" and "rm_ok rm" and "2 * length (or_parts res) < c + h + n"
  shows "\<exists>t' u'. exchange lib rm clk n t (InboundTransfer_request_next now u) = Some (t', u') \<and> finished res t' u'"
  using assms(1,4)
proof (induction n arbitrary: b c h t u now)
  case 0
  then have "c < length (or_parts res)" "h \<le> length (or_parts res)" by (auto simp: ready_def receiving_def collected_def)
  then show ?case using 0(2) by simp
next
  case (Suc n)
  from exchange_round [OF Suc(2) assms(2,3), of clk n now] show ?case
  proof
    assume "\<exists>b' c' h' t' u'. exchange lib rm clk (Suc n) t (InboundTransfer_request_next now u) =
          exchange lib rm clk n t' (InboundTransfer_request_next (clk n) u') \<and> ready res b' c' h' t' u' \<and> c + h < c' + h'"
    then obtain b' c' h' t' u' where r: "exchange lib rm clk (Suc n) t (InboundTransfer_request_next now u) =
        exchange lib rm clk n t' (InboundTransfer_request_next (clk n) u')" "ready res b' c' h' t' u'" "c + h < c' + h'" by blast
    have "2 * length (or_parts res) < c' + h' + n" using Suc(3) r(3) by linarith
    from Suc(1) [OF r(2) this, of "clk n"] r(1) show ?case by simp
  qed
qed

subsection \<open>From construction to proof\<close>

text \<open>What is assumed of an encryption hook: it adds at most a token header, a padding block and a tag.\<close>

definition hook_size :: "encryptor option \<Rightarrow> bool" where
  "hook_size enc \<longleftrightarrow> (\<forall>n b. length b \<le> length (sealed enc n b) \<and> length (sealed enc n b) \<le> length b + 64)"

lemma hook_size_none: "hook_size None"
  by (simp add: hook_size_def sealed_def)

lemma hook_size_link:
  assumes "cipher_lib_ok lib" and "\<forall>n. length (iv n) = 16" and "keys_ok keys"
  shows "hook_size (Some (link_encryptor lib iv keys))"
proof -
  have "length b \<le> length (link_encryptor lib iv keys n b) \<and> length (link_encryptor lib iv keys n b) \<le> length b + 64" for n b
    using link_encrypt_decrypt [OF assms(1) assms(2) [rule_format, of n] assms(3), of b]
      div_mult_mod_eq [of "length b" 16] mod_less_divisor [of 16 "length b"]
    by (auto simp: link_encryptor_def)
  then show ?thesis by (simp add: hook_size_def sealed_def)
qed

lemma div_ceil_le: "0 < n \<Longrightarrow> a \<le> k * n \<Longrightarrow> div_ceil a n \<le> k"
proof (induction k arbitrary: a)
  case (Suc k)
  then show ?case using div_ceil_step [OF Suc(2), of a] Suc(1) [of "a - n"] by (cases "a = 0") (auto simp: div_ceil_def)
qed (simp add: div_ceil_def)

lemma processed_content_length: "length (fst (processed_content bz ac full)) \<le> length full"
  by (auto simp: processed_content_def try_compress_def split: sum.splits)

lemma built_size:
  assumes "length (rnd k) = 4" and "length (full_content metadata data) \<le> MAX_EFFICIENT_SIZE" and "hook_size enc"
  shows "4 \<le> or_total_size (built lib bz rnd data ac metadata sdu enc k)"
    and "or_total_size (built lib bz rnd data ac metadata sdu enc k) \<le> MAX_EFFICIENT_SIZE + 68"
proof -
  let ?p = "fst (processed_content bz ac (full_content metadata data))"
  have "length (rnd k @ ?p) \<le> length (sealed enc k (rnd k @ ?p))" "length (sealed enc k (rnd k @ ?p)) \<le> length (rnd k @ ?p) + 64"
    using assms(3) unfolding hook_size_def by blast+
  then show "4 \<le> or_total_size (built lib bz rnd data ac metadata sdu enc k)"
    "or_total_size (built lib bz rnd data ac metadata sdu enc k) \<le> MAX_EFFICIENT_SIZE + 68"
    using assms(1,2) processed_content_length [of bz ac "full_content metadata data"] by (simp_all add: built_def Let_def)
qed

lemma built_parts:
  assumes "0 < sdu"
  shows "length (or_parts (built lib bz rnd data ac metadata sdu enc k)) = div_ceil (or_total_size (built lib bz rnd data ac metadata sdu enc k)) sdu"
  by (simp add: built_def Let_def length_chunks [OF assms])

lemma built_sendable:
  assumes "res = built lib bz rnd data ac metadata SDU enc k" and "length (rnd k) = 4"
    and "length (full_content metadata data) \<le> MAX_EFFICIENT_SIZE" and "hook_size enc"
    and "\<forall>d. length (lib_sha256 lib d) = 32" and "distinct (or_map_hashes res)"
  shows "sendable lib res"
proof -
  have sdu: "0 < SDU" by (simp add: SDU_def wire_constants)
  have "or_total_size res \<le> (MAX_EFFICIENT_SIZE + 68) * SDU"
    using built_size(2) [where rnd = rnd and k = k, OF assms(2-4)] assms(1) sdu by (simp add: SDU_def wire_constants le_trans [of _ "MAX_EFFICIENT_SIZE + 68"])
  then have "length (or_parts res) \<le> MAX_EFFICIENT_SIZE + 68"
    using built_parts [OF sdu] div_ceil_le [OF sdu] assms(1) by simp
  moreover have "or_parts res \<noteq> []"
  proof -
    have "4 \<le> or_total_size res" using built_size(1) [where rnd = rnd and k = k, OF assms(2-4)] assms(1) by simp
    then have "0 < length (or_parts res)"
      using built_parts [OF sdu, of lib bz rnd data ac metadata enc k] assms(1) div_ceil_step [OF sdu, of "or_total_size res"] by simp
    then show ?thesis by simp
  qed
  ultimately show ?thesis using assms(1,5,6)
    by (auto simp: sendable_def built_def Let_def get_map_hash_def compute_resource_hash_def MAPHASH_LEN_def MAX_EFFICIENT_SIZE_def)
qed


text \<open>The advertisement of a resource that is not split.\<close>

definition advertisement_of :: "OutboundResource \<Rightarrow> ResourceAdvertisement" where
  "advertisement_of r = ResourceAdvertisement_new (or_total_size r) (or_advertisement_data_size r) (length (or_parts r))
     (or_resource_hash r) (or_random_hash r) (or_flags r) (or_map_hashes r) LINK_MDU"

lemma tick_advertises:
  assumes "OutboundTransfer_tick rm now (OutboundTransfer_from_resource now' res rtt) = (t, SendAdvertisement bytes)"
    and "or_state res = RSt_None" and "or_request_id res = None" and "\<not> rf_split (or_flags res)"
  shows "bytes = ResourceAdvertisement_pack rm (advertisement_of res)" and "check_advertisement rm (advertisement_of res) MTU = Ok ()"
    and "sending res 0 t"
proof -
  have id: "(advertisement_of res)\<lparr>ra_request_id := None\<rparr> = advertisement_of res"
    by (simp add: advertisement_of_def ResourceAdvertisement_new_def ResourceAdvertisement_with_metadata_size_def Let_def)
  let ?t = "OutboundTransfer_from_resource now' res rtt"
  have "OutboundTransfer_create_advertisement rm ?t = and_then (check_advertisement rm (advertisement_of res) MTU)
      (\<lambda>_. Ok (ResourceAdvertisement_pack rm (advertisement_of res)))"
    using assms(3,4) id [unfolded advertisement_of_def]
    by (simp add: OutboundTransfer_create_advertisement_def OutboundTransfer_from_resource_def advertisement_of_def Let_def
        OutboundResource_num_parts_def and_then_def split: sum.split)
  then show "bytes = ResourceAdvertisement_pack rm (advertisement_of res)" "check_advertisement rm (advertisement_of res) MTU = Ok ()"
    "sending res 0 t"
    using assms(1,2)
    by (auto simp: OutboundTransfer_tick_def OutboundTransfer_from_resource_def and_then_def set_state_def sending_def closed_states_def
        split: sum.splits if_splits intro!: exI [of _ RSt_Advertised])
qed

lemma advertisement_of_admitted:
  assumes "sendable lib res" and "length (or_random_hash res) = 4" and "length (or_parts res) \<le> div_ceil (or_total_size res) 32"
    and "or_total_size res \<le> MAX_EFFICIENT_SIZE + 68" and "or_advertisement_data_size res \<le> MAX_EFFICIENT_SIZE"
  shows "advertisement_wf (advertisement_of res)"
    and "\<exists>u. inbound_transfer_from_advertisement now (advertisement_of res) rtt = Ok u
      \<and> receiving res 0 (min (length (or_parts res)) 74) 0 False u"
proof -
  let ?a = "advertisement_of res" and ?n = "length (or_parts res)"
  have s: "\<forall>m \<in> set (or_map_hashes res). length m = 4" "?n < 2 ^ 32" "length (or_resource_hash res) = 32"
      "length (or_map_hashes res) = ?n" "?n \<noteq> 0" using assms(1) by (auto simp: sendable_def)
  have a: "ra_transfer_size ?a = or_total_size res" "ra_data_size ?a = or_advertisement_data_size res" "ra_num_parts ?a = ?n"
      "ra_resource_hash ?a = or_resource_hash res" "ra_random_hash ?a = or_random_hash res" "ra_original_hash ?a = or_resource_hash res"
      "ra_segment_index ?a = 1" "ra_total_segments ?a = 1" "ra_flags ?a = or_flags res"
      "ra_hashmap ?a = concat (take (min ?n 74) (or_map_hashes res))"
    by (simp_all add: advertisement_of_def ResourceAdvertisement_new_def ResourceAdvertisement_with_metadata_size_def hashmap_stride s(4))
  show "advertisement_wf ?a" using a s assms(2,4,5) by (simp add: advertisement_wf_def MAX_EFFICIENT_SIZE_def)
  have hashes: "get_map_hashes ?a = take (min ?n 74) (or_map_hashes res)"
    unfolding get_map_hashes_def a(10) using s(1) by (intro as_chunks_concat) (auto simp: MAPHASH_LEN_def dest: in_set_takeD)
  have parts: "?n \<le> usize_saturating_add (div_ceil (or_total_size res) MIN_PART_SIZE) 16"
    using assms(3) s(2) by (simp add: usize_saturating_add_def MIN_PART_SIZE_def)
  have size: "or_total_size res \<le> MAX_EFFICIENT_SIZE + RESOURCE_RANDOM_HASH_SIZE + TOKEN_OVERHEAD + MAX_AES_BLOCK_PAD"
    using assms(4) by (simp add: RESOURCE_RANDOM_HASH_SIZE_def TOKEN_OVERHEAD_def MAX_AES_BLOCK_PAD_def)
  show "\<exists>u. inbound_transfer_from_advertisement now ?a rtt = Ok u \<and> receiving res 0 (min ?n 74) 0 False u"
    using a hashes parts size s assms(2) window_wf_new
    by (simp add: inbound_transfer_from_advertisement_def validate_inbound_advertisement_def MAX_SEGMENTS_def and_then_def map_err_def
        InboundTransfer_from_advertisement_def InboundResource_new_def InboundResource_with_sdu_def receiving_def collected_def
        RESOURCE_RANDOM_HASH_SIZE_def)
qed


lemma collected_all: "collected res (length (or_parts res)) h r \<Longrightarrow> holds_all res r"
  by (simp add: collected_def holds_all_def)

lemma complete_built:
  assumes "res = built lib bz rnd data ac metadata sdu enc k" and "bz_ok bz" and "length (rnd k) = 4" and "hooks_match enc dec"
    and "0 < sdu" and "length (full_content metadata data) \<le> MAX_EFFICIENT_SIZE" and "\<forall>d. length (lib_sha256 lib d) = 32"
    and "finished res t u"
  shows "\<exists>u' proof_body. InboundTransfer_complete lib bz dec u = (u', Ok (data, proof_body)) \<and> ir_metadata (it_resource u') = metadata
    \<and> ir_state (it_resource u') = RSt_Complete
    \<and> (\<exists>t'. OutboundTransfer_handle_proof proof_body t = (t', True) \<and> or_state (ot_resource t') = RSt_Complete)"
proof -
  obtain h where col: "collected res (length (or_parts res)) h (it_resource u)" using assms(8) by (auto simp: finished_def)
  obtain s where s: "s \<notin> closed_states" "ot_resource t = res\<lparr>or_state := s\<rparr>" using assms(8) by (auto simp: finished_def sending_def)
  let ?r = "(it_resource u)\<lparr>ir_state := RSt_Complete, ir_metadata := metadata\<rparr>"
  have "holds_all (res\<lparr>or_flags := or_flags res\<rparr>) (it_resource u)" using collected_all [OF col] by (simp add: holds_all_def)
  moreover have none: "ir_metadata (it_resource u) = None" "ir_flags (it_resource u) = or_flags res" "ir_resource_hash (it_resource u) = or_resource_hash res"
    using col by (simp_all add: collected_def)
  moreover have meta: "rf_has_metadata (or_flags res) = (metadata \<noteq> None)" by (simp add: assms(1) built_def Let_def)
  ultimately have asm: "InboundResource_assemble lib bz dec (it_resource u) = (?r, Ok data)"
    using assemble_built [where rnd = rnd and k = k and lib = lib and ac = ac and fl = "or_flags res" and r = "it_resource u", OF assms(2,3,4,5,6)] assms(1) by (cases metadata) auto
  let ?proof_body = "or_resource_hash res @ compute_expected_proof lib (full_content metadata data) (or_resource_hash res)"
  have done_u: "InboundTransfer_complete lib bz dec u = (u\<lparr>it_resource := ?r\<rparr>, Ok (data, ?proof_body))"
    using asm none meta by (cases metadata)
      (simp_all add: InboundTransfer_complete_def InboundResource_generate_proof_def full_content_def Let_def)
  have hash: "or_expected_proof res = compute_expected_proof lib (full_content metadata data) (or_resource_hash res)"
      "length (or_resource_hash res) = 32" "length (or_expected_proof res) = 32"
    using assms(7) by (simp_all add: assms(1) built_def Let_def compute_resource_hash_def compute_expected_proof_def)
  have "OutboundTransfer_handle_proof ?proof_body t = (t\<lparr>ot_resource := res\<lparr>or_state := RSt_Complete\<rparr>\<rparr>, True)"
    using s hash by (simp add: OutboundTransfer_handle_proof_def OutboundResource_validate_proof_def subslice_def)
  then show ?thesis using done_u by auto
qed

text \<open>
  C3: a resource transfer over a link that loses nothing. From any data, optional metadata, compression setting and
  matching encryption hooks for which a resource with distinct map hashes is built: the advertisement that the sender
  emits is unpacked and admitted by the receiver; requests and answers, hashmap updates included, come to an end within
  twice the number of parts; the receiver then assembles exactly the data and the metadata; and the proof that it
  generates is accepted by the sender, so that both ends are complete.
\<close>

theorem resource_transfer_completes:
  assumes "rm_ok rm" and "bz_ok bz" and "\<forall>d. length (lib_sha256 lib d) = 32" and "\<forall>k. length (rnd k) = 4"
    and "hooks_match enc dec" and "hook_size enc"
    and "OutboundResource_with_options lib bz rm rnd data ac metadata None enc = Ok res" and "distinct (or_map_hashes res)"
    and "OutboundTransfer_tick rm now (OutboundTransfer_from_resource now res rtt) = (t0, SendAdvertisement bytes)"
  shows "\<exists>adv u0 t u u' proof_body t'.
      ResourceAdvertisement_unpack rm bytes = Ok adv \<and> inbound_transfer_from_advertisement now' adv rtt' = Ok u0
    \<and> exchange lib rm clk (2 * length (or_parts res) + 1) t0 (InboundTransfer_request_next now'' u0) = Some (t, u)
    \<and> InboundTransfer_complete lib bz dec u = (u', Ok (data, proof_body)) \<and> ir_metadata (it_resource u') = metadata
    \<and> ir_state (it_resource u') = RSt_Complete
    \<and> OutboundTransfer_handle_proof proof_body t = (t', True) \<and> or_state (ot_resource t') = RSt_Complete"
proof -
  obtain k where res: "res = built lib bz rnd data ac metadata SDU enc k" and sdu: "0 < SDU"
      and full: "length (full_content metadata data) \<le> MAX_EFFICIENT_SIZE"
    by (rule with_options_built [OF assms(7) refl]) simp
  have rnd: "length (rnd k) = 4" using assms(4) by simp
  have sendable: "sendable lib res" by (rule built_sendable [OF res rnd full assms(6,3,8)])
  have fields: "or_state res = RSt_None" "or_request_id res = None" "\<not> rf_split (or_flags res)" "length (or_random_hash res) = 4"
      "or_advertisement_data_size res \<le> MAX_EFFICIENT_SIZE"
    using rnd full by (simp_all add: res built_def Let_def)
  have "or_total_size res \<le> div_ceil (or_total_size res) 32 * SDU"
    using div_ceil_covers [of 32 "or_total_size res"] by (simp add: SDU_def wire_constants)
  then have parts: "length (or_parts res) \<le> div_ceil (or_total_size res) 32"
    using built_parts [OF sdu] div_ceil_le [OF sdu] res by simp
  have size: "or_total_size res \<le> MAX_EFFICIENT_SIZE + 68"
    using built_size(2) [where rnd = rnd and k = k, OF rnd full assms(6)] res by simp
  note tick = tick_advertises [OF assms(9) fields(1-3)]
  note adm = advertisement_of_admitted [OF sendable fields(4) parts size fields(5)]
  have "(advertisement_of res)\<lparr>ra_metadata_size := 0\<rparr> = advertisement_of res"
    by (simp add: advertisement_of_def ResourceAdvertisement_new_def ResourceAdvertisement_with_metadata_size_def Let_def)
  then have adv: "ResourceAdvertisement_unpack rm bytes = Ok (advertisement_of res)"
    using unpack_pack_advertisement [OF assms(1) adm(1) tick(2)] tick(1) by simp
  obtain u0 where u0: "inbound_transfer_from_advertisement now' (advertisement_of res) rtt' = Ok u0"
      "receiving res 0 (min (length (or_parts res)) 74) 0 False u0" using adm(2) by blast
  have "or_parts res \<noteq> []" using sendable by (simp add: sendable_def)
  then have "ready res 0 0 (min (length (or_parts res)) 74) t0 u0"
    using u0(2) tick(3) by (auto simp: ready_def min_def)
  from exchange_finishes [OF this sendable assms(1), of "2 * length (or_parts res) + 1" clk now'']
  obtain t u where run: "exchange lib rm clk (2 * length (or_parts res) + 1) t0 (InboundTransfer_request_next now'' u0) = Some (t, u)"
      "finished res t u" by auto
  from complete_built [OF res assms(2) rnd assms(5) sdu full assms(3) run(2)] adv u0(1) run(1) show ?thesis by blast
qed

definition example_hook :: encryptor where
  "example_hook = link_encryptor example_lib (\<lambda>_. replicate 16 0)
     \<lparr>lk_signing_key = replicate 32 1, lk_encryption_key = replicate 32 2\<rparr>"

definition example_unhook :: decryptor where
  "example_unhook = link_decryptor example_lib \<lparr>lk_signing_key = replicate 32 1, lk_encryption_key = replicate 32 2\<rparr>"

definition example_secret :: OutboundResource where
  "example_secret = built example_lib example_bz (\<lambda>_. [1, 2, 3, 4]) [5, 6] False None SDU (Some example_hook) 0"

lemma chunks_short: "xs \<noteq> [] \<Longrightarrow> length xs \<le> n \<Longrightarrow> chunks n xs = [xs]"
  using chunks_step [of n xs] by (cases n) auto

lemma example_hooks: "hooks_match (Some example_hook) (Some example_unhook)" "hook_size (Some example_hook)"
    "length (example_hook n b) = 48 + (length b div 16 + 1) * 16"
proof -
  have keys: "keys_ok \<lparr>lk_signing_key = replicate 32 1, lk_encryption_key = replicate 32 2\<rparr>" by (simp add: keys_ok_def)
  have iv: "\<forall>n. length ((\<lambda>_. replicate 16 0 :: bytes) (n :: nat)) = 16" by simp
  show "hooks_match (Some example_hook) (Some example_unhook)" "hook_size (Some example_hook)"
    unfolding example_hook_def example_unhook_def
    by (rule hooks_match_link [OF example_lib_ok iv keys] hook_size_link [OF example_lib_ok iv keys])+
  show "length (example_hook n b) = 48 + (length b div 16 + 1) * 16"
    using link_encrypt_decrypt [OF example_lib_ok _ keys, of "replicate 16 0" b] by (auto simp: example_hook_def link_encryptor_def)
qed

lemma example_secret_fields:
  "or_parts example_secret = [example_hook 0 [1, 2, 3, 4, 5, 6]]" "or_total_size example_secret = 64"
  "length (or_map_hashes example_secret) = 1"
proof -
  have len: "length (example_hook 0 [1, 2, 3, 4, 5, 6]) = 64" by (simp add: example_hooks(3))
  then have "chunks SDU (example_hook 0 [1, 2, 3, 4, 5, 6]) = [example_hook 0 [1, 2, 3, 4, 5, 6]]"
    by (intro chunks_short) (auto simp: SDU_def wire_constants)
  then show "or_parts example_secret = [example_hook 0 [1, 2, 3, 4, 5, 6]]" "or_total_size example_secret = 64"
    "length (or_map_hashes example_secret) = 1"
    using len by (simp_all add: example_secret_def built_def Let_def full_content_def processed_content_def sealed_def)
qed

lemma example_secret_ok:
  "OutboundResource_with_options example_lib example_bz example_rm (\<lambda>_. [1, 2, 3, 4]) [5, 6] False None None (Some example_hook)
     = Ok example_secret"
  unfolding example_secret_def
proof (rule with_options_first)
  show "preflight_outbound_with_sdu example_rm (length [5, 6 :: u8]) None None False (Some example_hook \<noteq> None) SDU MTU = Ok ()"
    using preflight_example(1) by (simp add: numeral_2_eq_2)
  show "distinct (or_map_hashes (built example_lib example_bz (\<lambda>_. [1, 2, 3, 4]) [5, 6] False None SDU (Some example_hook) 0))"
    using example_secret_fields(3) unfolding example_secret_def [symmetric] by (cases "or_map_hashes example_secret") auto
qed (simp_all add: SDU_def wire_constants MAX_EFFICIENT_SIZE_def)

lemma example_secret_adv: "check_advertisement example_rm (advertisement_of example_secret) MTU = Ok ()"
proof -
  have sha: "length (lib_sha256 example_lib d) = 32" for d by (simp add: example_lib_def)
  have f: "length (or_resource_hash example_secret) = 32" "or_random_hash example_secret = [1, 2, 3, 4]"
      "or_advertisement_data_size example_secret = 2" "or_flags example_secret = \<lparr>rf_encrypted = True, rf_compressed = False,
        rf_split = False, rf_is_request = False, rf_is_response = False, rf_has_metadata = False\<rparr>"
      "or_map_hashes example_secret = [get_map_hash example_lib (example_hook 0 [1, 2, 3, 4, 5, 6]) [1, 2, 3, 4]]"
    using sha example_secret_fields(1)
    by (simp_all add: example_secret_def built_def Let_def full_content_def processed_content_def compute_resource_hash_def sealed_def)
  have m: "length (get_map_hash example_lib p q) = 4" for p q by (simp add: get_map_hash_def sha MAPHASH_LEN_def)
  show ?thesis using f m
    by (simp add: advertisement_of_def example_secret_fields(1,2) check_advertisement_def check_control_frame_def encrypted_len_def
        ResourceAdvertisement_encoded_len_def checked_add_def checked_mul_def checked_div_def and_then_def ok_or_def
        AdvertisementRef_serialize_def example_rm_def enc_entry_def enc_nat.simps wire_constants
        ResourceAdvertisement_new_def ResourceAdvertisement_with_metadata_size_def Let_def hashmap_max_len_def
        OVERHEAD_def MAPHASH_LEN_def ResourceFlags_to_byte_def)
qed


theorem resource_transfer_completes_witness:
  "\<exists>t0 bytes adv u0 t u u' proof_body t'.
      OutboundTransfer_tick example_rm 0 (OutboundTransfer_from_resource 0 example_secret 1) = (t0, SendAdvertisement bytes)
    \<and> ResourceAdvertisement_unpack example_rm bytes = Ok adv \<and> inbound_transfer_from_advertisement 1 adv 1 = Ok u0
    \<and> exchange example_lib example_rm (\<lambda>_. 2) 3 t0 (InboundTransfer_request_next 2 u0) = Some (t, u)
    \<and> InboundTransfer_complete example_lib example_bz (Some example_unhook) u = (u', Ok ([5, 6], proof_body))
    \<and> OutboundTransfer_handle_proof proof_body t = (t', True) \<and> or_state (ot_resource t') = RSt_Complete"
proof -
  let ?t = "OutboundTransfer_from_resource 0 example_secret 1"
  have f: "or_state example_secret = RSt_None" "or_request_id example_secret = None" "\<not> rf_split (or_flags example_secret)"
    by (simp_all add: example_secret_def built_def Let_def)
  have "OutboundTransfer_create_advertisement example_rm ?t \<noteq> Err e" for e
    using example_secret_adv f
    by (simp add: OutboundTransfer_create_advertisement_def OutboundTransfer_from_resource_def advertisement_of_def Let_def
        OutboundResource_num_parts_def and_then_def ResourceAdvertisement_new_def ResourceAdvertisement_with_metadata_size_def)
  then obtain bytes where "OutboundTransfer_create_advertisement example_rm ?t = Ok bytes"
    by (cases "OutboundTransfer_create_advertisement example_rm ?t") auto
  then obtain t0 where tick: "OutboundTransfer_tick example_rm 0 ?t = (t0, SendAdvertisement bytes)"
    using f by (simp add: OutboundTransfer_tick_def OutboundTransfer_from_resource_def)
  have sha: "\<forall>d. length (lib_sha256 example_lib d) = 32" and rnd: "\<forall>k. length ((\<lambda>_ :: nat. [1, 2, 3, 4 :: u8]) k) = 4"
    by (auto simp: example_lib_def)
  have "distinct (or_map_hashes example_secret)" using example_secret_fields(3) by (cases "or_map_hashes example_secret") auto
  from resource_transfer_completes [where clk = "\<lambda>_. 2" and now' = 1 and now'' = 2 and rtt' = 1,
      OF example_rm_ok example_bz_ok sha rnd example_hooks(1,2) example_secret_ok this tick]
  show ?thesis using tick example_secret_fields(1) by (simp add: numeral_3_eq_3) blast
qed

subsection \<open>A receiver under arbitrary events\<close>

datatype inbound_event =
  EvPart instant bytes | EvHmu instant nat bytes | EvTimer instant | EvRequest instant | EvCancelled

fun inbound_step :: "crypto_lib \<Rightarrow> inbound_event \<Rightarrow> InboundTransfer \<Rightarrow> (InboundTransfer \<times> TransferAction) option" where
  "inbound_step lib (EvPart now data) t = Some (InboundTransfer_receive_part lib now data t)"
| "inbound_step lib (EvHmu now segment hashmap) t = Some (InboundTransfer_hashmap_update now segment hashmap t)"
| "inbound_step lib (EvTimer now) t = InboundTransfer_check_timeout now t"
| "inbound_step lib (EvRequest now) t = Some (InboundTransfer_request_next now t)"
| "inbound_step lib EvCancelled t = Some (InboundTransfer_handle_cancel t, TA_None)"

fun inbound_run :: "crypto_lib \<Rightarrow> inbound_event list \<Rightarrow> InboundTransfer \<Rightarrow> (InboundTransfer \<times> TransferAction list) option" where
  "inbound_run lib [] t = Some (t, [])"
| "inbound_run lib (e # es) t =
    Option.bind (inbound_step lib e t) (\<lambda>(t, a). map_option (\<lambda>(t, as). (t, a # as)) (inbound_run lib es t))"

definition inbound_wf :: "InboundTransfer \<Rightarrow> bool" where
  "inbound_wf t \<longleftrightarrow> (let r = it_resource t in
     length (ir_parts r) = ir_total_parts r \<and> ir_consecutive_completed r \<le> ir_total_parts r
   \<and> (\<forall>i < ir_consecutive_completed r. ir_parts r ! i \<noteq> None)
   \<and> resource_window_wf (ir_window r) \<and> (\<forall>m \<in> set (ir_map_hashes r). length m = 4) \<and> length (ir_resource_hash r) = 32)"

text \<open>A request as large as the one the admission check provided for.\<close>

definition request_fits :: "TransferAction \<Rightarrow> bool" where
  "request_fits a = (case a of
     SendRequest q \<Rightarrow> check_control_frame Ctx_ResourceReq (length q) True HEADER_MINSIZE MTU = Ok ()
   | _ \<Rightarrow> True)"

lemma request_frame: "length q \<le> 337 \<Longrightarrow> request_fits (SendRequest q)"
proof -
  assume q: "length q \<le> 337"
  then have "length q div 16 \<le> 21" by simp
  then show ?thesis
    by (simp add: request_fits_def check_control_frame_def encrypted_len_def checked_div_def checked_add_def checked_mul_def
        ok_or_def and_then_def wire_constants)
qed

lemma request_loop_size:
  assumes "\<forall>m \<in> set (ir_map_hashes r). length m = 4" and "count \<le> ws_window (ir_window r)" and "request_loop r pns count = (hs, n, ex)"
    and "pns \<noteq> [] \<Longrightarrow> count < ws_window (ir_window r)"
  shows "length hs = 4 * n \<and> count + n \<le> ws_window (ir_window r)"
  using assms(2-4)
proof (induction pns arbitrary: count hs n ex)
  case (Cons pn pns)
  obtain hs' n' ex' where rec: "request_loop r pns (if ir_parts r ! pn = None \<and> pn < length (ir_map_hashes r) then count + 1 else count) = (hs', n', ex')"
    by (metis prod_cases3)
  have "length (ir_map_hashes r ! pn) = 4" if "pn < length (ir_map_hashes r)" using that assms(1) by simp
  then show ?case using Cons.prems Cons.IH [OF _ rec] rec by (auto simp: Let_def split: if_splits)
qed simp

lemma request_next_wf:
  assumes "inbound_wf t" and "InboundTransfer_request_next now t = (t', a)"
  shows "inbound_wf t' \<and> request_fits a"
proof (cases "ir_state (it_resource t) \<noteq> RSt_Transferring \<or> InboundResource_is_complete (it_resource t) \<or> it_waiting_for_hmu t")
  case True
  then show ?thesis using assms by (auto simp: InboundTransfer_request_next_def Let_def request_fits_def split: if_splits)
next
  case False
  let ?r = "it_resource t"
  let ?range = "[ir_consecutive_completed ?r..<min (ir_consecutive_completed ?r + ws_window (ir_window ?r)) (ir_total_parts ?r)]"
  obtain hs n ex where rl: "request_loop ?r ?range 0 = (hs, n, ex)" by (metis prod_cases3)
  have w: "2 \<le> ws_window (ir_window ?r)" "ws_window (ir_window ?r) \<le> 75" and len: "\<forall>m \<in> set (ir_map_hashes ?r). length m = 4"
    and rh: "length (ir_resource_hash ?r) = 32"
    using assms(1) by (auto simp: inbound_wf_def Let_def resource_window_wf_def RESOURCE_WINDOW_MAX_def)
  have size: "length hs \<le> 300" using request_loop_size [OF len _ rl] w by auto
  define l where "l = (if it_hashmap_height t > 0 \<and> it_hashmap_height t - 1 < length (ir_map_hashes ?r)
      then ir_map_hashes ?r ! (it_hashmap_height t - 1) else [])"
  have l: "length l \<le> 4" using len by (auto simp: l_def)
  have a: "a = SendRequest ((if ex then HASHMAP_IS_EXHAUSTED # l else [HASHMAP_IS_NOT_EXHAUSTED]) @ ir_resource_hash ?r @ hs)"
    and t': "it_resource t' = ?r"
    using assms(2) False rl by (auto simp: InboundTransfer_request_next_def Let_def l_def)
  have "request_fits a" unfolding a using size l rh by (intro request_frame) auto
  then show ?thesis using assms(1) t' by (simp add: inbound_wf_def)
qed

lemma consecutive_from_props:
  assumes "i \<le> n" and "\<forall>j < i. ps ! j \<noteq> None"
  shows "consecutive_from ps n i \<le> n \<and> (\<forall>j < consecutive_from ps n i. ps ! j \<noteq> None)"
  using assms
proof (induction "n - i" arbitrary: i)
  case 0
  then have "consecutive_from ps n i = i" by (subst consecutive_from.simps) simp
  then show ?case using 0 by simp
next
  case (Suc m)
  show ?case
  proof (cases "ps ! i = None")
    case True
    then have "consecutive_from ps n i = i" by (subst consecutive_from.simps) simp
    then show ?thesis using Suc by simp
  next
    case False
    have "consecutive_from ps n i = consecutive_from ps n (i + 1)" using Suc(2) False by (subst consecutive_from.simps) auto
    moreover have "\<forall>j < i + 1. ps ! j \<noteq> None" using Suc(4) False by (simp add: less_Suc_eq)
    moreover have "m = n - (i + 1)" "i + 1 \<le> n" using Suc(2) by simp_all
    ultimately show ?thesis using Suc(1) [of "i + 1"] by simp
  qed
qed

lemma receive_part_wf:
  assumes "inbound_wf t" and "InboundResource_receive_part lib data (it_resource t) = (r, ok)"
  shows "inbound_wf (t\<lparr>it_resource := r\<rparr>)"
proof -
  let ?r = "it_resource t"
  show ?thesis
  proof (cases ok)
    case False
    then show ?thesis using assms by (auto simp: InboundResource_receive_part_def Let_def split: option.splits)
  next
    case True
    then obtain i where r: "r = InboundResource_update_consecutive (?r\<lparr>ir_parts := (ir_parts ?r)[i := Some data]\<rparr>)"
      using assms(2) by (auto simp: InboundResource_receive_part_def Let_def split: option.splits)
    have "\<forall>j < ir_consecutive_completed ?r. (ir_parts ?r)[i := Some data] ! j \<noteq> None"
    proof (intro allI impI)
      fix j assume "j < ir_consecutive_completed ?r"
      then show "(ir_parts ?r)[i := Some data] ! j \<noteq> None"
        using assms(1) by (cases "i = j") (auto simp: inbound_wf_def Let_def)
    qed
    then show ?thesis
      using assms(1) consecutive_from_props [of "ir_consecutive_completed ?r" "ir_total_parts ?r" "(ir_parts ?r)[i := Some data]"]
      by (simp add: r InboundResource_update_consecutive_def inbound_wf_def Let_def)
  qed
qed

lemma inbound_wf_cong: "it_resource t = it_resource t' \<Longrightarrow> inbound_wf t = inbound_wf t'"
  by (simp add: inbound_wf_def)

lemma inbound_wf_window:
  "inbound_wf t \<Longrightarrow> it_resource t' = (it_resource t)\<lparr>ir_window := w\<rparr> \<Longrightarrow> resource_window_wf w \<Longrightarrow> inbound_wf t'"
  by (simp add: inbound_wf_def Let_def)

lemma receive_part_outcome:
  assumes "InboundResource_receive_part lib data (it_resource t) = (r, ok)"
  shows "InboundTransfer_receive_part lib now data t = (t, TA_None)
    \<or> (\<exists>t' a. InboundTransfer_receive_part lib now data t = (t', a) \<and> a \<in> {TA_None, TA_Complete} \<and> it_resource t' = r)
    \<or> (\<exists>t' rate. InboundTransfer_receive_part lib now data t = InboundTransfer_request_next now t'
         \<and> it_resource t' = r\<lparr>ir_window := WindowState_grow rate (ir_window r)\<rparr>)"
proof (cases "ir_state (it_resource t) = RSt_Transferring \<and> ok \<and> \<not> InboundResource_is_complete r \<and> it_outstanding_parts t \<le> 1")
  case True
  then show ?thesis using assms
    by (auto simp: InboundTransfer_receive_part_def Let_def intro!: disjI2 exI split: option.splits)
next
  case False
  then show ?thesis using assms
    by (auto simp: InboundTransfer_receive_part_def Let_def split: option.splits bool.splits)
qed

lemma receive_part_step_wf:
  assumes "inbound_wf t" and "InboundTransfer_receive_part lib now data t = (t', a)"
  shows "inbound_wf t' \<and> request_fits a"
proof -
  obtain r ok where r: "InboundResource_receive_part lib data (it_resource t) = (r, ok)" by fastforce
  have wf: "inbound_wf (t\<lparr>it_resource := r\<rparr>)" by (rule receive_part_wf [OF assms(1) r])
  from receive_part_outcome [OF r, of now] show ?thesis
  proof (elim disjE exE conjE)
    fix t2 rate
    assume "InboundTransfer_receive_part lib now data t = InboundTransfer_request_next now t2"
      and w: "it_resource t2 = r\<lparr>ir_window := WindowState_grow rate (ir_window r)\<rparr>"
    moreover have "inbound_wf t2"
      using wf w by (intro inbound_wf_window [OF wf]) (auto simp: inbound_wf_def Let_def intro: window_wf_grow)
    ultimately show ?thesis using request_next_wf [of t2 now t' a] assms(2) by simp
  next
    fix t2 b
    assume "InboundTransfer_receive_part lib now data t = (t2, b)" "b \<in> {TA_None, TA_Complete}" "it_resource t2 = r"
    then show ?thesis using assms(2) wf inbound_wf_cong [of t2 "t\<lparr>it_resource := r\<rparr>"] by (auto simp: request_fits_def)
  qed (use assms in \<open>auto simp: request_fits_def\<close>)
qed

lemma merge_hashes_lengths:
  "\<forall>m \<in> set mh. length m = 4 \<Longrightarrow> merge_hashes s n d is mh h = (mh', h') \<Longrightarrow> \<forall>m \<in> set mh'. length m = 4"
proof (induction "is" arbitrary: mh h)
  case (Cons i "is")
  have upd: "\<forall>m \<in> set ((mh @ replicate k (replicate MAPHASH_LEN 0))[j := subslice (i * MAPHASH_LEN) (i * MAPHASH_LEN + MAPHASH_LEN) d]). length m = 4"
    if "i * MAPHASH_LEN + MAPHASH_LEN \<le> length d" for j k
    using Cons.prems(1) that by (auto dest!: set_update_subset_insert [THEN subsetD] simp: subslice_def MAPHASH_LEN_def)
  show ?case
  proof (cases "checked_add s i")
    case None
    then show ?thesis using Cons.prems by simp
  next
    case (Some idx)
    consider "\<not> idx < n" | "idx < n" "i * MAPHASH_LEN + MAPHASH_LEN \<le> length d" | "idx < n" "\<not> i * MAPHASH_LEN + MAPHASH_LEN \<le> length d" by blast
    then show ?thesis
    proof cases
      case 2
      obtain h2 where "merge_hashes s n d is ((mh @ replicate (idx + 1 - length mh) (replicate MAPHASH_LEN 0))
          [idx := subslice (i * MAPHASH_LEN) (i * MAPHASH_LEN + MAPHASH_LEN) d]) h2 = (mh', h')"
        using Cons.prems(2) Some 2 by (simp add: Let_def)
      from Cons.IH [OF upd [OF 2(2)] this] show ?thesis .
    qed (use Cons Some in \<open>auto simp: Let_def\<close>)
  qed
qed simp

lemma hashmap_update_wf:
  assumes "inbound_wf t" and "InboundTransfer_hashmap_update now segment d t = (t', a)"
  shows "inbound_wf t' \<and> request_fits a"
proof -
  let ?r = "it_resource t"
  have merged: "inbound_wf t' \<and> request_fits a"
    if "merge_hashes s (ir_total_parts ?r) d is (ir_map_hashes ?r) (it_hashmap_height t) = (mh, h)"
      "InboundTransfer_request_next now (t\<lparr>it_resource := ?r\<lparr>ir_state := RSt_Transferring, ir_map_hashes := mh\<rparr>,
        it_last_activity := now, it_retries_left := MAX_RETRIES, it_hashmap_height := h, it_waiting_for_hmu := False\<rparr>) = (t', a)"
    for s "is" mh h
  proof (rule request_next_wf [OF _ that(2)])
    have "\<forall>m \<in> set mh. length m = 4" using merge_hashes_lengths [OF _ that(1)] assms(1) by (auto simp: inbound_wf_def Let_def)
    then show "inbound_wf (t\<lparr>it_resource := ?r\<lparr>ir_state := RSt_Transferring, ir_map_hashes := mh\<rparr>,
        it_last_activity := now, it_retries_left := MAX_RETRIES, it_hashmap_height := h, it_waiting_for_hmu := False\<rparr>)"
      using assms(1) by (simp add: inbound_wf_def Let_def)
  qed
  have cancelled: "inbound_wf t' \<and> request_fits a" if "InboundTransfer_cancel t = (t', a)"
    using that assms(1) by (auto simp: InboundTransfer_cancel_def inbound_wf_def Let_def request_fits_def)
  show ?thesis using assms unfolding InboundTransfer_hashmap_update_def Let_def
    by (auto split: if_split_asm option.split_asm prod.split_asm dest: merged cancelled simp: request_fits_def [of TA_None])
qed

lemma check_timeout_outcome:
  "\<exists>expired. InboundTransfer_check_timeout now t =
    (if ir_state (it_resource t) \<noteq> RSt_Transferring then Some (t, TA_None)
     else if InboundResource_is_complete (it_resource t) then Some (t, TA_None)
     else let t = InboundTransfer_update_eifr t in
       if expired then
         if it_retries_left t > 0 then
           map_option (\<lambda>w. InboundTransfer_request_next now
             (t\<lparr>it_resource := (it_resource t)\<lparr>ir_window := w\<rparr>, it_retries_left := it_retries_left t - 1,
                it_waiting_for_hmu := False\<rparr>)) (WindowState_shrink (ir_window (it_resource t)))
         else Some (t\<lparr>it_resource := (it_resource t)\<lparr>ir_state := RSt_Failed\<rparr>\<rparr>, TA_Failed (FR_Text ''resource transfer timed out''))
       else Some (t, TA_None))"
  unfolding InboundTransfer_check_timeout_def Let_def by (rule exI, rule refl)

lemma check_timeout_wf:
  assumes "inbound_wf t"
  shows "\<exists>t' a. InboundTransfer_check_timeout now t = Some (t', a) \<and> inbound_wf t' \<and> request_fits a"
proof -
  have same: "inbound_wf (InboundTransfer_update_eifr t)" using assms inbound_wf_cong [of "InboundTransfer_update_eifr t" t] by simp
  obtain w where w: "WindowState_shrink (ir_window (it_resource t)) = Some w" "resource_window_wf w"
    using window_wf_shrink [of "ir_window (it_resource t)"] assms by (auto simp: inbound_wf_def Let_def)
  have shrunk: "inbound_wf x" if "it_resource x = (it_resource t)\<lparr>ir_window := w\<rparr>" for x
    by (rule inbound_wf_window [OF assms that w(2)])
  obtain expired where out: "InboundTransfer_check_timeout now t =
    (if ir_state (it_resource t) \<noteq> RSt_Transferring then Some (t, TA_None)
     else if InboundResource_is_complete (it_resource t) then Some (t, TA_None)
     else let t = InboundTransfer_update_eifr t in
       if expired then
         if it_retries_left t > 0 then
           map_option (\<lambda>w. InboundTransfer_request_next now
             (t\<lparr>it_resource := (it_resource t)\<lparr>ir_window := w\<rparr>, it_retries_left := it_retries_left t - 1,
                it_waiting_for_hmu := False\<rparr>)) (WindowState_shrink (ir_window (it_resource t)))
         else Some (t\<lparr>it_resource := (it_resource t)\<lparr>ir_state := RSt_Failed\<rparr>\<rparr>, TA_Failed (FR_Text ''resource transfer timed out''))
       else Some (t, TA_None))"
    using check_timeout_outcome by blast
  let ?x = "(InboundTransfer_update_eifr t)\<lparr>it_resource := (it_resource t)\<lparr>ir_window := w\<rparr>,
      it_retries_left := it_retries_left (InboundTransfer_update_eifr t) - 1, it_waiting_for_hmu := False\<rparr>"
  have x: "inbound_wf ?x" by (rule shrunk) simp
  obtain t' a where nxt: "InboundTransfer_request_next now ?x = (t', a)" by fastforce
  have failed: "inbound_wf ((InboundTransfer_update_eifr t)\<lparr>it_resource := (it_resource t)\<lparr>ir_state := RSt_Failed\<rparr>\<rparr>)"
    using assms by (simp add: inbound_wf_def Let_def)
  show ?thesis unfolding out using assms same w(1) nxt request_next_wf [OF x nxt] failed
    by (simp add: Let_def request_fits_def [of TA_None] request_fits_def [of "TA_Failed _"])
qed

lemma inbound_step_wf:
  assumes "inbound_wf t"
  shows "\<exists>t' a. inbound_step lib e t = Some (t', a) \<and> inbound_wf t' \<and> request_fits a"
proof (cases e)
  case (EvPart now data)
  then show ?thesis using receive_part_step_wf [OF assms] by (cases "InboundTransfer_receive_part lib now data t") auto
next
  case (EvHmu now segment d)
  then show ?thesis using hashmap_update_wf [OF assms] by (cases "InboundTransfer_hashmap_update now segment d t") auto
next
  case (EvTimer now)
  then show ?thesis using check_timeout_wf [OF assms] by simp
next
  case (EvRequest now)
  then show ?thesis using request_next_wf [OF assms] by (cases "InboundTransfer_request_next now t") auto
next
  case EvCancelled
  then show ?thesis using assms by (simp add: InboundTransfer_handle_cancel_def inbound_wf_def Let_def request_fits_def)
qed

lemma inbound_run_wf:
  "inbound_wf t \<Longrightarrow> \<exists>t' as. inbound_run lib es t = Some (t', as) \<and> inbound_wf t' \<and> list_all request_fits as"
proof (induction es arbitrary: t)
  case (Cons e es)
  from inbound_step_wf [OF Cons.prems, of lib e] obtain t1 a where
    1: "inbound_step lib e t = Some (t1, a)" "inbound_wf t1" "request_fits a" by blast
  from Cons.IH [OF 1(2)] 1 show ?case by auto
qed simp

lemma from_advertisement_wf:
  assumes "InboundTransfer_from_advertisement now total_parts total_size data_size random_hash resource_hash flags map_hashes rtt = Ok t"
    and "length resource_hash = 32" and "\<forall>m \<in> set map_hashes. length m = 4"
  shows "inbound_wf t"
  using assms window_wf_new
  by (auto simp: InboundTransfer_from_advertisement_def InboundResource_new_def InboundResource_with_sdu_def and_then_def Let_def
      inbound_wf_def split: if_splits)



subsection \<open>A sender under arbitrary events\<close>

datatype outbound_event =
  OTick instant | ORequest instant bytes bytes | OHmu instant bytes | OProof bytes | OCancelled

fun outbound_step :: "'v resource_msgpack \<Rightarrow> outbound_event \<Rightarrow> OutboundTransfer \<Rightarrow> OutboundTransfer" where
  "outbound_step rm (OTick now) t = fst (OutboundTransfer_tick rm now t)"
| "outbound_step rm (ORequest now phash q) t = fst (OutboundTransfer_handle_request_packet rm now phash q t)"
| "outbound_step rm (OHmu now d) t = OutboundTransfer_handle_hmu now d t"
| "outbound_step rm (OProof p) t = fst (OutboundTransfer_handle_proof p t)"
| "outbound_step rm OCancelled t = OutboundTransfer_handle_cancel t"

text \<open>An event other than a proof keeps the hashes and does not complete the transfer.\<close>

definition keeps :: "OutboundTransfer \<Rightarrow> OutboundTransfer \<Rightarrow> bool" where
  "keeps t t' \<longleftrightarrow> or_resource_hash (ot_resource t') = or_resource_hash (ot_resource t)
     \<and> or_expected_proof (ot_resource t') = or_expected_proof (ot_resource t)
     \<and> (or_state (ot_resource t') = RSt_Complete \<longrightarrow> or_state (ot_resource t) = RSt_Complete)"

lemma sender_keeps_refl [simp]: "keeps t t"
  by (simp add: keeps_def)

lemma check_timeout_keeps: "keeps t (fst (OutboundTransfer_check_timeout rm now t))"
  by (auto simp: OutboundTransfer_check_timeout_def Let_def keeps_def set_state_def split: sum.splits)

lemma tick_keeps: "keeps t (fst (OutboundTransfer_tick rm now t))"
  using check_timeout_keeps [of t rm now]
  by (auto simp: OutboundTransfer_tick_def keeps_def set_state_def split: sum.splits)

lemma handle_hmu_keeps: "keeps t (OutboundTransfer_handle_hmu now d t)"
  by (auto simp: OutboundTransfer_handle_hmu_def Let_def keeps_def split: prod.splits)

lemma keeps_set_state: "s \<noteq> RSt_Complete \<Longrightarrow> ot_resource t' = ot_resource t \<Longrightarrow> keeps t (set_state s t')"
  by (simp add: keeps_def set_state_def)

lemma keeps_same: "ot_resource t' = ot_resource t \<Longrightarrow> keeps t t'"
  by (simp add: keeps_def)

lemma if_chain: "A \<or> B \<or> C \<or> D \<Longrightarrow> (if A then x else if B then x else if C then x else if D then x else y) = x"
  by auto

lemma handle_request_cases:
  "OutboundTransfer_handle_request rm now q t = (t, [])
   \<or> (\<exists>req last_hash. OutboundTransfer_handle_request rm now q t = answered rm now req last_hash t)"
proof (cases "q = [] \<or> or_state (ot_resource t) \<in> closed_states \<or> q ! 0 \<notin> {HASHMAP_IS_NOT_EXHAUSTED, HASHMAP_IS_EXHAUSTED}
    \<or> length q < (if q ! 0 = HASHMAP_IS_EXHAUSTED then 1 + MAPHASH_LEN else 1) + 32
    \<or> subslice (if q ! 0 = HASHMAP_IS_EXHAUSTED then 1 + MAPHASH_LEN else 1)
        ((if q ! 0 = HASHMAP_IS_EXHAUSTED then 1 + MAPHASH_LEN else 1) + 32) q \<noteq> or_resource_hash (ot_resource t)
    \<or> \<not> is_multiple_of (length q - ((if q ! 0 = HASHMAP_IS_EXHAUSTED then 1 + MAPHASH_LEN else 1) + 32)) MAPHASH_LEN")
  case True
  then have "OutboundTransfer_handle_request rm now q t = (t, [])"
    unfolding OutboundTransfer_handle_request_def Let_def by (intro if_chain) blast
  then show ?thesis ..
next
  case False
  let ?pad = "if q ! 0 = HASHMAP_IS_EXHAUSTED then 1 + MAPHASH_LEN else 1"
  let ?req = "as_chunks MAPHASH_LEN (drop (?pad + 32) q)"
  obtain acts S k where sp: "send_parts (ot_resource t) ?req [ot_receiver_min_consecutive_height t..<
      min (ot_receiver_min_consecutive_height t + 224) (length (or_parts (ot_resource t)))] (ot_sent_part_indices t) (ot_sent_parts t) = (acts, S, k)"
    by (metis prod_cases3)
  have "MAPHASH_LEN < length q" using False by (auto simp: MAPHASH_LEN_def)
  then have "OutboundTransfer_handle_request rm now q t
      = answered rm now ?req (if q ! 0 = HASHMAP_IS_EXHAUSTED then Some (subslice 1 (1 + MAPHASH_LEN) q) else None) t"
    unfolding OutboundTransfer_handle_request_def answered_def hashmap_stride OutboundResource_num_parts_def height_clamp
    using False sp by (cases "q ! 0 = HASHMAP_IS_EXHAUSTED") (simp_all add: Let_def)
  then show ?thesis by blast
qed

lemma answered_keeps: "keeps t (fst (answered rm now req last_hash t))"
proof -
  obtain acts S k where sp: "send_parts (ot_resource t) req [ot_receiver_min_consecutive_height t..<
      min (ot_receiver_min_consecutive_height t + 224) (length (or_parts (ot_resource t)))] (ot_sent_part_indices t) (ot_sent_parts t) = (acts, S, k)"
    by (metis prod_cases3)
  show ?thesis
    by (cases last_hash) (auto simp: answered_def Let_def sp keeps_def set_state_def split: option.splits)
qed

lemma handle_request_keeps: "keeps t (fst (OutboundTransfer_handle_request rm now q t))"
  using handle_request_cases [of rm now q t] answered_keeps [of t rm now] by auto

lemma handle_request_packet_keeps: "keeps t (fst (OutboundTransfer_handle_request_packet rm now phash q t))"
  using handle_request_keeps [of "t\<lparr>ot_req_hashlist := insert phash (ot_req_hashlist t)\<rparr>" rm now q]
  by (simp add: OutboundTransfer_handle_request_packet_def keeps_def)

lemma handle_proof_cases:
  "keeps t (fst (OutboundTransfer_handle_proof p t))
   \<or> (p = or_resource_hash (ot_resource t) @ or_expected_proof (ot_resource t)
      \<and> fst (OutboundTransfer_handle_proof p t) = t\<lparr>ot_resource := (ot_resource t)\<lparr>or_state := RSt_Complete\<rparr>\<rparr>)"
proof (cases "length p = 64 \<and> take 32 p = or_resource_hash (ot_resource t) \<and> subslice 32 64 p = or_expected_proof (ot_resource t)")
  case True
  have "subslice 32 64 p = drop 32 p" using conjunct1 [OF True] by (simp add: subslice_def)
  then have "take 32 p @ subslice 32 64 p = p" by simp
  then show ?thesis using True by (auto simp: OutboundTransfer_handle_proof_def OutboundResource_validate_proof_def)
next
  case False
  then show ?thesis by (auto simp: OutboundTransfer_handle_proof_def OutboundResource_validate_proof_def)
qed

lemma outbound_step_keeps:
  "keeps t (outbound_step rm e t) \<or> (e = OProof (or_resource_hash (ot_resource t) @ or_expected_proof (ot_resource t))
     \<and> or_resource_hash (ot_resource (outbound_step rm e t)) = or_resource_hash (ot_resource t)
     \<and> or_expected_proof (ot_resource (outbound_step rm e t)) = or_expected_proof (ot_resource t))"
proof (cases e)
  case (OProof p)
  then show ?thesis using handle_proof_cases [of t p] by auto
next
  case OCancelled
  then show ?thesis by (simp add: OutboundTransfer_handle_cancel_def keeps_def set_state_def)
qed (simp_all add: tick_keeps handle_hmu_keeps handle_request_packet_keeps)

text \<open>
  C16: a sender reports a resource as delivered only on its proof. After any sequence of timer ticks, requests, hashmap
  feedback, cancellations and proofs of any content, a transfer is complete only if one of the events was the proof that
  consists of its resource hash and of the hash of its content with the resource hash.
\<close>

theorem sender_completes_on_proof:
  assumes "or_state (ot_resource (fold (outbound_step rm) es (OutboundTransfer_from_resource now res rtt))) = RSt_Complete"
    and "or_state res \<noteq> RSt_Complete"
  shows "OProof (or_resource_hash res @ or_expected_proof res) \<in> set es"
proof -
  have "or_state (ot_resource (fold (outbound_step rm) es t)) = RSt_Complete \<Longrightarrow> or_state (ot_resource t) \<noteq> RSt_Complete \<Longrightarrow>
      OProof (or_resource_hash (ot_resource t) @ or_expected_proof (ot_resource t)) \<in> set es" for t
  proof (induction es arbitrary: t)
    case (Cons e es)
    from outbound_step_keeps [of t rm e] Cons show ?case by (fastforce simp: keeps_def)
  qed simp
  from this [OF assms(1)] assms(2) show ?thesis by (simp add: OutboundTransfer_from_resource_def)
qed

theorem sender_completes_on_proof_witness:
  "OProof (or_resource_hash example_sent @ or_expected_proof example_sent)
     \<in> set [OProof (or_resource_hash example_sent @ or_expected_proof example_sent)]"
proof (rule sender_completes_on_proof [where rm = example_rm and now = 0 and rtt = 1])
  have sha: "length (lib_sha256 example_lib d) = 32" for d by (simp add: example_lib_def)
  have hash: "length (or_resource_hash example_sent) = 32" "length (or_expected_proof example_sent) = 32" "or_state example_sent = RSt_None"
    using sha by (simp_all add: example_sent_def built_def Let_def compute_resource_hash_def compute_expected_proof_def)
  then show "or_state example_sent \<noteq> RSt_Complete" by simp
  show "or_state (ot_resource (fold (outbound_step example_rm) [OProof (or_resource_hash example_sent @ or_expected_proof example_sent)]
      (OutboundTransfer_from_resource 0 example_sent 1))) = RSt_Complete"
    using hash by (simp add: OutboundTransfer_from_resource_def OutboundTransfer_handle_proof_def OutboundResource_validate_proof_def
        closed_states_def subslice_def)
qed

end
