(* ===== verification/Ingress.thy ===== *)
theory Ingress
  imports Routing_Tables Link_Timers
begin

text \<open>
  Per-interface control of announce and path-request floods,
  \<open>src/crates/rns-transport/src/ingress.rs\<close>: sampled frequencies, the two burst states, and the buffer of held
  announces. The clock is read once per operation and passed as an argument; a \<open>VecDeque\<close> of samples is a list with
  its front first; the hold buffer is a hash map, whose iteration order is the order of its list.
\<close>

subsection \<open>Constants\<close>

definition IA_FREQ_SAMPLES :: nat where "IA_FREQ_SAMPLES = 48"
definition OA_FREQ_SAMPLES :: nat where "OA_FREQ_SAMPLES = 48"
definition IP_FREQ_SAMPLES :: nat where "IP_FREQ_SAMPLES = 48"
definition OP_FREQ_SAMPLES :: nat where "OP_FREQ_SAMPLES = 48"
definition AR_MINFREQ_HZ :: real where "AR_MINFREQ_HZ = 1 / 10"
definition PR_MINFREQ_HZ :: real where "PR_MINFREQ_HZ = 1 / 10"
definition AR_FREQ_DECAY :: real where "AR_FREQ_DECAY = 1 / AR_MINFREQ_HZ"
definition PR_FREQ_DECAY :: real where "PR_FREQ_DECAY = 1 / PR_MINFREQ_HZ"
definition IC_DEQUE_MIN_SAMPLE :: nat where "IC_DEQUE_MIN_SAMPLE = 2"
definition IC_BURST_MIN_SAMPLES :: nat where "IC_BURST_MIN_SAMPLES = 6"
definition IC_NEW_TIME :: real where "IC_NEW_TIME = 7200"
definition IC_BURST_FREQ_NEW :: real where "IC_BURST_FREQ_NEW = 3"
definition IC_BURST_FREQ :: real where "IC_BURST_FREQ = 10"
definition IC_PR_BURST_FREQ_NEW :: real where "IC_PR_BURST_FREQ_NEW = 3"
definition IC_PR_BURST_FREQ :: real where "IC_PR_BURST_FREQ = 8"
definition IC_BURST_HOLD :: real where "IC_BURST_HOLD = 15"
definition IC_BURST_PENALTY :: real where "IC_BURST_PENALTY = 15"
definition IC_HELD_RELEASE_INTERVAL :: real where "IC_HELD_RELEASE_INTERVAL = 5"
definition EC_PR_FREQ :: real where "EC_PR_FREQ = 5"
definition EGRESS_CONTROL :: bool where "EGRESS_CONTROL = False"
definition MAX_HELD_ANNOUNCES :: nat where "MAX_HELD_ANNOUNCES = 256"
definition PATHFINDER_M :: u8 where "PATHFINDER_M = 128"

lemmas ingress_constants =
  IA_FREQ_SAMPLES_def OA_FREQ_SAMPLES_def IP_FREQ_SAMPLES_def OP_FREQ_SAMPLES_def AR_MINFREQ_HZ_def PR_MINFREQ_HZ_def
  AR_FREQ_DECAY_def PR_FREQ_DECAY_def IC_DEQUE_MIN_SAMPLE_def IC_BURST_MIN_SAMPLES_def IC_NEW_TIME_def
  IC_BURST_FREQ_NEW_def IC_BURST_FREQ_def IC_PR_BURST_FREQ_NEW_def IC_PR_BURST_FREQ_def IC_BURST_HOLD_def
  IC_BURST_PENALTY_def IC_HELD_RELEASE_INTERVAL_def EC_PR_FREQ_def EGRESS_CONTROL_def MAX_HELD_ANNOUNCES_def PATHFINDER_M_def

subsection \<open>Settings\<close>

record IngressOverrides =
  io_enabled :: "bool option"
  io_burst_freq_new :: "f64 option"
  io_burst_freq :: "f64 option"
  io_pr_burst_freq_new :: "f64 option"
  io_pr_burst_freq :: "f64 option"
  io_new_time :: "f64 option"
  io_burst_hold :: "f64 option"
  io_burst_penalty :: "f64 option"
  io_max_held :: "nat option"
  io_held_release_interval :: "f64 option"
  io_ec_pr_freq :: "f64 option"
  io_egress_control :: "bool option"

text \<open>\<open>IngressOverrideError\<close> carries the name of the field.\<close>

datatype IngressOverrideError = IngressOverrideError string

definition valid_frequency :: "f64 \<Rightarrow> bool" where
  "valid_frequency value \<longleftrightarrow> is_finite value \<and> f64_le (Fin 0) value"

text \<open>\<open>Duration::try_from_secs_f64\<close> fails on a value that is not finite. \<open>Instant::checked_add\<close> is for 64-bit seconds.\<close>

definition instant_checked_add :: "instant \<Rightarrow> duration \<Rightarrow> instant option" where
  "instant_checked_add t d = (if t + d \<le> 2 ^ 63 * 10 ^ 9 - 1 then Some (t + d) else None)"

definition valid_time :: "instant \<Rightarrow> f64 \<Rightarrow> bool" where
  "valid_time now value =
    (case value of
       Fin x \<Rightarrow> (case try_from_secs_f64 x of Some d \<Rightarrow> instant_checked_add now d \<noteq> None | None \<Rightarrow> False)
     | _ \<Rightarrow> False)"

text \<open>The two loops of \<open>validate\<close>: the first field whose value is not valid.\<close>

fun first_invalid :: "('a \<Rightarrow> bool) \<Rightarrow> (string \<times> 'a option) list \<Rightarrow> string option" where
  "first_invalid valid [] = None"
| "first_invalid valid ((field, value) # rest) =
    (case value of
       Some v \<Rightarrow> if valid v then first_invalid valid rest else Some field
     | None \<Rightarrow> first_invalid valid rest)"

definition IngressOverrides_validate :: "instant \<Rightarrow> IngressOverrides \<Rightarrow> (IngressOverrideError, unit) result" where
  "IngressOverrides_validate now o' =
    (case first_invalid valid_frequency
       [(''ic_burst_freq_new'', io_burst_freq_new o'), (''ic_burst_freq'', io_burst_freq o'),
        (''ic_pr_burst_freq_new'', io_pr_burst_freq_new o'), (''ic_pr_burst_freq'', io_pr_burst_freq o'),
        (''ec_pr_freq'', io_ec_pr_freq o')] of
       Some field \<Rightarrow> Err (IngressOverrideError field)
     | None \<Rightarrow>
         (case first_invalid (valid_time now)
            [(''ic_new_time'', io_new_time o'), (''ic_burst_hold'', io_burst_hold o'),
             (''ic_burst_penalty'', io_burst_penalty o'), (''ic_held_release_interval'', io_held_release_interval o')] of
            Some field \<Rightarrow> Err (IngressOverrideError field)
          | None \<Rightarrow> Ok ()))"

definition IngressOverrides_is_empty :: "IngressOverrides \<Rightarrow> bool" where
  "IngressOverrides_is_empty o' \<longleftrightarrow>
     io_enabled o' = None \<and> io_burst_freq_new o' = None \<and> io_burst_freq o' = None \<and> io_pr_burst_freq_new o' = None
   \<and> io_pr_burst_freq o' = None \<and> io_new_time o' = None \<and> io_burst_hold o' = None \<and> io_burst_penalty o' = None
   \<and> io_max_held o' = None \<and> io_held_release_interval o' = None \<and> io_ec_pr_freq o' = None \<and> io_egress_control o' = None"

subsection \<open>The controller\<close>

record HeldAnnounce =
  ha_raw :: bytes
  ha_destination_hash :: bytes
  ha_hops :: u8
  ha_receiving_interface_id :: InterfaceId

record IngressController =
  ic_created :: instant
  ic_enabled :: bool
  ic_ia_freq_deque :: "instant list"
  ic_oa_freq_deque :: "instant list"
  ic_ip_freq_deque :: "instant list"
  ic_op_freq_deque :: "instant list"
  ic_burst_active :: bool
  ic_burst_activated :: instant
  ic_pr_burst_active :: bool
  ic_pr_burst_activated :: instant
  ic_held_release :: instant
  ic_held_announces :: "(bytes, HeldAnnounce) hmap"
  ic_announces_received :: u64
  ic_announces_sent :: u64
  ic_path_requests_received :: u64
  ic_path_requests_sent :: u64
  ic_burst_freq_new :: real
  ic_burst_freq :: real
  ic_pr_burst_freq_new :: real
  ic_pr_burst_freq :: real
  ic_new_time :: real
  ic_burst_hold :: real
  ic_burst_penalty :: real
  ic_max_held :: nat
  ic_held_release_interval :: real
  ic_ec_pr_freq :: real
  ic_egress_control :: bool

definition IngressController_new :: "instant \<Rightarrow> IngressController" where
  "IngressController_new now = \<lparr>
     ic_created = now, ic_enabled = True, ic_ia_freq_deque = [], ic_oa_freq_deque = [], ic_ip_freq_deque = [],
     ic_op_freq_deque = [], ic_burst_active = False, ic_burst_activated = now, ic_pr_burst_active = False,
     ic_pr_burst_activated = now, ic_held_release = now, ic_held_announces = hm_empty, ic_announces_received = 0,
     ic_announces_sent = 0, ic_path_requests_received = 0, ic_path_requests_sent = 0,
     ic_burst_freq_new = IC_BURST_FREQ_NEW, ic_burst_freq = IC_BURST_FREQ,
     ic_pr_burst_freq_new = IC_PR_BURST_FREQ_NEW, ic_pr_burst_freq = IC_PR_BURST_FREQ, ic_new_time = IC_NEW_TIME,
     ic_burst_hold = IC_BURST_HOLD, ic_burst_penalty = IC_BURST_PENALTY, ic_max_held = MAX_HELD_ANNOUNCES,
     ic_held_release_interval = IC_HELD_RELEASE_INTERVAL, ic_ec_pr_freq = EC_PR_FREQ, ic_egress_control = EGRESS_CONTROL\<rparr>"

definition IngressController_disabled :: "instant \<Rightarrow> IngressController" where
  "IngressController_disabled now = (IngressController_new now)\<lparr>ic_enabled := False\<rparr>"

text \<open>The controller keeps validated settings only, so its fields are plain reals.\<close>

fun fin_value :: "real \<Rightarrow> f64 option \<Rightarrow> real" where
  "fin_value d (Some (Fin x)) = x"
| "fin_value d _ = d"

definition apply_overrides :: "instant \<Rightarrow> IngressOverrides \<Rightarrow> IngressController" where
  "apply_overrides now o' =
    (let c = IngressController_new now in c\<lparr>
       ic_enabled := (case io_enabled o' of Some v \<Rightarrow> v | None \<Rightarrow> ic_enabled c),
       ic_burst_freq_new := fin_value (ic_burst_freq_new c) (io_burst_freq_new o'),
       ic_burst_freq := fin_value (ic_burst_freq c) (io_burst_freq o'),
       ic_pr_burst_freq_new := fin_value (ic_pr_burst_freq_new c) (io_pr_burst_freq_new o'),
       ic_pr_burst_freq := fin_value (ic_pr_burst_freq c) (io_pr_burst_freq o'),
       ic_new_time := fin_value (ic_new_time c) (io_new_time o'),
       ic_burst_hold := fin_value (ic_burst_hold c) (io_burst_hold o'),
       ic_burst_penalty := fin_value (ic_burst_penalty c) (io_burst_penalty o'),
       ic_max_held := (case io_max_held o' of Some v \<Rightarrow> v | None \<Rightarrow> ic_max_held c),
       ic_held_release_interval := fin_value (ic_held_release_interval c) (io_held_release_interval o'),
       ic_ec_pr_freq := fin_value (ic_ec_pr_freq c) (io_ec_pr_freq o'),
       ic_egress_control := (case io_egress_control o' of Some v \<Rightarrow> v | None \<Rightarrow> ic_egress_control c)\<rparr>)"

definition IngressController_try_with_overrides ::
    "instant \<Rightarrow> IngressOverrides \<Rightarrow> (IngressOverrideError, IngressController) result" where
  "IngressController_try_with_overrides now o' =
     and_then (IngressOverrides_validate now o') (\<lambda>_. Ok (apply_overrides now o'))"

definition option_filter :: "('a \<Rightarrow> bool) \<Rightarrow> 'a option \<Rightarrow> 'a option" where
  "option_filter P x = (case x of Some v \<Rightarrow> if P v then Some v else None | None \<Rightarrow> None)"

definition IngressController_with_overrides :: "instant \<Rightarrow> IngressOverrides \<Rightarrow> IngressController" where
  "IngressController_with_overrides now o' =
     apply_overrides now (o'\<lparr>
       io_burst_freq_new := option_filter valid_frequency (io_burst_freq_new o'),
       io_burst_freq := option_filter valid_frequency (io_burst_freq o'),
       io_pr_burst_freq_new := option_filter valid_frequency (io_pr_burst_freq_new o'),
       io_pr_burst_freq := option_filter valid_frequency (io_pr_burst_freq o'),
       io_ec_pr_freq := option_filter valid_frequency (io_ec_pr_freq o'),
       io_new_time := option_filter (valid_time now) (io_new_time o'),
       io_burst_hold := option_filter (valid_time now) (io_burst_hold o'),
       io_burst_penalty := option_filter (valid_time now) (io_burst_penalty o'),
       io_held_release_interval := option_filter (valid_time now) (io_held_release_interval o')\<rparr>)"

definition IngressController_age :: "instant \<Rightarrow> IngressController \<Rightarrow> real" where
  "IngressController_age now c = as_secs_f64 (duration_since now (ic_created c))"

subsection \<open>Samples and frequencies\<close>

definition push_sample :: "nat \<Rightarrow> instant \<Rightarrow> instant list \<Rightarrow> instant list" where
  "push_sample cap now deque = (if length deque \<ge> cap then tl deque else deque) @ [now]"

definition sample_age :: "instant \<Rightarrow> instant \<Rightarrow> duration" where
  "sample_age now sample = duration_since now sample"

definition frequency_from_parts :: "nat \<Rightarrow> instant \<Rightarrow> instant \<Rightarrow> nat \<Rightarrow> real" where
  "frequency_from_parts n now oldest min_samples =
    (if n \<le> min_samples then 0
     else let span = as_secs_f64 (sample_age now oldest) in if span \<le> 0 then 0 else real n / span)"

definition frequency_from_deque :: "instant \<Rightarrow> instant list \<Rightarrow> nat \<Rightarrow> duration \<Rightarrow> real" where
  "frequency_from_deque now deque min_samples decay =
    (case List.find (\<lambda>sample. sample_age now sample \<le> decay) deque of
       None \<Rightarrow> 0
     | Some oldest \<Rightarrow>
         frequency_from_parts (length (filter (\<lambda>sample. sample_age now sample \<le> decay) deque)) now oldest min_samples)"

text \<open>The limiter's frequency: it also returns the trimmed samples.\<close>

definition frequency_from_deque_mut :: "instant \<Rightarrow> instant list \<Rightarrow> nat \<Rightarrow> duration \<Rightarrow> instant list \<times> real" where
  "frequency_from_deque_mut now deque min_samples decay =
    (let n = length deque in
     if n \<le> min_samples then (deque, 0)
     else case deque of
       [] \<Rightarrow> (deque, 0)
     | oldest # rest \<Rightarrow>
         (if sample_age now oldest > decay then rest else deque, frequency_from_parts n now oldest min_samples))"

definition u64_saturating_add :: "u64 \<Rightarrow> u64 \<Rightarrow> u64" where
  "u64_saturating_add a b = word_of_nat (min (unat a + unat b) (2 ^ 64 - 1))"

definition IngressController_received_announce :: "instant \<Rightarrow> IngressController \<Rightarrow> IngressController" where
  "IngressController_received_announce now c = c\<lparr>
     ic_announces_received := u64_saturating_add (ic_announces_received c) 1,
     ic_ia_freq_deque := push_sample IA_FREQ_SAMPLES now (ic_ia_freq_deque c)\<rparr>"

definition IngressController_sent_announce :: "instant \<Rightarrow> IngressController \<Rightarrow> IngressController" where
  "IngressController_sent_announce now c = c\<lparr>
     ic_announces_sent := u64_saturating_add (ic_announces_sent c) 1,
     ic_oa_freq_deque := push_sample OA_FREQ_SAMPLES now (ic_oa_freq_deque c)\<rparr>"

definition IngressController_received_path_request :: "instant \<Rightarrow> IngressController \<Rightarrow> IngressController" where
  "IngressController_received_path_request now c = c\<lparr>
     ic_path_requests_received := u64_saturating_add (ic_path_requests_received c) 1,
     ic_ip_freq_deque := push_sample IP_FREQ_SAMPLES now (ic_ip_freq_deque c)\<rparr>"

definition IngressController_sent_path_request :: "instant \<Rightarrow> IngressController \<Rightarrow> IngressController" where
  "IngressController_sent_path_request now c = c\<lparr>
     ic_path_requests_sent := u64_saturating_add (ic_path_requests_sent c) 1,
     ic_op_freq_deque := push_sample OP_FREQ_SAMPLES now (ic_op_freq_deque c)\<rparr>"

definition incoming_announce_frequency :: "instant \<Rightarrow> IngressController \<Rightarrow> real" where
  "incoming_announce_frequency now c =
     frequency_from_deque now (ic_ia_freq_deque c) IC_DEQUE_MIN_SAMPLE (from_secs_f64 AR_FREQ_DECAY)"

definition outgoing_announce_frequency :: "instant \<Rightarrow> IngressController \<Rightarrow> real" where
  "outgoing_announce_frequency now c = frequency_from_deque now (ic_oa_freq_deque c) 1 (from_secs_f64 AR_FREQ_DECAY)"

definition incoming_pr_frequency :: "instant \<Rightarrow> IngressController \<Rightarrow> real" where
  "incoming_pr_frequency now c =
     frequency_from_deque now (ic_ip_freq_deque c) IC_DEQUE_MIN_SAMPLE (from_secs_f64 PR_FREQ_DECAY)"

definition outgoing_pr_frequency :: "instant \<Rightarrow> IngressController \<Rightarrow> real" where
  "outgoing_pr_frequency now c = frequency_from_deque now (ic_op_freq_deque c) 1 (from_secs_f64 PR_FREQ_DECAY)"

subsection \<open>Limits\<close>

definition announce_threshold :: "instant \<Rightarrow> IngressController \<Rightarrow> real" where
  "announce_threshold now c =
    (if IngressController_age now c < ic_new_time c then ic_burst_freq_new c else ic_burst_freq c)"

definition should_ingress_limit :: "instant \<Rightarrow> IngressController \<Rightarrow> IngressController \<times> bool" where
  "should_ingress_limit now c =
    (if \<not> ic_enabled c then (c, False)
     else
       let freq_threshold = announce_threshold now c;
           (deque, ia_freq) = frequency_from_deque_mut now (ic_ia_freq_deque c) IC_DEQUE_MIN_SAMPLE (from_secs_f64 AR_FREQ_DECAY);
           c = c\<lparr>ic_ia_freq_deque := deque\<rparr>
       in if ic_burst_active c then
            (if ia_freq < freq_threshold
                \<and> duration_since now (ic_burst_activated c) > from_secs_f64 (ic_burst_hold c)
                \<and> length (ic_ia_freq_deque c) \<ge> IC_BURST_MIN_SAMPLES
             then c\<lparr>ic_burst_active := False\<rparr> else c, True)
          else if ia_freq > freq_threshold then
            (c\<lparr>ic_burst_active := True, ic_burst_activated := now,
               ic_held_release := (case instant_checked_add now (from_secs_f64 (ic_burst_penalty c)) of Some t \<Rightarrow> t | None \<Rightarrow> now)\<rparr>,
             True)
          else (c, False))"

definition should_ingress_limit_pr :: "instant \<Rightarrow> IngressController \<Rightarrow> IngressController \<times> bool" where
  "should_ingress_limit_pr now c =
    (if \<not> ic_enabled c then (c, False)
     else
       let freq_threshold = (if IngressController_age now c < ic_new_time c then ic_pr_burst_freq_new c else ic_pr_burst_freq c);
           (deque, ip_freq) = frequency_from_deque_mut now (ic_ip_freq_deque c) IC_DEQUE_MIN_SAMPLE (from_secs_f64 PR_FREQ_DECAY);
           c = c\<lparr>ic_ip_freq_deque := deque\<rparr>
       in if ic_pr_burst_active c then
            (if ip_freq < freq_threshold
                \<and> duration_since now (ic_pr_burst_activated c) > from_secs_f64 (ic_burst_hold c)
             then c\<lparr>ic_pr_burst_active := False\<rparr> else c, True)
          else if ip_freq > freq_threshold then
            (c\<lparr>ic_pr_burst_active := True, ic_pr_burst_activated := now\<rparr>, True)
          else (c, False))"

definition should_egress_limit_pr :: "instant \<Rightarrow> IngressController \<Rightarrow> IngressController \<times> bool" where
  "should_egress_limit_pr now c =
    (if \<not> ic_egress_control c then (c, False)
     else
       let (deque, op_freq) = frequency_from_deque_mut now (ic_op_freq_deque c) 1 (from_secs_f64 PR_FREQ_DECAY);
           c = c\<lparr>ic_op_freq_deque := deque\<rparr>
       in (c, op_freq > ic_ec_pr_freq c \<and> length (ic_op_freq_deque c) \<ge> IC_BURST_MIN_SAMPLES))"

subsection \<open>Held announces\<close>

definition hold_announce :: "HeldAnnounce \<Rightarrow> IngressController \<Rightarrow> IngressController" where
  "hold_announce announce c =
    (if ha_hops announce \<ge> PATHFINDER_M - 1 then c
     else if hm_contains (ic_held_announces c) (ha_destination_hash announce)
         \<or> hm_len (ic_held_announces c) < ic_max_held c
     then c\<lparr>ic_held_announces := hm_insert (ha_destination_hash announce) announce (ic_held_announces c)\<rparr>
     else c)"

text \<open>\<open>min_by_key\<close>: the first entry of least key.\<close>

fun min_entry :: "('v \<Rightarrow> 'n::linorder) \<Rightarrow> ('k \<times> 'v) list \<Rightarrow> ('k \<times> 'v) option" where
  "min_entry f [] = None"
| "min_entry f (x # xs) =
    (case min_entry f xs of
       None \<Rightarrow> Some x
     | Some y \<Rightarrow> if f (snd y) < f (snd x) then Some y else Some x)"

definition try_release_held :: "instant \<Rightarrow> IngressController \<Rightarrow> IngressController \<times> HeldAnnounce option" where
  "try_release_held now c =
    (if ic_held_announces c = hm_empty then (c, None)
     else if now < ic_held_release c then (c, None)
     else
       let freq_threshold = announce_threshold now c;
           (deque, ia_freq) = frequency_from_deque_mut now (ic_ia_freq_deque c) IC_DEQUE_MIN_SAMPLE (from_secs_f64 AR_FREQ_DECAY);
           c = c\<lparr>ic_ia_freq_deque := deque\<rparr>
       in if ia_freq \<ge> freq_threshold then (c, None)
          else case min_entry ha_hops (ic_held_announces c) of
            None \<Rightarrow> (c, None)
          | Some (best_hash, announce) \<Rightarrow>
              (c\<lparr>ic_held_announces := hm_remove best_hash (ic_held_announces c),
                 ic_held_release := (case instant_checked_add now (from_secs_f64 (ic_held_release_interval c)) of
                   Some t \<Rightarrow> t | None \<Rightarrow> now)\<rparr>, Some announce))"

definition held_count :: "IngressController \<Rightarrow> nat" where
  "held_count c = hm_len (ic_held_announces c)"

subsection \<open>Floods are bounded\<close>

datatype ingress_event =
  IE_ReceivedAnnounce | IE_SentAnnounce | IE_ReceivedPathRequest | IE_SentPathRequest
| IE_Limit | IE_LimitPr | IE_EgressLimit | IE_Hold HeldAnnounce | IE_Release

text \<open>One event at a time: the new state, and the announce it releases.\<close>

fun ingress_step :: "instant \<Rightarrow> ingress_event \<Rightarrow> IngressController \<Rightarrow> IngressController \<times> HeldAnnounce option" where
  "ingress_step now IE_ReceivedAnnounce c = (IngressController_received_announce now c, None)"
| "ingress_step now IE_SentAnnounce c = (IngressController_sent_announce now c, None)"
| "ingress_step now IE_ReceivedPathRequest c = (IngressController_received_path_request now c, None)"
| "ingress_step now IE_SentPathRequest c = (IngressController_sent_path_request now c, None)"
| "ingress_step now IE_Limit c = (fst (should_ingress_limit now c), None)"
| "ingress_step now IE_LimitPr c = (fst (should_ingress_limit_pr now c), None)"
| "ingress_step now IE_EgressLimit c = (fst (should_egress_limit_pr now c), None)"
| "ingress_step now (IE_Hold a) c = (hold_announce a c, None)"
| "ingress_step now IE_Release c = try_release_held now c"

fun ingress_run :: "(instant \<times> ingress_event) list \<Rightarrow> IngressController \<Rightarrow> IngressController \<times> (instant \<times> HeldAnnounce) list" where
  "ingress_run [] c = (c, [])"
| "ingress_run ((now, e) # es) c =
    (let (c', r) = ingress_step now e c; (c'', rs) = ingress_run es c'
     in (c'', (case r of Some a \<Rightarrow> [(now, a)] | None \<Rightarrow> []) @ rs))"

definition ingress_inv :: "IngressController \<Rightarrow> bool" where
  "ingress_inv c \<longleftrightarrow>
     length (ic_ia_freq_deque c) \<le> IA_FREQ_SAMPLES \<and> length (ic_oa_freq_deque c) \<le> OA_FREQ_SAMPLES
   \<and> length (ic_ip_freq_deque c) \<le> IP_FREQ_SAMPLES \<and> length (ic_op_freq_deque c) \<le> OP_FREQ_SAMPLES
   \<and> hm_wf (ic_held_announces c) \<and> hm_len (ic_held_announces c) \<le> ic_max_held c"

definition same_settings :: "IngressController \<Rightarrow> IngressController \<Rightarrow> bool" where
  "same_settings c c' \<longleftrightarrow> ic_max_held c' = ic_max_held c \<and> ic_held_release_interval c' = ic_held_release_interval c
     \<and> ic_burst_penalty c' = ic_burst_penalty c"

lemma push_sample_length: "0 < cap \<Longrightarrow> length deque \<le> cap \<Longrightarrow> length (push_sample cap now deque) \<le> cap"
  by (auto simp: push_sample_def)

lemma deque_mut_length: "frequency_from_deque_mut now deque k d = (deque', f) \<Longrightarrow> length deque' \<le> length deque"
  by (auto simp: frequency_from_deque_mut_def Let_def split: list.splits if_splits)

lemma min_entry_Some: "min_entry f xs = Some x \<Longrightarrow> x \<in> set xs \<and> (\<forall>y \<in> set xs. f (snd x) \<le> f (snd y))"
proof (induction xs arbitrary: x)
  case (Cons a xs)
  show ?case
  proof (cases "min_entry f xs")
    case None
    then have "xs = []" by (cases xs) (auto split: option.splits if_splits)
    then show ?thesis using Cons.prems by simp
  next
    case (Some y)
    then show ?thesis using Cons.prems Cons.IH [OF Some] by (auto split: if_splits)
  qed
qed simp

lemma min_entry_None [simp]: "min_entry f xs = None \<longleftrightarrow> xs = []"
  by (cases xs) (auto split: option.splits if_splits)

text \<open>What a release does: the state changes in the samples, the hold buffer and the time gate only.\<close>

lemma try_release_held_cases:
  assumes "try_release_held now c = (c', r)"
  obtains (none) deque where "r = None" "c' = c\<lparr>ic_ia_freq_deque := deque\<rparr>" "length deque \<le> length (ic_ia_freq_deque c)"
  | (released) deque h a where "r = Some a" "(h, a) \<in> set (ic_held_announces c)" "ic_held_release c \<le> now"
      "\<forall>y \<in> set (ic_held_announces c). ha_hops a \<le> ha_hops (snd y)" "length deque \<le> length (ic_ia_freq_deque c)"
      "c' = c\<lparr>ic_ia_freq_deque := deque, ic_held_announces := hm_remove h (ic_held_announces c),
         ic_held_release := (case instant_checked_add now (from_secs_f64 (ic_held_release_interval c)) of Some t \<Rightarrow> t | None \<Rightarrow> now)\<rparr>"
proof -
  obtain deque f where q: "frequency_from_deque_mut now (ic_ia_freq_deque c) IC_DEQUE_MIN_SAMPLE (from_secs_f64 AR_FREQ_DECAY) = (deque, f)"
    by fastforce
  note len = deque_mut_length [OF q]
  show ?thesis
  proof (cases "ic_held_announces c = hm_empty \<or> now < ic_held_release c \<or> announce_threshold now c \<le> f")
    case True
    then show ?thesis using assms q len none [of "ic_ia_freq_deque c"] none [of deque]
      by (auto simp: try_release_held_def Let_def split: if_splits)
  next
    case False
    then obtain h a where m: "min_entry ha_hops (ic_held_announces c) = Some (h, a)"
      by (cases "min_entry ha_hops (ic_held_announces c)") (auto simp: hm_empty_def)
    show ?thesis using assms q len False m min_entry_Some [OF m] released [of a h deque]
      by (auto simp: try_release_held_def Let_def split: if_splits)
  qed
qed

lemma limits_keep_held:
  "ic_held_announces (fst (should_ingress_limit now c)) = ic_held_announces c"
  "ic_held_announces (fst (should_ingress_limit_pr now c)) = ic_held_announces c"
  "ic_held_announces (fst (should_egress_limit_pr now c)) = ic_held_announces c"
  by (auto simp: should_ingress_limit_def should_ingress_limit_pr_def should_egress_limit_pr_def Let_def split: prod.splits)

lemma received_sent_inv:
  assumes "ingress_inv c"
  shows "ingress_inv (IngressController_received_announce now c)" "ingress_inv (IngressController_sent_announce now c)"
    "ingress_inv (IngressController_received_path_request now c)" "ingress_inv (IngressController_sent_path_request now c)"
  using assms
  by (auto simp: ingress_inv_def IngressController_received_announce_def IngressController_sent_announce_def
      IngressController_received_path_request_def IngressController_sent_path_request_def ingress_constants
      intro!: push_sample_length)

lemma ingress_step_keeps:
  assumes inv: "ingress_inv c" and step: "ingress_step now e c = (c', r)"
  shows "ingress_inv c' \<and> same_settings c c'"
proof (cases e)
  case IE_Release
  from step have "try_release_held now c = (c', r)" by (simp add: IE_Release)
  then show ?thesis
  proof (cases rule: try_release_held_cases)
    case (none deque)
    then show ?thesis using inv by (auto simp: ingress_inv_def same_settings_def)
  next
    case (released deque h a)
    have "hm_len (hm_remove h (ic_held_announces c)) \<le> hm_len (ic_held_announces c)"
      by (simp add: hm_len_def hm_remove_filter)
    then show ?thesis using inv released by (auto simp: ingress_inv_def same_settings_def hm.invar_rem)
  qed
next
  case (IE_Hold a)
  show ?thesis using inv step
    by (auto simp: IE_Hold hold_announce_def same_settings_def ingress_inv_def hm.invar_ins hm.len_ins hm_contains_def)
next
  case IE_Limit
  show ?thesis using inv step deque_mut_length [of now "ic_ia_freq_deque c" IC_DEQUE_MIN_SAMPLE "from_secs_f64 AR_FREQ_DECAY"]
    by (auto simp: IE_Limit should_ingress_limit_def same_settings_def ingress_inv_def Let_def split: prod.splits)
next
  case IE_LimitPr
  show ?thesis using inv step deque_mut_length [of now "ic_ip_freq_deque c" IC_DEQUE_MIN_SAMPLE "from_secs_f64 PR_FREQ_DECAY"]
    by (auto simp: IE_LimitPr should_ingress_limit_pr_def same_settings_def ingress_inv_def Let_def split: prod.splits)
next
  case IE_EgressLimit
  show ?thesis using inv step deque_mut_length [of now "ic_op_freq_deque c" 1 "from_secs_f64 PR_FREQ_DECAY"]
    by (auto simp: IE_EgressLimit should_egress_limit_pr_def same_settings_def ingress_inv_def Let_def split: prod.splits)
qed (use inv step received_sent_inv [OF inv, of now] in
    \<open>auto simp: same_settings_def IngressController_received_announce_def IngressController_sent_announce_def
      IngressController_received_path_request_def IngressController_sent_path_request_def\<close>)

text \<open>The time gate: after a release at \<open>r\<close> no step before \<open>r\<close> plus the interval opens it again.\<close>

definition gate_ok :: "instant \<Rightarrow> IngressController \<Rightarrow> bool" where
  "gate_ok r c \<longleftrightarrow> r + from_secs_f64 (ic_held_release_interval c) \<le> ic_held_release c"

lemma from_secs_f64_mono: "x \<le> y \<Longrightarrow> from_secs_f64 x \<le> from_secs_f64 y"
  by (simp add: from_secs_f64_def round_mono nat_mono)

lemma ingress_step_gate:
  assumes step: "ingress_step now e c = (c', r)" and "gate_ok t c" and "t \<le> now"
    and "ic_held_release_interval c \<le> ic_burst_penalty c"
    and "now + from_secs_f64 (ic_burst_penalty c) \<le> 2 ^ 63 * 10 ^ 9 - 1"
  shows "gate_ok t c'" and "r = Some a \<Longrightarrow> t + from_secs_f64 (ic_held_release_interval c) \<le> now" and "r = Some a \<Longrightarrow> gate_ok now c'"
proof -
  let ?i = "from_secs_f64 (ic_held_release_interval c)" and ?p = "from_secs_f64 (ic_burst_penalty c)"
  have i: "?i \<le> ?p" using assms(4) by (rule from_secs_f64_mono)
  have added: "instant_checked_add now ?p = Some (now + ?p)" "instant_checked_add now ?i = Some (now + ?i)"
    using assms(5) i by (auto simp: instant_checked_add_def)
  have limit: "gate_ok t (fst (should_ingress_limit now c))"
    using assms(2,3) i added by (auto simp: should_ingress_limit_def gate_ok_def Let_def split: prod.splits)
  have all: "gate_ok t c' \<and> (\<forall>a. r = Some a \<longrightarrow> t + ?i \<le> now \<and> gate_ok now c')"
  proof (cases e)
    case IE_Release
    from step have "try_release_held now c = (c', r)" by (simp add: IE_Release)
    then show ?thesis
      by (cases rule: try_release_held_cases) (use assms(2) added in \<open>auto simp: gate_ok_def\<close>)
  next
    case (IE_Hold b)
    show ?thesis using step assms(2) by (auto simp: IE_Hold hold_announce_def gate_ok_def)
  qed (use step assms(2) limit in \<open>auto simp: gate_ok_def IngressController_received_announce_def IngressController_sent_announce_def
      IngressController_received_path_request_def IngressController_sent_path_request_def should_ingress_limit_pr_def
      should_egress_limit_pr_def Let_def split: prod.splits\<close>)
  then show "gate_ok t c'" "r = Some a \<Longrightarrow> t + ?i \<le> now" "r = Some a \<Longrightarrow> gate_ok now c'" by auto
qed

lemma ingress_run_keeps:
  assumes "ingress_inv c" and "ingress_run es c = (c', rs)"
  shows "ingress_inv c' \<and> same_settings c c'"
  using assms
proof (induction es arbitrary: c rs)
  case (Cons e es)
  obtain now ev where e: "e = (now, ev)" by fastforce
  obtain c1 r where s: "ingress_step now ev c = (c1, r)" by fastforce
  obtain rs' where "ingress_run es c1 = (c', rs')" using Cons.prems(2) s by (auto simp: e split: prod.splits)
  then show ?case using Cons.IH ingress_step_keeps [OF Cons.prems(1) s] by (fastforce simp: same_settings_def)
qed (simp add: same_settings_def)

text \<open>Every released announce was held before, with a hop count below the cap.\<close>

lemma ingress_run_released:
  assumes "ingress_run es c = (c', rs)" and "(t, a) \<in> set rs"
  shows "a \<in> snd ` set (ic_held_announces c) \<or> (IE_Hold a \<in> snd ` set es \<and> ha_hops a < PATHFINDER_M - 1)"
  using assms
proof (induction es arbitrary: c rs)
  case (Cons e es)
  obtain now ev where e: "e = (now, ev)" by fastforce
  obtain c1 r where s: "ingress_step now ev c = (c1, r)" by fastforce
  obtain rs' where run: "ingress_run es c1 = (c', rs')" and rs: "rs = (case r of Some a \<Rightarrow> [(now, a)] | None \<Rightarrow> []) @ rs'"
    using Cons.prems(1) s by (auto simp: e split: prod.splits)
  have held: "snd ` set (ic_held_announces c1) \<subseteq> snd ` set (ic_held_announces c)
      \<union> {b. ev = IE_Hold b \<and> ha_hops b < PATHFINDER_M - 1}" and out: "r = Some b \<Longrightarrow> b \<in> snd ` set (ic_held_announces c)" for b
  proof -
    have "snd ` set (ic_held_announces c1) \<subseteq> snd ` set (ic_held_announces c) \<union> {b. ev = IE_Hold b \<and> ha_hops b < PATHFINDER_M - 1}
        \<and> (\<forall>b. r = Some b \<longrightarrow> b \<in> snd ` set (ic_held_announces c))"
    proof (cases ev)
      case IE_Release
      from s have "try_release_held now c = (c1, r)" by (simp add: IE_Release)
      then show ?thesis by (cases rule: try_release_held_cases) (auto simp: hm_remove_filter intro: rev_image_eqI)
    next
      case (IE_Hold b)
      have "(k', v') \<in> set (hm_insert k v m) \<Longrightarrow> v' = v \<or> (k', v') \<in> set m" for k v k' v' and m :: "(bytes, HeldAnnounce) hmap"
        by (induction m) (auto simp: hm_insert_def split: if_splits)
      then show ?thesis using s by (fastforce simp: IE_Hold hold_announce_def not_le split: if_splits)
    qed (use s in \<open>auto simp: IngressController_received_announce_def IngressController_sent_announce_def
        IngressController_received_path_request_def IngressController_sent_path_request_def limits_keep_held\<close>)
    then show "snd ` set (ic_held_announces c1) \<subseteq> snd ` set (ic_held_announces c) \<union> {b. ev = IE_Hold b \<and> ha_hops b < PATHFINDER_M - 1}"
        "r = Some b \<Longrightarrow> b \<in> snd ` set (ic_held_announces c)" by auto
  qed
  show ?case
  proof (cases "(t, a) \<in> set rs'")
    case True
    show ?thesis using Cons.IH [OF run True] held by (auto simp: e)
  next
    case False
    then show ?thesis using Cons.prems(2) out by (auto simp: rs split: option.splits)
  qed
qed simp

text \<open>Releases are spaced by the release interval.\<close>

lemma ingress_run_spaced:
  assumes "ingress_run es c = (c', rs)" and "sorted (map fst es)" and "ic_held_release_interval c \<le> ic_burst_penalty c"
    and "\<forall>e \<in> set es. fst e + from_secs_f64 (ic_burst_penalty c) \<le> 2 ^ 63 * 10 ^ 9 - 1" and "ingress_inv c"
  shows "sorted_wrt (\<lambda>x y. fst x + from_secs_f64 (ic_held_release_interval c) \<le> fst y) rs
    \<and> (\<forall>t. gate_ok t c \<longrightarrow> (\<forall>e \<in> set es. t \<le> fst e) \<longrightarrow> (\<forall>x \<in> set rs. t + from_secs_f64 (ic_held_release_interval c) \<le> fst x))"
  using assms
proof (induction es arbitrary: c rs)
  case (Cons e es)
  let ?i = "from_secs_f64 (ic_held_release_interval c)"
  obtain now ev where e: "e = (now, ev)" by fastforce
  obtain c1 r where s: "ingress_step now ev c = (c1, r)" by fastforce
  obtain rs' where run: "ingress_run es c1 = (c', rs')" and rs: "rs = (case r of Some a \<Rightarrow> [(now, a)] | None \<Rightarrow> []) @ rs'"
    using Cons.prems(1) s by (auto simp: e split: prod.splits)
  have keep: "ingress_inv c1" "same_settings c c1" using ingress_step_keeps [OF Cons.prems(5) s] by auto
  then have set: "ic_held_release_interval c1 = ic_held_release_interval c" "ic_burst_penalty c1 = ic_burst_penalty c"
    by (auto simp: same_settings_def)
  have IH: "sorted_wrt (\<lambda>x y. fst x + ?i \<le> fst y) rs'"
      "\<And>t. gate_ok t c1 \<Longrightarrow> \<forall>e \<in> set es. t \<le> fst e \<Longrightarrow> \<forall>x \<in> set rs'. t + ?i \<le> fst x"
    using Cons.IH [OF run _ _ _ keep(1)] Cons.prems(2-4) set by (auto simp: e)
  have now: "\<forall>e \<in> set es. now \<le> fst e" using Cons.prems(2) by (auto simp: e)
  have room: "now + from_secs_f64 (ic_burst_penalty c) \<le> 2 ^ 63 * 10 ^ 9 - 1" using Cons.prems(4) by (simp add: e)
  note gate = ingress_step_gate [OF s _ _ Cons.prems(3) room]
  have open0: "gate_ok now c1" if r: "r = Some a" for a
  proof -
    from s r have ev: "ev = IE_Release" by (cases ev) auto
    from s have "try_release_held now c = (c1, Some a)" by (simp add: ev r)
    then show ?thesis
    proof (cases rule: try_release_held_cases)
      case (released deque h a)
      have "?i \<le> from_secs_f64 (ic_burst_penalty c)" using Cons.prems(3) by (rule from_secs_f64_mono)
      then show ?thesis using released room by (auto simp: gate_ok_def instant_checked_add_def)
    qed simp
  qed
  show ?case
  proof (cases r)
    case None
    then show ?thesis using IH gate(1) Cons.prems(2) by (auto simp: rs e)
  next
    case (Some a)
    have "\<forall>x \<in> set rs'. now + ?i \<le> fst x" using IH(2) [OF open0 [OF Some] now] .
    then show ?thesis using IH(1) gate(2) [OF _ _ Some] Some by (fastforce simp: rs e)
  qed
qed simp

lemma fresh_ingress: "ingress_inv (IngressController_new now)" "ic_held_announces (IngressController_new now) = []"
  by (simp_all add: ingress_inv_def IngressController_new_def hm_empty_def hm_wf_def hm_len_def)

text \<open>
  C40: an announce flood cannot exhaust an interface or the transport behind it. Over any sequence of samples, limiter
  checks, holds and releases on a monotonic clock, a fresh controller keeps at most 48 samples of each kind and at most
  256 announces; it releases only announces that were given to it to hold, with a hop count under the cap, and any two
  releases are at least five seconds apart.
\<close>

theorem ingress_flood_bounded:
  assumes "ingress_run es (IngressController_new now) = (c, rs)" and "sorted (map fst es)"
    and "\<forall>e \<in> set es. fst e + secs 15 \<le> 2 ^ 63 * 10 ^ 9 - 1"
  shows "length (ic_ia_freq_deque c) \<le> 48 \<and> length (ic_oa_freq_deque c) \<le> 48 \<and> length (ic_ip_freq_deque c) \<le> 48
    \<and> length (ic_op_freq_deque c) \<le> 48 \<and> held_count c \<le> 256
    \<and> (\<forall>(t, a) \<in> set rs. IE_Hold a \<in> snd ` set es \<and> ha_hops a < 127)
    \<and> sorted_wrt (\<lambda>x y. fst x + secs 5 \<le> fst y) rs"
proof -
  let ?c = "IngressController_new now"
  have inv: "ingress_inv c \<and> same_settings ?c c" by (rule ingress_run_keeps [OF fresh_ingress(1) assms(1)])
  have times: "from_secs_f64 (ic_held_release_interval ?c) = secs 5" "from_secs_f64 (ic_burst_penalty ?c) = secs 15"
    by (simp_all add: IngressController_new_def ingress_constants from_secs_f64_def secs_def)
  have "sorted_wrt (\<lambda>x y. fst x + secs 5 \<le> fst y) rs"
    using ingress_run_spaced [OF assms(1,2) _ _ fresh_ingress(1)] assms(3)
    by (simp add: times) (simp add: IngressController_new_def ingress_constants)
  moreover have "IE_Hold a \<in> snd ` set es \<and> ha_hops a < 127" if "(t, a) \<in> set rs" for t a
    using ingress_run_released [OF assms(1) that] by (simp add: fresh_ingress(2) ingress_constants)
  ultimately show ?thesis using inv
    by (auto simp: ingress_inv_def same_settings_def held_count_def IngressController_new_def ingress_constants)
qed

theorem ingress_flood_bounded_witness:
  "held_count (fst (ingress_run [(1, IE_ReceivedAnnounce), (2, IE_Limit),
      (3, IE_Hold \<lparr>ha_raw = [1], ha_destination_hash = [2], ha_hops = 3, ha_receiving_interface_id = 4\<rparr>), (4, IE_Release)]
      (IngressController_new 0))) \<le> 256"
  by (rule ingress_flood_bounded [where es = "[(1, IE_ReceivedAnnounce), (2, IE_Limit),
      (3, IE_Hold \<lparr>ha_raw = [1], ha_destination_hash = [2], ha_hops = 3, ha_receiving_interface_id = 4\<rparr>), (4, IE_Release)]"
        and now = 0, OF surjective_pairing, THEN conjunct2, THEN conjunct2, THEN conjunct2, THEN conjunct2, THEN conjunct1])
    (simp_all add: secs_def)

end
