(* ===== verification/Actor_State.thy ===== *)
theory Actor_State
  imports Ingress Rate_Limits Ownership Tunnel Hashlist Packet_Receipt Announces Ifac
begin

text \<open>
  The state of the transport actor, \<open>src/crates/rns-transport/src/actor/mod.rs\<close>, with the records of
  \<open>messages.rs\<close>, \<open>link_messages.rs\<close> and of the actor's submodules, and the helpers of the actor that read the state or
  rewrite a packet. A Tokio sender is a handle (a number) into a store of bounded queues, since clones of a sender share one
  queue; \<open>same_channel\<close> is equality of handles. The identity of an \<open>Arc<()>\<close> is a number drawn from a counter. What the
  actor tells the application through one-shot, watch and unbounded channels, and what it writes to the announce cache, is
  appended to a list of notices. A reply channel of an announce is a handle too; those the running handler holds are on a
  stack, because the code asks whether a queued announce holds the last reference. Both clocks, random bytes and the content of the announce cache are an environment that is
  read for the duration of one handler.
\<close>

subsection \<open>Channels\<close>

record 'a chan =
  ch_queue :: "'a list"
  ch_capacity :: nat
  ch_closed :: bool

datatype TrySendError = TrySend_Full | TrySend_Closed

definition chan_try_send :: "nat \<Rightarrow> 'a \<Rightarrow> (nat \<Rightarrow> 'a chan) \<Rightarrow> (nat \<Rightarrow> 'a chan) \<times> (TrySendError, unit) result" where
  "chan_try_send tx x s =
    (if ch_closed (s tx) then (s, Err TrySend_Closed)
     else if length (ch_queue (s tx)) \<ge> ch_capacity (s tx) then (s, Err TrySend_Full)
     else (s(tx := (s tx)\<lparr>ch_queue := ch_queue (s tx) @ [x]\<rparr>), Ok ()))"

subsection \<open>Events and records\<close>

datatype InterfaceRole = IR_Normal | IR_SharedServer | IR_LocalClient | IR_SharedInstancePeer

text \<open>Measurements are opaque to the actor: an \<open>f32\<close> is a real.\<close>

record PacketMetrics =
  pm_rssi :: "real option"
  pm_snr :: "real option"
  pm_q :: "real option"

record InboundPacket =
  ip_raw :: bytes
  ip_interface_id :: InterfaceId
  ip_rssi :: "real option"
  ip_snr :: "real option"
  ip_q :: "real option"

record OutboundRequest =
  oq_raw :: bytes
  oq_destination_hash :: bytes

record AnnounceRequest =
  ar_app_name :: string
  ar_path_response :: bool
  ar_tag :: "bytes option"
  ar_attached_interface :: "InterfaceId option"

datatype DestinationEvent =
    DE_InboundPacket "InterfaceOwnerId option" bytes InterfaceId PacketMetrics
  | DE_LinkRequest "InterfaceOwnerId option" bytes InterfaceId PacketMetrics
  | DE_LinkEstablished bytes
  | DE_LinkClosed bytes
  | DE_DeliveryProof string "duration option"
  | DE_AnnounceRequested AnnounceRequest

record QueuedAnnounce =
  qa_destination_hash :: bytes
  qa_time :: unix_time
  qa_hops :: u8
  qa_raw :: bytes

record InterfaceEntry =
  ie_owner :: InterfaceOwner
  ie_packet_capacity :: InterfacePacketCapacity
  ie_name :: string
  ie_mode :: InterfaceMode
  ie_role :: InterfaceRole
  ie_parent_id :: "InterfaceId option"
  ie_inbound :: bool
  ie_outbound :: bool
  ie_bitrate :: u64
  ie_tx :: nat
  ie_ifac_key :: "bytes option"
  ie_ifac_size :: nat
  ie_announce_cap :: real
  ie_announce_allowed_at :: unix_time
  ie_announce_rate_target :: "real option"
  ie_announce_rate_grace :: "u32 option"
  ie_announce_rate_penalty :: "real option"
  ie_online :: "bool option"
  ie_tx_drops :: u64
  ie_tx_dropped_bytes :: u64
  ie_protocol_violations :: u64
  ie_ifac_violations :: u64
  ie_packet_filter_hits :: u64
  ie_ingress :: IngressController
  ie_announce_queue :: "QueuedAnnounce list"
  ie_recursive_prs :: bool
  ie_announces_from_internal :: bool

definition InterfaceEntry_active_ifac_bytes :: "InterfaceEntry \<Rightarrow> nat" where
  "InterfaceEntry_active_ifac_bytes e = (if ie_ifac_key e \<noteq> None then ie_ifac_size e else 0)"

definition InterfaceEntry_effective_clear_mtu :: "InterfaceEntry \<Rightarrow> (InterfaceCapacityError, u32) result" where
  "InterfaceEntry_effective_clear_mtu e =
    (if ie_ifac_key e \<noteq> None \<and> \<not> (1 \<le> ie_ifac_size e \<and> ie_ifac_size e \<le> 64) then Err ICE_InvalidIfac
     else effective_clear_mtu (ie_packet_capacity e) (InterfaceEntry_active_ifac_bytes e))"

definition InterfaceEntry_accepts_clear_packet :: "OwnerStore \<Rightarrow> InterfaceEntry \<Rightarrow> nat \<Rightarrow> bool" where
  "InterfaceEntry_accepts_clear_packet s e len \<longleftrightarrow>
     InterfaceOwner_is_current s (ie_owner e)
   \<and> (case InterfaceEntry_effective_clear_mtu e of Inr mtu \<Rightarrow> len \<le> unat mtu | Inl _ \<Rightarrow> False)
   \<and> len + InterfaceEntry_active_ifac_bytes e < 2 ^ 64
   \<and> len + InterfaceEntry_active_ifac_bytes e \<le> unat (max_wire_packet_bytes (ie_packet_capacity e))"

definition InterfaceEntry_link_ceiling :: "InterfaceId \<Rightarrow> InterfaceEntry \<Rightarrow> (InterfaceCapacityError, u32) result" where
  "InterfaceEntry_link_ceiling i e = link_ceiling (ie_packet_capacity e) i (InterfaceEntry_active_ifac_bytes e)"

definition interface_marked_offline :: "InterfaceEntry \<Rightarrow> bool" where
  "interface_marked_offline e \<longleftrightarrow> ie_online e = Some False"

subsection \<open>Link endpoints\<close>

datatype LinkEndpointRole = LR_Initiator | LR_Responder

record LinkEndpointBinding =
  leb_interface_owner :: "InterfaceOwnerId option"
  leb_link_id :: bytes
  leb_interface_id :: InterfaceId
  leb_role :: LinkEndpointRole

datatype LinkEndpointTerminalReason =
  LTR_Unbound | LTR_InterfaceRemoved | LTR_InterfaceClosed | LTR_InterfaceOffline | LTR_InterfaceNotOutbound
| LTR_EgressQueueExhausted | LTR_TransportShutdown

record LinkEndpointLifecycleEvent =
  lle_binding :: LinkEndpointBinding
  lle_reason :: LinkEndpointTerminalReason
  lle_dropped_packets :: nat

text \<open>A queued packet and the reply channel of its completion; an endpoint with the value of its publication flag.\<close>

record LinkEndpointQueuedPacket =
  lq_raw :: bytes
  lq_completion :: "nat option"

record LinkEndpointEntry =
  lee_binding :: LinkEndpointBinding
  lee_generation :: nat
  lee_publication :: "u8 option"
  lee_lifecycle_tx :: nat
  lee_egress :: "LinkEndpointQueuedPacket list"
  lee_unbind_after_drain :: bool

record LocalLinkRoute =
  llr_initiator_tx :: nat
  llr_responder_tx :: nat

subsection \<open>Discovery and announce admission\<close>

record RouteVersion =
  rv_interface_id :: InterfaceId
  rv_next_hop :: "bytes option"
  rv_hops :: u8
  rv_packet_hash :: "bytes option"
  rv_latest_blob :: "bytes option"
  rv_unversioned_timestamp :: "unix_time option"

definition RouteVersion_from_path :: "PathEntry \<Rightarrow> RouteVersion" where
  "RouteVersion_from_path path = \<lparr>
     rv_interface_id = pe_interface_id path, rv_next_hop = pe_next_hop path, rv_hops = pe_hops path,
     rv_packet_hash = pe_packet_hash path,
     rv_latest_blob = (if pe_random_blobs path = [] then None else Some (last (pe_random_blobs path))),
     rv_unversioned_timestamp =
       (if pe_packet_hash path = None \<and> pe_random_blobs path = [] then Some (pe_timestamp path) else None)\<rparr>"

record DiscoveryRequester =
  dr_destination :: bytes
  dr_interface :: InterfaceId
  dr_operation :: nat
  dr_registration :: nat

record Waiter =
  wt_token :: DiscoveryRequester
  wt_channel :: nat

record DiscoveryOperation =
  do_id :: nat
  do_timeout :: unix_time
  do_requesters :: "Waiter list"

record PendingAdmission =
  pad_destination :: bytes
  pad_interface :: InterfaceId
  pad_generation :: nat
  pad_raw :: bytes
  pad_recursive :: bool
  pad_deadline :: unix_time
  pad_next_try :: unix_time
  pad_initial_route :: "RouteVersion option"
  pad_discovery_owner :: "nat option"

text \<open>The local owner of a pending announce: the destination, and the channel it had when the announce was prepared.\<close>

record LocalAnnounceOwner =
  lao_hash :: bytes
  lao_channel :: "nat option"

record PendingAnnounce =
  pan_interface :: InterfaceId
  pan_channel :: nat
  pan_raw :: bytes
  pan_wire :: bytes
  pan_local_owner :: "LocalAnnounceOwner option"
  pan_route :: "RouteVersion option"
  pan_deadline :: instant
  pan_reply :: "nat option"
  pan_attached :: bool
  pan_cached :: "(bytes \<times> unix_time) option"

record AnnouncePressure =
  ap_queued :: u64
  ap_offered :: u64
  ap_started :: u64
  ap_expired :: u64
  ap_coalesced :: u64
  ap_retained :: u64
  ap_retired :: u64

record PendingDiscoveryPathRequest =
  pdp_destination_hash :: bytes
  pdp_blocked_interface :: "InterfaceId option"

record RecentAnnounce =
  rn_dest_hash :: bytes
  rn_hops :: u8
  rn_app_data :: "bytes option"
  rn_timestamp :: unix_time
  rn_public_key :: "bytes option"
  rn_ratchet :: "bytes option"
  rn_packet_hash :: "bytes option"
  rn_is_path_response :: bool
  rn_retained :: bool
  rn_last_used :: "unix_time option"
  rn_name_hash :: bytes

record AnnounceHandlerEvent =
  ahe_destination_hash :: bytes
  ahe_identity_hash :: "bytes option"
  ahe_announce_packet_hash :: bytes
  ahe_is_path_response :: bool
  ahe_hops :: u8
  ahe_app_data :: "bytes option"
  ahe_public_key :: "bytes option"
  ahe_ratchet :: "bytes option"
  ahe_name_hash :: bytes

datatype AnnounceHandlerOwnership = AHO_Legacy | AHO_Subscription

record AnnounceHandlerRegistration =
  ahr_id :: u64
  ahr_ownership :: AnnounceHandlerOwnership
  ahr_aspect_filter :: "bytes option"
  ahr_receive_path_responses :: bool
  ahr_tx :: nat
  ahr_dropped_events :: u64

datatype ReceiptUpdate = RU_Sent | RU_Delivered duration | RU_TimedOut | RU_Failed | RU_Culled

datatype AnnounceDispatchResult = ADR_Admitted | ADR_Expired | ADR_NoEligibleInterface | ADR_Invalid

text \<open>Notices: what leaves the actor on channels that never refuse, and writes to the announce cache.\<close>

datatype notice =
    N_Lifecycle nat LinkEndpointLifecycleEvent
  | N_DispatchTerminated nat LinkEndpointTerminalReason
  | N_PathWaiter nat bool
  | N_ReceiptUpdate nat ReceiptUpdate
  | N_DeliveryProof nat string "duration option"
  | N_ReceiptCallback bytes receipt_event
  | N_AnnounceReply nat AnnounceDispatchResult
  | N_OfferCancelled InterfaceId
  | N_OnlineCleared InterfaceId
  | N_CacheAnnounce bytes bytes "string option"

subsection \<open>The actor\<close>

record TransportActor =
  ta_path_table :: PathTable
  ta_link_table :: LinkTable
  ta_announce_table :: AnnounceTable
  ta_held_announces :: "(bytes, AnnounceEntry) hmap"
  ta_reverse_table :: ReverseTable
  ta_tunnel_table :: TunnelTable
  ta_packet_hashlist :: PacketHashlist
  ta_rate_table :: RateTable
  ta_blackhole_table :: BlackholeTable
  ta_traffic :: TrafficCounter
  ta_packet_metrics :: "(bytes, PacketMetrics) hmap"
  ta_packet_metrics_order :: "bytes list"
  ta_receipt_table :: "(bytes, PacketReceipt) hmap"
  ta_receipt_msg_ids :: "(bytes, string) hmap"
  ta_receipt_proof_txs :: "(bytes, nat) hmap"
  ta_receipt_updates :: "(bytes, nat) hmap"
  ta_interfaces :: "(InterfaceId, InterfaceEntry) hmap"
  ta_local_destinations :: "bytes set"
  ta_destination_channels :: "(bytes, nat) hmap"
  ta_local_link_routes :: "(bytes, LocalLinkRoute) hmap"
  ta_pending_local_link_requests :: "(bytes, (InterfaceId, InterfaceOwnerId) hmap) hmap"
  ta_link_endpoints :: "(bytes \<times> LinkEndpointRole, LinkEndpointEntry) hmap"
  ta_path_requests :: "(bytes, unix_time) hmap"
  ta_discovery_path_requests :: "(bytes, DiscoveryOperation) hmap"
  ta_discovery_pr_tags :: "(bytes, unix_time) hmap"
  ta_pending_discovery_prs :: "PendingDiscoveryPathRequest list"
  ta_pending_path_request_admissions :: "PendingAdmission list"
  ta_path_interface_suppressions :: "(bytes \<times> InterfaceId, unix_time) hmap"
  ta_last_discovery_pr_tx :: unix_time
  ta_pending_local_path_requests :: "(bytes, InterfaceId) hmap"
  ta_path_states :: "(bytes, PathState) hmap"
  ta_path_waiters :: "(bytes, (nat \<times> unix_time) list) hmap"
  ta_is_transport_enabled :: bool
  ta_transport_identity_hash :: "bytes option"
  ta_local_hops_delta :: u8
  ta_is_shared_instance :: bool
  ta_shared_instance_client_mode :: bool
  ta_storage :: bool
  ta_state_dirty :: bool
  ta_recent_announces :: "(bytes, RecentAnnounce) hmap"
  ta_channel_drops :: u64
  ta_announce_handlers :: "AnnounceHandlerRegistration list"
  ta_pending_announce_admissions :: "PendingAnnounce list"
  ta_announce_pressure :: AnnouncePressure
  ta_offered_announces :: "InterfaceId set"
  ta_stack_replies :: "nat list"
  ta_owners :: OwnerStore
  ta_iface_chans :: "nat \<Rightarrow> bytes chan"
  ta_dest_chans :: "nat \<Rightarrow> DestinationEvent chan"
  ta_handler_chans :: "nat \<Rightarrow> AnnounceHandlerEvent chan"
  ta_next_id :: nat
  ta_notices :: "notice list"

record actor_env =
  ae_lib :: crypto_lib
  ae_curve :: curve_lib
  ae_now :: unix_time
  ae_instant :: instant
  ae_jitter :: real
  ae_random :: "InterfaceId \<Rightarrow> bytes"
  ae_cached :: "bytes \<Rightarrow> bytes option"
  ae_reply_gone :: "nat \<Rightarrow> bool"

subsection \<open>Reading the state\<close>

text \<open>Constants of \<open>constants.rs\<close> and of the actor.\<close>

definition LOCAL_LINK_INITIATOR_INTERFACE :: InterfaceId where "LOCAL_LINK_INITIATOR_INTERFACE = - 1"
definition LOCAL_LINK_RESPONDER_INTERFACE :: InterfaceId where "LOCAL_LINK_RESPONDER_INTERFACE = - 2"
definition LOCAL_CLIENT_CACHE_MAXSIZE :: nat where "LOCAL_CLIENT_CACHE_MAXSIZE = 512"
definition PATHFINDER_R :: u8 where "PATHFINDER_R = 1"
definition LOCAL_REBROADCASTS_MAX :: u32 where "LOCAL_REBROADCASTS_MAX = 2"
definition PATH_REQUEST_TIMEOUT :: real where "PATH_REQUEST_TIMEOUT = 15"
definition PATH_REQUEST_GATE_TIMEOUT :: real where "PATH_REQUEST_GATE_TIMEOUT = 120"
definition DISCOVERY_PR_TX_THROTTLE :: real where "DISCOVERY_PR_TX_THROTTLE = 1 / 2"
definition PATH_REQUEST_GRACE :: real where "PATH_REQUEST_GRACE = 4 / 10"
definition PATH_REQUEST_RG :: real where "PATH_REQUEST_RG = 15 / 10"
definition PATH_REQUEST_MI :: real where "PATH_REQUEST_MI = 20"
definition MAX_QUEUED_ANNOUNCES :: nat where "MAX_QUEUED_ANNOUNCES = 16384"
definition MAX_TRANSIT_LINK_TABLE_ENTRIES :: nat where "MAX_TRANSIT_LINK_TABLE_ENTRIES = 4096"

definition get_interface :: "TransportActor \<Rightarrow> InterfaceId \<Rightarrow> InterfaceEntry option" where
  "get_interface a i = hm_get (ta_interfaces a) i"

text \<open>\<open>self.interfaces.get_mut(&id)\<close> followed by an update; nothing happens when the interface is missing.\<close>

definition update_interface :: "InterfaceId \<Rightarrow> (InterfaceEntry \<Rightarrow> InterfaceEntry) \<Rightarrow> TransportActor \<Rightarrow> TransportActor" where
  "update_interface i f a = a\<lparr>ta_interfaces := hm_update i f (ta_interfaces a)\<rparr>"

definition interface_is :: "(InterfaceEntry \<Rightarrow> bool) \<Rightarrow> TransportActor \<Rightarrow> InterfaceId \<Rightarrow> bool" where
  "interface_is P a i \<longleftrightarrow> (case get_interface a i of Some e \<Rightarrow> P e | None \<Rightarrow> False)"

definition is_local_client_interface :: "TransportActor \<Rightarrow> InterfaceId \<Rightarrow> bool" where
  "is_local_client_interface = interface_is (\<lambda>e. ie_role e = IR_LocalClient)"

definition is_shared_instance_peer_interface :: "TransportActor \<Rightarrow> InterfaceId \<Rightarrow> bool" where
  "is_shared_instance_peer_interface = interface_is (\<lambda>e. ie_role e = IR_SharedInstancePeer)"

definition has_local_client_interfaces :: "TransportActor \<Rightarrow> bool" where
  "has_local_client_interfaces a \<longleftrightarrow> list_ex (\<lambda>(_, e). ie_role e = IR_LocalClient) (ta_interfaces a)"

definition local_client_interface_ids_except :: "TransportActor \<Rightarrow> InterfaceId option \<Rightarrow> InterfaceId list" where
  "local_client_interface_ids_except a except =
     map fst (filter (\<lambda>(i, e). \<not> (except = Some i \<or> ie_role e \<noteq> IR_LocalClient)) (ta_interfaces a))"

definition channel_closed :: "TransportActor \<Rightarrow> InterfaceEntry \<Rightarrow> bool" where
  "channel_closed a e = ch_closed (ta_iface_chans a (ie_tx e))"

definition get_live :: "actor_env \<Rightarrow> TransportActor \<Rightarrow> bytes \<Rightarrow> PathEntry option" where
  "get_live env a h = PathTable_get_live (ae_now env) (ta_path_table a) h"

text \<open>Hashes are taken of packets whose header was unpacked, so they never fail.\<close>

definition actor_packet_hash :: "actor_env \<Rightarrow> bytes \<Rightarrow> HeaderType \<Rightarrow> bytes" where
  "actor_packet_hash env raw ht = the (packet_hash (lib_sha256 (ae_lib env)) raw ht)"

definition actor_truncated_hash :: "actor_env \<Rightarrow> bytes \<Rightarrow> HeaderType \<Rightarrow> bytes" where
  "actor_truncated_hash env raw ht = the (truncated_packet_hash (lib_sha256 (ae_lib env)) raw ht)"

definition actor_link_id :: "actor_env \<Rightarrow> bytes \<Rightarrow> HeaderType \<Rightarrow> bytes" where
  "actor_link_id env raw ht = the (link_id_from_raw (lib_sha256 (ae_lib env)) raw ht)"

subsection \<open>Counters and small updates\<close>

definition protocol_violation :: "InterfaceId \<Rightarrow> TransportActor \<Rightarrow> TransportActor" where
  "protocol_violation i = update_interface i
     (\<lambda>e. e\<lparr>ie_protocol_violations := u64_saturating_add (ie_protocol_violations e) 1\<rparr>)"

definition ifac_violation :: "InterfaceId \<Rightarrow> TransportActor \<Rightarrow> TransportActor" where
  "ifac_violation i = update_interface i
     (\<lambda>e. e\<lparr>ie_ifac_violations := u64_saturating_add (ie_ifac_violations e) 1\<rparr>)"

definition packet_filter_hit :: "InterfaceId \<Rightarrow> TransportActor \<Rightarrow> TransportActor" where
  "packet_filter_hit i = update_interface i
     (\<lambda>e. e\<lparr>ie_packet_filter_hits := u64_saturating_add (ie_packet_filter_hits e) 1\<rparr>)"

definition notify :: "notice \<Rightarrow> TransportActor \<Rightarrow> TransportActor" where
  "notify n a = a\<lparr>ta_notices := ta_notices a @ [n]\<rparr>"

text \<open>Delivery to a destination's channel: a refused event counts as a channel drop.\<close>

definition deliver_event :: "nat \<Rightarrow> DestinationEvent \<Rightarrow> TransportActor \<Rightarrow> TransportActor \<times> bool" where
  "deliver_event tx ev a =
    (case chan_try_send tx ev (ta_dest_chans a) of
       (s, Inr _) \<Rightarrow> (a\<lparr>ta_dest_chans := s\<rparr>, True)
     | (s, Inl _) \<Rightarrow> (a\<lparr>ta_channel_drops := ta_channel_drops a + 1\<rparr>, False))"

definition deliver_local :: "bytes \<Rightarrow> DestinationEvent \<Rightarrow> TransportActor \<Rightarrow> TransportActor" where
  "deliver_local h ev a =
    (case hm_get (ta_destination_channels a) h of
       Some tx \<Rightarrow> fst (deliver_event tx ev a)
     | None \<Rightarrow> a)"

fun trim_metrics :: "bytes list \<Rightarrow> (bytes, PacketMetrics) hmap \<Rightarrow> bytes list \<times> (bytes, PacketMetrics) hmap" where
  "trim_metrics order m =
    (if length order > LOCAL_CLIENT_CACHE_MAXSIZE
     then trim_metrics (tl order) (hm_remove (hd order) m) else (order, m))"

declare trim_metrics.simps [simp del]

definition record_packet_metrics :: "bytes \<Rightarrow> PacketMetrics \<Rightarrow> TransportActor \<Rightarrow> TransportActor" where
  "record_packet_metrics h metrics a =
    (if pm_rssi metrics = None \<and> pm_snr metrics = None \<and> pm_q metrics = None then a
     else
       let order = (if hm_contains (ta_packet_metrics a) h then ta_packet_metrics_order a else ta_packet_metrics_order a @ [h]);
           (order, m) = trim_metrics order (hm_insert h metrics (ta_packet_metrics a))
       in a\<lparr>ta_packet_metrics_order := order, ta_packet_metrics := m\<rparr>)"

definition fire_path_waiters :: "bytes \<Rightarrow> TransportActor \<Rightarrow> TransportActor \<times> nat" where
  "fire_path_waiters dest a =
    (case hm_get (ta_path_waiters a) dest of
       Some waiters \<Rightarrow>
         (a\<lparr>ta_path_waiters := hm_remove dest (ta_path_waiters a),
            ta_notices := ta_notices a @ map (\<lambda>(reply, _). N_PathWaiter reply True) waiters\<rparr>, length waiters)
     | None \<Rightarrow> (a, 0))"

text \<open>Waiters whose receiver is gone are dropped, those that waited for 15 seconds are told.\<close>

definition expire_path_waiters :: "(nat \<Rightarrow> bool) \<Rightarrow> unix_time \<Rightarrow> TransportActor \<Rightarrow> TransportActor" where
  "expire_path_waiters gone now a =
    (let open_w = map (\<lambda>(dest, ws). (dest, filter (\<lambda>(r, _). \<not> gone r) ws)) (ta_path_waiters a);
         kept = filter (\<lambda>(_, ws). ws \<noteq> []) (map (\<lambda>(dest, ws). (dest, filter (\<lambda>(_, created_at). \<not> now - created_at \<ge> 15) ws)) open_w);
         expired = concat (map (\<lambda>(_, ws). filter (\<lambda>(_, created_at). now - created_at \<ge> 15) ws) open_w)
     in a\<lparr>ta_path_waiters := kept, ta_notices := ta_notices a @ map (\<lambda>(r, _). N_PathWaiter r False) expired\<rparr>)"

definition with_recent :: "(RecentAnnounce \<Rightarrow> RecentAnnounce) \<Rightarrow> bytes \<Rightarrow> TransportActor \<Rightarrow> TransportActor \<times> bool" where
  "with_recent f h a =
    (if hm_contains (ta_recent_announces a) h
     then (a\<lparr>ta_recent_announces := hm_update h f (ta_recent_announces a), ta_state_dirty := True\<rparr>, True)
     else (a, False))"

definition retain_destination :: "bytes \<Rightarrow> TransportActor \<Rightarrow> TransportActor \<times> bool" where
  "retain_destination = with_recent (\<lambda>e. e\<lparr>rn_retained := True\<rparr>)"

definition unretain_destination :: "bytes \<Rightarrow> TransportActor \<Rightarrow> TransportActor \<times> bool" where
  "unretain_destination = with_recent (\<lambda>e. e\<lparr>rn_retained := False\<rparr>)"

definition use_destination :: "actor_env \<Rightarrow> bytes \<Rightarrow> TransportActor \<Rightarrow> TransportActor \<times> bool" where
  "use_destination env = with_recent (\<lambda>e. e\<lparr>rn_last_used := Some (ae_now env)\<rparr>)"

definition retain_identity :: "actor_env \<Rightarrow> bytes \<Rightarrow> TransportActor \<Rightarrow> TransportActor \<times> bool" where
  "retain_identity env identity_hash a =
    (let made_by = (\<lambda>e. (case rn_public_key e of Some k \<Rightarrow> truncated_hash (ae_lib env) k = identity_hash | None \<Rightarrow> False));
         retained = list_ex (\<lambda>(_, e). made_by e) (ta_recent_announces a);
         entries = map (\<lambda>(h, e). (h, if made_by e then e\<lparr>rn_retained := True\<rparr> else e)) (ta_recent_announces a)
     in (a\<lparr>ta_recent_announces := entries, ta_state_dirty := (retained \<or> ta_state_dirty a)\<rparr>, retained))"

definition suppress_path_interface :: "actor_env \<Rightarrow> bytes \<Rightarrow> InterfaceId \<Rightarrow> f64 \<Rightarrow> TransportActor \<Rightarrow> TransportActor \<times> bool" where
  "suppress_path_interface env dest i duration a =
    (case duration of
       Fin d \<Rightarrow> if d \<le> 0 then (a, False)
                else (a\<lparr>ta_path_interface_suppressions := hm_insert (dest, i) (ae_now env + d) (ta_path_interface_suppressions a)\<rparr>, True)
     | _ \<Rightarrow> (a, False))"

definition is_path_interface_suppressed :: "bytes \<Rightarrow> InterfaceId \<Rightarrow> unix_time \<Rightarrow> TransportActor \<Rightarrow> TransportActor \<times> bool" where
  "is_path_interface_suppressed dest i now a =
    (case hm_get (ta_path_interface_suppressions a) (dest, i) of
       Some until \<Rightarrow>
         if now < until then (a, True)
         else (a\<lparr>ta_path_interface_suppressions := hm_remove (dest, i) (ta_path_interface_suppressions a)\<rparr>, False)
     | None \<Rightarrow> (a, False))"

definition cull_path_interface_suppressions :: "unix_time \<Rightarrow> TransportActor \<Rightarrow> TransportActor" where
  "cull_path_interface_suppressions now a =
     a\<lparr>ta_path_interface_suppressions := hm_retain (\<lambda>_ until. now < until) (ta_path_interface_suppressions a)\<rparr>"

definition clear_shared_connection_state :: "TransportActor \<Rightarrow> TransportActor" where
  "clear_shared_connection_state a = a\<lparr>
     ta_path_table := PathTable_new, ta_link_table := LinkTable_new, ta_announce_table := AnnounceTable_new,
     ta_held_announces := hm_empty, ta_reverse_table := ReverseTable_new, ta_tunnel_table := TunnelTable_new,
     ta_path_requests := hm_empty, ta_path_states := hm_empty, ta_packet_metrics := hm_empty,
     ta_packet_metrics_order := [], ta_receipt_proof_txs := hm_empty, ta_discovery_path_requests := hm_empty,
     ta_pending_local_path_requests := hm_empty, ta_pending_discovery_prs := [],
     ta_pending_path_request_admissions := [], ta_last_discovery_pr_tx := 0, ta_state_dirty := True\<rparr>"

definition void_tunnel_interface :: "InterfaceId \<Rightarrow> TransportActor \<Rightarrow> TransportActor" where
  "void_tunnel_interface i a =
    (let (t, voided) = TunnelTable_void_interface i (ta_tunnel_table a)
     in a\<lparr>ta_tunnel_table := t, ta_state_dirty := (voided > 0 \<or> ta_state_dirty a)\<rparr>)"

subsection \<open>Rewriting packets\<close>

definition should_apply_delta :: "TransportActor \<Rightarrow> PacketHeader \<Rightarrow> InterfaceId \<Rightarrow> bool" where
  "should_apply_delta a h i \<longleftrightarrow>
     ta_local_hops_delta a \<noteq> 0 \<and> \<not> ta_is_shared_instance a \<and> ph_hops h = 0
   \<and> destination_type (ph_flags h) \<noteq> DT_Plain \<and> destination_type (ph_flags h) \<noteq> DT_Group
   \<and> \<not> is_local_client_interface a i \<and> \<not> is_shared_instance_peer_interface a i"

definition mangle_hops :: "TransportActor \<Rightarrow> bytes \<Rightarrow> PacketHeader \<Rightarrow> bool \<Rightarrow> bytes" where
  "mangle_hops a raw h transport_insert =
    (case (if transport_insert then ta_transport_identity_hash a else None) of
       Some transport_id \<Rightarrow>
         PacketHeader_pack \<lparr>ph_flags = (ph_flags h)\<lparr>header_type := Header2, transport_type := Transport\<rparr>,
           ph_hops = ta_local_hops_delta a, ph_transport_id = Some transport_id,
           ph_destination_hash = ph_destination_hash h, ph_context = ph_context h\<rparr> @ drop (PacketHeader_size h) raw
     | None \<Rightarrow> raw[1 := ta_local_hops_delta a])"

definition adjusted_inbound_hops :: "TransportActor \<Rightarrow> u8 \<Rightarrow> InterfaceId \<Rightarrow> u8" where
  "adjusted_inbound_hops a raw_hops i =
    (let hops = (if raw_hops = - 1 then - 1 else raw_hops + 1);
         less = (if hops = 0 then 0 else hops - 1)
     in if has_local_client_interfaces a then (if is_local_client_interface a i then less else hops)
        else if is_shared_instance_peer_interface a i then less
        else hops)"

definition transport_announce_from_raw :: "TransportActor \<Rightarrow> bytes \<Rightarrow> bytes \<Rightarrow> u8 \<Rightarrow> PacketContext \<Rightarrow> bytes" where
  "transport_announce_from_raw a cached_raw destination_hash hops context =
    (case PacketHeader_unpack cached_raw of
       Inl _ \<Rightarrow> cached_raw
     | Inr (cached_header, payload_offset) \<Rightarrow>
         (case ta_transport_identity_hash a of
            None \<Rightarrow> cached_raw
          | Some transport_id \<Rightarrow>
              PacketHeader_pack \<lparr>
                ph_flags = \<lparr>header_type = Header2, context_flag = context_flag (ph_flags cached_header),
                  transport_type = Transport, destination_type = DT_Single, packet_type = PT_Announce\<rparr>,
                ph_hops = hops, ph_transport_id = Some transport_id, ph_destination_hash = destination_hash,
                ph_context = context\<rparr> @ drop payload_offset cached_raw))"

definition path_response_from_cached_announce :: "TransportActor \<Rightarrow> bytes \<Rightarrow> bytes \<Rightarrow> u8 \<Rightarrow> bytes option" where
  "path_response_from_cached_announce a cached_raw destination_hash hops =
    (case PacketHeader_unpack cached_raw of
       Inl _ \<Rightarrow> None
     | Inr (cached_header, payload_offset) \<Rightarrow>
         if ph_hops cached_header \<ge> PATHFINDER_M then None
         else
           let (ht, tt, tid) = (case ta_transport_identity_hash a of
                 Some transport_id \<Rightarrow> (Header2, Transport, Some transport_id)
               | None \<Rightarrow> (header_type (ph_flags cached_header), transport_type (ph_flags cached_header),
                          ph_transport_id cached_header))
           in Some (PacketHeader_pack \<lparr>
                ph_flags = \<lparr>header_type = ht, context_flag = context_flag (ph_flags cached_header), transport_type = tt,
                  destination_type = DT_Single, packet_type = PT_Announce\<rparr>,
                ph_hops = hops, ph_transport_id = tid, ph_destination_hash = destination_hash,
                ph_context = Ctx_PathResponse\<rparr> @ drop payload_offset cached_raw))"

subsection \<open>Announce policy\<close>

definition mode_discovers_unknown_paths :: "InterfaceMode \<Rightarrow> bool" where
  "mode_discovers_unknown_paths m \<longleftrightarrow> m \<in> {IM_AccessPoint, IM_Gateway, IM_Roaming, IM_Internal}"

definition interface_allows_announce ::
    "actor_env \<Rightarrow> TransportActor \<Rightarrow> InterfaceId \<Rightarrow> bytes \<Rightarrow> InterfaceId option \<Rightarrow> bool" where
  "interface_allows_announce env a i destination_hash except =
    (case get_interface a i of
       None \<Rightarrow> False
     | Some entry \<Rightarrow>
         if \<not> ie_outbound entry then False
         else if except = Some i \<and> ie_role entry \<noteq> IR_Normal then False
         else
           let local_d = destination_hash \<in> ta_local_destinations a;
               from_iface_mode = map_option (\<lambda>path. map_option ie_mode (get_interface a (pe_interface_id path)))
                 (get_live env a destination_hash)
           in if \<not> local_d \<and> from_iface_mode = None then False
              else if \<not> local_d \<and> \<not> ie_announces_from_internal entry \<and> from_iface_mode = Some (Some IM_Internal) then False
              else (case ie_mode entry of
                 IM_AccessPoint \<Rightarrow> False
               | IM_Internal \<Rightarrow> local_d \<or> from_iface_mode \<notin> {Some None, Some (Some IM_Boundary)}
               | IM_Roaming \<Rightarrow> local_d \<or> from_iface_mode \<notin> {Some None, Some (Some IM_Roaming), Some (Some IM_Boundary)}
               | IM_Boundary \<Rightarrow> local_d \<or> from_iface_mode \<notin> {Some None, Some (Some IM_Roaming)}
               | IM_Full \<Rightarrow> True
               | IM_PointToPoint \<Rightarrow> True
               | IM_Gateway \<Rightarrow> True))"

end
