(* ===== verification/Actor_Egress.thy ===== *)
theory Actor_Egress
  imports Actor_State
begin

text \<open>
  How the transport actor sends: the outcome of an interface queue, the removal of an interface with everything that depends
  on it (\<open>actor/mod.rs\<close>), the termination of link endpoints (\<open>actor/link_endpoint.rs\<close>), and the admission of announces to
  interface queues (\<open>actor/announce_admission.rs\<close>).
\<close>

subsection \<open>Termination of link endpoints\<close>

definition notify_link_endpoint_terminal ::
    "LinkEndpointEntry \<Rightarrow> LinkEndpointTerminalReason \<Rightarrow> nat \<Rightarrow> TransportActor \<Rightarrow> TransportActor" where
  "notify_link_endpoint_terminal entry reason extra_dropped a =
    (let event = \<lparr>lle_binding = lee_binding entry, lle_reason = reason,
           lle_dropped_packets = usize_saturating_add (length (lee_egress entry)) extra_dropped\<rparr>
     in a\<lparr>ta_notices := ta_notices a
            @ map (\<lambda>c. N_DispatchTerminated c reason) (List.map_filter lq_completion (lee_egress entry))
            @ [N_Lifecycle (lee_lifecycle_tx entry) event]\<rparr>)"

text \<open>
  Removing a destination terminates the endpoints of its local link, and terminating an endpoint that waits for its last
  packets removes the destination of its link. Each round removes one local link route, so the number of routes bounds the
  recursion; \<open>dereg\<close> is the recursive call.
\<close>

definition finish_link_endpoint_terminal_with ::
    "(bytes \<Rightarrow> TransportActor \<Rightarrow> TransportActor) \<Rightarrow> LinkEndpointEntry \<Rightarrow> LinkEndpointTerminalReason \<Rightarrow> nat
     \<Rightarrow> TransportActor \<Rightarrow> TransportActor" where
  "finish_link_endpoint_terminal_with dereg entry reason extra_dropped a =
    (let a = notify_link_endpoint_terminal entry reason extra_dropped a
     in if lee_unbind_after_drain entry then dereg (leb_link_id (lee_binding entry)) a else a)"

definition terminate_link_endpoint_with ::
    "(bytes \<Rightarrow> TransportActor \<Rightarrow> TransportActor) \<Rightarrow> LinkEndpointTerminalReason \<Rightarrow> nat \<Rightarrow> bytes \<times> LinkEndpointRole
     \<Rightarrow> TransportActor \<Rightarrow> TransportActor" where
  "terminate_link_endpoint_with dereg reason extra_dropped key a =
    (case hm_get (ta_link_endpoints a) key of
       Some entry \<Rightarrow>
         finish_link_endpoint_terminal_with dereg entry reason extra_dropped
           (a\<lparr>ta_link_endpoints := hm_remove key (ta_link_endpoints a)\<rparr>)
     | None \<Rightarrow> a)"

definition terminate_link_endpoints_for_link_with ::
    "(bytes \<Rightarrow> TransportActor \<Rightarrow> TransportActor) \<Rightarrow> bytes \<Rightarrow> LinkEndpointTerminalReason \<Rightarrow> TransportActor \<Rightarrow> TransportActor" where
  "terminate_link_endpoints_for_link_with dereg link_id reason a =
     fold (terminate_link_endpoint_with dereg reason 0)
       (filter (\<lambda>(candidate, _). candidate = link_id) (hm_keys (ta_link_endpoints a))) a"

definition forget_destination :: "bytes \<Rightarrow> TransportActor \<Rightarrow> TransportActor" where
  "forget_destination h a = a\<lparr>
     ta_pending_local_link_requests := hm_remove h (ta_pending_local_link_requests a),
     ta_local_destinations := ta_local_destinations a - {h},
     ta_destination_channels := hm_remove h (ta_destination_channels a),
     ta_local_link_routes := hm_remove h (ta_local_link_routes a)\<rparr>"

primrec deregister_destination_n :: "nat \<Rightarrow> bytes \<Rightarrow> TransportActor \<Rightarrow> TransportActor" where
  "deregister_destination_n 0 h a = forget_destination h a"
| "deregister_destination_n (Suc n) h a =
    (if hm_contains (ta_local_link_routes a) h
     then terminate_link_endpoints_for_link_with (deregister_destination_n n) h LTR_InterfaceRemoved (forget_destination h a)
     else forget_destination h a)"

definition deregister_destination :: "bytes \<Rightarrow> TransportActor \<Rightarrow> TransportActor" where
  "deregister_destination h a = deregister_destination_n (hm_len (ta_local_link_routes a)) h a"

definition finish_link_endpoint_terminal ::
    "LinkEndpointEntry \<Rightarrow> LinkEndpointTerminalReason \<Rightarrow> nat \<Rightarrow> TransportActor \<Rightarrow> TransportActor" where
  "finish_link_endpoint_terminal = finish_link_endpoint_terminal_with deregister_destination"

definition terminate_link_endpoint ::
    "LinkEndpointTerminalReason \<Rightarrow> nat \<Rightarrow> bytes \<times> LinkEndpointRole \<Rightarrow> TransportActor \<Rightarrow> TransportActor" where
  "terminate_link_endpoint = terminate_link_endpoint_with deregister_destination"

definition terminate_link_endpoints_for_link :: "bytes \<Rightarrow> LinkEndpointTerminalReason \<Rightarrow> TransportActor \<Rightarrow> TransportActor" where
  "terminate_link_endpoints_for_link = terminate_link_endpoints_for_link_with deregister_destination"

definition terminate_link_endpoints_for_interface ::
    "InterfaceId \<Rightarrow> LinkEndpointTerminalReason \<Rightarrow> TransportActor \<Rightarrow> TransportActor" where
  "terminate_link_endpoints_for_interface i reason a =
     fold (terminate_link_endpoint reason 0)
       (map fst (filter (\<lambda>(_, entry). leb_interface_id (lee_binding entry) = i) (ta_link_endpoints a))) a"

definition terminate_shared_peer_link_endpoints :: "TransportActor \<Rightarrow> TransportActor" where
  "terminate_shared_peer_link_endpoints a =
     fold (\<lambda>i. terminate_link_endpoints_for_interface i LTR_InterfaceOffline)
       (map fst (filter (\<lambda>(_, entry). ie_role entry = IR_SharedInstancePeer) (ta_interfaces a))) a"

definition terminate_all_link_endpoints :: "LinkEndpointTerminalReason \<Rightarrow> TransportActor \<Rightarrow> TransportActor" where
  "terminate_all_link_endpoints reason a = fold (terminate_link_endpoint reason 0) (hm_keys (ta_link_endpoints a)) a"

subsection \<open>Retiring an interface\<close>

definition retire_orphaned_discovery_admissions :: "TransportActor \<Rightarrow> TransportActor" where
  "retire_orphaned_discovery_admissions a = a\<lparr>ta_pending_path_request_admissions := filter (\<lambda>pending.
     case pad_discovery_owner pending of
       None \<Rightarrow> True
     | Some owner \<Rightarrow>
         (case hm_get (ta_discovery_path_requests a) (pad_destination pending) of
            Some current \<Rightarrow> do_id current = owner
          | None \<Rightarrow> False)) (ta_pending_path_request_admissions a)\<rparr>"

definition retire_recursive_path_request_admissions :: "TransportActor \<Rightarrow> TransportActor" where
  "retire_recursive_path_request_admissions a = a\<lparr>ta_pending_path_request_admissions :=
     filter (\<lambda>pending. pad_discovery_owner pending = None) (ta_pending_path_request_admissions a)\<rparr>"

definition retire_path_request_admissions :: "InterfaceId \<Rightarrow> TransportActor \<Rightarrow> TransportActor" where
  "retire_path_request_admissions i a = a\<lparr>ta_pending_path_request_admissions :=
     filter (\<lambda>pending. pad_interface pending \<noteq> i) (ta_pending_path_request_admissions a)\<rparr>"

definition retire_recursive_discovery_interface :: "InterfaceId \<Rightarrow> TransportActor \<Rightarrow> TransportActor" where
  "retire_recursive_discovery_interface i a = retire_orphaned_discovery_admissions (a\<lparr>ta_discovery_path_requests :=
     filter (\<lambda>(_, operation). do_requesters operation \<noteq> [])
       (map (\<lambda>(d, operation). (d, operation\<lparr>do_requesters :=
          filter (\<lambda>waiter. dr_interface (wt_token waiter) \<noteq> i) (do_requesters operation)\<rparr>)) (ta_discovery_path_requests a))\<rparr>)"

definition finish_cached_response ::
    "(bytes \<times> unix_time) option \<Rightarrow> bytes \<Rightarrow> InterfaceId \<Rightarrow> TransportActor \<Rightarrow> TransportActor" where
  "finish_cached_response cached raw i a =
    (case cached of
       None \<Rightarrow> a
     | Some (hash, timestamp) \<Rightarrow>
         (case AnnounceTable_get (ta_announce_table a) hash of
            None \<Rightarrow> a
          | Some entry \<Rightarrow>
              if an_block_rebroadcast entry \<and> an_attached_interface entry = Some i \<and> an_packet_raw entry = raw
                 \<and> an_timestamp entry = timestamp
              then
                let a = a\<lparr>ta_announce_table := fst (AnnounceTable_remove hash (ta_announce_table a))\<rparr>
                in (case hm_get (ta_held_announces a) hash of
                      Some held \<Rightarrow> a\<lparr>ta_held_announces := hm_remove hash (ta_held_announces a),
                                      ta_announce_table := AnnounceTable_insert hash held (ta_announce_table a)\<rparr>
                    | None \<Rightarrow> a)
              else a))"

text \<open>A reply is sent once: the sender is taken by the first outcome.\<close>

definition complete_announce_reply :: "nat option \<Rightarrow> AnnounceDispatchResult \<Rightarrow> TransportActor \<Rightarrow> TransportActor" where
  "complete_announce_reply reply outcome a =
    (case reply of
       None \<Rightarrow> a
     | Some r \<Rightarrow>
         if list_ex (\<lambda>n. case n of N_AnnounceReply r' _ \<Rightarrow> r' = r | _ \<Rightarrow> False) (ta_notices a) then a
         else notify (N_AnnounceReply r outcome) a)"

text \<open>\<open>Arc::strong_count(reply) == 1\<close> for an announce taken off the queue: nobody else holds the reply.\<close>

definition last_reply_holder :: "PendingAnnounce list \<Rightarrow> TransportActor \<Rightarrow> PendingAnnounce \<Rightarrow> bool" where
  "last_reply_holder queued a pending =
    (case pan_reply pending of
       None \<Rightarrow> False
     | Some r \<Rightarrow> r \<notin> set (ta_stack_replies a) \<and> \<not> list_ex (\<lambda>p. pan_reply p = Some r) queued)"

fun retire_pending_announces ::
    "InterfaceId \<Rightarrow> PendingAnnounce list \<Rightarrow> PendingAnnounce list \<Rightarrow> TransportActor \<Rightarrow> TransportActor" where
  "retire_pending_announces i retained [] a = a\<lparr>ta_pending_announce_admissions := retained\<rparr>"
| "retire_pending_announces i retained (pending # rest) a =
    (if pan_interface pending = i then
       let a = finish_cached_response (pan_cached pending) (pan_raw pending) i a;
           a = (if last_reply_holder (retained @ rest) a pending
                then complete_announce_reply (pan_reply pending) ADR_Expired a else a)
       in retire_pending_announces i retained rest a
     else retire_pending_announces i (retained @ [pending]) rest a)"

definition retire_announce_interface :: "InterfaceId \<Rightarrow> TransportActor \<Rightarrow> TransportActor" where
  "retire_announce_interface i a =
    (let a = (if i \<in> ta_offered_announces a
              then notify (N_OfferCancelled i) (a\<lparr>ta_offered_announces := ta_offered_announces a - {i}\<rparr>) else a)
     in retire_pending_announces i [] (ta_pending_announce_admissions a) a)"

definition deregister_interface_with_link_reason ::
    "InterfaceId \<Rightarrow> LinkEndpointTerminalReason \<Rightarrow> TransportActor \<Rightarrow> TransportActor" where
  "deregister_interface_with_link_reason i link_reason a =
    (let a = terminate_link_endpoints_for_interface i link_reason a;
         a = (case get_interface a i of
                Some entry \<Rightarrow> a\<lparr>ta_owners := InterfaceOwner_retire (ie_owner entry) (ta_owners a)\<rparr>
              | None \<Rightarrow> a);
         a = a\<lparr>ta_link_table := LinkTable_remove_interface i (ta_link_table a)\<rparr>;
         role = map_option ie_role (get_interface a i);
         a = (if interface_is (\<lambda>e. ie_online e \<noteq> None) a i then notify (N_OnlineCleared i) a else a);
         a = void_tunnel_interface i a;
         a = a\<lparr>ta_path_table := fst (PathTable_drop_all_via i (ta_path_table a))\<rparr>;
         a = a\<lparr>ta_path_interface_suppressions := hm_retain (\<lambda>(_, j) _. j \<noteq> i) (ta_path_interface_suppressions a),
               ta_pending_local_path_requests := hm_retain (\<lambda>_ j. j \<noteq> i) (ta_pending_local_path_requests a)\<rparr>;
         a = retire_recursive_discovery_interface i a;
         a = retire_path_request_admissions i a;
         a = retire_announce_interface i a;
         a = a\<lparr>ta_interfaces := hm_remove i (ta_interfaces a)\<rparr>
     in if role = Some IR_SharedInstancePeer
        then clear_shared_connection_state (a\<lparr>ta_is_shared_instance := False, ta_shared_instance_client_mode := True\<rparr>)
        else a)"

definition deregister_interface :: "InterfaceId \<Rightarrow> TransportActor \<Rightarrow> TransportActor" where
  "deregister_interface i = deregister_interface_with_link_reason i LTR_InterfaceRemoved"

subsection \<open>Sending to an interface\<close>

datatype InterfaceSendOutcome = ISO_Sent | ISO_Full | ISO_Missing | ISO_Closed | ISO_Offline | ISO_NotOutbound | ISO_TooLarge

definition interface_sign :: "actor_env \<Rightarrow> InterfaceEntry \<Rightarrow> bytes \<Rightarrow> bytes option" where
  "interface_sign env entry raw =
    (case ie_ifac_key entry of
       None \<Rightarrow> Some raw
     | Some key \<Rightarrow> (case try_ifac_sign (ae_lib env) (ed_sign (ae_curve env)) raw key (ie_ifac_size entry) of
                      Inr wire \<Rightarrow> Some wire | Inl _ \<Rightarrow> None))"

text \<open>\<open>request_owner\<close>: the link a request of one of our own destinations opens, with the offset of its payload.\<close>

definition request_owner :: "actor_env \<Rightarrow> TransportActor \<Rightarrow> bytes \<Rightarrow> (bytes \<times> nat) option" where
  "request_owner env a raw =
    (case PacketHeader_unpack raw of
       Inl _ \<Rightarrow> None
     | Inr (header, offset) \<Rightarrow>
         if packet_type (ph_flags header) \<noteq> PT_LinkRequest then None
         else
           let link_id = actor_link_id env raw (header_type (ph_flags header))
           in if hm_contains (ta_destination_channels a) link_id then Some (link_id, offset) else None)"

definition is_err :: "('e, 'a) result \<Rightarrow> bool" where
  "is_err r = (case r of Inl _ \<Rightarrow> True | Inr _ \<Rightarrow> False)"

definition request_refusal ::
    "TransportActor \<Rightarrow> InterfaceId \<Rightarrow> InterfaceEntry \<Rightarrow> bytes \<Rightarrow> (bytes \<times> nat) option \<Rightarrow> InterfaceSendOutcome option" where
  "request_refusal a i entry raw owner =
    (case owner of
       None \<Rightarrow> None
     | Some (link_id, offset) \<Rightarrow>
         (case parse_request_signalling (drop offset raw) of
            Inl _ \<Rightarrow> Some ISO_TooLarge
          | Inr signal \<Rightarrow>
              if ls_mode signal \<noteq> DEFAULT_LINK_MODE \<or> LinkMtu_get (ls_mtu signal) > 500
                 \<or> is_err (InterfaceEntry_link_ceiling i entry)
              then Some ISO_TooLarge
              else (case hm_get (ta_pending_local_link_requests a) link_id of
                 Some owners \<Rightarrow>
                   if (case hm_get owners i of
                         Some owner \<Rightarrow> \<not> InterfaceOwnerId_matches (ta_owners a) owner (ie_owner entry) | None \<Rightarrow> False)
                      \<or> (\<not> hm_contains owners i \<and> hm_len owners \<ge> 64)
                   then Some ISO_Missing else None
               | None \<Rightarrow> if hm_len (ta_pending_local_link_requests a) \<ge> 4096 then Some ISO_Full else None)))"

definition record_request_owner ::
    "InterfaceId \<Rightarrow> InterfaceEntry \<Rightarrow> (bytes \<times> nat) option \<Rightarrow> TransportActor \<Rightarrow> TransportActor" where
  "record_request_owner i entry owner a =
    (case owner of
       None \<Rightarrow> a
     | Some (link_id, _) \<Rightarrow>
         let owners = (case hm_get (ta_pending_local_link_requests a) link_id of Some m \<Rightarrow> m | None \<Rightarrow> hm_empty);
             owners = (if hm_contains owners i then owners else hm_insert i (InterfaceOwner_id (ie_owner entry)) owners)
         in a\<lparr>ta_pending_local_link_requests := hm_insert link_id owners (ta_pending_local_link_requests a)\<rparr>)"

definition chan_outcome :: "(TrySendError, unit) result \<Rightarrow> InterfaceSendOutcome" where
  "chan_outcome r = (case r of Inr _ \<Rightarrow> ISO_Sent | Inl TrySend_Full \<Rightarrow> ISO_Full | Inl TrySend_Closed \<Rightarrow> ISO_Closed)"

definition is_link_request :: "bytes \<Rightarrow> bool" where
  "is_link_request raw =
    (case PacketHeader_unpack raw of Inr (header, _) \<Rightarrow> packet_type (ph_flags header) = PT_LinkRequest | Inl _ \<Rightarrow> False)"

definition try_send_to_interface ::
    "actor_env \<Rightarrow> InterfaceId \<Rightarrow> bytes \<Rightarrow> TransportActor \<Rightarrow> TransportActor \<times> InterfaceSendOutcome" where
  "try_send_to_interface env i raw a =
    (case get_interface a i of
       None \<Rightarrow> (a, ISO_Missing)
     | Some entry \<Rightarrow>
         if \<not> InterfaceOwner_is_current (ta_owners a) (ie_owner entry) then (a, ISO_Missing)
         else if \<not> InterfaceEntry_accepts_clear_packet (ta_owners a) entry (length raw) then (a, ISO_TooLarge)
         else if ie_role entry = IR_LocalClient \<and> interface_marked_offline entry then (a, ISO_Offline)
         else if \<not> ie_outbound entry then (a, ISO_NotOutbound)
         else if is_link_request raw \<and> is_err (InterfaceEntry_link_ceiling i entry) then (a, ISO_TooLarge)
         else
           let owner = request_owner env a raw
           in (case request_refusal a i entry raw owner of
                 Some outcome \<Rightarrow> (a, outcome)
               | None \<Rightarrow>
                   (case interface_sign env entry raw of
                      None \<Rightarrow> (a, ISO_TooLarge)
                    | Some data \<Rightarrow>
                        let (s, r) = chan_try_send (ie_tx entry) data (ta_iface_chans a);
                            a = a\<lparr>ta_iface_chans := s\<rparr>
                        in (if chan_outcome r = ISO_Sent then record_request_owner i entry owner a else a, chan_outcome r))))"

definition send_to_interface :: "actor_env \<Rightarrow> InterfaceId \<Rightarrow> bytes \<Rightarrow> TransportActor \<Rightarrow> TransportActor \<times> bool" where
  "send_to_interface env i raw a =
    (case try_send_to_interface env i raw a of
       (a, ISO_Sent) \<Rightarrow> (a, True)
     | (a, ISO_Full) \<Rightarrow>
         (update_interface i (\<lambda>e. e\<lparr>ie_tx_dropped_bytes := u64_saturating_add (ie_tx_dropped_bytes e) (word_of_nat (length raw)),
            ie_tx_drops := ie_tx_drops e + 1\<rparr>) a, False)
     | (a, ISO_Closed) \<Rightarrow> (deregister_interface_with_link_reason i LTR_InterfaceClosed a, False)
     | (a, ISO_Offline) \<Rightarrow> (deregister_interface_with_link_reason i LTR_InterfaceOffline a, False)
     | (a, _) \<Rightarrow> (a, False))"

definition outbound_ids_except :: "TransportActor \<Rightarrow> InterfaceId option \<Rightarrow> InterfaceId list" where
  "outbound_ids_except a except = map fst (filter (\<lambda>(i, e). \<not> (except = Some i \<or> \<not> ie_outbound e)) (ta_interfaces a))"

definition broadcast_on_interfaces ::
    "actor_env \<Rightarrow> bytes \<Rightarrow> InterfaceId option \<Rightarrow> TransportActor \<Rightarrow> TransportActor \<times> bool" where
  "broadcast_on_interfaces env raw except a =
    (let delta_header = (if ta_local_hops_delta a \<noteq> 0
           then (case PacketHeader_unpack raw of Inr (header, _) \<Rightarrow> Some header | Inl _ \<Rightarrow> None) else None)
     in fold (\<lambda>i (a, sent).
          let data = (case delta_header of
                 Some header \<Rightarrow> if should_apply_delta a header i then mangle_hops a raw header False else raw
               | None \<Rightarrow> raw);
              (a, ok) = send_to_interface env i data a
          in (a, sent \<or> ok)) (outbound_ids_except a except) (a, False))"

subsection \<open>Admission of announces\<close>

definition MAX_PENDING :: nat where "MAX_PENDING = 256"
definition MAX_POLL :: nat where "MAX_POLL = 32"

definition try_prepared_announce ::
    "InterfaceEntry \<Rightarrow> bytes \<Rightarrow> TransportActor \<Rightarrow> TransportActor \<times> InterfaceSendOutcome" where
  "try_prepared_announce entry wire a =
    (if \<not> InterfaceOwner_is_current (ta_owners a) (ie_owner entry) then (a, ISO_Missing)
     else if length wire > unat (max_wire_packet_bytes (ie_packet_capacity entry))
       \<or> (case checked_sub (length wire) (InterfaceEntry_active_ifac_bytes entry) of
            None \<Rightarrow> True
          | Some clear \<Rightarrow> \<not> InterfaceEntry_accepts_clear_packet (ta_owners a) entry clear)
     then (a, ISO_TooLarge)
     else if \<not> ie_outbound entry then (a, ISO_NotOutbound)
     else if interface_marked_offline entry then (a, ISO_Offline)
     else
       let (s, r) = chan_try_send (ie_tx entry) wire (ta_iface_chans a)
       in (a\<lparr>ta_iface_chans := s\<rparr>, chan_outcome r))"

definition already_pending :: "InterfaceId \<Rightarrow> bytes \<Rightarrow> (bytes \<times> unix_time) option \<Rightarrow> TransportActor \<Rightarrow> bool" where
  "already_pending i raw cached a =
     list_ex (\<lambda>pending. pan_interface pending = i \<and> pan_raw pending = raw \<and> pan_cached pending = cached
       \<and> interface_is (\<lambda>e. ie_tx e = pan_channel pending) a i) (ta_pending_announce_admissions a)"

definition admit_announce ::
    "actor_env \<Rightarrow> InterfaceId \<Rightarrow> bytes \<Rightarrow> instant \<Rightarrow> nat option \<Rightarrow> bool \<Rightarrow> (bytes \<times> unix_time) option
     \<Rightarrow> TransportActor \<Rightarrow> TransportActor \<times> bool" where
  "admit_announce env i raw deadline reply attached cached a =
    (if already_pending i raw cached a then (complete_announce_reply reply ADR_Expired a, False)
     else if ae_instant env \<ge> deadline then (finish_cached_response cached raw i a, False)
     else
       case get_interface a i of
         None \<Rightarrow> (finish_cached_response cached raw i a, False)
       | Some entry \<Rightarrow>
           if \<not> InterfaceEntry_accepts_clear_packet (ta_owners a) entry (length raw)
           then (finish_cached_response cached raw i a, False)
           else
             case interface_sign env entry raw of
               None \<Rightarrow> (a, False)
             | Some wire \<Rightarrow>
                 let destination = (case PacketHeader_unpack raw of Inr (header, _) \<Rightarrow> Some (ph_destination_hash header) | Inl _ \<Rightarrow> None);
                     local_owner = (case destination of
                        Some hash \<Rightarrow> if hash \<in> ta_local_destinations a
                          then Some \<lparr>lao_hash = hash, lao_channel = hm_get (ta_destination_channels a) hash\<rparr> else None
                      | None \<Rightarrow> None);
                     route = (case destination of
                        Some hash \<Rightarrow> map_option RouteVersion_from_path (get_live env a hash) | None \<Rightarrow> None);
                     (a, outcome) = try_prepared_announce entry wire a
                 in if outcome = ISO_Closed
                    then (deregister_interface_with_link_reason i LTR_InterfaceClosed (finish_cached_response cached raw i a), False)
                    else if outcome = ISO_Offline \<and> ie_role entry = IR_LocalClient
                    then (deregister_interface_with_link_reason i LTR_InterfaceOffline (finish_cached_response cached raw i a), False)
                    else if outcome = ISO_Sent then
                      let a = update_interface i (\<lambda>e. e\<lparr>ie_ingress := IngressController_sent_announce (ae_instant env) (ie_ingress e)\<rparr>) a;
                          a = complete_announce_reply reply ADR_Admitted a
                      in (finish_cached_response cached raw i a, True)
                    else if outcome \<in> {ISO_Full, ISO_Offline} \<and> length (ta_pending_announce_admissions a) < MAX_PENDING
                    then (a\<lparr>ta_announce_pressure := (ta_announce_pressure a)\<lparr>ap_retained := ap_retained (ta_announce_pressure a) + 1\<rparr>,
                            ta_pending_announce_admissions := ta_pending_announce_admissions a @ [\<lparr>
                              pan_interface = i, pan_channel = ie_tx entry, pan_raw = raw, pan_wire = wire,
                              pan_local_owner = local_owner, pan_route = route, pan_deadline = deadline, pan_reply = reply,
                              pan_attached = attached, pan_cached = cached\<rparr>]\<rparr>, False)
                    else if cached \<noteq> None \<and> outcome \<in> {ISO_Full, ISO_Offline} then (a, False)
                    else (finish_cached_response cached raw i
                            (a\<lparr>ta_announce_pressure := (ta_announce_pressure a)\<lparr>ap_retired := ap_retired (ta_announce_pressure a) + 1\<rparr>\<rparr>),
                          False))"

definition send_or_retain_announce :: "actor_env \<Rightarrow> InterfaceId \<Rightarrow> bytes \<Rightarrow> bool \<Rightarrow> TransportActor \<Rightarrow> TransportActor \<times> bool" where
  "send_or_retain_announce env i raw attached a =
     admit_announce env i raw (ae_instant env + secs 120) None attached None a"

definition admit_cached_response ::
    "actor_env \<Rightarrow> bytes \<Rightarrow> InterfaceId \<Rightarrow> bytes \<Rightarrow> unix_time \<Rightarrow> TransportActor \<Rightarrow> TransportActor" where
  "admit_cached_response env hash i raw timestamp a =
    (let remaining = min (max (timestamp + PATH_REQUEST_GATE_TIMEOUT - ae_now env) 0) PATH_REQUEST_GATE_TIMEOUT;
         deadline = ae_instant env + from_secs_f64 remaining
     in fst (admit_announce env i raw deadline None True (Some (hash, timestamp)) a))"

definition send_announce_to_local_clients ::
    "actor_env \<Rightarrow> bytes \<Rightarrow> bytes \<Rightarrow> u8 \<Rightarrow> InterfaceId option \<Rightarrow> PacketContext \<Rightarrow> TransportActor \<Rightarrow> TransportActor" where
  "send_announce_to_local_clients env cached_raw destination_hash hops except context a =
    (let ids = local_client_interface_ids_except a except
     in if ids = [] then a
        else
          let raw = transport_announce_from_raw a cached_raw destination_hash hops context
          in fold (\<lambda>i a. fst (send_or_retain_announce env i raw True a)) ids a)"

definition announce_destination :: "bytes \<Rightarrow> bytes" where
  "announce_destination raw =
    (case PacketHeader_unpack raw of Inr (header, _) \<Rightarrow> ph_destination_hash header | Inl _ \<Rightarrow> replicate 16 0)"

definition allowed_ids :: "actor_env \<Rightarrow> TransportActor \<Rightarrow> bytes \<Rightarrow> InterfaceId option \<Rightarrow> InterfaceId list" where
  "allowed_ids env a destination_hash except =
     filter (\<lambda>i. interface_allows_announce env a i destination_hash except) (hm_keys (ta_interfaces a))"

definition broadcast_local_announce_on_interfaces ::
    "actor_env \<Rightarrow> bytes \<Rightarrow> InterfaceId option \<Rightarrow> TransportActor \<Rightarrow> TransportActor \<times> bool" where
  "broadcast_local_announce_on_interfaces env raw except a =
    (let header = (case PacketHeader_unpack raw of Inr (h, _) \<Rightarrow> Some h | Inl _ \<Rightarrow> None)
     in fold (\<lambda>i (a, accepted).
          let data = (case header of
                 Some h \<Rightarrow> if should_apply_delta a h i then mangle_hops a raw h (header_type (ph_flags h) = Header1) else raw
               | None \<Rightarrow> raw);
              (a, sent) = send_or_retain_announce env i data False a
          in (a, accepted \<or> sent)) (allowed_ids env a (announce_destination raw) except) (a, False))"

definition queue_announce :: "actor_env \<Rightarrow> bytes \<Rightarrow> InterfaceId \<Rightarrow> TransportActor \<Rightarrow> TransportActor" where
  "queue_announce env raw i a =
    (let destination_hash = announce_destination raw;
         hops = (if length raw > 1 then raw ! 1 else 0);
         emitted = announce_emitted_from_raw raw
     in case get_interface a i of
          None \<Rightarrow> a
        | Some entry \<Rightarrow>
            (case find (\<lambda>queued. qa_destination_hash queued = destination_hash) (ie_announce_queue entry) of
               Some existing \<Rightarrow>
                 (case (emitted, announce_emitted_from_raw (qa_raw existing)) of
                    (Some new, Some old) \<Rightarrow>
                      if new > old then
                        update_interface i (\<lambda>e. e\<lparr>ie_announce_queue :=
                          update_first (\<lambda>queued. qa_destination_hash queued = destination_hash)
                            (\<lambda>queued. queued\<lparr>qa_time := ae_now env, qa_hops := hops, qa_raw := raw\<rparr>) (ie_announce_queue e)\<rparr>)
                          (a\<lparr>ta_announce_pressure := (ta_announce_pressure a)\<lparr>ap_coalesced := ap_coalesced (ta_announce_pressure a) + 1\<rparr>\<rparr>)
                      else a
                  | _ \<Rightarrow> a)
             | None \<Rightarrow>
                 let queue = ie_announce_queue entry @ [\<lparr>qa_destination_hash = destination_hash, qa_time = ae_now env,
                       qa_hops = hops, qa_raw = raw\<rparr>]
                 in update_interface i (\<lambda>e. e\<lparr>ie_announce_queue :=
                      (if length queue > MAX_QUEUED_ANNOUNCES then drop (length queue - MAX_QUEUED_ANNOUNCES) queue else queue)\<rparr>)
                      (a\<lparr>ta_announce_pressure := (ta_announce_pressure a)\<lparr>ap_queued := ap_queued (ta_announce_pressure a) + 1\<rparr>\<rparr>)))"

definition broadcast_announce_on_interfaces ::
    "actor_env \<Rightarrow> bytes \<Rightarrow> InterfaceId option \<Rightarrow> TransportActor \<Rightarrow> TransportActor" where
  "broadcast_announce_on_interfaces env raw except a =
     fold (queue_announce env raw) (allowed_ids env a (announce_destination raw) except) a"

end
