(* ===== verification/Actor_Discovery.thy ===== *)
theory Actor_Discovery
  imports Actor_Egress
begin

text \<open>
  Path discovery by the transport actor: recursive discovery with its requesters (\<open>actor/recursive_discovery.rs\<close>), path
  requests refused by a full queue (\<open>actor/path_request_admission.rs\<close>), and of \<open>actor/outbound.rs\<close> the answers to path and
  cache requests, the path requests the actor sends, and the restoration of tunnel paths. The clock is a real number, so the code's
  checks for a clock that is not finite never fail.
\<close>

definition MAX_DISCOVERY_DESTINATIONS :: nat where "MAX_DISCOVERY_DESTINATIONS = 1024"
definition MAX_DISCOVERY_REQUESTERS :: nat where "MAX_DISCOVERY_REQUESTERS = 64"
definition MAX_PENDING_ADMISSIONS :: nat where "MAX_PENDING_ADMISSIONS = 256"
definition MAX_ADMISSION_POLL :: nat where "MAX_ADMISSION_POLL = 32"

subsection \<open>Path requests and full queues\<close>

datatype Admission = Adm_Sent | Adm_Full | Adm_PolicyWait | Adm_Retired

definition has_pending_path_request_admission :: "TransportActor \<Rightarrow> bytes \<Rightarrow> bool" where
  "has_pending_path_request_admission a destination =
     list_ex (\<lambda>pending. pad_destination pending = destination) (ta_pending_path_request_admissions a)"

text \<open>
  The egress check of the interface's controller runs only for recursive requests, and it updates the controller also when
  the request then waits.
\<close>

definition try_admit_path_request ::
    "actor_env \<Rightarrow> bytes \<Rightarrow> InterfaceId \<Rightarrow> bytes \<Rightarrow> bool \<Rightarrow> unix_time \<Rightarrow> TransportActor \<Rightarrow> TransportActor \<times> Admission" where
  "try_admit_path_request env destination i raw recursive now a =
    (case get_interface a i of
       None \<Rightarrow> (a, Adm_Retired)
     | Some entry \<Rightarrow>
         if \<not> ie_outbound entry then (a, Adm_Retired)
         else
           let (ingress, limited) = (if recursive then should_egress_limit_pr (ae_instant env) (ie_ingress entry)
                                     else (ie_ingress entry, False));
               a = update_interface i (\<lambda>e. e\<lparr>ie_ingress := ingress\<rparr>) a
           in if recursive \<and> (limited \<or> ie_announce_queue entry \<noteq> [] \<or> now < ie_announce_allowed_at entry)
              then (a, Adm_PolicyWait)
              else (case try_send_to_interface env i raw a of
                 (a, ISO_Sent) \<Rightarrow>
                   let a = update_interface i (\<lambda>e. e\<lparr>
                         ie_ingress := IngressController_sent_path_request (ae_instant env) (ie_ingress e),
                         ie_announce_allowed_at := (if recursive
                           then now + (real (length raw) * 8 / real (unat (max (ie_bitrate e) 1))) / max (ie_announce_cap e) (1 / 1000)
                           else ie_announce_allowed_at e)\<rparr>) a
                   in (a\<lparr>ta_path_requests := hm_insert destination now (ta_path_requests a)\<rparr>, Adm_Sent)
               | (a, ISO_Full) \<Rightarrow> (a, Adm_Full)
               | (a, ISO_Closed) \<Rightarrow>
                   (deregister_interface_with_link_reason i
                      (if interface_is interface_marked_offline a i then LTR_InterfaceOffline else LTR_InterfaceClosed) a, Adm_Retired)
               | (a, ISO_Offline) \<Rightarrow>
                   (deregister_interface_with_link_reason i
                      (if interface_is interface_marked_offline a i then LTR_InterfaceOffline else LTR_InterfaceClosed) a, Adm_Retired)
               | (a, _) \<Rightarrow> (a, Adm_Retired)))"

definition admit_path_request :: "actor_env \<Rightarrow> bytes \<Rightarrow> InterfaceId \<Rightarrow> bytes \<Rightarrow> bool \<Rightarrow> TransportActor \<Rightarrow> TransportActor" where
  "admit_path_request env destination i raw recursive a =
    (if list_ex (\<lambda>pending. pad_destination pending = destination \<and> pad_interface pending = i)
          (ta_pending_path_request_admissions a) then a
     else
       let now = ae_now env; (a, admission) = try_admit_path_request env destination i raw recursive now a
       in if admission \<noteq> Adm_Full then a
          else if length (ta_pending_path_request_admissions a) \<ge> MAX_PENDING_ADMISSIONS then a
          else (case get_interface a i of
             None \<Rightarrow> a
           | Some entry \<Rightarrow>
               let discovery = (if recursive then hm_get (ta_discovery_path_requests a) destination else None)
               in a\<lparr>ta_pending_path_request_admissions := ta_pending_path_request_admissions a @ [\<lparr>
                      pad_destination = destination, pad_interface = i, pad_generation = ie_tx entry, pad_raw = raw,
                      pad_recursive = recursive,
                      pad_deadline = (case discovery of
                         None \<Rightarrow> now + PATH_REQUEST_GATE_TIMEOUT
                       | Some owner \<Rightarrow> min (do_timeout owner) (now + PATH_REQUEST_GATE_TIMEOUT)),
                      pad_next_try = now + DISCOVERY_PR_TX_THROTTLE,
                      pad_initial_route = map_option RouteVersion_from_path (get_live env a destination),
                      pad_discovery_owner = map_option do_id discovery\<rparr>]\<rparr>))"

text \<open>One queued request is polled: it is dropped, put back, or offered again.\<close>

definition poll_path_request :: "actor_env \<Rightarrow> unix_time \<Rightarrow> PendingAdmission \<Rightarrow> TransportActor \<Rightarrow> TransportActor" where
  "poll_path_request env now pending a =
    (let put_back = (\<lambda>p a. a\<lparr>ta_pending_path_request_admissions := ta_pending_path_request_admissions a @ [p]\<rparr>);
         same_interface = interface_is (\<lambda>e. ie_outbound e \<and> ie_tx e = pad_generation pending) a (pad_interface pending);
         same_discovery = (case pad_discovery_owner pending of
            None \<Rightarrow> True
          | Some owner \<Rightarrow> (case hm_get (ta_discovery_path_requests a) (pad_destination pending) of
               Some current \<Rightarrow> do_id current = owner \<and> now < do_timeout current | None \<Rightarrow> False));
         fresh_path = (case get_live env a (pad_destination pending) of
            Some path \<Rightarrow> Some (RouteVersion_from_path path) \<noteq> pad_initial_route pending | None \<Rightarrow> False)
     in if now \<ge> pad_deadline pending \<or> \<not> same_interface \<or> \<not> same_discovery \<or> fresh_path then a
        else if now < pad_next_try pending then put_back pending a
        else
          let (a, admission) = try_admit_path_request env (pad_destination pending) (pad_interface pending) (pad_raw pending)
                (pad_recursive pending) now a
          in if admission = Adm_Full \<or> admission = Adm_PolicyWait
             then put_back (pending\<lparr>pad_next_try := now + DISCOVERY_PR_TX_THROTTLE\<rparr>) a else a)"

primrec poll_path_requests :: "nat \<Rightarrow> actor_env \<Rightarrow> unix_time \<Rightarrow> TransportActor \<Rightarrow> TransportActor" where
  "poll_path_requests 0 env now a = a"
| "poll_path_requests (Suc n) env now a =
    (case ta_pending_path_request_admissions a of
       [] \<Rightarrow> a
     | pending # rest \<Rightarrow>
         poll_path_requests n env now
           (poll_path_request env now pending (a\<lparr>ta_pending_path_request_admissions := rest\<rparr>)))"

definition process_pending_path_request_admissions :: "actor_env \<Rightarrow> unix_time \<Rightarrow> TransportActor \<Rightarrow> TransportActor" where
  "process_pending_path_request_admissions env now a =
     poll_path_requests (min (length (ta_pending_path_request_admissions a)) MAX_ADMISSION_POLL) env now a"

subsection \<open>Sending path requests\<close>

definition path_request_dest_hash :: "actor_env \<Rightarrow> bytes" where
  "path_request_dest_hash env =
     hash_from_name_and_identity (ae_lib env) (map of_char ''rnstransport.path.request'') None"

definition tunnel_synthesize_dest_hash :: "actor_env \<Rightarrow> bytes" where
  "tunnel_synthesize_dest_hash env =
     hash_from_name_and_identity (ae_lib env) (map of_char ''rnstransport.tunnel.synthesize'') None"

definition build_path_request_packet :: "actor_env \<Rightarrow> TransportActor \<Rightarrow> InterfaceId \<Rightarrow> bytes \<Rightarrow> bytes option \<Rightarrow> bytes" where
  "build_path_request_packet env a i destination_hash tag =
    (let identity = (if ta_is_transport_enabled a then opt_bytes (ta_transport_identity_hash a) else []);
         tag_bytes = (case tag of Some t \<Rightarrow> take (min (length t) 16) t | None \<Rightarrow> ae_random env i)
     in PacketHeader_pack \<lparr>
          ph_flags = \<lparr>header_type = Header1, context_flag = False, transport_type = Broadcast, destination_type = DT_Plain,
            packet_type = PT_Data\<rparr>,
          ph_hops = 0, ph_transport_id = None, ph_destination_hash = path_request_dest_hash env, ph_context = Ctx_None\<rparr>
        @ destination_hash @ identity @ tag_bytes)"

definition send_path_request ::
    "actor_env \<Rightarrow> bytes \<Rightarrow> InterfaceId \<Rightarrow> bytes option \<Rightarrow> bool \<Rightarrow> TransportActor \<Rightarrow> TransportActor" where
  "send_path_request env destination_hash i tag recursive a =
     admit_path_request env destination_hash i (build_path_request_packet env a i destination_hash tag) recursive a"

definition forward_path_request ::
    "actor_env \<Rightarrow> bytes \<Rightarrow> InterfaceId option \<Rightarrow> bytes option \<Rightarrow> bool \<Rightarrow> TransportActor \<Rightarrow> TransportActor" where
  "forward_path_request env destination_hash except tag recursive a =
     fold (\<lambda>i. send_path_request env destination_hash i tag recursive) (outbound_ids_except a except) a"

definition broadcast_path_request :: "actor_env \<Rightarrow> bytes \<Rightarrow> TransportActor \<Rightarrow> TransportActor" where
  "broadcast_path_request env destination_hash =
     forward_path_request env destination_hash None (Some (ae_random env 0)) False"

definition on_path_request :: "actor_env \<Rightarrow> bytes \<Rightarrow> TransportActor \<Rightarrow> TransportActor" where
  "on_path_request = broadcast_path_request"

record PathRequestOptions =
  po_on_interface :: "InterfaceId option"
  po_tag :: "bytes option"
  po_recursive :: bool

definition on_path_request_with_options :: "actor_env \<Rightarrow> bytes \<Rightarrow> PathRequestOptions \<Rightarrow> TransportActor \<Rightarrow> TransportActor" where
  "on_path_request_with_options env destination_hash options =
    (let request_tag = (case po_tag options of Some t \<Rightarrow> t | None \<Rightarrow> ae_random env 0)
     in case po_on_interface options of
          Some i \<Rightarrow> send_path_request env destination_hash i (Some request_tag) (po_recursive options)
        | None \<Rightarrow> forward_path_request env destination_hash None (Some request_tag) False)"

definition on_automatic_path_request :: "actor_env \<Rightarrow> bytes \<Rightarrow> TransportActor \<Rightarrow> TransportActor" where
  "on_automatic_path_request env destination_hash a =
    (if PathTable_has_path (ae_now env) (ta_path_table a) destination_hash then a
     else case hm_get (ta_path_requests a) destination_hash of
            Some last_request \<Rightarrow>
              if ae_now env - last_request < PATH_REQUEST_MI then a else broadcast_path_request env destination_hash a
          | None \<Rightarrow> broadcast_path_request env destination_hash a)"

subsection \<open>Recursive discovery\<close>

datatype DiscoveryError = DErr_TransportDisabled | DErr_KnownDestination | DErr_UnknownInterface
  | DErr_InterfaceUnavailable | DErr_PolicyDenied | DErr_Capacity | DErr_InvalidClock

record DiscoveryAdmission =
  da_requester :: DiscoveryRequester
  da_started :: bool

definition discovery_waiter_registered :: "TransportActor \<Rightarrow> Waiter \<Rightarrow> bool" where
  "discovery_waiter_registered a waiter =
     interface_is (\<lambda>e. ie_outbound e \<and> \<not> channel_closed a e \<and> ie_tx e = wt_channel waiter) a (dr_interface (wt_token waiter))"

text \<open>\<open>retain_live_requesters\<close> updates the operation and says whether it lives on.\<close>

definition live_operation :: "TransportActor \<Rightarrow> DiscoveryOperation \<Rightarrow> DiscoveryOperation" where
  "live_operation a operation =
     operation\<lparr>do_requesters := filter (discovery_waiter_registered a) (do_requesters operation)\<rparr>"

definition retain_live_requesters :: "TransportActor \<Rightarrow> unix_time \<Rightarrow> DiscoveryOperation \<Rightarrow> bool" where
  "retain_live_requesters a now operation \<longleftrightarrow> now < do_timeout operation \<and> do_requesters (live_operation a operation) \<noteq> []"

definition cull_recursive_discovery :: "unix_time \<Rightarrow> TransportActor \<Rightarrow> TransportActor" where
  "cull_recursive_discovery now a = retire_orphaned_discovery_admissions (a\<lparr>ta_discovery_path_requests :=
     map (\<lambda>(d, operation). (d, live_operation a operation))
       (filter (\<lambda>(_, operation). retain_live_requesters a now operation) (ta_discovery_path_requests a))\<rparr>)"

definition cancel_recursive_discovery :: "TransportActor \<Rightarrow> TransportActor" where
  "cancel_recursive_discovery a = retire_recursive_path_request_admissions (a\<lparr>ta_discovery_path_requests := hm_empty\<rparr>)"

definition recursive_discovery_timeout :: "TransportActor \<Rightarrow> InterfaceId \<Rightarrow> real" where
  "recursive_discovery_timeout a requester =
    (let bitrates = map (\<lambda>(_, e). ie_bitrate e) (filter (\<lambda>(i, e). i \<noteq> requester \<and> ie_outbound e \<and> \<not> channel_closed a e
           \<and> \<not> interface_marked_offline e \<and> ie_bitrate e > 0) (ta_interfaces a));
         slowest = (case bitrates of [] \<Rightarrow> None | b # bs \<Rightarrow> Some (fold min bs b))
     in max (interface_round_trip_allowance slowest + DEFAULT_PER_HOP_TIMEOUT) PATH_REQUEST_TIMEOUT)"

definition retire_dead_operation :: "bytes \<Rightarrow> unix_time \<Rightarrow> TransportActor \<Rightarrow> TransportActor" where
  "retire_dead_operation destination now a =
    (case hm_get (ta_discovery_path_requests a) destination of
       None \<Rightarrow> a
     | Some operation \<Rightarrow>
         if retain_live_requesters a now operation
         then a\<lparr>ta_discovery_path_requests := hm_update destination (live_operation a) (ta_discovery_path_requests a)\<rparr>
         else retire_orphaned_discovery_admissions
                (a\<lparr>ta_discovery_path_requests := hm_remove destination (ta_discovery_path_requests a)\<rparr>))"

definition join_discovery ::
    "bytes \<Rightarrow> InterfaceId \<Rightarrow> nat \<Rightarrow> DiscoveryOperation \<Rightarrow> TransportActor \<Rightarrow> TransportActor \<times> (DiscoveryError, DiscoveryAdmission) result" where
  "join_discovery destination requester channel operation a =
    (case find (\<lambda>waiter. dr_interface (wt_token waiter) = requester \<and> wt_channel waiter = channel) (do_requesters operation) of
       Some waiter \<Rightarrow> (a, Ok \<lparr>da_requester = wt_token waiter, da_started = False\<rparr>)
     | None \<Rightarrow>
         if length (do_requesters operation) \<ge> MAX_DISCOVERY_REQUESTERS then (a, Err DErr_Capacity)
         else
           let token = \<lparr>dr_destination = destination, dr_interface = requester, dr_operation = do_id operation,
                 dr_registration = ta_next_id a\<rparr>
           in (a\<lparr>ta_next_id := ta_next_id a + 1,
                 ta_discovery_path_requests := hm_update destination (\<lambda>operation. operation\<lparr>do_requesters :=
                   do_requesters operation @ [\<lparr>wt_token = token, wt_channel = channel\<rparr>]\<rparr>) (ta_discovery_path_requests a)\<rparr>,
               Ok \<lparr>da_requester = token, da_started = False\<rparr>))"

definition start_discovery ::
    "bytes \<Rightarrow> InterfaceId \<Rightarrow> nat \<Rightarrow> unix_time \<Rightarrow> TransportActor \<Rightarrow> TransportActor \<times> (DiscoveryError, DiscoveryAdmission) result" where
  "start_discovery destination requester channel now a =
    (let a = (if hm_len (ta_discovery_path_requests a) \<ge> MAX_DISCOVERY_DESTINATIONS then cull_recursive_discovery now a else a)
     in if hm_len (ta_discovery_path_requests a) \<ge> MAX_DISCOVERY_DESTINATIONS then (a, Err DErr_Capacity)
        else
          let timeout = now + recursive_discovery_timeout a requester
          in if timeout \<le> now then (a, Err DErr_InvalidClock)
             else
               let operation = ta_next_id a;
                   token = \<lparr>dr_destination = destination, dr_interface = requester, dr_operation = operation,
                     dr_registration = operation + 1\<rparr>
               in (a\<lparr>ta_next_id := operation + 2,
                     ta_discovery_path_requests := hm_insert destination \<lparr>do_id = operation, do_timeout = timeout,
                       do_requesters = [\<lparr>wt_token = token, wt_channel = channel\<rparr>]\<rparr> (ta_discovery_path_requests a)\<rparr>,
                   Ok \<lparr>da_requester = token, da_started = True\<rparr>))"

definition admit_discovery_requester ::
    "bytes \<Rightarrow> InterfaceId \<Rightarrow> unix_time \<Rightarrow> TransportActor \<Rightarrow> TransportActor \<times> (DiscoveryError, DiscoveryAdmission) result" where
  "admit_discovery_requester destination requester now a =
    (let a = retire_dead_operation destination now a
     in case get_interface a requester of
          None \<Rightarrow> (a, Err DErr_UnknownInterface)
        | Some entry \<Rightarrow>
            if \<not> ie_outbound entry \<or> channel_closed a entry \<or> interface_marked_offline entry
            then (a, Err DErr_InterfaceUnavailable)
            else (case hm_get (ta_discovery_path_requests a) destination of
               Some operation \<Rightarrow> join_discovery destination requester (ie_tx entry) operation a
             | None \<Rightarrow> start_discovery destination requester (ie_tx entry) now a))"

definition begin_or_join_recursive_discovery ::
    "bytes \<Rightarrow> InterfaceId \<Rightarrow> unix_time \<Rightarrow> TransportActor \<Rightarrow> TransportActor \<times> bool" where
  "begin_or_join_recursive_discovery destination requester now a =
    (case admit_discovery_requester destination requester now a of
       (a, Inr admission) \<Rightarrow> (a, da_started admission)
     | (a, Inl _) \<Rightarrow> (a, False))"

definition request_recursive_discovery ::
    "actor_env \<Rightarrow> bytes \<Rightarrow> InterfaceId \<Rightarrow> TransportActor \<Rightarrow> TransportActor \<times> (DiscoveryError, DiscoveryAdmission) result" where
  "request_recursive_discovery env destination requester a =
    (let now = ae_now env
     in if \<not> ta_is_transport_enabled a then (a, Err DErr_TransportDisabled)
        else if destination \<in> ta_local_destinations a \<or> PathTable_has_path now (ta_path_table a) destination
        then (a, Err DErr_KnownDestination)
        else case get_interface a requester of
          None \<Rightarrow> (a, Err DErr_UnknownInterface)
        | Some entry \<Rightarrow>
            if \<not> ie_outbound entry \<or> channel_closed a entry \<or> interface_marked_offline entry
            then (a, Err DErr_InterfaceUnavailable)
            else
              let ingress = IngressController_received_path_request (ae_instant env) (ie_ingress entry);
                  denied = (ie_role entry \<noteq> IR_Normal \<or> \<not> (ie_recursive_prs entry \<or> mode_discovers_unknown_paths (ie_mode entry)));
                  (ingress, limited) = (if denied then (ingress, False) else should_ingress_limit_pr (ae_instant env) ingress);
                  a = update_interface requester (\<lambda>e. e\<lparr>ie_ingress := ingress\<rparr>) a
              in if denied \<or> limited then (a, Err DErr_PolicyDenied)
                 else (case admit_discovery_requester destination requester now a of
                    (a, Inl e) \<Rightarrow> (a, Err e)
                  | (a, Inr admission) \<Rightarrow>
                      (if da_started admission
                       then let tag = ae_random env requester;
                                a = a\<lparr>ta_discovery_pr_tags := hm_insert (destination @ tag) now (ta_discovery_pr_tags a)\<rparr>
                            in forward_path_request env destination (Some requester) (Some tag) True a
                       else a, Ok admission)))"

definition cancel_discovery_requester :: "actor_env \<Rightarrow> DiscoveryRequester \<Rightarrow> TransportActor \<Rightarrow> TransportActor \<times> bool" where
  "cancel_discovery_requester env token a =
    (let a = cull_recursive_discovery (ae_now env) a
     in case hm_get (ta_discovery_path_requests a) (dr_destination token) of
          None \<Rightarrow> (a, False)
        | Some operation \<Rightarrow>
            if do_id operation \<noteq> dr_operation token then (a, False)
            else
              let rest = filter (\<lambda>waiter. wt_token waiter \<noteq> token) (do_requesters operation);
                  removed = (length (do_requesters operation) \<noteq> length rest)
              in (if rest = []
                  then retire_orphaned_discovery_admissions
                         (a\<lparr>ta_discovery_path_requests := hm_remove (dr_destination token) (ta_discovery_path_requests a)\<rparr>)
                  else a\<lparr>ta_discovery_path_requests := hm_update (dr_destination token) (\<lambda>operation. operation\<lparr>do_requesters := rest\<rparr>)
                         (ta_discovery_path_requests a)\<rparr>, removed))"

definition finish_recursive_discovery ::
    "actor_env \<Rightarrow> bytes \<Rightarrow> bytes \<Rightarrow> InterfaceId \<Rightarrow> unix_time \<Rightarrow> TransportActor \<Rightarrow> TransportActor" where
  "finish_recursive_discovery env destination response incoming now a =
    (case hm_get (ta_discovery_path_requests a) destination of
       None \<Rightarrow> a
     | Some operation \<Rightarrow>
         let a = retire_orphaned_discovery_admissions
               (a\<lparr>ta_discovery_path_requests := hm_remove destination (ta_discovery_path_requests a)\<rparr>)
         in if now \<ge> do_timeout operation then a
            else fold (\<lambda>waiter a.
              let i = dr_interface (wt_token waiter);
                  eligible = (discovery_waiter_registered a waiter
                    \<and> interface_is (\<lambda>e. \<not> interface_marked_offline e
                        \<and> (i \<noteq> incoming \<or> (ie_role e = IR_Normal \<and> ie_mode e \<noteq> IM_Roaming))) a i)
              in if eligible then fst (send_or_retain_announce env i response True a) else a) (do_requesters operation) a)"

subsection \<open>Answering requests\<close>

definition data_payload_offset :: "bytes \<Rightarrow> PacketHeader \<Rightarrow> nat option" where
  "data_payload_offset raw header =
    (let offset = (case header_type (ph_flags header) of Header1 \<Rightarrow> 19 | Header2 \<Rightarrow> 35)
     in if offset \<le> length raw then Some offset else None)"

definition handle_cache_request :: "actor_env \<Rightarrow> bytes \<Rightarrow> PacketHeader \<Rightarrow> TransportActor \<Rightarrow> TransportActor" where
  "handle_cache_request env raw header a =
    (case data_payload_offset raw header of
       None \<Rightarrow> a
     | Some payload_start \<Rightarrow>
         let requested_hash = drop payload_start raw
         in if length requested_hash \<noteq> 32 then a
            else if find (\<lambda>(_, entry). pe_packet_hash entry = Some requested_hash) (pt_entries (ta_path_table a)) = None then a
            else case ae_cached env requested_hash of
              None \<Rightarrow> a
            | Some cached_raw \<Rightarrow>
                (case PacketHeader_unpack cached_raw of
                   Inl _ \<Rightarrow> a
                 | Inr (h, _) \<Rightarrow>
                     if ph_hops h \<ge> PATHFINDER_M then a
                     else if ta_is_transport_enabled a then broadcast_announce_on_interfaces env cached_raw None a
                     else a))"

definition path_request_tag :: "bytes \<Rightarrow> bytes option" where
  "path_request_tag data =
    (if length data > 32 then Some (subslice 32 (min (length data) 48) data)
     else if length data > 16 then Some (subslice 16 (min (length data) 32) data)
     else None)"

definition queue_path_response ::
    "actor_env \<Rightarrow> bytes \<Rightarrow> bytes option \<Rightarrow> InterfaceId \<Rightarrow> PathEntry \<Rightarrow> bytes \<Rightarrow> TransportActor \<Rightarrow> TransportActor" where
  "queue_path_response env requested_dest requestor i path response a =
    (let now = ae_now env;
         response_delay = (if is_local_client_interface a i \<or> is_local_client_interface a (pe_interface_id path) then 0
           else PATH_REQUEST_GRACE + (if interface_is (\<lambda>e. ie_mode e = IM_Roaming) a i then PATH_REQUEST_RG else 0));
         a = (case AnnounceTable_remove requested_dest (ta_announce_table a) of
                (t, Some held_entry) \<Rightarrow> a\<lparr>ta_announce_table := t,
                   ta_held_announces := hm_insert requested_dest held_entry (ta_held_announces a)\<rparr>
              | (_, None) \<Rightarrow> a)
     in a\<lparr>ta_announce_table := AnnounceTable_insert requested_dest \<lparr>
          an_timestamp = now, an_retransmit_timeout = now + response_delay, an_retries = 0,
          an_received_from = (case requestor of Some r \<Rightarrow> r | None \<Rightarrow> replicate 16 0), an_hops = pe_hops path,
          an_packet_raw = response, an_local_rebroadcasts = 0, an_block_rebroadcast = True, an_attached_interface = Some i,
          an_source_interface = None\<rparr> (ta_announce_table a)\<rparr>)"

definition search_unknown_path ::
    "actor_env \<Rightarrow> bytes \<Rightarrow> bytes \<Rightarrow> InterfaceId \<Rightarrow> TransportActor \<Rightarrow> TransportActor" where
  "search_unknown_path env requested_dest tag i a =
    (if is_local_client_interface a i then forward_path_request env requested_dest (Some i) (Some tag) False a
     else if ta_is_transport_enabled a
       \<and> interface_is (\<lambda>e. ie_recursive_prs e \<or> mode_discovers_unknown_paths (ie_mode e)) a i then
       (case get_interface a i of
          None \<Rightarrow> a
        | Some entry \<Rightarrow>
            let (ingress, limited) = should_ingress_limit_pr (ae_instant env) (ie_ingress entry);
                a = update_interface i (\<lambda>e. e\<lparr>ie_ingress := ingress\<rparr>) a
            in if limited then a
               else
                 let (a, started) = begin_or_join_recursive_discovery requested_dest i (ae_now env) a
                 in if started then forward_path_request env requested_dest (Some i) (Some tag) True a else a)
     else fold (\<lambda>local_id. send_path_request env requested_dest local_id None False)
            (local_client_interface_ids_except a (Some i)) a)"

definition note_local_path_request :: "actor_env \<Rightarrow> bytes \<Rightarrow> InterfaceId \<Rightarrow> TransportActor \<Rightarrow> TransportActor" where
  "note_local_path_request env requested_dest i a =
    (case get_live env a requested_dest of
       Some path \<Rightarrow>
         if \<not> is_local_client_interface a i \<and> is_local_client_interface a (pe_interface_id path)
         then a\<lparr>ta_pending_local_path_requests := hm_insert requested_dest i (ta_pending_local_path_requests a)\<rparr>
         else a
     | None \<Rightarrow> a)"

definition answer_known_path ::
    "actor_env \<Rightarrow> bytes \<Rightarrow> bytes option \<Rightarrow> bytes \<Rightarrow> InterfaceId \<Rightarrow> PathEntry \<Rightarrow> TransportActor \<Rightarrow> TransportActor" where
  "answer_known_path env requested_dest requestor tag i path a =
    (if requestor \<noteq> None \<and> pe_next_hop path = requestor then a
     else if interface_is (\<lambda>e. ie_mode e = IM_Roaming) a i \<and> pe_interface_id path = i then a
     else case Option.bind (pe_packet_hash path) (ae_cached env) of
       None \<Rightarrow> search_unknown_path env requested_dest tag i a
     | Some raw \<Rightarrow>
         (case path_response_from_cached_announce a raw requested_dest (pe_hops path) of
            None \<Rightarrow> a
          | Some response \<Rightarrow> queue_path_response env requested_dest requestor i path response a))"

definition answer_path_request ::
    "actor_env \<Rightarrow> bytes \<Rightarrow> bytes option \<Rightarrow> bytes \<Rightarrow> InterfaceId \<Rightarrow> TransportActor \<Rightarrow> TransportActor" where
  "answer_path_request env requested_dest requestor tag i a =
    (if requested_dest \<in> ta_local_destinations a then
       fst (fire_path_waiters requested_dest (deliver_local requested_dest (DE_AnnounceRequested \<lparr>
         ar_app_name = [], ar_path_response = True, ar_tag = Some tag, ar_attached_interface = Some i\<rparr>) a))
     else
       let a = note_local_path_request env requested_dest i a
       in case (if ta_is_transport_enabled a \<or> is_local_client_interface a i then get_live env a requested_dest else None) of
            None \<Rightarrow> search_unknown_path env requested_dest tag i a
          | Some path \<Rightarrow> answer_known_path env requested_dest requestor tag i path a)"

definition handle_inbound_path_request :: "actor_env \<Rightarrow> bytes \<Rightarrow> InterfaceId \<Rightarrow> TransportActor \<Rightarrow> TransportActor" where
  "handle_inbound_path_request env data i a =
    (if length data < 16 then a
     else
       let requested_dest = take 16 data;
           requestor = (if length data > 32 then Some (subslice 16 32 data) else None)
       in case path_request_tag data of
            None \<Rightarrow> protocol_violation i a
          | Some tag \<Rightarrow>
              let a = (if length data > 48 then protocol_violation i a else a);
                  now = ae_now env;
                  unique_tag = requested_dest @ tag
              in if (case hm_get (ta_discovery_pr_tags a) unique_tag of
                       Some seen \<Rightarrow> now - seen < PATH_REQUEST_GATE_TIMEOUT | None \<Rightarrow> False) then a
                 else answer_path_request env requested_dest requestor tag i
                   (update_interface i (\<lambda>e. e\<lparr>ie_ingress := IngressController_received_path_request (ae_instant env) (ie_ingress e)\<rparr>)
                     (a\<lparr>ta_discovery_pr_tags := hm_insert unique_tag now (ta_discovery_pr_tags a)\<rparr>)))"

subsection \<open>Tunnel paths\<close>

definition tunnel_path_wanted :: "actor_env \<Rightarrow> TransportActor \<Rightarrow> bytes \<Rightarrow> TunnelPath \<Rightarrow> bool" where
  "tunnel_path_wanted env a dest tp =
    (case PathTable_get (ta_path_table a) dest of
       Some existing \<Rightarrow>
         (tp_hops tp \<le> pe_hops existing \<or> ae_now env > pe_expires existing)
         \<and> path_timebase_from_random_blobs (tp_random_blobs tp) \<ge> path_timebase_from_random_blobs (pe_random_blobs existing)
     | None \<Rightarrow> ae_now env < tp_expires tp)"

definition restored_path :: "unix_time \<Rightarrow> InterfaceId \<Rightarrow> TunnelPath \<Rightarrow> PathEntry" where
  "restored_path now i tp = \<lparr>pe_timestamp = now, pe_next_hop = tp_next_hop tp, pe_hops = tp_hops tp, pe_expires = tp_expires tp,
     pe_random_blobs = tp_random_blobs tp, pe_interface_id = i, pe_packet_hash = tp_packet_hash tp\<rparr>"

definition restore_tunnel_path ::
    "actor_env \<Rightarrow> InterfaceId \<Rightarrow> bytes \<times> TunnelPath \<Rightarrow> TransportActor \<times> bytes list \<Rightarrow> TransportActor \<times> bytes list" where
  "restore_tunnel_path env i p s =
    (case (p, s) of ((dest, tp), (a, deprecated)) \<Rightarrow>
       if tunnel_path_wanted env a dest tp then
         (fst (fire_path_waiters dest (a\<lparr>ta_path_table := PathTable_insert dest (restored_path (ae_now env) i tp) (ta_path_table a),
            ta_state_dirty := True\<rparr>)), deprecated)
       else (a, deprecated @ [dest]))"

definition restore_tunnel_paths :: "actor_env \<Rightarrow> bytes \<Rightarrow> InterfaceId \<Rightarrow> TransportActor \<Rightarrow> TransportActor" where
  "restore_tunnel_paths env tunnel_id i a =
    (case TunnelTable_get (ta_tunnel_table a) tunnel_id of
       None \<Rightarrow> a
     | Some tunnel \<Rightarrow>
         let (a, deprecated) = fold (restore_tunnel_path env i) (te_tunnel_paths tunnel) (a, [])
         in if deprecated = [] then a
            else a\<lparr>ta_tunnel_table := TunnelTable_get_mut tunnel_id (\<lambda>t. t\<lparr>te_tunnel_paths :=
                     hm_remove_all deprecated (te_tunnel_paths t)\<rparr>) (ta_tunnel_table a),
                   ta_state_dirty := True\<rparr>)"

end
