(* ===== verification/Actor_Inbound.thy ===== *)
theory Actor_Inbound
  imports Actor_Discovery
begin

text \<open>
  What the transport actor does with a received packet: \<open>src/crates/rns-transport/src/actor/inbound.rs\<close>. The filters of
  \<open>on_inbound_inner\<close> come first; then one handler per packet type. A handler returns the actor after all its effects.
\<close>

datatype InboundOrigin = IO_Wire | IO_HeldAnnounce | IO_CachedAnnounce

datatype TransitProof = TP_Valid | TP_InvalidSignature | TP_Refused

subsection \<open>Forwarding\<close>

definition rewrite_forwarded_transport_packet ::
    "TransportActor \<Rightarrow> bytes \<Rightarrow> PacketHeader \<Rightarrow> PathEntry \<Rightarrow> bool \<Rightarrow> bytes option" where
  "rewrite_forwarded_transport_packet a raw header path to_local_client =
    (let payload_offset = PacketHeader_size header
     in if length raw < payload_offset then None
        else if pe_hops path > 1 then
          (case pe_next_hop path of
             None \<Rightarrow> None
           | Some next_hop \<Rightarrow> Some (PacketHeader_pack \<lparr>
               ph_flags = (ph_flags header)\<lparr>header_type := Header2, transport_type := Transport\<rparr>,
               ph_hops = ph_hops header, ph_transport_id = Some next_hop,
               ph_destination_hash = ph_destination_hash header, ph_context = ph_context header\<rparr> @ drop payload_offset raw))
        else if pe_hops path = 1 \<or> (to_local_client \<and> ta_local_hops_delta a \<noteq> 0 \<and> header_type (ph_flags header) = Header2) then
          Some (PacketHeader_pack \<lparr>
            ph_flags = (ph_flags header)\<lparr>header_type := Header1, transport_type := Broadcast\<rparr>,
            ph_hops = ph_hops header, ph_transport_id = None,
            ph_destination_hash = ph_destination_hash header, ph_context = ph_context header\<rparr> @ drop payload_offset raw)
        else Some (raw[1 := ph_hops header]))"

definition addressed_to_us :: "TransportActor \<Rightarrow> PacketHeader \<Rightarrow> bool" where
  "addressed_to_us a header \<longleftrightarrow> ph_transport_id header \<noteq> None \<and> ph_transport_id header = ta_transport_identity_hash a"

definition transport_forward_candidate ::
    "actor_env \<Rightarrow> TransportActor \<Rightarrow> bytes \<Rightarrow> PacketHeader \<Rightarrow> bool \<Rightarrow> bool \<Rightarrow> bool \<Rightarrow> (InterfaceId \<times> bytes) option" where
  "transport_forward_candidate env a raw header from_local_client for_local_client to_local_client =
    (case get_live env a (ph_destination_hash header) of
       None \<Rightarrow> None
     | Some path \<Rightarrow>
         let may_forward_for_shared_client = (from_local_client \<or> for_local_client)
         in if may_forward_for_shared_client \<and> ph_transport_id header \<noteq> None \<and> \<not> addressed_to_us a header then None
            else if \<not> may_forward_for_shared_client \<and> (\<not> ta_is_transport_enabled a \<or> \<not> addressed_to_us a header) then None
            else (case rewrite_forwarded_transport_packet a raw header path to_local_client of
               None \<Rightarrow> None
             | Some forwarded \<Rightarrow>
                 Some (pe_interface_id path,
                   if ta_local_hops_delta a \<noteq> 0 \<and> from_local_client \<and> \<not> to_local_client
                   then forwarded[1 := ta_local_hops_delta a] else forwarded)))"

definition path_for_local_client :: "actor_env \<Rightarrow> TransportActor \<Rightarrow> bytes \<Rightarrow> bool" where
  "path_for_local_client env a h =
    (case get_live env a h of Some path \<Rightarrow> is_local_client_interface a (pe_interface_id path) | None \<Rightarrow> False)"

definition proof_for_local_client :: "TransportActor \<Rightarrow> bytes \<Rightarrow> bool" where
  "proof_for_local_client a h =
    (case ReverseTable_get (ta_reverse_table a) h of
       Some entry \<Rightarrow> is_local_client_interface a (re_receiving_interface entry) | None \<Rightarrow> False)"

definition touch_path :: "actor_env \<Rightarrow> bytes \<Rightarrow> TransportActor \<Rightarrow> TransportActor" where
  "touch_path env h a = a\<lparr>ta_path_table :=
     PathTable_get_live_mut (ae_now env) h (PathEntry_touch (ae_now env)) (ta_path_table a)\<rparr>"

definition inbound_event :: "TransportActor \<Rightarrow> bytes \<Rightarrow> InterfaceId \<Rightarrow> PacketMetrics \<Rightarrow> DestinationEvent" where
  "inbound_event a raw i metrics =
     DE_InboundPacket (map_option (InterfaceOwner_id \<circ> ie_owner) (get_interface a i)) raw i metrics"

definition repeatable_context :: "PacketContext \<Rightarrow> bool" where
  "repeatable_context c \<longleftrightarrow> c \<in> {Ctx_Keepalive, Ctx_Resource, Ctx_ResourceReq, Ctx_ResourcePrf, Ctx_CacheRequest, Ctx_Channel}"

subsection \<open>Packets of transit links\<close>

definition owner_of_token :: "InterfaceOwnerId \<Rightarrow> InterfaceOwner" where
  "owner_of_token t = \<lparr>ow_epoch = fst t, ow_revision = snd t\<rparr>"

definition link_registration_is_current :: "TransportActor \<Rightarrow> LinkEntry \<Rightarrow> bool" where
  "link_registration_is_current a entry =
     list_all (\<lambda>(i, owner). case owner of
         None \<Rightarrow> False
       | Some t \<Rightarrow> InterfaceOwner_is_current (ta_owners a) (owner_of_token t)
                   \<and> interface_is (\<lambda>e. ie_owner e = owner_of_token t) a i)
       [(le_interface_id entry, le_interface_owner entry), (le_receiving_interface entry, le_receiving_owner entry)]"

definition transit_link_expired :: "actor_env \<Rightarrow> LinkEntry \<Rightarrow> bool" where
  "transit_link_expired env entry \<longleftrightarrow>
     \<not> le_validated entry \<and> (f64_le (le_proof_timeout entry) (Fin (ae_now env)) \<or> \<not> is_finite (le_proof_timeout entry))"

definition mangled_hops :: "TransportActor \<Rightarrow> u8 \<Rightarrow> bool \<Rightarrow> bool \<Rightarrow> u8" where
  "mangled_hops a hops from_local_client exempt =
    (if \<not> from_local_client \<or> exempt \<or> ta_local_hops_delta a = 0 then hops else ta_local_hops_delta a)"

definition instance_local_link :: "TransportActor \<Rightarrow> LinkEntry \<Rightarrow> bool" where
  "instance_local_link a entry \<longleftrightarrow>
     is_local_client_interface a (le_interface_id entry) \<and> is_local_client_interface a (le_receiving_interface entry)"

text \<open>Where a packet of a transit link goes: \<open>None\<close> when it came from outside the link, \<open>Some None\<close> on a wrong hop count.\<close>

definition link_packet_target :: "LinkEntry \<Rightarrow> InterfaceId \<Rightarrow> u8 \<Rightarrow> InterfaceId option option" where
  "link_packet_target entry i hops =
    (if le_interface_id entry = le_receiving_interface entry then
       (if hops = le_remaining_hops entry \<or> hops = le_taken_hops entry then Some (Some (le_interface_id entry)) else Some None)
     else if i = le_receiving_interface entry then
       (if hops = le_taken_hops entry then Some (Some (le_interface_id entry)) else Some None)
     else if i = le_interface_id entry then
       (if hops = le_remaining_hops entry then Some (Some (le_receiving_interface entry)) else Some None)
     else None)"

definition route_link_packet_via_link_table ::
    "actor_env \<Rightarrow> bytes \<Rightarrow> PacketHeader \<Rightarrow> InterfaceId \<Rightarrow> TransportActor \<Rightarrow> TransportActor \<times> bool" where
  "route_link_packet_via_link_table env raw header i a =
    (if destination_type (ph_flags header) \<noteq> DT_Link \<or> ph_destination_hash header \<in> ta_local_destinations a then (a, False)
     else
       case LinkTable_get (ta_link_table a) (ph_destination_hash header) of
         None \<Rightarrow> (a, False)
       | Some entry \<Rightarrow>
           if \<not> link_registration_is_current a entry \<or> length raw > unat (le_accepted_mtu_ceiling entry) then (a, True)
           else if transit_link_expired env entry then (a, True)
           else
             let from_local_client = is_local_client_interface a i;
                 shared_client_path = (from_local_client \<or> is_local_client_interface a (le_receiving_interface entry)
                   \<or> is_local_client_interface a (le_interface_id entry))
             in if \<not> ta_is_transport_enabled a \<and> \<not> shared_client_path then (a, False)
                else (case link_packet_target entry i (ph_hops header) of
                   None \<Rightarrow> (a, False)
                 | Some None \<Rightarrow> (a, True)
                 | Some (Some target) \<Rightarrow>
                     let forwarded = raw[1 := mangled_hops a (ph_hops header) from_local_client (instance_local_link a entry)];
                         (hashlist, fresh) = (if repeatable_context (ph_context header) then (ta_packet_hashlist a, True)
                           else PacketHashlist_insert (ta_packet_hashlist a) (actor_packet_hash env raw (header_type (ph_flags header))));
                         a = a\<lparr>ta_packet_hashlist := hashlist\<rparr>
                     in if \<not> fresh then (a, True)
                        else
                          let a = a\<lparr>ta_link_table := LinkTable_get_mut (ph_destination_hash header)
                                (\<lambda>e. e\<lparr>le_timestamp := Fin (ae_now env)\<rparr>) (ta_link_table a)\<rparr>
                          in (fst (send_to_interface env target forwarded a), True)))"

definition validate_transit_lrproof :: "actor_env \<Rightarrow> TransportActor \<Rightarrow> bytes \<Rightarrow> PacketHeader \<Rightarrow> LinkEntry \<Rightarrow> TransitProof" where
  "validate_transit_lrproof env a raw header link_entry =
    (let payload_offset = PacketHeader_size header; proof_data = drop payload_offset raw
     in if length raw < payload_offset then TP_Refused
        else if length proof_data \<noteq> 96 \<and> length proof_data \<noteq> 99 then TP_Refused
        else case parse_proof_signalling proof_data of
          Inl _ \<Rightarrow> TP_Refused
        | Inr signal \<Rightarrow>
            if ls_mode signal \<noteq> le_requested_mode link_entry
               \<or> LinkMtu_get (ls_mtu signal) > le_accepted_mtu_ceiling link_entry
               \<or> (le_validated link_entry \<and> LinkMtu_get (ls_mtu signal) \<noteq> le_accepted_mtu_ceiling link_entry)
               \<or> \<not> link_registration_is_current a link_entry
            then TP_Refused
            else
              let signature = take 64 proof_data;
                  responder_x25519_pub = subslice 64 96 proof_data;
                  signalling = (if length proof_data = 99 then subslice 96 99 proof_data else [])
              in (case Option.bind (hm_get (ta_recent_announces a) (le_destination_hash link_entry)) rn_public_key of
                    None \<Rightarrow> TP_Refused
                  | Some destination_public_key \<Rightarrow>
                      let destination_ed25519 = subslice 32 64 destination_public_key
                      in (case Ed25519PublicKey_from_bytes (ae_curve env) destination_ed25519 of
                            Inl _ \<Rightarrow> TP_Refused
                          | Inr verify_key \<Rightarrow>
                              let signed_data = ph_destination_hash header @ responder_x25519_pub @ destination_ed25519 @ signalling
                              in if Ed25519PublicKey_verify (ae_curve env) verify_key signed_data signature = Ok ()
                                 then TP_Valid else TP_InvalidSignature)))"

subsection \<open>Link requests\<close>

definition transit_side :: "InterfaceId \<Rightarrow> InterfaceEntry \<Rightarrow> transit_interface" where
  "transit_side i e = \<lparr>ti_id = i, ti_owner = ie_owner e, ti_packet_capacity = ie_packet_capacity e,
     ti_active_ifac_bytes = InterfaceEntry_active_ifac_bytes e\<rparr>"

definition transit_link_entry ::
    "actor_env \<Rightarrow> PacketHeader \<Rightarrow> PathEntry \<Rightarrow> InterfaceId \<Rightarrow> InterfaceEntry \<Rightarrow> InterfaceId \<Rightarrow> InterfaceEntry \<Rightarrow> u8 \<Rightarrow> u32
     \<Rightarrow> LinkEntry" where
  "transit_link_entry env header path i ingress target egress requested_mode accepted_mtu_ceiling =
    (let bitrate = (if interface_marked_offline egress then None else Some (ie_bitrate egress))
     in \<lparr>le_timestamp = Fin (ae_now env), le_next_hop = pe_next_hop path, le_interface_id = target,
         le_remaining_hops = pe_hops path, le_destination_hash = ph_destination_hash header,
         le_established = False, le_validated = False,
         le_proof_timeout = Fin (transit_link_proof_deadline (ae_now env) (pe_hops path) bitrate),
         le_receiving_interface = i, le_taken_hops = ph_hops header,
         le_interface_owner = Some (InterfaceOwner_id (ie_owner egress)),
         le_receiving_owner = Some (InterfaceOwner_id (ie_owner ingress)),
         le_requested_mode = requested_mode, le_accepted_mtu_ceiling = accepted_mtu_ceiling\<rparr>)"

text \<open>The link table takes the request over only when the interface queue has accepted it.\<close>

definition commit_link_request ::
    "actor_env \<Rightarrow> bytes \<Rightarrow> LinkEntry \<Rightarrow> bytes \<Rightarrow> TransportActor \<Rightarrow> TransportActor" where
  "commit_link_request env link_id entry forwarded a =
    (let (a, sent) = send_to_interface env (le_interface_id entry) forwarded a
     in if \<not> sent then a
        else
          let a = touch_path env (le_destination_hash entry) a
          in a\<lparr>ta_link_table := LinkTable_insert link_id entry (ta_link_table a)\<rparr>)"

definition relay_link_request ::
    "actor_env \<Rightarrow> bytes \<Rightarrow> PacketHeader \<Rightarrow> InterfaceId \<Rightarrow> InterfaceId \<Rightarrow> bytes \<Rightarrow> TransportActor \<Rightarrow> TransportActor" where
  "relay_link_request env raw header i target forwarded a =
    (case get_live env a (ph_destination_hash header) of
       None \<Rightarrow> a
     | Some path \<Rightarrow>
         let link_id = actor_link_id env raw (header_type (ph_flags header))
         in if LinkTable_get (ta_link_table a) link_id \<noteq> None then a
            else if hm_len (lt_entries (ta_link_table a)) \<ge> MAX_TRANSIT_LINK_TABLE_ENTRIES then a
            else case (get_interface a i, get_interface a target) of
              (Some ingress, Some egress) \<Rightarrow>
                (case attenuate_request (ta_owners a) (drop (PacketHeader_size header) raw) (transit_side i ingress) (transit_side target egress) of
                   Inl _ \<Rightarrow> a
                 | Inr (payload, requested_mode, accepted_mtu_ceiling) \<Rightarrow>
                     (case PacketHeader_unpack forwarded of
                        Inl _ \<Rightarrow> a
                      | Inr (forwarded_header, _) \<Rightarrow>
                          commit_link_request env link_id
                            (transit_link_entry env header path i ingress target egress requested_mode accepted_mtu_ceiling)
                            (take (PacketHeader_size forwarded_header) forwarded @ payload) a))
            | _ \<Rightarrow> a)"

definition process_link_request ::
    "actor_env \<Rightarrow> bytes \<Rightarrow> PacketHeader \<Rightarrow> InterfaceId \<Rightarrow> PacketMetrics \<Rightarrow> TransportActor \<Rightarrow> TransportActor" where
  "process_link_request env raw header i metrics a =
    (let from_local_client = is_local_client_interface a i;
         for_local_client = path_for_local_client env a (ph_destination_hash header);
         to_local_client = (for_local_client \<or> proof_for_local_client a (ph_destination_hash header))
     in if ph_destination_hash header \<in> ta_local_destinations a then
          deliver_local (ph_destination_hash header)
            (DE_LinkRequest (map_option (InterfaceOwner_id \<circ> ie_owner) (get_interface a i)) raw i metrics) a
        else (case transport_forward_candidate env a raw header from_local_client for_local_client to_local_client of
           None \<Rightarrow> a
         | Some (target, forwarded) \<Rightarrow> relay_link_request env raw header i target forwarded a))"

subsection \<open>Data\<close>

definition verify_identity_signature :: "actor_env \<Rightarrow> bytes \<Rightarrow> (bytes \<Rightarrow> bytes \<Rightarrow> bool) option" where
  "verify_identity_signature env public_key =
    (case Identity_from_public_key (ae_lib env) (ae_curve env) public_key of
       Inl _ \<Rightarrow> None
     | Inr identity \<Rightarrow> Some (\<lambda>msg signature. Identity_verify (ae_curve env) msg signature identity))"

definition handle_tunnel_synthesis :: "actor_env \<Rightarrow> bytes \<Rightarrow> InterfaceId \<Rightarrow> TransportActor \<Rightarrow> TransportActor" where
  "handle_tunnel_synthesis env payload i a =
    (case option_filter (TunnelSynthesisData_is_signed (verify_identity_signature env)) (TunnelSynthesisData_unpack payload) of
       None \<Rightarrow> protocol_violation i a
     | Some synthesis \<Rightarrow>
         let tunnel_id = TunnelSynthesisData_tunnel_id (lib_sha256 (ae_lib env)) synthesis
         in restore_tunnel_paths env tunnel_id i
              (a\<lparr>ta_tunnel_table := handle_tunnel (ae_now env) tunnel_id i (ta_tunnel_table a), ta_state_dirty := True\<rparr>))"

definition relay_plain :: "actor_env \<Rightarrow> bytes \<Rightarrow> PacketHeader \<Rightarrow> InterfaceId \<Rightarrow> TransportActor \<Rightarrow> TransportActor" where
  "relay_plain env raw header i a =
    (if ph_destination_hash header \<noteq> path_request_dest_hash env \<and> ph_destination_hash header \<noteq> tunnel_synthesize_dest_hash env
        \<and> destination_type (ph_flags header) = DT_Plain \<and> transport_type (ph_flags header) = Broadcast
     then if is_local_client_interface a i then fst (broadcast_on_interfaces env raw (Some i) a)
          else fold (\<lambda>j a. fst (send_to_interface env j raw a)) (local_client_interface_ids_except a (Some i)) a
     else a)"

definition forward_data ::
    "actor_env \<Rightarrow> bytes \<Rightarrow> PacketHeader \<Rightarrow> InterfaceId \<Rightarrow> bool \<Rightarrow> bool \<Rightarrow> bool \<Rightarrow> TransportActor \<Rightarrow> TransportActor" where
  "forward_data env raw header i from_local_client for_local_client to_local_client a =
    (case transport_forward_candidate env a raw header from_local_client for_local_client to_local_client of
       None \<Rightarrow> a
     | Some (target, forwarded) \<Rightarrow>
         let a = a\<lparr>ta_reverse_table := ReverseTable_insert_with_outbound (ae_now env)
               (actor_truncated_hash env raw (header_type (ph_flags header))) i (ph_hops header) (Some target) (ta_reverse_table a)\<rparr>
         in touch_path env (ph_destination_hash header) (fst (send_to_interface env target forwarded a)))"

definition process_data ::
    "actor_env \<Rightarrow> bytes \<Rightarrow> PacketHeader \<Rightarrow> InterfaceId \<Rightarrow> PacketMetrics \<Rightarrow> TransportActor \<Rightarrow> TransportActor" where
  "process_data env raw header i metrics a =
    (let dest = ph_destination_hash header;
         from_local_client = is_local_client_interface a i;
         for_local_client = path_for_local_client env a dest;
         to_local_client = (for_local_client \<or> proof_for_local_client a dest);
         (a, routed) = route_link_packet_via_link_table env raw header i (relay_plain env raw header i a)
     in if routed then a
        else if dest = path_request_dest_hash env then
          (case data_payload_offset raw header of
             Some payload_start \<Rightarrow> handle_inbound_path_request env (drop payload_start raw) i a | None \<Rightarrow> a)
        else if dest = tunnel_synthesize_dest_hash env then
          (case data_payload_offset raw header of
             Some payload_start \<Rightarrow> handle_tunnel_synthesis env (drop payload_start raw) i a | None \<Rightarrow> a)
        else if ph_context header = Ctx_CacheRequest then handle_cache_request env raw header a
        else if dest \<in> ta_local_destinations a then deliver_local dest (inbound_event a raw i metrics) a
        else forward_data env raw header i from_local_client for_local_client to_local_client a)"

subsection \<open>Proofs\<close>

definition conclude_receipt :: "bytes \<Rightarrow> duration option \<Rightarrow> TransportActor \<Rightarrow> TransportActor" where
  "conclude_receipt h rtt a =
    (let a = (case hm_get (ta_receipt_updates a) h of
                Some tx \<Rightarrow> notify (N_ReceiptUpdate tx (case rtt of Some d \<Rightarrow> RU_Delivered d | None \<Rightarrow> RU_Failed))
                             (a\<lparr>ta_receipt_updates := hm_remove h (ta_receipt_updates a)\<rparr>)
              | None \<Rightarrow> a);
         a = (case hm_get (ta_receipt_msg_ids a) h of
                None \<Rightarrow> a
              | Some msg_id \<Rightarrow>
                  let a = a\<lparr>ta_receipt_msg_ids := hm_remove h (ta_receipt_msg_ids a)\<rparr>
                  in (case hm_get (ta_receipt_proof_txs a) h of
                        Some tx \<Rightarrow> notify (N_DeliveryProof tx msg_id rtt)
                                     (a\<lparr>ta_receipt_proof_txs := hm_remove h (ta_receipt_proof_txs a)\<rparr>)
                      | None \<Rightarrow> fold (\<lambda>(_, tx) a. fst (deliver_event tx (DE_DeliveryProof msg_id rtt) a))
                                  (ta_destination_channels a) a))
     in a\<lparr>ta_receipt_table := hm_remove h (ta_receipt_table a)\<rparr>)"

definition process_receipt_proof :: "actor_env \<Rightarrow> bytes \<Rightarrow> PacketHeader \<Rightarrow> PacketReceipt \<Rightarrow> TransportActor \<Rightarrow> TransportActor" where
  "process_receipt_proof env raw header receipt a =
    (if length raw < PacketHeader_size header then a
     else
       let h = ph_destination_hash header;
           delivery_proof = drop (PacketHeader_size header) raw;
           receipt = (case (pr_destination_public_key receipt, pr_destination_hash receipt) of
              (None, Some destination_hash) \<Rightarrow> PacketReceipt_set_destination_identity destination_hash
                 (Option.bind (hm_get (ta_recent_announces a) destination_hash) rn_public_key) receipt
            | _ \<Rightarrow> receipt);
           (receipt, events, validated) =
              PacketReceipt_validate_proof_from_destination (ae_curve env) (ae_instant env) delivery_proof receipt;
           a = a\<lparr>ta_receipt_table := hm_insert h receipt (ta_receipt_table a),
                 ta_notices := ta_notices a @ map (N_ReceiptCallback h) events\<rparr>
       in if validated then conclude_receipt h (PacketReceipt_get_rtt receipt) a else a)"

text \<open>A proof of a link one of our own destinations has requested.\<close>

definition local_link_proof ::
    "bytes \<Rightarrow> PacketHeader \<Rightarrow> InterfaceId \<Rightarrow> PacketMetrics \<Rightarrow> TransportActor \<Rightarrow> TransportActor" where
  "local_link_proof raw header i metrics a =
    (let h = ph_destination_hash header;
         admitted = (case Option.bind (hm_get (ta_pending_local_link_requests a) h) (\<lambda>owners. hm_get owners i) of
            Some owner \<Rightarrow> interface_is (\<lambda>e. InterfaceOwnerId_matches (ta_owners a) owner (ie_owner e)) a i
          | None \<Rightarrow> False);
         signal_valid = (case parse_proof_signalling (drop (PacketHeader_size header) raw) of
            Inr signal \<Rightarrow> ls_mode signal = DEFAULT_LINK_MODE \<and> LinkMtu_get (ls_mtu signal) \<le> 500
          | Inl _ \<Rightarrow> False)
     in if \<not> admitted \<or> \<not> signal_valid then a
        else (case hm_get (ta_destination_channels a) h of
           Some tx \<Rightarrow> a\<lparr>ta_dest_chans := fst (chan_try_send tx (inbound_event a raw i metrics) (ta_dest_chans a))\<rparr>
         | None \<Rightarrow> a))"

definition proof_mtu :: "bytes \<Rightarrow> PacketHeader \<Rightarrow> u32 option" where
  "proof_mtu raw header =
    (case parse_proof_signalling (drop (PacketHeader_size header) raw) of Inr signal \<Rightarrow> Some (LinkMtu_get (ls_mtu signal)) | Inl _ \<Rightarrow> None)"

text \<open>The link is confirmed only when the interface queue has accepted the proof; its signalling was parsed before.\<close>

definition commit_link_proof ::
    "actor_env \<Rightarrow> bytes \<Rightarrow> PacketHeader \<Rightarrow> bytes \<Rightarrow> LinkEntry \<Rightarrow> TransportActor \<Rightarrow> TransportActor" where
  "commit_link_proof env raw header forwarded link_entry a =
    (let (a, sent) = send_to_interface env (le_receiving_interface link_entry) forwarded a
     in if \<not> sent then a
        else
          let a = a\<lparr>ta_link_table := LinkTable_get_mut (ph_destination_hash header)
                (\<lambda>e. e\<lparr>le_validated := True, le_accepted_mtu_ceiling := the (proof_mtu raw header)\<rparr>) (ta_link_table a)\<rparr>
          in if ta_is_shared_instance a then a else fst (use_destination env (le_destination_hash link_entry) a))"

definition relay_link_proof ::
    "actor_env \<Rightarrow> bytes \<Rightarrow> PacketHeader \<Rightarrow> InterfaceId \<Rightarrow> LinkEntry \<Rightarrow> TransportActor \<Rightarrow> TransportActor" where
  "relay_link_proof env raw header i link_entry a =
    (case validate_transit_lrproof env a raw header link_entry of
       TP_InvalidSignature \<Rightarrow> protocol_violation i a
     | TP_Refused \<Rightarrow> a
     | TP_Valid \<Rightarrow>
         let (hashlist, fresh) = PacketHashlist_insert (ta_packet_hashlist a)
               (actor_packet_hash env raw (header_type (ph_flags header)));
             a = a\<lparr>ta_packet_hashlist := hashlist\<rparr>
         in if \<not> fresh then a
            else commit_link_proof env raw header
              (raw[1 := mangled_hops a (ph_hops header) (is_local_client_interface a i) (instance_local_link a link_entry)])
              link_entry a)"

text \<open>A proof the link table does not claim goes to a pending link of a local destination.\<close>

definition pending_link_proof ::
    "actor_env \<Rightarrow> bytes \<Rightarrow> PacketHeader \<Rightarrow> InterfaceId \<Rightarrow> PacketMetrics \<Rightarrow> TransportActor \<Rightarrow> TransportActor" where
  "pending_link_proof env raw header i metrics a =
    (case hm_get (ta_destination_channels a) (ph_destination_hash header) of
       None \<Rightarrow> a
     | Some tx \<Rightarrow>
         (case deliver_event tx (inbound_event a raw i metrics) a of
            (a, True) \<Rightarrow> a\<lparr>ta_packet_hashlist := fst (PacketHashlist_insert (ta_packet_hashlist a)
                           (actor_packet_hash env raw (header_type (ph_flags header))))\<rparr>
          | (a, False) \<Rightarrow> a))"

definition process_link_proof ::
    "actor_env \<Rightarrow> bytes \<Rightarrow> PacketHeader \<Rightarrow> InterfaceId \<Rightarrow> PacketMetrics \<Rightarrow> TransportActor \<Rightarrow> TransportActor" where
  "process_link_proof env raw header i metrics a =
    (if ph_destination_hash header \<in> ta_local_destinations a then local_link_proof raw header i metrics a
     else case LinkTable_get (ta_link_table a) (ph_destination_hash header) of
       None \<Rightarrow> pending_link_proof env raw header i metrics a
     | Some link_entry \<Rightarrow>
         if \<not> (ta_is_transport_enabled a \<or> is_local_client_interface a i
              \<or> is_local_client_interface a (le_receiving_interface link_entry)
              \<or> is_local_client_interface a (le_interface_id link_entry))
         then pending_link_proof env raw header i metrics a
         else if transit_link_expired env link_entry then a
         else if ph_hops header = le_remaining_hops link_entry \<and> i = le_interface_id link_entry
         then relay_link_proof env raw header i link_entry a
         else pending_link_proof env raw header i metrics a)"

definition process_data_proof ::
    "actor_env \<Rightarrow> bytes \<Rightarrow> PacketHeader \<Rightarrow> InterfaceId \<Rightarrow> PacketMetrics \<Rightarrow> TransportActor \<Rightarrow> TransportActor" where
  "process_data_proof env raw header i metrics a =
    (let h = ph_destination_hash header;
         from_local_client = is_local_client_interface a i;
         for_client = proof_for_local_client a h;
         proof_hops = mangled_hops a (ph_hops header) from_local_client for_client;
         (reverse, found) = (if ta_is_transport_enabled a \<or> from_local_client \<or> for_client
            then ReverseTable_remove h (ta_reverse_table a) else (ta_reverse_table a, None));
         a = a\<lparr>ta_reverse_table := reverse\<rparr>
     in case found of
          Some reverse_entry \<Rightarrow>
            if re_outbound_interface reverse_entry = None \<or> re_outbound_interface reverse_entry = Some i
            then fst (send_to_interface env (re_receiving_interface reverse_entry) (raw[1 := proof_hops]) a)
            else deliver_local h (inbound_event a raw i metrics) a
        | None \<Rightarrow> deliver_local h (inbound_event a raw i metrics) a)"

definition process_proof ::
    "actor_env \<Rightarrow> bytes \<Rightarrow> PacketHeader \<Rightarrow> InterfaceId \<Rightarrow> PacketMetrics \<Rightarrow> TransportActor \<Rightarrow> TransportActor" where
  "process_proof env raw header i metrics a =
    (case (if ph_context header \<noteq> Ctx_Lrproof then hm_get (ta_receipt_table a) (ph_destination_hash header) else None) of
       Some receipt \<Rightarrow> process_receipt_proof env raw header receipt a
     | None \<Rightarrow>
         if ph_context header = Ctx_Lrproof then process_link_proof env raw header i metrics a
         else
           let (a, routed) = route_link_packet_via_link_table env raw header i a
           in if routed then a else process_data_proof env raw header i metrics a)"

subsection \<open>Announces\<close>

text \<open>The checks on the announce itself: \<open>Inl True\<close> is a protocol violation, \<open>Inl False\<close> a silent drop.\<close>

definition check_announce ::
    "actor_env \<Rightarrow> TransportActor \<Rightarrow> bytes \<Rightarrow> PacketHeader \<Rightarrow> nat \<Rightarrow> (bool, AnnounceData \<times> Identity) result" where
  "check_announce env a raw header data_offset =
    (if data_offset \<ge> length raw then Err True
     else case AnnounceData_unpack (drop data_offset raw) (context_flag (ph_flags header)) of
       Inl _ \<Rightarrow> Err True
     | Inr announce_data \<Rightarrow>
         (case AnnounceData_verify_signature (ae_lib env) (ae_curve env) (ph_destination_hash header) announce_data of
            Inl _ \<Rightarrow> Err True
          | Inr identity \<Rightarrow>
              if BlackholeTable_is_blackholed (ae_now env) (ta_blackhole_table a) (id_hash identity) then Err False
              else Ok (announce_data, identity)))"

definition answers_path_request :: "actor_env \<Rightarrow> TransportActor \<Rightarrow> bytes \<Rightarrow> bool" where
  "answers_path_request env a h \<longleftrightarrow>
     hm_contains (ta_path_requests a) h
   \<or> (case hm_get (ta_discovery_path_requests a) h of Some request \<Rightarrow> ae_now env < do_timeout request | None \<Rightarrow> False)"

text \<open>Ingress accounting; \<open>True\<close> when the announce is held back.\<close>

definition ingress_announce ::
    "actor_env \<Rightarrow> bytes \<Rightarrow> PacketHeader \<Rightarrow> InterfaceId \<Rightarrow> TransportActor \<Rightarrow> TransportActor \<times> bool" where
  "ingress_announce env raw header i a =
    (case get_interface a i of
       None \<Rightarrow> (a, False)
     | Some entry \<Rightarrow>
         let h = ph_destination_hash header;
             exempt = (is_local_client_interface a i \<or> PathTable_get (ta_path_table a) h \<noteq> None \<or> answers_path_request env a h);
             ingress = IngressController_received_announce (ae_instant env) (ie_ingress entry);
             (ingress, limited) = (if exempt then (ingress, False) else should_ingress_limit (ae_instant env) ingress);
             ingress = (if limited then hold_announce \<lparr>ha_raw = raw, ha_destination_hash = h, ha_hops = ph_hops header,
                          ha_receiving_interface_id = i\<rparr> ingress else ingress)
         in (update_interface i (\<lambda>e. e\<lparr>ie_ingress := ingress\<rparr>) a, limited))"

definition remembered ::
    "unix_time \<Rightarrow> PacketHeader \<Rightarrow> AnnounceData \<Rightarrow> Identity \<Rightarrow> (bytes, RecentAnnounce) hmap \<Rightarrow> (bytes, RecentAnnounce) hmap" where
  "remembered now header ad identity known =
    (let h = ph_destination_hash header; public_key = Some (Identity_get_public_key identity)
     in if hm_contains known h then
          hm_update h (\<lambda>e. e\<lparr>rn_timestamp := now, rn_public_key := public_key, rn_app_data := ad_app_data ad,
            rn_ratchet := (if ad_ratchet ad \<noteq> None then ad_ratchet ad else rn_ratchet e)\<rparr>) known
        else
          hm_insert h \<lparr>rn_dest_hash = h, rn_hops = ph_hops header, rn_app_data = ad_app_data ad, rn_timestamp = now,
            rn_public_key = public_key, rn_ratchet = ad_ratchet ad, rn_packet_hash = None,
            rn_is_path_response = (ph_context header = Ctx_PathResponse), rn_retained = False, rn_last_used = None,
            rn_name_hash = ad_name_hash ad\<rparr> known)"

definition remember_announce ::
    "actor_env \<Rightarrow> PacketHeader \<Rightarrow> AnnounceData \<Rightarrow> Identity \<Rightarrow> TransportActor \<Rightarrow> TransportActor" where
  "remember_announce env header ad identity a =
     a\<lparr>ta_recent_announces := remembered (ae_now env) header ad identity (ta_recent_announces a),
       ta_state_dirty := (ta_state_dirty a \<or> \<not> hm_contains (ta_recent_announces a) (ph_destination_hash header))\<rparr>"

definition account_rate :: "actor_env \<Rightarrow> PacketHeader \<Rightarrow> InterfaceId \<Rightarrow> TransportActor \<Rightarrow> TransportActor \<times> bool" where
  "account_rate env header i a =
    (let h = ph_destination_hash header;
         limit = (if ph_context header = Ctx_PathResponse then None
                  else Option.bind (get_interface a i) (\<lambda>e. map_option (\<lambda>target. (target,
                    case ie_announce_rate_grace e of Some g \<Rightarrow> g | None \<Rightarrow> 0,
                    case ie_announce_rate_penalty e of Some p \<Rightarrow> p | None \<Rightarrow> 0)) (ie_announce_rate_target e)));
         (rates, blocked) = (case limit of
            Some (target, grace, penalty) \<Rightarrow> RateTable_check_interface_rate (ae_now env) h target grace penalty (ta_rate_table a)
          | None \<Rightarrow> (ta_rate_table a, False));
         rates = (if blocked then rates else fst (RateTable_record (ae_now env) h rates))
     in (a\<lparr>ta_rate_table := rates\<rparr>, blocked))"

text \<open>A neighbour's rebroadcast counts against our queued copy, or cancels it.\<close>

definition observe_rebroadcast :: "actor_env \<Rightarrow> PacketHeader \<Rightarrow> TransportActor \<Rightarrow> TransportActor" where
  "observe_rebroadcast env header a =
    (let h = ph_destination_hash header
     in case (if ta_is_transport_enabled a then AnnounceTable_get (ta_announce_table a) h else None) of
          None \<Rightarrow> a
        | Some existing \<Rightarrow>
            let t = ta_announce_table a;
                t = (if ph_hops header > 0 \<and> ph_hops header - 1 = an_hops existing \<and> an_retries existing > 0 then
                       (if an_local_rebroadcasts existing + 1 \<ge> LOCAL_REBROADCASTS_MAX then fst (AnnounceTable_remove h t)
                        else AnnounceTable_get_mut h (\<lambda>e. e\<lparr>an_local_rebroadcasts := an_local_rebroadcasts existing + 1\<rparr>) t)
                     else t);
                t = (if ph_hops header > 0 \<and> ph_hops header - 1 = an_hops existing + 1 \<and> an_retries existing > 0 then
                       (case AnnounceTable_get t h of
                          Some e \<Rightarrow> if ae_now env < an_retransmit_timeout e then fst (AnnounceTable_remove h t) else t
                        | None \<Rightarrow> t)
                     else t)
            in a\<lparr>ta_announce_table := t\<rparr>)"

definition should_add_path :: "unix_time \<Rightarrow> PathTable \<Rightarrow> bytes \<Rightarrow> u8 \<Rightarrow> bytes \<Rightarrow> bool" where
  "should_add_path now paths h hops random_hash =
    (case PathTable_get paths h of
       None \<Rightarrow> True
     | Some existing \<Rightarrow>
         let random_seen = PathEntry_has_random_blob existing random_hash;
             path_timebase = path_timebase_from_random_blobs (pe_random_blobs existing);
             emitted = announce_timebase random_hash
         in if hops \<le> pe_hops existing then \<not> random_seen \<and> emitted > path_timebase
            else if PathEntry_is_expired now existing \<or> emitted > path_timebase then \<not> random_seen
            else if emitted = path_timebase then PathTable_get_state paths h = PS_Unresponsive
            else False)"

definition queue_rebroadcast :: "actor_env \<Rightarrow> bytes \<Rightarrow> PacketHeader \<Rightarrow> InterfaceId \<Rightarrow> TransportActor \<Rightarrow> TransportActor" where
  "queue_rebroadcast env raw header i a =
    (let h = ph_destination_hash header; from_client = is_local_client_interface a i
     in a\<lparr>ta_announce_table := AnnounceTable_insert h \<lparr>
          an_timestamp = ae_now env,
          an_retransmit_timeout = (if from_client then ae_now env else ae_now env + ae_jitter env),
          an_retries = (if from_client then PATHFINDER_R else 0),
          an_received_from = (case ph_transport_id header of Some tid \<Rightarrow> tid | None \<Rightarrow> h), an_hops = ph_hops header,
          an_packet_raw = transport_announce_from_raw a raw h (ph_hops header) Ctx_None, an_local_rebroadcasts = 0,
          an_block_rebroadcast = False, an_attached_interface = None, an_source_interface = Some i\<rparr> (ta_announce_table a)\<rparr>)"

definition extend_blobs :: "bytes \<Rightarrow> bytes list \<Rightarrow> bytes list" where
  "extend_blobs random_hash blobs =
    (if random_hash \<in> set blobs then blobs
     else (if length blobs \<ge> MAX_RANDOM_BLOBS then tl blobs else blobs) @ [random_hash])"

definition known_blobs :: "PathTable \<Rightarrow> bytes \<Rightarrow> bytes list" where
  "known_blobs paths h = (case PathTable_get paths h of Some e \<Rightarrow> pe_random_blobs e | None \<Rightarrow> [])"

definition announced_path :: "actor_env \<Rightarrow> TransportActor \<Rightarrow> bytes \<Rightarrow> PacketHeader \<Rightarrow> InterfaceId \<Rightarrow> bytes \<Rightarrow> PathEntry" where
  "announced_path env a raw header i random_hash =
    (let mode = (case get_interface a i of Some e \<Rightarrow> ie_mode e | None \<Rightarrow> IM_Gateway)
     in (PathEntry_new (ae_now env) (ph_transport_id header) (ph_hops header) i mode)\<lparr>
          pe_random_blobs := extend_blobs random_hash (known_blobs (ta_path_table a) (ph_destination_hash header)),
          pe_packet_hash := Some (actor_packet_hash env raw (header_type (ph_flags header)))\<rparr>)"

definition tunnel_path_of :: "PathEntry \<Rightarrow> TunnelPath" where
  "tunnel_path_of entry = \<lparr>tp_timestamp = pe_timestamp entry, tp_next_hop = pe_next_hop entry, tp_hops = pe_hops entry,
     tp_expires = pe_expires entry, tp_random_blobs = pe_random_blobs entry, tp_packet_hash = pe_packet_hash entry\<rparr>"

definition note_tunnel_path :: "unix_time \<Rightarrow> InterfaceId \<Rightarrow> bytes \<Rightarrow> TunnelPath \<Rightarrow> TunnelTable \<Rightarrow> TunnelTable" where
  "note_tunnel_path now i h tp t =
    (case hm_get (tt_by_interface t) i of
       Some tunnel_id \<Rightarrow> TunnelTable_get_mut tunnel_id (\<lambda>tunnel. tunnel\<lparr>
         te_tunnel_paths := hm_insert h tp (te_tunnel_paths tunnel), te_expires := now + real TUNNEL_TIMEOUT\<rparr>) t
     | None \<Rightarrow> t)"

definition install_path :: "actor_env \<Rightarrow> bytes \<Rightarrow> PathEntry \<Rightarrow> InterfaceId \<Rightarrow> TransportActor \<Rightarrow> TransportActor" where
  "install_path env h entry i a =
     fst (fire_path_waiters h (a\<lparr>ta_path_table := PathTable_insert h entry (ta_path_table a),
       ta_tunnel_table := note_tunnel_path (ae_now env) i h (tunnel_path_of entry) (ta_tunnel_table a), ta_state_dirty := True\<rparr>))"

definition dispatch_to_handler ::
    "actor_env \<Rightarrow> bytes \<Rightarrow> AnnounceHandlerEvent \<Rightarrow> AnnounceHandlerRegistration
     \<Rightarrow> (nat \<Rightarrow> AnnounceHandlerEvent chan) \<times> AnnounceHandlerRegistration list
     \<Rightarrow> (nat \<Rightarrow> AnnounceHandlerEvent chan) \<times> AnnounceHandlerRegistration list" where
  "dispatch_to_handler env identity_hash event registration s =
    (case s of (chans, kept) \<Rightarrow>
       if ahe_is_path_response event \<and> \<not> ahr_receive_path_responses registration then (chans, kept @ [registration])
       else if (case ahr_aspect_filter registration of
                  Some aspects \<Rightarrow> hash_from_name_and_identity (ae_lib env) aspects (Some identity_hash) \<noteq> ahe_destination_hash event
                | None \<Rightarrow> False)
       then (chans, kept @ [registration])
       else
         (case chan_try_send (ahr_tx registration) event chans of
            (chans, Inl TrySend_Full) \<Rightarrow>
              (chans, kept @ [registration\<lparr>ahr_dropped_events := ahr_dropped_events registration + 1\<rparr>])
          | (chans, _) \<Rightarrow> (chans, kept @ [registration])))"

definition dispatch_announce ::
    "actor_env \<Rightarrow> bytes \<Rightarrow> PacketHeader \<Rightarrow> AnnounceData \<Rightarrow> Identity \<Rightarrow> TransportActor \<Rightarrow> TransportActor" where
  "dispatch_announce env raw header ad identity a =
    (let event = \<lparr>ahe_destination_hash = ph_destination_hash header, ahe_identity_hash = Some (id_hash identity),
           ahe_announce_packet_hash = actor_packet_hash env raw (header_type (ph_flags header)),
           ahe_is_path_response = (ph_context header = Ctx_PathResponse), ahe_hops = ph_hops header,
           ahe_app_data = ad_app_data ad, ahe_public_key = Some (Identity_get_public_key identity),
           ahe_ratchet = ad_ratchet ad, ahe_name_hash = ad_name_hash ad\<rparr>;
         (chans, handlers) = fold (dispatch_to_handler env (id_hash identity) event) (ta_announce_handlers a) (ta_handler_chans a, [])
     in a\<lparr>ta_handler_chans := chans, ta_announce_handlers := filter (\<lambda>r. \<not> ch_closed (chans (ahr_tx r))) handlers\<rparr>)"

text \<open>The write to the announce cache, which a client of a shared instance and an instance without storage skip.\<close>

definition cache_announce_to_disk :: "bytes \<Rightarrow> bytes \<Rightarrow> InterfaceId \<Rightarrow> TransportActor \<Rightarrow> TransportActor" where
  "cache_announce_to_disk ann_hash raw i a =
    (if ta_shared_instance_client_mode a \<or> \<not> ta_storage a then a
     else notify (N_CacheAnnounce ann_hash raw (map_option ie_name (get_interface a i))) a)"

definition learn_path ::
    "actor_env \<Rightarrow> bytes \<Rightarrow> PacketHeader \<Rightarrow> InterfaceId \<Rightarrow> bool \<Rightarrow> bytes \<Rightarrow> TransportActor \<Rightarrow> TransportActor" where
  "learn_path env raw header i rate_blocked random_hash a =
    (let h = ph_destination_hash header;
         entry = announced_path env a raw header i random_hash;
         a = (if \<not> rate_blocked \<and> (ta_is_transport_enabled a \<or> is_local_client_interface a i)
                 \<and> ph_context header \<noteq> Ctx_PathResponse \<and> ph_hops header < PATHFINDER_M
              then queue_rebroadcast env raw header i a else a);
         a = install_path env h entry i a
     in if hm_contains (ta_discovery_path_requests a) h then
          (case path_response_from_cached_announce a raw h (ph_hops header) of
             Some response \<Rightarrow> finish_recursive_discovery env h response i (ae_now env) a
           | None \<Rightarrow> a)
        else a)"

definition describe_announce :: "PacketHeader \<Rightarrow> bytes option \<Rightarrow> bytes \<Rightarrow> TransportActor \<Rightarrow> TransportActor" where
  "describe_announce header ratchet ann_hash a =
     a\<lparr>ta_recent_announces := hm_update (ph_destination_hash header) (\<lambda>e. e\<lparr>rn_hops := ph_hops header, rn_ratchet := ratchet,
       rn_packet_hash := Some ann_hash, rn_is_path_response := (ph_context header = Ctx_PathResponse)\<rparr>) (ta_recent_announces a)\<rparr>"

text \<open>A path response from a local client answers the peer that asked for the path.\<close>

definition answer_waiting_peer :: "actor_env \<Rightarrow> bytes \<Rightarrow> PacketHeader \<Rightarrow> InterfaceId \<Rightarrow> TransportActor \<Rightarrow> TransportActor" where
  "answer_waiting_peer env raw header i a =
    (let h = ph_destination_hash header
     in if is_local_client_interface a i \<and> ph_context header = Ctx_PathResponse then
          (case hm_get (ta_pending_local_path_requests a) h of
             Some waiting \<Rightarrow>
               let a = a\<lparr>ta_pending_local_path_requests := hm_remove h (ta_pending_local_path_requests a)\<rparr>
               in (case path_response_from_cached_announce a raw h (ph_hops header) of
                     Some response \<Rightarrow> fst (send_to_interface env waiting response a)
                   | None \<Rightarrow> a)
           | None \<Rightarrow> a)
        else a)"

definition publish_announce ::
    "actor_env \<Rightarrow> bytes \<Rightarrow> PacketHeader \<Rightarrow> InterfaceId \<Rightarrow> AnnounceData \<Rightarrow> Identity \<Rightarrow> TransportActor \<Rightarrow> TransportActor" where
  "publish_announce env raw header i ad identity a =
    (let ann_hash = actor_packet_hash env raw (header_type (ph_flags header));
         a = cache_announce_to_disk ann_hash raw i a;
         a = describe_announce header (ad_ratchet ad) ann_hash a;
         a = answer_waiting_peer env raw header i a;
         a = send_announce_to_local_clients env raw (ph_destination_hash header) (ph_hops header) (Some i) Ctx_None a
     in if ta_announce_handlers a = [] then a else dispatch_announce env raw header ad identity a)"

definition process_announce ::
    "actor_env \<Rightarrow> bytes \<Rightarrow> PacketHeader \<Rightarrow> nat \<Rightarrow> InterfaceId \<Rightarrow> TransportActor \<Rightarrow> TransportActor" where
  "process_announce env raw header data_offset i a =
    (let h = ph_destination_hash header
     in if h \<in> ta_local_destinations a then a
        else case check_announce env a raw header data_offset of
          Inl violation \<Rightarrow> if violation then protocol_violation i a else a
        | Inr (ad, identity) \<Rightarrow>
            let (a, held) = ingress_announce env raw header i a
            in if held then a
               else if is_err (AnnounceData_validate_destination_binding (ae_lib env) h identity
                      (Option.bind (hm_get (ta_recent_announces a) h) rn_public_key) ad)
               then protocol_violation i a
               else
                 let a = remember_announce env header ad identity a
                 in if ph_hops header \<ge> PATHFINDER_M then a
                    else
                      let (a, rate_blocked) = account_rate env header i a;
                          a = observe_rebroadcast env header a;
                          (a, suppressed) = is_path_interface_suppressed h i (ae_now env) a
                      in if suppressed \<or> \<not> should_add_path (ae_now env) (ta_path_table a) h (ph_hops header) (ad_random_hash ad) then a
                         else publish_announce env raw header i ad identity
                                (learn_path env raw header i rate_blocked (ad_random_hash ad) a))"

subsection \<open>Filters\<close>

text \<open>The most bytes a clear packet may have; \<open>None\<close> when the packet is dropped, with the actor then.\<close>

definition wire_budget :: "InboundOrigin \<Rightarrow> InboundPacket \<Rightarrow> TransportActor \<Rightarrow> TransportActor \<times> nat option" where
  "wire_budget origin packet a =
    (if origin = IO_CachedAnnounce then (a, Some 500)
     else case get_interface a (ip_interface_id packet) of
       None \<Rightarrow> (a, None)
     | Some entry \<Rightarrow>
         if \<not> InterfaceOwner_is_current (ta_owners a) (ie_owner entry) then (a, None)
         else if length (ip_raw packet) > unat (max_wire_packet_bytes (ie_packet_capacity entry))
         then (protocol_violation (ip_interface_id packet) a, None)
         else (case InterfaceEntry_effective_clear_mtu entry of Inr n \<Rightarrow> (a, Some (unat n)) | Inl _ \<Rightarrow> (a, None)))"

definition open_ifac :: "actor_env \<Rightarrow> InboundOrigin \<Rightarrow> InboundPacket \<Rightarrow> TransportActor \<Rightarrow> bytes option" where
  "open_ifac env origin packet a =
    (case (if origin \<noteq> IO_Wire then None else get_interface a (ip_interface_id packet)) of
       None \<Rightarrow> Some (ip_raw packet)
     | Some entry \<Rightarrow>
         (case ie_ifac_key entry of
            Some key \<Rightarrow> ifac_verify (ae_lib env) (ed_sign (ae_curve env)) (ip_raw packet) key (ie_ifac_size entry)
          | None \<Rightarrow> if has_ifac_flag (ip_raw packet) then None else Some (ip_raw packet)))"

definition link_request_refused :: "TransportActor \<Rightarrow> bytes \<Rightarrow> PacketHeader \<Rightarrow> nat \<Rightarrow> InterfaceId \<Rightarrow> bool" where
  "link_request_refused a raw header data_offset i \<longleftrightarrow>
     packet_type (ph_flags header) = PT_LinkRequest
   \<and> (case parse_request_signalling (drop data_offset raw) of
        Inl _ \<Rightarrow> True
      | Inr signal \<Rightarrow>
          (case get_interface a i of
             None \<Rightarrow> True
           | Some ingress \<Rightarrow> is_err (InterfaceEntry_link_ceiling i ingress)
               \<or> (ph_destination_hash header \<in> ta_local_destinations a \<and> ls_mode signal \<noteq> DEFAULT_LINK_MODE)))"

text \<open>The packet filter before the hash list: for another transport, or a plain or group packet that must not travel.\<close>

definition filtered_packet :: "TransportActor \<Rightarrow> PacketHeader \<Rightarrow> InterfaceId \<Rightarrow> bool" where
  "filtered_packet a header i \<longleftrightarrow>
    (let from_shared_owner = (ta_is_shared_instance a \<and> is_shared_instance_peer_interface a i)
     in \<not> from_shared_owner
      \<and> ((packet_type (ph_flags header) \<noteq> PT_Announce \<and> ph_transport_id header \<noteq> None
            \<and> ph_transport_id header \<noteq> ta_transport_identity_hash a)
         \<or> (\<not> repeatable_context (ph_context header)
            \<and> (destination_type (ph_flags header) = DT_Plain \<or> destination_type (ph_flags header) = DT_Group)
            \<and> (packet_type (ph_flags header) = PT_Announce \<or> ph_hops header > 1))))"

definition defer_hashlist :: "TransportActor \<Rightarrow> PacketHeader \<Rightarrow> bool" where
  "defer_hashlist a header \<longleftrightarrow>
     LinkTable_get (ta_link_table a) (ph_destination_hash header) \<noteq> None
   \<or> packet_type (ph_flags header) = PT_LinkRequest \<or> ph_context header = Ctx_Lrproof"

text \<open>Deduplication; \<open>False\<close> for a duplicate that must be dropped.\<close>

definition admit_hash :: "actor_env \<Rightarrow> bytes \<Rightarrow> PacketHeader \<Rightarrow> TransportActor \<Rightarrow> TransportActor \<times> bool" where
  "admit_hash env raw header a =
    (if repeatable_context (ph_context header) \<or> defer_hashlist a header then (a, True)
     else
       let (hashlist, fresh) = PacketHashlist_insert (ta_packet_hashlist a) (actor_packet_hash env raw (header_type (ph_flags header)))
       in (a\<lparr>ta_packet_hashlist := hashlist\<rparr>,
           fresh \<or> (packet_type (ph_flags header) = PT_Announce \<and> destination_type (ph_flags header) = DT_Single)))"

definition dispatch_packet ::
    "actor_env \<Rightarrow> bytes \<Rightarrow> PacketHeader \<Rightarrow> nat \<Rightarrow> InterfaceId \<Rightarrow> PacketMetrics \<Rightarrow> TransportActor \<Rightarrow> TransportActor" where
  "dispatch_packet env raw header data_offset i metrics a =
    (let header = header\<lparr>ph_hops := adjusted_inbound_hops a (ph_hops header) i\<rparr>
     in case packet_type (ph_flags header) of
          PT_Announce \<Rightarrow> process_announce env raw header data_offset i a
        | PT_LinkRequest \<Rightarrow> process_link_request env raw header i metrics a
        | PT_Proof \<Rightarrow> process_proof env raw header i metrics a
        | PT_Data \<Rightarrow> process_data env raw header i metrics a)"

definition inbound_clear :: "actor_env \<Rightarrow> bytes \<Rightarrow> InboundPacket \<Rightarrow> TransportActor \<Rightarrow> TransportActor" where
  "inbound_clear env raw packet a =
    (let i = ip_interface_id packet
     in case PacketHeader_unpack raw of
          Inl _ \<Rightarrow> protocol_violation i a
        | Inr (header, data_offset) \<Rightarrow>
            if ph_hops header \<ge> PATHFINDER_M then protocol_violation i a
            else if filtered_packet a header i then packet_filter_hit i a
            else if link_request_refused a raw header data_offset i then a
            else
              let metrics = \<lparr>pm_rssi = ip_rssi packet, pm_snr = ip_snr packet, pm_q = ip_q packet\<rparr>;
                  a = record_packet_metrics (actor_packet_hash env raw (header_type (ph_flags header))) metrics a;
                  (a, fresh) = admit_hash env raw header a
              in if \<not> fresh then packet_filter_hit i a
                 else dispatch_packet env raw header data_offset i metrics a)"

definition on_inbound_inner :: "actor_env \<Rightarrow> InboundPacket \<Rightarrow> InboundOrigin \<Rightarrow> TransportActor \<Rightarrow> TransportActor" where
  "on_inbound_inner env packet origin a =
    (let i = ip_interface_id packet;
         a = (if origin = IO_Wire
              then a\<lparr>ta_traffic := TrafficCounter_record_rx i (word_of_nat (length (ip_raw packet))) (ta_traffic a)\<rparr> else a);
         (a, budget) = wire_budget origin packet a
     in case budget of
          None \<Rightarrow> a
        | Some clear_limit \<Rightarrow>
            (case open_ifac env origin packet a of
               None \<Rightarrow> ifac_violation i a
             | Some raw \<Rightarrow>
                 if length raw > clear_limit then protocol_violation i a else inbound_clear env raw packet a))"

definition on_inbound :: "actor_env \<Rightarrow> InboundPacket \<Rightarrow> TransportActor \<Rightarrow> TransportActor" where
  "on_inbound env packet = on_inbound_inner env packet IO_Wire"

definition on_released_announce :: "actor_env \<Rightarrow> HeldAnnounce \<Rightarrow> TransportActor \<Rightarrow> TransportActor" where
  "on_released_announce env announce = on_inbound_inner env
     \<lparr>ip_raw = ha_raw announce, ip_interface_id = ha_receiving_interface_id announce, ip_rssi = None, ip_snr = None, ip_q = None\<rparr>
     IO_HeldAnnounce"

definition on_cached_announce :: "actor_env \<Rightarrow> InboundPacket \<Rightarrow> TransportActor \<Rightarrow> TransportActor" where
  "on_cached_announce env packet a =
    (if length (ip_raw packet) > 500 \<or> (case PacketHeader_unpack (ip_raw packet) of
          Inr (header, _) \<Rightarrow> packet_type (ph_flags header) \<noteq> PT_Announce | Inl _ \<Rightarrow> True)
     then a else on_inbound_inner env packet IO_CachedAnnounce a)"

end
