(* ===== verification/Actor_Messages.thy ===== *)
theory Actor_Messages
  imports Actor_Inbound
begin

text \<open>
  The initial state of the transport actor and more of its messages (\<open>handle_message\<close> of \<open>actor/mod.rs\<close>), and the messages as
  events. After each message the code also runs the background announce lane, which is not modelled.
\<close>

subsection \<open>The initial state\<close>

text \<open>The channels and interface registrations that exist in the process are given.\<close>

definition TransportActor_new_with_capacity ::
    "nat \<Rightarrow> OwnerStore \<Rightarrow> (nat \<Rightarrow> bytes chan) \<Rightarrow> (nat \<Rightarrow> DestinationEvent chan) \<Rightarrow> (nat \<Rightarrow> AnnounceHandlerEvent chan)
     \<Rightarrow> TransportActor" where
  "TransportActor_new_with_capacity hashlist_cap owners ifaces dests handlers = \<lparr>
     ta_path_table = PathTable_new, ta_link_table = LinkTable_new, ta_announce_table = AnnounceTable_new,
     ta_held_announces = hm_empty, ta_reverse_table = ReverseTable_new, ta_tunnel_table = TunnelTable_new,
     ta_packet_hashlist = PacketHashlist_new_with_capacity hashlist_cap, ta_rate_table = RateTable_new,
     ta_blackhole_table = BlackholeTable_new, ta_traffic = hm_empty, ta_packet_metrics = hm_empty,
     ta_packet_metrics_order = [], ta_receipt_table = hm_empty, ta_receipt_msg_ids = hm_empty,
     ta_receipt_proof_txs = hm_empty, ta_receipt_updates = hm_empty, ta_interfaces = hm_empty,
     ta_local_destinations = {}, ta_destination_channels = hm_empty, ta_local_link_routes = hm_empty,
     ta_pending_local_link_requests = hm_empty, ta_link_endpoints = hm_empty, ta_path_requests = hm_empty,
     ta_discovery_path_requests = hm_empty, ta_discovery_pr_tags = hm_empty, ta_pending_discovery_prs = [],
     ta_pending_path_request_admissions = [], ta_path_interface_suppressions = hm_empty, ta_last_discovery_pr_tx = 0,
     ta_pending_local_path_requests = hm_empty, ta_path_states = hm_empty, ta_path_waiters = hm_empty,
     ta_is_transport_enabled = False, ta_transport_identity_hash = None, ta_local_hops_delta = 0,
     ta_is_shared_instance = False, ta_shared_instance_client_mode = False, ta_storage = False, ta_state_dirty = False,
     ta_recent_announces = hm_empty, ta_channel_drops = 0, ta_announce_handlers = [],
     ta_pending_announce_admissions = [],
     ta_announce_pressure = \<lparr>ap_queued = 0, ap_offered = 0, ap_started = 0, ap_expired = 0, ap_coalesced = 0,
       ap_retained = 0, ap_retired = 0\<rparr>,
     ta_offered_announces = {}, ta_stack_replies = [], ta_owners = owners, ta_iface_chans = ifaces,
     ta_dest_chans = dests, ta_handler_chans = handlers, ta_next_id = 0, ta_notices = []\<rparr>"

subsection \<open>Messages\<close>

definition register_destination :: "bytes \<Rightarrow> string \<Rightarrow> nat option \<Rightarrow> TransportActor \<Rightarrow> TransportActor" where
  "register_destination h app_name delivery_tx a =
    (let a = a\<lparr>ta_local_destinations := insert h (ta_local_destinations a)\<rparr>
     in case delivery_tx of
          None \<Rightarrow> a
        | Some tx \<Rightarrow>
            let a = a\<lparr>ta_destination_channels := hm_insert h tx (ta_destination_channels a)\<rparr>
            in if ta_is_shared_instance a
               then fst (deliver_event tx (DE_AnnounceRequested \<lparr>ar_app_name = app_name, ar_path_response = True, ar_tag = None,
                      ar_attached_interface = None\<rparr>) a)
               else a)"

definition set_receipt_timeout :: "bytes \<Rightarrow> duration \<Rightarrow> TransportActor \<Rightarrow> TransportActor \<times> bool" where
  "set_receipt_timeout h timeout a =
    (case hm_get (ta_receipt_table a) h of
       Some receipt \<Rightarrow>
         if pr_status receipt = Rcpt_Sent
         then (a\<lparr>ta_receipt_table := hm_update h (\<lambda>r. r\<lparr>pr_timeout := Some timeout\<rparr>) (ta_receipt_table a)\<rparr>, True)
         else (a, False)
     | None \<Rightarrow> (a, False))"

definition new_receipt :: "actor_env \<Rightarrow> bytes \<Rightarrow> bytes \<Rightarrow> bytes \<Rightarrow> bytes \<Rightarrow> duration option \<Rightarrow> PacketReceipt" where
  "new_receipt env truncated full destination_hash destination_public_key timeout =
     PacketReceipt_set_destination_identity destination_hash (Some destination_public_key)
       (PacketReceipt_new (ae_instant env) full truncated (Some (case timeout of Some d \<Rightarrow> d | None \<Rightarrow> secs 180)))"

definition register_receipt ::
    "actor_env \<Rightarrow> bytes \<Rightarrow> bytes \<Rightarrow> bytes \<Rightarrow> bytes \<Rightarrow> string \<Rightarrow> duration option \<Rightarrow> nat option \<Rightarrow> TransportActor \<Rightarrow> TransportActor" where
  "register_receipt env truncated full destination_hash destination_public_key msg_id timeout proof_tx a = a\<lparr>
     ta_receipt_table := hm_insert truncated (new_receipt env truncated full destination_hash destination_public_key timeout)
       (ta_receipt_table a),
     ta_receipt_msg_ids := hm_insert truncated msg_id (ta_receipt_msg_ids a),
     ta_receipt_proof_txs := (case proof_tx of
        Some tx \<Rightarrow> hm_insert truncated tx (ta_receipt_proof_txs a) | None \<Rightarrow> hm_remove truncated (ta_receipt_proof_txs a))\<rparr>"

definition await_path :: "actor_env \<Rightarrow> bytes \<Rightarrow> nat \<Rightarrow> TransportActor \<Rightarrow> TransportActor" where
  "await_path env dest reply a =
    (if PathTable_has_path (ae_now env) (ta_path_table a) dest then notify (N_PathWaiter reply True) a
     else
       let a = on_path_request env dest a;
           waiters = (case hm_get (ta_path_waiters a) dest of Some ws \<Rightarrow> ws | None \<Rightarrow> [])
       in a\<lparr>ta_path_waiters := hm_insert dest (waiters @ [(reply, ae_now env)]) (ta_path_waiters a)\<rparr>)"

definition deregister_announce_handler :: "bytes option \<Rightarrow> TransportActor \<Rightarrow> TransportActor" where
  "deregister_announce_handler aspects a = a\<lparr>ta_announce_handlers := filter (\<lambda>r.
     \<not> ch_closed (ta_handler_chans a (ahr_tx r))
     \<and> (ahr_ownership r = AHO_Subscription
        \<or> (case aspects of Some target \<Rightarrow> ahr_aspect_filter r \<noteq> Some target | None \<Rightarrow> False))) (ta_announce_handlers a)\<rparr>"

definition deregister_announce_subscription :: "u64 \<Rightarrow> TransportActor \<Rightarrow> TransportActor \<times> bool" where
  "deregister_announce_subscription i a =
    (a\<lparr>ta_announce_handlers := filter (\<lambda>r. ahr_id r \<noteq> i \<and> \<not> ch_closed (ta_handler_chans a (ahr_tx r))) (ta_announce_handlers a)\<rparr>,
     list_ex (\<lambda>r. ahr_id r = i) (ta_announce_handlers a))"

definition request_announces_from_local_destinations :: "TransportActor \<Rightarrow> TransportActor" where
  "request_announces_from_local_destinations a =
     fold (\<lambda>(_, tx) a. fst (deliver_event tx (DE_AnnounceRequested \<lparr>ar_app_name = [], ar_path_response = False, ar_tag = None,
       ar_attached_interface = None\<rparr>) a)) (ta_destination_channels a) a"

definition shared_connection_lost :: "TransportActor \<Rightarrow> TransportActor" where
  "shared_connection_lost a =
     clear_shared_connection_state ((terminate_shared_peer_link_endpoints a)\<lparr>ta_is_shared_instance := False,
       ta_shared_instance_client_mode := True\<rparr>)"

definition shared_connection_restored :: "TransportActor \<Rightarrow> TransportActor" where
  "shared_connection_restored a =
     request_announces_from_local_destinations
       ((clear_shared_connection_state ((terminate_shared_peer_link_endpoints a)\<lparr>ta_shared_instance_client_mode := True\<rparr>))
          \<lparr>ta_is_shared_instance := True\<rparr>)"

subsection \<open>Events\<close>

datatype actor_event =
    AE_Inbound InboundPacket
  | AE_ReleasedAnnounce HeldAnnounce
  | AE_CachedAnnounce InboundPacket
  | AE_RegisterDestination bytes string "nat option"
  | AE_DeregisterDestination bytes
  | AE_DeregisterInterface InterfaceId
  | AE_RequestPath bytes
  | AE_RequestPathWithOptions bytes PathRequestOptions
  | AE_AutomaticPathRequest bytes
  | AE_AwaitPath bytes nat
  | AE_RequestDiscovery bytes InterfaceId
  | AE_CancelDiscovery DiscoveryRequester
  | AE_PollPathRequests
  | AE_RegisterReceipt bytes bytes bytes bytes string "duration option" "nat option"
  | AE_SetReceiptTimeout bytes duration
  | AE_DeregisterAnnounceHandler "bytes option"
  | AE_DeregisterAnnounceSubscription u64
  | AE_SharedConnectionLost
  | AE_SharedConnectionRestored

fun actor_handle :: "actor_env \<Rightarrow> actor_event \<Rightarrow> TransportActor \<Rightarrow> TransportActor" where
  "actor_handle env (AE_Inbound p) a = on_inbound env p a"
| "actor_handle env (AE_ReleasedAnnounce h) a = on_released_announce env h a"
| "actor_handle env (AE_CachedAnnounce p) a = on_cached_announce env p a"
| "actor_handle env (AE_RegisterDestination h app tx) a = register_destination h app tx a"
| "actor_handle env (AE_DeregisterDestination h) a = deregister_destination h a"
| "actor_handle env (AE_DeregisterInterface i) a = deregister_interface i a"
| "actor_handle env (AE_RequestPath d) a = on_path_request env d a"
| "actor_handle env (AE_RequestPathWithOptions d opts) a = on_path_request_with_options env d opts a"
| "actor_handle env (AE_AutomaticPathRequest d) a = on_automatic_path_request env d a"
| "actor_handle env (AE_AwaitPath d reply) a = await_path env d reply a"
| "actor_handle env (AE_RequestDiscovery d i) a = fst (request_recursive_discovery env d i a)"
| "actor_handle env (AE_CancelDiscovery token) a = fst (cancel_discovery_requester env token a)"
| "actor_handle env AE_PollPathRequests a = process_pending_path_request_admissions env (ae_now env) a"
| "actor_handle env (AE_RegisterReceipt tr full d k msg to tx) a = register_receipt env tr full d k msg to tx a"
| "actor_handle env (AE_SetReceiptTimeout h to) a = fst (set_receipt_timeout h to a)"
| "actor_handle env (AE_DeregisterAnnounceHandler asp) a = deregister_announce_handler asp a"
| "actor_handle env (AE_DeregisterAnnounceSubscription i) a = fst (deregister_announce_subscription i a)"
| "actor_handle env AE_SharedConnectionLost a = shared_connection_lost a"
| "actor_handle env AE_SharedConnectionRestored a = shared_connection_restored a"

fun actor_run :: "(actor_env \<times> actor_event) list \<Rightarrow> TransportActor \<Rightarrow> TransportActor" where
  "actor_run [] a = a"
| "actor_run ((env, ev) # evs) a = actor_run evs (actor_handle env ev a)"

end
