(* ===== verification/Actor_Routing.thy ===== *)
theory Actor_Routing
  imports Actor_Messages
begin

text \<open>
  The part of the actor that routing depends on: its path, link and tunnel tables and the remembered announces. Sending can
  fail and then remove an interface with everything that uses it, or clear the state of a shared connection; no operation of
  \<open>Actor_Egress\<close> and \<open>Actor_Discovery\<close> changes the routing state in another way. The lemmas here state this for each of them.
\<close>

subsection \<open>The routing state, and how sending changes it\<close>

record routing =
  rg_paths :: PathTable
  rg_links :: LinkTable
  rg_tunnels :: TunnelTable
  rg_known :: "(bytes, RecentAnnounce) hmap"

definition core :: "TransportActor \<Rightarrow> routing" where
  "core a = \<lparr>rg_paths = ta_path_table a, rg_links = ta_link_table a, rg_tunnels = ta_tunnel_table a,
     rg_known = ta_recent_announces a\<rparr>"

inductive core_step :: "routing \<Rightarrow> routing \<Rightarrow> bool" where
  cs_retire: "core_step c (c\<lparr>rg_paths := fst (PathTable_drop_all_via i (rg_paths c)),
                             rg_links := LinkTable_remove_interface i (rg_links c),
                             rg_tunnels := fst (TunnelTable_void_interface i (rg_tunnels c))\<rparr>)"
| cs_clear: "core_step c (c\<lparr>rg_paths := PathTable_new, rg_links := LinkTable_new, rg_tunnels := TunnelTable_new\<rparr>)"

definition retires :: "TransportActor \<Rightarrow> TransportActor \<Rightarrow> bool" where
  "retires a b \<longleftrightarrow> core_step\<^sup>*\<^sup>* (core a) (core b)"

named_theorems core_simps
named_theorems retires_intros

lemma retires_refl [simp, intro]: "retires a a"
  by (simp add: retires_def)

lemma retires_trans: "retires a b \<Longrightarrow> retires b c \<Longrightarrow> retires a c"
  by (simp add: retires_def)

lemma retires_core: "core b = core a \<Longrightarrow> retires a b"
  by (simp add: retires_def)

lemma retires_cong: "core b = core b' \<Longrightarrow> retires a b = retires a b'"
  by (simp add: retires_def)

lemma retires_fold: "(\<And>x a. retires a (f x a)) \<Longrightarrow> retires a (fold f xs a)"
  by (induction xs arbitrary: a) (auto intro: retires_trans)

lemma retires_fold_fst: "(\<And>x a y. retires a (fst (f x (a, y)))) \<Longrightarrow> retires a (fst (fold f xs (a, y)))"
proof (induction xs arbitrary: a y)
  case (Cons x xs)
  then show ?case
    by (cases "f x (a, y)") (metis fold_simps(2) fst_conv retires_trans)
qed simp

lemma core_fold: "(\<And>x a. core (f x a) = core a) \<Longrightarrow> core (fold f xs a) = core a"
  by (induction xs arbitrary: a) auto

lemma core_updates [core_simps, simp]:
  "core (a\<lparr>ta_path_table := v0\<rparr>) = (core a)\<lparr>rg_paths := v0\<rparr>"
  "core (a\<lparr>ta_link_table := v1\<rparr>) = (core a)\<lparr>rg_links := v1\<rparr>"
  "core (a\<lparr>ta_recent_announces := v2\<rparr>) = (core a)\<lparr>rg_known := v2\<rparr>"
  "core (a\<lparr>ta_announce_table := w0\<rparr>) = core a"
  "core (a\<lparr>ta_held_announces := w1\<rparr>) = core a"
  "core (a\<lparr>ta_reverse_table := w2\<rparr>) = core a"
  "core (a\<lparr>ta_tunnel_table := v3\<rparr>) = (core a)\<lparr>rg_tunnels := v3\<rparr>"
  "core (a\<lparr>ta_packet_hashlist := w4\<rparr>) = core a"
  "core (a\<lparr>ta_rate_table := w5\<rparr>) = core a"
  "core (a\<lparr>ta_blackhole_table := w6\<rparr>) = core a"
  "core (a\<lparr>ta_traffic := w7\<rparr>) = core a"
  "core (a\<lparr>ta_packet_metrics := w8\<rparr>) = core a"
  "core (a\<lparr>ta_packet_metrics_order := w9\<rparr>) = core a"
  "core (a\<lparr>ta_receipt_table := w10\<rparr>) = core a"
  "core (a\<lparr>ta_receipt_msg_ids := w11\<rparr>) = core a"
  "core (a\<lparr>ta_receipt_proof_txs := w12\<rparr>) = core a"
  "core (a\<lparr>ta_receipt_updates := w13\<rparr>) = core a"
  "core (a\<lparr>ta_interfaces := w14\<rparr>) = core a"
  "core (a\<lparr>ta_local_destinations := w15\<rparr>) = core a"
  "core (a\<lparr>ta_destination_channels := w16\<rparr>) = core a"
  "core (a\<lparr>ta_local_link_routes := w17\<rparr>) = core a"
  "core (a\<lparr>ta_pending_local_link_requests := w18\<rparr>) = core a"
  "core (a\<lparr>ta_link_endpoints := w19\<rparr>) = core a"
  "core (a\<lparr>ta_path_requests := w20\<rparr>) = core a"
  "core (a\<lparr>ta_discovery_path_requests := w21\<rparr>) = core a"
  "core (a\<lparr>ta_discovery_pr_tags := w22\<rparr>) = core a"
  "core (a\<lparr>ta_pending_discovery_prs := w23\<rparr>) = core a"
  "core (a\<lparr>ta_pending_path_request_admissions := w24\<rparr>) = core a"
  "core (a\<lparr>ta_path_interface_suppressions := w25\<rparr>) = core a"
  "core (a\<lparr>ta_last_discovery_pr_tx := w26\<rparr>) = core a"
  "core (a\<lparr>ta_pending_local_path_requests := w27\<rparr>) = core a"
  "core (a\<lparr>ta_path_states := w28\<rparr>) = core a"
  "core (a\<lparr>ta_path_waiters := w29\<rparr>) = core a"
  "core (a\<lparr>ta_is_transport_enabled := w30\<rparr>) = core a"
  "core (a\<lparr>ta_transport_identity_hash := w31\<rparr>) = core a"
  "core (a\<lparr>ta_local_hops_delta := w32\<rparr>) = core a"
  "core (a\<lparr>ta_is_shared_instance := w33\<rparr>) = core a"
  "core (a\<lparr>ta_shared_instance_client_mode := w34\<rparr>) = core a"
  "core (a\<lparr>ta_storage := w35\<rparr>) = core a"
  "core (a\<lparr>ta_state_dirty := w36\<rparr>) = core a"
  "core (a\<lparr>ta_channel_drops := w37\<rparr>) = core a"
  "core (a\<lparr>ta_announce_handlers := w38\<rparr>) = core a"
  "core (a\<lparr>ta_pending_announce_admissions := w39\<rparr>) = core a"
  "core (a\<lparr>ta_announce_pressure := w40\<rparr>) = core a"
  "core (a\<lparr>ta_offered_announces := w41\<rparr>) = core a"
  "core (a\<lparr>ta_stack_replies := w42\<rparr>) = core a"
  "core (a\<lparr>ta_owners := w43\<rparr>) = core a"
  "core (a\<lparr>ta_iface_chans := w44\<rparr>) = core a"
  "core (a\<lparr>ta_dest_chans := w45\<rparr>) = core a"
  "core (a\<lparr>ta_handler_chans := w46\<rparr>) = core a"
  "core (a\<lparr>ta_next_id := w47\<rparr>) = core a"
  "core (a\<lparr>ta_notices := w48\<rparr>) = core a"
  by (simp_all add: core_def)

lemma core_fields: "ta_path_table a = rg_paths (core a)" "ta_link_table a = rg_links (core a)"
  "ta_recent_announces a = rg_known (core a)" "ta_tunnel_table a = rg_tunnels (core a)"
  by (simp_all add: core_def)

lemma core_update_interface [core_simps, simp]: "core (update_interface i f a) = core a"
  by (simp add: core_def update_interface_def)

lemma core_notify [core_simps, simp]: "core (notify n a) = core a"
  by (simp add: core_def notify_def)

lemma core_protocol_violation [core_simps, simp]: "core (protocol_violation i a) = core a"
  by (simp add: protocol_violation_def)

lemma core_ifac_violation [core_simps, simp]: "core (ifac_violation i a) = core a"
  by (simp add: ifac_violation_def)

lemma core_packet_filter_hit [core_simps, simp]: "core (packet_filter_hit i a) = core a"
  by (simp add: packet_filter_hit_def)

lemma core_deliver_event [core_simps, simp]: "core (fst (deliver_event tx ev a)) = core a"
  by (simp add: deliver_event_def core_def split: prod.split sum.split)

lemma core_deliver_local [core_simps, simp]: "core (deliver_local h ev a) = core a"
  by (simp add: deliver_local_def split: option.split)

lemma core_fire_path_waiters [core_simps, simp]: "core (fst (fire_path_waiters h a)) = core a"
  by (simp add: fire_path_waiters_def core_def split: option.split)

lemma core_record_packet_metrics [core_simps, simp]: "core (record_packet_metrics h m a) = core a"
  by (simp add: record_packet_metrics_def core_def Let_def split: prod.split)

lemma core_notify_terminal [core_simps, simp]: "core (notify_link_endpoint_terminal e r n a) = core a"
  by (simp add: notify_link_endpoint_terminal_def core_def Let_def)

lemma core_terminate_with:
  assumes "\<And>h a. core (d h a) = core a"
  shows "core (terminate_link_endpoint_with d r n key a) = core a"
proof -
  have [simp]: "core (a\<lparr>ta_link_endpoints := x\<rparr>) = core a" for x :: "(bytes \<times> LinkEndpointRole, LinkEndpointEntry) hmap" and a
    by (simp add: core_def)
  show ?thesis
    by (auto simp: terminate_link_endpoint_with_def finish_link_endpoint_terminal_with_def Let_def assms split: option.split)
qed

lemma core_forget_destination [core_simps, simp]: "core (forget_destination h a) = core a"
  by (simp add: forget_destination_def core_def)

lemma core_deregister_destination_n: "core (deregister_destination_n n h a) = core a"
proof (induction n arbitrary: h a)
  case (Suc n)
  then show ?case
    by (simp add: terminate_link_endpoints_for_link_with_def core_fold core_terminate_with)
qed simp

lemma core_deregister_destination [core_simps, simp]: "core (deregister_destination h a) = core a"
  by (simp add: deregister_destination_def core_deregister_destination_n)

lemma core_terminate [core_simps, simp]: "core (terminate_link_endpoint r n key a) = core a"
  by (simp add: terminate_link_endpoint_def core_terminate_with)

lemma core_terminate_interface [core_simps, simp]: "core (terminate_link_endpoints_for_interface i r a) = core a"
  by (simp add: terminate_link_endpoints_for_interface_def core_fold)

lemma core_retire_orphaned [core_simps, simp]: "core (retire_orphaned_discovery_admissions a) = core a"
  by (simp add: retire_orphaned_discovery_admissions_def core_def)

lemma core_retire_discovery [core_simps, simp]: "core (retire_recursive_discovery_interface i a) = core a"
  by (simp add: retire_recursive_discovery_interface_def core_def retire_orphaned_discovery_admissions_def)

lemma core_retire_requests [core_simps, simp]: "core (retire_path_request_admissions i a) = core a"
  by (simp add: retire_path_request_admissions_def core_def)

lemma core_finish_cached [core_simps, simp]: "core (finish_cached_response c raw i a) = core a"
  by (simp add: finish_cached_response_def core_def Let_def split: option.split prod.split)

lemma core_complete_reply [core_simps, simp]: "core (complete_announce_reply r x a) = core a"
  by (simp add: complete_announce_reply_def split: option.split)

lemma core_retire_pending: "core (retire_pending_announces i kept rest a) = core a"
  by (induction i kept rest a rule: retire_pending_announces.induct) (auto simp: Let_def)

lemma core_retire_announces [core_simps, simp]: "core (retire_announce_interface i a) = core a"
  by (simp add: retire_announce_interface_def core_retire_pending Let_def)

lemma core_void_tunnel [core_simps, simp]:
  "core (void_tunnel_interface i a) = (core a)\<lparr>rg_tunnels := fst (TunnelTable_void_interface i (rg_tunnels (core a)))\<rparr>"
  by (simp add: void_tunnel_interface_def Let_def core_fields split: prod.split)

lemma retires_deregister: "retires a (deregister_interface_with_link_reason i r a)"
proof -
  let ?c = "(core a)\<lparr>rg_paths := fst (PathTable_drop_all_via i (rg_paths (core a))),
    rg_links := LinkTable_remove_interface i (rg_links (core a)),
    rg_tunnels := fst (TunnelTable_void_interface i (rg_tunnels (core a)))\<rparr>"
  have s: "core_step (core a) ?c" "core_step ?c (?c\<lparr>rg_paths := PathTable_new, rg_links := LinkTable_new, rg_tunnels := TunnelTable_new\<rparr>)"
    by (rule core_step.intros)+
  have "core (deregister_interface_with_link_reason i r a) \<in> {?c, ?c\<lparr>rg_paths := PathTable_new, rg_links := LinkTable_new, rg_tunnels := TunnelTable_new\<rparr>}"
    unfolding deregister_interface_with_link_reason_def Let_def clear_shared_connection_state_def
    by (simp add: core_fields split: option.split)
  then show ?thesis
    using s unfolding retires_def by (auto intro: rtranclp_trans)
qed

lemma core_record_request_owner [core_simps, simp]: "core (record_request_owner i e o' a) = core a"
  by (simp add: record_request_owner_def Let_def split: option.split prod.split)

lemma core_try_send [core_simps, simp]: "core (fst (try_send_to_interface env i raw a)) = core a"
  by (simp add: try_send_to_interface_def Let_def split: option.split prod.split)

lemma retires_send [retires_intros]: "retires a (fst (send_to_interface env i raw a))"
proof (cases "try_send_to_interface env i raw a")
  case (Pair b out)
  then have "core b = core a"
    using core_try_send [of env i raw a] by simp
  then show ?thesis
    using retires_deregister [of b] Pair
    by (auto simp: send_to_interface_def retires_def split: InterfaceSendOutcome.split)
qed

lemma retires_broadcast [retires_intros]: "retires a (fst (broadcast_on_interfaces env raw except a))"
  unfolding broadcast_on_interfaces_def Let_def
  by (rule retires_fold_fst) (simp add: Let_def case_prod_beta retires_send)

lemma core_try_prepared [core_simps, simp]: "core (fst (try_prepared_announce e wire a)) = core a"
  by (simp add: try_prepared_announce_def Let_def split: option.split prod.split)

lemma retires_deregister_core: "core b = core a \<Longrightarrow> retires a (deregister_interface_with_link_reason i r b)"
  using retires_deregister [of b] by (simp add: retires_def)

lemma retires_admit_announce [retires_intros]: "retires a (fst (admit_announce env i raw dl reply att cached a))"
proof -
  have "core b = core a" if "try_prepared_announce e wire a = (b, out)" for e wire b out
    using core_try_prepared [of e wire a] that by simp
  then show ?thesis
    unfolding admit_announce_def
    by (auto simp: Let_def intro!: retires_core retires_deregister_core split: option.split prod.split)
qed

lemma retires_send_or_retain [retires_intros]: "retires a (fst (send_or_retain_announce env i raw att a))"
  by (simp add: send_or_retain_announce_def retires_admit_announce)

lemma retires_announce_clients [retires_intros]:
  "retires a (send_announce_to_local_clients env raw h hops except ctx a)"
  by (auto simp: send_announce_to_local_clients_def Let_def intro!: retires_fold retires_send_or_retain)

lemma core_queue_announce [core_simps, simp]: "core (queue_announce env raw i a) = core a"
  by (simp add: queue_announce_def Let_def split: option.split prod.split)

lemma core_broadcast_announce [core_simps, simp]: "core (broadcast_announce_on_interfaces env raw except a) = core a"
  by (simp add: broadcast_announce_on_interfaces_def core_fold)

subsection \<open>Discovery keeps the routing state\<close>

lemma retires_try_admit [retires_intros]: "retires a (fst (try_admit_path_request env d i raw rec now a))"
proof (cases "get_interface a i")
  case (Some entry)
  define lim where "lim = (if rec then should_egress_limit_pr (ae_instant env) (ie_ingress entry) else (ie_ingress entry, False))"
  obtain b out where b: "try_send_to_interface env i raw (update_interface i (\<lambda>e. e\<lparr>ie_ingress := fst lim\<rparr>) a) = (b, out)"
    by fastforce
  then have "core b = core a"
    using core_try_send [of env i raw "update_interface i (\<lambda>e. e\<lparr>ie_ingress := fst lim\<rparr>) a"] by simp
  with Some b show ?thesis
    unfolding try_admit_path_request_def
    by (cases out) (simp_all add: lim_def [symmetric] case_prod_beta Let_def retires_core retires_deregister_core)
qed (simp add: try_admit_path_request_def)

lemma retires_admit_path_request [retires_intros]: "retires a (admit_path_request env d i raw rec a)"
proof (cases "try_admit_path_request env d i raw rec (ae_now env) a")
  case (Pair b adm)
  then have "retires a b"
    using retires_try_admit [of a env d i raw rec "ae_now env"] by simp
  then show ?thesis
    using Pair by (auto simp: admit_path_request_def Let_def retires_def split: option.split)
qed

lemma retires_send_path_request [retires_intros]: "retires a (send_path_request env d i tag rec a)"
  by (simp add: send_path_request_def retires_admit_path_request)

lemma retires_forward_path_request [retires_intros]: "retires a (forward_path_request env d except tag rec a)"
  by (simp add: forward_path_request_def retires_fold retires_send_path_request)

lemma core_cull_discovery [core_simps, simp]: "core (cull_recursive_discovery now a) = core a"
  by (simp add: cull_recursive_discovery_def)

lemma core_admit_requester [core_simps, simp]: "core (fst (admit_discovery_requester d i now a)) = core a"
proof -
  have [simp]: "core (retire_dead_operation d now a) = core a" for a
    by (simp add: retire_dead_operation_def split: option.split)
  show ?thesis
    by (simp add: admit_discovery_requester_def join_discovery_def start_discovery_def Let_def split: option.split)
qed

lemma core_begin_or_join [core_simps, simp]: "core (fst (begin_or_join_recursive_discovery d i now a)) = core a"
proof (cases "admit_discovery_requester d i now a")
  case (Pair b r)
  then show ?thesis
    using core_admit_requester [of d i now a]
    by (simp add: begin_or_join_recursive_discovery_def split: sum.split)
qed

lemma retires_finish_discovery [retires_intros]: "retires a (finish_recursive_discovery env d resp i now a)"
proof -
  have *: "retires a (fold (\<lambda>w a. let j = f w; ok = g a w in if ok then fst (send_or_retain_announce env j resp True a) else a) ws b)"
    if "core b = core a" for f g ws b
    using retires_fold [of "\<lambda>w a. let j = f w; ok = g a w in if ok then fst (send_or_retain_announce env j resp True a) else a" b ws]
      that by (auto simp: Let_def retires_def retires_send_or_retain [unfolded retires_def])
  show ?thesis
    unfolding finish_recursive_discovery_def
    by (auto simp: Let_def intro!: retires_core * [unfolded Let_def] split: option.split)
qed

lemma core_handle_cache_request [core_simps, simp]: "core (handle_cache_request env raw header a) = core a"
  by (simp add: handle_cache_request_def Let_def split: option.split sum.split prod.split)

lemma core_queue_path_response [core_simps, simp]: "core (queue_path_response env d r i path resp a) = core a"
  by (simp add: queue_path_response_def Let_def split: option.split prod.split)

lemma retires_via: "core b = core a \<Longrightarrow> retires b c \<Longrightarrow> retires a c"
  by (simp add: retires_def)

lemma retires_search_unknown [retires_intros]: "retires a (search_unknown_path env d tag i a)"
proof -
  have "core b = core a" if "begin_or_join_recursive_discovery d i now (update_interface i f a) = (b, st)" for f now b st
    using core_begin_or_join [of d i now "update_interface i f a"] that by simp
  then show ?thesis
    unfolding search_unknown_path_def
    by (auto simp: Let_def intro: retires_core retires_forward_path_request retires_via [OF _ retires_forward_path_request]
        intro!: retires_fold retires_send_path_request split: option.split prod.split)
qed

lemma core_note_local [core_simps, simp]: "core (note_local_path_request env d i a) = core a"
  by (simp add: note_local_path_request_def split: option.split)

lemma retires_answer_known [retires_intros]: "retires a (answer_known_path env d r tag i path a)"
  by (auto simp: answer_known_path_def retires_core retires_search_unknown split: option.split)

lemma retires_answer [retires_intros]: "retires a (answer_path_request env d r tag i a)"
  by (auto simp: answer_path_request_def Let_def retires_core split: option.split
      intro: retires_via [OF _ retires_search_unknown] retires_via [OF _ retires_answer_known])

lemma retires_handle_path_request [retires_intros]: "retires a (handle_inbound_path_request env data i a)"
  by (auto simp: handle_inbound_path_request_def Let_def retires_core split: option.split
      intro: retires_via [OF _ retires_answer])

end
