(* ===== verification/Interface_Removal.thy ===== *)
theory Interface_Removal
  imports Actor_Routing
begin

text \<open>
  Removing destinations and interfaces. The mutual recursion of \<open>deregister_destination\<close> and the termination of link
  endpoints ends, and the bounded definition satisfies the equation of the code; a removed interface leaves nothing behind.
\<close>

subsection \<open>The recursion ends\<close>

definition routes_len :: "TransportActor \<Rightarrow> nat" where
  "routes_len a = hm_len (ta_local_link_routes a)"

definition smaller :: "TransportActor \<Rightarrow> TransportActor \<Rightarrow> bool" where
  "smaller a b \<longleftrightarrow> routes_len b \<le> routes_len a \<and> set (ta_link_endpoints b) \<subseteq> set (ta_link_endpoints a)
     \<and> ta_interfaces b = ta_interfaces a \<and> ta_owners b = ta_owners a"

lemma smaller_refl [simp]: "smaller a a"
  by (simp add: smaller_def)

lemma smaller_trans: "smaller a b \<Longrightarrow> smaller b c \<Longrightarrow> smaller a c"
  unfolding smaller_def by auto

lemma smaller_fold: "(\<And>x a. smaller a (f x a)) \<Longrightarrow> smaller a (fold f xs a)"
  by (induction xs arbitrary: a) (auto intro: smaller_trans)

lemma hm_remove_smaller: "hm_len (hm_remove k m) \<le> hm_len m" "hm_contains m k \<Longrightarrow> hm_len (hm_remove k m) < hm_len m"
  "set (hm_remove k m) \<subseteq> set m"
  by (induction m) (auto simp: hm_len_def hm_remove_def hm_contains_def hm_get_def less_Suc_eq_le split: if_splits)

lemma smaller_forget: "smaller a (forget_destination h a)"
  by (simp add: smaller_def forget_destination_def routes_len_def hm_remove_smaller)

lemma notify_terminal_frame [simp]:
  "ta_local_link_routes (notify_link_endpoint_terminal e r n a) = ta_local_link_routes a"
  "ta_link_endpoints (notify_link_endpoint_terminal e r n a) = ta_link_endpoints a"
  "ta_interfaces (notify_link_endpoint_terminal e r n a) = ta_interfaces a"
  "ta_owners (notify_link_endpoint_terminal e r n a) = ta_owners a"
  by (simp_all add: notify_link_endpoint_terminal_def Let_def)

lemma smaller_terminate:
  assumes "\<And>h a. smaller a (d h a)"
  shows "smaller a (terminate_link_endpoint_with d r n key a)"
proof -
  have "smaller a (notify_link_endpoint_terminal e r n (a\<lparr>ta_link_endpoints := hm_remove key (ta_link_endpoints a)\<rparr>))" for e
    by (simp add: smaller_def routes_len_def hm_remove_smaller)
  then show ?thesis
    using assms by (auto simp: terminate_link_endpoint_with_def finish_link_endpoint_terminal_with_def Let_def
        intro: smaller_trans split: option.split)
qed

lemma smaller_terminate_link: "(\<And>h a. smaller a (d h a)) \<Longrightarrow> smaller a (terminate_link_endpoints_for_link_with d l r a)"
  unfolding terminate_link_endpoints_for_link_with_def by (rule smaller_fold) (rule smaller_terminate)

lemma smaller_deregister_n: "smaller a (deregister_destination_n n h a)"
proof (induction n arbitrary: h a)
  case (Suc n)
  then show ?case
    using smaller_trans [OF smaller_forget smaller_terminate_link] by (simp add: smaller_forget)
qed (simp add: smaller_forget)

lemma terminate_agrees:
  assumes "\<And>h a. routes_len a \<le> k \<Longrightarrow> d h a = d' h a" "routes_len a \<le> k"
  shows "terminate_link_endpoint_with d r n key a = terminate_link_endpoint_with d' r n key a"
  using assms
  by (auto simp: terminate_link_endpoint_with_def finish_link_endpoint_terminal_with_def Let_def routes_len_def split: option.split)

lemma terminate_fold_agrees:
  assumes "\<And>h a. routes_len a \<le> k \<Longrightarrow> d h a = d' h a" "\<And>h a. smaller a (d h a)" "routes_len a \<le> k"
  shows "fold (terminate_link_endpoint_with d r n) keys a = fold (terminate_link_endpoint_with d' r n) keys a"
  using assms(3)
proof (induction keys arbitrary: a)
  case (Cons key keys)
  have "routes_len (terminate_link_endpoint_with d r n key a) \<le> k"
    using smaller_terminate [of d a r n key, OF assms(2)] Cons.prems by (auto simp: smaller_def)
  then show ?case
    using Cons terminate_agrees [of k d d' a r n key, OF assms(1)] by simp
qed simp

lemma deregister_n_agrees: "routes_len a \<le> n \<Longrightarrow> routes_len a \<le> m \<Longrightarrow> deregister_destination_n n h a = deregister_destination_n m h a"
proof (induction n arbitrary: m h a)
  case 0
  then show ?case
    by (cases m) (auto simp: routes_len_def hm_len_def hm_contains_def hm_get_def)
next
  case (Suc n)
  show ?case
  proof (cases "hm_contains (ta_local_link_routes a) h")
    case True
    then have less: "routes_len (forget_destination h a) < routes_len a"
      by (simp add: routes_len_def forget_destination_def hm_remove_smaller)
    then obtain m' where m: "m = Suc m'"
      using Suc.prems(2) by (cases m) auto
    have "routes_len b \<le> min n m' \<Longrightarrow> deregister_destination_n n h' b = deregister_destination_n m' h' b" for h' b
      using Suc.IH by simp
    then show ?thesis
      using True m less Suc.prems terminate_fold_agrees [of "min n m'" "deregister_destination_n n" "deregister_destination_n m'"
        "forget_destination h a"] smaller_deregister_n by (simp add: terminate_link_endpoints_for_link_with_def)
  next
    case False
    then show ?thesis
      by (cases m) simp_all
  qed
qed

lemma smaller_deregister: "smaller a (deregister_destination h a)"
  by (simp add: deregister_destination_def smaller_deregister_n)

text \<open>
  C21: removing a destination terminates. The number of local link routes bounds the nesting of the mutual recursion between
  \<open>deregister_destination\<close> and the termination of link endpoints, so the bounded definition satisfies the recursive equation
  of the code, with itself as the nested call, on every state.
\<close>

theorem deregister_destination_recursion:
  "deregister_destination h a =
    (if hm_contains (ta_local_link_routes a) h
     then terminate_link_endpoints_for_link h LTR_InterfaceRemoved (forget_destination h a)
     else forget_destination h a)"
proof (cases "hm_contains (ta_local_link_routes a) h")
  case True
  let ?a = "forget_destination h a"
  have less: "routes_len ?a < routes_len a"
    using True by (simp add: routes_len_def forget_destination_def hm_remove_smaller)
  then obtain n where n: "routes_len a = Suc n"
    by (cases "routes_len a") auto
  have "deregister_destination_n n h' b = deregister_destination h' b" if "routes_len b \<le> n" for h' b
    unfolding deregister_destination_def using that by (intro deregister_n_agrees) (simp_all add: routes_len_def)
  then show ?thesis
    using True n less terminate_fold_agrees [of n "deregister_destination_n n" deregister_destination ?a] smaller_deregister_n
    by (simp add: deregister_destination_def [of h a] terminate_link_endpoints_for_link_def terminate_link_endpoints_for_link_with_def
        routes_len_def)
next
  case False
  then show ?thesis
    by (cases "hm_len (ta_local_link_routes a)") (simp_all add: deregister_destination_def)
qed

subsection \<open>Nothing refers to a removed interface\<close>

lemma mem_hm_remove: "(k, v) \<in> set (hm_remove k' m) \<longleftrightarrow> (k, v) \<in> set m \<and> k \<noteq> k'"
  by (auto simp: hm_remove_filter)

lemma terminated_gone: "(key, e) \<notin> set (ta_link_endpoints (terminate_link_endpoint r n key a))"
proof -
  have "set (ta_link_endpoints (terminate_link_endpoint r n key a)) \<subseteq> set (hm_remove key (ta_link_endpoints a))"
  proof (cases "hm_get (ta_link_endpoints a) key")
    case None
    then have "terminate_link_endpoint r n key a = a" "key \<notin> fst ` set (ta_link_endpoints a)"
      by (simp add: terminate_link_endpoint_def terminate_link_endpoint_with_def, simp add: hm_get_def map_of_eq_None_iff)
    then show ?thesis
      by (auto simp: mem_hm_remove image_iff)
  next
    case (Some entry)
    then show ?thesis
      using smaller_deregister [of "notify_link_endpoint_terminal entry r n (a\<lparr>ta_link_endpoints := hm_remove key (ta_link_endpoints a)\<rparr>)"]
      by (auto simp: terminate_link_endpoint_def terminate_link_endpoint_with_def finish_link_endpoint_terminal_with_def Let_def smaller_def)
  qed
  then show ?thesis
    by (auto simp: mem_hm_remove)
qed

lemma smaller_terminate_endpoint: "smaller a (terminate_link_endpoint r n key a)"
  by (simp add: terminate_link_endpoint_def smaller_terminate smaller_deregister)

lemma terminated_fold_gone:
  "key \<in> set keys \<Longrightarrow> (key, e) \<notin> set (ta_link_endpoints (fold (terminate_link_endpoint r n) keys a))"
proof (induction keys arbitrary: a)
  case (Cons k keys)
  show ?case
  proof (cases "key \<in> set keys")
    case False
    then show ?thesis
      using Cons.prems terminated_gone [of key e r n a]
        smaller_fold [of "terminate_link_endpoint r n" "terminate_link_endpoint r n k a" keys, OF smaller_terminate_endpoint]
      by (auto simp: smaller_def)
  qed (simp add: Cons.IH)
qed simp

lemma terminated_interface_gone:
  "list_all (\<lambda>(_, e). leb_interface_id (lee_binding e) \<noteq> i) (ta_link_endpoints (terminate_link_endpoints_for_interface i r a))"
proof -
  let ?keys = "map fst (filter (\<lambda>(_, entry). leb_interface_id (lee_binding entry) = i) (ta_link_endpoints a))"
  let ?b = "fold (terminate_link_endpoint r 0) ?keys a"
  have "leb_interface_id (lee_binding (snd p)) \<noteq> i" if "p \<in> set (ta_link_endpoints ?b)" for p
  proof
    assume i: "leb_interface_id (lee_binding (snd p)) = i"
    have "smaller a ?b"
      by (rule smaller_fold) (rule smaller_terminate_endpoint)
    then have "p \<in> set (ta_link_endpoints a)"
      using that unfolding smaller_def by blast
    with i have "fst p \<in> set ?keys"
      unfolding set_map set_filter by (intro image_eqI [of _ _ p]) (simp_all add: case_prod_beta)
    with that show False
      using terminated_fold_gone [of "fst p" ?keys "snd p" r 0 a] by simp
  qed
  then show ?thesis
    unfolding terminate_link_endpoints_for_interface_def list_all_iff case_prod_beta by blast
qed

lemma finish_cached_shape: "\<exists>t h. finish_cached_response c raw i a = a\<lparr>ta_announce_table := t, ta_held_announces := h\<rparr>"
proof -
  have "\<exists>t h. a = a\<lparr>ta_announce_table := t, ta_held_announces := h\<rparr>"
    "\<exists>t h. a\<lparr>ta_announce_table := u\<rparr> = a\<lparr>ta_announce_table := t, ta_held_announces := h\<rparr>" for u
    by (rule exI [of _ "ta_announce_table a"] exI, rule exI [of _ "ta_held_announces a"], simp)+
  moreover have "\<exists>t h. a\<lparr>ta_announce_table := u, ta_held_announces := v, ta_announce_table := w\<rparr>
      = a\<lparr>ta_announce_table := t, ta_held_announces := h\<rparr>" for u v w
    by (rule exI [of _ w], rule exI [of _ v]) simp
  ultimately show ?thesis
    unfolding finish_cached_response_def Let_def by (simp split: option.split prod.split)
qed

lemma complete_reply_shape: "\<exists>ns. complete_announce_reply reply x a = a\<lparr>ta_notices := ns\<rparr>"
proof -
  have "\<exists>ns. a = a\<lparr>ta_notices := ns\<rparr>"
    by (rule exI [of _ "ta_notices a"]) simp
  then show ?thesis
    by (auto simp: complete_announce_reply_def notify_def split: option.split)
qed

lemma retire_pending_shape:
  "\<exists>t h ns. retire_pending_announces i kept rest a = a\<lparr>ta_announce_table := t, ta_held_announces := h, ta_notices := ns,
     ta_pending_announce_admissions := kept @ filter (\<lambda>p. pan_interface p \<noteq> i) rest\<rparr>"
proof (induction i kept rest a rule: retire_pending_announces.induct)
  case (1 i kept a)
  show ?case
    by (rule exI [of _ "ta_announce_table a"], rule exI [of _ "ta_held_announces a"], rule exI [of _ "ta_notices a"]) simp
next
  case (2 i kept pending rest a)
  show ?case
  proof (cases "pan_interface pending = i")
    case True
    define b where "b = finish_cached_response (pan_cached pending) (pan_raw pending) i a"
    define c where "c = (if last_reply_holder (kept @ rest) b pending then complete_announce_reply (pan_reply pending) ADR_Expired b else b)"
    obtain t h where b: "b = a\<lparr>ta_announce_table := t, ta_held_announces := h\<rparr>"
      using finish_cached_shape unfolding b_def by blast
    have "c = b \<Longrightarrow> c = b\<lparr>ta_notices := ta_notices b\<rparr>"
      by simp
    then obtain ns where c: "c = b\<lparr>ta_notices := ns\<rparr>"
      using complete_reply_shape [of "pan_reply pending" ADR_Expired b] c_def by metis
    have "retire_pending_announces i kept (pending # rest) a = retire_pending_announces i kept rest c"
      using True by (simp add: Let_def b_def c_def)
    also obtain t' h' ns' where "\<dots> = c\<lparr>ta_announce_table := t', ta_held_announces := h', ta_notices := ns',
        ta_pending_announce_admissions := kept @ filter (\<lambda>p. pan_interface p \<noteq> i) rest\<rparr>"
      using 2(1) [OF True b_def c_def] by blast
    finally show ?thesis
      using True by (auto simp: b c)
  next
    case False
    then show ?thesis
      using 2(2) by simp
  qed
qed

lemma retire_announce_frame [simp]:
  "ta_pending_announce_admissions (retire_announce_interface i a)
     = filter (\<lambda>p. pan_interface p \<noteq> i) (ta_pending_announce_admissions a)"
  "ta_interfaces (retire_announce_interface i a) = ta_interfaces a"
  "ta_owners (retire_announce_interface i a) = ta_owners a"
  "ta_link_endpoints (retire_announce_interface i a) = ta_link_endpoints a"
  "ta_path_interface_suppressions (retire_announce_interface i a) = ta_path_interface_suppressions a"
  "ta_pending_local_path_requests (retire_announce_interface i a) = ta_pending_local_path_requests a"
  "ta_discovery_path_requests (retire_announce_interface i a) = ta_discovery_path_requests a"
  "ta_pending_path_request_admissions (retire_announce_interface i a) = ta_pending_path_request_admissions a"
  "ta_offered_announces (retire_announce_interface i a) = ta_offered_announces a - {i}"
proof -
  define b where "b = (if i \<in> ta_offered_announces a
    then notify (N_OfferCancelled i) (a\<lparr>ta_offered_announces := ta_offered_announces a - {i}\<rparr>) else a)"
  obtain t h ns where s: "retire_announce_interface i a = b\<lparr>ta_announce_table := t, ta_held_announces := h, ta_notices := ns,
     ta_pending_announce_admissions := filter (\<lambda>p. pan_interface p \<noteq> i) (ta_pending_announce_admissions b)\<rparr>"
    using retire_pending_shape [of i "[]" "ta_pending_announce_admissions b" b]
    unfolding retire_announce_interface_def Let_def b_def [symmetric] by (simp only: append_Nil) blast
  show
    "ta_pending_announce_admissions (retire_announce_interface i a)
       = filter (\<lambda>p. pan_interface p \<noteq> i) (ta_pending_announce_admissions a)"
    "ta_interfaces (retire_announce_interface i a) = ta_interfaces a"
    "ta_owners (retire_announce_interface i a) = ta_owners a"
    "ta_link_endpoints (retire_announce_interface i a) = ta_link_endpoints a"
    "ta_path_interface_suppressions (retire_announce_interface i a) = ta_path_interface_suppressions a"
    "ta_pending_local_path_requests (retire_announce_interface i a) = ta_pending_local_path_requests a"
    "ta_discovery_path_requests (retire_announce_interface i a) = ta_discovery_path_requests a"
    "ta_pending_path_request_admissions (retire_announce_interface i a) = ta_pending_path_request_admissions a"
    "ta_offered_announces (retire_announce_interface i a) = ta_offered_announces a - {i}"
    unfolding s by (auto simp: b_def notify_def)
qed

definition unreferenced :: "InterfaceId \<Rightarrow> TransportActor \<Rightarrow> bool" where
  "unreferenced i a \<longleftrightarrow>
     get_interface a i = None
   \<and> list_all (\<lambda>(_, e). pe_interface_id e \<noteq> i) (pt_entries (ta_path_table a))
   \<and> list_all (\<lambda>(_, e). le_interface_id e \<noteq> i \<and> le_receiving_interface e \<noteq> i) (lt_entries (ta_link_table a))
   \<and> list_all (\<lambda>(_, t). te_interface_id t \<noteq> Some i) (tt_entries (ta_tunnel_table a))
   \<and> list_all (\<lambda>(_, e). leb_interface_id (lee_binding e) \<noteq> i) (ta_link_endpoints a)
   \<and> list_all (\<lambda>((_, j), _). j \<noteq> i) (ta_path_interface_suppressions a)
   \<and> list_all (\<lambda>(_, j). j \<noteq> i) (ta_pending_local_path_requests a)
   \<and> list_all (\<lambda>(_, operation). list_all (\<lambda>w. dr_interface (wt_token w) \<noteq> i) (do_requesters operation)) (ta_discovery_path_requests a)
   \<and> list_all (\<lambda>p. pad_interface p \<noteq> i) (ta_pending_path_request_admissions a)
   \<and> list_all (\<lambda>p. pan_interface p \<noteq> i) (ta_pending_announce_admissions a)
   \<and> i \<notin> ta_offered_announces a"

lemma core_deregister:
  "core (deregister_interface_with_link_reason i r a) \<in>
    {(core a)\<lparr>rg_paths := fst (PathTable_drop_all_via i (rg_paths (core a))),
       rg_links := LinkTable_remove_interface i (rg_links (core a)),
       rg_tunnels := fst (TunnelTable_void_interface i (rg_tunnels (core a)))\<rparr>,
     (core a)\<lparr>rg_paths := PathTable_new, rg_links := LinkTable_new, rg_tunnels := TunnelTable_new\<rparr>}"
  unfolding deregister_interface_with_link_reason_def Let_def clear_shared_connection_state_def
  by (simp add: core_fields split: option.split)

lemma retire_requests_frame:
  "ta_link_endpoints (retire_path_request_admissions i (retire_recursive_discovery_interface i a)) = ta_link_endpoints a"
  "ta_owners (retire_path_request_admissions i (retire_recursive_discovery_interface i a)) = ta_owners a"
  "ta_path_interface_suppressions (retire_path_request_admissions i (retire_recursive_discovery_interface i a))
     = ta_path_interface_suppressions a"
  "ta_pending_local_path_requests (retire_path_request_admissions i (retire_recursive_discovery_interface i a))
     = ta_pending_local_path_requests a"
  "list_all (\<lambda>(_, operation). list_all (\<lambda>w. dr_interface (wt_token w) \<noteq> i) (do_requesters operation))
     (ta_discovery_path_requests (retire_path_request_admissions i (retire_recursive_discovery_interface i a)))"
  "list_all (\<lambda>p. pad_interface p \<noteq> i)
     (ta_pending_path_request_admissions (retire_path_request_admissions i (retire_recursive_discovery_interface i a)))"
  by (auto simp: retire_path_request_admissions_def retire_recursive_discovery_interface_def
      retire_orphaned_discovery_admissions_def list_all_iff)

lemma deregistered_rest:
  fixes a :: TransportActor and i :: InterfaceId and r :: LinkEndpointTerminalReason
  defines "b \<equiv> deregister_interface_with_link_reason i r a"
  shows "get_interface b i = None"
    "list_all (\<lambda>(_, e). leb_interface_id (lee_binding e) \<noteq> i) (ta_link_endpoints b)"
    "get_interface a i = Some entry \<Longrightarrow> \<not> InterfaceOwner_is_current (ta_owners b) (ie_owner entry)"
    "list_all (\<lambda>((_, j), _). j \<noteq> i) (ta_path_interface_suppressions b)"
    "list_all (\<lambda>(_, j). j \<noteq> i) (ta_pending_local_path_requests b)"
    "list_all (\<lambda>(_, operation). list_all (\<lambda>w. dr_interface (wt_token w) \<noteq> i) (do_requesters operation)) (ta_discovery_path_requests b)"
    "list_all (\<lambda>p. pad_interface p \<noteq> i) (ta_pending_path_request_admissions b)"
    "list_all (\<lambda>p. pan_interface p \<noteq> i) (ta_pending_announce_admissions b)" "i \<notin> ta_offered_announces b"
proof -
  let ?t = "terminate_link_endpoints_for_interface i r a"
  have "smaller a ?t"
    unfolding terminate_link_endpoints_for_interface_def by (rule smaller_fold) (rule smaller_terminate_endpoint)
  then have t: "ta_interfaces ?t = ta_interfaces a" "ta_owners ?t = ta_owners a"
    by (simp_all add: smaller_def)
  define a2 where "a2 = (case get_interface ?t i of
      Some entry \<Rightarrow> ?t\<lparr>ta_owners := InterfaceOwner_retire (ie_owner entry) (ta_owners ?t)\<rparr> | None \<Rightarrow> ?t)"
  define a3 where "a3 = a2\<lparr>ta_link_table := LinkTable_remove_interface i (ta_link_table a2)\<rparr>"
  define a4 where "a4 = (if interface_is (\<lambda>e. ie_online e \<noteq> None) a3 i then notify (N_OnlineCleared i) a3 else a3)"
  define a5 where "a5 = void_tunnel_interface i a4"
  define a6 where "a6 = a5\<lparr>ta_path_table := fst (PathTable_drop_all_via i (ta_path_table a5))\<rparr>"
  define a7 where "a7 = a6\<lparr>ta_path_interface_suppressions := hm_retain (\<lambda>(_, j) _. j \<noteq> i) (ta_path_interface_suppressions a6),
      ta_pending_local_path_requests := hm_retain (\<lambda>_ j. j \<noteq> i) (ta_pending_local_path_requests a6)\<rparr>"
  define a8 where "a8 = retire_path_request_admissions i (retire_recursive_discovery_interface i a7)"
  define a9 where "a9 = (retire_announce_interface i a8)\<lparr>ta_interfaces := hm_remove i (ta_interfaces (retire_announce_interface i a8))\<rparr>"
  have "b = (if map_option ie_role (get_interface a3 i) = Some IR_SharedInstancePeer
      then clear_shared_connection_state (a9\<lparr>ta_is_shared_instance := False, ta_shared_instance_client_mode := True\<rparr>) else a9)"
    unfolding b_def deregister_interface_with_link_reason_def Let_def a9_def a8_def a7_def a6_def a5_def a4_def a3_def a2_def ..
  then have b: "b = a9 \<or> b = clear_shared_connection_state (a9\<lparr>ta_is_shared_instance := False, ta_shared_instance_client_mode := True\<rparr>)"
    by presburger
  have a5: "ta_link_endpoints a5 = ta_link_endpoints ?t" "ta_owners a5 = ta_owners a2"
    unfolding a5_def a4_def a3_def a2_def by (auto simp: void_tunnel_interface_def notify_def Let_def split: option.split prod.split)
  note a8 = retire_requests_frame [of i a7, folded a8_def]
  have a7: "ta_link_endpoints a7 = ta_link_endpoints a5" "ta_owners a7 = ta_owners a5"
    "ta_path_interface_suppressions a7 = hm_retain (\<lambda>(_, j) _. j \<noteq> i) (ta_path_interface_suppressions a6)"
    "ta_pending_local_path_requests a7 = hm_retain (\<lambda>_ j. j \<noteq> i) (ta_pending_local_path_requests a6)"
    by (simp_all add: a7_def a6_def)
  have "list_all (\<lambda>(_, e). leb_interface_id (lee_binding e) \<noteq> i) (ta_link_endpoints a8)"
    using terminated_interface_gone a5 a7 a8 by simp
  then have a9: "list_all (\<lambda>(_, e). leb_interface_id (lee_binding e) \<noteq> i) (ta_link_endpoints a9)"
    "hm_get (ta_interfaces a9) i = None" "ta_owners a9 = ta_owners a2"
    "list_all (\<lambda>((_, j), _). j \<noteq> i) (ta_path_interface_suppressions a9)"
    "list_all (\<lambda>(_, j). j \<noteq> i) (ta_pending_local_path_requests a9)"
    "list_all (\<lambda>(_, operation). list_all (\<lambda>w. dr_interface (wt_token w) \<noteq> i) (do_requesters operation)) (ta_discovery_path_requests a9)"
    "list_all (\<lambda>p. pad_interface p \<noteq> i) (ta_pending_path_request_admissions a9)"
    "list_all (\<lambda>p. pan_interface p \<noteq> i) (ta_pending_announce_admissions a9)" "i \<notin> ta_offered_announces a9"
    unfolding a9_def using a5 a7 a8 by (auto simp: hm_retain_def list_all_iff hm_get_def hm_remove_filter map_of_eq_None_iff)
  then show "get_interface b i = None"
    "list_all (\<lambda>(_, e). leb_interface_id (lee_binding e) \<noteq> i) (ta_link_endpoints b)"
    "list_all (\<lambda>((_, j), _). j \<noteq> i) (ta_path_interface_suppressions b)"
    "list_all (\<lambda>(_, j). j \<noteq> i) (ta_pending_local_path_requests b)"
    "list_all (\<lambda>(_, operation). list_all (\<lambda>w. dr_interface (wt_token w) \<noteq> i) (do_requesters operation)) (ta_discovery_path_requests b)"
    "list_all (\<lambda>p. pad_interface p \<noteq> i) (ta_pending_path_request_admissions b)"
    "list_all (\<lambda>p. pan_interface p \<noteq> i) (ta_pending_announce_admissions b)" "i \<notin> ta_offered_announces b"
    using b by (auto simp: get_interface_def clear_shared_connection_state_def hm_empty_def)
  have "ta_owners b = ta_owners a2"
    using a9(3) b by (auto simp: clear_shared_connection_state_def)
  then show "\<not> InterfaceOwner_is_current (ta_owners b) (ie_owner entry)" if "get_interface a i = Some entry"
    using that t by (auto simp: a2_def get_interface_def InterfaceOwner_retire_def InterfaceOwner_is_current_def split: option.splits)
qed

text \<open>
  C14: a removed interface leaves nothing behind. After \<open>deregister_interface\<close> no interface entry, route, transit link, tunnel,
  link endpoint, path suppression, waiting path request, discovery requester or queued admission refers to the interface, and
  the registration that it had is not current any more.
\<close>

theorem interface_removed:
  "unreferenced i (deregister_interface_with_link_reason i r a)
   \<and> (case get_interface a i of
        Some entry \<Rightarrow> \<not> InterfaceOwner_is_current (ta_owners (deregister_interface_with_link_reason i r a)) (ie_owner entry)
      | None \<Rightarrow> True)"
proof -
  let ?b = "deregister_interface_with_link_reason i r a"
  have paths: "list_all (\<lambda>(_, e). pe_interface_id e \<noteq> i) (pt_entries (ta_path_table ?b))"
    and links: "list_all (\<lambda>(_, e). le_interface_id e \<noteq> i \<and> le_receiving_interface e \<noteq> i) (lt_entries (ta_link_table ?b))"
    and tunnels: "list_all (\<lambda>(_, t). te_interface_id t \<noteq> Some i) (tt_entries (ta_tunnel_table ?b))"
    using core_deregister [of i r a]
    by (auto simp: core_fields PathTable_drop_all_via_def Let_def LinkTable_remove_interface_def TunnelTable_void_interface_def
        PathTable_new_def LinkTable_new_def TunnelTable_new_def hm_retain_def hm_empty_def list_all_iff split: if_splits)
  show ?thesis
    unfolding unreferenced_def using paths links tunnels deregistered_rest [where i = i and r = r and a = a] by (simp split: option.split)
qed

end
