(* ===== verification/Actor_Refinement.thy ===== *)
theory Actor_Refinement
  imports Actor_Routing
begin

text \<open>
  An abstract specification of routing, and the proof that handling a packet or a message refines it. A step of the
  specification says under which condition a part of the routing state may change: a route is learned only from a presented
  announce with a valid signature whose key hashes to the destination, a transit link is confirmed only by a presented proof
  the destination has signed. The predicate \<open>R\<close> holds of the packets that were presented.
\<close>

subsection \<open>The specification\<close>

definition packet_parsed :: "(bytes \<Rightarrow> bool) \<Rightarrow> bytes \<Rightarrow> PacketHeader \<Rightarrow> nat \<Rightarrow> bool" where
  "packet_parsed R raw header off \<longleftrightarrow>
     R raw \<and> (\<exists>h hops. PacketHeader_unpack raw = Ok (h, off) \<and> header = h\<lparr>ph_hops := hops\<rparr>)"

definition verified_announce ::
    "crypto_lib \<Rightarrow> curve_lib \<Rightarrow> (bytes \<Rightarrow> bool) \<Rightarrow> bytes \<Rightarrow> AnnounceData \<Rightarrow> Identity \<Rightarrow> bool" where
  "verified_announce lib cl R d ad identity \<longleftrightarrow>
     AnnounceData_verify_signature lib cl d ad = Ok identity \<and> truncated_hash lib (ad_name_hash ad @ id_hash identity) = d
   \<and> (\<exists>raw header off. packet_parsed R raw header off \<and> ph_destination_hash header = d
        \<and> AnnounceData_unpack (drop off raw) (context_flag (ph_flags header)) = Ok ad)"

definition known_key :: "(bytes, RecentAnnounce) hmap \<Rightarrow> bytes \<Rightarrow> bytes option" where
  "known_key known d = Option.bind (hm_get known d) rn_public_key"

definition signed_link_proof :: "curve_lib \<Rightarrow> (bytes \<Rightarrow> bool) \<Rightarrow> bytes \<Rightarrow> bytes \<Rightarrow> bool" where
  "signed_link_proof cl R link_id key \<longleftrightarrow>
     (\<exists>raw header off. packet_parsed R raw header off \<and> ph_destination_hash header = link_id
        \<and> ed_verify cl (subslice 32 64 key)
            (link_id @ subslice 64 96 (drop off raw) @ subslice 32 64 key @ drop 96 (drop off raw)) (take 64 (drop off raw)))"

definition confirms_link ::
    "curve_lib \<Rightarrow> (bytes \<Rightarrow> bool) \<Rightarrow> (bytes, RecentAnnounce) hmap \<Rightarrow> bytes \<Rightarrow> u32 \<Rightarrow> LinkEntry \<Rightarrow> bool" where
  "confirms_link cl R known link_id mtu e \<longleftrightarrow>
     mtu \<le> le_accepted_mtu_ceiling e
   \<and> (\<exists>key. known_key known (le_destination_hash e) = Some key \<and> signed_link_proof cl R link_id key)"

inductive route_step :: "crypto_lib \<Rightarrow> curve_lib \<Rightarrow> (bytes \<Rightarrow> bool) \<Rightarrow> routing \<Rightarrow> routing \<Rightarrow> bool" for lib cl R where
  rs_core: "core_step c c' \<Longrightarrow> route_step lib cl R c c'"
| rs_touch: "route_step lib cl R c (c\<lparr>rg_paths := PathTable_get_live_mut now d (PathEntry_touch now) (rg_paths c)\<rparr>)"
| rs_stamp: "route_step lib cl R c (c\<lparr>rg_links := LinkTable_get_mut l (\<lambda>e. e\<lparr>le_timestamp := t\<rparr>) (rg_links c)\<rparr>)"
| rs_use: "route_step lib cl R c (c\<lparr>rg_known := hm_update d (\<lambda>e. e\<lparr>rn_last_used := t\<rparr>) (rg_known c)\<rparr>)"
| rs_request: "LinkTable_get (rg_links c) l = None \<Longrightarrow> \<not> le_validated e
    \<Longrightarrow> route_step lib cl R c (c\<lparr>rg_links := LinkTable_insert l e (rg_links c)\<rparr>)"
| rs_confirm: "LinkTable_get (rg_links c) l = Some e \<Longrightarrow> confirms_link cl R (rg_known c) l mtu e
    \<Longrightarrow> route_step lib cl R c (c\<lparr>rg_links :=
          LinkTable_get_mut l (\<lambda>e. e\<lparr>le_validated := True, le_accepted_mtu_ceiling := mtu\<rparr>) (rg_links c)\<rparr>)"
| rs_remember: "verified_announce lib cl R (ph_destination_hash header) ad identity
    \<Longrightarrow> known_key (rg_known c) (ph_destination_hash header) \<in> {None, Some (ad_public_key ad)}
    \<Longrightarrow> route_step lib cl R c (c\<lparr>rg_known := remembered now header ad identity (rg_known c)\<rparr>)"
| rs_describe: "route_step lib cl R c (c\<lparr>rg_known := hm_update d (\<lambda>e. e\<lparr>rn_hops := hops, rn_ratchet := ratchet,
      rn_packet_hash := ph, rn_is_path_response := resp\<rparr>) (rg_known c)\<rparr>)"
| rs_learn: "verified_announce lib cl R d ad identity \<Longrightarrow> pe_hops e < PATHFINDER_M
    \<Longrightarrow> should_add_path now (rg_paths c) d (pe_hops e) (ad_random_hash ad)
    \<Longrightarrow> pe_random_blobs e = extend_blobs (ad_random_hash ad) (known_blobs (rg_paths c) d)
    \<Longrightarrow> known_key (rg_known c) d = Some (ad_public_key ad)
    \<Longrightarrow> route_step lib cl R c (c\<lparr>rg_paths := PathTable_insert d e (rg_paths c),
          rg_tunnels := note_tunnel_path now i d (tunnel_path_of e) (rg_tunnels c)\<rparr>)"
| rs_tunnel: "route_step lib cl R c (c\<lparr>rg_tunnels := handle_tunnel now tid i (rg_tunnels c)\<rparr>)"
| rs_restore: "(tid, t) \<in> set (tt_entries (rg_tunnels c)) \<Longrightarrow> (d, tp) \<in> set (te_tunnel_paths t)
    \<Longrightarrow> route_step lib cl R c (c\<lparr>rg_paths := PathTable_insert d (restored_path now i tp) (rg_paths c)\<rparr>)"
| rs_deprecate: "route_step lib cl R c (c\<lparr>rg_tunnels :=
      TunnelTable_get_mut tid (\<lambda>t. t\<lparr>te_tunnel_paths := hm_remove_all ds (te_tunnel_paths t)\<rparr>) (rg_tunnels c)\<rparr>)"

definition evolves :: "actor_env \<Rightarrow> (bytes \<Rightarrow> bool) \<Rightarrow> TransportActor \<Rightarrow> TransportActor \<Rightarrow> bool" where
  "evolves env R a b \<longleftrightarrow> (route_step (ae_lib env) (ae_curve env) R)\<^sup>*\<^sup>* (core a) (core b)"

subsection \<open>Composing steps\<close>

lemma evolves_retires: "retires a b \<Longrightarrow> evolves env R a b"
  unfolding retires_def evolves_def by (erule rtranclp_mono [THEN predicate2D, rotated]) (auto intro: rs_core)

lemma evolves_trans [trans]: "evolves env R a b \<Longrightarrow> evolves env R b c \<Longrightarrow> evolves env R a c"
  by (simp add: evolves_def)

lemma evolves_core: "core b = core a \<Longrightarrow> evolves env R a b"
  by (simp add: evolves_def)

lemma evolves_via: "core b = core a \<Longrightarrow> evolves env R b c \<Longrightarrow> evolves env R a c"
  by (simp add: evolves_def)

lemma evolves_step: "route_step (ae_lib env) (ae_curve env) R (core a) (core b) \<Longrightarrow> evolves env R a b"
  by (auto simp: evolves_def)

lemma evolves_then_step:
  "evolves env R a b \<Longrightarrow> route_step (ae_lib env) (ae_curve env) R (core b) (core c) \<Longrightarrow> evolves env R a c"
  by (auto simp: evolves_def)

lemmas evolves_send = evolves_retires [OF retires_send]

lemma evolves_touch: "evolves env R a (touch_path env d a)"
  using rs_touch [of "ae_lib env" "ae_curve env" R "core a" "ae_now env" d]
  by (simp add: evolves_step touch_path_def core_fields)

lemma evolves_use: "evolves env R a (fst (use_destination env d a))"
  using rs_use [of "ae_lib env" "ae_curve env" R "core a" d "Some (ae_now env)"]
  by (simp add: evolves_step evolves_core use_destination_def with_recent_def core_fields)

lemma evolves_relay_plain: "evolves env R a (relay_plain env raw header i a)"
  by (auto simp: relay_plain_def intro!: evolves_retires retires_broadcast retires_fold retires_send)

lemma evolves_stamp_send:
  assumes "core b = (core a)\<lparr>rg_links := LinkTable_get_mut l (\<lambda>e. e\<lparr>le_timestamp := ts\<rparr>) (rg_links (core a))\<rparr>"
  shows "evolves env R a (fst (send_to_interface env t f b))"
  using rs_stamp [of "ae_lib env" "ae_curve env" R "core a" l ts] assms
  by (intro evolves_trans [OF _ evolves_send] evolves_step) simp

lemma evolves_route_link: "evolves env R a (fst (route_link_packet_via_link_table env raw header i a))"
  unfolding route_link_packet_via_link_table_def
  by (auto simp: Let_def core_fields intro: evolves_core evolves_stamp_send split: option.split prod.split)

lemma route_link_false:
  "route_link_packet_via_link_table env raw header i a = (b, False) \<Longrightarrow> b = a"
  unfolding route_link_packet_via_link_table_def by (auto simp: Let_def split: if_splits option.splits prod.splits)

lemma evolves_forward_data: "evolves env R a (forward_data env raw header i f g t a)"
  unfolding forward_data_def
  by (auto simp: Let_def intro!: evolves_core evolves_trans [OF _ evolves_touch] evolves_via [OF _ evolves_send]
      split: option.split)

subsection \<open>Data packets\<close>

lemma evolves_restore_fold:
  assumes "(tid, t) \<in> set (tt_entries (rg_tunnels (core a)))" "set ps \<subseteq> set (te_tunnel_paths t)"
  shows "evolves env R a (fst (fold (restore_tunnel_path env i) ps (a, ds)))
    \<and> rg_tunnels (core (fst (fold (restore_tunnel_path env i) ps (a, ds)))) = rg_tunnels (core a)"
  using assms
proof (induction ps arbitrary: a ds)
  case (Cons p ps)
  obtain d tp where p: "p = (d, tp)"
    by fastforce
  obtain b es where b: "restore_tunnel_path env i p (a, ds) = (b, es)"
    by fastforce
  have "evolves env R a b \<and> rg_tunnels (core b) = rg_tunnels (core a)"
    using b rs_restore [OF Cons.prems(1), of d tp "ae_lib env" "ae_curve env" R "ae_now env" i] Cons.prems(2)
    by (auto simp: p restore_tunnel_path_def core_fields evolves_core intro!: evolves_step split: if_splits)
  then show ?case
    using Cons.IH [of b es] Cons.prems b by (auto intro: evolves_trans)
qed (simp add: evolves_core)

lemma evolves_restore: "evolves env R a (restore_tunnel_paths env tid i a)"
proof (cases "TunnelTable_get (ta_tunnel_table a) tid")
  case (Some t)
  then have t: "(tid, t) \<in> set (tt_entries (rg_tunnels (core a)))"
    by (auto simp: TunnelTable_get_def hm_get_def core_fields dest: map_of_SomeD)
  obtain b ds where b: "fold (restore_tunnel_path env i) (te_tunnel_paths t) (a, []) = (b, ds)"
    by fastforce
  then have "evolves env R a b"
    using evolves_restore_fold [OF t order_refl, of env R i "[]"] by simp
  then show ?thesis
    using b Some rs_deprecate [of "ae_lib env" "ae_curve env" R "core b" tid ds]
    by (auto simp: restore_tunnel_paths_def core_fields intro: evolves_then_step)
qed (simp add: restore_tunnel_paths_def evolves_core)

lemma evolves_synthesis: "evolves env R a (handle_tunnel_synthesis env payload i a)"
proof -
  have "evolves env R a (a\<lparr>ta_tunnel_table := handle_tunnel (ae_now env) tid i (ta_tunnel_table a), ta_state_dirty := True\<rparr>)" for tid
    using rs_tunnel [of "ae_lib env" "ae_curve env" R "core a" "ae_now env" tid i] by (simp add: evolves_step core_fields)
  then show ?thesis
    by (auto simp: handle_tunnel_synthesis_def Let_def evolves_core intro: evolves_trans evolves_restore split: option.split)
qed

lemma evolves_process_data: "evolves env R a (process_data env raw header i metrics a)"
proof -
  let ?p = "relay_plain env raw header i a"
  obtain b routed where b: "route_link_packet_via_link_table env raw header i ?p = (b, routed)"
    by fastforce
  have ab: "evolves env R a b"
    using evolves_trans [OF evolves_relay_plain evolves_route_link, of env R a raw header i raw header i] b by simp
  show ?thesis
    unfolding process_data_def Let_def using b
    by (auto intro!: evolves_trans [OF ab] intro: evolves_forward_data evolves_synthesis evolves_core
        evolves_retires [OF retires_handle_path_request] split: option.split)
qed

subsection \<open>Links and proofs\<close>

lemma hm_update_absent: "hm_get m k = None \<Longrightarrow> hm_update k f m = m"
  by (induction m) (auto simp: hm_get_def hm_update_def split: if_splits)

lemma core_steps_links:
  assumes "core_step\<^sup>*\<^sup>* c c'"
  shows "rg_known c' = rg_known c \<and> set (lt_entries (rg_links c')) \<subseteq> set (lt_entries (rg_links c))
    \<and> (hm_wf (lt_entries (rg_links c)) \<longrightarrow> hm_wf (lt_entries (rg_links c')))"
  using assms
proof induction
  case (step c' c'')
  from step.hyps(2) step.IH show ?case
    by cases (auto simp: LinkTable_remove_interface_def LinkTable_new_def hm_retain_def hm_wf_def hm_empty_def distinct_map_filter)
qed simp

lemma retires_links:
  assumes "retires a b" "hm_wf (lt_entries (ta_link_table a))" "LinkTable_get (ta_link_table b) l = Some e"
  shows "LinkTable_get (ta_link_table a) l = Some e"
  using core_steps_links [OF assms(1) [unfolded retires_def]] assms(2,3)
  by (auto simp: LinkTable_get_def hm_get_def hm_wf_def core_fields dest: map_of_SomeD)

lemma retires_known: "retires a b \<Longrightarrow> ta_recent_announces b = ta_recent_announces a"
  using core_steps_links by (auto simp: retires_def core_fields)

lemma evolves_commit_request:
  assumes "hm_wf (lt_entries (ta_link_table a))" "LinkTable_get (ta_link_table a) l = None" "\<not> le_validated e"
  shows "evolves env R a (commit_link_request env l e fwd a)"
proof -
  obtain b s where b: "send_to_interface env (le_interface_id e) fwd a = (b, s)"
    by fastforce
  have r: "retires a b"
    using retires_send [of a env "le_interface_id e" fwd] b by simp
  let ?t = "touch_path env (le_destination_hash e) b"
  have "evolves env R a ?t"
    using r by (blast intro: evolves_trans evolves_retires evolves_touch)
  moreover have "LinkTable_get (rg_links (core ?t)) l = None"
    using retires_links [OF r assms(1)] assms(2)
    by (cases "LinkTable_get (ta_link_table b) l") (auto simp: touch_path_def core_def)
  ultimately show ?thesis
    using rs_request [OF _ assms(3), of "core ?t" l "ae_lib env" "ae_curve env" R] r
    by (auto simp: commit_link_request_def b Let_def core_fields intro: evolves_then_step evolves_retires)
qed

lemma evolves_relay_request:
  assumes "hm_wf (lt_entries (ta_link_table a))"
  shows "evolves env R a (relay_link_request env raw header i target fwd a)"
proof -
  have "\<not> le_validated (transit_link_entry env header path i ing target egr m c)" for path ing egr m c
    by (simp add: transit_link_entry_def Let_def)
  then show ?thesis
    unfolding relay_link_request_def
    by (auto simp: Let_def assms intro: evolves_core evolves_commit_request split: option.split sum.split prod.split)
qed

lemma evolves_process_link_request:
  "hm_wf (lt_entries (ta_link_table a)) \<Longrightarrow> evolves env R a (process_link_request env raw header i metrics a)"
  by (auto simp: process_link_request_def Let_def evolves_core evolves_relay_request split: option.split)

lemma packet_parsed_size: "packet_parsed R raw header off \<Longrightarrow> PacketHeader_size header = off"
  using PacketHeader_unpack_Ok(2) [of raw _ off]
  by (auto simp: packet_parsed_def PacketHeader_size_def)

lemma signed_link_proofI:
  assumes "packet_parsed R raw header off" "p = drop off raw"
    and "ed_verify cl (subslice 32 64 k) (ph_destination_hash header @ subslice 64 96 p @ subslice 32 64 k @ s) (take 64 p)"
    and "s = drop 96 p"
  shows "signed_link_proof cl R (ph_destination_hash header) k"
  using assms unfolding signed_link_proof_def by blast

lemma valid_proof_confirms:
  assumes "packet_parsed R raw header off" "validate_transit_lrproof env a raw header e = TP_Valid"
  shows "confirms_link (ae_curve env) R (ta_recent_announces a) (ph_destination_hash header) (the (proof_mtu raw header)) e"
proof -
  have tails: "length p = 99 \<Longrightarrow> subslice 96 99 p = drop 96 p" "length p = 96 \<Longrightarrow> drop 96 p = []" for p :: bytes
    by (simp_all add: subslice_def)
  show ?thesis
    using assms(2) packet_parsed_size [OF assms(1)]
    unfolding validate_transit_lrproof_def confirms_link_def known_key_def proof_mtu_def
    by (auto simp: Let_def Ed25519PublicKey_from_bytes_def Ed25519PublicKey_verify_def not_less tails
        intro!: signed_link_proofI [OF assms(1) refl] split: if_splits option.splits sum.splits)
qed

lemma evolves_commit_proof:
  assumes "hm_wf (lt_entries (ta_link_table a))" "LinkTable_get (ta_link_table a) (ph_destination_hash header) = Some e"
    "confirms_link (ae_curve env) R (ta_recent_announces a) (ph_destination_hash header) (the (proof_mtu raw header)) e"
  shows "evolves env R a (commit_link_proof env raw header fwd e a)"
proof -
  let ?l = "ph_destination_hash header" and ?m = "the (proof_mtu raw header)"
  obtain b s where b: "send_to_interface env (le_receiving_interface e) fwd a = (b, s)"
    by fastforce
  have r: "retires a b"
    using retires_send [of a env "le_receiving_interface e" fwd] b by simp
  let ?b = "b\<lparr>ta_link_table := LinkTable_get_mut ?l (\<lambda>e. e\<lparr>le_validated := True, le_accepted_mtu_ceiling := ?m\<rparr>) (ta_link_table b)\<rparr>"
  have "evolves env R b ?b"
  proof (cases "LinkTable_get (ta_link_table b) ?l")
    case None
    then have "core ?b = core b"
      by (simp add: core_def LinkTable_get_mut_def LinkTable_get_def hm_update_absent)
    then show ?thesis
      by (rule evolves_core)
  next
    case (Some e')
    then have "confirms_link (ae_curve env) R (rg_known (core b)) ?l ?m e'" "LinkTable_get (rg_links (core b)) ?l = Some e'"
      using retires_links [OF r assms(1) Some] assms(2,3) retires_known [OF r] by (simp_all add: core_def)
    then show ?thesis
      using rs_confirm by (intro evolves_step) (simp add: core_fields)
  qed
  with r have "evolves env R a ?b"
    by (blast intro: evolves_trans evolves_retires)
  then show ?thesis
    using r by (auto simp: commit_link_proof_def b Let_def intro: evolves_trans evolves_use evolves_retires)
qed

lemma evolves_relay_proof:
  assumes "packet_parsed R raw header off" "hm_wf (lt_entries (ta_link_table a))" "LinkTable_get (ta_link_table a) (ph_destination_hash header) = Some e"
  shows "evolves env R a (relay_link_proof env raw header i e a)"
proof (cases "validate_transit_lrproof env a raw header e")
  case TP_Valid
  obtain hl fresh where h: "PacketHashlist_insert (ta_packet_hashlist a) (actor_packet_hash env raw (header_type (ph_flags header))) = (hl, fresh)"
    by fastforce
  let ?a = "a\<lparr>ta_packet_hashlist := hl\<rparr>"
  have "evolves env R ?a (commit_link_proof env raw header fwd e ?a)" for fwd
    using valid_proof_confirms [OF assms(1) TP_Valid] assms(2,3) by (intro evolves_commit_proof) simp_all
  then show ?thesis
    using TP_Valid h by (auto simp: relay_link_proof_def Let_def evolves_core intro: evolves_via [of ?a])
qed (simp_all add: relay_link_proof_def evolves_core)

lemma core_pending_link_proof [core_simps, simp]: "core (pending_link_proof env raw header i metrics a) = core a"
proof (cases "hm_get (ta_destination_channels a) (ph_destination_hash header)")
  case (Some tx)
  then show ?thesis
    using core_deliver_event [of tx "inbound_event a raw i metrics" a]
    by (cases "deliver_event tx (inbound_event a raw i metrics) a") (auto simp: pending_link_proof_def split: bool.split)
qed (simp add: pending_link_proof_def)

lemma evolves_process_link_proof:
  "packet_parsed R raw header off \<Longrightarrow> hm_wf (lt_entries (ta_link_table a))
    \<Longrightarrow> evolves env R a (process_link_proof env raw header i metrics a)"
  by (auto simp: process_link_proof_def local_link_proof_def Let_def intro: evolves_core evolves_relay_proof split: option.split)

lemma core_fold_deliver: "core (fold (\<lambda>(_, tx) a. fst (deliver_event tx ev a)) cs a) = core a"
  by (rule core_fold) (simp add: case_prod_beta)

lemma core_conclude_receipt [core_simps, simp]: "core (conclude_receipt h rtt a) = core a"
  by (simp add: conclude_receipt_def Let_def core_fold_deliver split: option.split)

lemma core_process_receipt_proof [core_simps, simp]: "core (process_receipt_proof env raw header r a) = core a"
  by (simp add: process_receipt_proof_def Let_def split: prod.split)

lemma evolves_process_data_proof: "evolves env R a (process_data_proof env raw header i metrics a)"
  unfolding process_data_proof_def
  by (auto simp: Let_def intro!: evolves_core evolves_via [OF _ evolves_send] split: option.split prod.split)

lemma evolves_process_proof:
  assumes "packet_parsed R raw header off" "hm_wf (lt_entries (ta_link_table a))"
  shows "evolves env R a (process_proof env raw header i metrics a)"
proof -
  obtain b routed where b: "route_link_packet_via_link_table env raw header i a = (b, routed)"
    by fastforce
  then have "evolves env R a b"
    using evolves_route_link [of env R a raw header i] by simp
  then show ?thesis
    using b assms
    by (auto simp: process_proof_def evolves_core evolves_process_link_proof [OF assms]
        intro: evolves_trans evolves_process_data_proof split: option.split)
qed

subsection \<open>Announces\<close>

lemma check_announce_ok:
  assumes "check_announce env a raw header off = Inr (ad, identity)"
  shows "AnnounceData_verify_signature (ae_lib env) (ae_curve env) (ph_destination_hash header) ad = Ok identity"
    and "AnnounceData_unpack (drop off raw) (context_flag (ph_flags header)) = Ok ad"
  using assms by (auto simp: check_announce_def split: if_splits sum.splits)

lemma core_ingress_announce [core_simps, simp]: "core (fst (ingress_announce env raw header i a)) = core a"
  by (simp add: ingress_announce_def Let_def split: option.split prod.split)

lemma core_account_rate [core_simps, simp]: "core (fst (account_rate env header i a)) = core a"
  by (simp add: account_rate_def Let_def split: prod.split)

lemma core_observe_rebroadcast [core_simps, simp]: "core (observe_rebroadcast env header a) = core a"
  by (simp add: observe_rebroadcast_def Let_def split: option.split)

lemma core_suppressed [core_simps, simp]: "core (fst (is_path_interface_suppressed d i now a)) = core a"
  by (simp add: is_path_interface_suppressed_def split: option.split)

lemma core_queue_rebroadcast [core_simps, simp]: "core (queue_rebroadcast env raw header i a) = core a"
  by (simp add: queue_rebroadcast_def Let_def)

lemma core_cache_announce [core_simps, simp]: "core (cache_announce_to_disk h raw i a) = core a"
  by (simp add: cache_announce_to_disk_def)

lemma core_dispatch_announce [core_simps, simp]: "core (dispatch_announce env raw header ad identity a) = core a"
  by (simp add: dispatch_announce_def Let_def split: prod.split)

lemma Identity_key:
  assumes "AnnounceData_verify_signature lib cl d ad = Ok identity"
  shows "Identity_get_public_key identity = ad_public_key ad"
  using assms
  by (auto simp: AnnounceData_verify_signature_def Identity_from_public_key_def Identity_get_public_key_def and_then_def
      map_err_def Ed25519PublicKey_from_bytes_def Let_def split: sum.splits if_splits)

lemma evolves_learn_path:
  assumes "verified_announce (ae_lib env) (ae_curve env) R (ph_destination_hash header) ad identity" "ph_hops header < PATHFINDER_M"
    "should_add_path (ae_now env) (ta_path_table a) (ph_destination_hash header) (ph_hops header) (ad_random_hash ad)"
    "known_key (ta_recent_announces a) (ph_destination_hash header) = Some (ad_public_key ad)"
  shows "evolves env R a (learn_path env raw header i blocked (ad_random_hash ad) a)"
proof -
  let ?e = "announced_path env a raw header i (ad_random_hash ad)" and ?d = "ph_destination_hash header"
  have e: "pe_hops ?e = ph_hops header" "pe_random_blobs ?e = extend_blobs (ad_random_hash ad) (known_blobs (ta_path_table a) ?d)"
    by (simp_all add: announced_path_def Let_def PathEntry_new_def)
  have "evolves env R a (install_path env ?d ?e i b)" if "core b = core a" for b
    using rs_learn [OF assms(1), of ?e "ae_now env" "core a" i] assms(2-4) that
    by (intro evolves_step) (simp add: e install_path_def core_fields)
  then have "evolves env R a (install_path env ?d ?e i (queue_rebroadcast env raw header i a))"
    "evolves env R a (install_path env ?d ?e i a)"
    by simp_all
  then show ?thesis
    unfolding learn_path_def Let_def
    by (auto intro: evolves_trans evolves_retires [OF retires_finish_discovery] split: option.split)
qed

lemma evolves_describe: "evolves env R a (describe_announce header ratchet h a)"
  unfolding describe_announce_def by (intro evolves_step) (simp add: core_fields rs_describe)

lemma retires_answer_waiting: "retires a (answer_waiting_peer env raw header i a)"
  by (auto simp: answer_waiting_peer_def Let_def intro: retires_core retires_via [OF _ retires_send] split: option.split)

lemma evolves_publish: "evolves env R a (publish_announce env raw header i ad identity a)"
proof -
  let ?ph = "actor_packet_hash env raw (header_type (ph_flags header))"
  let ?d = "describe_announce header (ad_ratchet ad) ?ph (cache_announce_to_disk ?ph raw i a)"
  let ?c = "send_announce_to_local_clients env raw (ph_destination_hash header) (ph_hops header) (Some i) Ctx_None
    (answer_waiting_peer env raw header i ?d)"
  have "evolves env R a ?d"
    by (rule evolves_via [OF _ evolves_describe]) simp
  moreover have "evolves env R ?d ?c"
    by (blast intro: evolves_retires retires_trans retires_answer_waiting retires_announce_clients)
  ultimately have "evolves env R a ?c"
    by (rule evolves_trans)
  then show ?thesis
    by (simp add: publish_announce_def Let_def evolves_def)
qed

lemma known_key_remembered:
  "known_key (remembered now header ad identity known) d =
    (if d = ph_destination_hash header then Some (Identity_get_public_key identity) else known_key known d)"
  by (auto simp: remembered_def known_key_def Let_def hm_contains_def hm_get_def hm_insert_def update_conv' hm_get_update [unfolded hm_get_def] split: option.split)

lemma evolves_process_announce:
  assumes "packet_parsed R raw header off"
  shows "evolves env R a (process_announce env raw header off i a)"
proof (cases "check_announce env a raw header off")
  case (Inr p)
  let ?d = "ph_destination_hash header"
  obtain ad identity where c: "check_announce env a raw header off = Inr (ad, identity)"
    using Inr by (cases p) auto
  obtain b held where b: "ingress_announce env raw header i a = (b, held)"
    by fastforce
  define m where "m = remember_announce env header ad identity b"
  obtain n blocked where n: "account_rate env header i m = (n, blocked)"
    by fastforce
  obtain s sup where s: "is_path_interface_suppressed ?d i (ae_now env) (observe_rebroadcast env header n) = (s, sup)"
    by fastforce
  have cores: "core b = core a" "core s = core m"
    using core_ingress_announce [of env raw header i a] core_account_rate [of env header i m]
      core_suppressed [of ?d i "ae_now env" "observe_rebroadcast env header n"] b n s by simp_all
  show ?thesis
  proof (cases "?d \<in> ta_local_destinations a \<or> held
      \<or> is_err (AnnounceData_validate_destination_binding (ae_lib env) ?d identity (known_key (ta_recent_announces b) ?d) ad)")
    case True
    then show ?thesis
      by (auto simp: process_announce_def Let_def c b cores known_key_def evolves_core)
  next
    case False
    note sig = check_announce_ok(1) [OF c]
    have v: "verified_announce (ae_lib env) (ae_curve env) R ?d ad identity"
      and k: "known_key (rg_known (core b)) ?d \<in> {None, Some (ad_public_key ad)}"
      using False check_announce_ok [OF c] assms
      by (auto simp: verified_announce_def AnnounceData_validate_destination_binding_def is_err_def Let_def core_fields
          split: if_splits option.splits)
    have am: "evolves env R a m"
      using rs_remember [OF v k, of "ae_now env"] cores(1)
      by (intro evolves_step) (simp add: m_def remember_announce_def core_fields)
    have "known_key (ta_recent_announces s) ?d = Some (ad_public_key ad)"
      using cores(2) Identity_key [OF sig] by (simp add: core_fields m_def remember_announce_def known_key_remembered)
    then have "evolves env R s (learn_path env raw header i blocked (ad_random_hash ad) s)"
      if "ph_hops header < PATHFINDER_M" "should_add_path (ae_now env) (ta_path_table s) ?d (ph_hops header) (ad_random_hash ad)"
      using evolves_learn_path [OF v that] by simp
    then have "evolves env R m (publish_announce env raw header i ad identity (learn_path env raw header i blocked (ad_random_hash ad) s))"
      if "ph_hops header < PATHFINDER_M" "should_add_path (ae_now env) (ta_path_table s) ?d (ph_hops header) (ad_random_hash ad)"
      using that evolves_publish cores(2) by (blast intro: evolves_trans evolves_via)
    with False show ?thesis
      unfolding process_announce_def
      by (auto simp: Let_def c b m_def [symmetric] n s known_key_def am not_le
          intro: evolves_trans [OF am] evolves_core [OF cores(2)])
  qed
qed (simp add: process_announce_def Let_def evolves_core)

subsection \<open>The refinement\<close>

lemma packet_parsed_hops: "packet_parsed R raw header off \<Longrightarrow> packet_parsed R raw (header\<lparr>ph_hops := n\<rparr>) off"
  by (auto simp: packet_parsed_def)

lemma evolves_dispatch:
  assumes "packet_parsed R raw header off" "hm_wf (lt_entries (ta_link_table a))"
  shows "evolves env R a (dispatch_packet env raw header off i metrics a)"
  using packet_parsed_hops [OF assms(1)] assms(2)
  by (auto simp: dispatch_packet_def Let_def evolves_process_link_request evolves_process_data
      intro: evolves_process_announce evolves_process_proof split: PacketType.split)

lemma core_admit_hash [core_simps, simp]: "core (fst (admit_hash env raw header a)) = core a"
  by (simp add: admit_hash_def Let_def split: prod.split)

lemma core_wire_budget [core_simps, simp]: "core (fst (wire_budget origin packet a)) = core a"
  by (simp add: wire_budget_def split: option.split sum.split)

lemma links_core: "core b = core a \<Longrightarrow> ta_link_table b = ta_link_table a"
  by (simp add: core_fields)

lemma evolves_inbound_clear:
  assumes "R raw" "hm_wf (lt_entries (ta_link_table a))"
  shows "evolves env R a (inbound_clear env raw packet a)"
proof (cases "PacketHeader_unpack raw")
  case (Inr p)
  obtain header off where p: "p = (header, off)"
    by fastforce
  define r where "r = record_packet_metrics (actor_packet_hash env raw (header_type (ph_flags header)))
    \<lparr>pm_rssi = ip_rssi packet, pm_snr = ip_snr packet, pm_q = ip_q packet\<rparr> a"
  obtain b fresh where b: "admit_hash env raw header r = (b, fresh)"
    by fastforce
  have "core b = core a"
    by (metis core_admit_hash core_record_packet_metrics b fst_conv r_def)
  moreover have "packet_parsed R raw header off"
    using assms(1) Inr p by (auto simp: packet_parsed_def intro!: exI [of _ "ph_hops header"])
  ultimately show ?thesis
    using assms(2) links_core [of b a] unfolding inbound_clear_def
    by (auto simp: Inr p Let_def r_def [symmetric] b evolves_core intro: evolves_via [OF _ evolves_dispatch])
qed (simp add: inbound_clear_def evolves_core)

lemma wire_budget_interface:
  "wire_budget origin packet a = (b, Some n) \<Longrightarrow> open_ifac env origin packet b = open_ifac env origin packet a"
  by (auto simp: wire_budget_def split: if_splits option.splits sum.splits)

lemma evolves_inbound_inner:
  assumes "\<And>raw. open_ifac env origin packet a = Some raw \<Longrightarrow> R raw" "hm_wf (lt_entries (ta_link_table a))"
  shows "evolves env R a (on_inbound_inner env packet origin a)"
proof -
  define t where "t = (if origin = IO_Wire
    then a\<lparr>ta_traffic := TrafficCounter_record_rx (ip_interface_id packet) (word_of_nat (length (ip_raw packet))) (ta_traffic a)\<rparr> else a)"
  obtain b budget where b: "wire_budget origin packet t = (b, budget)"
    by fastforce
  have "core b = core a"
    by (metis core_wire_budget core_updates b fst_conv t_def)
  moreover have "R raw" if "budget = Some n" "open_ifac env origin packet b = Some raw" for n raw
    using that b wire_budget_interface [of origin packet t b n env] assms(1)
    by (auto simp: t_def open_ifac_def get_interface_def split: if_splits)
  ultimately show ?thesis
    using assms(2) links_core [of b a] unfolding on_inbound_inner_def
    by (auto simp: Let_def t_def [symmetric] b evolves_core intro: evolves_via [OF _ evolves_inbound_clear] split: option.split)
qed

lemma evolves_released:
  "R (ha_raw h) \<Longrightarrow> hm_wf (lt_entries (ta_link_table a)) \<Longrightarrow> evolves env R a (on_released_announce env h a)"
  unfolding on_released_announce_def by (rule evolves_inbound_inner) (simp_all add: open_ifac_def)

lemma evolves_cached:
  "R (ip_raw p) \<Longrightarrow> hm_wf (lt_entries (ta_link_table a)) \<Longrightarrow> evolves env R a (on_cached_announce env p a)"
  using evolves_inbound_inner [of env IO_CachedAnnounce p a R] by (simp add: on_cached_announce_def evolves_core open_ifac_def)

subsection \<open>Messages\<close>

lemma retires_path_request_options: "retires a (on_path_request_with_options env d opts a)"
  by (simp add: on_path_request_with_options_def Let_def retires_send_path_request retires_forward_path_request split: option.split)

lemma retires_broadcast_path_request: "retires a (broadcast_path_request env d a)"
  by (simp add: broadcast_path_request_def retires_forward_path_request)

lemma retires_await: "retires a (await_path env d reply a)"
  using retires_broadcast_path_request [of a env d]
  by (simp add: await_path_def Let_def on_path_request_def retires_def)

lemma retires_request_discovery: "retires a (fst (request_recursive_discovery env d i a))"
proof -
  have "core b = core a" if "admit_discovery_requester d i now (update_interface i f a) = (b, r)" for now f b r
    using core_admit_requester [of d i now "update_interface i f a"] that by simp
  then show ?thesis
    unfolding request_recursive_discovery_def
    by (auto simp: Let_def intro: retires_core retires_via [OF _ retires_forward_path_request]
        split: option.split prod.split sum.split)
qed

lemma core_cancel_discovery [core_simps, simp]: "core (fst (cancel_discovery_requester env token a)) = core a"
  by (simp add: cancel_discovery_requester_def Let_def split: option.split)

lemma retires_poll_one: "retires a (poll_path_request env now p a)"
  using retires_try_admit [of a env "pad_destination p" "pad_interface p" "pad_raw p" "pad_recursive p" now]
  by (auto simp: poll_path_request_def Let_def retires_def split: prod.split)

lemma retires_poll: "retires a (poll_path_requests n env now a)"
proof (induction n arbitrary: a)
  case (Suc n)
  have "retires a (poll_path_request env now p (a\<lparr>ta_pending_path_request_admissions := rest\<rparr>))" for p rest
    by (rule retires_via [OF _ retires_poll_one]) simp
  then show ?case
    using Suc by (auto intro: retires_trans split: list.split)
qed simp

lemma core_clear [core_simps, simp]: "core (clear_shared_connection_state a) =
    (core a)\<lparr>rg_paths := PathTable_new, rg_links := LinkTable_new, rg_tunnels := TunnelTable_new\<rparr>"
  by (simp add: clear_shared_connection_state_def)

lemma retires_cleared:
  "core b = (core a)\<lparr>rg_paths := PathTable_new, rg_links := LinkTable_new, rg_tunnels := TunnelTable_new\<rparr> \<Longrightarrow> retires a b"
  by (auto simp: retires_def intro: cs_clear)

lemma core_terminate_shared [core_simps, simp]: "core (terminate_shared_peer_link_endpoints a) = core a"
  by (simp add: terminate_shared_peer_link_endpoints_def core_fold)

lemma core_request_announces [core_simps, simp]: "core (request_announces_from_local_destinations a) = core a"
  by (simp add: request_announces_from_local_destinations_def core_fold_deliver)

lemma retires_shared: "retires a (shared_connection_lost a)" "retires a (shared_connection_restored a)"
  by (rule retires_cleared, simp add: shared_connection_lost_def shared_connection_restored_def)+

lemma core_register_destination [core_simps, simp]: "core (register_destination h app tx a) = core a"
  by (simp add: register_destination_def Let_def split: option.split)

lemma core_set_receipt_timeout [core_simps, simp]: "core (fst (set_receipt_timeout h t a)) = core a"
  by (simp add: set_receipt_timeout_def split: option.split)

text \<open>The clear packet an event presents to the actor, after the interface's access code has been checked.\<close>

fun presented :: "actor_env \<Rightarrow> actor_event \<Rightarrow> TransportActor \<Rightarrow> bytes \<Rightarrow> bool" where
  "presented env (AE_Inbound p) a raw \<longleftrightarrow> open_ifac env IO_Wire p a = Some raw"
| "presented env (AE_ReleasedAnnounce h) a raw \<longleftrightarrow> raw = ha_raw h"
| "presented env (AE_CachedAnnounce p) a raw \<longleftrightarrow> raw = ip_raw p"
| "presented env _ a raw \<longleftrightarrow> False"

lemma evolves_handle:
  assumes "presented env ev a \<le> R" "hm_wf (lt_entries (ta_link_table a))"
  shows "evolves env R a (actor_handle env ev a)"
proof (cases ev)
  case (AE_Inbound p)
  then show ?thesis
    using assms by (auto simp: on_inbound_def le_fun_def intro!: evolves_inbound_inner)
next
  case (AE_DeregisterInterface i)
  then show ?thesis
    by (simp add: deregister_interface_def evolves_retires retires_deregister)
next
  case (AE_AutomaticPathRequest d)
  then show ?thesis
    by (simp add: on_automatic_path_request_def evolves_core evolves_retires retires_broadcast_path_request split: option.split)
qed (use assms in \<open>simp_all add: evolves_released evolves_cached evolves_core evolves_retires retires_path_request_options
    retires_broadcast_path_request on_path_request_def retires_await retires_request_discovery
    process_pending_path_request_admissions_def retires_poll retires_shared register_receipt_def deregister_announce_handler_def
    deregister_announce_subscription_def predicate1D\<close>)

end
