(* ===== verification/Routing_Safety.thy ===== *)
theory Routing_Safety
  imports Actor_Refinement
begin

text \<open>
  Invariants of routing under every sequence of received packets and messages. An invariant of the steps of the specification is an
  invariant of the actor: the locale \<open>routing_invariant\<close> says so once. It is interpreted for the uniqueness of link table
  keys, for the signatures behind the routes, for the binding and the permanence of remembered keys, and for the proofs
  behind confirmed transit links.
\<close>

subsection \<open>Sequences of packets\<close>

definition uses_crypto :: "crypto_lib \<Rightarrow> curve_lib \<Rightarrow> (actor_env \<times> actor_event) list \<Rightarrow> bool" where
  "uses_crypto lib cl evs \<longleftrightarrow> list_all (\<lambda>(env, _). ae_lib env = lib \<and> ae_curve env = cl) evs"

fun heard :: "(actor_env \<times> actor_event) list \<Rightarrow> TransportActor \<Rightarrow> bytes \<Rightarrow> bool" where
  "heard [] a raw \<longleftrightarrow> False"
| "heard ((env, ev) # evs) a raw \<longleftrightarrow> presented env ev a raw \<or> heard evs (actor_handle env ev a) raw"

definition links_wf :: "routing \<Rightarrow> bool" where
  "links_wf c \<longleftrightarrow> hm_wf (lt_entries (rg_links c))"

lemma link_updates_wf [simp]:
  "hm_wf (lt_entries (LinkTable_get_mut l f t)) = hm_wf (lt_entries t)"
  "hm_wf (lt_entries t) \<Longrightarrow> hm_wf (lt_entries (LinkTable_insert l e t))"
  "hm_wf (lt_entries t) \<Longrightarrow> hm_wf (lt_entries (LinkTable_remove_interface i t))"
  "hm_wf (lt_entries LinkTable_new)"
  by (simp_all add: LinkTable_get_mut_def LinkTable_insert_def LinkTable_remove_interface_def LinkTable_new_def)

lemma core_step_links_wf: "links_wf c \<Longrightarrow> core_step c c' \<Longrightarrow> links_wf c'"
  by (erule core_step.cases) (auto simp: links_wf_def)

lemma route_step_links_wf: "links_wf c \<Longrightarrow> route_step lib cl R c c' \<Longrightarrow> links_wf c'"
  by (erule route_step.cases) (auto simp: links_wf_def core_step_links_wf [unfolded links_wf_def])

locale routing_invariant =
  fixes lib :: crypto_lib and cl :: curve_lib and R :: "bytes \<Rightarrow> bool" and I :: "routing \<Rightarrow> bool"
  assumes step: "I c \<Longrightarrow> links_wf c \<Longrightarrow> route_step lib cl R c c' \<Longrightarrow> I c'"
begin

lemma steps: "(route_step lib cl R)\<^sup>*\<^sup>* c c' \<Longrightarrow> I c \<Longrightarrow> links_wf c \<Longrightarrow> I c' \<and> links_wf c'"
  by (induction rule: rtranclp_induct) (auto intro: step route_step_links_wf)

lemma handled:
  assumes "ae_lib env = lib" "ae_curve env = cl" "presented env ev a \<le> R" "I (core a)" "links_wf (core a)"
  shows "I (core (actor_handle env ev a)) \<and> links_wf (core (actor_handle env ev a))"
proof -
  have "hm_wf (lt_entries (ta_link_table a))"
    using assms(5) by (simp add: links_wf_def core_fields)
  from evolves_handle [OF assms(3) this] show ?thesis
    using steps assms by (simp add: evolves_def)
qed

lemma run: "uses_crypto lib cl evs \<Longrightarrow> heard evs a \<le> R \<Longrightarrow> I (core a) \<Longrightarrow> links_wf (core a) \<Longrightarrow> I (core (actor_run evs a))"
proof (induction evs arbitrary: a)
  case (Cons ev evs)
  obtain env e where ev: "ev = (env, e)"
    by fastforce
  have "I (core (actor_handle env e a)) \<and> links_wf (core (actor_handle env e a))"
    using Cons.prems ev by (intro handled) (auto simp: uses_crypto_def le_fun_def)
  then show ?case
    using Cons.IH [of "actor_handle env e a"] Cons.prems ev by (auto simp: uses_crypto_def le_fun_def)
qed simp

end

interpretation wf: routing_invariant lib cl R links_wf
  by unfold_locales (rule route_step_links_wf)

subsection \<open>Signed routes\<close>

definition signed_blob :: "crypto_lib \<Rightarrow> curve_lib \<Rightarrow> (bytes \<Rightarrow> bool) \<Rightarrow> bytes \<Rightarrow> bytes \<Rightarrow> bool" where
  "signed_blob lib cl R d b \<longleftrightarrow> (\<exists>ad identity. verified_announce lib cl R d ad identity \<and> ad_random_hash ad = b)"

definition signed_blobs :: "crypto_lib \<Rightarrow> curve_lib \<Rightarrow> (bytes \<Rightarrow> bool) \<Rightarrow> bytes \<Rightarrow> bytes list \<Rightarrow> bool" where
  "signed_blobs lib cl R d bs \<longleftrightarrow> bs \<noteq> [] \<and> list_all (signed_blob lib cl R d) bs"

definition routes_authentic :: "crypto_lib \<Rightarrow> curve_lib \<Rightarrow> (bytes \<Rightarrow> bool) \<Rightarrow> routing \<Rightarrow> bool" where
  "routes_authentic lib cl R c \<longleftrightarrow>
     list_all (\<lambda>(d, e). signed_blobs lib cl R d (pe_random_blobs e)) (pt_entries (rg_paths c))
   \<and> list_all (\<lambda>(_, t). list_all (\<lambda>(d, tp). signed_blobs lib cl R d (tp_random_blobs tp)) (te_tunnel_paths t)) (tt_entries (rg_tunnels c))"

lemma list_all_update: "list_all P m \<Longrightarrow> P (k, v) \<Longrightarrow> list_all P (hm_insert k v m)"
  by (induction m) (auto simp: hm_insert_def)

lemma list_all_hm_update: "list_all P m \<Longrightarrow> (\<And>v. P (k, v) \<Longrightarrow> P (k, f v)) \<Longrightarrow> list_all P (hm_update k f m)"
  by (induction m) (auto simp: hm_update_def)

lemma list_all_retain: "list_all P m \<Longrightarrow> list_all P (hm_retain Q m)"
  by (auto simp: hm_retain_def list_all_iff)

lemma list_all_remove_all: "list_all P m \<Longrightarrow> list_all P (hm_remove_all ks m)"
  by (auto simp: hm_remove_all_filter list_all_iff)

lemma list_all_void:
  "list_all (\<lambda>(_, t). Q (te_tunnel_paths t)) m
    \<Longrightarrow> list_all (\<lambda>(_, t). Q (te_tunnel_paths t))
          (map (\<lambda>(k, t). (k, if te_interface_id t = Some i then t\<lparr>te_interface_id := None\<rparr> else t)) m)"
  by (induction m) auto

lemma verified_signed: "verified_announce lib cl R d ad identity \<Longrightarrow> signed_blob lib cl R d (ad_random_hash ad)"
  by (auto simp: signed_blob_def)

lemma signed_extend: "signed_blob lib cl R d b \<Longrightarrow> list_all (signed_blob lib cl R d) bs \<Longrightarrow> signed_blobs lib cl R d (extend_blobs b bs)"
  by (cases bs) (auto simp: signed_blobs_def extend_blobs_def)

lemma known_blobs_signed:
  "list_all (\<lambda>(d, e). signed_blobs lib cl R d (pe_random_blobs e)) (pt_entries p) \<Longrightarrow> list_all (signed_blob lib cl R d) (known_blobs p d)"
  by (cases "hm_get (pt_entries p) d") (auto simp: known_blobs_def PathTable_get_def list_all_iff signed_blobs_def dest: hm_get_Some_mem)

lemma routes_authentic_step:
  assumes "routes_authentic lib cl R c" "route_step lib cl R c c'"
  shows "routes_authentic lib cl R c'"
  using assms(2)
proof cases
  case rs_core
  from this(1) show ?thesis
    using assms(1) by cases (auto simp: routes_authentic_def PathTable_drop_all_via_def Let_def list_all_retain PathTable_new_def
        TunnelTable_new_def hm_empty_def TunnelTable_void_interface_def list_all_void)
next
  case (rs_learn d ad identity e now i)
  have "signed_blobs lib cl R d (pe_random_blobs e)"
    using rs_learn assms(1) verified_signed [OF rs_learn(2)]
    by (auto simp: routes_authentic_def intro!: signed_extend known_blobs_signed)
  then show ?thesis
    using assms(1) rs_learn
    by (auto simp: routes_authentic_def PathTable_insert_def note_tunnel_path_def TunnelTable_get_mut_def tunnel_path_of_def
        split: option.split intro!: list_all_update list_all_hm_update)
next
  case (rs_restore tid t d tp now i)
  then have "signed_blobs lib cl R d (tp_random_blobs tp)"
    using assms(1) by (fastforce simp: routes_authentic_def list_all_iff)
  then show ?thesis
    using assms(1) rs_restore
    by (auto simp: routes_authentic_def PathTable_insert_def restored_path_def intro!: list_all_update)
qed (use assms(1) in \<open>auto simp: routes_authentic_def PathTable_get_live_mut_def PathEntry_touch_def TunnelTable_get_mut_def
      handle_tunnel_def TunnelTable_insert_def hm_empty_def Let_def intro!: list_all_hm_update list_all_update list_all_remove_all\<close>)

interpretation authentic: routing_invariant lib cl R "routes_authentic lib cl R"
  by unfold_locales (rule routes_authentic_step)

subsection \<open>Remembered keys\<close>

definition bound_key :: "crypto_lib \<Rightarrow> curve_lib \<Rightarrow> bytes \<Rightarrow> bytes \<Rightarrow> bool" where
  "bound_key lib cl d k \<longleftrightarrow>
     (\<exists>name identity. Identity_from_public_key lib cl k = Ok identity \<and> truncated_hash lib (name @ id_hash identity) = d)"

definition keys_bound :: "crypto_lib \<Rightarrow> curve_lib \<Rightarrow> routing \<Rightarrow> bool" where
  "keys_bound lib cl c \<longleftrightarrow>
     list_all (\<lambda>(d, r). case rn_public_key r of Some k \<Rightarrow> bound_key lib cl d k | None \<Rightarrow> True) (rg_known c)"

lemma core_step_known: "core_step c c' \<Longrightarrow> rg_known c' = rg_known c"
  by (erule core_step.cases) simp_all

lemma verified_bound: "verified_announce lib cl R d ad identity \<Longrightarrow> bound_key lib cl d (Identity_get_public_key identity)"
  using Identity_key [of lib cl d ad identity]
  by (auto simp: verified_announce_def bound_key_def AnnounceData_verify_signature_def and_then_def map_err_def Let_def
      split: sum.splits if_splits)

lemma keys_bound_step:
  assumes "keys_bound lib cl c" "route_step lib cl R c c'"
  shows "keys_bound lib cl c'"
  using assms(2)
proof cases
  case (rs_remember header ad identity now)
  then show ?thesis
    using assms(1) verified_bound [OF rs_remember(2)]
    by (auto simp: keys_bound_def remembered_def Let_def intro!: list_all_update list_all_hm_update)
qed (use assms(1) in \<open>auto simp: keys_bound_def core_step_known intro!: list_all_hm_update\<close>)

interpretation bound: routing_invariant lib cl R "keys_bound lib cl"
  by unfold_locales (rule keys_bound_step)

definition key_is :: "bytes \<Rightarrow> bytes \<Rightarrow> routing \<Rightarrow> bool" where
  "key_is d k c \<longleftrightarrow> known_key (rg_known c) d = Some k"

lemma known_key_update:
  "(\<And>e. rn_public_key (f e) = rn_public_key e) \<Longrightarrow> known_key (hm_update d' f m) d = known_key m d"
  by (cases "hm_get m d") (auto simp: known_key_def)

lemma key_is_step:
  assumes "key_is d k c" "route_step lib cl R c c'"
  shows "key_is d k c'"
  using assms(2)
proof cases
  case (rs_remember header ad identity now)
  then show ?thesis
    using assms(1) Identity_key [of lib cl "ph_destination_hash header" ad identity]
    by (auto simp: key_is_def known_key_remembered verified_announce_def)
qed (use assms(1) in \<open>auto simp: key_is_def core_step_known known_key_update\<close>)

interpretation pinned: routing_invariant lib cl R "key_is d k"
  by unfold_locales (rule key_is_step)

subsection \<open>Confirmed transit links\<close>

definition link_confirmed :: "curve_lib \<Rightarrow> (bytes \<Rightarrow> bool) \<Rightarrow> bytes set \<Rightarrow> routing \<Rightarrow> bytes \<times> LinkEntry \<Rightarrow> bool" where
  "link_confirmed cl R V c p \<longleftrightarrow>
     (le_validated (snd p) \<longrightarrow> fst p \<in> V \<or> (\<exists>key. key_is (le_destination_hash (snd p)) key c \<and> signed_link_proof cl R (fst p) key))"

definition links_confirmed :: "curve_lib \<Rightarrow> (bytes \<Rightarrow> bool) \<Rightarrow> bytes set \<Rightarrow> routing \<Rightarrow> bool" where
  "links_confirmed cl R V c \<longleftrightarrow> list_all (link_confirmed cl R V c) (lt_entries (rg_links c))"

lemma link_confirmed_mono:
  assumes "route_step lib cl R c c'" "link_confirmed cl R V c p"
  shows "link_confirmed cl R V c' p"
  using assms(2) key_is_step [OF _ assms(1)] by (auto simp: link_confirmed_def)

lemma link_confirmed_cong: "rg_known c' = rg_known c \<Longrightarrow> link_confirmed cl R V c' p = link_confirmed cl R V c p"
  by (simp add: link_confirmed_def key_is_def)

lemma links_confirmed_step:
  assumes "links_confirmed cl R V c" "links_wf c" "route_step lib cl R c c'"
  shows "links_confirmed cl R V c'"
proof -
  have old: "list_all (link_confirmed cl R V c') (lt_entries (rg_links c))"
    using assms(1) link_confirmed_mono [OF assms(3)] by (auto simp: links_confirmed_def list_all_iff)
  show ?thesis
    using assms(3)
  proof cases
    case rs_core
    from this(1) show ?thesis
      using old by cases (auto simp: links_confirmed_def LinkTable_remove_interface_def list_all_retain LinkTable_new_def hm_empty_def)
  next
    case (rs_request l e)
    then show ?thesis
      using old by (auto simp: links_confirmed_def LinkTable_insert_def link_confirmed_def intro!: list_all_update)
  next
    case (rs_confirm l e mtu)
    let ?signed = "\<lambda>p. fst p = l \<longrightarrow> (\<exists>key. key_is (le_destination_hash (snd p)) key c' \<and> signed_link_proof cl R l key)"
    let ?both = "\<lambda>p. link_confirmed cl R V c' p \<and> ?signed p"
    have "?signed p" if "p \<in> set (lt_entries (rg_links c))" for p
      using that rs_confirm hm_mem_get [OF assms(2) [unfolded links_wf_def], of "fst p" "snd p"]
      by (auto simp: LinkTable_get_def confirms_link_def key_is_def)
    then have "list_all ?both (lt_entries (rg_links c))"
      using old by (simp add: list_all_iff)
    then have "list_all ?both (lt_entries (rg_links c'))"
      using rs_confirm by (auto simp: LinkTable_get_mut_def link_confirmed_def intro!: list_all_hm_update)
    then show ?thesis
      by (simp add: links_confirmed_def list_all_iff)
  qed (use old in \<open>auto simp: links_confirmed_def LinkTable_get_mut_def link_confirmed_def intro!: list_all_hm_update\<close>)
qed

interpretation confirmed: routing_invariant lib cl R "links_confirmed cl R V"
  by unfold_locales (rule links_confirmed_step)

end
