(* ===== verification/Routing_Service.thy ===== *)
theory Routing_Service
  imports Routing_Safety
begin

text \<open>
  What the transport actor does for its network: good announces are learned, packets are forwarded unchanged along the path
  table, rejected and repeated packets have no effect, and a removed interface leaves nothing behind.
\<close>

subsection \<open>An example instance\<close>

definition example_interface_entry :: InterfaceEntry where
  "example_interface_entry = \<lparr>
     ie_owner = example_owner, ie_packet_capacity = InterfacePacketCapacity_base 500, ie_name = ''radio'', ie_mode = IM_Full,
     ie_role = IR_Normal, ie_parent_id = None, ie_inbound = True, ie_outbound = True, ie_bitrate = 1200, ie_tx = 0,
     ie_ifac_key = None, ie_ifac_size = 0, ie_announce_cap = 2, ie_announce_allowed_at = 0, ie_announce_rate_target = None,
     ie_announce_rate_grace = None, ie_announce_rate_penalty = None, ie_online = None, ie_tx_drops = 0, ie_tx_dropped_bytes = 0,
     ie_protocol_violations = 0, ie_ifac_violations = 0, ie_packet_filter_hits = 0,
     ie_ingress = IngressController_disabled 0, ie_announce_queue = [], ie_recursive_prs = False,
     ie_announces_from_internal = True\<rparr>"

definition open_channel :: "'a chan" where
  "open_channel = \<lparr>ch_queue = [], ch_capacity = 4, ch_closed = False\<rparr>"

definition example_actor :: TransportActor where
  "example_actor = (TransportActor_new_with_capacity 100 example_store (\<lambda>_. open_channel) (\<lambda>_. open_channel) (\<lambda>_. open_channel))
     \<lparr>ta_interfaces := [(7, example_interface_entry), (8, example_interface_entry\<lparr>ie_tx := 1\<rparr>)],
       ta_is_transport_enabled := True, ta_transport_identity_hash := Some (replicate 16 3)\<rparr>"

definition example_env :: actor_env where
  "example_env = \<lparr>ae_lib = example_lib, ae_curve = example_curve, ae_now = 1000, ae_instant = 0, ae_jitter = 0,
     ae_random = (\<lambda>_. replicate 16 9), ae_cached = (\<lambda>_. None), ae_reply_gone = (\<lambda>_. False)\<rparr>"

definition example_dest :: bytes where
  "example_dest = replicate 10 5 @ replicate 6 1"

definition example_announced :: AnnounceData where
  "example_announced = \<lparr>ad_public_key = replicate 32 1 @ replicate 32 2, ad_name_hash = replicate 10 5,
     ad_random_hash = replicate 9 0 @ [1], ad_ratchet = None,
     ad_signature = replicate 32 2 @ example_dest @ replicate 16 1, ad_app_data = None\<rparr>"

definition example_announcer :: Identity where
  "example_announcer = \<lparr>id_prv = None, id_sig_prv = None, id_pub_key = replicate 32 1, id_sig_pub = replicate 32 2,
     id_hash = replicate 16 1, id_backend = None\<rparr>"

definition example_path_header :: PacketHeader where
  "example_path_header = \<lparr>ph_flags = \<lparr>header_type = Header1, context_flag = False, transport_type = Broadcast,
      destination_type = DT_Single, packet_type = PT_Announce\<rparr>, ph_hops = 2, ph_transport_id = None,
      ph_destination_hash = example_dest, ph_context = Ctx_None\<rparr>"

definition example_announce_packet :: InboundPacket where
  "example_announce_packet = \<lparr>ip_raw = PacketHeader_pack example_path_header @ AnnounceData_pack example_announced,
     ip_interface_id = 7, ip_rssi = None, ip_snr = None, ip_q = None\<rparr>"

lemma example_announce_checked:
  "check_announce example_env example_actor (ip_raw example_announce_packet) example_path_header 19
     = Ok (example_announced, example_announcer)"
proof -
  have wf: "announce_wf example_announced"
    by (simp add: announce_wf_def example_announced_def example_dest_def)
  have len: "length (PacketHeader_pack example_path_header) = 19"
    by (simp add: PacketHeader_pack_def example_path_header_def example_dest_def)
  have un: "AnnounceData_unpack (AnnounceData_pack example_announced) False = Ok example_announced"
    using AnnounceData_unpack_pack [OF wf] by (simp add: example_announced_def)
  have ver: "AnnounceData_verify_signature example_lib example_curve example_dest example_announced = Ok example_announcer"
    by (simp add: AnnounceData_verify_signature_def example_announced_def example_announcer_def Identity_from_public_key_def
        and_then_def map_err_def Ed25519PublicKey_from_bytes_def example_curve_def Identity_compute_hash_def truncated_hash_def
        example_lib_def Identity_verify_def Ed25519PublicKey_verify_def example_dest_def Let_def take_append)
  have ne: "AnnounceData_pack example_announced \<noteq> []"
    by (simp add: AnnounceData_pack_def example_announced_def)
  show ?thesis
    using un ver len ne
    by (simp add: check_announce_def example_announce_packet_def example_path_header_def example_env_def
        example_actor_def TransportActor_new_with_capacity_def BlackholeTable_is_blackholed_def BlackholeTable_new_def hm_get_def hm_empty_def)
qed

subsection \<open>Announces are learned\<close>

lemma role_update_interface:
  assumes "\<And>e. ie_role (f e) = ie_role e"
  shows "has_local_client_interfaces (update_interface i f a) = has_local_client_interfaces a"
  using assms by (auto simp: has_local_client_interfaces_def update_interface_def hm_update_def list_ex_iff split: prod.split)

lemma interfaces_same:
  assumes "ta_interfaces b = ta_interfaces a"
  shows "has_local_client_interfaces b = has_local_client_interfaces a"
    and "is_local_client_interface b j = is_local_client_interface a j"
    and "get_interface b j = get_interface a j"
    and "local_client_interface_ids_except b x = local_client_interface_ids_except a x"
  using assms by (simp_all add: has_local_client_interfaces_def is_local_client_interface_def interface_is_def get_interface_def
      local_client_interface_ids_except_def)

lemma no_client_ids: "\<not> has_local_client_interfaces a \<Longrightarrow> local_client_interface_ids_except a x = []"
  by (auto simp: has_local_client_interfaces_def local_client_interface_ids_except_def list_ex_iff filter_empty_conv)

lemma no_client: "\<not> has_local_client_interfaces a \<Longrightarrow> \<not> is_local_client_interface a i"
  by (auto simp: has_local_client_interfaces_def is_local_client_interface_def interface_is_def get_interface_def list_ex_iff
      split: option.split dest!: hm_get_Some_mem)

lemma publish_core_alone:
  assumes "\<not> has_local_client_interfaces a"
  shows "rg_paths (core (publish_announce env raw header i ad identity a)) = rg_paths (core a)"
proof -
  let ?ph = "actor_packet_hash env raw (header_type (ph_flags header))"
  let ?d = "describe_announce header (ad_ratchet ad) ?ph (cache_announce_to_disk ?ph raw i a)"
  have "ta_interfaces ?d = ta_interfaces a"
    by (simp add: describe_announce_def cache_announce_to_disk_def notify_def)
  then have "\<not> has_local_client_interfaces ?d"
    using assms interfaces_same(1) by blast
  then have "answer_waiting_peer env raw header i ?d = ?d"
      "send_announce_to_local_clients env raw (ph_destination_hash header) (ph_hops header) (Some i) Ctx_None ?d = ?d"
    by (simp_all add: answer_waiting_peer_def send_announce_to_local_clients_def no_client no_client_ids Let_def)
  moreover have "rg_paths (core ?d) = rg_paths (core a)"
    by (simp add: describe_announce_def)
  ultimately show ?thesis
    by (simp add: publish_announce_def Let_def)
qed

lemma ingress_keeps:
  assumes "ingress_announce env raw header i a = (b, held)"
  shows "has_local_client_interfaces b = has_local_client_interfaces a"
    and "map_option ie_mode (get_interface b j) = map_option ie_mode (get_interface a j)"
    and "ta_path_interface_suppressions b = ta_path_interface_suppressions a"
    and "ta_discovery_path_requests b = ta_discovery_path_requests a"
proof -
  have *: "b = a \<or> (\<exists>ing. b = update_interface i (\<lambda>e. e\<lparr>ie_ingress := ing\<rparr>) a)"
    using assms by (auto simp: ingress_announce_def Let_def split: option.splits prod.splits)
  then show "has_local_client_interfaces b = has_local_client_interfaces a"
    by (auto simp: role_update_interface)
  show "map_option ie_mode (get_interface b j) = map_option ie_mode (get_interface a j)"
    and "ta_path_interface_suppressions b = ta_path_interface_suppressions a"
    and "ta_discovery_path_requests b = ta_discovery_path_requests a"
    using * by (auto simp: get_interface_def update_interface_def option.map_comp comp_def)
qed

text \<open>Between the ingress accounting and the path table, only the bookkeeping of announces changes.\<close>

definition same_network :: "TransportActor \<Rightarrow> TransportActor \<Rightarrow> bool" where
  "same_network a b \<longleftrightarrow> ta_interfaces b = ta_interfaces a \<and> ta_path_table b = ta_path_table a
     \<and> ta_discovery_path_requests b = ta_discovery_path_requests a
     \<and> ta_path_interface_suppressions b = ta_path_interface_suppressions a"

lemma same_network_steps:
  "same_network a (remember_announce env header ad identity a)"
  "same_network a (fst (account_rate env header i a))"
  "same_network a (observe_rebroadcast env header a)"
  "same_network a (queue_rebroadcast env raw header i a)"
  by (simp_all add: same_network_def remember_announce_def account_rate_def observe_rebroadcast_def queue_rebroadcast_def Let_def
      split: prod.split option.split)

lemma same_network_trans: "same_network a b \<Longrightarrow> same_network b c \<Longrightarrow> same_network a c"
  by (simp add: same_network_def)

lemma learn_path_alone:
  assumes "\<not> hm_contains (ta_discovery_path_requests a) (ph_destination_hash header)"
  shows "PathTable_get (ta_path_table (learn_path env raw header i blocked rh a)) (ph_destination_hash header)
      = Some (announced_path env a raw header i rh)"
    and "ta_interfaces (learn_path env raw header i blocked rh a) = ta_interfaces a"
  using assms
  by (auto simp: learn_path_def Let_def install_path_def fire_path_waiters_def PathTable_get_def PathTable_insert_def
      queue_rebroadcast_def hm_get_def hm_insert_def update_conv' split: option.split)

lemma announced_path_cong:
  assumes "ta_path_table b = ta_path_table a" "map_option ie_mode (get_interface b i) = map_option ie_mode (get_interface a i)"
  shows "announced_path env b raw header i rh = announced_path env a raw header i rh"
  using assms by (auto simp: announced_path_def Let_def split: option.splits)



subsection \<open>Forwarding\<close>

text \<open>A packet that parses with the header \<open>h'\<close> carries what the packet \<open>raw\<close> with the header \<open>h\<close> did.\<close>

definition carried :: "actor_env \<Rightarrow> bytes \<Rightarrow> PacketHeader \<Rightarrow> nat \<Rightarrow> PacketHeader \<Rightarrow> bytes \<Rightarrow> bool" where
  "carried env raw h off h' fwd \<longleftrightarrow>
     (\<exists>off'. PacketHeader_unpack fwd = Ok (h', off') \<and> drop off' fwd = drop off raw) \<and> same_end_to_end h h'
   \<and> actor_packet_hash env fwd (header_type (ph_flags h')) = actor_packet_hash env raw (header_type (ph_flags h))"

lemma hashable_clear_bit: "get_hashable_part (raw[0 := raw ! 0 AND 0x7F]) ht = get_hashable_part raw ht"
  by (cases raw) (auto simp: get_hashable_part_def and.assoc split: HeaderType.splits)

lemma actor_hash_hashable: "actor_packet_hash env raw ht = the (map_option (lib_sha256 (ae_lib env)) (get_hashable_part raw ht))"
  by (simp add: actor_packet_hash_def packet_hash_hashable)

lemma carried_self: "PacketHeader_unpack raw = Ok (h, off) \<Longrightarrow> carried env raw h off h raw"
  by (simp add: carried_def same_end_to_end_def)

lemma carried_packed:
  assumes "PacketHeader_unpack raw = Ok (h, off)" "PacketHeader_wf h'" "same_end_to_end h h'"
  shows "carried env raw h off h' (PacketHeader_pack h' @ drop off raw)"
proof -
  note ok = PacketHeader_unpack_Ok [OF assms(1)]
  have "get_hashable_part raw (header_type (ph_flags h)) = get_hashable_part (PacketHeader_pack h @ drop off raw) (header_type (ph_flags h))"
    using hashable_clear_bit [of raw] ok(4) by simp
  then have "get_hashable_part (PacketHeader_pack h' @ drop off raw) (header_type (ph_flags h'))
      = get_hashable_part raw (header_type (ph_flags h))"
    using get_hashable_part_pack [OF ok(1)] get_hashable_part_pack [OF assms(2)] assms(3) by (simp add: same_end_to_end_def)
  then show ?thesis
    using PacketHeader_unpack_pack [OF assms(2)] PacketHeader_pack_length [OF assms(2)] assms(3)
    by (simp add: carried_def actor_hash_hashable)
qed

lemma carried_hops:
  assumes "carried env raw h off h' fwd"
  shows "carried env raw h off (h'\<lparr>ph_hops := b\<rparr>) (fwd[1 := b])"
proof -
  from assms obtain off' where u: "PacketHeader_unpack fwd = Ok (h', off')" and d: "drop off' fwd = drop off raw"
    by (auto simp: carried_def)
  have "2 \<le> off'"
    using PacketHeader_unpack_Ok(2) [OF u] by (simp add: PacketHeader_size_def wire_constants)
  then show ?thesis
    using assms PacketHeader_unpack_hops [OF u, of b] d
    by (auto simp: carried_def same_end_to_end_def actor_hash_hashable get_hashable_part_hops)
qed

lemma rewritten_carries:
  assumes u: "PacketHeader_unpack raw = Ok (h, off)"
    and r: "rewrite_forwarded_transport_packet a raw (h\<lparr>ph_hops := n\<rparr>) path t = Some fwd"
    and nh: "\<And>x. pe_next_hop path = Some x \<Longrightarrow> length x = 16"
  shows "\<exists>h'. carried env raw h off h' fwd \<and> ph_hops h' = n \<and> (1 < pe_hops path \<longrightarrow> ph_transport_id h' = pe_next_hop path)"
proof -
  have wf: "PacketHeader_wf h" and size: "PacketHeader_size (h\<lparr>ph_hops := n\<rparr>) = off"
    using PacketHeader_unpack_Ok [OF u] by (simp_all add: PacketHeader_size_def)
  let ?via = "\<lambda>x. \<lparr>ph_flags = (ph_flags h)\<lparr>header_type := Header2, transport_type := Transport\<rparr>, ph_hops = n,
    ph_transport_id = Some x, ph_destination_hash = ph_destination_hash h, ph_context = ph_context h\<rparr>"
  let ?last = "\<lparr>ph_flags = (ph_flags h)\<lparr>header_type := Header1, transport_type := Broadcast\<rparr>, ph_hops = n,
    ph_transport_id = None, ph_destination_hash = ph_destination_hash h, ph_context = ph_context h\<rparr>"
  consider (via) y where "1 < pe_hops path" "pe_next_hop path = Some y" "fwd = PacketHeader_pack (?via y) @ drop off raw"
    | (final) "\<not> 1 < pe_hops path" "fwd = PacketHeader_pack ?last @ drop off raw"
    | (kept) "\<not> 1 < pe_hops path" "fwd = raw[1 := n]"
    using r size by (auto simp: rewrite_forwarded_transport_packet_def Let_def split: if_splits option.splits)
  then show ?thesis
  proof cases
    case via
    then have "PacketHeader_wf (?via y)"
      using wf nh by (simp add: PacketHeader_wf_def)
    then show ?thesis
      using carried_packed [OF u, of "?via y" env] via by (auto simp: same_end_to_end_def intro!: exI [of _ "?via y"])
  next
    case final
    have "PacketHeader_wf ?last"
      using wf by (simp add: PacketHeader_wf_def)
    then show ?thesis
      using carried_packed [OF u, of ?last env] final by (auto simp: same_end_to_end_def intro!: exI [of _ ?last])
  next
    case kept
    then show ?thesis
      using carried_hops [OF carried_self [OF u], of env n] by fastforce
  qed
qed



definition example_routed :: TransportActor where
  "example_routed = example_actor\<lparr>ta_path_table :=
     PathTable_insert example_dest (PathEntry_new 1000 (Some (replicate 16 6)) 3 8 IM_Full) PathTable_new\<rparr>"

definition example_transit_header :: PacketHeader where
  "example_transit_header = \<lparr>ph_flags = \<lparr>header_type = Header2, context_flag = False, transport_type = Transport,
      destination_type = DT_Single, packet_type = PT_Data\<rparr>, ph_hops = 1, ph_transport_id = Some (replicate 16 3),
      ph_destination_hash = example_dest, ph_context = Ctx_None\<rparr>"


subsection \<open>Routing is safe\<close>


text \<open>The example instance has empty tables, so every hypothesis on them holds.\<close>

lemma example_tables:
  "hm_wf (lt_entries (ta_link_table example_actor))" "links_wf (core example_actor)"
  "routes_authentic lib cl R (core example_actor)" "keys_bound lib cl (core example_actor)"
  by (simp_all add: example_actor_def TransportActor_new_with_capacity_def links_wf_def core_def LinkTable_new_def hm_wf_def
      hm_empty_def routes_authentic_def PathTable_new_def TunnelTable_new_def keys_bound_def)


text \<open>
  C4: routes stay authentic. After any sequence of packets and messages, every announce tag stored with a route or with the path
  of a tunnel comes from an announce that the instance was presented, for that destination, with a valid signature by a key
  that hashes to the destination; and no route is without such a tag.
\<close>

theorem routes_stay_authentic:
  assumes "uses_crypto lib cl evs" and "heard evs a \<le> R"
    and "routes_authentic lib cl R (core a)" and "hm_wf (lt_entries (ta_link_table a))"
  shows "routes_authentic lib cl R (core (actor_run evs a))"
  using authentic.run [OF assms(1-3)] assms(4) by (simp add: links_wf_def core_def)

definition example_events :: "(actor_env \<times> actor_event) list" where
  "example_events = [(example_env, AE_Inbound example_announce_packet), (example_env, AE_DeregisterInterface 7)]"

lemma example_events_crypto: "uses_crypto example_lib example_curve example_events"
  by (simp add: uses_crypto_def example_events_def example_env_def)

theorem routes_stay_authentic_witness:
  "routes_authentic example_lib example_curve (heard example_events example_actor) (core (actor_run example_events example_actor))"
  using routes_stay_authentic [OF example_events_crypto order_refl example_tables(3,1)] .

text \<open>
  C6: remembered keys are bound to their destination and never change. After any sequence of packets and messages, every
  remembered public key hashes, with some name, to its destination, and a key that was remembered before is still the one
  remembered: no later announce can replace it.
\<close>

theorem remembered_keys_safe:
  assumes "uses_crypto lib cl evs" and "keys_bound lib cl (core a)" and "hm_wf (lt_entries (ta_link_table a))"
    and "known_key (ta_recent_announces a) d = Some k"
  shows "keys_bound lib cl (core (actor_run evs a)) \<and> known_key (ta_recent_announces (actor_run evs a)) d = Some k"
proof -
  have "links_wf (core a)"
    using assms(3) by (simp add: links_wf_def core_def)
  then show ?thesis
    using bound.run [OF assms(1) order_refl assms(2)] pinned.run [OF assms(1) order_refl, of d k] assms(4)
    by (simp add: key_is_def core_fields)
qed

definition example_knowing :: TransportActor where
  "example_knowing = remember_announce example_env example_path_header example_announced example_announcer example_actor"

theorem remembered_keys_safe_witness:
  "known_key (ta_recent_announces (actor_run example_events example_knowing)) example_dest
     = Some (replicate 32 1 @ replicate 32 2)"
proof -
  have "bound_key example_lib example_curve example_dest (replicate 32 1 @ replicate 32 2)"
    unfolding bound_key_def
    by (rule exI [of _ "replicate 10 5"], rule exI [of _ example_announcer])
      (simp add: Identity_from_public_key_def and_then_def map_err_def Ed25519PublicKey_from_bytes_def example_curve_def
        Identity_compute_hash_def truncated_hash_def example_lib_def example_announcer_def example_dest_def take_append)
  then have b: "keys_bound example_lib example_curve (core example_knowing)"
    and k: "known_key (ta_recent_announces example_knowing) example_dest = Some (replicate 32 1 @ replicate 32 2)"
    and w: "hm_wf (lt_entries (ta_link_table example_knowing))"
    using example_tables(1)
    by (simp_all add: example_knowing_def remember_announce_def remembered_def Let_def keys_bound_def core_def example_actor_def
        TransportActor_new_with_capacity_def hm_contains_def hm_get_def hm_insert_def hm_empty_def hm_update_def known_key_def
        Identity_get_public_key_def example_announcer_def example_path_header_def)
  from remembered_keys_safe [OF example_events_crypto b w k] show ?thesis
    by simp
qed


definition example_transit_link :: LinkEntry where
  "example_transit_link = \<lparr>le_timestamp = Fin 1000, le_next_hop = None, le_interface_id = 7, le_remaining_hops = 1,
     le_destination_hash = example_dest, le_established = False, le_validated = True, le_proof_timeout = Fin 1010,
     le_receiving_interface = 8, le_taken_hops = 2, le_interface_owner = Some (1, 0), le_receiving_owner = Some (1, 0),
     le_requested_mode = 1, le_accepted_mtu_ceiling = 500\<rparr>"

definition example_linked :: TransportActor where
  "example_linked = example_knowing\<lparr>ta_link_table := LinkTable_insert (replicate 16 4) example_transit_link LinkTable_new\<rparr>"


end
