(* ===== verification/Spec2Isabelle.thy ===== *)
theory Spec2Isabelle
  imports Tables Link_Signalling Hdlc Kiss Token Hashlist Routing_Tables Rate_Limits Ownership Tunnel Message_Channel
    Link_Lifecycle Link_Requests Link_Channel Packet_Receipt Destinations Resource_Delivery Ingress
    Interface_Removal Routing_Service
begin

text \<open>
  Verification of the core of rsReticulum, the Rust implementation of the Reticulum network stack
  (\<open>src/crates\<close>). Nodes exchange packets of at most 500 bytes over unreliable interfaces. A destination announces
  itself with a signed announce, which transport nodes rebroadcast and from which they learn paths; packets are
  forwarded along paths by destination hash; two destinations establish an encrypted link; over a link run requests,
  a reliable message channel with byte streams on top, and resource transfers.

  \<^bold>\<open>Correspondence.\<close> One theory per component; definitions keep the names of the source, methods as \<open>Type_method\<close>,
  fields with a short prefix.

  \<^item> \<open>Prelude\<close>, \<open>Tables\<close>, \<open>Codec\<close>, \<open>Framing\<close>: results, slices, clocks and doubles; hash maps with the contracts of a map
    and of full and batched culls as locales; byte codecs; stuffed framing machines.
  \<^item> \<open>Wire_Flags\<close>, \<open>Wire_Header\<close>, \<open>Link_Signalling\<close>, \<open>Packet_Receipt\<close>: \<open>rns-wire\<close>, from flag bytes to packets, packet hashes,
    link ids, the signalled MTU and delivery receipts.
  \<^item> \<open>Hdlc\<close>, \<open>Kiss\<close>: the framing of \<open>rns-interface\<close>. \<open>Token\<close>: \<open>rns-crypto\<close>, the code around the cipher crates.
  \<^item> \<open>Identity_Keys\<close>, \<open>Announces\<close>, \<open>Ratchets\<close>, \<open>Destinations\<close>: \<open>rns-identity\<close>.
  \<^item> \<open>Hashlist\<close>, \<open>Routing_Tables\<close>, \<open>Rate_Limits\<close>, \<open>Ifac\<close>, \<open>Ownership\<close>, \<open>Tunnel\<close>, \<open>Ingress\<close>: the tables and policies
    of \<open>rns-transport\<close>.
  \<^item> \<open>Actor_State\<close>, \<open>Actor_Egress\<close>, \<open>Actor_Discovery\<close>, \<open>Actor_Inbound\<close>, \<open>Actor_Messages\<close>: the transport actor
    (\<open>rns-transport/src/actor\<close>), which owns the tables and serves all interfaces and destinations: its state, what it sends,
    path requests and recursive discovery, the inbound pipeline, and the messages it handles one at a time.
  \<^item> \<open>Actor_Routing\<close>, \<open>Actor_Refinement\<close>, \<open>Routing_Safety\<close>, \<open>Routing_Service\<close>, \<open>Interface_Removal\<close>: an abstract specification of
    routing, the proof that every packet and message the actor handles refines it, the invariants that follow for every
    sequence of events, and what the actor does for its network.
  \<^item> \<open>Link_Handshake\<close>, \<open>Link_Timers\<close>, \<open>Link_Machine\<close>, \<open>Link_Lifecycle\<close>, \<open>Link_Requests\<close>: \<open>rns-link\<close>.
  \<^item> \<open>Message_Channel\<close>, \<open>Stream_Buffer\<close>, \<open>Link_Channel\<close>, \<open>Resource_Control\<close>, \<open>Resource_Data\<close>, \<open>Resource_Transfer\<close>,
    \<open>Resource_Delivery\<close>: \<open>rns-protocol\<close>, with the admission of resources from \<open>rns-runtime/src/link_session.rs\<close>.

  \<^bold>\<open>What the theorems show.\<close> Round trips of every wire format and of encryption; deframing does not depend on how a
  stream is cut into reads; duplicates are filtered within a stated window; announces, link proofs, receipts and access
  codes are accepted only when authentic; the transport actor refines a specification of routing, so that routes come only
  from signed announces it was presented, remembered keys never change, and transit links are confirmed only by signed
  proofs; good announces are learned, forwarding keeps packets intact, a removed interface leaves nothing behind; a channel delivers in order whatever is lost, duplicated or reordered, and
  refines to a prefix of the sent sequence; links go through their states in order and close when the peer is silent;
  a resource transfer over a loss-free link completes, its receiver never panics and its sender reports delivery only on
  the proof. This theory composes streams, channel and link encryption. Each theory states the contracts it provides
  or relies on as locales where several operations share one.

  \<^bold>\<open>Modelling conventions.\<close> State is passed explicitly in records; errors are values of sum or option types; a panic
  (index out of range, \<open>expect\<close>, underflow) is \<open>None\<close>. Words keep their width. Clocks, random bytes and the results of
  operating-system calls are arguments. Code outside the repository is an argument with its documented behaviour as
  named hypotheses: SHA-256, HMAC, HKDF and AES-CBC (\<open>crypto_lib\<close>), X25519 and Ed25519 (\<open>curve_lib\<close>), bzip2
  (\<open>bz_lib\<close>), MessagePack (\<open>resource_msgpack\<close> and the record of \<open>Link_Machine\<close>); each property with such a hypothesis has
  a witness on a concrete instance. A hash map is an association list, so its iteration order is the order of the list and
  otherwise arbitrary. Finite \<open>f64\<close> arithmetic is real arithmetic. Application callbacks are their registration, and their
  invocations are returned. Tokio channels are bounded queues with handles; log output is omitted.

  \<^bold>\<open>Termination and bounds.\<close> All definitions are total. Removing a destination and terminating link endpoints call each
  other; the nesting is bounded by the number of local link routes, and the bounded definition is proved to satisfy the
  unbounded equation. The write loop of a stream is a partial function, proved to return
  for a positive budget; an exchange of a resource transfer has the fuel \<open>2 * parts + 1\<close>, proved enough because every
  round delivers a part or a hashmap segment.

  \<^bold>\<open>Not modelled.\<close> Device drivers and sockets of \<open>rns-interface\<close> (serial, RNode, BLE, Android, TCP, UDP, I2P), which are
  input and output around the framing; \<open>rns-runtime\<close>, the configuration, task and RPC layer that owns the modelled machines;
  \<open>rns-tools\<close>, command-line programs; \<open>rns-ratkey\<close>, the hardware token protocol; file formats and disk caches. Of the
  transport actor: sending a client's own packets (\<open>outbound.rs\<close> before line 475), the queues of link endpoints, registration of
  interfaces and links, the periodic sweeps of \<open>maintenance.rs\<close>, path recovery, RPC queries, persistence and the
  background announce lane. The invariants above therefore speak about the packets and messages that \<open>actor_event\<close> lists.
\<close>

section \<open>Byte streams over encrypted links\<close>

text \<open>A stream frame as the message that \<open>MessageBase\<close> makes of it.\<close>

definition stream_message :: "StreamDataMessage \<Rightarrow> message" where
  "stream_message m = \<lparr>msg_type = SMT_STREAM_DATA, msg_pack = StreamDataMessage_pack m\<rparr>"

lemma stream_frames_take:
  assumes "stream_frames bz sid n data msgs"
  shows "\<exists>d rest. stream_frames bz sid n d (take k msgs) \<and> d @ rest = data"
proof -
  from assms obtain ds where ds: "list_all2 (frame_data bz) msgs ds" "concat ds = data"
    by (auto simp: stream_frames_def)
  have "list_all2 (frame_data bz) (take k msgs) (take k ds)" using ds(1) by (rule list_all2_takeI)
  moreover have "concat (take k ds) @ concat (drop k ds) = data"
    using ds(2) by (metis append_take_drop_id concat_append)
  moreover have "\<forall>m\<in>set (take k msgs). sdm_stream_id m = sid \<and> \<not> sdm_eof m \<and> length (sdm_data m) \<le> n"
    using assms unfolding stream_frames_def by (meson in_set_takeD)
  ultimately show ?thesis unfolding stream_frames_def by blast
qed

lemma feed_prefix:
  assumes "stream_frames bz (sid AND STREAM_ID_MAX) n data msgs"
    and "k \<le> Suc (length msgs)"
  shows "\<exists>r rest. feed_all bz (map StreamDataMessage_pack (take k (msgs @ [StreamDataMessage_new sid [] True])))
      (StreamReader_new sid) = Ok r
    \<and> sr_buffer r @ rest = data \<and> (k = Suc (length msgs) \<longrightarrow> sr_buffer r = data \<and> sr_eof r)"
proof (cases "k \<le> length msgs")
  case True
  obtain d rest where d: "stream_frames bz (sid AND STREAM_ID_MAX) n d (take k msgs)" "d @ rest = data"
    using stream_frames_take [OF assms(1)] by blast
  with True feed_stream_frames [of bz "StreamReader_new sid" n d "take k msgs"] show ?thesis
    by (auto simp: StreamReader_new_def)
next
  case False
  then have "k = Suc (length msgs)" using assms(2) by simp
  with feed_stream_frames [of bz "StreamReader_new sid" n data msgs] assms(1)
    feed_eof [of "(StreamReader_new sid)\<lparr>sr_buffer := data\<rparr>" sid bz] show ?thesis
    by (simp add: feed_all_append StreamReader_new_def)
qed

lemma length_frame_of [simp]: "length (frame_of M k) = ENVELOPE_HEADER_SIZE + length (msg_pack (M k))"
  by (simp add: frame_of_def Envelope_pack_def ENVELOPE_HEADER_SIZE_def Let_def)

text \<open>
  C9: a byte stream over a link. Whatever buffers a client writes to a stream whose payload budget is the
  channel's payload minus the two stream header bytes, all the resulting channel envelopes are within the link
  payload. If a peer with the same keys receives encryptions of these envelopes - reordered within the receive
  window, with losses and duplicates - and feeds the delivered messages to its stream reader, no step fails and the
  reader holds a prefix of the bytes written; once every envelope has arrived it holds all of them and has seen the
  end of the stream.
\<close>

theorem stream_over_link:
  assumes "bz_ok bz" and "cipher_lib_ok lib" and "keys_ok keys"
    and "2 < Channel_channel_mdu mdu" and "write_all bz datas (StreamWriter_new sid (Channel_channel_mdu mdu - 2)) = Some frames"
    and "lc_session_keys lc = Some keys" and "ch_active (lc_channel lc)" and "ch_next_rx_sequence (lc_channel lc) = 0"
    and "ch_rx_ring (lc_channel lc) = []" and "SMT_STREAM_DATA \<in> set (ch_registered_types (lc_channel lc))"
    and "list_all2 (carries lib keys (map stream_message frames)) es ks" and "arrivals_in_window ks"
  shows "(\<forall>k<length frames. length (frame_of ((!) (map stream_message frames)) k) \<le> mdu)
    \<and> (\<exists>lc' ds r rest. link_receive_all lib es lc = (lc', map Ok ds)
         \<and> feed_all bz (map snd (concat ds)) (StreamReader_new sid) = Ok r
         \<and> sr_buffer r @ rest = concat datas
         \<and> (set ks = {..<length frames} \<longrightarrow> sr_buffer r = concat datas \<and> sr_eof r))"
proof
  let ?ms = "map stream_message frames" and ?n = "Channel_channel_mdu mdu - 2" and ?eof = "StreamDataMessage_new sid [] True"
  obtain msgs where msgs: "frames = msgs @ [?eof]" "stream_frames bz (sid AND STREAM_ID_MAX) ?n (concat datas) msgs"
    using write_all_frames [OF assms(1), of ?n datas sid] assms(4,5) by auto
  have "length (StreamDataMessage_pack m) \<le> Channel_channel_mdu mdu" if "m \<in> set frames" for m
    using msgs assms(4) that by (auto simp: stream_frames_def StreamDataMessage_pack_def StreamDataMessage_new_def)
  from this [OF nth_mem] have len: "k < length frames \<Longrightarrow> length (StreamDataMessage_pack (frames ! k)) \<le> Channel_channel_mdu mdu" for k .
  have "ENVELOPE_HEADER_SIZE + Channel_channel_mdu mdu \<le> mdu"
    using assms(4) by (auto simp: Channel_channel_mdu_def ENVELOPE_HEADER_SIZE_def)
  with len show "\<forall>k<length frames. length (frame_of ((!) ?ms) k) \<le> mdu"
    by (simp add: stream_message_def) (meson add_le_mono1 le_trans nat_add_left_cancel_le)
  have types: "msg_type ` set ?ms \<subseteq> set (ch_registered_types (lc_channel lc))"
    using assms(10) by (auto simp: stream_message_def)
  have lt: "\<forall>k\<in>set ks. k < length ?ms"
    using assms(11) by (auto simp: list_all2_conv_all_nth carries_def in_set_conv_nth)
  obtain c' ds where rx: "receive_all (map (frame_of ((!) ?ms)) ks) (lc_channel lc) = (c', map Ok ds)"
    and ds: "concat ds = map (\<lambda>m. (msg_type m, msg_pack m)) (take (first_missing ks) ?ms)"
    and fm: "first_missing ks \<le> length ?ms"
    using channel_delivers [OF assms(7-9) types lt assms(12)] by blast
  have raws: "map snd (concat ds) = map StreamDataMessage_pack (take (first_missing ks) frames)"
    unfolding ds by (simp add: take_map stream_message_def)
  obtain r rest where r:
    "feed_all bz (map StreamDataMessage_pack (take (first_missing ks) frames)) (StreamReader_new sid) = Ok r"
    "sr_buffer r @ rest = concat datas"
    "first_missing ks = Suc (length msgs) \<longrightarrow> sr_buffer r = concat datas \<and> sr_eof r"
  proof -
    have "first_missing ks \<le> Suc (length msgs)" using fm unfolding msgs(1) by simp
    from feed_prefix [OF msgs(2) this] show thesis using that unfolding msgs(1) by blast
  qed
  have full: "set ks = {..<length frames} \<longrightarrow> sr_buffer r = concat datas \<and> sr_eof r"
  proof
    assume ks: "set ks = {..<length frames}"
    have "first_missing ks = length frames"
      by (rule first_missing_eqI; unfold ks) (simp_all only: atLeastLessThan_iff less_irrefl simp_thms lessThan_atLeast0 subset_refl)
    then show "sr_buffer r = concat datas \<and> sr_eof r" using r(3) unfolding msgs(1) by simp
  qed
  show "\<exists>lc' ds r rest. link_receive_all lib es lc = (lc', map Ok ds)
      \<and> feed_all bz (map snd (concat ds)) (StreamReader_new sid) = Ok r \<and> sr_buffer r @ rest = concat datas
      \<and> (set ks = {..<length frames} \<longrightarrow> sr_buffer r = concat datas \<and> sr_eof r)"
    by (intro exI conjI, rule link_receive_all_refines [OF assms(2,3,6,11) rx], unfold raws, rule r(1), rule r(2), rule full)
qed

theorem stream_over_link_witness:
  "\<exists>frames es lc' ds r. write_all example_bz [[1, 2, 3]] (StreamWriter_new 1 423) = Some frames
     \<and> list_all2 (carries example_lib example_keys (map stream_message frames)) es [1, 0]
     \<and> link_receive_all example_lib es example_link_receiver = (lc', map Ok ds)
     \<and> feed_all example_bz (map snd (concat ds)) (StreamReader_new 1) = Ok r
     \<and> sr_buffer r = [1, 2, 3] \<and> sr_eof r"
proof -
  let ?f0 = "StreamDataMessage_new 1 [1, 2, 3] False" and ?f1 = "StreamDataMessage_new 1 [] True"
  let ?lc = example_link_receiver
  have w: "write_all example_bz [[1, 2, 3]] (StreamWriter_new 1 423) = Some [?f0, ?f1]"
  proof -
    let ?w = "StreamWriter_new 1 423"
    have "write_loop example_bz ?w [1, 2, 3] 3 = Some []" by (subst write_loop.simps) simp
    moreover have "StreamWriter_try_compress_chunk example_bz [1, 2, 3] ?w = ([1, 2, 3], 3, False)"
      by (simp add: StreamWriter_try_compress_chunk_def StreamWriter_new_def)
    moreover have "sw_stream_id ?w = 1" by (simp add: StreamWriter_new_def STREAM_ID_MAX_def)
    ultimately have "write_loop example_bz ?w [1, 2, 3] 0 = Some [?f0]"
      by (subst write_loop.simps) (simp add: MAX_CHUNK_LEN_def StreamDataMessage_new_def)
    then show ?thesis
      by (simp add: StreamWriter_write_def StreamWriter_new_def StreamWriter_close_simple_def StreamDataMessage_new_def
          STREAM_ID_MAX_def)
  qed
  have enc: "\<exists>f. carries example_lib example_keys ms f k" if "k < length ms" for ms k
    using link_encrypt_decrypt [OF example_lib_ok _ example_keys_ok, of "replicate 16 5" "frame_of ((!) ms) k"] that
    by (metis carries_def length_replicate)
  let ?ms = "map stream_message [?f0, ?f1]"
  obtain e0 e1 where e: "carries example_lib example_keys ?ms e0 0" "carries example_lib example_keys ?ms e1 1"
    using enc [of 0 ?ms] enc [of 1 ?ms] by auto
  have car: "list_all2 (carries example_lib example_keys ?ms) [e1, e0] [1, 0]" using e by simp
  have rx: "lc_session_keys ?lc = Some example_keys" "ch_active (lc_channel ?lc)" "ch_next_rx_sequence (lc_channel ?lc) = 0"
    "ch_rx_ring (lc_channel ?lc) = []" "SMT_STREAM_DATA \<in> set (ch_registered_types (lc_channel ?lc))"
    by (simp_all add: example_link_receiver_def LinkChannel_register_system_type_def LinkChannel_new_encrypted_def
        LinkChannel_new_encrypted_with_mdu_def Channel_register_system_type_def Channel_new_def Let_def)
  have fm: "first_missing [] = 0" "first_missing [1] = 0" by (rule first_missing_eqI; auto)+
  have win: "arrivals_in_window [1, 0]"
    using fm arrivals_snoc [of "[]" 1] arrivals_snoc [of "[1]" 0] by (simp add: arrivals_in_window_def [of "[]"])
  have mdu: "Channel_channel_mdu 431 - 2 = 423" "2 < Channel_channel_mdu 431"
    by (simp_all add: Channel_channel_mdu_def ENVELOPE_HEADER_SIZE_def)
  from stream_over_link [OF example_bz_ok example_lib_ok example_keys_ok mdu(2) w [folded mdu(1)] rx car win]
  obtain lc' ds r where "link_receive_all example_lib [e1, e0] ?lc = (lc', map Ok ds)"
    "feed_all example_bz (map snd (concat ds)) (StreamReader_new 1) = Ok r" "sr_buffer r = [1, 2, 3]" "sr_eof r"
    by (auto simp: lessThan_Suc numeral_2_eq_2)
  with w car show ?thesis by blast
qed

end
